(* ===== verification/Omiiba_Prelude.thy ===== *)
theory Omiiba_Prelude
  imports Main "HOL-Library.Word" "HOL-Library.Monad_Syntax" "HOL-Library.Multiset"
begin

text \<open>
  Shared vocabulary of the development: the C integer types as words, the numeric
  reading of the bytes of a word, the fact collections the component theories fill, and
  generic lemmas about lists that several components need.
\<close>

unbundle bit_operations_syntax

section \<open>C integer types\<close>

type_synonym u8 = "8 word"
type_synonym u16 = "16 word"
type_synonym u32 = "32 word"
type_synonym u64 = "64 word"

text \<open>\<open>Handle\<close> and \<open>Result\<close> are 32-bit values in the source; results are compared as
  signed numbers only through \<open>R_FAILED\<close>, so their unsigned bit pattern is kept.\<close>

type_synonym Handle = u32
type_synonym Result = u32

named_theorems list_simps \<open>abstract effect of the intrusive-list operations\<close>
named_theorems sm_defs \<open>definitions of the service-manager operations\<close>
named_theorems sm_frame \<open>state components an operation leaves alone\<close>
named_theorems cheat_defs \<open>definitions of the cheat virtual machine\<close>

section \<open>Lists updated by index\<close>

lemma take_list_update: "take k (xs[i := x]) = (take k xs)[i := x]"
  by (induction xs arbitrary: k i) (auto split: nat.splits simp: take_Cons)

lemma take_update_swap_last:
  assumes "i < n" and "n \<le> length xs"
  shows "mset (take (n - 1) (xs[i := xs ! (n - 1)])) = mset (take n xs) - {#xs ! i#}"
proof -
  let ?ys = "take n xs"
  have len: "length ?ys = n" and n0: "n \<noteq> 0" using assms by auto
  have split: "?ys = take (n - 1) xs @ [xs ! (n - 1)]"
    using assms n0 by (metis Suc_diff_1 Suc_le_lessD neq0_conv take_Suc_conv_app_nth)
  show ?thesis
  proof (cases "i = n - 1")
    case True
    then have "take (n - 1) (xs[i := xs ! (n - 1)]) = take (n - 1) xs" by simp
    with True split show ?thesis by simp
  next
    case False
    with assms have i: "i < n - 1" by simp
    have "take (n - 1) (xs[i := xs ! (n - 1)]) = (take (n - 1) xs)[i := xs ! (n - 1)]"
      by (simp add: take_list_update)
    moreover have "mset \<dots> = add_mset (xs ! (n - 1)) (mset (take (n - 1) xs) - {#take (n - 1) xs ! i#})"
      using i assms by (intro mset_update) simp
    moreover have "take (n - 1) xs ! i = xs ! i" using i by simp
    moreover have "xs ! i \<in> set (take (n - 1) xs)"
      using i assms by (metis length_take min.absorb2 nth_mem nth_take less_imp_le_nat
          le_trans diff_le_self)
    ultimately show ?thesis
      using split by simp
  qed
qed

end
