(* ===== verification/Util_Strings.thy ===== *)
theory Util_Strings
  imports Omiiba_Prelude
begin

text \<open>
  Strings and numbers: character constants, the hexadecimal digits of a number, and the
  conversions of \<open>arm9\<close> (\<open>strings.c\<close>), \<open>loader\<close> (\<open>strings.c\<close>) and \<open>rosalina\<close> (\<open>memory.c\<close>).
\<close>

section \<open>Constants and digits\<close>

definition chars :: "string \<Rightarrow> u8 list" where
  "chars = map (\<lambda>c. of_nat (of_char c))"

lemma length_chars [simp]: "length (chars s) = length s"
  by (simp add: chars_def)

definition hex_char :: "u64 \<Rightarrow> u8" where
  "hex_char d = (if d < 10 then 0x30 + ucast d else 0x41 + ucast d - 10)"

text \<open>\<open>%016llX\<close>.\<close>

definition hex16 :: "u64 \<Rightarrow> u8 list" where
  "hex16 v = map (\<lambda>i. hex_char (drop_bit (4 * (15 - i)) v AND 0xF)) [0..<16]"

abbreviation nibble :: "nat \<Rightarrow> u64 \<Rightarrow> u64" where
  "nibble i v \<equiv> drop_bit (4 * i) v AND 0xF"

lemma nibble_values:
  fixes d :: u64
  assumes "d < 16"
  shows "d \<in> {0, 1, 2, 3, 4, 5, 6, 7, 8, 9, 10, 11, 12, 13, 14, 15}"
proof -
  have "unat d < 16" using assms by (simp add: word_less_nat_alt)
  then have "unat d \<in> {0, 1, 2, 3, 4, 5, 6, 7, 8, 9, 10, 11, 12, 13, 14, 15}"
    by (simp only: insert_iff empty_iff) arith
  then show ?thesis by (elim insertE emptyE) (simp_all add: word_unat_eq_iff)
qed

lemma nibble_less: "nibble i v < 16"
proof -
  have "nibble i v \<le> 0xF" by (rule word_and_le1)
  then show ?thesis by (simp add: word_le_nat_alt word_less_nat_alt)
qed

lemma length_hex16 [simp]: "length (hex16 v) = 16" by (simp add: hex16_def)

lemma nth_hex16: "i < 16 \<Longrightarrow> hex16 v ! i = hex_char (nibble (15 - i) v)" by (simp add: hex16_def)

text \<open>The bytes of a word in memory.\<close>

definition le_bytes :: "u32 \<Rightarrow> u8 list" where
  "le_bytes w = map (\<lambda>i. ucast (drop_bit (8 * i) w)) [0, 1, 2, 3]"

section \<open>The path of a title\<close>

text \<open>\<open>progIdToStr\<close> writes the digits of the title id backwards from a position of the path.\<close>

function progIdToStr :: "u8 list \<Rightarrow> nat \<Rightarrow> u64 \<Rightarrow> u8 list" where
  "progIdToStr path strEnd progId =
     (if progId > 0 then progIdToStr (path[strEnd := hex_char (progId AND 0xF)]) (strEnd - 1) (drop_bit 4 progId)
      else path)"
  by pat_completeness auto
termination by (relation "measure (\<lambda>(_, _, p). unat p)") (auto simp: drop_bit_eq_div word_less_nat_alt unat_div)

declare progIdToStr.simps [simp del]

lemma progIdToStr_0: "progIdToStr path strEnd 0 = path"
  by (simp add: progIdToStr.simps)

lemma progIdToStr_step:
  "progId \<noteq> 0 \<Longrightarrow> progIdToStr path strEnd progId =
     progIdToStr (path[strEnd := hex_char (progId AND 0xF)]) (strEnd - 1) (drop_bit 4 progId)"
  by (subst progIdToStr.simps) (simp add: word_neq_0_conv)

lemma progIdToStr_digits:
  assumes "length ds = 16" and "k < 16" and "\<forall>j \<le> k. ds ! j = 0x30" and "drop_bit (4 * (k + 1)) progId = 0"
  shows "progIdToStr (pre @ ds @ post) (length pre + k) progId =
     pre @ map (\<lambda>i. hex_char (nibble (k - i) progId)) [0..<k + 1] @ drop (k + 1) ds @ post"
  using assms
proof (induction k arbitrary: ds progId)
  case 0
  have "progIdToStr (pre @ ds @ post) (length pre) progId = pre @ ds[0 := hex_char (progId AND 0xF)] @ post"
  proof (cases "progId = 0")
    case True
    then have "ds[0 := hex_char (progId AND 0xF)] = ds" using 0 by (simp add: hex_char_def list_update_same_conv)
    then show ?thesis using True by (simp add: progIdToStr.simps)
  next
    case False
    moreover have "drop_bit 4 progId = 0" using 0(4) by simp
    ultimately show ?thesis using 0(1) by (simp add: progIdToStr_step [OF False] progIdToStr_0 list_update_append)
  qed
  then show ?case using 0 by (cases ds) auto
next
  case (Suc k)
  show ?case
  proof (cases "progId = 0")
    case True
    have "map (\<lambda>i. hex_char (nibble (Suc k - i) progId)) [0..<Suc k + 1] @ drop (Suc k + 1) ds = ds"
      using Suc.prems True
    proof (intro nth_equalityI)
      fix i assume "i < length (map (\<lambda>i. hex_char (nibble (Suc k - i) progId)) [0..<Suc k + 1] @ drop (Suc k + 1) ds)"
      moreover have "\<not> i \<le> Suc k \<Longrightarrow> Suc k + 1 + (i - (Suc k + 1)) = i" by simp
      ultimately show "(map (\<lambda>i. hex_char (nibble (Suc k - i) progId)) [0..<Suc k + 1] @ drop (Suc k + 1) ds) ! i = ds ! i"
        using Suc.prems True by (cases "i \<le> Suc k") (simp_all add: nth_append hex_char_def del: upt_Suc)
    qed (simp del: upt_Suc)
    then show ?thesis using True by (simp add: progIdToStr.simps del: upt_Suc)
  next
    case False
    let ?c = "hex_char (progId AND 0xF)"
    have "progIdToStr (pre @ ds @ post) (length pre + Suc k) progId =
        progIdToStr (pre @ ds[Suc k := ?c] @ post) (length pre + k) (drop_bit 4 progId)"
      using False Suc.prems by (simp add: progIdToStr_step list_update_append)
    also have "\<dots> = pre @ map (\<lambda>i. hex_char (nibble (k - i) (drop_bit 4 progId))) [0..<k + 1] @
        drop (k + 1) (ds[Suc k := ?c]) @ post"
      using Suc.prems by (intro Suc.IH) (auto simp: drop_bit_drop_bit algebra_simps)
    also have "map (\<lambda>i. hex_char (nibble (k - i) (drop_bit 4 progId))) [0..<k + 1] =
        map (\<lambda>i. hex_char (nibble (Suc k - i) progId)) [0..<k + 1]"
      by (intro map_cong refl) (auto simp: drop_bit_drop_bit Suc_diff_le algebra_simps simp del: upt_Suc)
    also have "drop (k + 1) (ds[Suc k := ?c]) = ?c # drop (Suc k + 1) ds"
      using Suc.prems by (simp add: Cons_nth_drop_Suc [symmetric])
    finally show ?thesis by simp
  qed
qed

end
