(* ===== verification/Gdb_Text.thy ===== *)
theory Gdb_Text
  imports Util_Strings
begin

text \<open>
  The text of the packets of the debugger (first half of \<open>rosalina/source/gdb/net.c\<close>) and the numbers
  in it (\<open>xstrtoul\<close>, \<open>xstrtoull\<close> and \<open>hexItoa\<close> of \<open>rosalina/source/memory.c\<close>). A pointer into a text is
  the list of the bytes from there to the end of its array; what lies behind the array reads as NUL,
  which no caller comes to, because every text ends with a NUL before.
\<close>

section \<open>Bytes of a text\<close>

definition byte_at :: "u8 list \<Rightarrow> nat \<Rightarrow> u8" where
  "byte_at s i = (if i < length s then s ! i else 0)"

text \<open>\<open>memcpy\<close> into an array.\<close>

definition overwrite :: "u8 list \<Rightarrow> nat \<Rightarrow> u8 list \<Rightarrow> u8 list" where
  "overwrite b i d = take i b @ d @ drop (i + length d) b"

text \<open>The text up to its NUL (\<open>strlen\<close>, \<open>strcmp\<close>, and \<open>%s\<close> see no more).\<close>

definition upto_nul :: "u8 list \<Rightarrow> u8 list" where
  "upto_nul = takeWhile (\<lambda>c. c \<noteq> 0)"

definition str_equal :: "u8 list \<Rightarrow> string \<Rightarrow> bool" where
  "str_equal s lit \<longleftrightarrow> upto_nul s = chars lit"

text \<open>\<open>strncmp(s, lit, n) = 0\<close>.\<close>

definition strn_equal :: "u8 list \<Rightarrow> string \<Rightarrow> nat \<Rightarrow> bool" where
  "strn_equal s lit n \<longleftrightarrow> take n (upto_nul s) = take n (chars lit)"

text \<open>The place of a character, or of the NUL before it.\<close>

definition find_char :: "u8 list \<Rightarrow> u8 list \<Rightarrow> nat" where
  "find_char s cs = length (takeWhile (\<lambda>c. c \<noteq> 0 \<and> c \<notin> set cs) s)"

lemma length_overwrite [simp]:
  "i + length d \<le> length b \<Longrightarrow> length (overwrite b i d) = length b"
  by (simp add: overwrite_def)

section \<open>Checksums and digits\<close>

definition GDB_ComputeChecksum :: "u8 list \<Rightarrow> u8" where
  "GDB_ComputeChecksum packetData = foldl (+) 0 packetData"

definition hex_digit_lower :: "u8 \<Rightarrow> u8" where
  "hex_digit_lower d = chars ''0123456789abcdef'' ! unat d"

definition GDB_EncodeHex :: "u8 list \<Rightarrow> u8 list" where
  "GDB_EncodeHex src =
     concat (map (\<lambda>b. [hex_digit_lower (drop_bit 4 (b AND 0xF0)), hex_digit_lower (b AND 0x0F)]) src)"

definition GDB_DecodeHexDigit :: "u8 \<Rightarrow> bool \<times> u32" where
  "GDB_DecodeHexDigit c =
     (if c \<ge> 0x30 \<and> c \<le> 0x39 then (True, ucast c - 0x30)
      else if c \<ge> 0x61 \<and> c \<le> 0x66 then (True, 0xA + (ucast c - 0x61))
      else if c \<ge> 0x41 \<and> c \<le> 0x46 then (True, 0xA + (ucast c - 0x41))
      else (False, 0))"

text \<open>The bytes that are written and the number that is returned. Both digits store into \<open>ok\<close>, the
  second after the first (the order the compiler takes), so that only a wrong second digit ends the
  loop.\<close>

fun GDB_DecodeHex :: "u8 list \<Rightarrow> nat \<Rightarrow> u8 list \<times> nat" where
  "GDB_DecodeHex src 0 = ([], 0)"
| "GDB_DecodeHex src (Suc len) =
     (if byte_at src 0 \<noteq> 0 \<and> byte_at src 1 \<noteq> 0 then
        let (ok1, hi) = GDB_DecodeHexDigit (byte_at src 0);
            (ok, lo) = GDB_DecodeHexDigit (byte_at src 1);
            b = ucast (push_bit 4 hi OR lo)
        in if \<not> ok then ([b], 0)
           else let (bs, n) = GDB_DecodeHex (drop 2 src) len in (b # bs, Suc n)
      else ([], 0))"

text \<open>\<open>hexItoa\<close> with the digits a value of that many digits has.\<close>

definition hexItoa :: "u64 \<Rightarrow> nat \<Rightarrow> bool \<Rightarrow> u8 list" where
  "hexItoa number digits uppercase =
     map (\<lambda>i. (if uppercase then chars ''0123456789ABCDEF'' else chars ''0123456789abcdef'')
                ! unat (drop_bit (4 * (digits - 1 - i)) number AND 0xF)) [0..<digits]"

section \<open>Binary data\<close>

text \<open>The characters that are escaped.\<close>

definition needs_escape :: "u8 \<Rightarrow> bool" where
  "needs_escape b \<longleftrightarrow> b = 0x24 \<or> b = 0x23 \<or> b = 0x7D \<or> b = 0x2A"

fun escape_loop :: "u8 list \<Rightarrow> nat \<Rightarrow> u8 list \<times> nat" where
  "escape_loop src 0 = ([], 0)"
| "escape_loop [] (Suc room) = ([], 0)"
| "escape_loop (b # src) (Suc room) =
     (if needs_escape b then
        (if room = 0 then ([], 0)
         else let (enc, n) = escape_loop src (room - 1) in (0x7D # (b XOR 0x20) # enc, Suc n))
      else let (enc, n) = escape_loop src room in (b # enc, Suc n))"

text \<open>What is written, and how many bytes of the source it stands for.\<close>

definition GDB_EscapeBinaryData :: "u8 list \<Rightarrow> nat \<Rightarrow> u8 list \<times> nat" where
  "GDB_EscapeBinaryData src maxLen = escape_loop src (min (length src) maxLen)"

text \<open>The loop compares the position with the end, so that an escape character in the last place takes
  the byte behind it.\<close>

fun GDB_UnescapeBinaryData :: "u8 list \<Rightarrow> nat \<Rightarrow> u8 list" where
  "GDB_UnescapeBinaryData src 0 = []"
| "GDB_UnescapeBinaryData src (Suc len) =
     (if byte_at src 0 = 0x7D then (byte_at src 1 XOR 0x20) # GDB_UnescapeBinaryData (drop 2 src) (len - 1)
      else byte_at src 0 # GDB_UnescapeBinaryData (drop 1 src) len)"

section \<open>Numbers\<close>

definition is_space :: "u8 \<Rightarrow> bool" where
  "is_space c \<longleftrightarrow> (c \<ge> 9 \<and> c \<le> 13) \<or> c = 0x20"

definition digit_value :: "u8 \<Rightarrow> nat option" where
  "digit_value c =
     (if c \<ge> 0x30 \<and> c \<le> 0x39 then Some (unat c - 0x30)
      else if c \<ge> 0x41 \<and> c \<le> 0x5A then Some (unat c - (0x41 - 10))
      else if c \<ge> 0x61 \<and> c \<le> 0x7A then Some (unat c - (0x61 - 10))
      else None)"

text \<open>The digits: \<open>any\<close> is 0 before the first, 1 after it and -1 after an overflow; the result is the
  value, \<open>any\<close> and the text from the first character that is no digit.\<close>

fun digits_loop :: "nat \<Rightarrow> u8 list \<Rightarrow> 'a::len word \<Rightarrow> int \<Rightarrow> 'a word \<times> int \<times> u8 list" where
  "digits_loop base [] acc any = (acc, any, [])"
| "digits_loop base (c # s) acc any =
     (case digit_value c of
        None \<Rightarrow> (acc, any, c # s)
      | Some d \<Rightarrow>
          if d \<ge> base then (acc, any, c # s)
          else
            let cutoff = (- 1) div of_nat base;
                cutlim = unat ((- 1 :: 'a word) mod of_nat base)
            in if any < 0 \<or> acc > cutoff \<or> (acc = cutoff \<and> d > cutlim) then digits_loop base s acc (- 1)
               else digits_loop base s (acc * of_nat base + of_nat d) 1)"

text \<open>A sign or a prefix; \<open>None\<close> is a number that is refused because of one. The base 0 stands for the
  base the prefix gives.\<close>

definition number_sign :: "bool \<Rightarrow> u8 list \<Rightarrow> (bool \<times> u8 list) option" where
  "number_sign allowPrefix s =
     (if byte_at s 0 = 0x2D then (if allowPrefix then Some (True, drop 1 s) else None)
      else if byte_at s 0 = 0x2B then (if allowPrefix then Some (False, drop 1 s) else None)
      else Some (False, s))"

definition number_base :: "bool \<Rightarrow> nat \<Rightarrow> u8 list \<Rightarrow> (nat \<times> u8 list) option" where
  "number_base allowPrefix base s =
     (if (base = 0 \<or> base = 16) \<and> byte_at s 0 = 0x30 \<and> (byte_at s 1 = 0x78 \<or> byte_at s 1 = 0x58) then
        (if allowPrefix then Some (16, drop 2 s) else None)
      else if base = 0 then
        (if allowPrefix then Some (if byte_at s 0 = 0x30 then 8 else 10, s) else None)
      else Some (base, s))"

text \<open>The value, \<open>ok\<close>, and the text \<open>endptr\<close> points to, which is the whole text when there is no digit.
  When a sign or a prefix is refused, \<open>endptr\<close> is not set; the callers look at \<open>ok\<close> first.\<close>

definition xstrto :: "u8 list \<Rightarrow> nat \<Rightarrow> bool \<Rightarrow> 'a::len word \<times> bool \<times> u8 list" where
  "xstrto nptr base allowPrefix =
     (case number_sign allowPrefix (dropWhile is_space nptr) of
        None \<Rightarrow> (0, False, nptr)
      | Some (neg, s) \<Rightarrow>
          (case number_base allowPrefix base s of
             None \<Rightarrow> (0, False, nptr)
           | Some (base, s) \<Rightarrow>
               (case digits_loop base s 0 0 of (acc, any, rest) \<Rightarrow>
                  if any < 0 then (- 1, False, rest)
                  else (if neg then - acc else acc, True, if any = 0 then nptr else rest))))"

definition xstrtoul :: "u8 list \<Rightarrow> nat \<Rightarrow> bool \<Rightarrow> u32 \<times> bool \<times> u8 list" where
  "xstrtoul = xstrto"

definition xstrtoull :: "u8 list \<Rightarrow> nat \<Rightarrow> bool \<Rightarrow> u64 \<times> bool \<times> u8 list" where
  "xstrtoull = xstrto"

text \<open>A list of numbers: the numbers and the text behind them. The separator before the last of
  \<open>Suc n\<close> is \<open>sep\<close>, the last is followed by \<open>lastSep\<close> or the end.\<close>

fun integer_list :: "(u8 list \<Rightarrow> 'a::len word \<times> bool \<times> u8 list) \<Rightarrow> nat \<Rightarrow> u8 \<Rightarrow> u8 \<Rightarrow> u8 list \<Rightarrow> ('a word list \<times> u8 list) option"
where
  "integer_list num 0 sep lastSep pos = Some ([], pos)"
| "integer_list num (Suc k) sep lastSep pos =
     (case num pos of (n, ok, endpos) \<Rightarrow>
        if \<not> ok \<or> length endpos = length pos then None
        else if k \<noteq> 0 then
          (if byte_at endpos 0 \<noteq> sep then None
           else map_option (\<lambda>(ns, p). (n # ns, p)) (integer_list num k sep lastSep (drop 1 endpos)))
        else if byte_at endpos 0 \<noteq> lastSep \<and> byte_at endpos 0 \<noteq> 0 then None
        else Some ([n], endpos))"

definition GDB_ParseIntegerList :: "u8 list \<Rightarrow> nat \<Rightarrow> u8 \<Rightarrow> u8 \<Rightarrow> nat \<Rightarrow> bool \<Rightarrow> (u32 list \<times> u8 list) option" where
  "GDB_ParseIntegerList src nb sep lastSep base allowPrefix =
     integer_list (\<lambda>pos. xstrtoul pos base allowPrefix) nb sep lastSep src"

definition GDB_ParseIntegerList64 :: "u8 list \<Rightarrow> nat \<Rightarrow> u8 \<Rightarrow> u8 \<Rightarrow> nat \<Rightarrow> bool \<Rightarrow> (u64 list \<times> u8 list) option" where
  "GDB_ParseIntegerList64 src nb sep lastSep base allowPrefix =
     integer_list (\<lambda>pos. xstrtoull pos base allowPrefix) nb sep lastSep src"

definition GDB_ParseHexIntegerList :: "u8 list \<Rightarrow> nat \<Rightarrow> u8 \<Rightarrow> (u32 list \<times> u8 list) option" where
  "GDB_ParseHexIntegerList src nb lastSep = GDB_ParseIntegerList src nb 0x2C lastSep 16 False"

definition GDB_ParseHexIntegerList64 :: "u8 list \<Rightarrow> nat \<Rightarrow> u8 \<Rightarrow> (u64 list \<times> u8 list) option" where
  "GDB_ParseHexIntegerList64 src nb lastSep = GDB_ParseIntegerList64 src nb 0x2C lastSep 16 False"

text \<open>Printed numbers: \<open>%lx\<close> with a minimal number of digits, and \<open>%lu\<close>.\<close>

fun nat_digits :: "nat \<Rightarrow> nat \<Rightarrow> nat list" where
  "nat_digits base n = (if n < base \<or> base < 2 then [n] else nat_digits base (n div base) @ [n mod base])"

declare nat_digits.simps [simp del]

definition pad_zero :: "nat \<Rightarrow> u8 list \<Rightarrow> u8 list" where
  "pad_zero k s = replicate (k - length s) 0x30 @ s"

definition fmt_hex :: "nat \<Rightarrow> nat \<Rightarrow> u8 list" where
  "fmt_hex k n = pad_zero k (map (\<lambda>d. chars ''0123456789abcdef'' ! d) (nat_digits 16 n))"

definition fmt_HEX :: "nat \<Rightarrow> nat \<Rightarrow> u8 list" where
  "fmt_HEX k n = pad_zero k (map (\<lambda>d. chars ''0123456789ABCDEF'' ! d) (nat_digits 16 n))"

definition fmt_dec :: "int \<Rightarrow> u8 list" where
  "fmt_dec i = (if i < 0 then [0x2D] else []) @ map (\<lambda>d. 0x30 + of_nat d) (nat_digits 10 (nat \<bar>i\<bar>))"

end
