(* ===== verification/Gdb_State.thy ===== *)
theory Gdb_State
  imports Gdb_Text
begin

text \<open>
  The state of a connection of the debugger of \<open>rosalina\<close> (\<open>include/gdb.h\<close>) and the packets (second half
  of \<open>source/gdb/net.c\<close>). The socket, the kernel, the file system and the process manager are parameters, whose state is
  \<open>world\<close>. A handler returns the number the code returns. The lock of the context is taken by the
  caller of every handler, so that a handler is one step.
\<close>

section \<open>Constants\<close>

abbreviation (input) MAX_DEBUG :: nat where "MAX_DEBUG \<equiv> 3"
abbreviation (input) MAX_DEBUG_THREAD :: nat where "MAX_DEBUG_THREAD \<equiv> 127"
abbreviation (input) MAX_BREAKPOINT :: nat where "MAX_BREAKPOINT \<equiv> 64"
abbreviation (input) MAX_TIO_OPEN_FILE :: nat where "MAX_TIO_OPEN_FILE \<equiv> 32"
abbreviation (input) GDB_BUF_LEN :: nat where "GDB_BUF_LEN \<equiv> 1024"

abbreviation (input) GDB_FLAG_SELECTED :: u32 where "GDB_FLAG_SELECTED \<equiv> 1"
abbreviation (input) GDB_FLAG_USED :: u32 where "GDB_FLAG_USED \<equiv> 2"
abbreviation (input) GDB_FLAG_ALLOCATED_MASK :: u32 where "GDB_FLAG_ALLOCATED_MASK \<equiv> 3"
abbreviation (input) GDB_FLAG_EXTENDED_REMOTE :: u32 where "GDB_FLAG_EXTENDED_REMOTE \<equiv> 4"
abbreviation (input) GDB_FLAG_NOACK :: u32 where "GDB_FLAG_NOACK \<equiv> 8"
abbreviation (input) GDB_FLAG_PROC_RESTART_MASK :: u32 where "GDB_FLAG_PROC_RESTART_MASK \<equiv> 14"
abbreviation (input) GDB_FLAG_PROCESS_CONTINUING :: u32 where "GDB_FLAG_PROCESS_CONTINUING \<equiv> 16"
abbreviation (input) GDB_FLAG_TERMINATE_PROCESS :: u32 where "GDB_FLAG_TERMINATE_PROCESS \<equiv> 32"
abbreviation (input) GDB_FLAG_ATTACHED_AT_START :: u32 where "GDB_FLAG_ATTACHED_AT_START \<equiv> 64"
abbreviation (input) GDB_FLAG_CREATED :: u32 where "GDB_FLAG_CREATED \<equiv> 128"

text \<open>Error numbers and signals of the C library.\<close>

abbreviation (input) EPERM :: int where "EPERM \<equiv> 1"
abbreviation (input) ENOMEM :: int where "ENOMEM \<equiv> 12"
abbreviation (input) EFAULT :: int where "EFAULT \<equiv> 14"
abbreviation (input) EBUSY :: int where "EBUSY \<equiv> 16"
abbreviation (input) EINVAL :: int where "EINVAL \<equiv> 22"
abbreviation (input) EILSEQ :: int where "EILSEQ \<equiv> 138"
abbreviation (input) SIGINT :: nat where "SIGINT \<equiv> 2"
abbreviation (input) SIGQUIT :: nat where "SIGQUIT \<equiv> 3"
abbreviation (input) SIGILL :: nat where "SIGILL \<equiv> 4"
abbreviation (input) SIGTRAP :: nat where "SIGTRAP \<equiv> 5"
abbreviation (input) SIGSEGV :: nat where "SIGSEGV \<equiv> 11"
abbreviation (input) SIGSYS :: nat where "SIGSYS \<equiv> 12"
abbreviation (input) SIGTERM :: nat where "SIGTERM \<equiv> 15"

section \<open>Data\<close>

datatype GDBState = GDB_STATE_DISCONNECTED | GDB_STATE_CONNECTED | GDB_STATE_ATTACHED | GDB_STATE_DETACHING

text \<open>The place of a state in the enumeration, for the comparisons with \<open>>=\<close>.\<close>

fun state_number :: "GDBState \<Rightarrow> nat" where
  "state_number GDB_STATE_DISCONNECTED = 0"
| "state_number GDB_STATE_CONNECTED = 1"
| "state_number GDB_STATE_ATTACHED = 2"
| "state_number GDB_STATE_DETACHING = 3"

record Breakpoint =
  bp_address :: u32
  savedInstruction :: u32
  instructionSize :: u8
  persistent :: bool

definition zero_breakpoint :: Breakpoint where
  "zero_breakpoint = \<lparr>bp_address = 0, savedInstruction = 0, instructionSize = 0, persistent = False\<rparr>"

datatype WatchpointKind = WATCHPOINT_DISABLED | WATCHPOINT_READ | WATCHPOINT_WRITE | WATCHPOINT_READWRITE

fun kind_number :: "WatchpointKind \<Rightarrow> u32" where
  "kind_number WATCHPOINT_DISABLED = 0"
| "kind_number WATCHPOINT_READ = 1"
| "kind_number WATCHPOINT_WRITE = 2"
| "kind_number WATCHPOINT_READWRITE = 3"

record Watchpoint =
  wp_address :: u32
  wp_size :: u32
  wp_kind :: WatchpointKind
  wp_debug :: Handle

definition zero_watchpoint :: Watchpoint where
  "zero_watchpoint = \<lparr>wp_address = 0, wp_size = 0, wp_kind = WATCHPOINT_DISABLED, wp_debug = 0\<rparr>"

text \<open>A debug event. The code has a union: the fields beside those of the type of the event are what
  reading the union as another member gives.\<close>

datatype debug_event_type =
    DBGEVENT_ATTACH_PROCESS | DBGEVENT_ATTACH_THREAD | DBGEVENT_EXIT_THREAD | DBGEVENT_EXIT_PROCESS | DBGEVENT_EXCEPTION
  | DBGEVENT_DLL_LOAD | DBGEVENT_DLL_UNLOAD | DBGEVENT_SCHEDULE_IN | DBGEVENT_SCHEDULE_OUT | DBGEVENT_SYSCALL_IN
  | DBGEVENT_SYSCALL_OUT | DBGEVENT_OUTPUT_STRING | DBGEVENT_MAP

datatype exception_event_type =
    EXCEVENT_UNDEFINED_INSTRUCTION | EXCEVENT_PREFETCH_ABORT | EXCEVENT_DATA_ABORT | EXCEVENT_UNALIGNED_DATA_ACCESS
  | EXCEVENT_ATTACH_BREAK | EXCEVENT_STOP_POINT | EXCEVENT_USER_BREAK | EXCEVENT_DEBUGGER_BREAK | EXCEVENT_UNDEFINED_SYSCALL

datatype stop_point_type = STOPPOINT_SVC_FF | STOPPOINT_BREAKPOINT | STOPPOINT_WATCHPOINT | STOPPOINT_OTHER

datatype exit_thread_reason = EXITTHREAD_EVENT_EXIT | EXITTHREAD_EVENT_TERMINATE | EXITTHREAD_EVENT_EXIT_PROCESS | EXITTHREAD_EVENT_TERMINATE_PROCESS

datatype exit_process_reason = EXITPROCESS_EVENT_EXIT | EXITPROCESS_EVENT_TERMINATE | EXITPROCESS_EVENT_DEBUG_TERMINATE

record DebugEventInfo =
  ev_type :: debug_event_type
  ev_thread_id :: u32
  ev_flags :: u32
  ev_process_id :: u32
  ev_creator_thread_id :: u32
  ev_thread_local_storage :: u32
  ev_exit_thread_reason :: exit_thread_reason
  ev_exit_process_reason :: exit_process_reason
  ev_exception_type :: exception_event_type
  ev_stop_point_type :: stop_point_type
  ev_fault_information :: u32
  ev_break_thread_ids :: "u32 list"
  ev_syscall :: u32
  ev_string_addr :: u32
  ev_string_size :: u32

definition zero_event :: DebugEventInfo where
  "zero_event = \<lparr>ev_type = DBGEVENT_ATTACH_PROCESS, ev_thread_id = 0, ev_flags = 0, ev_process_id = 0,
     ev_creator_thread_id = 0, ev_thread_local_storage = 0, ev_exit_thread_reason = EXITTHREAD_EVENT_EXIT,
     ev_exit_process_reason = EXITPROCESS_EVENT_EXIT, ev_exception_type = EXCEVENT_UNDEFINED_INSTRUCTION,
     ev_stop_point_type = STOPPOINT_SVC_FF, ev_fault_information = 0, ev_break_thread_ids = [0, 0, 0, 0],
     ev_syscall = 0, ev_string_addr = 0, ev_string_size = 0\<rparr>"

text \<open>The registers of a thread, in the order they have in memory: r0 to r12, sp, lr, pc, cpsr; d0 to
  d15; fpscr and fpexc.\<close>

record ThreadContext =
  tc_cpu :: "u32 list"
  tc_d :: "u64 list"
  tc_fps :: "u32 list"

definition le_bytes64 :: "u64 \<Rightarrow> u8 list" where
  "le_bytes64 w = map (\<lambda>i. ucast (drop_bit (8 * i) w)) [0, 1, 2, 3, 4, 5, 6, 7]"

definition le_value :: "u8 list \<Rightarrow> nat" where
  "le_value bs = foldr (\<lambda>b n. unat b + 256 * n) bs 0"

definition context_bytes :: "ThreadContext \<Rightarrow> u8 list" where
  "context_bytes c = concat (map le_bytes (tc_cpu c)) @ concat (map le_bytes64 (tc_d c)) @ concat (map le_bytes (tc_fps c))"

definition word_at :: "u8 list \<Rightarrow> nat \<Rightarrow> u32" where
  "word_at bs off = of_nat (le_value (take 4 (drop off bs)))"

definition word64_at :: "u8 list \<Rightarrow> nat \<Rightarrow> u64" where
  "word64_at bs off = of_nat (le_value (take 8 (drop off bs)))"

abbreviation (input) sizeof_ThreadContext :: nat where "sizeof_ThreadContext \<equiv> 204"

definition context_of_bytes :: "u8 list \<Rightarrow> ThreadContext" where
  "context_of_bytes bs = \<lparr>tc_cpu = map (\<lambda>i. word_at bs (4 * i)) [0..<17],
     tc_d = map (\<lambda>i. word64_at bs (68 + 8 * i)) [0..<16], tc_fps = map (\<lambda>i. word_at bs (196 + 4 * i)) [0..<2]\<rparr>"

datatype context_flags =
    THREADCONTEXT_CONTROL_NONE | THREADCONTEXT_CONTROL_CPU_GPRS | THREADCONTEXT_CONTROL_CPU_SPRS | THREADCONTEXT_CONTROL_FPU_GPRS
  | THREADCONTEXT_CONTROL_FPU_SPRS | THREADCONTEXT_CONTROL_CPU_REGS | THREADCONTEXT_CONTROL_ALL

datatype debug_thread_parameter =
    DBGTHREAD_PARAMETER_PRIORITY | DBGTHREAD_PARAMETER_SCHEDULING_MASK_LOW | DBGTHREAD_PARAMETER_CPU_IDEAL | DBGTHREAD_PARAMETER_CPU_CREATOR

text \<open>Calls of the kernel, of the process manager and of the file system. Each has a result, a number
  and bytes; those it does not have are without meaning.\<close>

datatype gdb_call =
    GReadProcessMemory Handle u32 u32
  | GWriteProcessMemory Handle "u8 list" u32
  | GReadDirect u32 u32
  | GWriteDirect u32 "u8 list"
  | GBackdoorRead u32 u32
  | GBackdoorWrite u32 "u8 list"
  | GConvertVAToPA u32 bool
  | GFlushCaches
  | GGetSystemInfo u32 u32
  | GGetProcessInfo Handle u32
  | GGetHandleInfo Handle u32
  | GTranslateHandle Handle
  | GControlServiceGetName Handle
  | GControlProcess Handle u32 u32
  | GCopyHandle Handle Handle
  | GKernelSetState u32 "u32 list"
  | GOpenProcess u32
  | GOpenThread Handle u32
  | GCloseHandle Handle
  | GGetProcessList
  | GGetThreadPriority Handle
  | GGetDebugThreadParam Handle u32 debug_thread_parameter
  | GDebugActiveProcess u32
  | GContinueDebugEvent Handle u32
  | GBreakDebugProcess Handle
  | GTerminateDebugProcess Handle
  | GBreak
  | GClearEvent Handle
  | GSignalEvent Handle
  | GWaitSynchronization Handle
  | GSleepThread u64
  | GLaunchTitleDebug u64 u32 u32
  | GOpenArchive
  | GCloseArchive u64
  | GCreateFile u64 "u16 list"
  | GOpenFile u64 "u16 list" u32
  | GOpenDirectory u64 "u16 list"
  | GDeleteFile u64 "u16 list"
  | GFileSetSize Handle u64
  | GFileGetSize Handle
  | GFileRead Handle u64 u32
  | GFileWrite Handle u64 "u8 list"
  | GFileClose Handle
  | GDirClose Handle

record 'w gdb_env =
  g_R_FAILED :: "Result \<Rightarrow> bool"
  g_call :: "gdb_call \<Rightarrow> 'w \<Rightarrow> (Result \<times> u64 \<times> u8 list) \<times> 'w"
  g_event :: "Handle \<Rightarrow> 'w \<Rightarrow> (Result \<times> DebugEventInfo) \<times> 'w"
  g_context :: "Handle \<Rightarrow> u32 \<Rightarrow> context_flags \<Rightarrow> 'w \<Rightarrow> (Result \<times> ThreadContext) \<times> 'w"
  g_set_context :: "Handle \<Rightarrow> u32 \<Rightarrow> ThreadContext \<Rightarrow> context_flags \<Rightarrow> 'w \<Rightarrow> Result \<times> 'w"
  g_recv :: "nat \<Rightarrow> bool \<Rightarrow> 'w \<Rightarrow> (int \<times> u8 list) \<times> 'w"
  g_send :: "u8 list \<Rightarrow> 'w \<Rightarrow> int \<times> 'w"
  g_buffer_addr :: u32
  g_utf16 :: "u8 list \<Rightarrow> u16 list option"
  g_target_xml :: "u8 list"
  g_osdata_xml :: "u8 list"
  g_cfw_version_xml :: "u8 list \<Rightarrow> u32 \<Rightarrow> bool \<Rightarrow> u8 list"
  g_memory_xml :: "u32 list \<Rightarrow> u8 list"
  g_region_size :: "u32 \<Rightarrow> u32"
  g_query_memory :: "Handle \<Rightarrow> u32 \<Rightarrow> 'w \<Rightarrow> (Result \<times> u32 \<times> u32 \<times> u32 \<times> u32) \<times> 'w"

record GdbTioFileInfo =
  tio_handle :: Handle
  tio_pos :: u64
  tio_flags :: u32

definition zero_tio :: GdbTioFileInfo where
  "zero_tio = \<lparr>tio_handle = 0, tio_pos = 0, tio_flags = 0\<rparr>"

text \<open>Of the parameters: \<open>g_utf16\<close> converts a path (\<open>None\<close> is text that is not UTF-8), the \<open>xml\<close>
  are the files of \<open>gdb/xml\<close>, the templates with their arguments put in, \<open>g_region_size\<close> the words of the
  configuration memory, and \<open>g_query_memory\<close> gives base, size, permission and state of the region
  of an address.\<close>

section \<open>State\<close>

text \<open>\<open>threadInfos\<close>, \<open>breakpoints\<close>, \<open>watchpoints\<close> and \<open>openTioFileInfos\<close> have the length of the arrays; \<open>buffer\<close> has 1028
  bytes. \<open>commandData\<close> is the text from the pointer on, \<open>None\<close> for NULL; \<open>commandEnd\<close> is an
  offset in \<open>buffer\<close>. The request of the target for the host is kept as the bytes it has in memory.\<close>

record gdb_ctx =
  ctx_lock :: int
  localPort :: u16
  flags :: u32
  gdb_state :: GDBState
  noAckSent :: bool
  pid :: u32
  debug :: Handle
  launchedProgramInfo :: "u64 \<times> u32"
  launchedProgramLaunchFlags :: u32
  threadInfos :: "(u32 \<times> u32) list"
  nbThreads :: nat
  currentThreadId :: u32
  selectedThreadId :: u32
  selectedThreadIdForContinuing :: u32
  totalNbCreatedThreads :: u32
  processAttachedEvent :: Handle
  continuedEvent :: Handle
  eventToWaitFor :: Handle
  multiprocessExtEnabled :: bool
  catchThreadEvents :: bool
  processEnded :: bool
  processExited :: bool
  latestDebugEvent :: DebugEventInfo
  continueFlags :: u32
  svcMask :: "u32 list"
  nbBreakpoints :: nat
  breakpoints :: "Breakpoint list"
  nbWatchpoints :: u32
  watchpoints :: "u32 list"
  currentHioRequestTargetAddr :: u32
  currentHioRequest :: "u8 list"
  openTioFileInfos :: "GdbTioFileInfo list"
  numOpenTioFiles :: nat
  enableExternalMemoryAccess :: bool
  commandData :: "u8 list option"
  commandEnd :: nat
  latestSentPacketSize :: nat
  buffer :: "u8 list"
  threadListData :: "u8 list"
  threadListDataPos :: u32
  memoryOsInfoXmlData :: "u8 list"
  processesOsInfoXmlData :: "u8 list"

text \<open>Beside the context: the manager of the watchpoints with its lock, the events of the server, and
  the world.\<close>

record 'w gdb_st = gdb_ctx +
  manager_total :: u32
  manager_watchpoints :: "Watchpoint list"
  manager_lock :: int
  statusUpdated :: Handle
  statusUpdateReceived :: Handle
  world :: 'w

definition has_ctx_flag :: "u32 \<Rightarrow> 'a gdb_ctx_scheme \<Rightarrow> bool" where
  "has_ctx_flag f s \<longleftrightarrow> flags s AND f \<noteq> 0"

section \<open>Calls\<close>

definition call_out :: "'w gdb_env \<Rightarrow> gdb_call \<Rightarrow> 'w gdb_st \<Rightarrow> Result \<times> u64 \<times> 'w gdb_st" where
  "call_out E c s = (case g_call E c (world s) of ((r, v, d), w) \<Rightarrow> (r, v, s\<lparr>world := w\<rparr>))"

definition call_bytes :: "'w gdb_env \<Rightarrow> gdb_call \<Rightarrow> 'w gdb_st \<Rightarrow> Result \<times> u8 list \<times> 'w gdb_st" where
  "call_bytes E c s = (case g_call E c (world s) of ((r, v, d), w) \<Rightarrow> (r, d, s\<lparr>world := w\<rparr>))"

definition call_res :: "'w gdb_env \<Rightarrow> gdb_call \<Rightarrow> 'w gdb_st \<Rightarrow> Result \<times> 'w gdb_st" where
  "call_res E c s = (case g_call E c (world s) of ((r, v, d), w) \<Rightarrow> (r, s\<lparr>world := w\<rparr>))"

definition call_do :: "'w gdb_env \<Rightarrow> gdb_call \<Rightarrow> 'w gdb_st \<Rightarrow> 'w gdb_st" where
  "call_do E c s = snd (call_res E c s)"

definition soc_send :: "'w gdb_env \<Rightarrow> u8 list \<Rightarrow> 'w gdb_st \<Rightarrow> int \<times> 'w gdb_st" where
  "soc_send E d s = (case g_send E d (world s) of (r, w) \<Rightarrow> (r, s\<lparr>world := w\<rparr>))"

text \<open>Receiving at the start of the buffer.\<close>

definition soc_recv :: "'w gdb_env \<Rightarrow> nat \<Rightarrow> bool \<Rightarrow> 'w gdb_st \<Rightarrow> int \<times> 'w gdb_st" where
  "soc_recv E n peek s =
     (case g_recv E n peek (world s) of
        ((r, d), w) \<Rightarrow> (r, s\<lparr>world := w, buffer := overwrite (buffer s) 0 d\<rparr>))"

section \<open>Packets\<close>

definition packet_error :: "'w gdb_env \<Rightarrow> 'w gdb_st \<Rightarrow> int \<times> 'w gdb_st" where
  "packet_error E s =
     (if \<not> has_ctx_flag GDB_FLAG_NOACK s then
        (case soc_send E (chars ''-'') s of (r, s) \<Rightarrow> (if r \<noteq> 1 then - 1 else 0, s))
      else (- 1, s))"

text \<open>The end of a packet that has arrived: the acknowledgement, and the mode without them if it has
  been agreed on.\<close>

definition packet_done :: "'w gdb_env \<Rightarrow> int \<Rightarrow> 'w gdb_st \<Rightarrow> int \<times> 'w gdb_st" where
  "packet_done E r s =
     (let (r2, s) = (if \<not> has_ctx_flag GDB_FLAG_NOACK s then soc_send E (chars ''+'') s else (1, s))
      in if r2 \<noteq> 1 then (- 1, s)
         else if noAckSent s then (r, s\<lparr>flags := flags s OR GDB_FLAG_NOACK, noAckSent := False\<rparr>)
         else (r, s))"

text \<open>What is at the start of the buffer after \<open>r\<close> bytes have been looked at. The position of the number
  sign is looked for below the end of the data.\<close>

definition receive_body :: "'w gdb_env \<Rightarrow> u8 list \<Rightarrow> int \<Rightarrow> 'w gdb_st \<Rightarrow> int \<times> 'w gdb_st" where
  "receive_body E backupbuf r s =
     (if byte_at (buffer s) 0 = 0x2D then
        (case soc_send E backupbuf s of (_, s) \<Rightarrow> (0, s))
      else
        let maxlen = (if r > int (GDB_BUF_LEN + 4) then GDB_BUF_LEN + 4 else nat r) in
        if byte_at (buffer s) 0 = 0x24 then
          let pos = length (takeWhile (\<lambda>c. c \<noteq> 0x23) (take maxlen (buffer s))) in
          if pos = maxlen then (- 1, s)
          else
            case soc_recv E (3 + pos) False s of
              (r, s) \<Rightarrow>
                (case GDB_DecodeHex (drop (pos + 1) (buffer s)) 1 of
                   (checksum, n) \<Rightarrow>
                     if r \<noteq> int (3 + pos) \<or> n \<noteq> 1 then packet_error E s
                     else if GDB_ComputeChecksum (take (pos - 1) (drop 1 (buffer s))) \<noteq> hd checksum then packet_error E s
                     else packet_done E r (s\<lparr>commandEnd := pos, buffer := (buffer s)[pos := 0]\<rparr>))
        else if byte_at (buffer s) 0 = 3 then
          case soc_recv E 1 False s of
            (r, s) \<Rightarrow> if r \<noteq> 1 then packet_error E s else packet_done E r (s\<lparr>commandEnd := 0\<rparr>)
        else packet_done E r s)"

definition GDB_ReceivePacket :: "'w gdb_env \<Rightarrow> 'w gdb_st \<Rightarrow> int \<times> 'w gdb_st" where
  "GDB_ReceivePacket E s =
     (let backupbuf = take (latestSentPacketSize s) (buffer s);
          s = s\<lparr>buffer := replicate (GDB_BUF_LEN + 4) 0\<rparr>
      in case soc_recv E (GDB_BUF_LEN + 4) True s of
           (r, s) \<Rightarrow>
             if r < 1 then (- 1, s)
             else if byte_at (buffer s) 0 = 0x2B then
               (if has_ctx_flag GDB_FLAG_NOACK s then (- 1, s)
                else
                  case soc_recv E 1 False s of
                    (r, s) \<Rightarrow>
                      if r \<noteq> 1 then (- 1, s)
                      else
                        case soc_recv E (GDB_BUF_LEN + 4) True (s\<lparr>buffer := (buffer s)[0 := 0]\<rparr>) of
                          (r, s) \<Rightarrow> if r = - 1 then packet_error E s else receive_body E backupbuf r s)
             else receive_body E backupbuf r s)"

definition GDB_DoSendPacket :: "'w gdb_env \<Rightarrow> nat \<Rightarrow> 'w gdb_st \<Rightarrow> int \<times> 'w gdb_st" where
  "GDB_DoSendPacket E len s =
     (case soc_send E (take len (buffer s)) s of
        (r, s) \<Rightarrow> (r, if r > 0 then s\<lparr>latestSentPacketSize := nat r\<rparr> else s))"

definition GDB_SendPacket :: "'w gdb_env \<Rightarrow> u8 list \<Rightarrow> 'w gdb_st \<Rightarrow> int \<times> 'w gdb_st" where
  "GDB_SendPacket E packetData s =
     GDB_DoSendPacket E (4 + length packetData)
       (s\<lparr>buffer := overwrite (buffer s) 0
           ([0x24] @ packetData @ [0x23] @ hexItoa (ucast (GDB_ComputeChecksum packetData)) 2 False)\<rparr>)"

text \<open>The text of the format ends with a NUL, which is not sent.\<close>

definition GDB_SendFormattedPacket :: "'w gdb_env \<Rightarrow> u8 list \<Rightarrow> 'w gdb_st \<Rightarrow> int \<times> 'w gdb_st" where
  "GDB_SendFormattedPacket E buf s = GDB_SendPacket E buf s"

definition GDB_SendHexPacket :: "'w gdb_env \<Rightarrow> u8 list \<Rightarrow> 'w gdb_st \<Rightarrow> int \<times> 'w gdb_st" where
  "GDB_SendHexPacket E packetData s =
     (if 4 + 2 * length packetData > GDB_BUF_LEN then (- 1, s)
      else
        let b = overwrite (buffer s) 0 ([0x24] @ GDB_EncodeHex packetData);
            cksum = GDB_ComputeChecksum (take (2 * length packetData) (drop 1 b));
            b = overwrite b (2 * length packetData + 1) ([0x23] @ hexItoa (ucast cksum) 2 False)
        in GDB_DoSendPacket E (4 + 2 * length packetData) (s\<lparr>buffer := b\<rparr>))"

text \<open>A part of a document: \<open>l\<close> before the last one, \<open>m\<close> before the others.\<close>

definition stream_part :: "u8 list \<Rightarrow> u32 \<Rightarrow> u32 \<Rightarrow> u32 \<Rightarrow> bool \<Rightarrow> u8 list" where
  "stream_part streamData offset len totalSize forceEmptyLast =
     (let len = (if len > of_nat GDB_BUF_LEN - 1 then of_nat GDB_BUF_LEN - 1 else len) in
      if (forceEmptyLast \<and> offset \<ge> totalSize) \<or> (\<not> forceEmptyLast \<and> offset + len \<ge> totalSize) then
        let len = (if offset \<ge> totalSize then 0 else totalSize - offset)
        in 0x6C # take (unat len) (drop (unat offset) streamData)
      else 0x6D # take (unat len) (drop (unat offset) streamData))"

definition GDB_SendStreamData :: "'w gdb_env \<Rightarrow> u8 list \<Rightarrow> u32 \<Rightarrow> u32 \<Rightarrow> u32 \<Rightarrow> bool \<Rightarrow> 'w gdb_st \<Rightarrow> int \<times> 'w gdb_st" where
  "GDB_SendStreamData E streamData offset len totalSize forceEmptyLast s =
     GDB_SendPacket E (stream_part streamData offset len totalSize forceEmptyLast) s"

text \<open>The text is encoded with twice its length, so that the bytes behind it in the local array
  (\<open>behind\<close>) are read and encoded as well; the checksum and its sign are then put over the
  encoding of the first of these.\<close>

definition GDB_SendDebugString :: "'w gdb_env \<Rightarrow> u8 list \<Rightarrow> u8 list \<Rightarrow> 'w gdb_st \<Rightarrow> int \<times> 'w gdb_st" where
  "GDB_SendDebugString E formatted behind s =
     (let n = length formatted;
          s = s\<lparr>buffer := overwrite (buffer s) 0 (chars ''$O'')\<rparr>
      in if n = 0 then (0, s)
         else
           let b = overwrite (buffer s) 2 (GDB_EncodeHex (take (2 * n) (formatted @ behind)));
               cksum = GDB_ComputeChecksum (take (2 * n + 1) (drop 1 (overwrite b (2 * n + 2) [0x23])));
               b = overwrite b (2 * n + 2) ([0x23] @ hexItoa (ucast cksum) 2 False)
           in GDB_DoSendPacket E (5 + 2 * n) (s\<lparr>buffer := b\<rparr>))"

definition GDB_ReplyEmpty :: "'w gdb_env \<Rightarrow> 'w gdb_st \<Rightarrow> int \<times> 'w gdb_st" where
  "GDB_ReplyEmpty E s = GDB_SendPacket E [] s"

definition GDB_ReplyOk :: "'w gdb_env \<Rightarrow> 'w gdb_st \<Rightarrow> int \<times> 'w gdb_st" where
  "GDB_ReplyOk E s = GDB_SendPacket E (chars ''OK'') s"

definition GDB_ReplyErrno :: "'w gdb_env \<Rightarrow> int \<Rightarrow> 'w gdb_st \<Rightarrow> int \<times> 'w gdb_st" where
  "GDB_ReplyErrno E no s = GDB_SendPacket E (0x45 # hexItoa (ucast (word_of_int no :: u8)) 2 False) s"

text \<open>\<open>GDB_HandleUnsupported\<close>.\<close>

definition GDB_HandleUnsupported :: "'w gdb_env \<Rightarrow> 'w gdb_st \<Rightarrow> int \<times> 'w gdb_st" where
  "GDB_HandleUnsupported E s = GDB_ReplyEmpty E s"

end
