(* ===== verification/Util_Sorted.thy ===== *)
theory Util_Sorted
  imports Omiiba_Prelude
begin

text \<open>
  Sorted arrays: the search by halving that the breakpoints of the debugger use, and the loops that
  make room for an entry or close the gap of one, for arrays of any elements.
\<close>

section \<open>Search by halving\<close>

text \<open>The loop ends on the first place that is not below the key, or on a place with the key.\<close>

function bisect :: "(nat \<Rightarrow> 'k::linorder) \<Rightarrow> 'k \<Rightarrow> nat \<Rightarrow> nat \<Rightarrow> nat" where
  "bisect f k a b =
     (let m = (a + b) div 2 in
      if f m < k then (if b - m > 1 then bisect f k m b else b)
      else if f m > k then (if m - a > 1 then bisect f k a m else m)
      else m)"
  by pat_completeness auto
termination by (relation "measure (\<lambda>(_, _, a, b). b - a)") auto

declare bisect.simps [simp del]

lemma bisect_bounds:
  assumes "a < b" and "f a < k" and "k \<le> f b"
  shows "a < bisect f k a b \<and> bisect f k a b \<le> b \<and> k \<le> f (bisect f k a b) \<and>
         (f (bisect f k a b) = k \<or> f (bisect f k a b - 1) < k)"
  using assms
proof (induction f k a b rule: bisect.induct)
  case (1 f k a b)
  let ?m = "(a + b) div 2"
  have m: "a \<le> ?m" "?m < b" using 1(3) by auto
  consider (less) "f ?m < k" | (greater) "k < f ?m" | (eq) "f ?m = k" by force
  then show ?case
  proof cases
    case less
    show ?thesis
    proof (cases "b - ?m > 1")
      case True
      with less have "bisect f k a b = bisect f k ?m b" by (subst bisect.simps) (simp add: Let_def)
      then show ?thesis using 1(1) [OF refl less True] less True m 1(5) by auto
    next
      case False
      with less have "bisect f k a b = b" by (subst bisect.simps) (simp add: Let_def)
      moreover have "b - 1 = ?m" using m False by linarith
      ultimately show ?thesis using less m 1(3,5) by auto
    qed
  next
    case greater
    then have nl: "\<not> f ?m < k" and ne: "?m \<noteq> a" using 1(4) by auto
    show ?thesis
    proof (cases "?m - a > 1")
      case True
      with greater nl have "bisect f k a b = bisect f k a ?m" by (subst bisect.simps) (simp add: Let_def)
      moreover have "a < ?m" "k \<le> f ?m" using True greater by simp_all
      moreover note 1(2) [OF refl nl greater True]
      ultimately show ?thesis using m(2) 1(4) by (metis less_imp_le_nat le_trans)
    next
      case False
      with greater nl have "bisect f k a b = ?m" by (subst bisect.simps) (simp add: Let_def)
      moreover have "?m - 1 = a" using m ne False by linarith
      ultimately show ?thesis using greater m ne 1(4) by auto
    qed
  next
    case eq
    then have "bisect f k a b = ?m" by (subst bisect.simps) (simp add: Let_def)
    moreover have "?m \<noteq> a" using eq 1(4) by auto
    ultimately show ?thesis using eq m by auto
  qed
qed

definition closest_place :: "(nat \<Rightarrow> 'k::linorder) \<Rightarrow> nat \<Rightarrow> 'k \<Rightarrow> nat" where
  "closest_place f n k =
     (if n = 0 \<or> k \<le> f 0 then 0
      else if k > f (n - 1) then n
      else bisect f k 0 (n - 1))"

text \<open>On an increasing array this is the first place that is not below the key.\<close>

lemma closest_place:
  assumes mono: "\<And>i j. i < j \<Longrightarrow> j < n \<Longrightarrow> f i < f j"
  shows "closest_place f n k \<le> n" and "i < closest_place f n k \<Longrightarrow> f i < k"
    and "closest_place f n k \<le> i \<Longrightarrow> i < n \<Longrightarrow> k \<le> f i"
proof -
  have le: "f i \<le> f j" if "i \<le> j" "j < n" for i j using mono [of i j] that by (cases "i = j") auto
  define r where "r = closest_place f n k"
  have "r \<le> n \<and> (\<forall>i < r. f i < k) \<and> (r < n \<longrightarrow> k \<le> f r)"
  proof (cases "n = 0 \<or> k \<le> f 0")
    case True
    then show ?thesis by (auto simp: r_def closest_place_def)
  next
    case False
    show ?thesis
    proof (cases "k > f (n - 1)")
      case True
      have "f i < k" if "i < n" for i
      proof -
        have "f i \<le> f (n - 1)" using that by (intro le) auto
        with True show ?thesis by simp
      qed
      then show ?thesis using True False by (auto simp: r_def closest_place_def)
    next
      case nl: False
      then have "0 < n - 1" using False by (cases "n - 1") auto
      moreover have "f 0 < k" "k \<le> f (n - 1)" using False nl by auto
      ultimately have b: "0 < r \<and> r \<le> n - 1 \<and> k \<le> f r \<and> (f r = k \<or> f (r - 1) < k)"
        using bisect_bounds [of 0 "n - 1" f k] False nl by (simp add: r_def closest_place_def)
      have "f i < k" if "i < r" for i
      proof (cases "f r = k")
        case True
        then show ?thesis using mono [of i r] that b False by auto
      next
        case False
        then have "f (r - 1) < k" using b by auto
        moreover have "f i \<le> f (r - 1)" using that b by (intro le) auto
        ultimately show ?thesis by simp
      qed
      then show ?thesis using b by auto
    qed
  qed
  note main = this
  show "closest_place f n k \<le> n" using main by (simp add: r_def)
  show "i < closest_place f n k \<Longrightarrow> f i < k" using main by (simp add: r_def)
  show "closest_place f n k \<le> i \<Longrightarrow> i < n \<Longrightarrow> k \<le> f i"
    using main le [of r i] by (auto simp: r_def)
qed

section \<open>Making room and closing a gap\<close>

text \<open>From the end down to a place, and from a place upwards.\<close>

fun move_up :: "nat \<Rightarrow> nat \<Rightarrow> 'a list \<Rightarrow> 'a list" where
  "move_up i 0 xs = xs"
| "move_up i (Suc k) xs = (if Suc k > i then move_up i k (xs[Suc k := xs ! k]) else xs)"

fun move_down :: "nat \<Rightarrow> nat \<Rightarrow> 'a list \<Rightarrow> 'a list" where
  "move_down i 0 xs = xs"
| "move_down i (Suc k) xs = move_down (i + 1) k (xs[i := xs ! (i + 1)])"

lemma length_move_up [simp]: "length (move_up i k xs) = length xs"
  by (induction i k xs rule: move_up.induct) auto

lemma length_move_down [simp]: "length (move_down i k xs) = length xs"
  by (induction i k xs rule: move_down.induct) auto

lemma nth_move_up:
  assumes "k < length xs" and "j < length xs"
  shows "move_up i k xs ! j = (if i < j \<and> j \<le> k then xs ! (j - 1) else xs ! j)"
  using assms
proof (induction i k xs rule: move_up.induct)
  case (2 i k xs)
  then show ?case by (auto simp: nth_list_update le_Suc_eq)
qed auto

lemma nth_move_down:
  assumes "i + k < length xs" and "j < length xs"
  shows "move_down i k xs ! j = (if i \<le> j \<and> j < i + k then xs ! (j + 1) else xs ! j)"
  using assms
proof (induction i k xs rule: move_down.induct)
  case (2 i k xs)
  then show ?case by (auto simp: nth_list_update)
qed auto

text \<open>Making room for an entry at a place and closing the gap again.\<close>

lemma remove_inserted:
  assumes "i \<le> n" and "n < length xs" and "xs ! n = z"
  shows "(move_down i (n - i) ((move_up i n xs)[i := x]))[n := z] = xs"
  using assms
  by (intro nth_equalityI) (auto simp: nth_move_down nth_move_up nth_list_update)

lemma take_inserted:
  assumes "i \<le> n" and "n < length xs"
  shows "take (Suc n) ((move_up i n xs)[i := x]) = take i xs @ x # drop i (take n xs)"
proof (intro nth_equalityI)
  fix j assume "j < length (take (Suc n) ((move_up i n xs)[i := x]))"
  then have j: "j < Suc n" using assms by simp
  then show "take (Suc n) ((move_up i n xs)[i := x]) ! j = (take i xs @ x # drop i (take n xs)) ! j"
    using assms by (cases "j \<le> i") (auto simp: nth_append nth_Cons' nth_move_up nth_list_update)
qed (use assms in simp)

lemma take_removed:
  assumes "i < n" and "n \<le> length xs"
  shows "take (n - 1) ((move_down i (n - 1 - i) xs)[n - 1 := z]) = take i xs @ drop (Suc i) (take n xs)"
proof (intro nth_equalityI)
  fix j assume "j < length (take (n - 1) ((move_down i (n - 1 - i) xs)[n - 1 := z]))"
  then have j: "j < n - 1" using assms by simp
  then show "take (n - 1) ((move_down i (n - 1 - i) xs)[n - 1 := z]) ! j = (take i xs @ drop (Suc i) (take n xs)) ! j"
    using assms by (cases "j < i") (auto simp: nth_append nth_move_down nth_list_update)
qed (use assms in simp)

end
