(* ===== verification/Gdb_Points.thy ===== *)
theory Gdb_Points
  imports Gdb_State Util_Sorted
begin

text \<open>
  The stop points of the debugger: software breakpoints in a sorted array (\<open>gdb/breakpoints.c\<close>), the
  two watchpoints of the processor, which all connections share (\<open>gdb/watchpoints.c\<close>), and the packet that
  sets or removes one (\<open>gdb/stop_point.c\<close>).
\<close>

section \<open>Breakpoints\<close>

definition GDB_FindClosestBreakpointSlot :: "u32 \<Rightarrow> 'a gdb_ctx_scheme \<Rightarrow> nat" where
  "GDB_FindClosestBreakpointSlot address s =
     (if nbBreakpoints s = 0 \<or> address \<le> bp_address (breakpoints s ! 0) then 0
      else if address > bp_address (breakpoints s ! (nbBreakpoints s - 1)) then nbBreakpoints s
      else bisect (\<lambda>i. bp_address (breakpoints s ! i)) address 0 (nbBreakpoints s - 1))"

definition GDB_GetBreakpointInstruction :: "u32 \<Rightarrow> 'a gdb_ctx_scheme \<Rightarrow> int \<times> u32" where
  "GDB_GetBreakpointInstruction address s =
     (let i = GDB_FindClosestBreakpointSlot address s in
      if i = nbBreakpoints s \<or> bp_address (breakpoints s ! i) \<noteq> address then (- EINVAL, 0)
      else (0, savedInstruction (breakpoints s ! i)))"

text \<open>The gap of an entry is closed, and the last entry cleared.\<close>

definition remove_slot_bp :: "nat \<Rightarrow> nat \<Rightarrow> Breakpoint list \<Rightarrow> Breakpoint list" where
  "remove_slot_bp i n bs = (move_down i (n - 1 - i) bs)[n - 1 := zero_breakpoint]"

text \<open>The instruction that is read replaces as many bytes of the word as it has.\<close>

definition set_saved :: "u8 list \<Rightarrow> Breakpoint \<Rightarrow> Breakpoint" where
  "set_saved d b = b\<lparr>savedInstruction := word_at (overwrite (le_bytes (savedInstruction b)) 0 d) 0\<rparr>"

definition GDB_AddBreakpoint :: "'w gdb_env \<Rightarrow> u32 \<Rightarrow> bool \<Rightarrow> bool \<Rightarrow> 'w gdb_st \<Rightarrow> int \<times> 'w gdb_st" where
  "GDB_AddBreakpoint E address thumb persist s =
     (if \<not> thumb \<and> address AND 3 \<noteq> 0 then (- EINVAL, s)
      else
        let address = address AND NOT 1;
            i = GDB_FindClosestBreakpointSlot address s
        in if i \<noteq> nbBreakpoints s \<and> instructionSize (breakpoints s ! i) \<noteq> 0 \<and> bp_address (breakpoints s ! i) = address
           then (0, s)
           else if nbBreakpoints s = MAX_BREAKPOINT then (- EBUSY, s)
           else
             let s = s\<lparr>breakpoints := move_up i (nbBreakpoints s) (breakpoints s), nbBreakpoints := nbBreakpoints s + 1\<rparr>;
                 sz = (if thumb then 2 else 4);
                 instr = (if thumb then [0xFF, 0xDF] else [0xFF, 0x00, 0x00, 0xEF]);
                 (r, d, s) = call_bytes E (GReadProcessMemory (debug s) address sz) s;
                 s = (if g_R_FAILED E r then s
                      else s\<lparr>breakpoints := (breakpoints s)[i := set_saved (take (unat sz) d) (breakpoints s ! i)]\<rparr>);
                 (r, s) = (if g_R_FAILED E r then (r, s) else call_res E (GWriteProcessMemory (debug s) instr address) s)
             in if g_R_FAILED E r then
                  (- EFAULT, s\<lparr>breakpoints := remove_slot_bp i (nbBreakpoints s) (breakpoints s), nbBreakpoints := nbBreakpoints s - 1\<rparr>)
                else
                  (0, s\<lparr>breakpoints := (breakpoints s)[i := (breakpoints s ! i)
                           \<lparr>instructionSize := ucast sz, bp_address := address, persistent := persist\<rparr>]\<rparr>))"

definition GDB_DisableBreakpointById :: "'w gdb_env \<Rightarrow> nat \<Rightarrow> 'w gdb_st \<Rightarrow> int \<times> 'w gdb_st" where
  "GDB_DisableBreakpointById E i s =
     (let bkpt = breakpoints s ! i;
          (r, s) = call_res E (GWriteProcessMemory (debug s)
                     (take (unat (instructionSize bkpt)) (le_bytes (savedInstruction bkpt))) (bp_address bkpt)) s
      in (if g_R_FAILED E r then - EFAULT else 0, s))"

definition GDB_RemoveBreakpoint :: "'w gdb_env \<Rightarrow> u32 \<Rightarrow> 'w gdb_st \<Rightarrow> int \<times> 'w gdb_st" where
  "GDB_RemoveBreakpoint E address s =
     (let address = address AND NOT 1;
          i = GDB_FindClosestBreakpointSlot address s
      in if i = nbBreakpoints s \<or> bp_address (breakpoints s ! i) \<noteq> address then (- EINVAL, s)
         else
           case GDB_DisableBreakpointById E i s of
             (r, s) \<Rightarrow>
               if r \<noteq> 0 then (r, s)
               else (0, s\<lparr>breakpoints := remove_slot_bp i (nbBreakpoints s) (breakpoints s), nbBreakpoints := nbBreakpoints s - 1\<rparr>))"

section \<open>Watchpoints\<close>

definition lock_watchpoints :: "'w gdb_st \<Rightarrow> 'w gdb_st" where
  "lock_watchpoints s = s\<lparr>manager_lock := manager_lock s + 1\<rparr>"

definition unlock_watchpoints :: "'w gdb_st \<Rightarrow> 'w gdb_st" where
  "unlock_watchpoints s = s\<lparr>manager_lock := manager_lock s - 1\<rparr>"

definition GDB_ResetWatchpoints :: "'w gdb_env \<Rightarrow> 'w gdb_st \<Rightarrow> 'w gdb_st" where
  "GDB_ResetWatchpoints E s =
     (let s = lock_watchpoints s;
          s = call_do E (GKernelSetState 0x10003 []) s;
          s = call_do E (GKernelSetState 0x10004 [0]) s;
          s = call_do E (GKernelSetState 0x10004 [1]) s
      in unlock_watchpoints (s\<lparr>manager_total := 0, manager_watchpoints := replicate 2 zero_watchpoint\<rparr>))"

text \<open>The first of the two for which a condition holds, 2 if none.\<close>

definition first_watchpoint :: "(Watchpoint \<Rightarrow> bool) \<Rightarrow> 'w gdb_st \<Rightarrow> nat" where
  "first_watchpoint c s = length (takeWhile (\<lambda>w. \<not> c w) (take 2 (manager_watchpoints s)))"

definition GDB_GetWatchpointKind :: "u32 \<Rightarrow> 'w gdb_st \<Rightarrow> WatchpointKind" where
  "GDB_GetWatchpointKind address s =
     (let i = first_watchpoint (\<lambda>w. \<not> (wp_address w \<noteq> address \<or> wp_debug w \<noteq> debug s)) s in
      if i = 2 then WATCHPOINT_DISABLED else wp_kind (manager_watchpoints s ! i))"

text \<open>The value of the control register: linked to a breakpoint register pair, which compares the
  context, the bytes, the kind, user mode only, enabled.\<close>

definition watchpoint_control :: "nat \<Rightarrow> u32 \<Rightarrow> u32 \<Rightarrow> WatchpointKind \<Rightarrow> u32" where
  "watchpoint_control i offset sz kind =
     push_bit 20 1 OR push_bit 16 (4 + of_nat i) OR push_bit 5 (push_bit (unat offset) (push_bit (unat sz) 1 - 1))
       OR push_bit 3 (kind_number kind) OR push_bit 1 2 OR 1"

text \<open>The first three errors return with the lock taken.\<close>

definition GDB_AddWatchpoint :: "'w gdb_env \<Rightarrow> u32 \<Rightarrow> u32 \<Rightarrow> WatchpointKind \<Rightarrow> 'w gdb_st \<Rightarrow> int \<times> 'w gdb_st" where
  "GDB_AddWatchpoint E address sz kind s =
     (let s = lock_watchpoints s;
          offset = address - (address AND NOT 3)
      in if manager_total s = 2 then (- EBUSY, s)
         else if sz = 0 \<or> offset + sz > 4 \<or> kind = WATCHPOINT_DISABLED then (- EINVAL, s)
         else if GDB_GetWatchpointKind address s \<noteq> WATCHPOINT_DISABLED then (- EINVAL, s)
         else
           let i = (if wp_kind (manager_watchpoints s ! 0) = WATCHPOINT_DISABLED then 0 else 1);
               WCR = watchpoint_control i offset sz kind;
               (r, out, s) = call_out E (GGetHandleInfo (debug s) 0x10000) s
           in if g_R_FAILED E r then (- EINVAL, unlock_watchpoints s)
              else
                let s = call_do E (GKernelSetState (if i = 0 then 0x10005 else 0x10006) [address, WCR, ucast out]) s;
                    s = s\<lparr>manager_total := manager_total s + 1,
                          manager_watchpoints := (manager_watchpoints s)[i :=
                            \<lparr>wp_address = address, wp_size = sz, wp_kind = kind, wp_debug = debug s\<rparr>],
                          watchpoints := (watchpoints s)[unat (nbWatchpoints s) := address],
                          nbWatchpoints := nbWatchpoints s + 1\<rparr>
                in (0, unlock_watchpoints s))"

text \<open>The search stops at a watchpoint that has the address or belongs to the process.\<close>

definition GDB_RemoveWatchpoint :: "'w gdb_env \<Rightarrow> u32 \<Rightarrow> WatchpointKind \<Rightarrow> 'w gdb_st \<Rightarrow> int \<times> 'w gdb_st" where
  "GDB_RemoveWatchpoint E address kind s =
     (let s = lock_watchpoints s;
          i = first_watchpoint (\<lambda>w. \<not> (wp_address w \<noteq> address \<and> wp_debug w \<noteq> debug s)) s
      in if i = 2 \<or> (kind \<noteq> WATCHPOINT_DISABLED \<and> wp_kind (manager_watchpoints s ! i) \<noteq> kind)
         then (- EINVAL, unlock_watchpoints s)
         else
           let s = call_do E (GKernelSetState 0x10004 [of_nat i]) s;
               s = s\<lparr>manager_watchpoints := (manager_watchpoints s)[i := zero_watchpoint], manager_total := manager_total s - 1\<rparr>;
               s = (if watchpoints s ! 0 = address then
                      s\<lparr>watchpoints := [watchpoints s ! 1, 0], nbWatchpoints := nbWatchpoints s - 1\<rparr>
                    else if watchpoints s ! 1 = address then
                      s\<lparr>watchpoints := (watchpoints s)[1 := 0], nbWatchpoints := nbWatchpoints s - 1\<rparr>
                    else s)
           in (0, unlock_watchpoints s))"

section \<open>The packet\<close>

definition command_text :: "'a gdb_ctx_scheme \<Rightarrow> u8 list" where
  "command_text s = (case commandData s of Some t \<Rightarrow> t | None \<Rightarrow> [])"

definition watchpoint_kinds :: "WatchpointKind list" where
  "watchpoint_kinds = [WATCHPOINT_WRITE, WATCHPOINT_READ, WATCHPOINT_READWRITE]"

definition reply_result :: "'w gdb_env \<Rightarrow> int \<times> 'w gdb_st \<Rightarrow> int \<times> 'w gdb_st" where
  "reply_result E rs = (case rs of (res, s) \<Rightarrow> if res = 0 then GDB_ReplyOk E s else GDB_ReplyErrno E (- res) s)"

text \<open>The character before the text is the second of the buffer, where the command is.\<close>

definition GDB_HandleToggleStopPoint :: "'w gdb_env \<Rightarrow> 'w gdb_st \<Rightarrow> int \<times> 'w gdb_st" where
  "GDB_HandleToggleStopPoint E s =
     (let add = (byte_at (buffer s) 1 = 0x5A) in
      case GDB_ParseHexIntegerList (command_text s) 3 0x3B of
        None \<Rightarrow> GDB_ReplyErrno E EILSEQ s
      | Some (lst, pos) \<Rightarrow>
          let persist = (byte_at pos 0 \<noteq> 0 \<and> strn_equal pos '';cmds:1'' 7);
              kind = lst ! 0;
              addr = lst ! 1;
              sz = lst ! 2
          in if kind = 0 then
               (if sz \<noteq> 2 \<and> sz \<noteq> 4 then GDB_ReplyEmpty E s
                else reply_result E (if add then GDB_AddBreakpoint E addr (sz = 2) persist s else GDB_RemoveBreakpoint E addr s))
             else if kind = 2 \<or> kind = 3 \<or> kind = 4 then
               let k = watchpoint_kinds ! (unat kind - 2) in
               reply_result E (if add then GDB_AddWatchpoint E addr sz k s else GDB_RemoveWatchpoint E addr k s)
             else GDB_ReplyEmpty E s)"

end
