(* ===== verification/Util_Memory.thy ===== *)
theory Util_Memory
  imports Omiiba_Prelude
begin

text \<open>
  The search for a byte pattern (\<open>memsearch\<close>, in \<open>memory.c\<close> of \<open>arm9\<close>, of \<open>rosalina\<close> and of
  \<open>loader\<close>) and the copies with a stride for the legacy memory mode. Memory is a function
  from offsets; sizes and positions are 32-bit as in the source.
\<close>

section \<open>Boyer-Moore-Horspool search\<close>

definition shift_table :: "(nat \<Rightarrow> u8) \<Rightarrow> u32 \<Rightarrow> u8 \<Rightarrow> u32" where
  "shift_table patternc patternSize =
     fold (\<lambda>i table. table(patternc i := patternSize - of_nat i - 1)) [0..<unat (patternSize - 1)] (\<lambda>_. patternSize)"

definition memcmp_equal :: "(nat \<Rightarrow> u8) \<Rightarrow> (nat \<Rightarrow> u8) \<Rightarrow> nat \<Rightarrow> nat \<Rightarrow> bool" where
  "memcmp_equal a b off n \<longleftrightarrow> list_all (\<lambda>i. a i = b (off + i)) [0..<n]"

text \<open>The outer \<open>None\<close> is a loop that has not ended, the inner one is \<open>NULL\<close>; otherwise the
  result is the offset of the pattern.\<close>

fun memsearch_loop :: "nat \<Rightarrow> (nat \<Rightarrow> u8) \<Rightarrow> (nat \<Rightarrow> u8) \<Rightarrow> u32 \<Rightarrow> u32 \<Rightarrow> (u8 \<Rightarrow> u32) \<Rightarrow> u32 \<Rightarrow> u32 option option" where
  "memsearch_loop 0 startPos patternc n patternSize table j = None"
| "memsearch_loop (Suc fuel) startPos patternc n patternSize table j =
     (if j \<le> n - patternSize then
        let c = startPos (unat (j + patternSize - 1)) in
        if patternc (unat (patternSize - 1)) = c \<and> memcmp_equal patternc startPos (unat j) (unat (patternSize - 1))
        then Some (Some j)
        else memsearch_loop fuel startPos patternc n patternSize table (j + table c)
      else Some None)"

definition memsearch :: "nat \<Rightarrow> (nat \<Rightarrow> u8) \<Rightarrow> (nat \<Rightarrow> u8) \<Rightarrow> u32 \<Rightarrow> u32 \<Rightarrow> u32 option option" where
  "memsearch fuel startPos patternc n patternSize =
     memsearch_loop fuel startPos patternc n patternSize (shift_table patternc patternSize) 0"

text \<open>The copies between a buffer of half words and every fourth half word of another one.\<close>

definition copyFromLegacyModeFcram :: "(nat \<Rightarrow> u16) \<Rightarrow> (nat \<Rightarrow> u16) \<Rightarrow> nat \<Rightarrow> (nat \<Rightarrow> u16)" where
  "copyFromLegacyModeFcram dst src n = fold (\<lambda>i dst. dst(i := src (4 * i))) [0..<n div 2] dst"

definition copyToLegacyModeFcram :: "(nat \<Rightarrow> u16) \<Rightarrow> (nat \<Rightarrow> u16) \<Rightarrow> nat \<Rightarrow> (nat \<Rightarrow> u16)" where
  "copyToLegacyModeFcram dst src n = fold (\<lambda>i dst. dst(4 * i := src i)) [0..<n div 2] dst"

section \<open>The first occurrence\<close>

definition occurs :: "(nat \<Rightarrow> u8) \<Rightarrow> (nat \<Rightarrow> u8) \<Rightarrow> nat \<Rightarrow> nat \<Rightarrow> bool" where
  "occurs startPos patternc k j \<longleftrightarrow> (\<forall>i < k. patternc i = startPos (j + i))"

lemma unat_u32_less: "unat (k :: u32) < 2 ^ 32"
  by (rule order.strict_trans2 [OF unsigned_less]) simp

lemma shift_table_bounds:
  fixes k :: u32
  assumes "0 < k"
  shows "1 \<le> unat (shift_table patternc k c)" and "unat (shift_table patternc k c) \<le> unat k"
    and "i < unat k - 1 \<Longrightarrow> patternc i = c \<Longrightarrow> unat (shift_table patternc k c) \<le> unat k - 1 - i"
proof -
  define t where "t m = fold (\<lambda>i table. table(patternc i := k - of_nat i - 1)) [0..<m] (\<lambda>_. k)" for m
  have shift: "unat (k - of_nat i - 1) = unat k - 1 - i" if "i < unat k - 1" for i
  proof -
    have "i < 2 ^ 32" using that unat_u32_less [of k] by linarith
    then have i: "unat (of_nat i :: u32) = i" by (simp add: unat_of_nat)
    then have le: "of_nat i \<le> k" using that by (simp add: word_le_nat_alt)
    then have s: "unat (k - of_nat i) = unat k - i" using i by (simp add: unat_sub)
    then have "1 \<le> k - of_nat i" using that by (simp add: word_le_nat_alt)
    then show ?thesis using s by (simp add: unat_sub)
  qed
  have inv: "1 \<le> unat (t m c) \<and> unat (t m c) \<le> unat k \<and> (\<forall>i < m. patternc i = c \<longrightarrow> unat (t m c) \<le> unat k - 1 - i)"
    if "m \<le> unat k - 1" for m
    using that
  proof (induction m)
    case 0
    then show ?case using assms by (simp add: t_def word_less_nat_alt Suc_le_eq)
  next
    case (Suc m)
    have t: "t (Suc m) = (t m)(patternc m := k - of_nat m - 1)" by (simp add: t_def)
    show ?case
    proof (cases "patternc m = c")
      case True
      then show ?thesis using shift [of m] Suc.prems by (auto simp: t less_Suc_eq)
    next
      case False
      then show ?thesis using Suc by (auto simp: t less_Suc_eq)
    qed
  qed
  have m: "unat (k - 1) = unat k - 1" using assms by (intro unat_minus_one) auto
  have tab: "shift_table patternc k = t (unat k - 1)" by (simp add: shift_table_def t_def m)
  note i = inv [of "unat k - 1", simplified]
  show "1 \<le> unat (shift_table patternc k c)" "unat (shift_table patternc k c) \<le> unat k"
    using i unfolding tab by simp_all
  show "unat (shift_table patternc k c) \<le> unat k - 1 - i" if "i < unat k - 1" "patternc i = c"
    using inv [of "unat k - 1"] that unfolding tab by simp
qed

lemma find_upt_skip:
  assumes "i \<le> j" and "\<And>k. i \<le> k \<Longrightarrow> k < j \<Longrightarrow> k < n \<Longrightarrow> \<not> Q k"
  shows "find Q [i..<n] = find Q [j..<n]"
  using assms
proof (induction "j - i" arbitrary: i)
  case 0
  then show ?case by simp
next
  case (Suc d)
  then have "find Q [Suc i..<n] = find Q [j..<n]" by simp
  moreover have "i < n \<Longrightarrow> \<not> Q i" using Suc.prems Suc.hyps(2) by simp
  ultimately show ?case using Suc.hyps(2) by (cases "i < n") (auto simp: upt_conv_Cons)
qed

lemma occurs_split:
  assumes "0 < m"
  shows "occurs T p m j \<longleftrightarrow> p (m - 1) = T (j + m - 1) \<and> memcmp_equal p T j (m - 1)"
  using assms by (cases m) (auto simp: occurs_def memcmp_equal_def list_all_iff less_Suc_eq)

lemma shift_skips_no_occurrence:
  fixes m :: u32
  assumes "0 < m" and "\<not> occurs T p (unat m) j" and "d < unat (shift_table p m (T (j + unat m - 1)))"
  shows "\<not> occurs T p (unat m) (j + d)"
proof
  assume o: "occurs T p (unat m) (j + d)"
  then have d: "0 < d" using assms(2) by (cases d) auto
  have dm: "d < unat m" using assms(3) shift_table_bounds(2) [OF assms(1), of p "T (j + unat m - 1)"] by linarith
  define i where "i = unat m - 1 - d"
  have i: "i < unat m - 1" "j + d + i = j + unat m - 1" using d dm by (auto simp: i_def)
  then have "p i = T (j + unat m - 1)" using o by (auto simp: occurs_def)
  from shift_table_bounds(3) [where patternc = p and i = i, OF assms(1) i(1) this] assms(3) show False using i_def dm by linarith
qed

lemma memsearch_loop_find:
  fixes n m j :: u32
  assumes m: "0 < m" "m \<le> n" and "unat j \<le> unat n" and "unat n + 2 \<le> fuel + unat j"
  shows "memsearch_loop fuel T p n m (shift_table p m) j =
           Some (map_option of_nat (find (occurs T p (unat m)) [unat j..<unat n - unat m + 1]))"
  using assms(3,4)
proof (induction fuel arbitrary: j)
  case 0
  then show ?case by simp
next
  case (Suc fuel)
  let ?Q = "occurs T p (unat m)" and ?N = "unat n - unat m + 1"
  have nm: "unat (n - m) = unat n - unat m" using m(2) by (simp add: unat_sub word_le_nat_alt)
  have m0: "0 < unat m" "unat m \<le> unat n" "unat (m - 1) = unat m - 1"
    using m by (simp_all add: word_less_nat_alt word_le_nat_alt unat_minus_one word_neq_0_conv)
  show ?case
  proof (cases "j \<le> n - m")
    case False
    then show ?thesis by (auto simp: word_le_nat_alt nm)
  next
    case True
    then have j: "unat j < ?N" by (simp add: word_le_nat_alt nm)
    have jm: "unat (j + m - 1) = unat j + unat m - 1"
    proof -
      have s: "unat (j + m) = unat j + unat m"
        using j m0(2) unat_u32_less [of n] by (simp add: unat_word_ariths)
      moreover have "j + m \<noteq> 0" using s m0(1) by (metis add_gr_0 neq0_conv unsigned_0)
      ultimately show ?thesis by (simp add: unat_minus_one)
    qed
    define c where "c = T (unat j + unat m - 1)"
    note step = memsearch_loop.simps(2) [of fuel T p n m "shift_table p m" j]
    show ?thesis
    proof (cases "?Q (unat j)")
      case o: True
      have "memsearch_loop (Suc fuel) T p n m (shift_table p m) j = Some (Some j)"
        using True o by (simp add: jm m0(3) occurs_split [OF m0(1)])
      moreover have "find ?Q [unat j..<?N] = Some (unat j)" using o j by (simp add: upt_conv_Cons del: upt_Suc)
      ultimately show ?thesis by simp
    next
      case no: False
      let ?s = "shift_table p m c"
      have b: "1 \<le> unat ?s" "unat ?s \<le> unat m" using shift_table_bounds [OF m(1)] by auto
      have add: "unat (j + ?s) = unat j + unat ?s"
        using j b m0 unat_u32_less [of n] by (simp add: unat_word_ariths)
      have "memsearch_loop (Suc fuel) T p n m (shift_table p m) j = memsearch_loop fuel T p n m (shift_table p m) (j + ?s)"
        using True no by (auto simp: jm m0(3) occurs_split [OF m0(1)] c_def)
      also have "\<dots> = Some (map_option of_nat (find ?Q [unat (j + ?s)..<?N]))"
        using Suc.prems j b m0 by (intro Suc.IH) (auto simp: add)
      also have "find ?Q [unat (j + ?s)..<?N] = find ?Q [unat j..<?N]"
      proof (rule find_upt_skip [symmetric])
        show "unat j \<le> unat (j + ?s)" by (simp add: add)
        show "\<not> ?Q k" if "unat j \<le> k" "k < unat (j + ?s)" for k
        proof -
          have "k - unat j < unat ?s" using that add by linarith
          then show ?thesis using shift_skips_no_occurrence [OF m(1) no, of "k - unat j"] that(1) by (simp add: c_def)
        qed
      qed
      finally show ?thesis .
    qed
  qed
qed

text \<open>C30. The search agrees with the naive one: with fuel for one step per position it returns
  the first offset at which the whole pattern stands, and \<open>NULL\<close> when there is none, for every
  pattern that is not empty and not longer than the memory searched; the shift table never
  jumps over an occurrence and never makes the loop stand still.\<close>

theorem memsearch_first:
  assumes "0 < patternSize" and "patternSize \<le> n" and "unat n + 2 \<le> fuel"
  shows "memsearch fuel startPos patternc n patternSize =
           Some (map_option of_nat
             (find (occurs startPos patternc (unat patternSize)) [0..<unat n - unat patternSize + 1]))"
  using memsearch_loop_find [OF assms(1,2), of 0 fuel startPos patternc] assms(3)
  by (simp add: memsearch_def)

lemma all_less_3: "(\<forall>i < 3. Q i) \<longleftrightarrow> Q 0 \<and> Q 1 \<and> Q (2 :: nat)"
  by (simp add: numeral_3_eq_3 numeral_2_eq_2 less_Suc_eq all_conj_distrib)

lemma memsearch_first_witness:
  "memsearch 9 (nth [1, 2, 1, 2, 3, 0, 0]) (nth [1, 2, 3]) 7 3 = Some (Some 2)"
  by (subst memsearch_first) (simp_all add: occurs_def upt_conv_Cons all_less_3)

end
