(* ===== verification/Gdb_Mem.thy ===== *)
theory Gdb_Mem
  imports Gdb_Points Util_Memory
begin

text \<open>
  Memory of the target (\<open>gdb/mem.c\<close>). Below the limit of the user space the kernel reads and writes
  for the debugger; above it, if that has been enabled, the debugger does it itself. A destination is
  the array from the pointer on. \<open>None\<close> is a call that does not return: the recursion for pages that
  cannot be written never ends while the kernel says so.
\<close>

section \<open>Pages\<close>

definition user_limit :: "'w gdb_env \<Rightarrow> 'w gdb_st \<Rightarrow> u32 \<times> 'w gdb_st" where
  "user_limit E s =
     (case call_out E (GGetSystemInfo 0x10002 0) s of (_, TTBCR, s) \<Rightarrow> (push_bit (unat (32 - (ucast TTBCR :: u32))) 1, s))"

text \<open>Devices are read in the widths their addresses allow. The offset counts bytes, but the pointer
  it is added to has the type of the access.\<close>

definition io_width :: "u32 \<Rightarrow> nat" where
  "io_width a = (if a AND 1 \<noteq> 0 then 1 else if a AND 3 \<noteq> 0 then 2 else 4)"

lemma io_width_pos: "0 < io_width a" by (simp add: io_width_def)

function read_io_loop :: "'w gdb_env \<Rightarrow> u32 \<Rightarrow> u32 \<Rightarrow> nat \<Rightarrow> u8 list \<Rightarrow> 'w gdb_st \<Rightarrow> u8 list \<times> 'w gdb_st" where
  "read_io_loop E addr len off out s =
     (if off < unat len then
        let a = addr + of_nat off;
            w = io_width a;
            (r, d, s) = call_bytes E (GReadDirect a (of_nat w)) s
        in read_io_loop E addr len (off + w) (overwrite out (w * off) (take w d)) s
      else (out, s))"
  by pat_completeness auto
termination by (relation "measure (\<lambda>(_, _, len, off, _, _). unat len - off)") (use io_width_pos in \<open>auto intro!: diff_less_mono2\<close>)

function write_io_loop :: "'w gdb_env \<Rightarrow> u32 \<Rightarrow> u32 \<Rightarrow> nat \<Rightarrow> u8 list \<Rightarrow> 'w gdb_st \<Rightarrow> 'w gdb_st" where
  "write_io_loop E addr len off data s =
     (if off < unat len then
        let a = addr + of_nat off;
            w = io_width a
        in write_io_loop E addr len (off + w) data (call_do E (GWriteDirect a (take w (drop (w * off) data))) s)
      else s)"
  by pat_completeness auto
termination by (relation "measure (\<lambda>(_, _, len, off, _, _). unat len - off)") (use io_width_pos in \<open>auto intro!: diff_less_mono2\<close>)

declare read_io_loop.simps [simp del] write_io_loop.simps [simp del]

definition GDB_ReadTargetMemoryInPage :: "'w gdb_env \<Rightarrow> u8 list \<Rightarrow> u32 \<Rightarrow> u32 \<Rightarrow> 'w gdb_st \<Rightarrow> Result \<times> u8 list \<times> 'w gdb_st" where
  "GDB_ReadTargetMemoryInPage E out addr len s =
     (let (limit, s) = user_limit E s in
      if addr < limit then
        case call_bytes E (GReadProcessMemory (debug s) addr len) s of
          (r, d, s) \<Rightarrow> (r, if g_R_FAILED E r then out else overwrite out 0 (take (unat len) d), s)
      else if \<not> enableExternalMemoryAccess s then (- 1, out, s)
      else if addr \<ge> 0x80000000 \<and> addr < 0xB0000000 then
        (if addr \<ge> 0x90000000 \<and> addr < 0x98000000 then
           case read_io_loop E addr len 0 out s of (out, s) \<Rightarrow> (0, out, s)
         else case call_bytes E (GReadDirect addr len) s of (r, d, s) \<Rightarrow> (0, overwrite out 0 (take (unat len) d), s))
      else
        case call_out E (GConvertVAToPA addr False) s of
          (_, PA, s) \<Rightarrow>
            if PA = 0 then (- 1, out, s)
            else case call_bytes E (GBackdoorRead addr len) s of (r, d, s) \<Rightarrow> (0, overwrite out 0 (take (unat len) d), s))"

partial_function (option) GDB_WriteTargetMemoryInPage ::
  "'w gdb_env \<Rightarrow> u8 list \<Rightarrow> u32 \<Rightarrow> u32 \<Rightarrow> 'w gdb_st \<Rightarrow> (Result \<times> 'w gdb_st) option" where
  "GDB_WriteTargetMemoryInPage E data addr len s =
     (let (limit, s) = user_limit E s in
      if addr < limit then Some (call_res E (GWriteProcessMemory (debug s) (take (unat len) data) addr) s)
      else if \<not> enableExternalMemoryAccess s then Some (- 1, s)
      else if addr \<ge> 0x80000000 \<and> addr < 0xB0000000 then
        Some (0, if addr \<ge> 0x90000000 \<and> addr < 0x98000000 then write_io_loop E addr len 0 data s
                 else call_do E (GWriteDirect addr (take (unat len) data)) s)
      else
        let (_, PA, s) = call_out E (GConvertVAToPA addr True) s in
        if PA \<noteq> 0 then Some (0, call_do E (GBackdoorWrite addr (take (unat len) data)) s)
        else
          do {
            (r, s) \<leftarrow> GDB_WriteTargetMemoryInPage E data addr len (call_do E GFlushCaches s);
            Some (r, call_do E GFlushCaches s)
          })"

section \<open>Ranges\<close>

definition page_part :: "u32 \<Rightarrow> u32 \<Rightarrow> u32" where
  "page_part addr remaining =
     (if remaining > 0x1000 - (addr AND 0xFFF) then 0x1000 - (addr AND 0xFFF) else remaining)"

lemma page_part_bounds:
  "remaining \<noteq> 0 \<Longrightarrow> 0 < unat (page_part addr remaining) \<and> unat (page_part addr remaining) \<le> unat remaining"
proof -
  assume rem: "remaining \<noteq> 0"
  have "addr AND 0xFFF \<le> 0xFFF" by (rule word_and_le1)
  then have "0 < 0x1000 - (addr AND 0xFFF)" by (simp add: word_less_nat_alt word_le_nat_alt unat_sub_if')
  then show ?thesis using rem by (auto simp: page_part_def word_less_nat_alt unat_gt_0)
qed

lemma page_part_rest:
  assumes "remaining \<noteq> 0"
  shows "unat (remaining - page_part addr remaining) = unat remaining - unat (page_part addr remaining)"
  using page_part_bounds [OF assms] by (simp add: unat_sub word_le_nat_alt)

function read_target_loop :: "'w gdb_env \<Rightarrow> u8 list \<Rightarrow> u32 \<Rightarrow> u32 \<Rightarrow> nat \<Rightarrow> 'w gdb_st \<Rightarrow> nat \<times> u8 list \<times> 'w gdb_st" where
  "read_target_loop E out addr remaining tot s =
     (let nb = page_part addr remaining;
          (r, rest, s) = GDB_ReadTargetMemoryInPage E (drop tot out) addr nb s;
          out = take tot out @ rest
      in if g_R_FAILED E r then (tot, out, s)
         else if remaining - nb > 0 then read_target_loop E out (addr + nb) (remaining - nb) (tot + unat nb) s
         else (tot + unat nb, out, s))"
  by pat_completeness auto
termination
proof (relation "measure (\<lambda>(_, _, _, remaining, _, _). unat remaining)", simp, goal_cases)
  case (1 E out addr remaining tot s nb x r y rest s' out')
  then have "remaining \<noteq> 0" by (auto simp: page_part_def)
  with page_part_bounds [OF this, of addr] page_part_rest [OF this, of addr] 1 show ?case by simp
qed

declare read_target_loop.simps [simp del]

definition GDB_ReadTargetMemory :: "'w gdb_env \<Rightarrow> u8 list \<Rightarrow> u32 \<Rightarrow> u32 \<Rightarrow> 'w gdb_st \<Rightarrow> nat \<times> u8 list \<times> 'w gdb_st" where
  "GDB_ReadTargetMemory E out addr len s = read_target_loop E out addr len 0 s"

partial_function (option) write_target_loop ::
  "'w gdb_env \<Rightarrow> u8 list \<Rightarrow> u32 \<Rightarrow> u32 \<Rightarrow> nat \<Rightarrow> 'w gdb_st \<Rightarrow> (nat \<times> 'w gdb_st) option" where
  "write_target_loop E data addr remaining tot s =
     do {
       (r, s) \<leftarrow> GDB_WriteTargetMemoryInPage E (drop tot data) addr (page_part addr remaining) s;
       if g_R_FAILED E r then Some (tot, s)
       else if remaining - page_part addr remaining > 0 then
         write_target_loop E data (addr + page_part addr remaining) (remaining - page_part addr remaining)
           (tot + unat (page_part addr remaining)) s
       else Some (tot + unat (page_part addr remaining), s)
     }"

definition GDB_WriteTargetMemory :: "'w gdb_env \<Rightarrow> u8 list \<Rightarrow> u32 \<Rightarrow> u32 \<Rightarrow> 'w gdb_st \<Rightarrow> (nat \<times> 'w gdb_st) option" where
  "GDB_WriteTargetMemory E data addr len s = write_target_loop E data addr len 0 s"

text \<open>The local buffer has no contents before it is filled (\<open>replicate\<close> stands for its length). With a
  length above its size the code has returned before.\<close>

definition GDB_SendMemory :: "'w gdb_env \<Rightarrow> u8 list option \<Rightarrow> u32 \<Rightarrow> u32 \<Rightarrow> 'w gdb_st \<Rightarrow> int \<times> 'w gdb_st" where
  "GDB_SendMemory E prefix addr len s =
     (let pre = (case prefix of Some p \<Rightarrow> p | None \<Rightarrow> []) in
      if of_nat (length pre) + 2 * len > (of_nat GDB_BUF_LEN :: u32) then
        (if prefix = None then GDB_ReplyErrno E ENOMEM s else (- 1, s))
      else
        case GDB_ReadTargetMemory E (replicate (GDB_BUF_LEN div 2) 0) addr len s of
          (tot, membuf, s) \<Rightarrow>
            if tot = 0 then (if prefix = None then GDB_ReplyErrno E EFAULT s else (- EFAULT, s))
            else GDB_SendPacket E (pre @ GDB_EncodeHex (take tot membuf)) s)"

definition GDB_WriteMemory :: "'w gdb_env \<Rightarrow> u8 list \<Rightarrow> u32 \<Rightarrow> u32 \<Rightarrow> 'w gdb_st \<Rightarrow> (int \<times> 'w gdb_st) option" where
  "GDB_WriteMemory E buf addr len s =
     do {
       (tot, s) \<leftarrow> GDB_WriteTargetMemory E buf addr len s;
       Some (if tot \<noteq> unat len then GDB_ReplyErrno E EFAULT s else GDB_ReplyOk E s)
     }"

section \<open>Search\<close>

text \<open>The pages that can be read, up to two from the base of the current address. The test for memory
  of the kernel looks at the start of the range.\<close>

fun search_pages :: "'w gdb_env \<Rightarrow> u32 \<Rightarrow> u32 \<Rightarrow> u32 \<Rightarrow> nat \<Rightarrow> nat \<Rightarrow> u8 list \<Rightarrow> 'w gdb_st \<Rightarrow> nat \<times> u8 list \<times> 'w gdb_st" where
  "search_pages E addr limit addrBase nbPages 0 buf s = (nbPages, buf, s)"
| "search_pages E addr limit addrBase nbPages (Suc left) buf s =
     (let (stop, s) =
        (if addr \<ge> limit then
           case call_out E (GConvertVAToPA addr False) s of
             (_, PA, s) \<Rightarrow> (PA = 0 \<or> (PA \<ge> 0x10000000 \<and> PA \<le> 0x18000000), s)
         else (False, s))
      in if stop then (nbPages, buf, s)
         else
           case GDB_ReadTargetMemoryInPage E (drop (0x1000 * nbPages) buf) (addrBase + of_nat nbPages * 0x1000) 0x1000 s of
             (r, rest, s) \<Rightarrow>
               if g_R_FAILED E r then (nbPages, take (0x1000 * nbPages) buf @ rest, s)
               else search_pages E addr limit addrBase (Suc nbPages) left (take (0x1000 * nbPages) buf @ rest) s)"

text \<open>\<open>None\<close> is a search that does not end: past the last page the current address starts again at 0.\<close>

partial_function (option) search_target_loop ::
  "'w gdb_env \<Rightarrow> u32 \<Rightarrow> u32 \<Rightarrow> u32 \<Rightarrow> u32 \<Rightarrow> u8 list \<Rightarrow> u32 \<Rightarrow> 'w gdb_st \<Rightarrow> (u32 option \<times> 'w gdb_st) option" where
  "search_target_loop E addr len limit curAddr pattern patternLen s =
     (if curAddr < addr + len then
        let addrBase = curAddr AND NOT 0xFFF;
            addrDispl = curAddr AND 0xFFF;
            (nbPages, buf, s) = search_pages E addr limit addrBase 0 2 (replicate 0x2000 0) s
        in do {
             pos \<leftarrow> (if addrDispl + patternLen \<le> 0x1000 * of_nat nbPages
                     then memsearch 0x2001 (\<lambda>i. byte_at buf (unat addrDispl + i)) (byte_at pattern)
                            (0x1000 * of_nat nbPages - addrDispl) patternLen
                     else Some None);
             (case pos of
                Some p \<Rightarrow> Some (Some (addrBase + addrDispl + p), s)
              | None \<Rightarrow> search_target_loop E addr len limit (addrBase + 0x1000) pattern patternLen s)
           }
      else Some (None, s))"

definition GDB_SearchMemory :: "'w gdb_env \<Rightarrow> u32 \<Rightarrow> u32 \<Rightarrow> u8 list \<Rightarrow> u32 \<Rightarrow> 'w gdb_st \<Rightarrow> (u32 option \<times> 'w gdb_st) option" where
  "GDB_SearchMemory E addr len pattern patternLen s =
     (let (limit, s) = user_limit E s in search_target_loop E addr len limit addr pattern patternLen s)"

section \<open>Packets\<close>

definition GDB_HandleReadMemory :: "'w gdb_env \<Rightarrow> 'w gdb_st \<Rightarrow> int \<times> 'w gdb_st" where
  "GDB_HandleReadMemory E s =
     (case GDB_ParseHexIntegerList (command_text s) 2 0 of
        None \<Rightarrow> GDB_ReplyErrno E EILSEQ s
      | Some (lst, _) \<Rightarrow> GDB_SendMemory E None (lst ! 0) (lst ! 1) s)"

text \<open>The address of a place in the buffer, given the text from there on.\<close>

definition text_addr :: "'w gdb_env \<Rightarrow> u8 list \<Rightarrow> u32" where
  "text_addr E t = g_buffer_addr E + of_nat (GDB_BUF_LEN + 4 - length t)"

abbreviation (input) buffer_end :: "'w gdb_env \<Rightarrow> u32" where
  "buffer_end E \<equiv> g_buffer_addr E + 4 + of_nat GDB_BUF_LEN"

definition GDB_HandleWriteMemory :: "'w gdb_env \<Rightarrow> 'w gdb_st \<Rightarrow> (int \<times> 'w gdb_st) option" where
  "GDB_HandleWriteMemory E s =
     (case GDB_ParseHexIntegerList (command_text s) 2 0x3A of
        None \<Rightarrow> Some (GDB_ReplyErrno E EILSEQ s)
      | Some (lst, dataStart) \<Rightarrow>
          if byte_at dataStart 0 \<noteq> 0x3A then Some (GDB_ReplyErrno E EILSEQ s)
          else
            let dataStart = drop 1 dataStart;
                addr = lst ! 0;
                len = lst ! 1
            in if text_addr E dataStart + 2 * len \<ge> buffer_end E then Some (GDB_ReplyErrno E ENOMEM s)
               else
                 case GDB_DecodeHex dataStart (unat len) of
                   (data, n) \<Rightarrow>
                     if n \<noteq> unat len then Some (GDB_ReplyErrno E EILSEQ s) else GDB_WriteMemory E data addr len s)"

text \<open>The end of the data is an address too, which may wrap around.\<close>

definition GDB_HandleWriteMemoryRaw :: "'w gdb_env \<Rightarrow> 'w gdb_st \<Rightarrow> (int \<times> 'w gdb_st) option" where
  "GDB_HandleWriteMemoryRaw E s =
     (case GDB_ParseHexIntegerList (command_text s) 2 0x3A of
        None \<Rightarrow> Some (GDB_ReplyErrno E EILSEQ s)
      | Some (lst, dataStart) \<Rightarrow>
          if byte_at dataStart 0 \<noteq> 0x3A then Some (GDB_ReplyErrno E EILSEQ s)
          else
            let dataStart = drop 1 dataStart;
                addr = lst ! 0;
                len = lst ! 1;
                start = text_addr E dataStart
            in if start + len \<ge> buffer_end E then Some (GDB_ReplyErrno E ENOMEM s)
               else
                 let data = GDB_UnescapeBinaryData dataStart (if start < start + len then unat len else 0);
                     n = length data
                 in if n \<noteq> unat len then Some (GDB_ReplyErrno E (int n) s) else GDB_WriteMemory E data addr len s)"

text \<open>The pattern is decoded, but what is searched is the text as it came.\<close>

definition GDB_HandleQuerySearchMemory :: "'w gdb_env \<Rightarrow> 'w gdb_st \<Rightarrow> (int \<times> 'w gdb_st) option" where
  "GDB_HandleQuerySearchMemory E s =
     (if \<not> strn_equal (command_text s) ''memory:'' 7 then Some (GDB_ReplyErrno E EILSEQ s)
      else
        let s = s\<lparr>commandData := Some (drop 7 (command_text s))\<rparr> in
        case GDB_ParseIntegerList (command_text s) 2 0x3B 0x3B 16 False of
          None \<Rightarrow> Some (GDB_ReplyErrno E EILSEQ s)
        | Some (lst, patternStart) \<Rightarrow>
            if byte_at patternStart 0 \<noteq> 0x3B then Some (GDB_ReplyErrno E EILSEQ s)
            else
              let patternStart = drop 1 patternStart;
                  patternLen = commandEnd s - (GDB_BUF_LEN + 4 - length patternStart);
                  pattern = GDB_UnescapeBinaryData patternStart patternLen
              in do {
                   (found, s) \<leftarrow> GDB_SearchMemory E (lst ! 0) (lst ! 1) patternStart (of_nat (length pattern)) s;
                   Some (case found of
                           Some a \<Rightarrow> GDB_SendFormattedPacket E (chars ''1,'' @ fmt_hex 0 (unat a)) s
                         | None \<Rightarrow> GDB_SendPacket E (chars ''0'') s)
                 })"

end
