(* ===== verification/Gdb_Threads.thy ===== *)
theory Gdb_Threads
  imports Gdb_Mem
begin

text \<open>
  Threads (\<open>gdb/thread.c\<close>) and registers (\<open>gdb/regs.c\<close>) of the target.
\<close>

section \<open>Thread ids\<close>

definition GDB_ConvertFromRealPid :: "u32 \<Rightarrow> u32" where
  "GDB_ConvertFromRealPid p = p + 1"

definition GDB_ConvertToRealPid :: "u32 \<Rightarrow> u32" where
  "GDB_ConvertToRealPid p = p - 1"

text \<open>The thread of \<open>pPID.TID\<close> or \<open>TID\<close>, after the process.\<close>

definition parse_tid :: "u32 \<Rightarrow> u8 list \<Rightarrow> u8 \<Rightarrow> (u32 \<times> u32 \<times> u8 list) option" where
  "parse_tid p pos lastSep =
     do {
       (tid, pos) \<leftarrow> (if strn_equal pos ''-1'' 2 then Some (0, drop 2 pos)
                      else map_option (\<lambda>(l, r). (l ! 0, r)) (GDB_ParseHexIntegerList pos 1 lastSep));
       if p = - 1 \<and> tid \<noteq> 0 then None else Some (p, tid, pos)
     }"

text \<open>Process, thread and the text behind.\<close>

definition GDB_ParseThreadId :: "u8 list \<Rightarrow> u8 \<Rightarrow> 'a gdb_ctx_scheme \<Rightarrow> (u32 \<times> u32 \<times> u8 list) option" where
  "GDB_ParseThreadId str lastSep s =
     (if multiprocessExtEnabled s then
        (if byte_at str 0 \<noteq> 0x70 then
           (if str_equal str ''-1'' then Some (- 1, 0, drop 2 str)
            else map_option (\<lambda>(l, r). (GDB_ConvertToRealPid (l ! 0), 0, r)) (GDB_ParseHexIntegerList str 1 0))
         else
           let pos = drop 1 str in
           if strn_equal pos ''-1.'' 3 then parse_tid (- 1) (drop 3 pos) lastSep
           else
             case GDB_ParseHexIntegerList pos 1 0x2E of
               None \<Rightarrow> None
             | Some (l, r) \<Rightarrow> parse_tid (GDB_ConvertToRealPid (l ! 0)) (drop 1 r) lastSep)
      else parse_tid (pid s) str lastSep)"

definition GDB_ParseDecodeSingleThreadId :: "u8 list \<Rightarrow> u8 \<Rightarrow> 'a gdb_ctx_scheme \<Rightarrow> u32" where
  "GDB_ParseDecodeSingleThreadId str lastSep s =
     (case GDB_ParseThreadId str lastSep s of
        None \<Rightarrow> 0
      | Some (p, tid, _) \<Rightarrow> if p \<noteq> pid s then 0 else tid)"

definition GDB_EncodeThreadId :: "u32 \<Rightarrow> 'a gdb_ctx_scheme \<Rightarrow> u8 list" where
  "GDB_EncodeThreadId tid s =
     (if multiprocessExtEnabled s then
        chars ''p'' @ fmt_hex 0 (unat (GDB_ConvertFromRealPid (pid s))) @ chars ''.'' @ fmt_hex 0 (unat tid)
      else fmt_hex 0 (unat tid))"

section \<open>The current thread\<close>

definition GDB_GetDynamicThreadPriority :: "'w gdb_env \<Rightarrow> u32 \<Rightarrow> 'w gdb_st \<Rightarrow> int \<times> 'w gdb_st" where
  "GDB_GetDynamicThreadPriority E threadId s =
     (case call_out E (GOpenProcess (pid s)) s of
        (r, process, s) \<Rightarrow>
          if g_R_FAILED E r then (65, s)
          else
            case call_out E (GOpenThread (ucast process) threadId) s of
              (r, thread, s) \<Rightarrow>
                let (prio, s) = (if g_R_FAILED E r then (65, s)
                                 else case call_out E (GGetThreadPriority (ucast thread)) s of
                                        (r, p, s) \<Rightarrow> (sint (ucast p :: u32), s))
                in (prio, call_do E (GCloseHandle (ucast process)) (call_do E (GCloseHandle (ucast thread)) s)))"

definition thread_compare_func :: "'w gdb_env \<Rightarrow> u32 \<Rightarrow> u32 \<Rightarrow> 'w gdb_st \<Rightarrow> int \<times> 'w gdb_st" where
  "thread_compare_func E a b s =
     (let (prioADynamic, s) = GDB_GetDynamicThreadPriority E a s;
          (prioBDynamic, s) = GDB_GetDynamicThreadPriority E b s;
          (_, maskA, s) = call_out E (GGetDebugThreadParam (debug s) a DBGTHREAD_PARAMETER_SCHEDULING_MASK_LOW) s;
          (_, maskB, s) = call_out E (GGetDebugThreadParam (debug s) b DBGTHREAD_PARAMETER_SCHEDULING_MASK_LOW) s;
          (_, prioAStatic, s) = call_out E (GGetDebugThreadParam (debug s) a DBGTHREAD_PARAMETER_PRIORITY) s;
          (_, prioBStatic, s) = call_out E (GGetDebugThreadParam (debug s) b DBGTHREAD_PARAMETER_PRIORITY) s
      in if maskA = 1 \<and> maskB \<noteq> 1 then (- 1, s)
         else if maskA \<noteq> 1 \<and> maskB = 1 then (1, s)
         else if prioADynamic \<noteq> prioBDynamic then (prioADynamic - prioBDynamic, s)
         else (sint (ucast prioAStatic :: u32) - sint (ucast prioBStatic :: u32), s))"

text \<open>Only the first entry of the sorted array is used: the first one nothing else comes before.
  Which of equal ones \<open>qsort\<close> puts first is open; here it is the first of the list.\<close>

fun least_thread :: "'w gdb_env \<Rightarrow> u32 \<Rightarrow> u32 list \<Rightarrow> 'w gdb_st \<Rightarrow> u32 \<times> 'w gdb_st" where
  "least_thread E best [] s = (best, s)"
| "least_thread E best (t # ts) s =
     (case thread_compare_func E best t s of (c, s) \<Rightarrow> least_thread E (if c > 0 then t else best) ts s)"

definition GDB_GetCurrentThreadFromList :: "'w gdb_env \<Rightarrow> u32 list \<Rightarrow> 'w gdb_st \<Rightarrow> u32 \<times> 'w gdb_st" where
  "GDB_GetCurrentThreadFromList E threadIds s = least_thread E (hd threadIds) (tl threadIds) s"

definition GDB_GetCurrentThread :: "'w gdb_env \<Rightarrow> 'w gdb_st \<Rightarrow> u32 \<times> 'w gdb_st" where
  "GDB_GetCurrentThread E s =
     (if nbThreads s = 0 then (0, s) else GDB_GetCurrentThreadFromList E (map fst (take (nbThreads s) (threadInfos s))) s)"

section \<open>Packets about threads\<close>

definition GDB_HandleSetThreadId :: "'w gdb_env \<Rightarrow> 'w gdb_st \<Rightarrow> int \<times> 'w gdb_st" where
  "GDB_HandleSetThreadId E s =
     (let c = byte_at (command_text s) 0 in
      if c = 0x67 then
        (case GDB_ParseThreadId (drop 1 (command_text s)) 0 s of
           None \<Rightarrow> GDB_ReplyErrno E EILSEQ s
         | Some (p, tid, _) \<Rightarrow>
             if p \<noteq> - 1 \<and> p \<noteq> pid s then GDB_ReplyErrno E EILSEQ s
             else GDB_ReplyOk E (s\<lparr>selectedThreadId := tid\<rparr>))
      else if c = 0x63 then
        (case GDB_ParseThreadId (drop 1 (command_text s)) 0 s of
           None \<Rightarrow> GDB_ReplyErrno E EILSEQ s
         | Some (p, tid, _) \<Rightarrow>
             if p \<noteq> - 1 \<and> p \<noteq> pid s then GDB_ReplyErrno E EPERM s
             else GDB_ReplyOk E (s\<lparr>selectedThreadIdForContinuing := tid\<rparr>))
      else GDB_ReplyErrno E EPERM s)"

definition GDB_HandleIsThreadAlive :: "'w gdb_env \<Rightarrow> 'w gdb_st \<Rightarrow> int \<times> 'w gdb_st" where
  "GDB_HandleIsThreadAlive E s =
     (let tid = GDB_ParseDecodeSingleThreadId (command_text s) 0 s in
      if tid = 0 then GDB_ReplyErrno E EILSEQ s
      else
        case call_out E (GGetDebugThreadParam (debug s) tid DBGTHREAD_PARAMETER_SCHEDULING_MASK_LOW) s of
          (r, m, s) \<Rightarrow> if \<not> g_R_FAILED E r \<and> m \<noteq> 2 then GDB_ReplyOk E s else GDB_ReplyErrno E EPERM s)"

definition GDB_HandleQueryCurrentThreadId :: "'w gdb_env \<Rightarrow> 'w gdb_st \<Rightarrow> int \<times> 'w gdb_st" where
  "GDB_HandleQueryCurrentThreadId E s =
     (let s = (if currentThreadId s = 0 then
                 case GDB_GetCurrentThread E s of (t, s) \<Rightarrow> s\<lparr>currentThreadId := t\<rparr>
               else s)
      in if currentThreadId s \<noteq> 0
         then GDB_SendFormattedPacket E (chars ''QC'' @ GDB_EncodeThreadId (currentThreadId s) s) s
         else GDB_ReplyErrno E EPERM s)"

fun alive_threads :: "'w gdb_env \<Rightarrow> u32 list \<Rightarrow> 'w gdb_st \<Rightarrow> u32 list \<times> 'w gdb_st" where
  "alive_threads E [] s = ([], s)"
| "alive_threads E (t # ts) s =
     (case call_out E (GGetDebugThreadParam (debug s) t DBGTHREAD_PARAMETER_SCHEDULING_MASK_LOW) s of
        (r, m, s) \<Rightarrow>
          case alive_threads E ts s of
            (l, s) \<Rightarrow> (if \<not> g_R_FAILED E r \<and> m \<noteq> 2 then t # l else l, s))"

fun join_comma :: "u8 list list \<Rightarrow> u8 list" where
  "join_comma [] = []"
| "join_comma [x] = x"
| "join_comma (x # y # xs) = x @ [0x2C] @ join_comma (y # xs)"

definition GDB_GenerateThreadListData :: "'w gdb_env \<Rightarrow> 'w gdb_st \<Rightarrow> 'w gdb_st" where
  "GDB_GenerateThreadListData E s =
     (case alive_threads E (map fst (take (nbThreads s) (threadInfos s))) s of
        (ids, s) \<Rightarrow>
          if ids = [] then s\<lparr>threadListData := (threadListData s)[0 := 0]\<rparr>
          else s\<lparr>threadListData :=
                  overwrite (threadListData s) 0 (join_comma (map (\<lambda>t. GDB_EncodeThreadId t s) ids) @ [0])\<rparr>)"

text \<open>The length of the part that is sent next: back from the full length to a comma, and one less.\<close>

fun comma_back :: "u8 list \<Rightarrow> nat \<Rightarrow> nat \<Rightarrow> nat" where
  "comma_back data pos 0 = 0"
| "comma_back data pos (Suc len) = (if byte_at data (pos + Suc len) \<noteq> 0x2C then comma_back data pos len else Suc len)"

definition GDB_SendThreadData :: "'w gdb_env \<Rightarrow> 'w gdb_st \<Rightarrow> int \<times> 'w gdb_st" where
  "GDB_SendThreadData E s =
     (let sz = length (upto_nul (threadListData s));
          pos = unat (threadListDataPos s);
          len = (if pos \<ge> sz then 0
                 else if sz - pos \<le> GDB_BUF_LEN - 1 then sz - pos
                 else comma_back (threadListData s) pos (GDB_BUF_LEN - 1) - 1);
          (n, s) = GDB_SendStreamData E (threadListData s) (threadListDataPos s) (of_nat len) (of_nat sz) True s
      in (n, if pos \<ge> sz then s\<lparr>threadListDataPos := 0, threadListData := (threadListData s)[0 := 0]\<rparr>
             else s\<lparr>threadListDataPos := threadListDataPos s + of_nat len\<rparr>))"

definition GDB_HandleQueryfThreadInfo :: "'w gdb_env \<Rightarrow> 'w gdb_st \<Rightarrow> int \<times> 'w gdb_st" where
  "GDB_HandleQueryfThreadInfo E s =
     GDB_SendThreadData E (if byte_at (threadListData s) 0 = 0 then GDB_GenerateThreadListData E s else s)"

definition GDB_HandleQuerysThreadInfo :: "'w gdb_env \<Rightarrow> 'w gdb_st \<Rightarrow> int \<times> 'w gdb_st" where
  "GDB_HandleQuerysThreadInfo E s = GDB_SendThreadData E s"

definition GDB_HandleQueryThreadEvents :: "'w gdb_env \<Rightarrow> 'w gdb_st \<Rightarrow> int \<times> 'w gdb_st" where
  "GDB_HandleQueryThreadEvents E s =
     (let c = byte_at (command_text s) 0 in
      if c = 0x30 then GDB_ReplyOk E (s\<lparr>catchThreadEvents := False\<rparr>)
      else if c = 0x31 then GDB_ReplyOk E (s\<lparr>catchThreadEvents := True\<rparr>)
      else GDB_ReplyErrno E EILSEQ s)"

text \<open>The last entry with the id; entries that are not in use are zero.\<close>

definition thread_tls :: "u32 \<Rightarrow> 'a gdb_ctx_scheme \<Rightarrow> u32" where
  "thread_tls t s = fold (\<lambda>(i, tls) acc. if i = t then tls else acc) (take MAX_DEBUG_THREAD (threadInfos s)) 0"

definition GDB_HandleQueryThreadExtraInfo :: "'w gdb_env \<Rightarrow> 'w gdb_st \<Rightarrow> int \<times> 'w gdb_st" where
  "GDB_HandleQueryThreadExtraInfo E s =
     (let i = GDB_ParseDecodeSingleThreadId (command_text s) 0 s in
      if i = 0 then GDB_ReplyErrno E EILSEQ s
      else
        let tls = thread_tls i s;
            (r, val, s) = call_out E (GGetDebugThreadParam (debug s) i DBGTHREAD_PARAMETER_SCHEDULING_MASK_LOW) s;
            sStatus = (if \<not> g_R_FAILED E r then (if val = 1 then chars '', running, '' else chars '', idle, '') else []);
            (prio, s) = GDB_GetDynamicThreadPriority E i s;
            sDynamic = (if prio = 65 then [] else chars ''dynamic prio.: '' @ fmt_dec prio @ chars '', '');
            (r, val, s) = call_out E (GGetDebugThreadParam (debug s) i DBGTHREAD_PARAMETER_PRIORITY) s;
            sStatic = (if g_R_FAILED E r then [] else chars ''static prio.: '' @ fmt_dec (sint (ucast val :: u32)) @ chars '', '');
            (r, val, s) = call_out E (GGetDebugThreadParam (debug s) i DBGTHREAD_PARAMETER_CPU_IDEAL) s;
            sIdeal = (if g_R_FAILED E r then [] else chars ''ideal core: '' @ fmt_dec (uint (ucast val :: u32)) @ chars '', '');
            (r, val, s) = call_out E (GGetDebugThreadParam (debug s) i DBGTHREAD_PARAMETER_CPU_CREATOR) s;
            sCreator = (if g_R_FAILED E r then [] else chars ''running on core '' @ fmt_dec (uint (ucast val :: u32)))
        in GDB_SendHexPacket E (chars ''TLS: 0x'' @ fmt_hex 8 (unat tls) @ sStatus @ sDynamic @ sStatic @ sIdeal @ sCreator) s)"

definition GDB_HandleQueryGetTLSAddr :: "'w gdb_env \<Rightarrow> 'w gdb_st \<Rightarrow> int \<times> 'w gdb_st" where
  "GDB_HandleQueryGetTLSAddr E s =
     (case GDB_ParseHexIntegerList (command_text s) 3 0 of
        None \<Rightarrow> GDB_ReplyErrno E EILSEQ s
      | Some (lst, _) \<Rightarrow>
          let tls = thread_tls (lst ! 0) s in
          if tls = 0 then GDB_ReplyErrno E EINVAL s
          else GDB_SendFormattedPacket E (fmt_hex 8 (unat (tls + lst ! 1))) s)"

section \<open>Registers\<close>

definition select_thread :: "'w gdb_st \<Rightarrow> 'w gdb_st" where
  "select_thread s = (if selectedThreadId s = 0 then s\<lparr>selectedThreadId := currentThreadId s\<rparr> else s)"

definition get_context :: "'w gdb_env \<Rightarrow> u32 \<Rightarrow> context_flags \<Rightarrow> 'w gdb_st \<Rightarrow> Result \<times> ThreadContext \<times> 'w gdb_st" where
  "get_context E t f s = (case g_context E (debug s) t f (world s) of ((r, c), w) \<Rightarrow> (r, c, s\<lparr>world := w\<rparr>))"

definition set_context :: "'w gdb_env \<Rightarrow> u32 \<Rightarrow> ThreadContext \<Rightarrow> context_flags \<Rightarrow> 'w gdb_st \<Rightarrow> Result \<times> 'w gdb_st" where
  "set_context E t c f s = (case g_set_context E (debug s) t c f (world s) of (r, w) \<Rightarrow> (r, s\<lparr>world := w\<rparr>))"

definition GDB_HandleReadRegisters :: "'w gdb_env \<Rightarrow> 'w gdb_st \<Rightarrow> int \<times> 'w gdb_st" where
  "GDB_HandleReadRegisters E s =
     (let s = select_thread s in
      case get_context E (selectedThreadId s) THREADCONTEXT_CONTROL_ALL s of
        (r, regs, s) \<Rightarrow> if g_R_FAILED E r then GDB_ReplyErrno E EPERM s else GDB_SendHexPacket E (context_bytes regs) s)"

definition GDB_HandleWriteRegisters :: "'w gdb_env \<Rightarrow> 'w gdb_st \<Rightarrow> int \<times> 'w gdb_st" where
  "GDB_HandleWriteRegisters E s =
     (let s = select_thread s;
          (d, n) = GDB_DecodeHex (command_text s) sizeof_ThreadContext
      in if n \<noteq> sizeof_ThreadContext then GDB_ReplyErrno E EPERM s
         else
           case set_context E (selectedThreadId s) (context_of_bytes d) THREADCONTEXT_CONTROL_ALL s of
             (r, s) \<Rightarrow> if g_R_FAILED E r then GDB_ReplyErrno E EPERM s else GDB_ReplyOk E s)"

definition GDB_ConvertRegisterNumber :: "u32 \<Rightarrow> context_flags \<times> u32" where
  "GDB_ConvertRegisterNumber gdbNum =
     (if gdbNum \<le> 15 then (if gdbNum \<ge> 13 then THREADCONTEXT_CONTROL_CPU_SPRS else THREADCONTEXT_CONTROL_CPU_GPRS, gdbNum)
      else if gdbNum = 25 then (THREADCONTEXT_CONTROL_CPU_SPRS, 16)
      else if gdbNum \<ge> 26 \<and> gdbNum \<le> 41 then (THREADCONTEXT_CONTROL_FPU_GPRS, gdbNum - 26)
      else if gdbNum = 42 \<or> gdbNum = 43 then (THREADCONTEXT_CONTROL_FPU_SPRS, gdbNum - 42)
      else (THREADCONTEXT_CONTROL_NONE, 0))"

definition GDB_HandleReadRegister :: "'w gdb_env \<Rightarrow> 'w gdb_st \<Rightarrow> int \<times> 'w gdb_st" where
  "GDB_HandleReadRegister E s =
     (let s = select_thread s in
      case GDB_ParseHexIntegerList (command_text s) 1 0 of
        None \<Rightarrow> GDB_ReplyErrno E EILSEQ s
      | Some (lst, _) \<Rightarrow>
          let (f, n) = GDB_ConvertRegisterNumber (lst ! 0) in
          if f = THREADCONTEXT_CONTROL_NONE then GDB_ReplyErrno E EINVAL s
          else
            case get_context E (selectedThreadId s) f s of
              (r, regs, s) \<Rightarrow>
                if g_R_FAILED E r then GDB_ReplyErrno E EPERM s
                else if f = THREADCONTEXT_CONTROL_CPU_GPRS \<or> f = THREADCONTEXT_CONTROL_CPU_SPRS
                then GDB_SendHexPacket E (le_bytes (tc_cpu regs ! unat n)) s
                else if f = THREADCONTEXT_CONTROL_FPU_GPRS then GDB_SendHexPacket E (le_bytes64 (tc_d regs ! unat n)) s
                else GDB_SendHexPacket E (le_bytes (tc_fps regs ! unat n)) s)"

definition GDB_HandleWriteRegister :: "'w gdb_env \<Rightarrow> 'w gdb_st \<Rightarrow> int \<times> 'w gdb_st" where
  "GDB_HandleWriteRegister E s =
     (let s = select_thread s in
      case GDB_ParseHexIntegerList (command_text s) 1 0x3D of
        None \<Rightarrow> GDB_ReplyErrno E EILSEQ s
      | Some (lst, valueStart) \<Rightarrow>
          if byte_at valueStart 0 \<noteq> 0x3D then GDB_ReplyErrno E EILSEQ s
          else
            let valueStart = drop 1 valueStart;
                (f, n) = GDB_ConvertRegisterNumber (lst ! 0);
                width = (if f = THREADCONTEXT_CONTROL_FPU_GPRS then 8 else 4);
                (value, k) = GDB_DecodeHex valueStart width
            in if f = THREADCONTEXT_CONTROL_NONE \<or> k \<noteq> width \<or> byte_at valueStart (2 * width) \<noteq> 0
               then GDB_ReplyErrno E EINVAL s
               else
                 case get_context E (selectedThreadId s) f s of
                   (r, regs, s) \<Rightarrow>
                     if g_R_FAILED E r then GDB_ReplyErrno E EPERM s
                     else
                       let regs =
                         (if f = THREADCONTEXT_CONTROL_CPU_GPRS \<or> f = THREADCONTEXT_CONTROL_CPU_SPRS
                          then regs\<lparr>tc_cpu := (tc_cpu regs)[unat n := word_at value 0]\<rparr>
                          else if f = THREADCONTEXT_CONTROL_FPU_GPRS
                          then regs\<lparr>tc_d := (tc_d regs)[unat n := word64_at value 0]\<rparr>
                          else regs\<lparr>tc_fps := (tc_fps regs)[unat n := word_at value 0]\<rparr>)
                       in case set_context E (selectedThreadId s) regs f s of
                            (r, s) \<Rightarrow> if g_R_FAILED E r then GDB_ReplyErrno E EPERM s else GDB_ReplyOk E s)"

end
