(* ===== verification/Gdb_Process.thy ===== *)
theory Gdb_Process
  imports Gdb_Threads
begin

text \<open>
  Attaching to a process and leaving it (\<open>gdb.c\<close>), requests of the target for the host
  (\<open>gdb/hio.c\<close>), and what the debugger notes of a debug event (\<open>GDB_PreprocessDebugEvent\<close> of \<open>gdb/debug.c\<close>).
  \<open>None\<close> is a call that does not return: a loop that goes on as long as the kernel gives results, or a
  failed assertion, which ends the module.
\<close>

section \<open>Requests of the target\<close>

abbreviation (input) sizeof_HioRequest :: nat where "sizeof_HioRequest \<equiv> 152"

text \<open>Fields of the request: the magic at 0, the name of the function at 8, the formats of the
  parameters at 25, the parameters from 40, the lengths of strings from 104, and the value returned,
  the error and the flag for Ctrl-C at 136, 144 and 148.\<close>

definition GDB_FetchPackedHioRequest :: "'w gdb_env \<Rightarrow> u32 \<Rightarrow> 'w gdb_st \<Rightarrow> bool \<times> 'w gdb_st" where
  "GDB_FetchPackedHioRequest E addr s =
     (case GDB_ReadTargetMemory E (currentHioRequest s) addr (of_nat sizeof_HioRequest) s of
        (tot, req, s) \<Rightarrow>
          if tot \<noteq> sizeof_HioRequest \<or> take 4 req \<noteq> chars ''GDB'' @ [0]
          then (False, s\<lparr>currentHioRequest := replicate sizeof_HioRequest 0, currentHioRequestTargetAddr := 0\<rparr>)
          else (True, s\<lparr>currentHioRequest := req, currentHioRequestTargetAddr := addr\<rparr>))"

definition GDB_IsHioInProgress :: "'a gdb_ctx_scheme \<Rightarrow> bool" where
  "GDB_IsHioInProgress s \<longleftrightarrow> currentHioRequestTargetAddr s \<noteq> 0"

text \<open>The parameters, as their formats say; \<open>nStr\<close> counts the strings.\<close>

fun hio_params :: "u8 list \<Rightarrow> nat \<Rightarrow> nat \<Rightarrow> nat \<Rightarrow> u8 list" where
  "hio_params req i nStr 0 = []"
| "hio_params req i nStr (Suc left) =
     (let c = byte_at req (25 + i);
          p = word64_at req (40 + 8 * i)
      in if c = 0 then []
         else if c = 0x69 \<or> c = 0x49 \<or> c = 0x70 then
           chars '','' @ fmt_hex 0 (unat (ucast p :: u32)) @ hio_params req (Suc i) nStr left
         else if c = 0x6C \<or> c = 0x4C then chars '','' @ fmt_hex 0 (unat p) @ hio_params req (Suc i) nStr left
         else if c = 0x73 then
           chars '','' @ fmt_hex 0 (unat (ucast p :: u32)) @ chars ''/'' @ fmt_hex 0 (unat (word_at req (104 + 4 * nStr)))
             @ hio_params req (Suc i) (Suc nStr) left
         else hio_params req (Suc i) nStr left)"

definition GDB_SendCurrentHioRequest :: "'w gdb_env \<Rightarrow> 'w gdb_st \<Rightarrow> int \<times> 'w gdb_st" where
  "GDB_SendCurrentHioRequest E s =
     GDB_SendPacket E
       (chars ''F'' @ upto_nul (drop 8 (currentHioRequest s)) @ hio_params (currentHioRequest s) 0 0 8) s"

definition GDB_ContinueExecution :: "'w gdb_env \<Rightarrow> 'w gdb_st \<Rightarrow> 'w gdb_st" where
  "GDB_ContinueExecution E s =
     (let s = s\<lparr>selectedThreadId := 0, selectedThreadIdForContinuing := 0\<rparr>;
          s = call_do E (GContinueDebugEvent (debug s) (continueFlags s)) s
      in s\<lparr>flags := flags s OR GDB_FLAG_PROCESS_CONTINUING\<rparr>)"

definition hio_set64 :: "nat \<Rightarrow> u64 \<Rightarrow> 'w gdb_st \<Rightarrow> 'w gdb_st" where
  "hio_set64 off v s = s\<lparr>currentHioRequest := overwrite (currentHioRequest s) off (le_bytes64 v)\<rparr>"

definition hio_set32 :: "nat \<Rightarrow> u32 \<Rightarrow> 'w gdb_st \<Rightarrow> 'w gdb_st" where
  "hio_set32 off v s = s\<lparr>currentHioRequest := overwrite (currentHioRequest s) off (le_bytes v)\<rparr>"

definition hio_set8 :: "nat \<Rightarrow> u8 \<Rightarrow> 'w gdb_st \<Rightarrow> 'w gdb_st" where
  "hio_set8 off v s = s\<lparr>currentHioRequest := overwrite (currentHioRequest s) off [v]\<rparr>"

text \<open>After the value: the error and the flag, and whether they can be read. When the number cannot be
  read, \<open>errno_\<close> is not set, and the value stored is left out.\<close>

definition hio_errno :: "u8 list \<Rightarrow> 'w gdb_st \<Rightarrow> bool \<times> 'w gdb_st" where
  "hio_errno pos s =
     (if byte_at pos 0 = 0 then (True, s)
      else
        case GDB_ParseHexIntegerList (drop 1 pos) 1 0x2C of
          None \<Rightarrow> (False, s)
        | Some (l, pos) \<Rightarrow>
            let s = hio_set32 144 (l ! 0) s in
            if byte_at pos 0 = 0 then (True, s)
            else if byte_at pos 0 \<noteq> 0x43 then (False, s)
            else (True, hio_set8 148 1 s))"

definition GDB_HandleHioReply :: "'w gdb_env \<Rightarrow> 'w gdb_st \<Rightarrow> (int \<times> 'w gdb_st) option" where
  "GDB_HandleHioReply E s =
     (if \<not> GDB_IsHioInProgress s then Some (GDB_ReplyErrno E EPERM s)
      else
        let c = byte_at (command_text s) 0 in
        if c = 0 \<or> c = 0x2C then Some (GDB_ReplyErrno E EILSEQ s)
        else
          let sgn = (if c = 0x2D then - 1 else 1 :: u64);
              pos = (if c = 0x2D \<or> c = 0x2B then drop 1 (command_text s) else command_text s);
              s = hio_set64 136 sgn s
          in case GDB_ParseHexIntegerList64 pos 1 0x2C of
               None \<Rightarrow> Some (GDB_ReplyErrno E EILSEQ s)
             | Some (l, pos) \<Rightarrow>
                 let s = hio_set8 148 0 (hio_set32 144 0 (hio_set64 136 (sgn * (l ! 0)) s)) in
                 (case hio_errno pos s of (ok, s) \<Rightarrow>
                    if \<not> ok then Some (GDB_ReplyErrno E EILSEQ s)
                    else
                      let s = s\<lparr>currentHioRequest := overwrite (currentHioRequest s) 25 (replicate 9 0)\<rparr> in
                      do {
                        (tot, s) \<leftarrow> GDB_WriteTargetMemory E (currentHioRequest s) (currentHioRequestTargetAddr s)
                                      (of_nat sizeof_HioRequest) s;
                        let s = s\<lparr>currentHioRequest := replicate sizeof_HioRequest 0, currentHioRequestTargetAddr := 0\<rparr>;
                        let s = GDB_ContinueExecution E s;
                        Some (if tot = sizeof_HioRequest then (0, s) else GDB_ReplyErrno E EFAULT s)
                      }))"

section \<open>Events\<close>

definition get_event :: "'w gdb_env \<Rightarrow> 'w gdb_st \<Rightarrow> Result \<times> DebugEventInfo \<times> 'w gdb_st" where
  "get_event E s = (case g_event E (debug s) (world s) of ((r, ev), w) \<Rightarrow> (r, ev, s\<lparr>world := w\<rparr>))"

text \<open>The place of a thread among the known ones.\<close>

definition thread_index :: "u32 \<Rightarrow> 'a gdb_ctx_scheme \<Rightarrow> nat" where
  "thread_index t s = length (takeWhile (\<lambda>x. fst x \<noteq> t) (take (nbThreads s) (threadInfos s)))"

text \<open>The entries behind move up by one, and the last one is cleared.\<close>

definition remove_thread :: "nat \<Rightarrow> 'w gdb_st \<Rightarrow> 'w gdb_st" where
  "remove_thread i s =
     s\<lparr>threadInfos := (move_down i (nbThreads s - 1 - i) (threadInfos s))[nbThreads s - 1 := (0, 0)],
       nbThreads := nbThreads s - 1\<rparr>"

definition GDB_PreprocessDebugEvent :: "'w gdb_env \<Rightarrow> DebugEventInfo \<Rightarrow> 'w gdb_st \<Rightarrow> (DebugEventInfo \<times> 'w gdb_st) option" where
  "GDB_PreprocessDebugEvent E info s =
     (case ev_type info of
        DBGEVENT_ATTACH_PROCESS \<Rightarrow> Some (info, s\<lparr>pid := ev_process_id info\<rparr>)
      | DBGEVENT_ATTACH_THREAD \<Rightarrow>
          if nbThreads s = MAX_DEBUG_THREAD then None
          else Some (info, s\<lparr>totalNbCreatedThreads := totalNbCreatedThreads s + 1,
                 threadInfos := (threadInfos s)[nbThreads s := (ev_thread_id info, ev_thread_local_storage info)],
                 nbThreads := nbThreads s + 1\<rparr>)
      | DBGEVENT_EXIT_THREAD \<Rightarrow>
          let i = thread_index (ev_thread_id info) s in
          if i = nbThreads s then None else Some (info, remove_thread i s)
      | DBGEVENT_EXIT_PROCESS \<Rightarrow>
          Some (info, s\<lparr>processEnded := True, processExited := (ev_exit_process_reason info = EXITPROCESS_EVENT_EXIT)\<rparr>)
      | DBGEVENT_OUTPUT_STRING \<Rightarrow>
          if ev_string_addr info \<ge> 0xFFFFFFFE then
            Some (zero_event\<lparr>ev_type := (if ev_string_addr info = 0xFFFFFFFF then DBGEVENT_SYSCALL_OUT else DBGEVENT_SYSCALL_IN),
                    ev_thread_id := ev_thread_id info, ev_flags := 1, ev_syscall := ev_string_size info\<rparr>, s)
          else if ev_string_size info = 0 then
            case GDB_FetchPackedHioRequest E (ev_string_addr info) s of (_, s) \<Rightarrow> Some (info, s)
          else Some (info, s)
      | DBGEVENT_EXCEPTION \<Rightarrow>
          if ev_exception_type info = EXCEVENT_UNDEFINED_INSTRUCTION then
            case get_context E (ev_thread_id info) THREADCONTEXT_CONTROL_CPU_SPRS s of
              (r, regs, s) \<Rightarrow>
                if \<not> g_R_FAILED E r \<and> tc_cpu regs ! 16 AND 0x20 \<noteq> 0 then
                  case set_context E (ev_thread_id info) (regs\<lparr>tc_cpu := (tc_cpu regs)[15 := tc_cpu regs ! 15 + 2]\<rparr>)
                         THREADCONTEXT_CONTROL_CPU_SPRS s of
                    (_, s) \<Rightarrow> Some (info, s)
                else Some (info, s)
          else Some (info, s)
      | _ \<Rightarrow> Some (info, s))"

section \<open>Attaching and leaving\<close>

abbreviation (input) default_continue_flags :: u32 where "default_continue_flags \<equiv> 3"

definition zero_ctx :: gdb_ctx where
  "zero_ctx = \<lparr>ctx_lock = 0, localPort = 0, flags = 0, gdb_state = GDB_STATE_DISCONNECTED, noAckSent = False, pid = 0,
     debug = 0, launchedProgramInfo = (0, 0), launchedProgramLaunchFlags = 0, threadInfos = replicate MAX_DEBUG_THREAD (0, 0),
     nbThreads = 0, currentThreadId = 0, selectedThreadId = 0, selectedThreadIdForContinuing = 0, totalNbCreatedThreads = 0,
     processAttachedEvent = 0, continuedEvent = 0, eventToWaitFor = 0, multiprocessExtEnabled = False, catchThreadEvents = False,
     processEnded = False, processExited = False, latestDebugEvent = zero_event, continueFlags = 0, svcMask = replicate 8 0,
     nbBreakpoints = 0, breakpoints = replicate MAX_BREAKPOINT zero_breakpoint, nbWatchpoints = 0, watchpoints = [0, 0],
     currentHioRequestTargetAddr = 0, currentHioRequest = replicate sizeof_HioRequest 0,
     openTioFileInfos = replicate MAX_TIO_OPEN_FILE zero_tio, numOpenTioFiles = 0, enableExternalMemoryAccess = False,
     commandData = None, commandEnd = 0, latestSentPacketSize = 0, buffer = replicate (GDB_BUF_LEN + 4) 0,
     threadListData = replicate 0x800 0, threadListDataPos = 0, memoryOsInfoXmlData = replicate 0x800 0,
     processesOsInfoXmlData = replicate 0x1800 0\<rparr>"

text \<open>The two events are made by the kernel.\<close>

definition GDB_InitializeContext :: "Handle \<Rightarrow> Handle \<Rightarrow> gdb_ctx" where
  "GDB_InitializeContext continued attached =
     zero_ctx\<lparr>continuedEvent := continued, processAttachedEvent := attached, eventToWaitFor := attached,
       continueFlags := default_continue_flags\<rparr>"

definition GDB_FinalizeContext :: "'w gdb_env \<Rightarrow> 'w gdb_st \<Rightarrow> 'w gdb_st" where
  "GDB_FinalizeContext E s =
     call_do E (GCloseHandle (continuedEvent s)) (call_do E (GCloseHandle (processAttachedEvent s))
       (call_do E (GClearEvent (processAttachedEvent s)) s))"

text \<open>The events up to the break that tells that all has been reported. The loop goes on only while
  neither the type nor the word where an exception has its type says so.\<close>

partial_function (option) attach_loop :: "'w gdb_env \<Rightarrow> 'w gdb_st \<Rightarrow> 'w gdb_st option" where
  "attach_loop E s =
     (let (r, info, s) = get_event E s in
      let s = s\<lparr>latestDebugEvent := info\<rparr> in
      if \<not> g_R_FAILED E r \<and> ev_type info \<noteq> DBGEVENT_EXCEPTION \<and> ev_exception_type info \<noteq> EXCEVENT_ATTACH_BREAK then
        do {
          (info, s) \<leftarrow> GDB_PreprocessDebugEvent E info s;
          attach_loop E (call_do E (GContinueDebugEvent (debug s) (continueFlags s)) (s\<lparr>latestDebugEvent := info\<rparr>))
        }
      else Some s)"

fun attach_start :: "'w gdb_env \<Rightarrow> nat \<Rightarrow> 'w gdb_st \<Rightarrow> (Result \<times> 'w gdb_st) option" where
  "attach_start E 0 s =
     (case call_res E (GWaitSynchronization (debug s)) s of
        (r, s) \<Rightarrow>
          if g_R_FAILED E r then Some (r, s)
          else
            case get_event E s of
              (r, info, s) \<Rightarrow>
                let s = s\<lparr>latestDebugEvent := info\<rparr> in
                if g_R_FAILED E r then Some (r, s)
                else do { (info, s) \<leftarrow> GDB_PreprocessDebugEvent E info s; Some (r, s\<lparr>latestDebugEvent := info\<rparr>) })"
| "attach_start E (Suc i) s =
     (case get_event E s of
        (r, info, s) \<Rightarrow>
          let s = s\<lparr>latestDebugEvent := info\<rparr> in
          if g_R_FAILED E r then Some (r, s)
          else
            do {
              (info, s) \<leftarrow> GDB_PreprocessDebugEvent E info s;
              let s = s\<lparr>latestDebugEvent := info\<rparr>;
              let (r, s) = call_res E (GContinueDebugEvent (debug s) (continueFlags s)) s;
              if g_R_FAILED E r then Some (r, s) else attach_start E i s
            })"

definition attached :: "'w gdb_env \<Rightarrow> 'w gdb_st \<Rightarrow> Result \<times> 'w gdb_st" where
  "attached E s =
     (case call_res E (GSignalEvent (processAttachedEvent s)) s of
        (r, s) \<Rightarrow> (r, if \<not> g_R_FAILED E r then s\<lparr>gdb_state := GDB_STATE_ATTACHED\<rparr> else s))"

definition GDB_AttachToProcess :: "'w gdb_env \<Rightarrow> 'w gdb_st \<Rightarrow> (Result \<times> 'w gdb_st) option" where
  "GDB_AttachToProcess E s =
     (if \<not> has_ctx_flag GDB_FLAG_ATTACHED_AT_START s then
        case call_out E (GDebugActiveProcess (pid s)) s of
          (r, h, s) \<Rightarrow>
            let s = s\<lparr>debug := ucast h\<rparr> in
            if g_R_FAILED E r then Some (r, s)
            else do { s \<leftarrow> attach_loop E (s\<lparr>processExited := False, processEnded := False\<rparr>); Some (attached E s) }
      else
        do {
          (r, s) \<leftarrow> attach_start E 2 (s\<lparr>processExited := False, processEnded := False\<rparr>);
          Some (if g_R_FAILED E r then (r, s) else attached E s)
        })"

partial_function (option) drain_events :: "'w gdb_env \<Rightarrow> 'w gdb_st \<Rightarrow> 'w gdb_st option" where
  "drain_events E s =
     (let (r, _, s) = get_event E s in if \<not> g_R_FAILED E r then drain_events E s else Some s)"

partial_function (option) drain_continues :: "'w gdb_env \<Rightarrow> 'w gdb_st \<Rightarrow> 'w gdb_st option" where
  "drain_continues E s =
     (let (r, s) = call_res E (GContinueDebugEvent (debug s) (continueFlags s)) s in
      if \<not> g_R_FAILED E r then drain_continues E s else Some s)"

definition detach_breakpoints :: "'w gdb_env \<Rightarrow> 'w gdb_st \<Rightarrow> 'w gdb_st" where
  "detach_breakpoints E s =
     (let s = fold (\<lambda>i s. if persistent (breakpoints s ! i) then s else snd (GDB_DisableBreakpointById E i s))
                [0..<nbBreakpoints s] s
      in s\<lparr>breakpoints := replicate MAX_BREAKPOINT zero_breakpoint, nbBreakpoints := 0\<rparr>)"

text \<open>Each removal already moves the entries and changes the number the loop compares with.\<close>

definition detach_watchpoints :: "'w gdb_env \<Rightarrow> 'w gdb_st \<Rightarrow> 'w gdb_st" where
  "detach_watchpoints E s =
     (let s = fold (\<lambda>i s. if i < unat (nbWatchpoints s) then
                            let s = snd (GDB_RemoveWatchpoint E (watchpoints s ! i) WATCHPOINT_DISABLED s)
                            in s\<lparr>watchpoints := (watchpoints s)[i := 0]\<rparr>
                          else s) [0, 1] s
      in s\<lparr>nbWatchpoints := 0\<rparr>)"

text \<open>The context after the process has been left.\<close>

definition forget_process :: "'w gdb_st \<Rightarrow> 'w gdb_st" where
  "forget_process s =
     s\<lparr>debug := 0, launchedProgramInfo := (0, 0), launchedProgramLaunchFlags := 0, eventToWaitFor := processAttachedEvent s,
       continueFlags := default_continue_flags, pid := 0, currentThreadId := 0, selectedThreadId := 0,
       selectedThreadIdForContinuing := 0, nbThreads := 0, totalNbCreatedThreads := 0,
       threadInfos := replicate MAX_DEBUG_THREAD (0, 0), currentHioRequestTargetAddr := 0,
       currentHioRequest := replicate sizeof_HioRequest 0\<rparr>"

definition GDB_DetachFromProcess :: "'w gdb_env \<Rightarrow> 'w gdb_st \<Rightarrow> 'w gdb_st option" where
  "GDB_DetachFromProcess E s =
     (let s = detach_watchpoints E (detach_breakpoints E s);
          s = call_do E (GKernelSetState 0x10002 [pid s, 0]) s;
          s = s\<lparr>svcMask := replicate 8 0, threadListData := replicate 0x800 0, threadListDataPos := 0, continueFlags := 0\<rparr>
      in do {
           s \<leftarrow> drain_events E s;
           s \<leftarrow> drain_continues E s;
           let s = (if has_ctx_flag GDB_FLAG_TERMINATE_PROCESS s then
                      (call_do E (GTerminateDebugProcess (debug s)) s)\<lparr>processEnded := True, processExited := False\<rparr>
                    else s);
           s \<leftarrow> drain_events E s;
           s \<leftarrow> drain_continues E s;
           Some (forget_process (call_do E (GCloseHandle (debug s)) s))
         })"

definition GDB_CreateProcess :: "'w gdb_env \<Rightarrow> u64 \<times> u32 \<Rightarrow> u32 \<Rightarrow> 'w gdb_st \<Rightarrow> (Result \<times> 'w gdb_st) option" where
  "GDB_CreateProcess E progInfo launchFlags s =
     (case call_out E (GLaunchTitleDebug (fst progInfo) (snd progInfo) launchFlags) (s\<lparr>debug := 0\<rparr>) of
        (r, h, s) \<Rightarrow>
          if g_R_FAILED E r then Some (r, s)
          else GDB_AttachToProcess E
                 (s\<lparr>flags := flags s OR (GDB_FLAG_CREATED OR GDB_FLAG_ATTACHED_AT_START), debug := ucast h,
                    launchedProgramInfo := progInfo, launchedProgramLaunchFlags := launchFlags\<rparr>))"

definition GDB_HandleEnableExtendedMode :: "'w gdb_env \<Rightarrow> 'w gdb_st \<Rightarrow> int \<times> 'w gdb_st" where
  "GDB_HandleEnableExtendedMode E s =
     (if unat (localPort s) \<ge> 4000 \<and> unat (localPort s) < 4000 + MAX_DEBUG
      then GDB_ReplyOk E (s\<lparr>flags := flags s OR GDB_FLAG_EXTENDED_REMOTE\<rparr>)
      else GDB_ReplyEmpty E s)"

end
