(* ===== verification/Gdb_Debug.thy ===== *)
theory Gdb_Debug
  imports Gdb_Process
begin

text \<open>
  Running and stopping the target (\<open>gdb/debug.c\<close>): the commands that create, attach, leave, end, stop
  and continue a process, and the replies that tell why it has stopped.
\<close>

section \<open>Stop replies\<close>

definition bswap32 :: "u32 \<Rightarrow> u32" where
  "bswap32 w = word_at (rev (le_bytes w)) 0"

definition bswap64 :: "u64 \<Rightarrow> u64" where
  "bswap64 w = word64_at (rev (le_bytes64 w)) 0"

definition reg_text :: "nat \<Rightarrow> u32 \<Rightarrow> u8 list" where
  "reg_text i v = fmt_hex 0 i @ chars '':'' @ fmt_hex 8 (unat (bswap32 v)) @ chars '';''"

definition reg64_text :: "nat \<Rightarrow> u64 \<Rightarrow> u8 list" where
  "reg64_text i v = fmt_hex 0 i @ chars '':'' @ fmt_hex 16 (unat (bswap64 v)) @ chars '';''"

text \<open>The signal, the thread, its core and its registers.\<close>

definition GDB_ParseCommonThreadInfo :: "'w gdb_env \<Rightarrow> nat \<Rightarrow> 'w gdb_st \<Rightarrow> u8 list \<times> 'w gdb_st" where
  "GDB_ParseCommonThreadInfo E sig s =
     (case get_context E (currentThreadId s) THREADCONTEXT_CONTROL_ALL s of
        (r, regs, s) \<Rightarrow>
          let out = chars ''T'' @ fmt_hex 2 sig @ chars ''thread:'' @ GDB_EncodeThreadId (currentThreadId s) s @ chars '';'' in
          if g_R_FAILED E r then (out, s)
          else
            case call_out E (GGetDebugThreadParam (debug s) (currentThreadId s) DBGTHREAD_PARAMETER_CPU_CREATOR) s of
              (r, core, s) \<Rightarrow>
                (out @ (if \<not> g_R_FAILED E r then chars ''core:'' @ fmt_hex 0 (unat (ucast core :: u32)) @ chars '';'' else [])
                   @ concat (map (\<lambda>i. reg_text i (tc_cpu regs ! i)) [0..<13])
                   @ reg_text 13 (tc_cpu regs ! 13) @ reg_text 14 (tc_cpu regs ! 14) @ reg_text 15 (tc_cpu regs ! 15)
                   @ reg_text 25 (tc_cpu regs ! 16)
                   @ concat (map (\<lambda>i. reg64_text (26 + i) (tc_d regs ! i)) [0..<16])
                   @ reg_text 42 (tc_fps regs ! 0) @ reg_text 43 (tc_fps regs ! 1), s))"

definition send_stop :: "'w gdb_env \<Rightarrow> nat \<Rightarrow> u8 list \<Rightarrow> 'w gdb_st \<Rightarrow> int \<times> 'w gdb_st" where
  "send_stop E sig suffix s =
     (case GDB_ParseCommonThreadInfo E sig s of (out, s) \<Rightarrow> GDB_SendFormattedPacket E (out @ suffix) s)"

definition process_suffix :: "'a gdb_ctx_scheme \<Rightarrow> u8 list" where
  "process_suffix s =
     (if multiprocessExtEnabled s \<and> gdb_state s = GDB_STATE_ATTACHED
      then chars '';process:'' @ fmt_hex 0 (unat (GDB_ConvertFromRealPid (pid s))) else [])"

text \<open>Whether a thread ends by itself, and the signal that stands for it.\<close>

fun exit_signal :: "exit_thread_reason \<Rightarrow> nat option" where
  "exit_signal EXITTHREAD_EVENT_EXIT = Some 0"
| "exit_signal EXITTHREAD_EVENT_TERMINATE = Some SIGTERM"
| "exit_signal EXITTHREAD_EVENT_EXIT_PROCESS = None"
| "exit_signal EXITTHREAD_EVENT_TERMINATE_PROCESS = None"

definition exit_reply :: "exit_process_reason \<Rightarrow> u8 list" where
  "exit_reply reason = (if reason = EXITPROCESS_EVENT_EXIT then chars ''W00'' else chars ''X0f'')"

definition watch_prefix :: "WatchpointKind \<Rightarrow> u8 list" where
  "watch_prefix k = (case k of WATCHPOINT_DISABLED \<Rightarrow> [] | WATCHPOINT_READ \<Rightarrow> chars ''r'' | WATCHPOINT_WRITE \<Rightarrow> []
                     | WATCHPOINT_READWRITE \<Rightarrow> chars ''a'')"

definition stop_at_point :: "'w gdb_env \<Rightarrow> u8 list \<Rightarrow> DebugEventInfo \<Rightarrow> 'w gdb_st \<Rightarrow> int \<times> 'w gdb_st" where
  "stop_at_point E behind info s =
     (let s = s\<lparr>currentThreadId := ev_thread_id info\<rparr> in
      case ev_stop_point_type info of
        STOPPOINT_WATCHPOINT \<Rightarrow>
          let kind = GDB_GetWatchpointKind (ev_fault_information info) s;
              s = (if kind = WATCHPOINT_DISABLED
                   then snd (GDB_SendDebugString E (chars ''Warning: unknown watchpoint encountered!'' @ [0x0A]) behind s) else s)
          in send_stop E SIGTRAP
               (watch_prefix kind @ chars ''watch:'' @ fmt_hex 8 (unat (ev_fault_information info)) @ chars '';'') s
      | STOPPOINT_OTHER \<Rightarrow> (0, s)
      | _ \<Rightarrow> send_stop E SIGTRAP (chars ''swbreak:;'') s)"

text \<open>The target has been stopped by the debugger: the current thread is changed only to one that runs.\<close>

definition stop_by_break :: "'w gdb_env \<Rightarrow> DebugEventInfo \<Rightarrow> 'w gdb_st \<Rightarrow> int \<times> 'w gdb_st" where
  "stop_by_break E info s =
     (let threadIds = filter (\<lambda>t. sint t > 0) (take 4 (ev_break_thread_ids info));
          (t, s) = (if threadIds \<noteq> [] then GDB_GetCurrentThreadFromList E threadIds s else GDB_GetCurrentThread E s);
          (_, m, s) = call_out E (GGetDebugThreadParam (debug s) t DBGTHREAD_PARAMETER_SCHEDULING_MASK_LOW) s;
          s = (if m = 1 \<or> currentThreadId s = 0 then s\<lparr>currentThreadId := t\<rparr> else s)
      in if currentThreadId s = 0 then GDB_SendPacket E (chars ''S02'') s else send_stop E SIGINT [] s)"

definition stop_by_exception :: "'w gdb_env \<Rightarrow> u8 list \<Rightarrow> DebugEventInfo \<Rightarrow> 'w gdb_st \<Rightarrow> int \<times> 'w gdb_st" where
  "stop_by_exception E behind info s =
     (case ev_exception_type info of
        EXCEVENT_ATTACH_BREAK \<Rightarrow>
          let s = (if currentThreadId s = 0 then case GDB_GetCurrentThread E s of (t, s) \<Rightarrow> s\<lparr>currentThreadId := t\<rparr> else s)
          in if currentThreadId s \<noteq> 0 then send_stop E 0 [] s else GDB_SendPacket E (chars ''S00'') s
      | EXCEVENT_STOP_POINT \<Rightarrow> stop_at_point E behind info s
      | EXCEVENT_USER_BREAK \<Rightarrow> send_stop E SIGINT [] (s\<lparr>currentThreadId := ev_thread_id info\<rparr>)
      | EXCEVENT_DEBUGGER_BREAK \<Rightarrow> stop_by_break E info s
      | EXCEVENT_UNDEFINED_INSTRUCTION \<Rightarrow> send_stop E SIGILL [] (s\<lparr>currentThreadId := ev_thread_id info\<rparr>)
      | EXCEVENT_UNDEFINED_SYSCALL \<Rightarrow> send_stop E SIGSYS [] (s\<lparr>currentThreadId := ev_thread_id info\<rparr>)
      | _ \<Rightarrow> send_stop E SIGSEGV [] (s\<lparr>currentThreadId := ev_thread_id info\<rparr>))"

text \<open>The text the target writes, in parts that fit into a packet.\<close>

function output_loop :: "'w gdb_env \<Rightarrow> u32 \<Rightarrow> u32 \<Rightarrow> u32 \<Rightarrow> int \<Rightarrow> 'w gdb_st \<Rightarrow> int \<times> 'w gdb_st" where
  "output_loop E addr remaining sent tot s =
     (if remaining > 0 then
        let pending = (if (of_nat ((GDB_BUF_LEN - 1) div 2) :: u32) < remaining then of_nat ((GDB_BUF_LEN - 1) div 2) else remaining);
            (res, s) = GDB_SendMemory E (Some (chars ''O'')) (addr + sent) pending s
        in if res < 0 \<or> (word_of_int res :: u32) \<noteq> 5 + 2 * pending then (tot, s)
           else output_loop E addr (remaining - pending) (sent + pending) (tot + res) s
      else (tot, s))"
  by pat_completeness auto
termination
  by (relation "measure (\<lambda>(_, _, remaining, _, _, _). unat remaining)")
     (auto simp: word_less_nat_alt unat_sub_if' split: if_splits)

declare output_loop.simps [simp del]

text \<open>\<open>behind\<close> is what lies behind a local text on the stack (see \<open>GDB_SendDebugString\<close>).\<close>

definition GDB_SendStopReply :: "'w gdb_env \<Rightarrow> u8 list \<Rightarrow> DebugEventInfo \<Rightarrow> 'w gdb_st \<Rightarrow> int \<times> 'w gdb_st" where
  "GDB_SendStopReply E behind info s =
     (case ev_type info of
        DBGEVENT_ATTACH_THREAD \<Rightarrow>
          if has_ctx_flag GDB_FLAG_ATTACHED_AT_START s \<and> totalNbCreatedThreads s = 1
          then send_stop E SIGINT [] (s\<lparr>currentThreadId := ev_thread_id info\<rparr>)
          else if ev_creator_thread_id info = 0 \<or> \<not> catchThreadEvents s then (0, s)
          else GDB_SendPacket E (take 10 (chars ''T05create:;'')) (s\<lparr>currentThreadId := ev_thread_id info\<rparr>)
      | DBGEVENT_EXIT_THREAD \<Rightarrow>
          (case (catchThreadEvents s, exit_signal (ev_exit_thread_reason info)) of
             (True, Some sig) \<Rightarrow>
               GDB_SendFormattedPacket E (chars ''w'' @ fmt_hex 2 sig @ chars '';'' @ fmt_hex 0 (unat (ev_thread_id info))) s
           | _ \<Rightarrow> (0, s))
      | DBGEVENT_EXIT_PROCESS \<Rightarrow>
          GDB_SendFormattedPacket E (exit_reply (ev_exit_process_reason info) @ process_suffix s) s
      | DBGEVENT_EXCEPTION \<Rightarrow> stop_by_exception E behind info s
      | DBGEVENT_SYSCALL_IN \<Rightarrow>
          send_stop E SIGTRAP (chars ''syscall_entry:'' @ fmt_hex 2 (unat (ev_syscall info)) @ chars '';'')
            (s\<lparr>currentThreadId := ev_thread_id info\<rparr>)
      | DBGEVENT_SYSCALL_OUT \<Rightarrow>
          send_stop E SIGTRAP (chars ''syscall_return:'' @ fmt_hex 2 (unat (ev_syscall info)) @ chars '';'')
            (s\<lparr>currentThreadId := ev_thread_id info\<rparr>)
      | DBGEVENT_OUTPUT_STRING \<Rightarrow>
          if \<not> GDB_IsHioInProgress s then output_loop E (ev_string_addr info) (ev_string_size info) 0 0 s
          else GDB_SendCurrentHioRequest E s
      | _ \<Rightarrow> (0, s))"

section \<open>Debug events\<close>

definition continue_automatically :: "DebugEventInfo \<Rightarrow> 'a gdb_ctx_scheme \<Rightarrow> bool" where
  "continue_automatically info s \<longleftrightarrow>
     (ev_type info = DBGEVENT_OUTPUT_STRING \<and> \<not> GDB_IsHioInProgress s) \<or>
     ev_type info = DBGEVENT_ATTACH_PROCESS \<or>
     (ev_type info = DBGEVENT_ATTACH_THREAD \<and> (ev_creator_thread_id info = 0 \<or> \<not> catchThreadEvents s)) \<or>
     (ev_type info = DBGEVENT_EXIT_THREAD \<and> (exit_signal (ev_exit_thread_reason info) = None \<or> \<not> catchThreadEvents s)) \<or>
     ev_type info = DBGEVENT_EXIT_PROCESS \<or> ev_flags info AND 1 = 0"

definition GDB_HandleDebugEvents :: "'w gdb_env \<Rightarrow> u8 list \<Rightarrow> 'w gdb_st \<Rightarrow> (int \<times> 'w gdb_st) option" where
  "GDB_HandleDebugEvents E behind s =
     (if gdb_state s = GDB_STATE_DETACHING then Some (- 1, s)
      else
        case get_event E s of
          (rdbg, info, s) \<Rightarrow>
            if g_R_FAILED E rdbg then Some (- 1, s)
            else
              do {
                (info, s) \<leftarrow> GDB_PreprocessDebugEvent E info s;
                Some (if continue_automatically info s then
                        let (ret, s) = GDB_SendStopReply E behind info s;
                            (r, s) = (if ev_flags info AND 1 \<noteq> 0
                                      then call_res E (GContinueDebugEvent (debug s) (continueFlags s)) s else (0, s))
                        in (if r = 0xD8A02008 then - 2 else - ret - 3, s)
                      else if processEnded s then (- 2, s)
                      else
                        case GDB_SendStopReply E behind info (s\<lparr>latestDebugEvent := info\<rparr>) of
                          (ret, s) \<Rightarrow> (ret, s\<lparr>flags := flags s AND NOT GDB_FLAG_PROCESS_CONTINUING\<rparr>))
              })"

section \<open>Commands\<close>

text \<open>The debugger tells the thread that watches the events, waits for it, and then leaves the process.\<close>

definition GDB_DetachImmediatelyExtended :: "'w gdb_env \<Rightarrow> 'w gdb_st \<Rightarrow> 'w gdb_st option" where
  "GDB_DetachImmediatelyExtended E s =
     (let s = s\<lparr>gdb_state := GDB_STATE_DETACHING\<rparr>;
          s = call_do E (GClearEvent (processAttachedEvent s)) s;
          s = s\<lparr>eventToWaitFor := processAttachedEvent s\<rparr>;
          s = call_do E (GClearEvent (statusUpdateReceived s)) s;
          s = call_do E (GSignalEvent (statusUpdated s)) s;
          s = call_do E (GWaitSynchronization (statusUpdateReceived s)) s
      in do {
           s \<leftarrow> GDB_DetachFromProcess E s;
           Some (s\<lparr>flags := flags s AND GDB_FLAG_PROC_RESTART_MASK\<rparr>)
         })"

text \<open>At most three arguments in hexadecimal digits, or the error.\<close>

fun run_args :: "nat \<Rightarrow> u8 list \<Rightarrow> int + u8 list list" where
  "run_args 0 pos = Inr []"
| "run_args (Suc n) pos =
     (if byte_at pos 0 = 0 then Inr (replicate (Suc n) (replicate 32 0))
      else
        let dist = find_char pos [0x3B] in
        if dist < 2 \<or> dist mod 2 = 1 then Inl EILSEQ
        else if dist div 2 > 16 then Inl EINVAL
        else
          let (d, k) = GDB_DecodeHex pos (dist div 2) in
          if k = 0 then Inl EILSEQ
          else
            case run_args n (if byte_at pos dist = 0 then drop dist pos else drop (dist + 1) pos) of
              Inl e \<Rightarrow> Inl e
            | Inr rest \<Rightarrow> Inr (overwrite (replicate 32 0) 0 d # rest))"

definition parse_run :: "u8 list \<Rightarrow> int + u64 \<times> u32 \<times> u32" where
  "parse_run pos =
     (case run_args 3 pos of
        Inl e \<Rightarrow> Inl e
      | Inr args \<Rightarrow>
          if byte_at (args ! 0) 0 = 0 then Inl EINVAL
          else
            case GDB_ParseIntegerList64 (args ! 0) 1 0 0 16 False of
              None \<Rightarrow> Inl EINVAL
            | Some (t, _) \<Rightarrow>
                let media = (if byte_at (args ! 1) 0 \<noteq> 0
                             then map_option (\<lambda>(l, _). l ! 0) (GDB_ParseIntegerList (args ! 1) 1 0 0 16 True) else Some 0);
                    launch = (if byte_at (args ! 2) 0 \<noteq> 0
                              then map_option (\<lambda>(l, _). l ! 0) (GDB_ParseIntegerList (args ! 2) 1 0 0 16 True) else Some 2)
                in (case (media, launch) of
                      (Some m, Some f) \<Rightarrow> if m \<ge> 0x100 then Inl EINVAL else Inr (t ! 0, m, f)
                    | _ \<Rightarrow> Inl EINVAL))"

text \<open>Without arguments the text is NULL, and reading it is a fault.\<close>

definition GDB_HandleVerboseRun :: "'w gdb_env \<Rightarrow> u8 list \<Rightarrow> 'w gdb_st \<Rightarrow> (int \<times> 'w gdb_st) option" where
  "GDB_HandleVerboseRun E behind s =
     (if \<not> has_ctx_flag GDB_FLAG_EXTENDED_REMOTE s then Some (GDB_ReplyErrno E EPERM s)
      else
        do {
          pos \<leftarrow> commandData s;
          case parse_run pos of
            Inl e \<Rightarrow> Some (GDB_ReplyErrno E e s)
          | Inr (titleId, mediaType, launchFlags) \<Rightarrow>
              do {
                (r, s) \<leftarrow> GDB_CreateProcess E (titleId, mediaType) launchFlags s;
                if g_R_FAILED E r then
                  do {
                    s \<leftarrow> (if debug s \<noteq> 0 then GDB_DetachImmediatelyExtended E s else Some s);
                    Some (GDB_ReplyErrno E EPERM s)
                  }
                else Some (GDB_SendStopReply E behind (latestDebugEvent s) s)
              }
        })"

definition GDB_HandleRestart :: "'w gdb_env \<Rightarrow> 'w gdb_st \<Rightarrow> (int \<times> 'w gdb_st) option" where
  "GDB_HandleRestart E s =
     (if \<not> has_ctx_flag GDB_FLAG_EXTENDED_REMOTE s \<or> \<not> has_ctx_flag GDB_FLAG_CREATED s
      then Some (GDB_ReplyErrno E EPERM s)
      else
        let progInfo = launchedProgramInfo s;
            launchFlags = launchedProgramLaunchFlags s
        in do {
             s \<leftarrow> GDB_DetachImmediatelyExtended E (s\<lparr>flags := flags s OR GDB_FLAG_TERMINATE_PROCESS\<rparr>);
             (r, s) \<leftarrow> GDB_CreateProcess E progInfo launchFlags s;
             s \<leftarrow> (if g_R_FAILED E r \<and> debug s \<noteq> 0 then GDB_DetachImmediatelyExtended E s else Some s);
             Some (0, s)
           })"

definition GDB_HandleVerboseAttach :: "'w gdb_env \<Rightarrow> u8 list \<Rightarrow> 'w gdb_st \<Rightarrow> (int \<times> 'w gdb_st) option" where
  "GDB_HandleVerboseAttach E behind s =
     (if \<not> has_ctx_flag GDB_FLAG_EXTENDED_REMOTE s then Some (GDB_ReplyErrno E EPERM s)
      else
        do {
          pos \<leftarrow> commandData s;
          case GDB_ParseHexIntegerList pos 1 0 of
            None \<Rightarrow> Some (GDB_ReplyErrno E EILSEQ s)
          | Some (l, _) \<Rightarrow>
              do {
                (r, s) \<leftarrow> GDB_AttachToProcess E (s\<lparr>pid := GDB_ConvertToRealPid (l ! 0)\<rparr>);
                if g_R_FAILED E r then
                  do { s \<leftarrow> GDB_DetachImmediatelyExtended E s; Some (GDB_ReplyErrno E EPERM s) }
                else Some (GDB_SendStopReply E behind (latestDebugEvent s) s)
              }
        })"

text \<open>Leaving at once is for the extended mode; else the caller leaves when it sees the state.\<close>

definition detach_if_extended :: "'w gdb_env \<Rightarrow> 'w gdb_st \<Rightarrow> 'w gdb_st option" where
  "detach_if_extended E s =
     (if has_ctx_flag GDB_FLAG_EXTENDED_REMOTE s then GDB_DetachImmediatelyExtended E s else Some s)"

definition GDB_HandleDetach :: "'w gdb_env \<Rightarrow> 'w gdb_st \<Rightarrow> (int \<times> 'w gdb_st) option" where
  "GDB_HandleDetach E s =
     (let leave = (\<lambda>s. do {
            s \<leftarrow> detach_if_extended E (s\<lparr>gdb_state := GDB_STATE_DETACHING\<rparr>);
            Some (GDB_ReplyOk E s)
          })
      in if multiprocessExtEnabled s then
           (if byte_at (command_text s) 0 \<noteq> 0x3B then Some (GDB_ReplyErrno E EILSEQ s)
            else
              case GDB_ParseHexIntegerList (drop 1 (command_text s)) 1 0 of
                None \<Rightarrow> Some (GDB_ReplyErrno E EILSEQ s)
              | Some (l, _) \<Rightarrow> if GDB_ConvertToRealPid (l ! 0) \<noteq> pid s then Some (GDB_ReplyErrno E EPERM s) else leave s)
         else leave s)"

definition GDB_HandleKill :: "'w gdb_env \<Rightarrow> 'w gdb_st \<Rightarrow> (int \<times> 'w gdb_st) option" where
  "GDB_HandleKill E s =
     do {
       s \<leftarrow> detach_if_extended E (s\<lparr>gdb_state := GDB_STATE_DETACHING, flags := flags s OR GDB_FLAG_TERMINATE_PROCESS\<rparr>);
       Some (0, s)
     }"

definition GDB_HandleVerboseKill :: "'w gdb_env \<Rightarrow> 'w gdb_st \<Rightarrow> (int \<times> 'w gdb_st) option" where
  "GDB_HandleVerboseKill E s =
     (let finish = (\<lambda>s.
            case GDB_ReplyOk E s of
              (ret, s) \<Rightarrow>
                do {
                  s \<leftarrow> detach_if_extended E
                        (s\<lparr>gdb_state := GDB_STATE_DETACHING, flags := flags s OR GDB_FLAG_TERMINATE_PROCESS\<rparr>);
                  Some (ret, s)
                })
      in if multiprocessExtEnabled s then
           do {
             pos \<leftarrow> commandData s;
             case GDB_ParseHexIntegerList pos 1 0 of
               None \<Rightarrow> Some (GDB_ReplyErrno E EILSEQ s)
             | Some (l, _) \<Rightarrow> if GDB_ConvertToRealPid (l ! 0) \<noteq> pid s then Some (GDB_ReplyErrno E EPERM s) else finish s
           }
         else finish s)"

definition GDB_HandleBreak :: "'w gdb_env \<Rightarrow> 'w gdb_st \<Rightarrow> int \<times> 'w gdb_st" where
  "GDB_HandleBreak E s =
     (if \<not> has_ctx_flag GDB_FLAG_PROCESS_CONTINUING s then GDB_SendPacket E (chars ''S02'') s
      else (0, s\<lparr>flags := flags s AND NOT GDB_FLAG_PROCESS_CONTINUING\<rparr>))"

definition set_pc :: "'w gdb_env \<Rightarrow> u32 \<Rightarrow> 'w gdb_st \<Rightarrow> 'w gdb_st" where
  "set_pc E addr s =
     (case get_context E (currentThreadId s) THREADCONTEXT_CONTROL_CPU_SPRS s of
        (r, regs, s) \<Rightarrow>
          if g_R_FAILED E r then s
          else snd (set_context E (currentThreadId s) (regs\<lparr>tc_cpu := (tc_cpu regs)[15 := addr]\<rparr>)
                      THREADCONTEXT_CONTROL_CPU_SPRS s))"

text \<open>The character before the text is the second of the buffer. The address is read at a fixed place,
  also for the command without a signal.\<close>

definition GDB_HandleContinue :: "'w gdb_env \<Rightarrow> 'w gdb_st \<Rightarrow> int \<times> 'w gdb_st" where
  "GDB_HandleContinue E s =
     (let t = command_text s in
      if selectedThreadIdForContinuing s \<noteq> 0 \<and> selectedThreadIdForContinuing s \<noteq> currentThreadId s then (0, s)
      else
        let isC = (byte_at (buffer s) 1 = 0x43);
            wrong = (isC \<and> (byte_at t 0 = 0 \<or> byte_at t 1 = 0 \<or> (byte_at t 2 \<noteq> 0 \<and> byte_at t 2 = 0x3B)));
            hasAddr = (if isC then byte_at t 2 = 0x3B else byte_at t 0 \<noteq> 0)
        in if wrong then GDB_ReplyErrno E EILSEQ s
           else if hasAddr \<and> currentThreadId s \<noteq> 0 then
             (case GDB_ParseHexIntegerList (drop 3 t) 1 0 of
                None \<Rightarrow> GDB_ReplyErrno E EILSEQ s
              | Some (l, _) \<Rightarrow> (0, GDB_ContinueExecution E (set_pc E (l ! 0) s)))
           else (0, GDB_ContinueExecution E s))"

text \<open>The actions: whether one is for the current thread, or the error. After an action for a thread
  at the end of the text the position stays, so that the thread is then taken for an action; the
  fuel is more than the length of the text, of which every round takes something.\<close>

fun continue_actions :: "nat \<Rightarrow> u8 list \<Rightarrow> 'a gdb_ctx_scheme \<Rightarrow> (int + bool) option" where
  "continue_actions 0 pos s = None"
| "continue_actions (Suc fuel) pos s =
     (if byte_at pos 0 = 0 then Some (Inr False)
      else if byte_at pos 0 \<noteq> 0x63 \<and> byte_at pos 0 \<noteq> 0x43 then Some (Inl EPERM)
      else
        let pos = (if byte_at pos 0 = 0x43 then drop 3 pos else drop 1 pos) in
        if byte_at pos 0 \<noteq> 0x3A then Some (Inr True)
        else
          let pos = drop 1 pos in
          case GDB_ParseThreadId pos 0x3B s of
            None \<Rightarrow> Some (Inl EILSEQ)
          | Some (p, tid, nextpos) \<Rightarrow>
              if p \<noteq> - 1 \<and> p \<noteq> pid s then Some (Inl EPERM)
              else if tid = 0 \<or> tid = currentThreadId s then Some (Inr True)
              else continue_actions fuel (if byte_at nextpos 0 \<noteq> 0 then drop 1 nextpos else pos) s)"

definition GDB_HandleVerboseContinue :: "'w gdb_env \<Rightarrow> 'w gdb_st \<Rightarrow> (int \<times> 'w gdb_st) option" where
  "GDB_HandleVerboseContinue E s =
     do {
       r \<leftarrow> (case commandData s of
               None \<Rightarrow> Some (Inr False)
             | Some pos \<Rightarrow> continue_actions (length pos + 1) pos s);
       Some (case r of
               Inl e \<Rightarrow> GDB_ReplyErrno E e s
             | Inr found \<Rightarrow> (0, if currentThreadId s = 0 \<or> found then GDB_ContinueExecution E s else s))
     }"

definition GDB_HandleGetStopReason :: "'w gdb_env \<Rightarrow> u8 list \<Rightarrow> 'w gdb_st \<Rightarrow> int \<times> 'w gdb_st" where
  "GDB_HandleGetStopReason E behind s =
     (if processEnded s \<and> processExited s then GDB_SendFormattedPacket E (chars ''W00'' @ process_suffix s) s
      else if processEnded s \<and> \<not> processExited s then GDB_SendFormattedPacket E (chars ''X0f'' @ process_suffix s) s
      else if debug s = 0 then GDB_SendFormattedPacket E (chars ''W00'' @ process_suffix s) s
      else GDB_SendStopReply E behind (latestDebugEvent s) s)"

end
