(* ===== verification/Gdb_Query.thy ===== *)
theory Gdb_Query
  imports Gdb_Debug
begin

text \<open>
  Documents the debugger hands out in parts (\<open>gdb/xfer.c\<close>), the simple queries (\<open>gdb/query.c\<close>), and the
  commands of the monitor (\<open>gdb/remote_command.c\<close>, with the map of the memory of a process from
  \<open>utils.c\<close>). The tables of the handlers are here and in \<open>Gdb_Server\<close>.
\<close>

section \<open>Texts in the buffer\<close>

text \<open>The place of the first character \<open>c\<close>, or NULL.\<close>

definition strchr_index :: "u8 list \<Rightarrow> u8 \<Rightarrow> nat option" where
  "strchr_index t c = (let i = find_char t [c] in if byte_at t i = c then Some i else None)"

text \<open>Ends a text of the buffer at one of its characters.\<close>

definition cut_text :: "u8 list \<Rightarrow> nat \<Rightarrow> 'a gdb_ctx_scheme \<Rightarrow> 'a gdb_ctx_scheme" where
  "cut_text t i s = s\<lparr>buffer := (buffer s)[GDB_BUF_LEN + 4 - length t + i := 0]\<rparr>"

section \<open>Documents\<close>

definition GDB_HandleXferFeatures :: "'w gdb_env \<Rightarrow> bool \<Rightarrow> u8 list \<Rightarrow> u32 \<Rightarrow> u32 \<Rightarrow> 'w gdb_st \<Rightarrow> int \<times> 'w gdb_st" where
  "GDB_HandleXferFeatures E wr annex offset len s =
     (if \<not> str_equal annex ''target.xml'' \<or> wr then GDB_ReplyEmpty E s
      else GDB_SendStreamData E (g_target_xml E) offset len (of_nat (length (g_target_xml E))) False s)"

definition version_text :: "u32 \<Rightarrow> u8 list" where
  "version_text version =
     (let major = fmt_dec (uint (drop_bit 24 version));
          minor = fmt_dec (uint (drop_bit 16 version AND 0xFF));
          revision = drop_bit 8 version AND 0xFF
      in chars ''v'' @ major @ chars ''.'' @ minor @ (if revision = 0 then [] else chars ''.'' @ fmt_dec (uint revision)))"

definition GDB_HandleXferOsDataCfwVersion :: "'w gdb_env \<Rightarrow> bool \<Rightarrow> u32 \<Rightarrow> u32 \<Rightarrow> 'w gdb_st \<Rightarrow> int \<times> 'w gdb_st" where
  "GDB_HandleXferOsDataCfwVersion E wr offset len s =
     (if wr then GDB_HandleUnsupported E s
      else
        let (_, version, s) = call_out E (GGetSystemInfo 0x10000 0) s;
            (_, commitHash, s) = call_out E (GGetSystemInfo 0x10000 1) s;
            (_, isRelease, s) = call_out E (GGetSystemInfo 0x10000 0x200) s;
            buf = g_cfw_version_xml E (version_text (ucast version)) (ucast commitHash) (isRelease \<noteq> 0)
        in GDB_SendStreamData E buf offset len (of_nat (length buf)) False s)"

definition percentage :: "u32 \<Rightarrow> u32 \<Rightarrow> u32" where
  "percentage used tot = ucast ((5 + (1000 * ucast used) div ucast tot) div 10 :: u64)"

text \<open>A text is made when there is none (its first byte is NUL), and dropped with its last part.\<close>

definition GDB_HandleXferOsDataMemory :: "'w gdb_env \<Rightarrow> bool \<Rightarrow> u32 \<Rightarrow> u32 \<Rightarrow> 'w gdb_st \<Rightarrow> int \<times> 'w gdb_st" where
  "GDB_HandleXferOsDataMemory E wr offset len s =
     (if wr then GDB_HandleUnsupported E s
      else
        let s = (if byte_at (memoryOsInfoXmlData s) 0 = 0 then
                   let (_, app, s) = call_out E (GGetSystemInfo 0 1) s;
                       (_, sys, s) = call_out E (GGetSystemInfo 0 2) s;
                       (_, base, s) = call_out E (GGetSystemInfo 0 3) s;
                       row = (\<lambda>used tot. [used, tot - used, tot, percentage used tot]);
                       t = g_memory_xml E (row (ucast app) (g_region_size E 0x1FF80040) @ row (ucast sys) (g_region_size E 0x1FF80044)
                             @ row (ucast base) (g_region_size E 0x1FF80048))
                   in s\<lparr>memoryOsInfoXmlData := overwrite (memoryOsInfoXmlData s) 0 (t @ [0])\<rparr>
                 else s);
            sz = of_nat (length (upto_nul (memoryOsInfoXmlData s)));
            (n, s) = GDB_SendStreamData E (memoryOsInfoXmlData s) offset len sz False s
        in (n, if offset + len \<ge> sz then s\<lparr>memoryOsInfoXmlData := (memoryOsInfoXmlData s)[0 := 0]\<rparr> else s))"

definition process_item :: "u32 \<Rightarrow> u8 list \<Rightarrow> u8 list" where
  "process_item p name =
     chars ''<item><column name=\"pid\">'' @ fmt_dec (uint (GDB_ConvertFromRealPid p)) @
     chars ''</column><column name=\"command\">'' @ name @ chars ''</column></item>''"

fun process_items :: "'w gdb_env \<Rightarrow> u32 list \<Rightarrow> 'w gdb_st \<Rightarrow> u8 list \<times> 'w gdb_st" where
  "process_items E [] s = ([], s)"
| "process_items E (p # ps) s =
     (case call_out E (GOpenProcess p) s of
        (r, h, s) \<Rightarrow>
          if g_R_FAILED E r then process_items E ps s
          else
            let (_, name, s) = call_out E (GGetProcessInfo (ucast h) 0x10000) s;
                s = call_do E (GCloseHandle (ucast h)) s;
                (t, s) = process_items E ps s
            in (process_item p (upto_nul (le_bytes64 name)) @ t, s))"

definition GDB_HandleXferOsDataProcesses :: "'w gdb_env \<Rightarrow> bool \<Rightarrow> u32 \<Rightarrow> u32 \<Rightarrow> 'w gdb_st \<Rightarrow> int \<times> 'w gdb_st" where
  "GDB_HandleXferOsDataProcesses E wr offset len s =
     (if wr then GDB_HandleUnsupported E s
      else
        let s = (if byte_at (processesOsInfoXmlData s) 0 = 0 then
                   let (_, amount, s1) = call_out E GGetProcessList s;
                       (_, pids, s) = call_bytes E GGetProcessList s;
                       n = nat (sint (ucast amount :: u32));
                       (items, s) = process_items E (map (\<lambda>i. word_at pids (4 * i)) [0..<n]) s
                   in s\<lparr>processesOsInfoXmlData := overwrite (processesOsInfoXmlData s) 0
                          (chars ''<osdata type=\"processes\">'' @ items @ chars ''</osdata>'' @ [0])\<rparr>
                 else s);
            sz = of_nat (length (upto_nul (processesOsInfoXmlData s)));
            (n, s) = GDB_SendStreamData E (processesOsInfoXmlData s) offset len sz False s
        in (n, if offset + len \<ge> sz then s\<lparr>processesOsInfoXmlData := (processesOsInfoXmlData s)[0 := 0]\<rparr> else s))"

definition GDB_HandleXferOsData :: "'w gdb_env \<Rightarrow> bool \<Rightarrow> u8 list \<Rightarrow> u32 \<Rightarrow> u32 \<Rightarrow> 'w gdb_st \<Rightarrow> int \<times> 'w gdb_st" where
  "GDB_HandleXferOsData E wr annex offset len s =
     (if str_equal annex '''' \<and> \<not> wr
      then GDB_SendStreamData E (g_osdata_xml E) offset len (of_nat (length (g_osdata_xml E))) False s
      else if str_equal annex ''cfwversion'' then GDB_HandleXferOsDataCfwVersion E wr offset len s
      else if str_equal annex ''memory'' then GDB_HandleXferOsDataMemory E wr offset len s
      else if str_equal annex ''processes'' then GDB_HandleXferOsDataProcesses E wr offset len s
      else GDB_HandleUnsupported E s)"

text \<open>The operation, its place and length: reading has both numbers, writing an offset and the data.\<close>

definition xfer_range :: "u8 list \<Rightarrow> u8 list \<Rightarrow> (bool \<times> u32 \<times> u32 \<times> u8 list) option" where
  "xfer_range op offStart =
     (if str_equal op ''read'' then
        map_option (\<lambda>(l, _). (False, l ! 0, l ! 1, [])) (GDB_ParseHexIntegerList offStart 2 0)
      else if str_equal op ''write'' then
        (case GDB_ParseHexIntegerList offStart 1 0x3A of
           None \<Rightarrow> None
         | Some (l, pos) \<Rightarrow>
             if byte_at pos 0 \<noteq> 0x3A then None
             else
               let pos = drop 1 pos;
                   n = length (upto_nul pos)
               in if n = 0 \<or> n mod 2 \<noteq> 0 then None else Some (True, l ! 0, of_nat (n div 2), pos))
      else None)"

definition GDB_HandleQueryXfer :: "'w gdb_env \<Rightarrow> 'w gdb_st \<Rightarrow> int \<times> 'w gdb_st" where
  "GDB_HandleQueryXfer E s =
     (let objectStart = command_text s in
      case strchr_index objectStart 0x3A of
        None \<Rightarrow> (- 1, s)
      | Some i \<Rightarrow>
          let s = cut_text objectStart i s;
              opStart = drop (i + 1) objectStart
          in case strchr_index opStart 0x3A of
               None \<Rightarrow> (- 1, s)
             | Some j \<Rightarrow>
                 let s = cut_text opStart j s;
                     annexStart = drop (j + 1) opStart
                 in case strchr_index annexStart 0x3A of
                      None \<Rightarrow> (- 1, s)
                    | Some k \<Rightarrow>
                        let s = cut_text annexStart k s;
                            object = take i objectStart;
                            annex = take k annexStart
                        in case xfer_range (take j opStart) (drop (k + 1) annexStart) of
                             None \<Rightarrow> GDB_ReplyErrno E EILSEQ s
                           | Some (wr, offset, len, pos) \<Rightarrow>
                               if object = chars ''features'' \<or> object = chars ''osdata'' then
                                 let s = (if wr then s\<lparr>commandData := Some pos\<rparr> else s)
                                 in if object = chars ''features'' then GDB_HandleXferFeatures E wr annex offset len s
                                    else GDB_HandleXferOsData E wr annex offset len s
                               else GDB_HandleUnsupported E s)"

section \<open>Simple queries\<close>

text \<open>The features the client names, separated by semicolons; each is compared in its own length.\<close>

function supported_features :: "u8 list \<Rightarrow> bool \<Rightarrow> bool" where
  "supported_features pos multi =
     (let i = find_char pos [0x3B];
          multi = (multi \<or> strn_equal pos ''multiprocess+'' i)
      in if byte_at pos i \<noteq> 0 then supported_features (drop (i + 1) pos) multi else multi)"
  by pat_completeness auto
termination
  by (relation "measure (\<lambda>(pos, _). length pos)") (auto simp: byte_at_def split: if_splits)

declare supported_features.simps [simp del]

definition GDB_HandleQuerySupported :: "'w gdb_env \<Rightarrow> 'w gdb_st \<Rightarrow> int \<times> 'w gdb_st" where
  "GDB_HandleQuerySupported E s =
     GDB_SendFormattedPacket E
       (chars ''PacketSize='' @ fmt_hex 0 GDB_BUF_LEN @ chars '';qXfer:features:read+;qXfer:osdata:read+;'' @
        chars ''QStartNoAckMode+;QThreadEvents+;QCatchSyscalls+;'' @ chars ''vContSupported+;swbreak+;multiprocess+'')
       (s\<lparr>multiprocessExtEnabled := supported_features (command_text s) (multiprocessExtEnabled s)\<rparr>)"

definition GDB_HandleQueryStartNoAckMode :: "'w gdb_env \<Rightarrow> 'w gdb_st \<Rightarrow> int \<times> 'w gdb_st" where
  "GDB_HandleQueryStartNoAckMode E s = GDB_ReplyOk E (s\<lparr>noAckSent := True\<rparr>)"

definition GDB_HandleQueryAttached :: "'w gdb_env \<Rightarrow> 'w gdb_st \<Rightarrow> int \<times> 'w gdb_st" where
  "GDB_HandleQueryAttached E s = GDB_SendPacket E (if has_ctx_flag GDB_FLAG_CREATED s then chars ''0'' else chars ''1'') s"

text \<open>The numbers of the system calls to catch.\<close>

function catch_list :: "u8 list \<Rightarrow> u32 list \<Rightarrow> bool \<times> u32 list" where
  "catch_list pos m =
     (case GDB_ParseHexIntegerList (drop 1 pos) 1 0x3B of
        None \<Rightarrow> (False, m)
      | Some (l, rest) \<Rightarrow>
          let i = l ! 0;
              m = (if i < 0xFE then m[unat (i div 32) := m ! unat (i div 32) OR push_bit (31 - unat (i mod 32)) 1] else m)
          in if byte_at rest 0 \<noteq> 0 \<and> length rest < length pos then catch_list rest m else (True, m))"
  by pat_completeness auto
termination by (relation "measure (\<lambda>(pos, _). length pos)") auto

declare catch_list.simps [simp del]

text \<open>Used by \<open>QCatchSyscalls\<close> and by the command of the monitor.\<close>

definition catch_syscalls :: "'w gdb_env \<Rightarrow> 'w gdb_st \<Rightarrow> int \<times> 'w gdb_st" where
  "catch_syscalls E s =
     (let t = command_text s;
          apply = (\<lambda>args s. case call_res E (GKernelSetState 0x10002 args) s of
                     (r, s) \<Rightarrow> if \<not> g_R_FAILED E r then GDB_ReplyOk E s else GDB_ReplyErrno E EPERM s)
      in if byte_at t 0 = 0x30 then
           let s = s\<lparr>svcMask := replicate 8 0\<rparr> in apply [pid s, 0] s
         else if byte_at t 0 = 0x31 then
           (if byte_at t 1 = 0x3B then
              (case catch_list (drop 1 t) (replicate 8 0) of
                 (ok, m) \<Rightarrow>
                   let s = s\<lparr>svcMask := m\<rparr>
                   in if \<not> ok then GDB_ReplyErrno E EILSEQ s else apply ([pid s, 1] @ svcMask s) s)
            else
              let s = s\<lparr>svcMask := replicate 8 0xFFFFFFFF\<rparr> in apply ([pid s, 1] @ svcMask s) s)
         else GDB_ReplyErrno E EILSEQ s)"

definition GDB_HandleQueryCatchSyscalls :: "'w gdb_env \<Rightarrow> 'w gdb_st \<Rightarrow> int \<times> 'w gdb_st" where
  "GDB_HandleQueryCatchSyscalls E s = catch_syscalls E s"

section \<open>Commands of the monitor\<close>

definition GDB_SkipSpaces :: "u8 list \<Rightarrow> u8 list" where
  "GDB_SkipSpaces pos = dropWhile is_space pos"

definition invalid_process :: "u8 list" where
  "invalid_process = chars ''Invalid process (wtf?)'' @ [0x0A]"

definition GDB_HandleRemoteCommandConvertVAToPA :: "'w gdb_env \<Rightarrow> 'w gdb_st \<Rightarrow> int \<times> 'w gdb_st" where
  "GDB_HandleRemoteCommandConvertVAToPA E s =
     (if byte_at (command_text s) 0 = 0 then GDB_ReplyErrno E EILSEQ s
      else
        case xstrtoul (command_text s) 0 True of
          (val, ok, _) \<Rightarrow>
            if \<not> ok then GDB_ReplyErrno E EILSEQ s
            else
              let out = (\<lambda>pa :: u32. chars ''va: 0x'' @ fmt_HEX 8 (unat val) @ chars '', pa: 0x'' @ fmt_HEX 8 (unat pa) @
                           chars '', b31: 0x'' @ fmt_HEX 8 (unat (pa OR 0x80000000)) @ [0x0A])
              in if val \<ge> 0x40000000 then
                   case call_out E (GConvertVAToPA val False) s of (_, pa, s) \<Rightarrow> GDB_SendHexPacket E (out (ucast pa)) s
                 else
                   case call_out E (GOpenProcess (pid s)) s of
                     (r, h, s) \<Rightarrow>
                       if g_R_FAILED E r then GDB_SendHexPacket E invalid_process s
                       else
                         case call_out E (GControlProcess (ucast h) 4 val) s of
                           (r, pa, s) \<Rightarrow>
                             let s = call_do E (GCloseHandle (ucast h)) s
                             in GDB_SendHexPacket E
                                  (if g_R_FAILED E r then chars ''An error occured: '' @ fmt_HEX 8 (unat r) @ [0x0A]
                                   else out (ucast pa)) s)"

text \<open>Handles that have not been opened on the way are closed too; their values are whatever is on the
  stack (\<open>stale\<close>).\<close>

definition close_two :: "'w gdb_env \<Rightarrow> Handle \<Rightarrow> Handle \<Rightarrow> 'w gdb_st \<Rightarrow> 'w gdb_st" where
  "close_two E handle process s = call_do E (GCloseHandle process) (call_do E (GCloseHandle handle) s)"

text \<open>Whether a thread waits in the call that sends a request; a breakpoint in its place hides the
  instruction. In thumb state only the lower half of the word has been read.\<close>

definition is_sync_request :: "ThreadContext \<Rightarrow> u32 \<Rightarrow> bool" where
  "is_sync_request regs instr \<longleftrightarrow>
     (if tc_cpu regs ! 16 AND 0x20 \<noteq> 0 then instr = 0xDF32 \<or> (instr = 0xDFFE \<and> tc_cpu regs ! 12 = 0x32)
      else instr = 0xEF000032 \<or> (instr = 0xEF0000FE \<and> tc_cpu regs ! 12 = 0x32))"

definition GDB_HandleRemoteCommandSyncRequestInfo :: "'w gdb_env \<Rightarrow> u8 list \<Rightarrow> Handle \<times> Handle \<Rightarrow> 'w gdb_st \<Rightarrow> int \<times> 'w gdb_st" where
  "GDB_HandleRemoteCommandSyncRequestInfo E staleInstr stale s =
     (if byte_at (command_text s) 0 \<noteq> 0 then GDB_ReplyErrno E EILSEQ s
      else
        let s = select_thread s;
            finish = (\<lambda>handle process out s. GDB_SendHexPacket E out (close_two E handle process s));
            bad = chars ''Invalid or running thread.'' @ [0x0A]
        in if selectedThreadId s = 0
           then finish (fst stale) (snd stale) (chars ''Cannot run this command without a selected thread.'' @ [0x0A]) s
           else
             case call_out E (GOpenProcess (pid s)) s of
               (r, h, s) \<Rightarrow>
                 let process = ucast h in
                 if g_R_FAILED E r then finish (fst stale) process invalid_process s
                 else
                   let i = length (takeWhile (\<lambda>x. fst x \<noteq> selectedThreadId s) (take MAX_DEBUG_THREAD (threadInfos s)));
                       (r, regs, s) = get_context E (selectedThreadId s) THREADCONTEXT_CONTROL_CPU_REGS s
                   in if g_R_FAILED E r \<or> i = MAX_DEBUG_THREAD then finish (fst stale) process bad s
                      else
                        let cmdAddr = snd (threadInfos s ! i) + 0x80;
                            (r, cmd, s) = call_bytes E (GReadProcessMemory (debug s) cmdAddr 4) s
                        in if g_R_FAILED E r then finish (fst stale) process bad s
                           else
                             let thumb = (tc_cpu regs ! 16 AND 0x20 \<noteq> 0);
                                 sz = (if thumb then 2 else 4);
                                 (r, d, s) = call_bytes E (GReadProcessMemory (debug s) (tc_cpu regs ! 15) sz) s;
                                 instr = word_at (overwrite staleInstr 0 (take (unat sz) d)) 0;
                                 instr = (if \<not> g_R_FAILED E r \<and> ((thumb \<and> instr = 0xDFFF) \<or> instr = 0xEF0000FF) then
                                            case GDB_GetBreakpointInstruction (tc_cpu regs ! 15) s of
                                              (e, saved) \<Rightarrow> if e = 0 then saved else instr
                                          else instr)
                             in if g_R_FAILED E r \<or> \<not> is_sync_request regs instr
                                then finish (fst stale) process
                                       (chars ''The selected thread is not currently performing a sync request (svc 0x32).'' @ [0x0A]) s
                                else
                                  case call_out E (GCopyHandle (tc_cpu regs ! 0) process) s of
                                    (r, h, s) \<Rightarrow>
                                      if g_R_FAILED E r then finish (ucast h) process (chars ''Invalid handle.'' @ [0x0A]) s
                                      else
                                        case call_bytes E (GControlServiceGetName (ucast h)) s of
                                          (r, name, s) \<Rightarrow>
                                            finish (ucast h) process
                                              ((if g_R_FAILED E r then [] else upto_nul name) @ chars '' 0x'' @
                                               fmt_hex 0 (unat (word_at cmd 0)) @ chars '', 0x'' @ fmt_hex 8 (unat cmdAddr) @ [0x0A]) s)"

definition references_text :: "u32 \<Rightarrow> u8 list" where
  "references_text refcount = fmt_dec (uint refcount) @ (if refcount = 1 then chars '' reference'' else chars '' references'')"

text \<open>The class of the object comes with the bytes of \<open>GTranslateHandle\<close>; a call that gives a number and
  bytes is made once (both are taken from the same state).\<close>

definition describe_handle :: "'w gdb_env \<Rightarrow> Handle \<Rightarrow> 'w gdb_st \<Rightarrow> u8 list \<times> 'w gdb_st" where
  "describe_handle E handle s =
     (let (_, kernelAddr, s1) = call_out E (GTranslateHandle handle) s;
          (_, cls, s) = call_bytes E (GTranslateHandle handle) s;
          (_, refcountRaw, s) = call_out E (GGetHandleInfo handle 1) s;
          (_, token, s) = call_out E (GGetHandleInfo handle 0x10001) s;
          (_, service, s) = call_bytes E (GControlServiceGetName handle) s;
          refcount = ucast (refcountRaw - 1) :: u32;
          start = chars ''('' @ upto_nul cls @ chars '' *)0x'' @ fmt_hex 8 (unat (ucast kernelAddr :: u32)) @ chars '' /* '';
          finish = chars '' */'' @ [0x0A]
      in if byte_at service 0 \<noteq> 0
         then (start @ upto_nul service @ chars '' handle, '' @ references_text refcount @ finish, s)
         else if token = 0xC5 then
           case call_out E (GGetProcessInfo handle 0x10000) s of
             (_, name, s) \<Rightarrow>
               (start @ chars ''process: '' @ upto_nul (le_bytes64 name) @ chars '', '' @ references_text refcount @ finish, s)
         else
           case call_out E (GGetHandleInfo handle 0x10002) s of
             (r, owner, s) \<Rightarrow>
               if g_R_FAILED E r then (start @ references_text refcount @ finish, s)
               else
                 case call_out E (GGetProcessInfo (ucast owner) 0x10000) s of
                   (_, name, s) \<Rightarrow>
                     (start @ references_text refcount @ chars '' owner: '' @ upto_nul (le_bytes64 name) @ finish,
                      call_do E (GCloseHandle (ucast owner)) s))"

definition GDB_HandleRemoteCommandTranslateHandle :: "'w gdb_env \<Rightarrow> Handle \<times> Handle \<Rightarrow> 'w gdb_st \<Rightarrow> int \<times> 'w gdb_st" where
  "GDB_HandleRemoteCommandTranslateHandle E stale s =
     (if byte_at (command_text s) 0 = 0 then GDB_ReplyErrno E EILSEQ s
      else
        case xstrtoul (command_text s) 0 True of
          (val, ok, end_text) \<Rightarrow>
            if \<not> ok \<or> byte_at (GDB_SkipSpaces end_text) 0 \<noteq> 0 then GDB_ReplyErrno E EILSEQ s
            else
              case call_out E (GOpenProcess (pid s)) s of
                (r, p, s) \<Rightarrow>
                  if g_R_FAILED E r then GDB_SendHexPacket E invalid_process (close_two E (fst stale) (ucast p) s)
                  else
                    case call_out E (GCopyHandle val (ucast p)) s of
                      (r, h, s) \<Rightarrow>
                        if g_R_FAILED E r
                        then GDB_SendHexPacket E (chars ''Invalid handle.'' @ [0x0A]) (close_two E (ucast h) (ucast p) s)
                        else
                          case describe_handle E (ucast h) s of
                            (out, s) \<Rightarrow> GDB_SendHexPacket E out (close_two E (ucast h) (ucast p) s))"

text \<open>The handles, eight in a line, as long as the text is short enough.\<close>

fun handle_lines :: "u32 list \<Rightarrow> nat \<Rightarrow> u8 list \<Rightarrow> u8 list \<Rightarrow> u8 list" where
  "handle_lines [] i sep out = out"
| "handle_lines (h # hs) i sep out =
     (if length out < GDB_BUF_LEN div 2 - 20 then
        let out = out @ sep @ chars ''0x'' @ fmt_HEX 8 (unat h) in
        if (i + 1) mod 8 = 0 then handle_lines hs (i + 1) [] (out @ [0x0A]) else handle_lines hs (i + 1) (chars '', '') out
      else out)"

definition GDB_HandleRemoteCommandListAllHandles :: "'w gdb_env \<Rightarrow> 'w gdb_st \<Rightarrow> int \<times> 'w gdb_st" where
  "GDB_HandleRemoteCommandListAllHandles E s =
     (let t = command_text s;
          (val, ok, end_text) = (if byte_at t 0 = 0 then (0, True, []) else xstrtoul t 0 True)
      in if \<not> ok \<or> byte_at (GDB_SkipSpaces end_text) 0 \<noteq> 0 then GDB_ReplyErrno E EILSEQ s
         else
           case call_out E (GOpenProcess (pid s)) s of
             (r, p, s) \<Rightarrow>
               if g_R_FAILED E r
               then GDB_SendHexPacket E invalid_process (call_do E (GCloseHandle (ucast p)) s)
               else
                 case call_bytes E (GControlProcess (ucast p) 0 val) s of
                   (r, hs, s) \<Rightarrow>
                     let out = (if g_R_FAILED E r then chars ''An error occured: '' @ fmt_HEX 8 (unat r) @ [0x0A]
                                else if r = 0 then chars ''Process has no handles ?'' @ [0x0A]
                                else handle_lines (map (\<lambda>i. word_at hs (4 * i)) [0..<unat r]) 0 []
                                       (chars ''Found '' @ fmt_dec (sint r) @ chars '' handles.'' @ [0x0A]))
                     in GDB_SendHexPacket E out (call_do E (GCloseHandle (ucast p)) s))"

fun mmu_lines :: "'w gdb_env \<Rightarrow> nat \<Rightarrow> nat \<Rightarrow> 'w gdb_st \<Rightarrow> u8 list \<times> 'w gdb_st" where
  "mmu_lines E i 0 s = ([], s)"
| "mmu_lines E i (Suc left) s =
     (case call_out E (GGetSystemInfo 0x10002 (1 + of_nat i)) s of
        (_, v, s) \<Rightarrow>
          case mmu_lines E (Suc i) left s of
            (t, s) \<Rightarrow>
              (chars '' 0x'' @ fmt_hex 8 (unat (ucast v :: u32)) @ (if left = 0 then [0x0A] else chars '' /'') @ t, s))"

definition GDB_HandleRemoteCommandGetMmuConfig :: "'w gdb_env \<Rightarrow> bool \<Rightarrow> 'w gdb_st \<Rightarrow> int \<times> 'w gdb_st" where
  "GDB_HandleRemoteCommandGetMmuConfig E isN3DS s =
     (if byte_at (command_text s) 0 \<noteq> 0 then GDB_ReplyErrno E EILSEQ s
      else
        case call_out E (GOpenProcess (pid s)) s of
          (r, p, s) \<Rightarrow>
            if g_R_FAILED E r then GDB_SendHexPacket E invalid_process s
            else
              let (_, TTBCR, s) = call_out E (GGetSystemInfo 0x10002 0) s;
                  (_, TTBR0, s) = call_out E (GGetProcessInfo (ucast p) 0x10008) s;
                  (t, s) = mmu_lines E 0 (if isN3DS then 4 else 2) s;
                  out = chars ''TTBCR = '' @ fmt_dec (uint (ucast TTBCR :: u32)) @ [0x0A] @ chars ''TTBR0 = 0x'' @
                          fmt_hex 8 (unat (ucast TTBR0 :: u32)) @ [0x0A] @ chars ''TTBR1 ='' @ t
              in GDB_SendHexPacket E out (call_do E (GCloseHandle (ucast p)) s))"

definition formatMemoryPermission :: "u32 \<Rightarrow> u8 list" where
  "formatMemoryPermission perm =
     (if perm = 0x10000000 then chars ''???''
      else (if perm AND 1 \<noteq> 0 then chars ''r'' else chars ''-'') @ (if perm AND 2 \<noteq> 0 then chars ''w'' else chars ''-'') @
           (if perm AND 4 \<noteq> 0 then chars ''x'' else chars ''-''))"

definition formatUserMemoryState :: "u32 \<Rightarrow> u8 list" where
  "formatUserMemoryState state =
     (if state > 11 then chars ''Unknown''
      else map chars [''Free'', ''Reserved'', ''IO'', ''Static'', ''Code'', ''Private'', ''Shared'', ''Continuous'', ''Aliased'',
             ''Alias'', ''AliasCode'', ''Locked''] ! unat state)"

text \<open>The lines so far and the address of the next region. \<open>None\<close> is a map that has no end: the kernel
  gives a region that does not lead on.\<close>

partial_function (option) memory_map_loop ::
  "'w gdb_env \<Rightarrow> Handle \<Rightarrow> bool \<Rightarrow> u32 \<Rightarrow> nat \<Rightarrow> u32 \<Rightarrow> u8 list \<Rightarrow> 'w gdb_st \<Rightarrow> (u8 list \<times> 'w gdb_st) option" where
  "memory_map_loop E handle own limit maxPosInBuffer address out s =
     (if address < limit \<and> length out < maxPosInBuffer then
        let ((r, base, sz, perm, state), w) = g_query_memory E handle address (world s);
            s = s\<lparr>world := w\<rparr>
        in if g_R_FAILED E r then Some (out, s)
           else if state = 0 then memory_map_loop E handle own limit maxPosInBuffer (base + sz) out s
           else
             let (pa, s) = (if own then
                   case call_out E (GConvertVAToPA base False) s of
                     (_, pa, s) \<Rightarrow> (chars '' (PA '' @ fmt_hex 8 (unat (ucast pa :: u32)) @ chars '')'', s)
                 else ([], s))
             in memory_map_loop E handle own limit maxPosInBuffer (base + sz)
                  (out @ fmt_hex 8 (unat base) @ chars '' - '' @ fmt_hex 8 (unat (base + sz)) @ pa @ chars '' '' @
                   formatMemoryPermission perm @ chars '' '' @ formatUserMemoryState state @ [0x0A]) s
      else Some (out, s))"

definition formatMemoryMapOfProcess :: "'w gdb_env \<Rightarrow> nat \<Rightarrow> Handle \<Rightarrow> bool \<Rightarrow> 'w gdb_st \<Rightarrow> (u8 list \<times> 'w gdb_st) option" where
  "formatMemoryMapOfProcess E bufLen handle own s =
     (let maxLineSize = 35 + (if own then 15 else 0);
          (limit, s) = user_limit E s
      in do {
           (out, s) \<leftarrow> memory_map_loop E handle own limit (bufLen - maxLineSize) 0 [] s;
           Some (out, call_do E (GCloseHandle handle) s)
         })"

definition GDB_HandleRemoteCommandGetMemRegions :: "'w gdb_env \<Rightarrow> 'w gdb_st \<Rightarrow> (int \<times> 'w gdb_st) option" where
  "GDB_HandleRemoteCommandGetMemRegions E s =
     (case call_out E (GOpenProcess (pid s)) s of
        (r, h, s) \<Rightarrow>
          if g_R_FAILED E r then Some (GDB_SendHexPacket E invalid_process s)
          else
            do {
              (out, s) \<leftarrow> formatMemoryMapOfProcess E (GDB_BUF_LEN div 2) (ucast h) False s;
              Some (GDB_SendHexPacket E out s)
            })"

definition GDB_HandleRemoteCommandFlushCaches :: "'w gdb_env \<Rightarrow> 'w gdb_st \<Rightarrow> int \<times> 'w gdb_st" where
  "GDB_HandleRemoteCommandFlushCaches E s =
     (if byte_at (command_text s) 0 \<noteq> 0 then GDB_ReplyErrno E EILSEQ s else GDB_ReplyOk E (call_do E GFlushCaches s))"

definition GDB_HandleRemoteCommandToggleExternalMemoryAccess :: "'w gdb_env \<Rightarrow> 'w gdb_st \<Rightarrow> int \<times> 'w gdb_st" where
  "GDB_HandleRemoteCommandToggleExternalMemoryAccess E s =
     (let s = s\<lparr>enableExternalMemoryAccess := \<not> enableExternalMemoryAccess s\<rparr>
      in GDB_SendHexPacket E (chars ''External memory access '' @
           (if enableExternalMemoryAccess s then chars ''enabled'' else chars ''disabled'') @ chars '' successfully.'' @ [0x0A]) s)"

definition GDB_HandleRemoteCommandCatchSvc :: "'w gdb_env \<Rightarrow> 'w gdb_st \<Rightarrow> int \<times> 'w gdb_st" where
  "GDB_HandleRemoteCommandCatchSvc E s = catch_syscalls E s"

definition GDB_HandleRemoteCommandGetThreadPriority :: "'w gdb_env \<Rightarrow> 'w gdb_st \<Rightarrow> int \<times> 'w gdb_st" where
  "GDB_HandleRemoteCommandGetThreadPriority E s =
     (case GDB_GetDynamicThreadPriority E (selectedThreadId s) s of
        (prio, s) \<Rightarrow>
          GDB_SendHexPacket E (chars ''Thread ('' @ fmt_dec (sint (selectedThreadId s)) @ chars '') priority: 0x'' @
            fmt_HEX 2 (unat (word_of_int prio :: u32)) @ [0x0A]) s)"

text \<open>What is on the stack where a command does not set a variable.\<close>

record stack_values =
  st_behind :: "u8 list"
  st_instr :: "u8 list"
  st_handles :: "Handle \<times> Handle"
  st_isN3DS :: bool

text \<open>The text of the command is decoded into a local array, in which the handler then reads.\<close>

definition GDB_HandleQueryRcmd :: "'w gdb_env \<Rightarrow> stack_values \<Rightarrow> 'w gdb_st \<Rightarrow> (int \<times> 'w gdb_st) option" where
  "GDB_HandleQueryRcmd E v s =
     (let len = length (upto_nul (command_text s));
          (d, n) = GDB_DecodeHex (command_text s) (len div 2)
      in if len = 0 \<or> len mod 2 = 1 \<or> n \<noteq> len div 2 then Some (GDB_ReplyErrno E EILSEQ s)
         else
           let t = d @ [0];
               name = takeWhile (\<lambda>c. \<not> is_space c \<and> c \<noteq> 0) t;
               s' = s\<lparr>commandData := Some (GDB_SkipSpaces (drop (length name) t))\<rparr>
           in if name = chars ''convertvatopa'' then Some (GDB_HandleRemoteCommandConvertVAToPA E s')
              else if name = chars ''syncrequestinfo''
              then Some (GDB_HandleRemoteCommandSyncRequestInfo E (st_instr v) (st_handles v) s')
              else if name = chars ''translatehandle'' then Some (GDB_HandleRemoteCommandTranslateHandle E (st_handles v) s')
              else if name = chars ''listallhandles'' then Some (GDB_HandleRemoteCommandListAllHandles E s')
              else if name = chars ''getmmuconfig'' then Some (GDB_HandleRemoteCommandGetMmuConfig E (st_isN3DS v) s')
              else if name = chars ''getmemregions'' then GDB_HandleRemoteCommandGetMemRegions E s'
              else if name = chars ''flushcaches'' then Some (GDB_HandleRemoteCommandFlushCaches E s')
              else if name = chars ''toggleextmemaccess'' then Some (GDB_HandleRemoteCommandToggleExternalMemoryAccess E s')
              else if name = chars ''catchsvc'' then Some (GDB_HandleRemoteCommandCatchSvc E s')
              else if name = chars ''getthreadpriority'' then Some (GDB_HandleRemoteCommandGetThreadPriority E s')
              else Some (GDB_SendHexPacket E (chars ''Unrecognized command.'' @ [0x0A]) s))"

section \<open>The table of the queries\<close>

datatype query_direction = GDB_QUERY_DIRECTION_READ | GDB_QUERY_DIRECTION_WRITE

definition GDB_HandleQuery :: "'w gdb_env \<Rightarrow> stack_values \<Rightarrow> query_direction \<Rightarrow> 'w gdb_st \<Rightarrow> (int \<times> 'w gdb_st) option" where
  "GDB_HandleQuery E v dir s =
     (let nameBegin = command_text s in
      if byte_at nameBegin 0 = 0 then Some (GDB_ReplyErrno E EILSEQ s)
      else
        let i = find_char nameBegin [0x3A, 0x2C];
            name = take i nameBegin;
            s = (if byte_at nameBegin i \<noteq> 0 then cut_text nameBegin i s else s);
            data = (if byte_at nameBegin i \<noteq> 0 then drop (i + 1) nameBegin else drop i nameBegin);
            s' = s\<lparr>commandData := Some data\<rparr>;
            is_read = (\<lambda>lit. name = chars lit \<and> dir = GDB_QUERY_DIRECTION_READ);
            is_write = (\<lambda>lit. name = chars lit \<and> dir = GDB_QUERY_DIRECTION_WRITE)
        in if is_read ''Supported'' then Some (GDB_HandleQuerySupported E s')
           else if is_read ''Xfer'' then Some (GDB_HandleQueryXfer E s')
           else if is_write ''StartNoAckMode'' then Some (GDB_HandleQueryStartNoAckMode E s')
           else if is_read ''Attached'' then Some (GDB_HandleQueryAttached E s')
           else if is_read ''fThreadInfo'' then Some (GDB_HandleQueryfThreadInfo E s')
           else if is_read ''sThreadInfo'' then Some (GDB_HandleQuerysThreadInfo E s')
           else if is_write ''ThreadEvents'' then Some (GDB_HandleQueryThreadEvents E s')
           else if is_read ''ThreadExtraInfo'' then Some (GDB_HandleQueryThreadExtraInfo E s')
           else if is_read ''GetTLSAddr'' then Some (GDB_HandleQueryGetTLSAddr E s')
           else if is_read ''C'' then Some (GDB_HandleQueryCurrentThreadId E s')
           else if is_read ''Search'' then GDB_HandleQuerySearchMemory E s'
           else if is_write ''CatchSyscalls'' then Some (GDB_HandleQueryCatchSyscalls E s')
           else if is_read ''Rcmd'' then GDB_HandleQueryRcmd E v s'
           else Some (GDB_HandleUnsupported E s))"

definition GDB_HandleReadQuery :: "'w gdb_env \<Rightarrow> stack_values \<Rightarrow> 'w gdb_st \<Rightarrow> (int \<times> 'w gdb_st) option" where
  "GDB_HandleReadQuery E v s = GDB_HandleQuery E v GDB_QUERY_DIRECTION_READ s"

definition GDB_HandleWriteQuery :: "'w gdb_env \<Rightarrow> stack_values \<Rightarrow> 'w gdb_st \<Rightarrow> (int \<times> 'w gdb_st) option" where
  "GDB_HandleWriteQuery E v s = GDB_HandleQuery E v GDB_QUERY_DIRECTION_WRITE s"

end
