(* ===== verification/Gdb_Tio.thy ===== *)
theory Gdb_Tio
  imports Gdb_Query
begin

text \<open>
  Files of the SD card for the debugger (\<open>gdb/tio.c\<close>, with \<open>IFile_Read\<close>, \<open>IFile_Write\<close> and
  \<open>IFile_Close\<close> of \<open>ifile.c\<close> on the files that are open here). Descriptors are places in an array of 32,
  counted from 3.
\<close>

section \<open>Results and descriptors\<close>

definition GDB_TioConvertResult :: "Result \<Rightarrow> int" where
  "GDB_TioConvertResult res =
     (if res = 0 then 0
      else if res = 0x082044BE then 17
      else if res = 0x086044D2 then 28
      else if res = 0xC8804478 \<or> res = 0xC92044FA then 2
      else if res = 0xE0E046BE then 22
      else if res = 0xE0E046BF then 91
      else 9999)"

definition GDB_TioReplyErrno :: "'w gdb_env \<Rightarrow> int \<Rightarrow> 'w gdb_st \<Rightarrow> int \<times> 'w gdb_st" where
  "GDB_TioReplyErrno E err s = GDB_SendFormattedPacket E (chars ''F-1,'' @ fmt_hex 0 (nat err)) s"

text \<open>The place of an open file.\<close>

definition GDB_TioConvertFd :: "int \<Rightarrow> 'a gdb_ctx_scheme \<Rightarrow> nat option" where
  "GDB_TioConvertFd fd s =
     (if fd < 3 \<or> fd - 3 \<ge> int MAX_TIO_OPEN_FILE then None
      else if tio_handle (openTioFileInfos s ! nat (fd - 3)) = 0 then None
      else Some (nat (fd - 3)))"

definition GDB_TioRegisterFile :: "Handle \<Rightarrow> u32 \<Rightarrow> 'a gdb_ctx_scheme \<Rightarrow> int \<times> 'a gdb_ctx_scheme" where
  "GDB_TioRegisterFile h gdbOpenFlags s =
     (let i = length (takeWhile (\<lambda>f. tio_handle f \<noteq> 0) (take MAX_TIO_OPEN_FILE (openTioFileInfos s))) in
      if i \<ge> MAX_TIO_OPEN_FILE then (- 1, s)
      else (int i + 3, s\<lparr>openTioFileInfos := (openTioFileInfos s)[i := zero_tio\<lparr>tio_handle := h, tio_flags := gdbOpenFlags\<rparr>],
                         numOpenTioFiles := numOpenTioFiles s + 1\<rparr>))"

abbreviation (input) PATH_MAX :: nat where "PATH_MAX \<equiv> 255"

text \<open>The path in UTF-16 with its NUL, or the error.\<close>

definition GDB_MakeUtf16Path :: "'w gdb_env \<Rightarrow> u8 list \<Rightarrow> int + u16 list" where
  "GDB_MakeUtf16Path E pathData =
     (let len = length (upto_nul pathData) in
      if len mod 2 = 1 then Inl 22
      else
        let (d, n) = GDB_DecodeHex pathData (len div 2) in
        case g_utf16 E (take n d) of
          None \<Rightarrow> Inl 22
        | Some u \<Rightarrow> if length u \<ge> PATH_MAX then Inl 91 else Inr (u @ [0]))"

section \<open>The operations\<close>

abbreviation (input) FS_OPEN_READ :: u32 where "FS_OPEN_READ \<equiv> 1"
abbreviation (input) FS_OPEN_WRITE :: u32 where "FS_OPEN_WRITE \<equiv> 2"
abbreviation (input) FS_OPEN_CREATE :: u32 where "FS_OPEN_CREATE \<equiv> 4"
abbreviation (input) GDBHIO_O_ACCMODE :: u32 where "GDBHIO_O_ACCMODE \<equiv> 3"
abbreviation (input) GDBHIO_O_APPEND :: u32 where "GDBHIO_O_APPEND \<equiv> 8"
abbreviation (input) GDBHIO_O_CREAT :: u32 where "GDBHIO_O_CREAT \<equiv> 0x200"
abbreviation (input) GDBHIO_O_TRUNC :: u32 where "GDBHIO_O_TRUNC \<equiv> 0x400"
abbreviation (input) GDBHIO_O_EXCL :: u32 where "GDBHIO_O_EXCL \<equiv> 0x800"

definition open_mode :: "u32 \<Rightarrow> u32 option" where
  "open_mode fl =
     (let m = fl AND GDBHIO_O_ACCMODE;
          create = (if fl AND GDBHIO_O_CREAT \<noteq> 0 then FS_OPEN_CREATE else 0)
      in if m = 0 then (if fl AND GDBHIO_O_APPEND \<noteq> 0 then None else Some (FS_OPEN_READ OR create))
         else if m = 1 then Some (FS_OPEN_WRITE OR create)
         else if m = 2 then Some ((FS_OPEN_READ OR FS_OPEN_WRITE) OR create)
         else None)"

text \<open>Opening once the file system and the mode are known.\<close>

definition tio_open_file :: "'w gdb_env \<Rightarrow> u64 \<Rightarrow> u16 list \<Rightarrow> u32 \<Rightarrow> u32 \<Rightarrow> 'w gdb_st \<Rightarrow> int \<times> 'w gdb_st" where
  "tio_open_file E ar path fl fsFlags s =
     (case call_out E (GOpenFile ar path fsFlags) s of
        (r, h, s) \<Rightarrow>
          let err = GDB_TioConvertResult r in
          if err \<noteq> 0 then GDB_TioReplyErrno E err s
          else
            let s = call_do E (GCloseArchive ar) s;
                (r, s) = (if fl AND GDBHIO_O_ACCMODE \<noteq> 0 \<and> fl AND GDBHIO_O_TRUNC \<noteq> 0
                          then call_res E (GFileSetSize (ucast h) 0) s else (0, s));
                err = GDB_TioConvertResult r
            in if err \<noteq> 0
               then GDB_TioReplyErrno E err (if h \<noteq> 0 then call_do E (GFileClose (ucast h)) s else s)
               else
                 case GDB_TioRegisterFile (ucast h) (fl AND (GDBHIO_O_ACCMODE OR GDBHIO_O_APPEND)) s of
                   (fd, s) \<Rightarrow>
                     if fd < 0 then GDB_TioReplyErrno E 24 s
                     else GDB_SendFormattedPacket E (chars ''F'' @ fmt_hex 0 (nat fd)) s)"

definition GDB_HandleTioOpen :: "'w gdb_env \<Rightarrow> 'w gdb_st \<Rightarrow> int \<times> 'w gdb_st" where
  "GDB_HandleTioOpen E s =
     (let t = command_text s in
      case strchr_index t 0x2C of
        None \<Rightarrow> GDB_ReplyErrno E EILSEQ s
      | Some i \<Rightarrow>
          let s = cut_text t i s in
          case GDB_ParseHexIntegerList (drop (i + 1) t) 2 0 of
            None \<Rightarrow> GDB_ReplyErrno E EILSEQ s
          | Some (args, _) \<Rightarrow>
              if numOpenTioFiles s \<ge> MAX_TIO_OPEN_FILE then GDB_TioReplyErrno E 24 s
              else
                case GDB_MakeUtf16Path E (take i t @ [0]) of
                  Inl err \<Rightarrow> GDB_TioReplyErrno E err s
                | Inr path \<Rightarrow>
                    (case open_mode (args ! 0) of
                       None \<Rightarrow> GDB_TioReplyErrno E 22 s
                     | Some fsFlags \<Rightarrow>
                         (case call_out E GOpenArchive s of
                            (r, ar, s) \<Rightarrow>
                              let err = GDB_TioConvertResult r in
                              if err \<noteq> 0 then GDB_TioReplyErrno E err s
                              else if args ! 0 AND GDBHIO_O_CREAT \<noteq> 0 \<and> args ! 0 AND GDBHIO_O_EXCL \<noteq> 0 then
                                case call_res E (GCreateFile ar path) s of
                                  (r, s) \<Rightarrow>
                                    let err = GDB_TioConvertResult r in
                                    if err \<noteq> 0 then GDB_TioReplyErrno E err (call_do E (GCloseArchive ar) s)
                                    else tio_open_file E ar path (args ! 0) fsFlags s
                              else tio_open_file E ar path (args ! 0) fsFlags s)))"

text \<open>The count of open files stays as it is.\<close>

definition GDB_HandleTioClose :: "'w gdb_env \<Rightarrow> 'w gdb_st \<Rightarrow> int \<times> 'w gdb_st" where
  "GDB_HandleTioClose E s =
     (case GDB_ParseHexIntegerList (command_text s) 1 0 of
        None \<Rightarrow> GDB_ReplyErrno E EILSEQ s
      | Some (l, _) \<Rightarrow>
          (case GDB_TioConvertFd (sint (l ! 0)) s of
             None \<Rightarrow> GDB_TioReplyErrno E 9 s
           | Some i \<Rightarrow>
               (case call_res E (GFileClose (tio_handle (openTioFileInfos s ! i))) s of
                  (r, s) \<Rightarrow>
                    let err = GDB_TioConvertResult r;
                        s = s\<lparr>openTioFileInfos := (openTioFileInfos s)[i := zero_tio]\<rparr>
                    in if err \<noteq> 0 then GDB_TioReplyErrno E err s else GDB_SendPacket E (chars ''F0'') s)))"

text \<open>\<open>IFile_Read\<close>: what has been read so far, until the length, the end or an error.\<close>

function tio_read_loop :: "'w gdb_env \<Rightarrow> nat \<Rightarrow> nat \<Rightarrow> u8 list \<Rightarrow> 'w gdb_st \<Rightarrow> Result \<times> u8 list \<times> 'w gdb_st" where
  "tio_read_loop E i left acc s =
     (let f = openTioFileInfos s ! i;
          (r, d, s) = call_bytes E (GFileRead (tio_handle f) (tio_pos f) (of_nat left)) s
      in if g_R_FAILED E r \<or> d = [] then (r, acc, s)
         else
           let s = s\<lparr>openTioFileInfos := (openTioFileInfos s)[i := f\<lparr>tio_pos := tio_pos f + of_nat (length d)\<rparr>]\<rparr>
           in if length d \<ge> left then (r, acc @ d, s) else tio_read_loop E i (left - length d) (acc @ d) s)"
  by pat_completeness auto
termination by (relation "measure (\<lambda>(_, _, left, _, _). left)") auto

declare tio_read_loop.simps [simp del]

definition tio_read :: "'w gdb_env \<Rightarrow> nat \<Rightarrow> nat \<Rightarrow> 'w gdb_st \<Rightarrow> Result \<times> u8 list \<times> 'w gdb_st" where
  "tio_read E i len s = (if len = 0 then (0, [], s) else tio_read_loop E i len [] s)"

definition GDB_HandleTioRead :: "'w gdb_env \<Rightarrow> 'w gdb_st \<Rightarrow> int \<times> 'w gdb_st" where
  "GDB_HandleTioRead E s =
     (case GDB_ParseHexIntegerList (command_text s) 3 0 of
        None \<Rightarrow> GDB_ReplyErrno E EILSEQ s
      | Some (args, _) \<Rightarrow>
          let sizeof_buf = GDB_BUF_LEN - 4 - 2 - 8;
              n = (if unat (args ! 1) > sizeof_buf then sizeof_buf else unat (args ! 1))
          in case GDB_TioConvertFd (sint (args ! 0)) s of
               None \<Rightarrow> GDB_TioReplyErrno E 9 s
             | Some i \<Rightarrow>
                 let s = s\<lparr>openTioFileInfos := (openTioFileInfos s)[i := (openTioFileInfos s ! i)\<lparr>tio_pos := ucast (args ! 2)\<rparr>]\<rparr>
                 in case tio_read E i n s of
                      (r, d, s) \<Rightarrow>
                        let err = GDB_TioConvertResult r in
                        if err \<noteq> 0 then GDB_TioReplyErrno E err s
                        else
                          case GDB_EscapeBinaryData d sizeof_buf of
                            (enc, actual) \<Rightarrow> GDB_SendPacket E (chars ''F'' @ fmt_hex 8 actual @ chars '';'' @ enc) s)"

text \<open>\<open>IFile_Write\<close>: \<open>None\<close> is a loop that does not end, when the file takes no more bytes without an error.\<close>

partial_function (option) tio_write_loop ::
  "'w gdb_env \<Rightarrow> nat \<Rightarrow> u8 list \<Rightarrow> nat \<Rightarrow> 'w gdb_st \<Rightarrow> (Result \<times> nat \<times> 'w gdb_st) option" where
  "tio_write_loop E i data cur s =
     (let f = openTioFileInfos s ! i;
          (r, written, s) = call_out E (GFileWrite (tio_handle f) (tio_pos f) data) s
      in if g_R_FAILED E r then Some (r, cur, s)
         else
           let w = unat (ucast written :: u32);
               s = s\<lparr>openTioFileInfos := (openTioFileInfos s)[i := f\<lparr>tio_pos := tio_pos f + of_nat w\<rparr>]\<rparr>
           in if w = length data then Some (r, cur + w, s) else tio_write_loop E i (drop w data) (cur + w) s)"

definition tio_write :: "'w gdb_env \<Rightarrow> nat \<Rightarrow> u8 list \<Rightarrow> 'w gdb_st \<Rightarrow> (Result \<times> nat \<times> 'w gdb_st) option" where
  "tio_write E i data s = (if data = [] then Some (0, 0, s) else tio_write_loop E i data 0 s)"

definition GDB_HandleTioWrite :: "'w gdb_env \<Rightarrow> 'w gdb_st \<Rightarrow> (int \<times> 'w gdb_st) option" where
  "GDB_HandleTioWrite E s =
     (case GDB_ParseHexIntegerList (command_text s) 2 0x2C of
        None \<Rightarrow> Some (GDB_ReplyErrno E EILSEQ s)
      | Some (args, comma) \<Rightarrow>
          let escData = drop 1 comma;
              data = GDB_UnescapeBinaryData escData (commandEnd s - (GDB_BUF_LEN + 4 - length escData))
          in case GDB_TioConvertFd (sint (args ! 0)) s of
               None \<Rightarrow> Some (GDB_TioReplyErrno E 9 s)
             | Some i \<Rightarrow>
                 let s = s\<lparr>openTioFileInfos := (openTioFileInfos s)[i := (openTioFileInfos s ! i)\<lparr>tio_pos := ucast (args ! 1)\<rparr>]\<rparr>
                 in do {
                      (r, written, s) \<leftarrow> tio_write E i data s;
                      let err = GDB_TioConvertResult r;
                      Some (if err \<noteq> 0 then GDB_TioReplyErrno E err s
                            else GDB_SendFormattedPacket E (chars ''F'' @ fmt_hex 0 written) s)
                    })"

text \<open>What is sent for a file: not the structure that has been filled, but the text \<open>F0;\<close> and what the
  local array holds behind it, escaped into the place three bytes further while it is being read.
  Up to an escaped byte this copies the first three bytes over and over.\<close>

fun stat_bytes :: "nat \<Rightarrow> u8 list \<Rightarrow> nat \<Rightarrow> nat \<Rightarrow> u8 list" where
  "stat_bytes 0 buf src dst = take dst buf"
| "stat_bytes (Suc room) buf src dst =
     (if needs_escape (byte_at buf src) then
        (if room = 0 then take dst buf
         else stat_bytes (room - 1) (buf[dst := 0x7D, dst + 1 := byte_at (buf[dst := 0x7D]) src XOR 0x20]) (src + 1) (dst + 2))
      else stat_bytes room (buf[dst := byte_at buf src]) (src + 1) (dst + 1))"

abbreviation (input) sizeof_stat :: nat where "sizeof_stat \<equiv> 64"

definition stat_reply :: "u8 list" where
  "stat_reply = stat_bytes sizeof_stat (chars ''F0;'' @ replicate (2 * sizeof_stat) 0) 0 3"

definition GDB_HandleTioStat :: "'w gdb_env \<Rightarrow> 'w gdb_st \<Rightarrow> int \<times> 'w gdb_st" where
  "GDB_HandleTioStat E s =
     (if byte_at (command_text s) 0 = 0 then GDB_ReplyErrno E EILSEQ s
      else
        case GDB_MakeUtf16Path E (command_text s) of
          Inl err \<Rightarrow> GDB_TioReplyErrno E err s
        | Inr path \<Rightarrow>
            (case call_out E GOpenArchive s of
               (r, ar, s) \<Rightarrow>
                 let err = GDB_TioConvertResult r in
                 if err \<noteq> 0 then GDB_TioReplyErrno E err s
                 else
                   let (r, h, s) = call_out E (GOpenFile ar path FS_OPEN_READ) s;
                       (err, s) =
                         (if GDB_TioConvertResult r = 0 then
                            (case call_res E (GFileGetSize (ucast h)) s of
                               (r, s) \<Rightarrow> (GDB_TioConvertResult r, call_do E (GFileClose (ucast h)) s))
                          else
                            (case call_out E (GOpenDirectory ar path) s of
                               (r, h, s) \<Rightarrow>
                                 (GDB_TioConvertResult r,
                                  if GDB_TioConvertResult r = 0 then call_do E (GDirClose (ucast h)) s else s)));
                       s = call_do E (GCloseArchive ar) s
                   in if err \<noteq> 0 then GDB_TioReplyErrno E err s else GDB_SendPacket E stat_reply s))"

definition GDB_HandleTioUnlink :: "'w gdb_env \<Rightarrow> 'w gdb_st \<Rightarrow> int \<times> 'w gdb_st" where
  "GDB_HandleTioUnlink E s =
     (if byte_at (command_text s) 0 = 0 then GDB_ReplyErrno E EILSEQ s
      else
        case GDB_MakeUtf16Path E (command_text s) of
          Inl err \<Rightarrow> GDB_TioReplyErrno E err s
        | Inr path \<Rightarrow>
            (case call_out E GOpenArchive s of
               (r, ar, s) \<Rightarrow>
                 let err = GDB_TioConvertResult r in
                 if err \<noteq> 0 then GDB_TioReplyErrno E err s
                 else
                   let (r, s) = call_res E (GDeleteFile ar path) s;
                       err = GDB_TioConvertResult r;
                       s = call_do E (GCloseArchive ar) s
                   in if err \<noteq> 0 then GDB_TioReplyErrno E err s else GDB_SendPacket E (chars ''F0'') s))"

definition GDB_HandleTioReadlink :: "'w gdb_env \<Rightarrow> 'w gdb_st \<Rightarrow> int \<times> 'w gdb_st" where
  "GDB_HandleTioReadlink E s =
     (if byte_at (command_text s) 0 = 0 then GDB_ReplyErrno E EILSEQ s else GDB_SendPacket E (chars ''F0;'') s)"

definition GDB_HandleTioSetfs :: "'w gdb_env \<Rightarrow> 'w gdb_st \<Rightarrow> int \<times> 'w gdb_st" where
  "GDB_HandleTioSetfs E s =
     (case GDB_ParseHexIntegerList (command_text s) 1 0 of
        None \<Rightarrow> GDB_ReplyErrno E EILSEQ s
      | Some _ \<Rightarrow> GDB_SendPacket E (chars ''F0'') s)"

definition GDB_HandleVerboseFile :: "'w gdb_env \<Rightarrow> 'w gdb_st \<Rightarrow> (int \<times> 'w gdb_st) option" where
  "GDB_HandleVerboseFile E s =
     do {
       t \<leftarrow> commandData s;
       if byte_at t 0 = 0 then Some (GDB_ReplyErrno E EILSEQ s)
       else
         case strchr_index t 0x3A of
           None \<Rightarrow> Some (GDB_ReplyErrno E EILSEQ s)
         | Some i \<Rightarrow>
             let s = cut_text t i s;
                 name = take i t;
                 s' = s\<lparr>commandData := Some (drop (i + 1) t)\<rparr>
             in if name = chars ''open'' then Some (GDB_HandleTioOpen E s')
                else if name = chars ''close'' then Some (GDB_HandleTioClose E s')
                else if name = chars ''pread'' then Some (GDB_HandleTioRead E s')
                else if name = chars ''pwrite'' then GDB_HandleTioWrite E s'
                else if name = chars ''fstat'' then Some (GDB_HandleTioStat E s')
                else if name = chars ''unlink'' then Some (GDB_HandleTioUnlink E s')
                else if name = chars ''readlink'' then Some (GDB_HandleTioReadlink E s')
                else if name = chars ''setfs'' then Some (GDB_HandleTioSetfs E s')
                else Some (GDB_HandleUnsupported E s)
     }"

end
