(* ===== verification/Gdb_Server.thy ===== *)
theory Gdb_Server
  imports Gdb_Tio
begin

text \<open>
  The server of the debugger: the table of the commands and the handling of a packet (\<open>gdb/server.c\<close>,
  \<open>gdb/verbose.c\<close>), the three contexts and who gets one, the thread that watches debug events
  (\<open>gdb/monitor.c\<close>), and what the menus do with the contexts (\<open>menus/debugger.c\<close>,
  \<open>menus/process_list.c\<close>).
\<close>

section \<open>Commands\<close>

definition GDB_HandleVerboseContinueSupported :: "'w gdb_env \<Rightarrow> 'w gdb_st \<Rightarrow> int \<times> 'w gdb_st" where
  "GDB_HandleVerboseContinueSupported E s = GDB_SendPacket E (chars ''vCont;c;C'') s"

text \<open>Without a separator behind the name the text of the handler is NULL.\<close>

definition GDB_HandleVerboseCommand :: "'w gdb_env \<Rightarrow> stack_values \<Rightarrow> 'w gdb_st \<Rightarrow> (int \<times> 'w gdb_st) option" where
  "GDB_HandleVerboseCommand E v s =
     (let nameBegin = command_text s in
      if byte_at nameBegin 0 = 0 then Some (GDB_ReplyErrno E EILSEQ s)
      else
        let i = find_char nameBegin [0x3B, 0x3A];
            name = take i nameBegin;
            s = (if byte_at nameBegin i \<noteq> 0 then cut_text nameBegin i s else s);
            s' = s\<lparr>commandData := (if byte_at nameBegin i \<noteq> 0 then Some (drop (i + 1) nameBegin) else None)\<rparr>
        in if name = chars ''Attach'' then GDB_HandleVerboseAttach E (st_behind v) s'
           else if name = chars ''Cont?'' then Some (GDB_HandleVerboseContinueSupported E s')
           else if name = chars ''Cont'' then GDB_HandleVerboseContinue E s'
           else if name = chars ''File'' then GDB_HandleVerboseFile E s'
           else if name = chars ''MustReplyEmpty'' then Some (GDB_HandleUnsupported E s')
           else if name = chars ''Run'' then GDB_HandleVerboseRun E (st_behind v) s'
           else if name = chars ''Kill'' then GDB_HandleVerboseKill E s'
           else Some (GDB_HandleUnsupported E s))"

definition GDB_GetCommandHandler :: "u8 \<Rightarrow> 'w gdb_env \<Rightarrow> stack_values \<Rightarrow> 'w gdb_st \<Rightarrow> (int \<times> 'w gdb_st) option" where
  "GDB_GetCommandHandler command E v s =
     (let c = (char_of (unat command) :: char) in
      if c = CHR ''?'' then Some (GDB_HandleGetStopReason E (st_behind v) s)
      else if c = CHR ''!'' then Some (GDB_HandleEnableExtendedMode E s)
      else if c = CHR ''c'' then Some (GDB_HandleContinue E s)
      else if c = CHR ''C'' then Some (GDB_HandleContinue E s)
      else if c = CHR ''D'' then GDB_HandleDetach E s
      else if c = CHR ''F'' then GDB_HandleHioReply E s
      else if c = CHR ''g'' then Some (GDB_HandleReadRegisters E s)
      else if c = CHR ''G'' then Some (GDB_HandleWriteRegisters E s)
      else if c = CHR ''H'' then Some (GDB_HandleSetThreadId E s)
      else if c = CHR ''k'' then GDB_HandleKill E s
      else if c = CHR ''m'' then Some (GDB_HandleReadMemory E s)
      else if c = CHR ''M'' then GDB_HandleWriteMemory E s
      else if c = CHR ''p'' then Some (GDB_HandleReadRegister E s)
      else if c = CHR ''P'' then Some (GDB_HandleWriteRegister E s)
      else if c = CHR ''q'' then GDB_HandleReadQuery E v s
      else if c = CHR ''Q'' then GDB_HandleWriteQuery E v s
      else if c = CHR ''R'' then GDB_HandleRestart E s
      else if c = CHR ''T'' then Some (GDB_HandleIsThreadAlive E s)
      else if c = CHR ''v'' then GDB_HandleVerboseCommand E v s
      else if c = CHR ''X'' then GDB_HandleWriteMemoryRaw E s
      else if c = CHR ''z'' then Some (GDB_HandleToggleStopPoint E s)
      else if c = CHR ''Z'' then Some (GDB_HandleToggleStopPoint E s)
      else Some (GDB_HandleUnsupported E s))"

definition lock_ctx :: "'w gdb_st \<Rightarrow> 'w gdb_st" where
  "lock_ctx s = s\<lparr>ctx_lock := ctx_lock s + 1\<rparr>"

definition unlock_ctx :: "'w gdb_st \<Rightarrow> 'w gdb_st" where
  "unlock_ctx s = s\<lparr>ctx_lock := ctx_lock s - 1\<rparr>"

text \<open>What a packet asks for.\<close>

definition handle_packet :: "'w gdb_env \<Rightarrow> stack_values \<Rightarrow> int \<Rightarrow> 'w gdb_st \<Rightarrow> (int \<times> 'w gdb_st) option" where
  "handle_packet E v r s =
     (if r = 0 then Some (0, s)
      else if r = - 1 then Some (- 1, s)
      else if byte_at (buffer s) 0 = 3 then Some (0, snd (GDB_HandleBreak E s))
      else if byte_at (buffer s) 0 = 0x24 then
        GDB_GetCommandHandler (byte_at (buffer s) 1) E v (s\<lparr>commandData := Some (drop 2 (buffer s))\<rparr>)
      else Some (0, s))"

text \<open>The end of a packet: leaving, and stopping or continuing the target if the flag has changed.\<close>

definition finish_packet :: "'w gdb_env \<Rightarrow> u32 \<Rightarrow> int \<Rightarrow> 'w gdb_st \<Rightarrow> int \<times> 'w gdb_st" where
  "finish_packet E oldFlags ret s =
     (if gdb_state s = GDB_STATE_DETACHING then
        (if has_ctx_flag GDB_FLAG_EXTENDED_REMOTE s then (ret, unlock_ctx (s\<lparr>gdb_state := GDB_STATE_CONNECTED\<rparr>))
         else (- 1, unlock_ctx s))
      else
        let was = (oldFlags AND GDB_FLAG_PROCESS_CONTINUING \<noteq> 0);
            now = has_ctx_flag GDB_FLAG_PROCESS_CONTINUING s;
            s = (if was \<and> \<not> now then
                   case call_res E (GBreakDebugProcess (debug s)) s of
                     (r, s) \<Rightarrow> if g_R_FAILED E r then s\<lparr>flags := flags s OR GDB_FLAG_PROCESS_CONTINUING\<rparr> else s
                 else if \<not> was \<and> now then call_do E (GSignalEvent (continuedEvent s)) s
                 else s)
        in (ret, unlock_ctx s))"

text \<open>A context without a connection returns with its lock taken.\<close>

definition GDB_DoPacket :: "'w gdb_env \<Rightarrow> stack_values \<Rightarrow> 'w gdb_st \<Rightarrow> (int \<times> 'w gdb_st) option" where
  "GDB_DoPacket E v s =
     (let s = lock_ctx s;
          oldFlags = flags s
      in if gdb_state s = GDB_STATE_DISCONNECTED then Some (- 1, s)
         else
           case GDB_ReceivePacket E s of
             (r, s) \<Rightarrow>
               do {
                 (ret, s) \<leftarrow> handle_packet E v r s;
                 Some (finish_packet E oldFlags ret s)
               })"

section \<open>Contexts\<close>

record 'w gdb_server =
  sv_ctxs :: "gdb_ctx list"
  sv_referenceCount :: int
  sv_next_ctx :: "nat option"
  sv_total :: u32
  sv_watchpoints :: "Watchpoint list"
  sv_lock :: int
  sv_statusUpdated :: Handle
  sv_statusUpdateReceived :: Handle
  sv_world :: 'w

text \<open>A step of one context, on the state the handlers work on.\<close>

definition load_ctx :: "nat \<Rightarrow> 'w gdb_server \<Rightarrow> 'w gdb_st" where
  "load_ctx i S = gdb_ctx.extend (sv_ctxs S ! i)
     (gdb_st.fields (sv_total S) (sv_watchpoints S) (sv_lock S) (sv_statusUpdated S) (sv_statusUpdateReceived S) (sv_world S))"

definition store_ctx :: "nat \<Rightarrow> 'w gdb_st \<Rightarrow> 'w gdb_server \<Rightarrow> 'w gdb_server" where
  "store_ctx i s S = S\<lparr>sv_ctxs := (sv_ctxs S)[i := gdb_ctx.truncate s], sv_total := manager_total s,
     sv_watchpoints := manager_watchpoints s, sv_lock := manager_lock s, sv_world := world s\<rparr>"

definition update_ctx :: "nat \<Rightarrow> (gdb_ctx \<Rightarrow> gdb_ctx) \<Rightarrow> 'w gdb_server \<Rightarrow> 'w gdb_server" where
  "update_ctx i f S = S\<lparr>sv_ctxs := (sv_ctxs S)[i := f (sv_ctxs S ! i)]\<rparr>"

text \<open>The first context for which a condition holds, \<open>MAX_DEBUG\<close> if none.\<close>

definition first_ctx :: "(gdb_ctx \<Rightarrow> bool) \<Rightarrow> 'w gdb_server \<Rightarrow> nat" where
  "first_ctx c S = length (takeWhile (\<lambda>x. \<not> c x) (take MAX_DEBUG (sv_ctxs S)))"

definition allocated :: "gdb_ctx \<Rightarrow> bool" where
  "allocated c \<longleftrightarrow> has_ctx_flag GDB_FLAG_ALLOCATED_MASK c"

definition port_used :: "u16 \<Rightarrow> 'w gdb_server \<Rightarrow> bool" where
  "port_used port S \<longleftrightarrow> list_ex (\<lambda>c. allocated c \<and> localPort c = port) (take MAX_DEBUG (sv_ctxs S))"

text \<open>The first port of the range that is not used, or the end of the range.\<close>

function free_port :: "u16 \<Rightarrow> u16 \<Rightarrow> 'w gdb_server \<Rightarrow> u16" where
  "free_port port maxPort S =
     (if port < maxPort \<and> port_used port S then free_port (port + 1) maxPort S else port)"
  by pat_completeness auto
termination
proof (relation "measure (\<lambda>(port, maxPort, _). unat maxPort - unat port)", simp, goal_cases)
  case (1 port maxPort S)
  then have "unat port < unat maxPort" by (simp add: word_less_nat_alt)
  moreover have "unat maxPort < 2 ^ 16" by (rule order.strict_trans2 [OF unsigned_less]) simp
  ultimately have "unat (port + 1) = unat port + 1" by (simp add: unat_word_ariths)
  with \<open>unat port < unat maxPort\<close> show ?case by simp
qed

declare free_port.simps [simp del]

text \<open>When no port is free, the flags become everything but \<open>GDB_FLAG_SELECTED\<close>.\<close>

definition GDB_SelectAvailableContext :: "u16 \<Rightarrow> u16 \<Rightarrow> 'w gdb_server \<Rightarrow> nat option \<times> 'w gdb_server" where
  "GDB_SelectAvailableContext minPort maxPort S =
     (let i = first_ctx (\<lambda>c. \<not> allocated c) S in
      if i \<ge> MAX_DEBUG then (None, S)
      else
        let port = free_port minPort maxPort S in
        if port \<ge> maxPort then (None, update_ctx i (\<lambda>c. c\<lparr>flags := NOT GDB_FLAG_SELECTED\<rparr>) S)
        else (Some i, update_ctx i (\<lambda>c. c\<lparr>flags := flags c OR GDB_FLAG_SELECTED, localPort := port\<rparr>) S))"

text \<open>The last one that fits.\<close>

definition GDB_FindAllocatedContextByPid :: "u32 \<Rightarrow> 'w gdb_server \<Rightarrow> nat option" where
  "GDB_FindAllocatedContextByPid p S =
     fold (\<lambda>i acc. let c = sv_ctxs S ! i in
            if (has_ctx_flag GDB_FLAG_SELECTED c \<or>
                (state_number (gdb_state c) \<ge> state_number GDB_STATE_ATTACHED \<and>
                 state_number (gdb_state c) < state_number GDB_STATE_DETACHING)) \<and> pid c = p
            then Some i else acc) [0..<MAX_DEBUG] None"

definition GDB_AcceptClient :: "'w gdb_env \<Rightarrow> 'w gdb_st \<Rightarrow> (int \<times> 'w gdb_st) option" where
  "GDB_AcceptClient E s =
     (let s = s\<lparr>gdb_state := GDB_STATE_CONNECTED, latestSentPacketSize := 0\<rparr> in
      do {
        (r, s) \<leftarrow> (if has_ctx_flag GDB_FLAG_SELECTED s then GDB_AttachToProcess E s else Some (0, s));
        Some (if \<not> g_R_FAILED E r then 0 else - 1, s)
      })"

text \<open>A context that is given back.\<close>

definition reset_client :: "'w gdb_env \<Rightarrow> 'w gdb_st \<Rightarrow> 'w gdb_st" where
  "reset_client E s =
     (let s = s\<lparr>localPort := 0, enableExternalMemoryAccess := False, flags := 0, gdb_state := GDB_STATE_DISCONNECTED,
                catchThreadEvents := False, multiprocessExtEnabled := False, latestDebugEvent := zero_event,
                memoryOsInfoXmlData := replicate 0x800 0, processesOsInfoXmlData := replicate 0x1800 0\<rparr>;
          s = fold (\<lambda>f s. if tio_handle f \<noteq> 0 then call_do E (GFileClose (tio_handle f)) s else s) (openTioFileInfos s) s
      in s\<lparr>openTioFileInfos := replicate MAX_TIO_OPEN_FILE zero_tio, numOpenTioFiles := 0\<rparr>)"

definition GDB_CloseClient :: "'w gdb_env \<Rightarrow> int \<Rightarrow> 'w gdb_st \<Rightarrow> (int \<times> 'w gdb_st) option" where
  "GDB_CloseClient E referenceCount s =
     (let s = call_do E (GClearEvent (processAttachedEvent s)) s;
          s = s\<lparr>eventToWaitFor := processAttachedEvent s\<rparr>;
          s = call_do E (GClearEvent (statusUpdateReceived s)) s;
          s = call_do E (GSignalEvent (statusUpdated s)) s;
          s = (if referenceCount \<ge> 2 then call_do E (GWaitSynchronization (statusUpdateReceived s)) s else s)
      in do {
           s \<leftarrow> (if state_number (gdb_state s) \<ge> state_number GDB_STATE_ATTACHED \<or> debug s \<noteq> 0
                 then GDB_DetachFromProcess E s else Some s);
           Some (0, reset_client E s)
         })"

text \<open>While one waits for the process of the next application, the other threads run (\<open>others\<close>); \<open>None\<close>
  is a wait without an end.\<close>

partial_function (option) wait_for_process ::
  "'w gdb_env \<Rightarrow> ('w gdb_server \<Rightarrow> 'w gdb_server) \<Rightarrow> nat \<Rightarrow> 'w gdb_server \<Rightarrow> 'w gdb_server option" where
  "wait_for_process E others i S =
     (let S = others (S\<lparr>sv_world := snd (g_call E (GSleepThread 5000000) (sv_world S))\<rparr>) in
      if debug (sv_ctxs S ! i) \<noteq> 0 then Some S else wait_for_process E others i S)"

abbreviation (input) GDB_PORT_BASE :: u16 where "GDB_PORT_BASE \<equiv> 4000"

definition GDB_GetClient ::
  "'w gdb_env \<Rightarrow> ('w gdb_server \<Rightarrow> 'w gdb_server) \<Rightarrow> u16 \<Rightarrow> 'w gdb_server \<Rightarrow> (nat option \<times> 'w gdb_server) option" where
  "GDB_GetClient E others port S =
     (let i = first_ctx (\<lambda>c. localPort c = port) S;
          use = (\<lambda>c. c\<lparr>flags := flags c OR GDB_FLAG_USED, gdb_state := GDB_STATE_CONNECTED\<rparr>);
          (found, S) =
            (if i < MAX_DEBUG then
               (if has_ctx_flag GDB_FLAG_USED (sv_ctxs S ! i) then (None, S) else (Some i, update_ctx i use S))
             else if port \<ge> GDB_PORT_BASE \<and> port < GDB_PORT_BASE + of_nat MAX_DEBUG then
               let j = first_ctx (\<lambda>c. \<not> allocated c) S in
               if j \<ge> MAX_DEBUG then (None, S)
               else (Some j, update_ctx j (\<lambda>c. use (c\<lparr>localPort := port\<rparr>)) S)
             else (None, S))
      in case found of
           None \<Rightarrow> Some (None, S)
         | Some j \<Rightarrow>
             if port = GDB_PORT_BASE + of_nat MAX_DEBUG
             then do { S \<leftarrow> wait_for_process E others j S; Some (Some j, S) }
             else Some (Some j, S))"

section \<open>Menus\<close>

text \<open>The process that has been started for the debugger.\<close>

definition debuggerFetchAndSetNextApplicationDebugHandleTask :: "Handle \<Rightarrow> 'w gdb_server \<Rightarrow> 'w gdb_server" where
  "debuggerFetchAndSetNextApplicationDebugHandleTask h S =
     (case sv_next_ctx S of
        None \<Rightarrow> S
      | Some i \<Rightarrow>
          (update_ctx i (\<lambda>c. c\<lparr>debug := h, flags := (if h = 0 then 0 else flags c OR GDB_FLAG_ATTACHED_AT_START)\<rparr>) S)
            \<lparr>sv_next_ctx := None\<rparr>)"

text \<open>\<open>ok\<close> is whether the process manager agrees.\<close>

definition DebuggerMenu_DebugNextApplicationByForce :: "bool \<Rightarrow> 'w gdb_server \<Rightarrow> 'w gdb_server" where
  "DebuggerMenu_DebugNextApplicationByForce ok S =
     (if sv_referenceCount S = 0 \<or> sv_next_ctx S \<noteq> None then S
      else
        case GDB_SelectAvailableContext (GDB_PORT_BASE + 3) (GDB_PORT_BASE + 4) S of
          (None, S) \<Rightarrow> S
        | (Some i, S) \<Rightarrow>
            let S = update_ctx i (\<lambda>c. c\<lparr>debug := 0, pid := 0xFFFFFFFF\<rparr>) S in
            if ok then S\<lparr>sv_next_ctx := Some i\<rparr>
            else update_ctx i (\<lambda>c. c\<lparr>flags := 0, localPort := 0\<rparr>) S)"

text \<open>Selecting a process of the list, or giving its selection up; a connection in use is closed by the
  thread of the sockets, for which the menu waits.\<close>

definition ProcessListMenu_HandleSelected :: "u32 \<Rightarrow> 'w gdb_server \<Rightarrow> 'w gdb_server" where
  "ProcessListMenu_HandleSelected p S =
     (case GDB_FindAllocatedContextByPid p S of
        Some i \<Rightarrow>
          let c = sv_ctxs S ! i in
          if has_ctx_flag GDB_FLAG_USED c \<and> has_ctx_flag GDB_FLAG_SELECTED c then S
          else if has_ctx_flag GDB_FLAG_SELECTED c \<and> localPort c \<ge> GDB_PORT_BASE \<and> localPort c < GDB_PORT_BASE + of_nat MAX_DEBUG
          then update_ctx i (\<lambda>c. c\<lparr>flags := flags c AND NOT GDB_FLAG_SELECTED, localPort := 0\<rparr>) S
          else S
      | None \<Rightarrow>
          (case GDB_SelectAvailableContext GDB_PORT_BASE (GDB_PORT_BASE + of_nat MAX_DEBUG) S of
             (None, S) \<Rightarrow> S
           | (Some i, S) \<Rightarrow> update_ctx i (\<lambda>c. c\<lparr>pid := p\<rparr>) S))"

section \<open>The thread that watches the events\<close>

text \<open>The events that are left when the process has ended.\<close>

partial_function (option) remaining_events :: "'w gdb_env \<Rightarrow> u8 list \<Rightarrow> 'w gdb_st \<Rightarrow> 'w gdb_st option" where
  "remaining_events E behind s =
     do {
       (res, s) \<leftarrow> GDB_HandleDebugEvents E behind s;
       if res = - 1 then Some s else remaining_events E behind (call_do E (GSleepThread 1000000) s)
     }"

definition rest_until_attached :: "'w gdb_env \<Rightarrow> 'w gdb_st \<Rightarrow> 'w gdb_st" where
  "rest_until_attached E s =
     (call_do E (GClearEvent (processAttachedEvent s)) s)\<lparr>eventToWaitFor := processAttachedEvent s\<rparr>"

text \<open>A context whose event has been signalled.\<close>

definition monitor_ctx :: "'w gdb_env \<Rightarrow> u8 list \<Rightarrow> 'w gdb_st \<Rightarrow> 'w gdb_st option" where
  "monitor_ctx E behind s =
     (if gdb_state s = GDB_STATE_DISCONNECTED \<or> gdb_state s = GDB_STATE_DETACHING then Some (rest_until_attached E s)
      else if eventToWaitFor s = processAttachedEvent s then Some (s\<lparr>eventToWaitFor := continuedEvent s\<rparr>)
      else if eventToWaitFor s = continuedEvent s then Some (s\<lparr>eventToWaitFor := debug s\<rparr>)
      else
        do {
          (res, s) \<leftarrow> GDB_HandleDebugEvents E behind s;
          if res \<ge> 0 then Some (s\<lparr>eventToWaitFor := continuedEvent s\<rparr>)
          else if res = - 2 then
            do {
              s \<leftarrow> remaining_events E behind s;
              s \<leftarrow> (if has_ctx_flag GDB_FLAG_EXTENDED_REMOTE s then
                       do {
                         s \<leftarrow> GDB_DetachFromProcess E (s\<lparr>gdb_state := GDB_STATE_DETACHING\<rparr>);
                         Some (s\<lparr>flags := flags s AND GDB_FLAG_PROC_RESTART_MASK\<rparr>)
                       }
                     else Some s);
              Some (rest_until_attached E s)
            }
          else Some s
        })"

text \<open>One round, given what the wait on the events of termination, of the server and of the contexts has
  returned; whether the loop goes on.\<close>

definition monitor_events :: "Handle \<Rightarrow> Handle \<Rightarrow> 'w gdb_server \<Rightarrow> Handle list" where
  "monitor_events preTermination shall_terminate S =
     [preTermination, shall_terminate, sv_statusUpdated S] @ map eventToWaitFor (take MAX_DEBUG (sv_ctxs S))"

definition GDB_RunMonitor_round ::
  "'w gdb_env \<Rightarrow> u8 list \<Rightarrow> Result \<Rightarrow> int \<Rightarrow> bool \<Rightarrow> 'w gdb_server \<Rightarrow> (bool \<times> 'w gdb_server) option" where
  "GDB_RunMonitor_round E behind r idx keep_running S =
     (if g_R_FAILED E r \<or> idx < 2 then Some (False, S)
      else if idx = 2 then
        Some (keep_running, S\<lparr>sv_world := snd (g_call E (GSignalEvent (sv_statusUpdateReceived S)) (sv_world S))\<rparr>)
      else
        let i = nat (idx - 3) in
        do {
          s \<leftarrow> monitor_ctx E behind (load_ctx i S);
          Some (keep_running, store_ctx i s S)
        })"

end
