(* ===== verification/Gdb_Packets.thy ===== *)
theory Gdb_Packets
  imports Gdb_Server
begin

text \<open>
  Properties of the packets: escaped data is read back, a packet that is sent is received as it was,
  and a document is delivered in parts.
\<close>

section \<open>Escaped data\<close>

lemma byte_at_Cons [simp]: "byte_at (b # s) 0 = b" "byte_at (b # s) (Suc i) = byte_at s i" "byte_at [] i = 0"
  by (simp_all add: byte_at_def)

lemma byte_at_1 [simp]: "byte_at (a # b # s) 1 = b"
  using byte_at_Cons(2) [of a "b # s" 0] by simp

lemma escape_loop_length: "length (fst (escape_loop src room)) \<le> room \<and> snd (escape_loop src room) \<le> length src"
  by (induction src room rule: escape_loop.induct) (auto split: prod.splits if_splits)

lemma escape_loop_clean:
  "set (fst (escape_loop src room)) \<inter> {0x24, 0x23, 0x2A} = {}"
proof (induction src room rule: escape_loop.induct)
  case (3 b src room)
  have "needs_escape b \<Longrightarrow> b XOR 0x20 \<notin> {0x24, 0x23, 0x2A}"
    by (auto simp: needs_escape_def)
  moreover have "\<not> needs_escape b \<Longrightarrow> b \<notin> {0x24, 0x23, 0x2A}"
    by (auto simp: needs_escape_def)
  ultimately show ?case using 3 by (auto split: prod.splits)
qed simp_all

lemma xor_twice: "(b XOR k) XOR k = (b :: u8)"
  by (simp add: xor.assoc)

lemma unescape_escape:
  "GDB_UnescapeBinaryData (fst (escape_loop src room) @ rest) (length (fst (escape_loop src room))) =
     take (snd (escape_loop src room)) src"
proof (induction src room rule: escape_loop.induct)
  case (3 b src room)
  have "b \<noteq> 0x7D" if "\<not> needs_escape b" using that by (auto simp: needs_escape_def)
  with 3 show ?case by (auto simp: xor_twice split: prod.splits)
qed simp_all

lemma escape_one_left: "needs_escape b \<Longrightarrow> GDB_EscapeBinaryData [b] maxLen = ([], 0)"
  by (cases maxLen) (auto simp: GDB_EscapeBinaryData_def)

section \<open>Frames\<close>

text \<open>The bytes of a packet.\<close>

definition frame :: "u8 list \<Rightarrow> u8 list" where
  "frame d = [0x24] @ d @ [0x23] @ hexItoa (ucast (GDB_ComputeChecksum d)) 2 False"

lemma length_hexItoa [simp]: "length (hexItoa n k u) = k"
  by (simp add: hexItoa_def)

lemma length_frame [simp]: "length (frame d) = length d + 4"
  by (simp add: frame_def)

lemma mask_4: "(15 :: 'a::len word) = mask 4"
  by (simp add: mask_eq_exp_minus_1)

lemma unat_wide: "unat (ucast (b :: u8) :: u64) = unat b"
proof -
  have "unat b < 2 ^ 64" by (rule order.strict_trans2 [OF unsigned_less]) simp
  then show ?thesis by (simp add: unsigned_ucast_eq take_bit_nat_eq_self)
qed

lemma hexItoa_2:
  "hexItoa (ucast (b :: u8)) 2 False =
     [hex_digit_lower (drop_bit 4 b), hex_digit_lower (b AND 0xF)]"
proof -
  have len: "bit b k \<Longrightarrow> k < 8" for k using bit_imp_le_length [of b k] by simp
  have "drop_bit 4 (ucast b :: u64) AND 0xF = ucast (drop_bit 4 b)"
    by (intro bit_word_eqI) (auto simp: mask_4 bit_simps dest: len)
  moreover have "(ucast b :: u64) AND 0xF = ucast (b AND 0xF)"
    by (intro bit_word_eqI) (auto simp: mask_4 bit_simps dest: len)
  ultimately show ?thesis by (simp add: hexItoa_def hex_digit_lower_def numeral_2_eq_2 unat_wide)
qed

lemma nibble_below:
  fixes d :: u8
  assumes "d < 16"
  shows "d \<in> {0, 1, 2, 3, 4, 5, 6, 7, 8, 9, 10, 11, 12, 13, 14, 15}"
proof -
  have "unat d < 16" using assms by (simp add: word_less_nat_alt)
  then have "unat d \<in> {0, 1, 2, 3, 4, 5, 6, 7, 8, 9, 10, 11, 12, 13, 14, 15}"
    by (simp only: insert_iff empty_iff) arith
  then show ?thesis by (elim insertE emptyE) (simp_all add: word_unat_eq_iff)
qed

lemma decode_digit:
  assumes "d < 16"
  shows "GDB_DecodeHexDigit (hex_digit_lower d) = (True, ucast d)" and "hex_digit_lower d \<noteq> 0"
  using nibble_below [OF assms]
  by (auto simp: GDB_DecodeHexDigit_def hex_digit_lower_def chars_def)

lemma nibbles_less: "b AND 0xF < (16 :: u8)" "drop_bit 4 (b :: u8) < 16"
proof -
  have "b AND 0xF \<le> 0xF" by (rule word_and_le1)
  then show "b AND 0xF < 16" by (simp add: word_less_nat_alt word_le_nat_alt)
  have "unat b < 256" by (rule order.strict_trans2 [OF unsigned_less]) simp
  then show "drop_bit 4 b < 16"
    by (simp add: word_less_nat_alt drop_bit_eq_div unat_div)
qed

lemma join_nibbles: "ucast (push_bit 4 (ucast (drop_bit 4 (b :: u8)) :: u32) OR ucast (b AND 0xF)) = b"
  by (intro bit_word_eqI) (auto simp: mask_4 bit_simps)

text \<open>The digits of one byte are read back, whatever follows.\<close>

lemma decode_one:
  "GDB_DecodeHex (hexItoa (ucast b) 2 False @ rest) (Suc n) =
     (case GDB_DecodeHex rest n of (bs, k) \<Rightarrow> (b # bs, Suc k))"
  using decode_digit [OF nibbles_less(1) [of b]] decode_digit [OF nibbles_less(2) [of b]] join_nibbles [of b]
  by (simp add: hexItoa_2 split: prod.splits)

lemma encode_Cons: "GDB_EncodeHex (b # d) = hexItoa (ucast b) 2 False @ GDB_EncodeHex d"
proof -
  have "drop_bit 4 (b AND 0xF0) = drop_bit 4 b"
  proof (intro bit_word_eqI)
    fix n assume "n < LENGTH(8)"
    have "(0xF0 :: u8) = push_bit 4 (mask 4)" by (simp add: mask_eq_exp_minus_1 push_bit_eq_mult)
    moreover have "bit b (4 + n) \<Longrightarrow> n < 4" using bit_imp_le_length [of b "4 + n"] by simp
    ultimately show "bit (drop_bit 4 (b AND 0xF0)) n = bit (drop_bit 4 b) n"
      by (auto simp: bit_simps mask_4)
  qed
  then show ?thesis by (simp add: GDB_EncodeHex_def hexItoa_2)
qed

lemma decode_encode: "GDB_DecodeHex (GDB_EncodeHex d @ rest) (length d) = (d, length d)"
proof (induction d)
  case Nil
  show ?case by simp
next
  case (Cons b d)
  then show ?case by (simp add: encode_Cons decode_one del: GDB_DecodeHex.simps)
qed

lemma length_encode [simp]: "length (GDB_EncodeHex d) = 2 * length d"
  by (induction d) (simp_all add: encode_Cons GDB_EncodeHex_def)


section \<open>Sending and receiving\<close>

lemma take_overwrite [simp]: "take (length d) (overwrite b 0 d) = d"
  by (simp add: overwrite_def)

lemma send_frame:
  "GDB_SendPacket E d s =
     (case g_send E (frame d) (world s) of
        (r, w) \<Rightarrow>
          let s = s\<lparr>buffer := overwrite (buffer s) 0 (frame d), world := w\<rparr>
          in (r, if r > 0 then s\<lparr>latestSentPacketSize := nat r\<rparr> else s))"
proof -
  have "take (4 + length d) (overwrite (buffer s) 0 (frame d)) = frame d"
    using take_overwrite [of "frame d" "buffer s"] by (simp only: length_frame add.commute)
  moreover have "GDB_SendPacket E d s = GDB_DoSendPacket E (4 + length d) (s\<lparr>buffer := overwrite (buffer s) 0 (frame d)\<rparr>)"
    by (simp only: GDB_SendPacket_def frame_def)
  ultimately show ?thesis
    by (simp add: GDB_DoSendPacket_def soc_send_def Let_def split: prod.splits)
qed

lemma frame_pos:
  assumes "0x23 \<notin> set d"
  shows "takeWhile (\<lambda>c. c \<noteq> 0x23) (frame d @ r) = 0x24 # d"
proof -
  have d: "takeWhile (\<lambda>c. c \<noteq> 0x23) (d @ xs) = d @ takeWhile (\<lambda>c. c \<noteq> 0x23) xs" for xs
    by (rule takeWhile_append2) (use assms in auto)
  show ?thesis by (simp add: frame_def d)
qed

lemma receive_frame:
  assumes d: "0x23 \<notin> set d" and len: "length d \<le> GDB_BUF_LEN"
    and peek: "g_recv E (GDB_BUF_LEN + 4) True (world s) = ((int (length (frame d)), frame d), w1)"
    and take: "g_recv E (length (frame d)) False w1 = ((int (length (frame d)), frame d), w2)"
    and ack: "has_ctx_flag GDB_FLAG_NOACK s \<and> w3 = w2 \<or> g_send E (chars ''+'') w2 = (1, w3) \<and> \<not> has_ctx_flag GDB_FLAG_NOACK s"
  shows "\<exists>s2. GDB_ReceivePacket E s = (int (length (frame d)), s2) \<and> commandEnd s2 = Suc (length d) \<and>
           buffer s2 = [0x24] @ d @ [0] @ hexItoa (ucast (GDB_ComputeChecksum d)) 2 False @ replicate (GDB_BUF_LEN - length d) 0 \<and>
           world s2 = w3"
proof -
  let ?z = "replicate (GDB_BUF_LEN - length d) (0 :: u8)"
  let ?c = "hexItoa (ucast (GDB_ComputeChecksum d)) 2 False"
  let ?s1 = "s\<lparr>buffer := frame d @ ?z, world := w1\<rparr>"
  let ?s2 = "?s1\<lparr>world := w2\<rparr>"
  have b1: "overwrite (replicate (GDB_BUF_LEN + 4) 0) 0 (frame d) = frame d @ ?z"
    using len by (simp add: overwrite_def)
  have b2: "overwrite (frame d @ ?z) 0 (frame d) = frame d @ ?z"
    by (simp add: overwrite_def)
  have pos: "length (takeWhile (\<lambda>c. c \<noteq> 0x23) (take (length (frame d)) (frame d @ ?z))) = Suc (length d)"
    using frame_pos [OF d, of "[]"] by simp
  have hash: "(frame d @ ?z)[Suc (length d) := 0] = [0x24] @ d @ [0] @ ?c @ ?z"
    by (simp add: frame_def list_update_append)
  have digits: "GDB_DecodeHex (drop (Suc (Suc (length d))) (frame d @ ?z)) 1 = ([GDB_ComputeChecksum d], 1)"
    using decode_one [of "GDB_ComputeChecksum d" ?z 0] by (simp add: frame_def)
  have data: "take (length d) (drop 1 (frame d @ ?z)) = d" by (simp add: frame_def)
  have body: "receive_body E bk (int (length (frame d))) ?s1 = packet_done E (int (length (frame d)))
       (?s2\<lparr>commandEnd := Suc (length d), buffer := [0x24] @ d @ [0] @ ?c @ ?z\<rparr>)" for bk
  proof -
    have "byte_at (frame d @ ?z) 0 = 0x24" by (simp add: frame_def)
    moreover have "soc_recv E (3 + Suc (length d)) False ?s1 = (int (length (frame d)), ?s2)"
      using take by (simp add: soc_recv_def b2 add.commute)
    moreover have "nat (int (length d) + 4) = length d + 4" by arith
    ultimately show ?thesis
      using len digits data hash pos by (simp add: receive_body_def del: GDB_DecodeHex.simps)
  qed
  have "soc_recv E (GDB_BUF_LEN + 4) True (s\<lparr>buffer := replicate (GDB_BUF_LEN + 4) 0\<rparr>) = (int (length (frame d)), ?s1)"
    using peek b1 by (simp add: soc_recv_def del: replicate.simps)
  moreover have "byte_at (frame d @ ?z) 0 = 0x24" by (simp add: frame_def)
  ultimately have "GDB_ReceivePacket E s = packet_done E (int (length (frame d)))
       (?s2\<lparr>commandEnd := Suc (length d), buffer := [0x24] @ d @ [0] @ ?c @ ?z\<rparr>)"
    using body [simplified] by (simp add: GDB_ReceivePacket_def del: replicate.simps)
  then show ?thesis
    using ack by (auto simp: packet_done_def soc_send_def has_ctx_flag_def)
qed

section \<open>Documents in parts\<close>

text \<open>A client that asks for the part behind what it has, with a length of its own each time, until it
  gets the last part; the fuel is the number of its requests.\<close>

fun fetch :: "nat \<Rightarrow> u8 list \<Rightarrow> (nat \<Rightarrow> u32) \<Rightarrow> nat \<Rightarrow> u8 list \<Rightarrow> u8 list option" where
  "fetch 0 doc lens k got = None"
| "fetch (Suc n) doc lens k got =
     (case stream_part doc (of_nat (length got)) (lens k) (of_nat (length doc)) False of
        [] \<Rightarrow> None
      | c # part \<Rightarrow> if c = 0x6C then Some (got @ part) else fetch n doc lens (Suc k) (got @ part))"

lemma stream_part_last:
  assumes "length doc + 1024 < 2 ^ 32" and "k \<le> length doc" and "l \<noteq> 0"
  obtains (last) "stream_part doc (of_nat k) l (of_nat (length doc)) False = 0x6C # drop k doc"
  | (more) n where "0 < n" and "k + n < length doc"
      and "stream_part doc (of_nat k) l (of_nat (length doc)) False = 0x6D # take n (drop k doc)"
proof -
  define m where "m = (if l > of_nat GDB_BUF_LEN - 1 then of_nat GDB_BUF_LEN - 1 else l)"
  have m: "0 < unat m" "unat m \<le> 1023"
    using assms(3) by (auto simp: m_def word_le_nat_alt word_less_nat_alt unat_gt_0 not_less)
  have k: "unat (of_nat k :: u32) = k" "unat (of_nat (length doc) :: u32) = length doc"
    using assms by (simp_all add: unat_of_nat)
  have sum: "unat (of_nat k + m) = k + unat m"
    using assms m k by (simp add: unat_word_ariths)
  have ge: "of_nat k + m \<ge> of_nat (length doc) \<longleftrightarrow> k + unat m \<ge> length doc"
    by (simp add: word_le_nat_alt sum k)
  have part: "stream_part doc (of_nat k) l (of_nat (length doc)) False =
      (if of_nat k + m \<ge> of_nat (length doc)
       then 0x6C # take (unat (if of_nat k \<ge> (of_nat (length doc) :: u32) then 0 else of_nat (length doc) - of_nat k :: u32)) (drop k doc)
       else 0x6D # take (unat m) (drop k doc))"
    by (simp add: stream_part_def m_def Let_def k)
  show thesis
  proof (cases "k + unat m \<ge> length doc")
    case True
    have "unat (of_nat (length doc) - of_nat k :: u32) = length doc - k"
      using assms(2) k by (simp add: unat_sub_if')
    then have "stream_part doc (of_nat k) l (of_nat (length doc)) False = 0x6C # drop k doc"
      using True ge k assms(2) by (simp add: part word_le_nat_alt)
    then show thesis by (rule last)
  next
    case False
    then have "stream_part doc (of_nat k) l (of_nat (length doc)) False = 0x6D # take (unat m) (drop k doc)"
      using ge by (simp add: part)
    then show thesis using False m more [of "unat m"] by simp
  qed
qed

lemma fetch_all:
  assumes "length doc + 1024 < 2 ^ 32" and "\<And>k. lens k \<noteq> 0" and "n \<le> length doc" and "length doc - n < fuel"
  shows "fetch fuel doc lens k (take n doc) = Some doc"
  using assms(3,4)
proof (induction fuel arbitrary: n k)
  case 0
  then show ?case by simp
next
  case (Suc fuel)
  show ?case
  proof (rule stream_part_last [OF assms(1) Suc.prems(1) assms(2) [of k]])
    assume "stream_part doc (of_nat n) (lens k) (of_nat (length doc)) False = 0x6C # drop n doc"
    then show ?thesis using Suc.prems by simp
  next
    fix m assume m: "0 < m" "n + m < length doc"
      and part: "stream_part doc (of_nat n) (lens k) (of_nat (length doc)) False = 0x6D # take m (drop n doc)"
    have "take n doc @ take m (drop n doc) = take (n + m) doc" by (simp add: take_add)
    then show ?thesis using Suc.IH [of "n + m" "Suc k"] Suc.prems m part by simp
  qed
qed

end
