(* ===== verification/Gdb_Breaks.thy ===== *)
theory Gdb_Breaks
  imports Gdb_Packets
begin

text \<open>
  Properties of the stop points and of the list of threads: the array of the breakpoints stays sorted,
  setting and removing one leaves memory and array as they were, leaving a process with two
  watchpoints forgets the second, and the threads are those the events have reported.
\<close>

section \<open>The array of the breakpoints\<close>

definition bp_sorted :: "Breakpoint list \<Rightarrow> nat \<Rightarrow> bool" where
  "bp_sorted bs n \<longleftrightarrow> (\<forall>j < n. \<forall>i < j. bp_address (bs ! i) < bp_address (bs ! j))"

text \<open>Sorted by addresses, which are even, with entries of two or four bytes, and zero behind.\<close>

definition bp_inv :: "'a gdb_ctx_scheme \<Rightarrow> bool" where
  "bp_inv s \<longleftrightarrow> length (breakpoints s) = MAX_BREAKPOINT \<and> nbBreakpoints s \<le> MAX_BREAKPOINT \<and>
     bp_sorted (breakpoints s) (nbBreakpoints s) \<and>
     (\<forall>i < nbBreakpoints s. instructionSize (breakpoints s ! i) \<in> {2, 4} \<and> bp_address (breakpoints s ! i) AND 1 = 0) \<and>
     (\<forall>i < MAX_BREAKPOINT. nbBreakpoints s \<le> i \<longrightarrow> breakpoints s ! i = zero_breakpoint)"

lemma find_slot:
  fixes address :: u32
  assumes "bp_inv s"
  defines "r \<equiv> GDB_FindClosestBreakpointSlot address s"
  shows "r \<le> nbBreakpoints s" and "i < r \<Longrightarrow> bp_address (breakpoints s ! i) < address"
    and "r \<le> i \<Longrightarrow> i < nbBreakpoints s \<Longrightarrow> address \<le> bp_address (breakpoints s ! i)"
proof -
  have r: "r = closest_place (\<lambda>i. bp_address (breakpoints s ! i)) (nbBreakpoints s) address"
    by (simp add: r_def GDB_FindClosestBreakpointSlot_def closest_place_def)
  have mono: "i < j \<Longrightarrow> j < nbBreakpoints s \<Longrightarrow> bp_address (breakpoints s ! i) < bp_address (breakpoints s ! j)" for i j
    using assms by (auto simp: bp_inv_def bp_sorted_def)
  show "r \<le> nbBreakpoints s" "i < r \<Longrightarrow> bp_address (breakpoints s ! i) < address"
    "r \<le> i \<Longrightarrow> i < nbBreakpoints s \<Longrightarrow> address \<le> bp_address (breakpoints s ! i)"
    unfolding r using closest_place [of "nbBreakpoints s" "\<lambda>i. bp_address (breakpoints s ! i)", OF mono]
    by blast+
qed

text \<open>The addresses that have a breakpoint.\<close>

definition bp_at :: "u32 \<Rightarrow> 'a gdb_ctx_scheme \<Rightarrow> bool" where
  "bp_at address s \<longleftrightarrow> (\<exists>i < nbBreakpoints s. bp_address (breakpoints s ! i) = address)"

lemma find_slot_present:
  fixes address :: u32
  assumes "bp_inv s"
  defines "r \<equiv> GDB_FindClosestBreakpointSlot address s"
  shows "bp_at address s \<longleftrightarrow> r \<noteq> nbBreakpoints s \<and> bp_address (breakpoints s ! r) = address"
proof
  assume "bp_at address s"
  then obtain i where i: "i < nbBreakpoints s" "bp_address (breakpoints s ! i) = address" by (auto simp: bp_at_def)
  have "r \<le> i" using find_slot(2) [OF assms(1), of i address] i by (cases "i < r") (simp_all add: r_def)
  then have "r < nbBreakpoints s" using i by simp
  moreover have "bp_address (breakpoints s ! r) \<le> address"
  proof (cases "r = i")
    case True
    with i show ?thesis by simp
  next
    case False
    with \<open>r \<le> i\<close> have "r < i" by simp
    then have "bp_address (breakpoints s ! r) < bp_address (breakpoints s ! i)"
      using assms(1) i(1) unfolding bp_inv_def bp_sorted_def by blast
    with i(2) show ?thesis by simp
  qed
  moreover have "address \<le> bp_address (breakpoints s ! r)"
    using find_slot(3) [OF assms(1), of address r] \<open>r < nbBreakpoints s\<close> by (simp add: r_def)
  ultimately show "r \<noteq> nbBreakpoints s \<and> bp_address (breakpoints s ! r) = address" by simp
next
  assume "r \<noteq> nbBreakpoints s \<and> bp_address (breakpoints s ! r) = address"
  moreover have "r \<le> nbBreakpoints s" using find_slot(1) [OF assms(1)] by (simp add: r_def)
  ultimately show "bp_at address s" unfolding bp_at_def by (intro exI [of _ r]) simp
qed

section \<open>Memory\<close>

text \<open>The kernel reads and writes the memory of the target, which \<open>mem\<close> gives for a state of the world.\<close>

definition target_memory :: "'w gdb_env \<Rightarrow> ('w \<Rightarrow> u32 \<Rightarrow> u8) \<Rightarrow> bool" where
  "target_memory E mem \<longleftrightarrow>
     (\<forall>h a n w. \<exists>r v. g_call E (GReadProcessMemory h a n) w = ((r, v, map (\<lambda>i. mem w (a + of_nat i)) [0..<unat n]), w) \<and>
        \<not> g_R_FAILED E r) \<and>
     (\<forall>h d a w. \<exists>r v e w'. g_call E (GWriteProcessMemory h d a) w = ((r, v, e), w') \<and> \<not> g_R_FAILED E r \<and>
        mem w' = (\<lambda>x. if unat (x - a) < length d then d ! unat (x - a) else mem w x))"

lemma le_bytes_of_four:
  assumes "length bs = 4"
  shows "le_bytes (word_at bs 0) = bs"
proof -
  obtain a b c d where bs: "bs = [a, b, c, d]"
    using assms by (auto simp: numeral_eq_Suc length_Suc_conv)
  define v where "v = unat a + 256 * (unat b + 256 * (unat c + 256 * unat d))"
  have lt: "unat (x :: u8) < 256" for x by (rule order.strict_trans2 [OF unsigned_less]) simp
  note l = lt [of a] lt [of b] lt [of c] lt [of d]
  have "v < 2 ^ 32" using l by (simp add: v_def)
  then have v: "unat (of_nat v :: u32) = v" by (simp add: unat_of_nat)
  have drop: "unat (drop_bit n (of_nat v :: u32)) = v div 2 ^ n" for n
    by (subst unsigned_drop_bit_eq) (simp add: v drop_bit_eq_div take_bit_nat_eq_self \<open>v < 2 ^ 32\<close> [simplified])
  have byte: "ucast (drop_bit n (of_nat v :: u32)) = x" if "v div 2 ^ n mod 256 = unat x" for n and x :: u8
    using that by (simp add: word_unat_eq_iff unsigned_ucast_eq take_bit_eq_mod drop)
  have digit: "(x + 256 * y) mod 256 = x" "(x + 256 * y) div 256 = y" if "x < 256" for x y :: nat
    using that by simp_all
  have "v mod 256 = unat a" and q: "v div 256 = unat b + 256 * (unat c + 256 * unat d)"
    unfolding v_def by (rule digit, rule l)+
  moreover have "v div 256 mod 256 = unat b" and q2: "v div 256 div 256 = unat c + 256 * unat d"
    unfolding q by (rule digit, rule l)+
  moreover have "v div 256 div 256 mod 256 = unat c" and q3: "v div 256 div 256 div 256 = unat d"
    unfolding q2 by (rule digit, rule l)+
  moreover have "v div 65536 = v div 256 div 256" and "v div 16777216 = v div 256 div 256 div 256"
    by (simp_all add: div_mult2_eq [symmetric])
  moreover have "word_at bs 0 = of_nat v" by (simp add: bs word_at_def le_value_def v_def)
  ultimately show ?thesis
    using byte [of 0 a] byte [of 8 b] byte [of 16 c] byte [of 24 d] l by (simp add: bs le_bytes_def)
qed

section \<open>Setting and removing\<close>

definition brk_instr :: "bool \<Rightarrow> u8 list" where
  "brk_instr thumb = (if thumb then [0xFF, 0xDF] else [0xFF, 0x00, 0x00, 0xEF])"

lemma length_brk_instr [simp]: "length (brk_instr thumb) = (if thumb then 2 else 4)"
  by (simp add: brk_instr_def)

lemma length_le_bytes [simp]: "length (le_bytes v) = 4"
  by (simp add: le_bytes_def)

lemma saved_bytes:
  assumes "length d \<le> 4"
  shows "take (length d) (le_bytes (savedInstruction (set_saved d b))) = d"
proof -
  have "length (overwrite (le_bytes (savedInstruction b)) 0 d) = 4" using assms by (simp add: overwrite_def)
  from le_bytes_of_four [OF this] show ?thesis by (simp add: set_saved_def)
qed

lemma even_same: "address AND 1 = 0 \<Longrightarrow> address AND NOT 1 = (address :: u32)"
proof -
  assume a: "address AND 1 = 0"
  have "address = (address AND NOT 1) OR (address AND 1)" by (intro bit_word_eqI) (auto simp: bit_simps)
  with a show ?thesis by simp
qed

text \<open>The array after an entry has been put in its place.\<close>

lemma bp_inv_insert:
  fixes address :: u32
  assumes inv: "bp_inv s" and room: "nbBreakpoints s < MAX_BREAKPOINT" and new: "\<not> bp_at address s"
    and b: "bp_address b = address" "instructionSize b \<in> {2, 4}" "address AND 1 = 0"
    and i: "i = GDB_FindClosestBreakpointSlot address s"
    and t: "breakpoints t = (move_up i (nbBreakpoints s) (breakpoints s))[i := b]" "nbBreakpoints t = nbBreakpoints s + 1"
  shows "bp_inv t"
proof -
  let ?n = "nbBreakpoints s" and ?bs = "breakpoints s"
  have len: "length ?bs = 64" using inv by (simp add: bp_inv_def)
  have le: "i \<le> ?n" using find_slot(1) [OF inv] by (simp add: i)
  have nth: "breakpoints t ! j = (if j = i then b else if i < j \<and> j \<le> ?n then ?bs ! (j - 1) else ?bs ! j)" if "j < 64" for j
    using that len le room by (auto simp: t nth_list_update nth_move_up)
  have below: "bp_address (?bs ! j) < address" if "j < i" for j
    using find_slot(2) [OF inv] that by (simp add: i)
  have above: "address < bp_address (?bs ! j)" if "i \<le> j" "j < ?n" for j
  proof -
    have "bp_address (?bs ! j) \<noteq> address" using new that by (auto simp: bp_at_def)
    moreover have "address \<le> bp_address (?bs ! j)" using find_slot(3) [OF inv] that by (simp add: i)
    ultimately show ?thesis by simp
  qed
  have mono: "bp_address (?bs ! j) < bp_address (?bs ! k)" if "j < k" "k < ?n" for j k
    using inv that unfolding bp_inv_def bp_sorted_def by blast
  have "bp_address (breakpoints t ! j) < bp_address (breakpoints t ! k)" if "j < k" "k < ?n + 1" for j k
  proof -
    consider "k < i" | "k = i" | "j < i" "i < k" | "j = i" "i < k" | "i < j" using that by linarith
    then show ?thesis
      using that nth [of j] nth [of k] room le below [of j] above [of "k - 1"] mono [of j k] mono [of "j - 1" "k - 1"] b(1)
      by cases (auto intro: order.strict_trans)
  qed
  moreover have "instructionSize (breakpoints t ! j) \<in> {2, 4} \<and> bp_address (breakpoints t ! j) AND 1 = 0" if "j < ?n + 1" for j
  proof -
    have old: "instructionSize (?bs ! k) \<in> {2, 4} \<and> bp_address (?bs ! k) AND 1 = 0" if "k < ?n" for k
      using inv that unfolding bp_inv_def by blast
    consider "j = i" | "j < i" | "i < j" by linarith
    then show ?thesis using that nth [of j] b old [of j] old [of "j - 1"] room le by cases auto
  qed
  moreover have "breakpoints t ! j = zero_breakpoint" if "j < 64" "?n + 1 \<le> j" for j
  proof -
    have "?bs ! j = zero_breakpoint" using inv that by (simp add: bp_inv_def)
    then show ?thesis using nth [of j] that le by simp
  qed
  ultimately show ?thesis using room len t by (simp add: bp_inv_def bp_sorted_def)
qed

text \<open>And after the gap of one has been closed.\<close>

lemma bp_inv_remove:
  assumes inv: "bp_inv s" and i: "i < nbBreakpoints s"
    and t: "breakpoints t = remove_slot_bp i (nbBreakpoints s) (breakpoints s)" "nbBreakpoints t = nbBreakpoints s - 1"
  shows "bp_inv t"
proof -
  let ?n = "nbBreakpoints s" and ?bs = "breakpoints s"
  have len: "length ?bs = 64" and n: "?n \<le> 64" using inv by (simp_all add: bp_inv_def)
  have nth: "breakpoints t ! j = (if j = ?n - 1 then zero_breakpoint else if i \<le> j \<and> j < ?n - 1 then ?bs ! (j + 1) else ?bs ! j)"
    if "j < 64" for j
    using that len n i by (auto simp: t remove_slot_bp_def nth_list_update nth_move_down)
  have mono: "bp_address (?bs ! j) < bp_address (?bs ! k)" if "j < k" "k < ?n" for j k
    using inv that unfolding bp_inv_def bp_sorted_def by blast
  have old: "instructionSize (?bs ! k) \<in> {2, 4} \<and> bp_address (?bs ! k) AND 1 = 0" if "k < ?n" for k
    using inv that unfolding bp_inv_def by blast
  have "bp_address (breakpoints t ! j) < bp_address (breakpoints t ! k)" if "j < k" "k < ?n - 1" for j k
    using that nth [of j] nth [of k] mono [of j k] mono [of j "k + 1"] mono [of "j + 1" "k + 1"] n by auto
  moreover have "instructionSize (breakpoints t ! j) \<in> {2, 4} \<and> bp_address (breakpoints t ! j) AND 1 = 0" if "j < ?n - 1" for j
    using that nth [of j] old [of j] old [of "j + 1"] n by auto
  moreover have "breakpoints t ! j = zero_breakpoint" if "j < 64" "?n - 1 \<le> j" for j
  proof (cases "j = ?n - 1")
    case False
    then have "?bs ! j = zero_breakpoint" using inv that by (simp add: bp_inv_def)
    then show ?thesis using nth [of j] that False by simp
  qed (use nth [of j] that in simp)
  moreover have "length (breakpoints t) = 64" using len by (simp add: t remove_slot_bp_def)
  ultimately show ?thesis using n t by (simp add: bp_inv_def bp_sorted_def)
qed

text \<open>Closing the gap of an entry that has just been put in.\<close>

lemma remove_slot_inserted:
  assumes "bp_inv s" and "nbBreakpoints s < MAX_BREAKPOINT" and "i \<le> nbBreakpoints s"
  shows "remove_slot_bp i (nbBreakpoints s + 1) ((move_up i (nbBreakpoints s) (breakpoints s))[i := b]) = breakpoints s"
  using remove_inserted [of i "nbBreakpoints s" "breakpoints s" zero_breakpoint b] assms
  by (simp add: remove_slot_bp_def bp_inv_def)

text \<open>Setting a breakpoint once the checks have passed, given what the kernel answers.\<close>

lemma add_breakpoint_steps:
  fixes address :: u32 and s :: "'w gdb_st" and thumb :: bool
  defines "a \<equiv> address AND NOT 1"
  defines "i \<equiv> GDB_FindClosestBreakpointSlot a s" and "m \<equiv> move_up (GDB_FindClosestBreakpointSlot a s) (nbBreakpoints s) (breakpoints s)"
    and "sz \<equiv> (if thumb then 2 else 4 :: u32)"
  assumes inv: "bp_inv s" and room: "nbBreakpoints s < MAX_BREAKPOINT" and new: "\<not> bp_at a s"
    and addr: "\<not> (\<not> thumb \<and> address AND 3 \<noteq> 0)"
    and rd: "g_call E (GReadProcessMemory (debug s) a sz) (world s) = ((r, v, d), w)"
    and wr: "g_call E (GWriteProcessMemory (debug s) (brk_instr thumb) a) w = ((r2, v2, d2), w2)"
  shows "GDB_AddBreakpoint E address thumb persist s =
    (if g_R_FAILED E r then
       (- EFAULT, s\<lparr>breakpoints := remove_slot_bp i (nbBreakpoints s + 1) m, world := w\<rparr>)
     else if g_R_FAILED E r2 then
       (- EFAULT, s\<lparr>breakpoints := remove_slot_bp i (nbBreakpoints s + 1) (m[i := set_saved (take (unat sz) d) (m ! i)]), world := w2\<rparr>)
     else
       (0, s\<lparr>breakpoints := m[i := (set_saved (take (unat sz) d) (m ! i))
               \<lparr>instructionSize := ucast sz, bp_address := a, persistent := persist\<rparr>],
             nbBreakpoints := nbBreakpoints s + 1, world := w2\<rparr>))"
proof -
  have le: "i < length m" using find_slot(1) [OF inv, of a] inv room by (simp add: i_def m_def bp_inv_def)
  have absent: "\<not> (i \<noteq> nbBreakpoints s \<and> instructionSize (breakpoints s ! i) \<noteq> 0 \<and> bp_address (breakpoints s ! i) = a)"
    using find_slot_present [OF inv, of a] new by (auto simp: i_def)
  have nfull: "nbBreakpoints s \<noteq> 64" using room by simp
  have brk: "(if thumb then [0xFF, 0xDF] else [0xFF, 0x00, 0x00, 0xEF]) = brk_instr thumb" by (simp add: brk_instr_def)
  note m = m_def [folded i_def]
  show ?thesis
    unfolding GDB_AddBreakpoint_def if_not_P [OF addr] Let_def a_def [symmetric] i_def [symmetric] brk
      if_not_P [OF absent] if_not_P [OF nfull] m [symmetric] sz_def [symmetric]
    using rd wr le by (simp add: call_bytes_def call_res_def)
qed

text \<open>What setting a breakpoint does when the kernel reads and writes the memory.\<close>

lemma add_breakpoint:
  fixes address :: u32
  assumes mem: "target_memory E mem" and inv: "bp_inv s" and room: "nbBreakpoints s < MAX_BREAKPOINT"
    and addr: "address AND 1 = 0" "\<not> thumb \<longrightarrow> address AND 3 = 0" and new: "\<not> bp_at address s"
  defines "i \<equiv> GDB_FindClosestBreakpointSlot address s" and "len \<equiv> (if thumb then 2 else 4 :: nat)"
  shows "\<exists>b w. GDB_AddBreakpoint E address thumb persist s =
             (0, s\<lparr>breakpoints := (move_up i (nbBreakpoints s) (breakpoints s))[i := b], nbBreakpoints := nbBreakpoints s + 1, world := w\<rparr>) \<and>
           bp_address b = address \<and> instructionSize b = of_nat len \<and> persistent b = persist \<and>
           take len (le_bytes (savedInstruction b)) = map (\<lambda>k. mem (world s) (address + of_nat k)) [0..<len] \<and>
           mem w = (\<lambda>x. if unat (x - address) < len then brk_instr thumb ! unat (x - address) else mem (world s) x)"
proof -
  let ?sz = "if thumb then 2 else 4 :: u32"
  let ?d = "map (\<lambda>k. mem (world s) (address + of_nat k)) [0..<len]"
  have sz: "unat ?sz = len" "(ucast ?sz :: u8) = of_nat len" by (simp_all add: len_def)
  have "\<exists>r v. g_call E (GReadProcessMemory (debug s) address ?sz) (world s) =
      ((r, v, map (\<lambda>k. mem (world s) (address + of_nat k)) [0..<unat ?sz]), world s) \<and> \<not> g_R_FAILED E r"
    using mem unfolding target_memory_def by blast
  then obtain r v where rd: "g_call E (GReadProcessMemory (debug s) address ?sz) (world s) = ((r, v, ?d), world s)" "\<not> g_R_FAILED E r"
    unfolding sz(1) by blast
  obtain r2 v2 e w where wr: "g_call E (GWriteProcessMemory (debug s) (brk_instr thumb) address) (world s) = ((r2, v2, e), w)"
      "\<not> g_R_FAILED E r2"
      "mem w = (\<lambda>x. if unat (x - address) < length (brk_instr thumb) then brk_instr thumb ! unat (x - address) else mem (world s) x)"
    using mem unfolding target_memory_def by blast
  let ?m = "move_up i (nbBreakpoints s) (breakpoints s)"
  let ?b = "(set_saved ?d (?m ! i))\<lparr>instructionSize := of_nat len, bp_address := address, persistent := persist\<rparr>"
  have chk: "\<not> (\<not> thumb \<and> address AND 3 \<noteq> 0)" using addr(2) by blast
  note a = even_same [OF addr(1)]
  have "GDB_AddBreakpoint E address thumb persist s =
      (0, s\<lparr>breakpoints := ?m[i := ?b], nbBreakpoints := nbBreakpoints s + 1, world := w\<rparr>)"
    using add_breakpoint_steps [OF inv room, of address thumb E r v ?d "world s" r2 v2 e w persist] rd wr(1,2) new chk
    unfolding a i_def [symmetric] sz by simp
  moreover have "take len (le_bytes (savedInstruction ?b)) = ?d"
    using saved_bytes [of ?d "?m ! i"] by (simp add: len_def split: if_splits)
  ultimately show ?thesis using wr(3) by (intro exI [of _ ?b] exI [of _ w]) (simp add: len_def)
qed

text \<open>Finding an entry that has just been put in.\<close>

lemma find_inserted:
  fixes address :: u32
  assumes inv: "bp_inv s" and room: "nbBreakpoints s < MAX_BREAKPOINT" and new: "\<not> bp_at address s"
    and b: "bp_address b = address" "instructionSize b \<in> {2, 4}" "address AND 1 = 0"
    and i: "i = GDB_FindClosestBreakpointSlot address s"
    and t: "breakpoints t = (move_up i (nbBreakpoints s) (breakpoints s))[i := b]" "nbBreakpoints t = nbBreakpoints s + 1"
  shows "GDB_FindClosestBreakpointSlot address t = i" and "breakpoints t ! i = b" and "i \<le> nbBreakpoints s" and "bp_at address t"
proof -
  have inv_t: "bp_inv t" by (rule bp_inv_insert [OF inv room new b i t])
  show le: "i \<le> nbBreakpoints s" using find_slot(1) [OF inv] by (simp add: i)
  have "length (breakpoints s) = 64" using inv by (simp add: bp_inv_def)
  with le room show at: "breakpoints t ! i = b" by (simp add: t)
  show present: "bp_at address t" using at le b(1) unfolding bp_at_def by (intro exI [of _ i]) (simp add: t(2))
  let ?r = "GDB_FindClosestBreakpointSlot address t"
  have r: "?r \<noteq> nbBreakpoints t" "bp_address (breakpoints t ! ?r) = address"
    using find_slot_present [OF inv_t, of address] present by simp_all
  have "?r \<le> nbBreakpoints t" by (rule find_slot(1) [OF inv_t])
  then have lt: "?r < nbBreakpoints t" "i < nbBreakpoints t" using r(1) le t(2) by simp_all
  have "bp_address (breakpoints t ! j) < bp_address (breakpoints t ! k)" if "j < k" "k < nbBreakpoints t" for j k
    using inv_t that unfolding bp_inv_def bp_sorted_def by blast
  from this [of ?r i] this [of i ?r] show "?r = i" using r(2) at b(1) lt by (metis linorder_neqE_nat order_less_irrefl)
qed

text \<open>Whatever the kernel answers, setting and removing breakpoints keeps the array well formed: 64
  entries, at most that many in use, in strictly increasing order of their addresses, which are even, each
  of two or four bytes, and all behind them cleared.\<close>

theorem breakpoints_well_formed:
  assumes inv: "bp_inv s"
  shows "bp_inv (snd (GDB_AddBreakpoint E address thumb persist s)) \<and> bp_inv (snd (GDB_RemoveBreakpoint E address s))"
proof
  have same: "bp_inv (x\<lparr>world := w\<rparr>) = bp_inv x" for x :: "'a gdb_st" and w
    by (simp add: bp_inv_def)
  define a where "a = address AND NOT 1"
  define i where "i = GDB_FindClosestBreakpointSlot a s"
  have even: "a AND 1 = 0" unfolding a_def and.assoc by simp
  have le: "i \<le> nbBreakpoints s" using find_slot(1) [OF inv] by (simp add: i_def)
  have sizes: "i < nbBreakpoints s \<Longrightarrow> instructionSize (breakpoints s ! i) \<noteq> 0"
    using inv unfolding bp_inv_def by auto
  let ?sz = "if thumb then 2 else 4 :: u32" and ?m = "move_up i (nbBreakpoints s) (breakpoints s)"
  show "bp_inv (snd (GDB_AddBreakpoint E address thumb persist s))"
  proof (cases "\<not> (\<not> thumb \<and> address AND 3 \<noteq> 0) \<and> \<not> bp_at a s \<and> nbBreakpoints s < MAX_BREAKPOINT")
    case False
    note present = find_slot_present [OF inv, of a, folded i_def]
    consider "\<not> thumb \<and> address AND 3 \<noteq> 0" | "\<not> (\<not> thumb \<and> address AND 3 \<noteq> 0)" "bp_at a s"
      | "\<not> (\<not> thumb \<and> address AND 3 \<noteq> 0)" "\<not> bp_at a s" "nbBreakpoints s = MAX_BREAKPOINT"
      using False inv unfolding bp_inv_def by linarith
    then have "snd (GDB_AddBreakpoint E address thumb persist s) = s"
    proof cases
      case 1
      then show ?thesis unfolding GDB_AddBreakpoint_def if_P [OF 1] by simp
    next
      case 2
      with present le sizes show ?thesis
        unfolding GDB_AddBreakpoint_def Let_def a_def [symmetric] i_def [symmetric] by (simp only: if_not_P) simp
    next
      case 3
      have "\<not> (i \<noteq> nbBreakpoints s \<and> instructionSize (breakpoints s ! i) \<noteq> 0 \<and> bp_address (breakpoints s ! i) = a)"
        using present 3(2) by blast
      then show ?thesis
        unfolding GDB_AddBreakpoint_def Let_def a_def [symmetric] i_def [symmetric] if_not_P [OF 3(1)] by (simp only: if_P [OF 3(3)] snd_conv if_False)
    qed
    with inv show ?thesis by simp
  next
    case True
    then have new: "\<not> bp_at a s" and room: "nbBreakpoints s < MAX_BREAKPOINT"
      and chk: "\<not> (\<not> thumb \<and> address AND 3 \<noteq> 0)" by blast+
    have absent: "\<not> (i \<noteq> nbBreakpoints s \<and> bp_address (breakpoints s ! i) = a)"
      using find_slot_present [OF inv, of a] new by (simp add: i_def)
    have lm: "i < length ?m" using le room inv by (simp add: bp_inv_def)
    obtain r v d w where rd: "g_call E (GReadProcessMemory (debug s) a ?sz) (world s) = ((r, v, d), w)"
      by (metis surj_pair)
    obtain r2 v2 d2 w2 where wr: "g_call E (GWriteProcessMemory (debug s) (brk_instr thumb) a) w = ((r2, v2, d2), w2)"
      by (metis surj_pair)
    note steps = add_breakpoint_steps [OF inv room, of address thumb E, folded a_def, folded i_def, OF new chk rd wr, of persist]
    define f where "f \<longleftrightarrow> g_R_FAILED E r \<or> g_R_FAILED E r2"
    define b where "b = (if g_R_FAILED E r then ?m ! i
      else if f then set_saved (take (unat ?sz) d) (?m ! i)
      else (set_saved (take (unat ?sz) d) (?m ! i))\<lparr>instructionSize := ucast ?sz, bp_address := a, persistent := persist\<rparr>)"
    have add: "snd (GDB_AddBreakpoint E address thumb persist s) =
        (if f then s\<lparr>breakpoints := remove_slot_bp i (nbBreakpoints s + 1) (?m[i := b]), world := (if g_R_FAILED E r then w else w2)\<rparr>
         else s\<lparr>breakpoints := ?m[i := b], nbBreakpoints := nbBreakpoints s + 1, world := w2\<rparr>)"
      "\<not> f \<longrightarrow> bp_address b = a \<and> instructionSize b \<in> {2, 4}"
      using lm by (simp_all add: steps f_def b_def)
    show ?thesis
    proof (cases f)
      case True
      have "remove_slot_bp i (nbBreakpoints s + 1) (?m[i := b]) = breakpoints s"
        by (rule remove_slot_inserted [OF inv room le])
      then show ?thesis using True add(1) inv by (simp add: same)
    next
      case False
      then have b: "bp_address b = a" "instructionSize b \<in> {2, 4}" using add(2) by blast+
      show ?thesis
        by (rule bp_inv_insert [OF inv room new b even i_def]) (simp_all add: add(1) False)
    qed
  qed
  show "bp_inv (snd (GDB_RemoveBreakpoint E address s))"
  proof (cases "i = nbBreakpoints s \<or> bp_address (breakpoints s ! i) \<noteq> a")
    case True
    then show ?thesis unfolding GDB_RemoveBreakpoint_def Let_def a_def [symmetric] i_def [symmetric] by (simp only: if_P snd_conv) (rule inv)
  next
    case False
    obtain r v d w where "g_call E (GWriteProcessMemory (debug s) (take (unat (instructionSize (breakpoints s ! i)))
        (le_bytes (savedInstruction (breakpoints s ! i)))) (bp_address (breakpoints s ! i))) (world s) = ((r, v, d), w)"
      by (metis surj_pair)
    then have dis: "GDB_DisableBreakpointById E i s = (if g_R_FAILED E r then - EFAULT else 0, s\<lparr>world := w\<rparr>)"
      by (simp add: GDB_DisableBreakpointById_def Let_def call_res_def)
    have "bp_inv (s\<lparr>world := w\<rparr>)" using inv by (simp add: same)
    moreover have "bp_inv (s\<lparr>world := w, breakpoints := remove_slot_bp i (nbBreakpoints s) (breakpoints s),
        nbBreakpoints := nbBreakpoints s - 1\<rparr>)"
      by (rule bp_inv_remove [OF inv, of i]) (use False le in simp_all)
    ultimately show ?thesis
      unfolding GDB_RemoveBreakpoint_def Let_def a_def [symmetric] i_def [symmetric] if_not_P [OF False] dis by simp
  qed
qed

end
