(* ===== verification/Gdb_Tables.thy ===== *)
theory Gdb_Tables
  imports Gdb_Breaks
begin

text \<open>
  The tables of the debugger: the threads of the target as the events report them, the descriptors of
  the open files, and the contexts and their ports.
\<close>

section \<open>Threads\<close>

text \<open>What the events say, on a list: a thread that starts is put at the end, the first entry of one that ends is
  taken out; \<open>None\<close> is an assertion that fails.\<close>

fun remove_first :: "('a \<Rightarrow> bool) \<Rightarrow> 'a list \<Rightarrow> 'a list" where
  "remove_first p [] = []"
| "remove_first p (x # xs) = (if p x then xs else x # remove_first p xs)"

definition thread_event :: "DebugEventInfo \<Rightarrow> (u32 \<times> u32) list \<Rightarrow> (u32 \<times> u32) list option" where
  "thread_event ev ts =
     (case ev_type ev of
        DBGEVENT_ATTACH_THREAD \<Rightarrow>
          if length ts = MAX_DEBUG_THREAD then None else Some (ts @ [(ev_thread_id ev, ev_thread_local_storage ev)])
      | DBGEVENT_EXIT_THREAD \<Rightarrow>
          if ev_thread_id ev \<in> fst ` set ts then Some (remove_first (\<lambda>t. fst t = ev_thread_id ev) ts) else None
      | _ \<Rightarrow> Some ts)"

definition known_threads :: "'a gdb_ctx_scheme \<Rightarrow> (u32 \<times> u32) list" where
  "known_threads s = take (nbThreads s) (threadInfos s)"

text \<open>The array has its length, and is zero behind the known threads.\<close>

definition threads_ok :: "'a gdb_ctx_scheme \<Rightarrow> bool" where
  "threads_ok s \<longleftrightarrow> length (threadInfos s) = MAX_DEBUG_THREAD \<and> nbThreads s \<le> MAX_DEBUG_THREAD \<and>
     (\<forall>i < MAX_DEBUG_THREAD. nbThreads s \<le> i \<longrightarrow> threadInfos s ! i = (0, 0))"

lemma remove_first_index:
  "length (takeWhile (\<lambda>x. \<not> p x) xs) < length xs \<Longrightarrow>
     take (length (takeWhile (\<lambda>x. \<not> p x) xs)) xs @ drop (Suc (length (takeWhile (\<lambda>x. \<not> p x) xs))) xs = remove_first p xs"
  by (induction xs) auto

lemma takeWhile_all_iff: "length (takeWhile (\<lambda>x. \<not> p x) xs) = length xs \<longleftrightarrow> (\<forall>x \<in> set xs. \<not> p x)"
  by (induction xs) auto

lemma thread_index_le: "thread_index t s \<le> length (known_threads s)"
  unfolding thread_index_def known_threads_def by (rule length_takeWhile_le)

lemma attach_thread_table:
  assumes "threads_ok s" and "nbThreads s < MAX_DEBUG_THREAD"
    and "threadInfos t = (threadInfos s)[nbThreads s := x]" and "nbThreads t = nbThreads s + 1"
  shows "known_threads t = known_threads s @ [x]" and "threads_ok t"
  using assms by (auto simp: known_threads_def threads_ok_def take_Suc_conv_app_nth nth_list_update)

lemma exit_thread_table:
  assumes ok: "threads_ok s" and i: "thread_index t s < nbThreads s"
  shows "known_threads (remove_thread (thread_index t s) s) = remove_first (\<lambda>x. fst x = t) (known_threads s)"
    and "threads_ok (remove_thread (thread_index t s) s)"
proof -
  have len: "length (threadInfos s) = 127" "nbThreads s \<le> 127" using ok by (simp_all add: threads_ok_def)
  have "known_threads (remove_thread (thread_index t s) s) =
      take (thread_index t s) (known_threads s) @ drop (Suc (thread_index t s)) (known_threads s)"
    using take_removed [OF i, of "threadInfos s" "(0, 0)"] i len
    by (simp add: remove_thread_def known_threads_def)
  also have "\<dots> = remove_first (\<lambda>x. fst x = t) (known_threads s)"
    using remove_first_index [of "\<lambda>x. fst x = t" "known_threads s"] i len by (simp add: thread_index_def known_threads_def)
  finally show "known_threads (remove_thread (thread_index t s) s) = remove_first (\<lambda>x. fst x = t) (known_threads s)" .
  have "(move_down (thread_index t s) (nbThreads s - 1 - thread_index t s) (threadInfos s))[nbThreads s - 1 := (0, 0)] ! j = (0, 0)"
    if "j < 127" "nbThreads s - 1 \<le> j" for j
  proof (cases "j = nbThreads s - 1")
    case False
    then show ?thesis using that ok i len by (simp add: nth_move_down threads_ok_def)
  qed (use that len in simp)
  then show "threads_ok (remove_thread (thread_index t s) s)"
    using len by (simp add: remove_thread_def threads_ok_def)
qed

text \<open>The calls of the kernel leave the table as it is.\<close>

named_theorems kept_threads

lemma call_kept [kept_threads]:
  "call_bytes E c s = (r, d, t) \<Longrightarrow> threadInfos t = threadInfos s \<and> nbThreads t = nbThreads s"
  "call_out E c s = (r, v, t) \<Longrightarrow> threadInfos t = threadInfos s \<and> nbThreads t = nbThreads s"
  "get_context E x f s = (r, regs, t) \<Longrightarrow> threadInfos t = threadInfos s \<and> nbThreads t = nbThreads s"
  "set_context E x regs f s = (r, t) \<Longrightarrow> threadInfos t = threadInfos s \<and> nbThreads t = nbThreads s"
  by (auto simp: call_bytes_def call_out_def get_context_def set_context_def split: prod.splits)

lemma read_io_kept [kept_threads]:
  "read_io_loop E addr len off out s = (out', t) \<Longrightarrow> threadInfos t = threadInfos s \<and> nbThreads t = nbThreads s"
proof (induction E addr len off out s rule: read_io_loop.induct)
  case (1 E addr len off out s)
  show ?case
  proof (cases "off < unat len")
    case True
    obtain r d u where u: "call_bytes E (GReadDirect (addr + of_nat off) (of_nat (io_width (addr + of_nat off)))) s = (r, d, u)"
      by (metis prod_cases3)
    with True 1(2) have "read_io_loop E addr len (off + io_width (addr + of_nat off))
        (overwrite out (io_width (addr + of_nat off) * off) (take (io_width (addr + of_nat off)) d)) u = (out', t)"
      by (subst (asm) read_io_loop.simps) (simp add: Let_def)
    from 1(1) [OF True refl refl refl u [symmetric] refl this] call_kept(1) [OF u] show ?thesis by simp
  next
    case False
    with 1(2) show ?thesis by (subst (asm) read_io_loop.simps) simp
  qed
qed

lemma user_limit_kept [kept_threads]:
  "user_limit E s = (l, t) \<Longrightarrow> threadInfos t = threadInfos s \<and> nbThreads t = nbThreads s"
  by (auto simp: user_limit_def call_out_def split: prod.splits)

lemma read_page_kept [kept_threads]:
  "GDB_ReadTargetMemoryInPage E out addr len s = (r, d, t) \<Longrightarrow> threadInfos t = threadInfos s \<and> nbThreads t = nbThreads s"
  by (auto simp: GDB_ReadTargetMemoryInPage_def split: prod.splits if_splits dest!: kept_threads)

lemma read_target_kept [kept_threads]:
  "read_target_loop E out addr remaining tot s = (n, out', t) \<Longrightarrow> threadInfos t = threadInfos s \<and> nbThreads t = nbThreads s"
proof (induction E out addr remaining tot s rule: read_target_loop.induct)
  case (1 E out addr remaining tot s)
  obtain r rest u where u: "GDB_ReadTargetMemoryInPage E (drop tot out) addr (page_part addr remaining) s = (r, rest, u)"
    by (metis prod_cases3)
  note k = read_page_kept [OF u]
  show ?case
  proof (cases "\<not> g_R_FAILED E r \<and> remaining - page_part addr remaining > 0")
    case True
    with 1(2) u have "read_target_loop E (take tot out @ rest) (addr + page_part addr remaining)
        (remaining - page_part addr remaining) (tot + unat (page_part addr remaining)) u = (n, out', t)"
      by (subst (asm) read_target_loop.simps) (simp add: Let_def)
    with 1(1) [OF refl refl u [symmetric] refl refl] True k show ?thesis by simp
  next
    case False
    with 1(2) u k show ?thesis by (subst (asm) read_target_loop.simps) (auto simp: Let_def split: if_splits)
  qed
qed

lemma hio_kept [kept_threads]:
  "GDB_FetchPackedHioRequest E addr s = (b, t) \<Longrightarrow> threadInfos t = threadInfos s \<and> nbThreads t = nbThreads s"
  by (auto simp: GDB_FetchPackedHioRequest_def GDB_ReadTargetMemory_def split: prod.splits if_splits dest!: read_target_kept)

lemma same_threads: "threadInfos t = threadInfos s \<and> nbThreads t = nbThreads s \<Longrightarrow>
    known_threads t = known_threads s \<and> threads_ok t = threads_ok s"
  by (simp add: known_threads_def threads_ok_def)

section \<open>Contexts and ports\<close>

definition allocated_ports :: "'w gdb_server \<Rightarrow> u16 list" where
  "allocated_ports S = map localPort (filter allocated (sv_ctxs S))"

text \<open>There are three contexts, and no two of those given out have the same port.\<close>

definition ports_ok :: "'w gdb_server \<Rightarrow> bool" where
  "ports_ok S \<longleftrightarrow> length (sv_ctxs S) = MAX_DEBUG \<and> distinct (allocated_ports S)"

lemma three_ctxs:
  assumes "ports_ok S"
  obtains a b c where "sv_ctxs S = [a, b, c]"
  using assms by (auto simp: ports_ok_def numeral_eq_Suc length_Suc_conv)

lemma port_used_iff: "length (sv_ctxs S) = MAX_DEBUG \<Longrightarrow> port_used p S \<longleftrightarrow> p \<in> set (allocated_ports S)"
  by (auto simp: port_used_def allocated_ports_def list_ex_iff)

lemma free_port_spec:
  assumes "port \<le> maxPort"
  shows "port \<le> free_port port maxPort S \<and> free_port port maxPort S \<le> maxPort \<and>
         (free_port port maxPort S < maxPort \<longrightarrow> \<not> port_used (free_port port maxPort S) S) \<and>
         (\<forall>p. port \<le> p \<longrightarrow> p < free_port port maxPort S \<longrightarrow> port_used p S)"
  using assms
proof (induction port maxPort S rule: free_port.induct)
  case (1 port maxPort S)
  show ?case
  proof (cases "port < maxPort \<and> port_used port S")
    case True
    then have lt: "unat port < unat maxPort" by (simp add: word_less_nat_alt)
    have "unat maxPort < 2 ^ 16" by (rule order.strict_trans2 [OF unsigned_less]) simp
    with lt have suc: "unat (port + 1) = unat port + 1" by (simp add: unat_word_ariths)
    with lt have "port + 1 \<le> maxPort" by (simp add: word_le_nat_alt)
    note ih = 1(1) [OF True this]
    have fp: "free_port port maxPort S = free_port (port + 1) maxPort S"
      using True by (subst free_port.simps) simp
    have "port \<le> free_port (port + 1) maxPort S"
      using ih suc by (simp add: word_le_nat_alt)
    moreover have "port_used p S" if "port \<le> p" "p < free_port (port + 1) maxPort S" for p
    proof (cases "p = port")
      case False
      with that(1) suc have "port + 1 \<le> p" by (simp add: word_le_nat_alt word_unat_eq_iff)
      with ih that show ?thesis by blast
    qed (use True in simp)
    ultimately show ?thesis using ih unfolding fp by blast
  next
    case False
    have "free_port port maxPort S = port" by (subst free_port.simps) (rule if_not_P [OF False])
    with False 1(2) show ?thesis by (auto simp: not_less)
  qed
qed

lemma select_flags: "has_ctx_flag GDB_FLAG_ALLOCATED_MASK (c\<lparr>flags := flags c OR GDB_FLAG_SELECTED, localPort := p\<rparr>)"
proof -
  have "bit ((flags c OR 1) AND 3) 0" by (simp add: bit_simps)
  then show ?thesis by (auto simp: has_ctx_flag_def)
qed

lemma lost_flags: "allocated (c\<lparr>flags := NOT GDB_FLAG_SELECTED\<rparr>)"
  by (simp add: allocated_def has_ctx_flag_def)

lemma first_free:
  assumes "length (sv_ctxs S) = MAX_DEBUG"
  defines "i \<equiv> first_ctx (\<lambda>c. \<not> allocated c) S"
  shows "i < MAX_DEBUG \<longleftrightarrow> (\<exists>c \<in> set (sv_ctxs S). \<not> allocated c)"
    and "i < MAX_DEBUG \<Longrightarrow> \<not> allocated (sv_ctxs S ! i)"
proof -
  have i: "i = length (takeWhile allocated (sv_ctxs S))"
    using assms by (simp add: first_ctx_def)
  have "i \<le> 3" using length_takeWhile_le [of allocated "sv_ctxs S"] assms i by simp
  moreover have "i = 3 \<longleftrightarrow> (\<forall>c \<in> set (sv_ctxs S). allocated c)"
    using takeWhile_all_iff [of "\<lambda>c. \<not> allocated c" "sv_ctxs S"] assms i by simp
  ultimately show "i < MAX_DEBUG \<longleftrightarrow> (\<exists>c \<in> set (sv_ctxs S). \<not> allocated c)" by auto
  show "i < MAX_DEBUG \<Longrightarrow> \<not> allocated (sv_ctxs S ! i)"
    using nth_length_takeWhile [of allocated "sv_ctxs S"] assms i by simp
qed

text \<open>Taking a free context with a port that nobody has.\<close>

lemma ports_ok_select:
  assumes ok: "ports_ok S" and i: "i < MAX_DEBUG" "\<not> allocated (sv_ctxs S ! i)" and p: "\<not> port_used p S"
    and f: "allocated (f (sv_ctxs S ! i))" "localPort (f (sv_ctxs S ! i)) = p"
  shows "ports_ok (update_ctx i f S)"
proof -
  have len: "length (sv_ctxs S) = 3" using ok by (simp add: ports_ok_def)
  have new: "p \<notin> set (allocated_ports S)" using p port_used_iff [of S p] len by simp
  obtain xs ys where split: "sv_ctxs S = xs @ sv_ctxs S ! i # ys" "length xs = i"
    using i len by (metis id_take_nth_drop length_take min.absorb4)
  then have upd: "sv_ctxs (update_ctx i f S) = xs @ f (sv_ctxs S ! i) # ys"
    by (simp add: update_ctx_def) (metis list_update_length)
  have old: "allocated_ports S = map localPort (filter allocated xs) @ map localPort (filter allocated ys)"
    unfolding allocated_ports_def using i(2) by (subst split(1)) simp
  have "allocated_ports (update_ctx i f S) = map localPort (filter allocated xs) @ p # map localPort (filter allocated ys)"
    using f by (simp add: allocated_ports_def upd)
  moreover have "length (sv_ctxs (update_ctx i f S)) = 3" using len by (simp add: update_ctx_def)
  ultimately show ?thesis using ok new old by (auto simp: ports_ok_def)
qed

text \<open>The ports of the range are as many as the contexts.\<close>

lemma base_port_free:
  assumes ok: "ports_ok S" and free: "\<exists>c \<in> set (sv_ctxs S). \<not> allocated c"
  shows "free_port 4000 4003 S < (4003 :: u16)"
proof (rule ccontr)
  assume "\<not> free_port 4000 4003 S < (4003 :: u16)"
  moreover have "(4000 :: u16) \<le> 4003" by simp
  ultimately have used: "port_used 4000 S" "port_used 4001 S" "port_used 4002 S"
    using free_port_spec [of 4000 4003 S] by (auto simp: not_less)
  obtain a b c where S: "sv_ctxs S = [a, b, c]" using ok by (rule three_ctxs)
  show False using used free by (auto simp: port_used_def S)
qed

section \<open>Descriptors\<close>

lemma convert_registered:
  assumes h: "h \<noteq> 0" and len: "length (openTioFileInfos s) = MAX_TIO_OPEN_FILE"
    and r: "GDB_TioRegisterFile h fl s = (fd, t)"
  shows "fd < 0 \<longleftrightarrow> (\<forall>f \<in> set (openTioFileInfos s). tio_handle f \<noteq> 0)"
    and "0 \<le> fd \<Longrightarrow> \<exists>i < MAX_TIO_OPEN_FILE. GDB_TioConvertFd fd s = None \<and> GDB_TioConvertFd fd t = Some i \<and>
           openTioFileInfos t = (openTioFileInfos s)[i := \<lparr>tio_handle = h, tio_pos = 0, tio_flags = fl\<rparr>]"
proof -
  define i where "i = length (takeWhile (\<lambda>f. tio_handle f \<noteq> 0) (openTioFileInfos s))"
  have le: "i \<le> 32" using length_takeWhile_le [of "\<lambda>f. tio_handle f \<noteq> 0" "openTioFileInfos s"] len by (simp add: i_def)
  have all: "i = 32 \<longleftrightarrow> (\<forall>f \<in> set (openTioFileInfos s). tio_handle f \<noteq> 0)"
    using takeWhile_all_iff [of "\<lambda>f. tio_handle f = 0" "openTioFileInfos s"] len by (simp add: i_def)
  have reg: "GDB_TioRegisterFile h fl s = (if i \<ge> 32 then (- 1, s)
      else (int i + 3, s\<lparr>openTioFileInfos := (openTioFileInfos s)[i := zero_tio\<lparr>tio_handle := h, tio_flags := fl\<rparr>],
              numOpenTioFiles := numOpenTioFiles s + 1\<rparr>))"
    using len by (simp add: GDB_TioRegisterFile_def i_def Let_def)
  show "fd < 0 \<longleftrightarrow> (\<forall>f \<in> set (openTioFileInfos s). tio_handle f \<noteq> 0)"
    using reg r all le by (auto split: if_splits)
  assume "0 \<le> fd"
  with reg r have i: "i < 32" "fd = int i + 3" "t = s\<lparr>openTioFileInfos := (openTioFileInfos s)
      [i := zero_tio\<lparr>tio_handle := h, tio_flags := fl\<rparr>], numOpenTioFiles := numOpenTioFiles s + 1\<rparr>"
    by (auto split: if_splits)
  have "tio_handle (openTioFileInfos s ! i) = 0"
    using nth_length_takeWhile [of "\<lambda>f. tio_handle f \<noteq> 0" "openTioFileInfos s"] i(1) len by (simp add: i_def)
  then show "\<exists>i < MAX_TIO_OPEN_FILE. GDB_TioConvertFd fd s = None \<and> GDB_TioConvertFd fd t = Some i \<and>
       openTioFileInfos t = (openTioFileInfos s)[i := \<lparr>tio_handle = h, tio_pos = 0, tio_flags = fl\<rparr>]"
    using i h len by (intro exI [of _ i]) (simp add: GDB_TioConvertFd_def zero_tio_def)
qed

end
