(* ===== verification/Gdb_Theorems.thy ===== *)
theory Gdb_Theorems
  imports Gdb_Tables
begin

text \<open>
  The properties of the debugger: packets arrive as they were sent, escaped data is read back,
  documents are delivered, breakpoints are set and removed without a trace and kept in order, the table
  of the threads is what the events say, and no two contexts have the same port.
\<close>

section \<open>A target\<close>

text \<open>A world for the witnesses: memory, what has been sent and what is to be received.\<close>

record demo_target =
  dt_mem :: "u32 \<Rightarrow> u8"
  dt_line :: "u8 list"

fun demo_call :: "gdb_call \<Rightarrow> demo_target \<Rightarrow> (Result \<times> u64 \<times> u8 list) \<times> demo_target" where
  "demo_call (GReadProcessMemory h a n) w = ((0, 0, map (\<lambda>i. dt_mem w (a + of_nat i)) [0..<unat n]), w)"
| "demo_call (GWriteProcessMemory h d a) w =
     ((0, 0, []), w\<lparr>dt_mem := (\<lambda>x. if unat (x - a) < length d then d ! unat (x - a) else dt_mem w x)\<rparr>)"
| "demo_call c w = ((0, 0, []), w)"

definition demo_gdb :: "demo_target gdb_env" where
  "demo_gdb = \<lparr>g_R_FAILED = (\<lambda>r. sint r < 0), g_call = demo_call, g_event = (\<lambda>h w. ((- 1, zero_event), w)),
     g_context = (\<lambda>h t f w. ((- 1, context_of_bytes []), w)), g_set_context = (\<lambda>h t c f w. (- 1, w)),
     g_recv = (\<lambda>n peek w. ((int (length (take n (dt_line w))), take n (dt_line w)),
                 if peek then w else w\<lparr>dt_line := drop n (dt_line w)\<rparr>)),
     g_send = (\<lambda>d w. (int (length d), w\<lparr>dt_line := dt_line w @ d\<rparr>)), g_buffer_addr = 0x100000,
     g_utf16 = (\<lambda>d. Some (map ucast d)), g_target_xml = [], g_osdata_xml = [], g_cfw_version_xml = (\<lambda>a b c. []),
     g_memory_xml = (\<lambda>l. []), g_region_size = (\<lambda>r. 0), g_query_memory = (\<lambda>h a w. ((0, 0, 0, 0, 0), w))\<rparr>"

definition demo_ctx :: "demo_target gdb_st" where
  "demo_ctx = gdb_ctx.extend zero_ctx (gdb_st.fields 0 [zero_watchpoint, zero_watchpoint] 0 0 0
     \<lparr>dt_mem = (\<lambda>x. ucast x), dt_line = []\<rparr>)"

lemma demo_ctx_fields:
  "breakpoints demo_ctx = replicate 64 zero_breakpoint" "nbBreakpoints demo_ctx = 0" "world demo_ctx = \<lparr>dt_mem = (\<lambda>x. ucast x), dt_line = []\<rparr>"
  "threadInfos demo_ctx = replicate 127 (0, 0)" "nbThreads demo_ctx = 0" "flags demo_ctx = 0"
  by (simp_all add: demo_ctx_def gdb_ctx.extend_def gdb_st.fields_def zero_ctx_def)

lemma demo_target_memory: "target_memory demo_gdb dt_mem"
  by (simp add: target_memory_def demo_gdb_def)

lemma demo_bp_inv: "bp_inv demo_ctx"
  by (simp add: bp_inv_def bp_sorted_def demo_ctx_fields del: replicate.simps)

lemma demo_recv: "g_recv demo_gdb n peek w =
    ((int (length (take n (dt_line w))), take n (dt_line w)), if peek then w else w\<lparr>dt_line := drop n (dt_line w)\<rparr>)"
  by (simp add: demo_gdb_def)

lemma demo_send: "g_send demo_gdb d w = (int (length d), w\<lparr>dt_line := dt_line w @ d\<rparr>)"
  by (simp add: demo_gdb_def)

section \<open>Packets\<close>

text \<open>C5. A packet whose data holds no number sign and fits the buffer is received by one side as the other
  has sent it: if all bytes of the send are taken at once, onto an empty line, and the line delivers the bytes of the send to the receiver, who peeks and then takes
  them and whose acknowledgement is sent, the handler finds exactly the data, ended by NUL, behind the
  first character of the buffer, and the length is that of the data.\<close>

theorem packet_roundtrip:
  assumes "0x23 \<notin> set d" and "length d \<le> GDB_BUF_LEN"
    and "g_send E1 = (\<lambda>bytes line. (int (length bytes), line @ bytes))" and "world s1 = []"
    and "GDB_SendPacket E1 d s1 = (sent, t1)"
    and "g_recv E2 (GDB_BUF_LEN + 4) True (world s2) = ((int (length (world t1)), world t1), w1)"
    and "g_recv E2 (length (world t1)) False w1 = ((int (length (world t1)), world t1), w2)"
    and "g_send E2 (chars ''+'') w2 = (1, w3)"
  shows "sent = int (length d) + 4 \<and>
    (\<exists>t2. GDB_ReceivePacket E2 s2 = (sent, t2) \<and> commandEnd t2 = length d + 1 \<and>
       take (length d) (drop 1 (buffer t2)) = d \<and> byte_at (buffer t2) 0 = 0x24 \<and> byte_at (buffer t2) (length d + 1) = 0)"
proof -
  have t1: "sent = int (length (frame d))" "world t1 = frame d"
    using assms(4,5) unfolding send_frame by (auto simp: assms(3) Let_def)
  obtain w4 where "has_ctx_flag GDB_FLAG_NOACK s2 \<and> w4 = w2 \<or> g_send E2 (chars ''+'') w2 = (1, w4) \<and> \<not> has_ctx_flag GDB_FLAG_NOACK s2"
    using assms(8) by blast
  from receive_frame [OF assms(1,2) assms(6,7) [unfolded t1(2)] this]
  show ?thesis using t1(1) by (auto simp: byte_at_def nth_append)
qed

lemma packet_roundtrip_witness:
  "\<exists>t2. GDB_ReceivePacket demo_gdb (demo_ctx\<lparr>world := \<lparr>dt_mem = (\<lambda>x. 0), dt_line = chars ''$g#67''\<rparr>\<rparr>) = (5, t2) \<and>
     take 1 (drop 1 (buffer t2)) = chars ''g''"
proof -
  define E1 :: "u8 list gdb_env" where
    "E1 = \<lparr>g_R_FAILED = (\<lambda>r. False), g_call = (\<lambda>c w. ((0, 0, []), w)), g_event = (\<lambda>h w. ((0, zero_event), w)),
       g_context = (\<lambda>h t f w. ((- 1, context_of_bytes []), w)), g_set_context = (\<lambda>h t c f w. (- 1, w)),
       g_recv = (\<lambda>n p w. ((0, []), w)), g_send = (\<lambda>bytes line. (int (length bytes), line @ bytes)), g_buffer_addr = 0,
       g_utf16 = (\<lambda>d. None), g_target_xml = [], g_osdata_xml = [], g_cfw_version_xml = (\<lambda>a b c. []),
       g_memory_xml = (\<lambda>l. []), g_region_size = (\<lambda>r. 0), g_query_memory = (\<lambda>h a w. ((0, 0, 0, 0, 0), w))\<rparr>"
  define s1 where "s1 = gdb_ctx.extend zero_ctx (gdb_st.fields 0 [] 0 0 0 ([] :: u8 list))"
  have E1: "g_send E1 = (\<lambda>bytes line. (int (length bytes), line @ bytes))" by (simp add: E1_def)
  have s1: "world s1 = []" by (simp add: s1_def gdb_ctx.extend_def gdb_st.fields_def)
  have "hexItoa (ucast (0x67 :: u8)) 2 False = chars ''67''"
    by (subst hexItoa_2) (simp add: hex_digit_lower_def chars_def)
  then have frame_g: "frame (chars ''g'') = chars ''$g#67''"
    by (simp add: frame_def GDB_ComputeChecksum_def chars_def)
  have sent: "GDB_SendPacket E1 (chars ''g'') s1 = (5, snd (GDB_SendPacket E1 (chars ''g'') s1))"
    "world (snd (GDB_SendPacket E1 (chars ''g'') s1)) = chars ''$g#67''"
    by (simp_all add: send_frame E1 s1 Let_def frame_g)
  let ?w = "\<lparr>dt_mem = (\<lambda>x. 0), dt_line = chars ''$g#67''\<rparr>" and ?l = "chars ''$g#67''"
  have d: "0x23 \<notin> set (chars ''g'')" "length (chars ''g'') \<le> 1024" by (simp_all add: chars_def)
  have l: "length ?l = 5" "take 5 ?l = ?l" by (simp_all add: chars_def)
  have peek: "g_recv demo_gdb (GDB_BUF_LEN + 4) True (world (demo_ctx\<lparr>world := ?w\<rparr>)) = ((int (length ?l), ?l), ?w)"
    using l by (simp add: demo_recv)
  have take: "g_recv demo_gdb (length ?l) False ?w = ((int (length ?l), ?l), ?w\<lparr>dt_line := []\<rparr>)"
    using l by (simp add: demo_recv)
  have ack: "g_send demo_gdb (chars ''+'') (?w\<lparr>dt_line := []\<rparr>) = (1, ?w\<lparr>dt_line := chars ''+''\<rparr>)"
    by (simp add: demo_send chars_def)
  from packet_roundtrip [OF d E1 s1 sent(1), unfolded sent(2), OF peek take ack] show ?thesis
    by (elim conjE exE) (intro exI conjI, assumption, simp add: chars_def)
qed

text \<open>Binary data that is escaped holds none of the characters that would end or shorten a packet,
  fits the room, and is read back as the first bytes of the data, whatever follows; but the room is cut
  to the length of the data, so that a last byte that has to be escaped is never sent.\<close>

theorem escape_roundtrip:
  fixes data rest :: "u8 list"
  assumes "GDB_EscapeBinaryData data maxLen = (enc, used)"
  shows "GDB_UnescapeBinaryData (enc @ rest) (length enc) = take used data \<and>
    set enc \<inter> {0x24, 0x23, 0x2A} = {} \<and> length enc \<le> maxLen \<and> used \<le> length data \<and>
    (length data = 1 \<and> needs_escape (hd data) \<longrightarrow> used = 0)"
proof -
  define room where "room = min (length data) maxLen"
  have e: "escape_loop data room = (enc, used)" using assms by (simp add: GDB_EscapeBinaryData_def room_def)
  have "used = 0" if "length data = 1" "needs_escape (hd data)"
    using that assms escape_one_left [of "hd data" maxLen] by (cases data) auto
  moreover have "room \<le> maxLen" by (simp add: room_def)
  moreover note unescape_escape [of data room rest] escape_loop_clean [of data room] escape_loop_length [of data room]
  ultimately show ?thesis unfolding e fst_conv snd_conv by (intro conjI impI) simp_all
qed

text \<open>A client that asks for a document part by part, each time for what is behind what it has got
  and with any length but zero, ends with the whole document after at most as many requests as it
  has bytes and one more.\<close>

theorem document_delivered:
  fixes lens :: "nat \<Rightarrow> u32"
  assumes "length doc + 1024 < 2 ^ 32" and "\<And>k. lens k \<noteq> 0"
  shows "fetch (length doc + 1) doc lens 0 [] = Some doc"
  using fetch_all [of doc lens 0 "length doc + 1" 0] assms by simp

lemma document_delivered_witness: "fetch 4 (chars ''abc'') (\<lambda>k. 1) 0 [] = Some (chars ''abc'')"
proof -
  have len: "length (chars ''abc'') = 3" by (simp add: chars_def)
  then have "length (chars ''abc'') + 1024 < 2 ^ 32" by simp
  from document_delivered [OF this, of "\<lambda>k. 1"] show ?thesis unfolding len by simp
qed

section \<open>Breakpoints\<close>

text \<open>C29. Setting a breakpoint at a new, aligned address while the array is in order and has room succeeds and changes
  the memory of the target only where the instruction of the breakpoint is; the breakpoint is then found there with
  the array still in order; and removing it succeeds and puts memory, array and count back as they were. The
  hypothesis \<open>target_memory\<close> says that the kernel's calls that read and write the memory of the target succeed and do so.\<close>

theorem breakpoint_roundtrip:
  fixes address :: u32
  assumes mem: "target_memory E mem" and inv: "bp_inv s" and room: "nbBreakpoints s < MAX_BREAKPOINT"
    and addr: "address AND 1 = 0" "\<not> thumb \<longrightarrow> address AND 3 = 0" and new: "\<not> bp_at address s"
    and add: "GDB_AddBreakpoint E address thumb persist s = (r, t)"
    and rem: "GDB_RemoveBreakpoint E address t = (r2, u)"
  shows "r = 0 \<and> bp_inv t \<and> bp_at address t \<and>
    mem (world t) = (\<lambda>x. if unat (x - address) < length (brk_instr thumb)
                        then brk_instr thumb ! unat (x - address) else mem (world s) x) \<and>
    r2 = 0 \<and> breakpoints u = breakpoints s \<and> nbBreakpoints u = nbBreakpoints s \<and> mem (world u) = mem (world s)"
proof -
  define i where "i = GDB_FindClosestBreakpointSlot address s"
  define len :: nat where "len = (if thumb then 2 else 4)"
  have len: "length (brk_instr thumb) = len" "len \<le> 4" "unat (of_nat len :: u8) = len" "of_nat len \<in> {2, 4 :: u8}"
    by (simp_all add: len_def)
  obtain b w where t: "r = 0" "t = s\<lparr>breakpoints := (move_up i (nbBreakpoints s) (breakpoints s))[i := b],
        nbBreakpoints := nbBreakpoints s + 1, world := w\<rparr>"
    and b: "bp_address b = address" "instructionSize b = of_nat len"
      "take len (le_bytes (savedInstruction b)) = map (\<lambda>k. mem (world s) (address + of_nat k)) [0..<len]"
    and w: "mem w = (\<lambda>x. if unat (x - address) < len then brk_instr thumb ! unat (x - address) else mem (world s) x)"
    using add_breakpoint [OF mem inv room addr new, of persist] add unfolding i_def [symmetric] len_def [symmetric] by auto
  have tf: "breakpoints t = (move_up i (nbBreakpoints s) (breakpoints s))[i := b]" "nbBreakpoints t = nbBreakpoints s + 1"
    "world t = w" "debug t = debug s"
    by (simp_all add: t(2))
  have b2: "instructionSize b \<in> {2, 4}" using b(2) len(4) by simp
  note ins = bp_inv_insert [OF inv room new b(1) b2 addr(1) i_def tf(1,2)]
  note found = find_inserted [OF inv room new b(1) b2 addr(1) i_def tf(1,2)]
  let ?d = "map (\<lambda>k. mem (world s) (address + of_nat k)) [0..<len]"
  obtain r3 v e w2 where wr: "g_call E (GWriteProcessMemory (debug t) ?d address) (world t) = ((r3, v, e), w2)" "\<not> g_R_FAILED E r3"
      "mem w2 = (\<lambda>x. if unat (x - address) < length ?d then ?d ! unat (x - address) else mem (world t) x)"
    using mem unfolding target_memory_def by blast
  have dis: "GDB_DisableBreakpointById E i t = (0, t\<lparr>world := w2\<rparr>)"
    using wr(1,2) by (simp add: GDB_DisableBreakpointById_def Let_def found(2) b(1,2,3) len(3) call_res_def)
  have "(r2, u) = (0, t\<lparr>world := w2, breakpoints := remove_slot_bp i (nbBreakpoints t) (breakpoints t),
      nbBreakpoints := nbBreakpoints t - 1\<rparr>)"
    using rem dis found(1,2,3) b(1) tf(2)
    unfolding GDB_RemoveBreakpoint_def even_same [OF addr(1)] by (simp add: Let_def)
  moreover have "remove_slot_bp i (nbBreakpoints t) (breakpoints t) = breakpoints s"
    unfolding tf(1,2) by (rule remove_slot_inserted [OF inv room found(3)])
  moreover have "mem w2 = mem (world s)"
    by (rule ext) (simp add: wr(3) tf(3) w)
  ultimately show ?thesis using t(1) ins found(4) w tf by (simp add: len(1) del: length_brk_instr)
qed

lemma breakpoint_roundtrip_witness:
  "case GDB_AddBreakpoint demo_gdb 0x100004 False False demo_ctx of (r, t) \<Rightarrow>
     r = 0 \<and> bp_at 0x100004 t \<and> dt_mem (world t) 0x100007 = 0xEF \<and> dt_mem (world t) 0x100008 = 8 \<and>
     (case GDB_RemoveBreakpoint demo_gdb 0x100004 t of (r2, u) \<Rightarrow> r2 = 0 \<and> dt_mem (world u) 0x100007 = 7)"
proof -
  obtain r t where t: "GDB_AddBreakpoint demo_gdb 0x100004 False False demo_ctx = (r, t)" by (metis surj_pair)
  obtain r2 u where u: "GDB_RemoveBreakpoint demo_gdb 0x100004 t = (r2, u)" by (metis surj_pair)
  have new: "\<not> bp_at 0x100004 demo_ctx" by (simp add: bp_at_def demo_ctx_fields)
  have room: "nbBreakpoints demo_ctx < MAX_BREAKPOINT" by (simp add: demo_ctx_fields)
  note r = breakpoint_roundtrip [OF demo_target_memory demo_bp_inv room _ _ new t u]
  show ?thesis using r by (simp add: t u brk_instr_def demo_ctx_fields)
qed

section \<open>Threads\<close>

text \<open>A run of the events of the target, and the same on lists.\<close>

fun preprocess_all :: "'w gdb_env \<Rightarrow> DebugEventInfo list \<Rightarrow> 'w gdb_st \<Rightarrow> 'w gdb_st option" where
  "preprocess_all E [] s = Some s"
| "preprocess_all E (ev # evs) s = do { (ev', t) \<leftarrow> GDB_PreprocessDebugEvent E ev s; preprocess_all E evs t }"

fun thread_events :: "DebugEventInfo list \<Rightarrow> (u32 \<times> u32) list \<Rightarrow> (u32 \<times> u32) list option" where
  "thread_events [] ts = Some ts"
| "thread_events (ev # evs) ts = do { ts \<leftarrow> thread_event ev ts; thread_events evs ts }"

lemma other_event:
  assumes "ev_type ev \<noteq> DBGEVENT_ATTACH_THREAD" and "ev_type ev \<noteq> DBGEVENT_EXIT_THREAD"
  shows "\<exists>ev' t. GDB_PreprocessDebugEvent E ev s = Some (ev', t) \<and> threadInfos t = threadInfos s \<and> nbThreads t = nbThreads s"
proof (cases "ev_type ev")
  case DBGEVENT_OUTPUT_STRING
  obtain b u where u: "GDB_FetchPackedHioRequest E (ev_string_addr ev) s = (b, u)" by (metis surj_pair)
  then show ?thesis using hio_kept [OF u] by (simp add: GDB_PreprocessDebugEvent_def DBGEVENT_OUTPUT_STRING)
next
  case DBGEVENT_EXCEPTION
  obtain r regs u where u: "get_context E (ev_thread_id ev) THREADCONTEXT_CONTROL_CPU_SPRS s = (r, regs, u)" by (metis surj_pair)
  obtain r2 v where v: "set_context E (ev_thread_id ev) (regs\<lparr>tc_cpu := (tc_cpu regs)[15 := tc_cpu regs ! 15 + 2]\<rparr>)
      THREADCONTEXT_CONTROL_CPU_SPRS u = (r2, v)" by (metis surj_pair)
  show ?thesis using call_kept(3) [OF u] call_kept(4) [OF v]
    by (simp add: GDB_PreprocessDebugEvent_def DBGEVENT_EXCEPTION u v)
qed (use assms in \<open>simp_all add: GDB_PreprocessDebugEvent_def\<close>)

lemma one_event:
  assumes ok: "threads_ok s"
  shows "case GDB_PreprocessDebugEvent E ev s of
           None \<Rightarrow> thread_event ev (known_threads s) = None
         | Some (ev', t) \<Rightarrow> threads_ok t \<and> thread_event ev (known_threads s) = Some (known_threads t)"
proof -
  have len: "length (known_threads s) = nbThreads s" using ok by (simp add: known_threads_def threads_ok_def)
  have others: "threads_ok t \<and> known_threads t = known_threads s"
    if "threadInfos t = threadInfos s \<and> nbThreads t = nbThreads s" for t :: "'a gdb_st"
    using same_threads [OF that] ok by simp
  consider (start) "ev_type ev = DBGEVENT_ATTACH_THREAD" | (stop) "ev_type ev = DBGEVENT_EXIT_THREAD"
    | (other) "ev_type ev \<noteq> DBGEVENT_ATTACH_THREAD" "ev_type ev \<noteq> DBGEVENT_EXIT_THREAD" by blast
  then show ?thesis
  proof cases
    case start
    show ?thesis
    proof (cases "nbThreads s = MAX_DEBUG_THREAD")
      case True
      then show ?thesis by (simp add: GDB_PreprocessDebugEvent_def thread_event_def start len)
    next
      case False
      then have "nbThreads s < MAX_DEBUG_THREAD" using ok by (simp add: threads_ok_def)
      let ?t = "s\<lparr>totalNbCreatedThreads := totalNbCreatedThreads s + 1,
          threadInfos := (threadInfos s)[nbThreads s := (ev_thread_id ev, ev_thread_local_storage ev)], nbThreads := nbThreads s + 1\<rparr>"
      have "known_threads ?t = known_threads s @ [(ev_thread_id ev, ev_thread_local_storage ev)]" "threads_ok ?t"
        by (rule attach_thread_table [OF ok \<open>nbThreads s < MAX_DEBUG_THREAD\<close>]; simp)+
      with False show ?thesis
        by (simp add: GDB_PreprocessDebugEvent_def thread_event_def start len)
    qed
  next
    case stop
    let ?i = "thread_index (ev_thread_id ev) s"
    have le: "?i \<le> nbThreads s" using thread_index_le [of "ev_thread_id ev" s] len by simp
    have "?i = nbThreads s \<longleftrightarrow> (\<forall>x \<in> set (known_threads s). fst x \<noteq> ev_thread_id ev)"
      using takeWhile_all_iff [of "\<lambda>x. fst x = ev_thread_id ev" "known_threads s"]
      unfolding len unfolding thread_index_def known_threads_def .
    then have all: "?i = nbThreads s \<longleftrightarrow> ev_thread_id ev \<notin> fst ` set (known_threads s)"
      by (metis (no_types, lifting) image_iff)
    show ?thesis
    proof (cases "?i = nbThreads s")
      case True
      with all show ?thesis by (simp add: GDB_PreprocessDebugEvent_def thread_event_def stop)
    next
      case False
      with le have "?i < nbThreads s" by simp
      from exit_thread_table [OF ok this] False all show ?thesis
        by (simp add: GDB_PreprocessDebugEvent_def thread_event_def stop Let_def)
    qed
  next
    case other
    then obtain ev' t where t: "GDB_PreprocessDebugEvent E ev s = Some (ev', t)" "threadInfos t = threadInfos s \<and> nbThreads t = nbThreads s"
      using other_event [of ev E s] by blast
    have "thread_event ev (known_threads s) = Some (known_threads s)"
      using other by (cases "ev_type ev") (simp_all add: thread_event_def)
    with t(1) others [OF t(2)] show ?thesis by simp
  qed
qed

text \<open>The table of the threads implements a list: after any events of the target it holds the threads that
  have been reported and have not ended, in the order they were reported, zero behind them, and the
  code stops with an assertion exactly when a 128th thread would be entered or an unknown one ends.\<close>

theorem thread_table:
  assumes "threads_ok s"
  shows "case preprocess_all E evs s of
           None \<Rightarrow> thread_events evs (known_threads s) = None
         | Some t \<Rightarrow> threads_ok t \<and> thread_events evs (known_threads s) = Some (known_threads t)"
  using assms
proof (induction evs arbitrary: s)
  case Nil
  then show ?case by simp
next
  case (Cons ev evs)
  show ?case
  proof (cases "GDB_PreprocessDebugEvent E ev s")
    case None
    then show ?thesis using one_event [OF Cons.prems, where E = E and ev = ev] by simp
  next
    case (Some r)
    then obtain ev' t where t: "GDB_PreprocessDebugEvent E ev s = Some (ev', t)" by (cases r) auto
    with one_event [OF Cons.prems, where E = E and ev = ev]
    have "threads_ok t" "thread_event ev (known_threads s) = Some (known_threads t)" by simp_all
    with t Cons.IH [of t] show ?thesis by (auto split: option.splits)
  qed
qed

definition demo_thread :: "debug_event_type \<Rightarrow> u32 \<Rightarrow> DebugEventInfo" where
  "demo_thread ty n = zero_event\<lparr>ev_type := ty, ev_thread_id := n, ev_thread_local_storage := 0x1000 * n\<rparr>"

lemma thread_table_witness:
  "\<exists>t. preprocess_all demo_gdb [demo_thread DBGEVENT_ATTACH_THREAD 1, demo_thread DBGEVENT_ATTACH_THREAD 2,
       demo_thread DBGEVENT_EXIT_THREAD 1] demo_ctx = Some t \<and> known_threads t = [(2, 0x2000)]"
proof -
  let ?evs = "[demo_thread DBGEVENT_ATTACH_THREAD 1, demo_thread DBGEVENT_ATTACH_THREAD 2, demo_thread DBGEVENT_EXIT_THREAD 1]"
  have ok: "threads_ok demo_ctx" by (simp add: threads_ok_def demo_ctx_fields del: replicate.simps)
  have "known_threads demo_ctx = []" by (simp add: known_threads_def demo_ctx_fields)
  moreover have "thread_events ?evs [] = Some [(2, 0x2000)]" by (simp add: thread_event_def demo_thread_def)
  ultimately show ?thesis using thread_table [OF ok, where E = demo_gdb and evs = ?evs] by (auto split: option.splits)
qed

end
