(* ===== verification/Sm_List.thy ===== *)
theory Sm_List
  imports Omiiba_Prelude
begin

text \<open>
  The intrusive doubly linked lists of \<open>sysmodules/sm/source/list.c\<close>. A node is named by
  its index in the static pool, a list by a value of an enumeration; the pointers of
  nodes and list heads are fields of a heap record. \<open>moveNode\<close>, \<open>buildList\<close> and
  \<open>allocateNode\<close> are translated pointer by pointer; the locale \<open>node_lists\<close> is the
  contract the rest of the program relies on, and it is interpreted both on the pointer
  structure and on the plain lists the other theories use for their state.
\<close>

section \<open>Pointer structure\<close>

record ('n, 'l) node_heap =
  nprev :: "'n \<Rightarrow> 'n option"
  nnext :: "'n \<Rightarrow> 'n option"
  nparent :: "'n \<Rightarrow> 'l"
  lfirst :: "'l \<Rightarrow> 'n option"
  llast :: "'l \<Rightarrow> 'n option"

definition build_node :: "'l \<Rightarrow> nat \<Rightarrow> nat \<Rightarrow> (nat, 'l) node_heap \<Rightarrow> (nat, 'l) node_heap" where
  "build_node l nb i h =
     h\<lparr>nprev := (nprev h)(i := if i = 0 then None else Some (i - 1)),
       nnext := (nnext h)(i := if i = nb - 1 then None else Some (i + 1)),
       nparent := (nparent h)(i := l)\<rparr>"

definition buildList :: "'l \<Rightarrow> nat \<Rightarrow> (nat, 'l) node_heap \<Rightarrow> (nat, 'l) node_heap" where
  "buildList l nb h =
     (let h' = fold (build_node l nb) [0..<nb] h
      in h'\<lparr>lfirst := (lfirst h')(l := Some 0), llast := (llast h')(l := Some (nb - 1))\<rparr>)"

definition unlink_node :: "'n \<Rightarrow> ('n, 'l) node_heap \<Rightarrow> ('n, 'l) node_heap" where
  "unlink_node n h =
     (let src = nparent h n;
          h = (case nprev h n of None \<Rightarrow> h
               | Some p \<Rightarrow> h\<lparr>nnext := (nnext h)(p := nnext h n)\<rparr>);
          h = (case nnext h n of None \<Rightarrow> h
               | Some q \<Rightarrow> h\<lparr>nprev := (nprev h)(q := nprev h n)\<rparr>);
          h = (if lfirst h src = Some n then h\<lparr>lfirst := (lfirst h)(src := nnext h n)\<rparr> else h)
      in if llast h src = Some n then h\<lparr>llast := (llast h)(src := nprev h n)\<rparr> else h)"

definition link_back :: "'n \<Rightarrow> 'l \<Rightarrow> ('n, 'l) node_heap \<Rightarrow> ('n, 'l) node_heap" where
  "link_back n dst h =
     (let h = (case llast h dst of None \<Rightarrow> h
               | Some l \<Rightarrow> h\<lparr>nnext := (nnext h)(l := Some n)\<rparr>);
          h = h\<lparr>nprev := (nprev h)(n := llast h dst)\<rparr>;
          h = h\<lparr>nnext := (nnext h)(n := None)\<rparr>
      in h\<lparr>llast := (llast h)(dst := Some n)\<rparr>)"

definition link_front :: "'n \<Rightarrow> 'l \<Rightarrow> ('n, 'l) node_heap \<Rightarrow> ('n, 'l) node_heap" where
  "link_front n dst h =
     (let h = (case lfirst h dst of None \<Rightarrow> h
               | Some f \<Rightarrow> h\<lparr>nprev := (nprev h)(f := Some n)\<rparr>);
          h = h\<lparr>nnext := (nnext h)(n := lfirst h dst)\<rparr>;
          h = h\<lparr>nprev := (nprev h)(n := None)\<rparr>
      in h\<lparr>lfirst := (lfirst h)(dst := Some n)\<rparr>)"

definition normalize_list :: "'l \<Rightarrow> ('n, 'l) node_heap \<Rightarrow> ('n, 'l) node_heap" where
  "normalize_list dst h =
     (if lfirst h dst \<noteq> None \<and> llast h dst = None
      then h\<lparr>llast := (llast h)(dst := lfirst h dst)\<rparr>
      else if lfirst h dst = None \<and> llast h dst \<noteq> None
      then h\<lparr>lfirst := (lfirst h)(dst := llast h dst)\<rparr>
      else h)"

definition moveNode :: "'n \<Rightarrow> 'l \<Rightarrow> bool \<Rightarrow> ('n, 'l) node_heap \<Rightarrow> ('n, 'l) node_heap" where
  "moveNode n dst back h =
     (if dst = nparent h n then h
      else let h = unlink_node n h;
               h = (if back then link_back n dst h else link_front n dst h);
               h = normalize_list dst h
           in h\<lparr>nparent := (nparent h)(n := dst)\<rparr>)"

text \<open>\<open>allocateNode\<close> traps when the free list is empty (\<open>None\<close>); the clearing of the
  payload of the node is the caller's part of the state (see the users).\<close>

definition allocateNode :: "'l \<Rightarrow> 'l \<Rightarrow> bool \<Rightarrow> ('n, 'l) node_heap \<Rightarrow> ('n \<times> ('n, 'l) node_heap) option" where
  "allocateNode in_use free back h =
     (case lfirst h free of None \<Rightarrow> None
      | Some n \<Rightarrow> Some (n, moveNode n in_use back h))"

text \<open>The walk \<open>for (node = list.first; node != NULL; node = node->next)\<close>, with the size of
  the pool as fuel.\<close>

fun walk_from :: "nat \<Rightarrow> ('n, 'l) node_heap \<Rightarrow> 'n option \<Rightarrow> 'n list option" where
  "walk_from fuel h None = Some []"
| "walk_from 0 h (Some n) = None"
| "walk_from (Suc fuel) h (Some n) = map_option ((#) n) (walk_from fuel h (nnext h n))"

definition walk :: "nat \<Rightarrow> ('n, 'l) node_heap \<Rightarrow> 'l \<Rightarrow> 'n list option" where
  "walk fuel h l = walk_from fuel h (lfirst h l)"


section \<open>Abstraction to lists\<close>

definition hd_or :: "'n option \<Rightarrow> 'n list \<Rightarrow> 'n option" where
  "hd_or q xs = (case xs of [] \<Rightarrow> q | x # _ \<Rightarrow> Some x)"

definition last_or :: "'n option \<Rightarrow> 'n list \<Rightarrow> 'n option" where
  "last_or p xs = (if xs = [] then p else Some (last xs))"

lemma hd_or_simps [simp]: "hd_or q [] = q" "hd_or q (x # xs) = Some x"
  by (simp_all add: hd_or_def)

lemma hd_or_append [simp]: "hd_or q (xs @ ys) = hd_or (hd_or q ys) xs"
  by (cases xs) simp_all

lemma last_or_simps [simp]:
  "last_or p [] = p" "last_or p (x # xs) = last_or (Some x) xs"
  "last_or p (xs @ [y]) = Some y"
  by (simp_all add: last_or_def)

lemma last_or_append [simp]: "last_or p (xs @ ys) = last_or (last_or p xs) ys"
  by (simp add: last_or_def)

lemma hd_or_None_iff [simp]: "hd_or None xs = None \<longleftrightarrow> xs = []"
  by (cases xs) simp_all

lemma last_or_None_iff [simp]: "last_or None xs = None \<longleftrightarrow> xs = []"
  by (simp add: last_or_def)

lemma last_or_in: "last_or p xs = Some y \<Longrightarrow> p = Some y \<or> y \<in> set xs"
  by (auto simp: last_or_def split: if_splits)

lemma hd_or_in: "hd_or q xs = Some y \<Longrightarrow> q = Some y \<or> y \<in> set xs"
  by (cases xs) auto

text \<open>\<open>dseg nx pv p xs q\<close>: the nodes \<open>xs\<close> are chained in both directions, \<open>p\<close> is before the
  first and \<open>q\<close> after the last.\<close>

fun dseg :: "('n \<Rightarrow> 'n option) \<Rightarrow> ('n \<Rightarrow> 'n option) \<Rightarrow> 'n option \<Rightarrow> 'n list \<Rightarrow> 'n option \<Rightarrow> bool" where
  "dseg nx pv p [] q = True"
| "dseg nx pv p (x # xs) q = (pv x = p \<and> nx x = hd_or q xs \<and> dseg nx pv (Some x) xs q)"

lemma dseg_append:
  "dseg nx pv p (xs @ ys) q \<longleftrightarrow>
     dseg nx pv p xs (hd_or q ys) \<and> dseg nx pv (last_or p xs) ys q"
  by (induction xs arbitrary: p) auto

lemma dseg_frame:
  assumes "\<And>x. x \<in> set xs \<Longrightarrow> nx' x = nx x" and "\<And>x. x \<in> set xs \<Longrightarrow> pv' x = pv x"
  shows "dseg nx' pv' p xs q = dseg nx pv p xs q"
  using assms by (induction xs arbitrary: p) auto

lemma dseg_upd_off [simp]:
  "x \<notin> set xs \<Longrightarrow> dseg (nx(x := v)) pv p xs q = dseg nx pv p xs q"
  "x \<notin> set xs \<Longrightarrow> dseg nx (pv(x := v)) p xs q = dseg nx pv p xs q"
  by (auto intro!: dseg_frame)

text \<open>Redirecting the end pointers of a segment: what the neighbours of an unlinked or a
  newly linked node are told.\<close>

lemma dseg_set_last:
  assumes "distinct xs" and "dseg nx pv p xs q"
  shows "dseg (case last_or None xs of None \<Rightarrow> nx | Some l \<Rightarrow> nx(l := q')) pv p xs q'"
proof (cases xs rule: rev_cases)
  case (snoc ys y)
  with assms show ?thesis by (simp add: dseg_append)
qed simp

lemma dseg_set_first:
  assumes "distinct xs" and "dseg nx pv p xs q"
  shows "dseg nx (case hd_or None xs of None \<Rightarrow> pv | Some f \<Rightarrow> pv(f := p')) p' xs q"
  using assms by (cases xs) auto

definition repr :: "('n, 'l) node_heap \<Rightarrow> ('l \<Rightarrow> 'n list) \<Rightarrow> bool" where
  "repr h L \<longleftrightarrow>
     (\<forall>l. dseg (nnext h) (nprev h) None (L l) None
          \<and> lfirst h l = hd_or None (L l) \<and> llast h l = last_or None (L l)
          \<and> distinct (L l) \<and> (\<forall>n \<in> set (L l). nparent h n = l))"

text \<open>What moving a node means for the lists.\<close>

definition move_list :: "'n \<Rightarrow> 'l \<Rightarrow> bool \<Rightarrow> ('l \<Rightarrow> 'n list) \<Rightarrow> ('l \<Rightarrow> 'n list)" where
  "move_list n dst back L =
     (if n \<in> set (L dst) then L
      else (\<lambda>l. if l = dst then (if back then L l @ [n] else n # L l) else remove1 n (L l)))"


section \<open>Unlinking and linking refine the lists\<close>

lemma unlink_fields:
  assumes "repr h L" and src: "nparent h n = src" and L: "L src = as @ n # bs"
  shows "nnext (unlink_node n h) = (case last_or None as of None \<Rightarrow> nnext h | Some p \<Rightarrow> (nnext h)(p := hd_or None bs))"
    and "nprev (unlink_node n h) = (case hd_or None bs of None \<Rightarrow> nprev h | Some q \<Rightarrow> (nprev h)(q := last_or None as))"
    and "lfirst (unlink_node n h) = (lfirst h)(src := hd_or None (as @ bs))"
    and "llast (unlink_node n h) = (llast h)(src := last_or None (as @ bs))"
    and "nparent (unlink_node n h) = nparent h"
proof -
  from assms have seg: "dseg (nnext h) (nprev h) None (as @ n # bs) None"
    and f: "lfirst h src = hd_or None (as @ n # bs)" and l: "llast h src = last_or None (as @ n # bs)"
    and d: "distinct (as @ n # bs)"
    unfolding repr_def by (metis, metis, metis, metis)
  from seg have pv: "nprev h n = last_or None as" and nx: "nnext h n = hd_or None bs"
    by (auto simp: dseg_append)
  note facts = pv nx src f l d
  show "nnext (unlink_node n h) = (case last_or None as of None \<Rightarrow> nnext h | Some p \<Rightarrow> (nnext h)(p := hd_or None bs))"
    using facts by (cases as rule: rev_cases; cases bs) (auto simp: unlink_node_def Let_def)
  show "nprev (unlink_node n h) = (case hd_or None bs of None \<Rightarrow> nprev h | Some q \<Rightarrow> (nprev h)(q := last_or None as))"
    using facts by (cases as rule: rev_cases; cases bs) (auto simp: unlink_node_def Let_def)
  show "lfirst (unlink_node n h) = (lfirst h)(src := hd_or None (as @ bs))"
    using facts by (cases as rule: rev_cases; cases bs) (auto simp: unlink_node_def Let_def dest: hd_or_in)
  show "llast (unlink_node n h) = (llast h)(src := last_or None (as @ bs))"
    using facts by (cases as rule: rev_cases; cases bs) (auto simp: unlink_node_def Let_def dest: last_or_in)
  show "nparent (unlink_node n h) = nparent h"
    by (auto simp: unlink_node_def Let_def split: option.splits)
qed

lemma repr_unlink:
  assumes R: "repr h L" and src: "nparent h n = src" and L: "L src = as @ n # bs"
  shows "repr (unlink_node n h) (L(src := as @ bs))"
proof -
  note F = unlink_fields [OF R src L]
  have Rl: "dseg (nnext h) (nprev h) None (L l) None" "lfirst h l = hd_or None (L l)"
    "llast h l = last_or None (L l)" "distinct (L l)" "\<forall>m \<in> set (L l). nparent h m = l" for l
    using R unfolding repr_def by blast+
  have d: "distinct (as @ n # bs)" using Rl(4) [of src] L by simp
  have seg: "dseg (nnext (unlink_node n h)) (nprev (unlink_node n h)) None (as @ bs) None"
  proof -
    from Rl(1) [of src] L have s: "dseg (nnext h) (nprev h) None as (Some n)"
        "dseg (nnext h) (nprev h) (Some n) bs None"
      by (simp_all add: dseg_append)
    have "dseg (nnext (unlink_node n h)) (nprev h) None as (hd_or None bs)"
      unfolding F(1) using dseg_set_last [OF _ s(1)] d by simp
    then have A: "dseg (nnext (unlink_node n h)) (nprev (unlink_node n h)) None as (hd_or None bs)"
      using d by (subst dseg_frame [where nx = "nnext (unlink_node n h)" and pv = "nprev h"])
        (auto simp: F(2) split: option.splits dest!: hd_or_in)
    have "dseg (nnext h) (nprev (unlink_node n h)) (last_or None as) bs None"
      unfolding F(2) using dseg_set_first [OF _ s(2)] d by simp
    then have B: "dseg (nnext (unlink_node n h)) (nprev (unlink_node n h)) (last_or None as) bs None"
      using d by (subst dseg_frame [where nx = "nnext h" and pv = "nprev (unlink_node n h)"])
        (auto simp: F(1) split: option.splits dest!: last_or_in)
    from A B show ?thesis by (simp add: dseg_append)
  qed
  have off: "dseg (nnext (unlink_node n h)) (nprev (unlink_node n h)) None (L l) None" if "l \<noteq> src" for l
  proof -
    have "x \<noteq> y" if "x \<in> set (L l)" "y \<in> set as \<union> set bs" for x y
      using that Rl(5) [of l] Rl(5) [of src] L \<open>l \<noteq> src\<close> by auto
    then show ?thesis using Rl(1) [of l]
      by (subst dseg_frame [where nx = "nnext h" and pv = "nprev h"])
        (auto simp: F(1,2) split: option.splits dest!: last_or_in hd_or_in)
  qed
  show ?thesis
    unfolding repr_def
  proof (intro allI conjI)
    fix l
    show "dseg (nnext (unlink_node n h)) (nprev (unlink_node n h)) None ((L(src := as @ bs)) l) None"
      using seg off by simp
    show "lfirst (unlink_node n h) l = hd_or None ((L(src := as @ bs)) l)"
      by (simp add: F(3) Rl(2) del: hd_or_append)
    show "llast (unlink_node n h) l = last_or None ((L(src := as @ bs)) l)"
      by (simp add: F(4) Rl(3) del: last_or_append)
    show "distinct ((L(src := as @ bs)) l)" using d Rl(4) by simp
    show "\<forall>m \<in> set ((L(src := as @ bs)) l). nparent (unlink_node n h) m = l"
      using Rl(5) [of l] L by (auto simp: F(5))
  qed
qed

lemma repr_link_back:
  assumes R: "repr h L" and off: "\<And>l. n \<notin> set (L l)"
  shows "repr ((normalize_list dst (link_back n dst h))\<lparr>nparent := (nparent h)(n := dst)\<rparr>)
              (L(dst := L dst @ [n]))" (is "repr ?h _")
proof -
  have Rl: "dseg (nnext h) (nprev h) None (L l) None" "lfirst h l = hd_or None (L l)"
    "llast h l = last_or None (L l)" "distinct (L l)" "\<forall>m \<in> set (L l). nparent h m = l" for l
    using R unfolding repr_def by blast+
  have nx: "nnext ?h = (case last_or None (L dst) of None \<Rightarrow> nnext h | Some l \<Rightarrow> (nnext h)(l := Some n))(n := None)"
    and pv: "nprev ?h = (nprev h)(n := last_or None (L dst))"
    and fl: "lfirst ?h = (lfirst h)(dst := hd_or None (L dst @ [n]))" "llast ?h = (llast h)(dst := Some n)"
    using Rl(2,3) [of dst]
    by (auto simp: normalize_list_def link_back_def Let_def fun_eq_iff split: option.splits list.splits)
       (auto simp: hd_or_def split: list.splits)
  have seg: "dseg (nnext ?h) (nprev ?h) None (L dst) (Some n)"
    using dseg_set_last [OF Rl(4) [of dst] Rl(1) [of dst], of "Some n"] off [of dst] unfolding nx pv by simp
  have other: "dseg (nnext ?h) (nprev ?h) None (L l) None" if "l \<noteq> dst" for l
  proof -
    have "x \<noteq> y" if "x \<in> set (L l)" "y \<in> set (L dst)" for x y
      using that Rl(5) [of l] Rl(5) [of dst] \<open>l \<noteq> dst\<close> by auto
    then show ?thesis using Rl(1) [of l] off [of l]
      by (subst dseg_frame [where nx = "nnext h" and pv = "nprev h"])
        (auto simp: nx pv split: option.splits dest!: last_or_in)
  qed
  show ?thesis
    unfolding repr_def
  proof (intro allI conjI)
    fix l
    show "dseg (nnext ?h) (nprev ?h) None ((L(dst := L dst @ [n])) l) None"
      using seg other by (simp add: dseg_append nx pv)
    show "lfirst ?h l = hd_or None ((L(dst := L dst @ [n])) l)"
      using Rl(2) by (simp add: fl)
    show "llast ?h l = last_or None ((L(dst := L dst @ [n])) l)"
      using Rl(3) by (simp add: fl)
    show "distinct ((L(dst := L dst @ [n])) l)" using Rl(4) off by simp
    show "\<forall>m \<in> set ((L(dst := L dst @ [n])) l). nparent ?h m = l"
      using Rl(5) [of l] off by auto
  qed
qed

lemma repr_link_front:
  assumes R: "repr h L" and off: "\<And>l. n \<notin> set (L l)"
  shows "repr ((normalize_list dst (link_front n dst h))\<lparr>nparent := (nparent h)(n := dst)\<rparr>)
              (L(dst := n # L dst))" (is "repr ?h _")
proof -
  have Rl: "dseg (nnext h) (nprev h) None (L l) None" "lfirst h l = hd_or None (L l)"
    "llast h l = last_or None (L l)" "distinct (L l)" "\<forall>m \<in> set (L l). nparent h m = l" for l
    using R unfolding repr_def by blast+
  have pv: "nprev ?h = (case hd_or None (L dst) of None \<Rightarrow> nprev h | Some f \<Rightarrow> (nprev h)(f := Some n))(n := None)"
    and nx: "nnext ?h = (nnext h)(n := hd_or None (L dst))"
    and fl: "lfirst ?h = (lfirst h)(dst := Some n)" "llast ?h = (llast h)(dst := last_or (Some n) (L dst))"
    using Rl(2,3) [of dst]
    by (auto simp: normalize_list_def link_front_def Let_def fun_eq_iff split: option.splits list.splits)
       (auto simp: last_or_def split: if_splits)
  have seg: "dseg (nnext ?h) (nprev ?h) (Some n) (L dst) None"
    using dseg_set_first [OF Rl(4) [of dst] Rl(1) [of dst], of "Some n"] off [of dst] unfolding nx pv by simp
  have other: "dseg (nnext ?h) (nprev ?h) None (L l) None" if "l \<noteq> dst" for l
  proof -
    have "x \<noteq> y" if "x \<in> set (L l)" "y \<in> set (L dst)" for x y
      using that Rl(5) [of l] Rl(5) [of dst] \<open>l \<noteq> dst\<close> by auto
    then show ?thesis using Rl(1) [of l] off [of l]
      by (subst dseg_frame [where nx = "nnext h" and pv = "nprev h"])
        (auto simp: nx pv split: option.splits dest!: hd_or_in)
  qed
  show ?thesis
    unfolding repr_def
  proof (intro allI conjI)
    fix l
    show "dseg (nnext ?h) (nprev ?h) None ((L(dst := n # L dst)) l) None"
      using seg other by (simp add: nx pv)
    show "lfirst ?h l = hd_or None ((L(dst := n # L dst)) l)"
      using Rl(2) by (simp add: fl)
    show "llast ?h l = last_or None ((L(dst := n # L dst)) l)"
      using Rl(3) by (simp add: fl)
    show "distinct ((L(dst := n # L dst)) l)" using Rl(4) off by simp
    show "\<forall>m \<in> set ((L(dst := n # L dst)) l). nparent ?h m = l"
      using Rl(5) [of l] off by auto
  qed
qed

section \<open>Moving, walking, building and allocating\<close>

lemma repr_disjoint: "repr h L \<Longrightarrow> n \<in> set (L l) \<Longrightarrow> n \<in> set (L l') \<Longrightarrow> l = l'"
  unfolding repr_def by metis

lemma repr_parent: "repr h L \<Longrightarrow> n \<in> set (L l) \<Longrightarrow> nparent h n = l"
  unfolding repr_def by blast

lemma repr_move:
  assumes R: "repr h L" and n: "n \<in> set (L l)"
  shows "repr (moveNode n dst back h) (move_list n dst back L)"
proof (cases "dst = l")
  case True
  with assms show ?thesis by (simp add: moveNode_def move_list_def repr_parent)
next
  case False
  have src: "nparent h n = l" using R n by (rule repr_parent)
  obtain as bs where L: "L l = as @ n # bs" using n by (meson split_list)
  have "distinct (L l)" using R unfolding repr_def by blast
  then have d: "n \<notin> set as" "n \<notin> set bs" using L by auto
  let ?L = "L(l := as @ bs)"
  have U: "repr (unlink_node n h) ?L" by (rule repr_unlink [OF R src L])
  have off: "n \<notin> set (?L k)" for k
    using d repr_disjoint [OF R n, of k] by auto
  have par: "nparent (normalize_list dst (link_back n dst h')) = nparent h'"
    "nparent (normalize_list dst (link_front n dst h')) = nparent h'" for h' :: "('a, 'b) node_heap"
    by (auto simp: normalize_list_def link_back_def link_front_def Let_def split: option.splits)
  have mv: "move_list n dst back L = (if back then ?L(dst := ?L dst @ [n]) else ?L(dst := n # ?L dst))"
    using False off L d repr_disjoint [OF R n, of dst] repr_disjoint [OF R n]
    by (auto simp: move_list_def fun_eq_iff remove1_append intro!: remove1_idem)
  show ?thesis
    using repr_link_back [OF U off, of dst] repr_link_front [OF U off, of dst] False src
    by (auto simp: mv moveNode_def Let_def par simp del: fun_upd_apply)
qed

lemma walk_from_dseg:
  assumes "dseg nx pv p xs None" and "nx = nnext h" and "length xs \<le> fuel"
  shows "walk_from fuel h (hd_or None xs) = Some xs"
  using assms
proof (induction xs arbitrary: fuel p)
  case (Cons x xs)
  then obtain f where "fuel = Suc f" by (cases fuel) auto
  with Cons show ?case by auto
qed simp

lemma walk_repr: "repr h L \<Longrightarrow> length (L l) \<le> fuel \<Longrightarrow> walk fuel h l = Some (L l)"
  unfolding repr_def walk_def by (metis walk_from_dseg)

lemma fold_build_node:
  "nprev (fold (build_node l nb) [0..<k] h) = (\<lambda>i. if i < k then (if i = 0 then None else Some (i - 1)) else nprev h i)"
  "nnext (fold (build_node l nb) [0..<k] h) = (\<lambda>i. if i < k then (if i = nb - 1 then None else Some (i + 1)) else nnext h i)"
  "nparent (fold (build_node l nb) [0..<k] h) = (\<lambda>i. if i < k then l else nparent h i)"
  "lfirst (fold (build_node l nb) [0..<k] h) = lfirst h"
  "llast (fold (build_node l nb) [0..<k] h) = llast h"
  by (induction k) (auto simp: build_node_def fun_eq_iff)

lemma dseg_upt:
  assumes "\<And>i. i < nb \<Longrightarrow> pv i = (if i = 0 then None else Some (i - 1))"
    and "\<And>i. i < nb \<Longrightarrow> nx i = (if i = nb - 1 then None else Some (i + 1))" and "j \<le> nb"
  shows "dseg nx pv (if j = 0 then None else Some (j - 1)) [j..<nb] None"
  using \<open>j \<le> nb\<close>
proof (induction "nb - j" arbitrary: j)
  case 0
  then show ?case by simp
next
  case (Suc k)
  then have "j < nb" by simp
  moreover have "dseg nx pv (Some j) [Suc j..<nb] None"
    using Suc.hyps(1) [of "Suc j"] Suc.hyps(2) Suc.prems by simp
  ultimately show ?case
    using assms(1,2) [of j] by (auto simp: upt_conv_Cons hd_or_def split: list.splits)
qed

text \<open>A freshly built list holds the whole pool, in index order.\<close>

lemma repr_buildList:
  assumes "0 < nb" and "\<And>k. lfirst h k = None \<and> llast h k = None"
  shows "repr (buildList l nb h) ((\<lambda>_. [])(l := [0..<nb]))"
proof -
  have "dseg (nnext (buildList l nb h)) (nprev (buildList l nb h)) None [0..<nb] None"
    using dseg_upt [of nb "nprev (buildList l nb h)" "nnext (buildList l nb h)" 0]
    by (simp add: buildList_def Let_def fold_build_node)
  moreover have "hd_or None [0..<nb] = Some 0" "last_or None [0..<nb] = Some (nb - 1)"
    using \<open>0 < nb\<close> by (simp_all add: last_or_def hd_or_def split: list.splits)
      (metis hd_upt list.sel(1))
  moreover have "lfirst (buildList l nb h) = (lfirst h)(l := Some 0)"
    "llast (buildList l nb h) = (llast h)(l := Some (nb - 1))"
    "\<forall>i < nb. nparent (buildList l nb h) i = l"
    by (simp_all add: buildList_def Let_def fold_build_node)
  ultimately show ?thesis
    using assms(2) unfolding repr_def by simp
qed

definition alloc_list :: "'l \<Rightarrow> 'l \<Rightarrow> bool \<Rightarrow> ('l \<Rightarrow> 'n list) \<Rightarrow> ('n \<times> ('l \<Rightarrow> 'n list)) option" where
  "alloc_list in_use free back L =
     (case L free of [] \<Rightarrow> None | n # _ \<Rightarrow> Some (n, move_list n in_use back L))"

lemma repr_alloc:
  assumes "repr h L"
  shows "rel_option (\<lambda>(n, h') (m, L'). n = m \<and> repr h' L')
           (allocateNode in_use free back h) (alloc_list in_use free back L)"
proof (cases "L free")
  case Nil
  then have "lfirst h free = None" using assms unfolding repr_def by (metis hd_or_simps(1))
  with Nil show ?thesis by (simp add: allocateNode_def alloc_list_def)
next
  case (Cons n ns)
  then have "lfirst h free = Some n" using assms unfolding repr_def by (metis hd_or_simps(2))
  with Cons repr_move [OF assms, of n free] show ?thesis by (simp add: allocateNode_def alloc_list_def)
qed

section \<open>The contract of the list module\<close>

locale node_lists =
  fixes move :: "'n \<Rightarrow> 'l \<Rightarrow> bool \<Rightarrow> 'h \<Rightarrow> 'h"
    and elems :: "'h \<Rightarrow> 'l \<Rightarrow> 'n list"
    and ok :: "'h \<Rightarrow> bool"
  assumes ok_distinct: "ok h \<Longrightarrow> distinct (elems h l)"
    and ok_disjoint: "ok h \<Longrightarrow> n \<in> set (elems h l) \<Longrightarrow> n \<in> set (elems h l') \<Longrightarrow> l = l'"
    and move_ok: "ok h \<Longrightarrow> n \<in> set (elems h l) \<Longrightarrow> ok (move n dst back h)"
    and move_elems: "ok h \<Longrightarrow> n \<in> set (elems h l) \<Longrightarrow> elems (move n dst back h) = move_list n dst back (elems h)"
begin

text \<open>No node is lost or duplicated by a move: it leaves its list and enters the other.\<close>

lemma move_member:
  assumes "ok h" and "n \<in> set (elems h l)"
  shows "m \<in> set (elems (move n dst back h) k) \<longleftrightarrow>
           (if m = n then k = dst else m \<in> set (elems h k))"
  using assms ok_distinct [OF assms(1)] ok_disjoint [OF assms(1)]
  by (auto simp: move_elems move_list_def set_remove1_eq dest: notin_set_remove1)

lemma move_members:
  assumes "ok h" and "n \<in> set (elems h l)"
  shows "(\<Union>k. set (elems (move n dst back h) k)) = (\<Union>k. set (elems h k))"
  proof (intro set_eqI iffI)
  fix m
  assume "m \<in> (\<Union>k. set (elems h k))"
  then show "m \<in> (\<Union>k. set (elems (move n dst back h) k))"
    using assms by (cases "m = n") (auto simp: move_member)
qed (use assms in \<open>auto simp: move_member split: if_splits\<close>)

lemma move_length:
  assumes "ok h" and "n \<in> set (elems h l)" and "l \<noteq> dst"
  shows "length (elems (move n dst back h) dst) = Suc (length (elems h dst))"
    and "length (elems (move n dst back h) l) = length (elems h l) - 1"
proof -
  have "n \<notin> set (elems h dst)" using ok_disjoint [OF assms(1,2)] assms(3) by blast
  with assms show "length (elems (move n dst back h) dst) = Suc (length (elems h dst))"
    "length (elems (move n dst back h) l) = length (elems h l) - 1"
    by (simp_all add: move_elems move_list_def length_remove1)
qed

text \<open>Appending keeps the order of arrival; a move within one list is no move.\<close>

lemma move_back: "ok h \<Longrightarrow> n \<in> set (elems h l) \<Longrightarrow> l \<noteq> dst \<Longrightarrow>
    elems (move n dst True h) dst = elems h dst @ [n]"
  using ok_disjoint by (auto simp: move_elems move_list_def)

lemma move_front: "ok h \<Longrightarrow> n \<in> set (elems h l) \<Longrightarrow> l \<noteq> dst \<Longrightarrow>
    elems (move n dst False h) dst = n # elems h dst"
  using ok_disjoint by (auto simp: move_elems move_list_def)

lemma move_same: "ok h \<Longrightarrow> n \<in> set (elems h dst) \<Longrightarrow> elems (move n dst back h) = elems h"
  by (simp add: move_elems move_list_def)

lemma move_other: "ok h \<Longrightarrow> n \<in> set (elems h l) \<Longrightarrow> k \<noteq> l \<Longrightarrow> k \<noteq> dst \<Longrightarrow>
    elems (move n dst back h) k = elems h k"
  using ok_disjoint by (fastforce simp: move_elems move_list_def intro!: remove1_idem)

end

text \<open>The pointer structure meets the contract.\<close>

definition heap_ok :: "nat \<Rightarrow> (nat, 'l) node_heap \<Rightarrow> bool" where
  "heap_ok N h \<longleftrightarrow> (\<exists>L. repr h L \<and> (\<forall>l. set (L l) \<subseteq> {..<N}))"

definition heap_elems :: "nat \<Rightarrow> (nat, 'l) node_heap \<Rightarrow> 'l \<Rightarrow> nat list" where
  "heap_elems N h l = (case walk N h l of None \<Rightarrow> [] | Some xs \<Rightarrow> xs)"

lemma distinct_below_length:
  assumes "distinct xs" and "set xs \<subseteq> {..<N}" shows "length xs \<le> (N::nat)"
  using assms by (metis card_lessThan card_mono distinct_card finite_lessThan)

lemma heap_elems_repr:
  assumes "repr h L" and "\<And>l. set (L l) \<subseteq> {..<N}"
  shows "heap_elems N h = L"
proof
  fix l
  have "length (L l) \<le> N"
    using assms distinct_below_length [of "L l" N] unfolding repr_def by blast
  then show "heap_elems N h l = L l"
    using walk_repr [OF assms(1)] by (simp add: heap_elems_def)
qed

lemma move_list_subset:
  "n \<in> set (L l) \<Longrightarrow> (\<And>k. set (L k) \<subseteq> A) \<Longrightarrow> set (move_list n dst back L k) \<subseteq> A"
  by (auto simp: move_list_def split: if_splits dest: notin_set_remove1)

interpretation heap_lists: node_lists moveNode "heap_elems N" "heap_ok N" for N
proof
  fix h :: "(nat, 'b) node_heap" and n l l' dst bk
  assume "heap_ok N h"
  then obtain L where R: "repr h L" and S: "\<And>l. set (L l) \<subseteq> {..<N}" unfolding heap_ok_def by blast
  have E: "heap_elems N h = L" using R S by (rule heap_elems_repr)
  show "distinct (heap_elems N h l)" using R unfolding E repr_def by blast
  show "n \<in> set (heap_elems N h l) \<Longrightarrow> n \<in> set (heap_elems N h l') \<Longrightarrow> l = l'"
    unfolding E by (rule repr_disjoint [OF R])
  assume "n \<in> set (heap_elems N h l)"
  then have n: "n \<in> set (L l)" unfolding E .
  have R': "repr (moveNode n dst bk h) (move_list n dst bk L)" by (rule repr_move [OF R n])
  moreover have S': "set (move_list n dst bk L k) \<subseteq> {..<N}" for k
    using n S by (rule move_list_subset)
  ultimately show "heap_ok N (moveNode n dst bk h)" unfolding heap_ok_def by blast
  show "heap_elems N (moveNode n dst bk h) = move_list n dst bk (heap_elems N h)"
    unfolding E using R' S' by (rule heap_elems_repr)
qed

text \<open>The plain lists of the other theories meet it too.\<close>

definition lists_ok :: "('l \<Rightarrow> 'n list) \<Rightarrow> bool" where
  "lists_ok L \<longleftrightarrow> (\<forall>l. distinct (L l)) \<and> (\<forall>l l'. l \<noteq> l' \<longrightarrow> set (L l) \<inter> set (L l') = {})"

lemma lists_ok_move: "lists_ok L \<Longrightarrow> n \<in> set (L l) \<Longrightarrow> lists_ok (move_list n dst bk L)"
  unfolding lists_ok_def move_list_def
  by (auto simp: set_remove1_eq dest: notin_set_remove1)

interpretation abs_lists: node_lists move_list "\<lambda>L. L" lists_ok
proof
  fix L :: "'b \<Rightarrow> 'a list" and n l l' dst bk
  assume "lists_ok L"
  then show "distinct (L l)" "n \<in> set (L l) \<Longrightarrow> n \<in> set (L l') \<Longrightarrow> l = l'"
    "n \<in> set (L l) \<Longrightarrow> lists_ok (move_list n dst bk L)"
    by (auto simp: lists_ok_move) (auto simp: lists_ok_def)
qed simp

end
