(* ===== verification/Sm_State.thy ===== *)
theory Sm_State
  imports Sm_List
begin

text \<open>
  The data of the service manager (\<open>sysmodules/sm/source/common.h\<close>, \<open>processes.h\<close>,
  \<open>services.h\<close>, \<open>main.c\<close>): sessions and processes live in static pools and are linked
  into lists; services live in an array with a count. The Horizon system calls and the
  libctru macros the module uses are not part of the repository: they are the fields of
  an environment record that every operation takes as an argument, and what the code
  relies on is stated by the predicates \<open>libctru_ok\<close> and \<open>semaphore_law\<close>.
\<close>

section \<open>Data\<close>

record SessionData =
  sd_pid :: u32
  replayCmdbuf :: "u32 list"
  busyClientPortHandle :: Handle
  sd_handle :: Handle
  isSrvPm :: bool

record ProcessData =
  pd_pid :: u32
  notificationSemaphore :: Handle
  notificationEnabled :: bool
  receivedNotificationIndex :: nat
  pendingNotificationIndex :: nat
  nbPendingNotifications :: nat
  pendingNotifications :: "u32 list"
  nbSubscribed :: nat
  subscribedNotifications :: "u32 list"

record ServiceInfo =
  si_name :: "u8 list"
  clientPort :: Handle
  si_pid :: u32
  isNamedPort :: bool

datatype session_list =
  SessionInUse | SessionFree | SessionWaitingRegister | SessionToWakeUp | SessionWaitingPortReady

datatype process_list = ProcessInUse | ProcessFree

text \<open>\<open>memset(node, 0, elementSize)\<close> in \<open>allocateNode\<close>.\<close>

definition zero_session :: SessionData where
  "zero_session = \<lparr>sd_pid = 0, replayCmdbuf = [0, 0, 0, 0], busyClientPortHandle = 0,
                   sd_handle = 0, isSrvPm = False\<rparr>"

definition zero_process :: ProcessData where
  "zero_process = \<lparr>pd_pid = 0, notificationSemaphore = 0, notificationEnabled = False,
     receivedNotificationIndex = 0, pendingNotificationIndex = 0, nbPendingNotifications = 0,
     pendingNotifications = replicate 16 0, nbSubscribed = 0,
     subscribedNotifications = replicate 17 0\<rparr>"

definition zero_service :: ServiceInfo where
  "zero_service = \<lparr>si_name = replicate 8 0, clientPort = 0, si_pid = 0, isNamedPort = False\<rparr>"

text \<open>The globals, the thread command buffer, the variables of \<open>main\<close> that live across
  iterations, and the state of the kernel (of an arbitrary type).\<close>

record 'k sm_state =
  sessions :: "nat \<Rightarrow> SessionData"
  session_lists :: "session_list \<Rightarrow> nat list"
  processes :: "nat \<Rightarrow> ProcessData"
  process_lists :: "process_list \<Rightarrow> nat list"
  servicesInfo :: "ServiceInfo list"
  nbServices :: nat
  nbSection0Modules :: u32
  resumeSemaphore :: Handle
  cmdbuf :: "nat \<Rightarrow> u32"
  kernel :: 'k
  srvPort :: Handle
  srvPmPort :: Handle
  replyTarget :: Handle
  srvPmSessionCreated :: bool

abbreviation nb_session_pool :: nat where "nb_session_pool \<equiv> 76"
abbreviation nb_process_pool :: nat where "nb_process_pool \<equiv> 64"
abbreviation max_services :: nat where "max_services \<equiv> 0xA0"

section \<open>Environment: kernel calls and libctru macros\<close>

record 'k sm_env =
  svcCreateSemaphore :: "u32 \<Rightarrow> u32 \<Rightarrow> 'k \<Rightarrow> (Result \<times> Handle) \<times> 'k"
  svcReleaseSemaphore :: "Handle \<Rightarrow> nat \<Rightarrow> 'k \<Rightarrow> Result \<times> 'k"
  svcCloseHandle :: "Handle \<Rightarrow> 'k \<Rightarrow> 'k"
  svcCreatePort :: "u32 \<Rightarrow> 'k \<Rightarrow> (Result \<times> Handle \<times> Handle) \<times> 'k"
  svcCreateSessionToPort :: "Handle \<Rightarrow> 'k \<Rightarrow> (Result \<times> Handle) \<times> 'k"
  svcAcceptSession :: "Handle \<Rightarrow> 'k \<Rightarrow> (Result \<times> Handle) \<times> 'k"
  svcGetProcessId :: "Handle \<Rightarrow> 'k \<Rightarrow> (Result \<times> u32) \<times> 'k"
  svcGetSystemInfo :: "'k \<Rightarrow> u32 \<times> 'k"
  svcReplyAndReceive :: "Handle list \<Rightarrow> Handle \<Rightarrow> (nat \<Rightarrow> u32) \<Rightarrow> 'k
                           \<Rightarrow> (Result \<times> int \<times> (nat \<Rightarrow> u32)) \<times> 'k"
  R_FAILED :: "Result \<Rightarrow> bool"
  R_MODULE :: "Result \<Rightarrow> u32"
  R_SUMMARY :: "Result \<Rightarrow> u32"
  RM_SRV :: u32
  RS_WOULDBLOCK :: u32
  IPC_MakeHeader :: "u32 \<Rightarrow> u32 \<Rightarrow> u32 \<Rightarrow> u32"
  IPC_Desc_CurProcessId :: u32
  IPC_Desc_SharedHandles :: "u32 \<Rightarrow> u32"
  IPC_Desc_MoveHandles :: "u32 \<Rightarrow> u32"
  IPC_Desc_StaticBuffer :: "u32 \<Rightarrow> u32 \<Rightarrow> u32"
  IS_PRE_7X :: bool
  IS_PRE_93 :: bool
  CUR_PROCESS_HANDLE :: Handle
  uninitialised :: u32

text \<open>The documented meaning of the libctru macros.\<close>

definition libctru_ok :: "'k sm_env \<Rightarrow> bool" where
  "libctru_ok E \<longleftrightarrow>
     (\<forall>r. R_FAILED E r \<longleftrightarrow> sint r < 0)
     \<and> (\<forall>r. R_MODULE E r = drop_bit 10 r AND 0xFF) \<and> (\<forall>r. R_SUMMARY E r = drop_bit 21 r AND 0x3F)
     \<and> RM_SRV E = 25 \<and> RS_WOULDBLOCK E = 2"

definition would_block :: "'k sm_env \<Rightarrow> Result \<Rightarrow> bool" where
  "would_block E res \<longleftrightarrow> R_MODULE E res = RM_SRV E \<and> R_SUMMARY E res = RS_WOULDBLOCK E"

text \<open>\<open>assertSuccess\<close> traps on a failed result; a trap is the value \<open>None\<close>.\<close>

definition assertSuccess :: "'k sm_env \<Rightarrow> Result \<Rightarrow> unit option" where
  "assertSuccess E res = (if R_FAILED E res then None else Some ())"

lemma assertSuccess_Some [simp]: "assertSuccess E res = Some u \<longleftrightarrow> \<not> R_FAILED E res"
  by (simp add: assertSuccess_def)

text \<open>What the code relies on of semaphores, for the handle \<open>R\<close> the module created for
  itself: releasing adds to the count of that handle only, a wait that reports handle 0
  takes one, no other call changes it, and no semaphore created for a process (initial
  count 0, maximum 16) gets the same handle.
  \<open>sem\<close> reads the count in a kernel state.\<close>

definition semaphore_law :: "'k sm_env \<Rightarrow> Handle \<Rightarrow> ('k \<Rightarrow> nat) \<Rightarrow> bool" where
  "semaphore_law E R sem \<longleftrightarrow>
     (\<forall>h n k. \<not> R_FAILED E (fst (svcReleaseSemaphore E h n k)) \<longrightarrow>
        sem (snd (svcReleaseSemaphore E h n k)) = sem k + (if h = R then n else 0))
     \<and> (\<forall>a b k. sem (snd (svcCreateSemaphore E a b k)) = sem k)
     \<and> (\<forall>k. snd (fst (svcCreateSemaphore E 0 0x10 k)) \<noteq> R)
     \<and> (\<forall>h k. sem (svcCloseHandle E h k) = sem k)
     \<and> (\<forall>m k. sem (snd (svcCreatePort E m k)) = sem k)
     \<and> (\<forall>h k. sem (snd (svcCreateSessionToPort E h k)) = sem k)
     \<and> (\<forall>h k. sem (snd (svcAcceptSession E h k)) = sem k)
     \<and> (\<forall>h k. sem (snd (svcGetProcessId E h k)) = sem k)
     \<and> (\<forall>hs t b k. (case svcReplyAndReceive E hs t b k of ((res, i, _), k') \<Rightarrow>
          if \<not> R_FAILED E res \<and> i = 0 then 0 < sem k \<and> sem k' = sem k - 1 else sem k' = sem k))"

lemma semaphore_lawD:
  assumes "semaphore_law E R sem"
  shows "\<not> R_FAILED E (fst (svcReleaseSemaphore E h n k)) \<Longrightarrow>
          sem (snd (svcReleaseSemaphore E h n k)) = sem k + (if h = R then n else 0)"
    and "sem (snd (svcCreateSemaphore E a b k)) = sem k"
    and "snd (fst (svcCreateSemaphore E 0 0x10 k)) \<noteq> R"
    and "sem (svcCloseHandle E h k) = sem k"
    and "sem (snd (svcCreatePort E m k)) = sem k"
    and "sem (snd (svcCreateSessionToPort E h k)) = sem k"
    and "sem (snd (svcAcceptSession E h k)) = sem k"
    and "sem (snd (svcGetProcessId E h k)) = sem k"
  using assms unfolding semaphore_law_def by simp_all

lemma semaphore_release:
  "semaphore_law E R sem \<Longrightarrow> svcReleaseSemaphore E h n k = (res, k') \<Longrightarrow> \<not> R_FAILED E res \<Longrightarrow>
     sem k' = sem k + (if h = R then n else 0)"
  using semaphore_lawD(1) [of E R sem h n k] by simp

lemma semaphore_create:
  "semaphore_law E R sem \<Longrightarrow> svcCreateSemaphore E 0 0x10 k = ((res, h), k') \<Longrightarrow> sem k' = sem k \<and> h \<noteq> R"
  using semaphore_lawD(2,3) [of E R sem] by (metis fst_conv snd_conv)

lemma semaphore_frame:
  assumes "semaphore_law E R sem"
  shows "sem (svcCloseHandle E h k) = sem k"
    and "svcCreatePort E m k = (p, k') \<Longrightarrow> sem k' = sem k"
    and "svcCreateSessionToPort E h k = (q, k') \<Longrightarrow> sem k' = sem k"
    and "svcAcceptSession E h k = (q, k') \<Longrightarrow> sem k' = sem k"
    and "svcGetProcessId E h k = (q', k') \<Longrightarrow> sem k' = sem k"
  using semaphore_lawD(4-8) [OF assms] by (metis snd_conv)+

lemma semaphore_receive:
  "semaphore_law E R sem \<Longrightarrow> svcReplyAndReceive E hs t b k = ((res, i, b'), k') \<Longrightarrow>
     (if \<not> R_FAILED E res \<and> i = 0 then 0 < sem k \<and> sem k' = sem k - 1 else sem k' = sem k)"
  unfolding semaphore_law_def by (auto split: prod.splits)

text \<open>A wait that succeeds reports one of the handles it was given.\<close>

definition receive_law :: "'k sm_env \<Rightarrow> bool" where
  "receive_law E \<longleftrightarrow>
     (\<forall>hs t b k. (case svcReplyAndReceive E hs t b k of ((res, i, _), _) \<Rightarrow>
        \<not> R_FAILED E res \<longrightarrow> 0 \<le> i \<and> i < int (length hs)))"

section \<open>Strings in buffers\<close>

text \<open>A service name travels as eight bytes, little endian in two command words.\<close>

definition word_bytes :: "u32 \<Rightarrow> u8 list" where
  "word_bytes w = [ucast w, ucast (drop_bit 8 w), ucast (drop_bit 16 w), ucast (drop_bit 24 w)]"

definition name_at :: "(nat \<Rightarrow> u32) \<Rightarrow> nat \<Rightarrow> u8 list" where
  "name_at buf i = word_bytes (buf i) @ word_bytes (buf (i + 1))"

lemma length_name_at [simp]: "length (name_at buf i) = 8"
  by (simp add: name_at_def word_bytes_def)

fun strnlen :: "u8 list \<Rightarrow> nat \<Rightarrow> nat" where
  "strnlen (c # cs) (Suc n) = (if c = 0 then 0 else Suc (strnlen cs n))"
| "strnlen _ _ = 0"

text \<open>\<open>strncmp (a, b, n) == 0\<close>. The arguments are eight-byte arrays and \<open>n \<le> 8\<close> wherever
  the code calls it, so the last equation (a read past the array) is not exercised.\<close>

fun strncmp_eq :: "u8 list \<Rightarrow> u8 list \<Rightarrow> nat \<Rightarrow> bool" where
  "strncmp_eq as bs 0 = True"
| "strncmp_eq (a # as) (b # bs) (Suc n) = (a = b \<and> (a = 0 \<or> strncmp_eq as bs n))"
| "strncmp_eq _ _ (Suc n) = False"

definition strncpy8 :: "u8 list \<Rightarrow> u8 list" where
  "strncpy8 name = (let s = takeWhile (\<lambda>c. c \<noteq> 0) (take 8 name) in s @ replicate (8 - length s) 0)"

lemma length_strncpy8 [simp]: "length (strncpy8 name) = 8"
proof -
  have "length (takeWhile (\<lambda>c. c \<noteq> 0) (take 8 name)) \<le> 8"
    by (metis length_take length_takeWhile_le min.bounded_iff le_trans min.cobounded2)
  then show ?thesis by (simp add: strncpy8_def Let_def)
qed

lemma strnlen_full:
  "strnlen cs n \<ge> n \<Longrightarrow> n \<le> length cs \<Longrightarrow> \<forall>c \<in> set (take n cs). c \<noteq> 0"
  by (induction cs n rule: strnlen.induct) (auto split: if_splits)

lemma strnlen_full_iff:
  "n \<le> length cs \<Longrightarrow> strnlen cs n < n \<longleftrightarrow> 0 \<in> set (take n cs)"
  by (induction cs n rule: strnlen.induct) (auto split: if_splits simp: take_Cons')

lemma strncmp_eq_take:
  "n \<le> length as \<Longrightarrow> n \<le> length bs \<Longrightarrow> 0 \<notin> set (take n bs) \<Longrightarrow>
     strncmp_eq as bs n \<longleftrightarrow> take n as = take n bs"
  by (induction as bs n rule: strncmp_eq.induct) auto

section \<open>Allocating nodes\<close>

definition alloc_session :: "'k sm_state \<Rightarrow> (nat \<times> 'k sm_state) option" where
  "alloc_session s =
     (case alloc_list SessionInUse SessionFree False (session_lists s) of
        None \<Rightarrow> None
      | Some (n, L) \<Rightarrow>
          Some (n, s\<lparr>sessions := (sessions s)(n := zero_session), session_lists := L\<rparr>))"

definition alloc_process :: "'k sm_state \<Rightarrow> (nat \<times> 'k sm_state) option" where
  "alloc_process s =
     (case alloc_list ProcessInUse ProcessFree False (process_lists s) of
        None \<Rightarrow> None
      | Some (n, L) \<Rightarrow>
          Some (n, s\<lparr>processes := (processes s)(n := zero_process), process_lists := L\<rparr>))"

definition move_session :: "nat \<Rightarrow> session_list \<Rightarrow> bool \<Rightarrow> 'k sm_state \<Rightarrow> 'k sm_state" where
  "move_session n dst back s = s\<lparr>session_lists := move_list n dst back (session_lists s)\<rparr>"

definition move_process :: "nat \<Rightarrow> process_list \<Rightarrow> bool \<Rightarrow> 'k sm_state \<Rightarrow> 'k sm_state" where
  "move_process n dst back s = s\<lparr>process_lists := move_list n dst back (process_lists s)\<rparr>"

definition upd_session :: "nat \<Rightarrow> (SessionData \<Rightarrow> SessionData) \<Rightarrow> 'k sm_state \<Rightarrow> 'k sm_state" where
  "upd_session n f s = s\<lparr>sessions := (sessions s)(n := f (sessions s n))\<rparr>"

definition upd_process :: "nat \<Rightarrow> (ProcessData \<Rightarrow> ProcessData) \<Rightarrow> 'k sm_state \<Rightarrow> 'k sm_state" where
  "upd_process n f s = s\<lparr>processes := (processes s)(n := f (processes s n))\<rparr>"

end
