(* ===== verification/Sm_Services.thy ===== *)
theory Sm_Services
  imports Sm_State
begin

text \<open>
  The service and named-port registry, \<open>sysmodules/sm/source/services.c\<close>: every function
  of the file, the name checks included. The registry is an array with a count; the
  locale \<open>service_table\<close> states what the callers may rely on.
\<close>

section \<open>Tables that remove by moving the last entry\<close>

text \<open>
  The contract of an array with a count in which an entry is added at the end and removed
  by overwriting it with the last one: as a multiset of entries it gains or loses exactly
  that entry. The service registry and the subscription arrays of processes are such tables.
\<close>

locale entry_table =
  fixes table_ok :: "'t \<Rightarrow> bool"
    and entries :: "'t \<Rightarrow> 'e list"
    and full :: "'t \<Rightarrow> bool"
    and add :: "'e \<Rightarrow> 't \<Rightarrow> 't"
    and remove :: "nat \<Rightarrow> 't \<Rightarrow> 't"
  assumes add_ok: "table_ok t \<Longrightarrow> \<not> full t \<Longrightarrow> table_ok (add e t)"
    and remove_ok: "table_ok t \<Longrightarrow> i < length (entries t) \<Longrightarrow> table_ok (remove i t)"
    and entries_add: "table_ok t \<Longrightarrow> \<not> full t \<Longrightarrow> entries (add e t) = entries t @ [e]"
    and entries_remove: "table_ok t \<Longrightarrow> i < length (entries t) \<Longrightarrow>
          mset (entries (remove i t)) = mset (entries t) - {#entries t ! i#}"
begin

lemma length_remove: "table_ok t \<Longrightarrow> i < length (entries t) \<Longrightarrow>
    length (entries (remove i t)) = length (entries t) - 1"
  by (metis entries_remove nth_mem size_Diff_singleton size_mset set_mset_mset)

lemma mset_add: "table_ok t \<Longrightarrow> \<not> full t \<Longrightarrow> mset (entries (add e t)) = add_mset e (mset (entries t))"
  by (simp add: entries_add)

lemma set_remove_subset: "table_ok t \<Longrightarrow> i < length (entries t) \<Longrightarrow>
    set (entries (remove i t)) \<subseteq> set (entries t)"
  by (metis entries_remove in_diffD set_mset_mset subsetI)

text \<open>In a table without duplicates a removal takes the entry out for good.\<close>

lemma distinct_remove:
  assumes "table_ok t" and "i < length (entries t)" and "distinct (entries t)"
  shows "distinct (entries (remove i t))"
    and "set (entries (remove i t)) = set (entries t) - {entries t ! i}"
proof -
  have m: "mset (entries (remove i t)) = mset (remove1 (entries t ! i) (entries t))"
    using assms by (simp add: entries_remove)
  then have "distinct (remove1 (entries t ! i) (entries t)) = distinct (entries (remove i t))"
    by (metis distinct_count_atmost_1 set_mset_mset)
  then show "distinct (entries (remove i t))" using assms(3) by simp
  show "set (entries (remove i t)) = set (entries t) - {entries t ! i}"
    using mset_eq_setD [OF m] assms(3) by simp
qed

lemma distinct_add: "table_ok t \<Longrightarrow> \<not> full t \<Longrightarrow> distinct (entries t) \<Longrightarrow> e \<notin> set (entries t) \<Longrightarrow>
    distinct (entries (add e t))"
  by (simp add: entries_add)

text \<open>Adding and removing the same entry gives the table back, up to order.\<close>

lemma add_remove: "table_ok t \<Longrightarrow> \<not> full t \<Longrightarrow>
    mset (entries (remove (length (entries t)) (add e t))) = mset (entries t)"
  by (simp add: entries_remove add_ok entries_add)

end

section \<open>Operations\<close>

definition checkServiceName :: "u8 list \<Rightarrow> u32 \<Rightarrow> Result" where
  "checkServiceName name nameSize =
     (if sint nameSize \<le> 0 \<or> sint nameSize > 8 then 0xD9006405
      else if strnlen name (unat nameSize) < unat nameSize then 0xD9006407
      else 0)"

definition areServiceNamesEqual :: "u8 list \<Rightarrow> u8 list \<Rightarrow> u32 \<Rightarrow> bool" where
  "areServiceNamesEqual name name2 nameSize \<longleftrightarrow>
     strncmp_eq name name2 (unat nameSize)
     \<and> (nameSize = 8 \<or> (unat nameSize < length name \<and> name ! unat nameSize = 0))"

text \<open>The loop over \<open>servicesInfo\<close> stops at the first match; \<open>None\<close> is \<open>-1\<close>.\<close>

fun find_from :: "(ServiceInfo \<Rightarrow> bool) \<Rightarrow> ServiceInfo list \<Rightarrow> nat option" where
  "find_from P [] = None"
| "find_from P (x # xs) = (if P x then Some 0 else map_option Suc (find_from P xs))"

lemma find_from_Some: "find_from P xs = Some i \<Longrightarrow> i < length xs \<and> P (xs ! i) \<and> (\<forall>j < i. \<not> P (xs ! j))"
  by (induction xs arbitrary: i) (auto split: if_splits simp: less_Suc_eq_0_disj)

lemma find_from_None: "find_from P xs = None \<longleftrightarrow> (\<forall>x \<in> set xs. \<not> P x)"
  by (induction xs) auto

definition findServicePortByName :: "'k sm_state \<Rightarrow> bool \<Rightarrow> u8 list \<Rightarrow> u32 \<Rightarrow> nat option" where
  "findServicePortByName s named name nameSize =
     find_from (\<lambda>info. isNamedPort info = named \<and> areServiceNamesEqual (si_name info) name nameSize)
       (take (nbServices s) (servicesInfo s))"

text \<open>The access check of the original module is removed in this fork.\<close>

definition checkServiceAccess :: "nat \<Rightarrow> u8 list \<Rightarrow> u32 \<Rightarrow> bool" where
  "checkServiceAccess sd name nameSize = True"

definition waits_for :: "bool \<Rightarrow> u8 list \<Rightarrow> SessionData \<Rightarrow> bool" where
  "waits_for named name sd \<longleftrightarrow>
     (replayCmdbuf sd ! 0 AND 0xF0000) = (if \<not> named then 0x50000 else 0x80000)
     \<and> areServiceNamesEqual (word_bytes (replayCmdbuf sd ! 1) @ word_bytes (replayCmdbuf sd ! 2))
          name (replayCmdbuf sd ! 3)"

text \<open>The loop over the waiting list reads the next pointer before a node is moved, so it
  visits the nodes the list had at its start.\<close>

fun wake_loop :: "(nat \<Rightarrow> bool) \<Rightarrow> nat list \<Rightarrow> (session_list \<Rightarrow> nat list) \<Rightarrow> nat
    \<Rightarrow> (session_list \<Rightarrow> nat list) \<times> nat" where
  "wake_loop P [] L n = (L, n)"
| "wake_loop P (x # xs) L n =
     (if P x then wake_loop P xs (move_list x SessionToWakeUp True L) (Suc n)
      else wake_loop P xs L n)"

definition wake_waiting :: "'k sm_env \<Rightarrow> bool \<Rightarrow> u8 list \<Rightarrow> 'k sm_state \<Rightarrow> 'k sm_state option" where
  "wake_waiting E named name s =
     (case wake_loop (\<lambda>x. waits_for named name (sessions s x))
             (session_lists s SessionWaitingRegister) (session_lists s) 0 of
        (L, n) \<Rightarrow>
          let s = s\<lparr>session_lists := L\<rparr> in
          if n > 0 then
            (case svcReleaseSemaphore E (resumeSemaphore s) n (kernel s) of
               (res, k) \<Rightarrow> do { _ \<leftarrow> assertSuccess E res; Some (s\<lparr>kernel := k\<rparr>) })
          else Some s)"

definition add_service :: "ServiceInfo \<Rightarrow> 'k sm_state \<Rightarrow> 'k sm_state" where
  "add_service info s =
     s\<lparr>servicesInfo := (servicesInfo s)[nbServices s := info], nbServices := nbServices s + 1\<rparr>"

definition registered :: "'k sm_state \<Rightarrow> ServiceInfo list" where
  "registered s = take (nbServices s) (servicesInfo s)"

definition service_table_ok :: "'k sm_state \<Rightarrow> bool" where
  "service_table_ok s \<longleftrightarrow> length (servicesInfo s) = max_services \<and> nbServices s \<le> max_services"

definition doRegisterServiceOrPort ::
    "'k sm_env \<Rightarrow> u32 \<Rightarrow> Handle \<Rightarrow> Handle \<Rightarrow> u8 list \<Rightarrow> u32 \<Rightarrow> u32 \<Rightarrow> bool
     \<Rightarrow> 'k sm_state \<Rightarrow> ((Result \<times> Handle) \<times> 'k sm_state) option" where
  "doRegisterServiceOrPort E pid serverPort cport name nameSize maxSessions named s =
     (let res = checkServiceName name nameSize in
      if R_FAILED E res then Some ((res, serverPort), s)
      else if findServicePortByName s named name nameSize \<noteq> None
      then Some ((0xD9001BFC, serverPort), s)
      else if nbServices s \<ge> max_services then Some ((0xD86067F3, serverPort), s)
      else
        (case (if \<not> named then svcCreatePort E maxSessions (kernel s)
               else ((res, serverPort, cport), kernel s)) of
           ((res, portServer, portClient), k) \<Rightarrow>
             let s = s\<lparr>kernel := k\<rparr> in
             if \<not> named \<and> R_FAILED E res then Some ((0xD9001BFC, 0), s)
             else
               let s = add_service \<lparr>si_name = strncpy8 name, clientPort = portClient,
                                    si_pid = pid, isNamedPort = named\<rparr> s
               in do {
                 s \<leftarrow> wake_waiting E named name s;
                 Some ((res, if \<not> named then portServer else serverPort), s)
               }))"

definition doRegisterService ::
    "'k sm_env \<Rightarrow> u32 \<Rightarrow> Handle \<Rightarrow> u8 list \<Rightarrow> u32 \<Rightarrow> u32 \<Rightarrow> 'k sm_state
     \<Rightarrow> ((Result \<times> Handle) \<times> 'k sm_state) option" where
  "doRegisterService E pid serverPort name nameSize maxSessions s =
     doRegisterServiceOrPort E pid serverPort 0 name nameSize maxSessions False s"

definition RegisterService ::
    "'k sm_env \<Rightarrow> nat \<Rightarrow> Handle \<Rightarrow> u8 list \<Rightarrow> u32 \<Rightarrow> u32 \<Rightarrow> 'k sm_state
     \<Rightarrow> ((Result \<times> Handle) \<times> 'k sm_state) option" where
  "RegisterService E sd serverPort name nameSize maxSessions s =
     doRegisterService E (sd_pid (sessions s sd)) serverPort name nameSize maxSessions s"

text \<open>For named ports no server port is returned (the pointer is \<open>NULL\<close>).\<close>

definition RegisterPort ::
    "'k sm_env \<Rightarrow> nat \<Rightarrow> Handle \<Rightarrow> u8 list \<Rightarrow> u32 \<Rightarrow> 'k sm_state \<Rightarrow> (Result \<times> 'k sm_state) option" where
  "RegisterPort E sd cport name nameSize s =
     map_option (\<lambda>((res, _), s). (res, s))
       (doRegisterServiceOrPort E (sd_pid (sessions s sd)) 0 cport name nameSize (-1) True s)"

text \<open>\<open>servicesInfo[i] = servicesInfo[--nbServices]\<close>.\<close>

definition remove_service :: "nat \<Rightarrow> 'k sm_state \<Rightarrow> 'k sm_state" where
  "remove_service i s =
     s\<lparr>servicesInfo := (servicesInfo s)[i := servicesInfo s ! (nbServices s - 1)],
       nbServices := nbServices s - 1\<rparr>"

interpretation services: entry_table service_table_ok registered
    "\<lambda>s. nbServices s \<ge> max_services" add_service remove_service
proof
  fix s :: "'k sm_state" and e i
  assume ok: "service_table_ok s"
  show "\<not> nbServices s \<ge> max_services \<Longrightarrow> service_table_ok (add_service e s)"
    using ok by (simp add: service_table_ok_def add_service_def)
  show "\<not> nbServices s \<ge> max_services \<Longrightarrow> registered (add_service e s) = registered s @ [e]"
    using ok by (simp add: service_table_ok_def add_service_def registered_def take_Suc_conv_app_nth)
  assume i: "i < length (registered s)"
  show "service_table_ok (remove_service i s)"
    using ok by (auto simp: service_table_ok_def remove_service_def)
  show "mset (registered (remove_service i s)) = mset (registered s) - {#registered s ! i#}"
    using ok i take_update_swap_last [of i "nbServices s" "servicesInfo s"]
    by (simp add: service_table_ok_def registered_def remove_service_def)
qed

definition close_handle :: "'k sm_env \<Rightarrow> Handle \<Rightarrow> 'k sm_state \<Rightarrow> 'k sm_state" where
  "close_handle E h s = s\<lparr>kernel := svcCloseHandle E h (kernel s)\<rparr>"

definition UnregisterServiceOrPort ::
    "'k sm_env \<Rightarrow> nat \<Rightarrow> u8 list \<Rightarrow> u32 \<Rightarrow> bool \<Rightarrow> 'k sm_state \<Rightarrow> Result \<times> 'k sm_state" where
  "UnregisterServiceOrPort E sd name nameSize named s =
     (let res = checkServiceName name nameSize in
      if R_FAILED E res then (res, s)
      else case findServicePortByName s named name nameSize of
        None \<Rightarrow> (0xD8801BFA, s)
      | Some i \<Rightarrow>
          if si_pid (servicesInfo s ! i) \<noteq> sd_pid (sessions s sd) then (0xD8E06406, s)
          else (0, remove_service i (close_handle E (clientPort (servicesInfo s ! i)) s)))"

definition UnregisterService ::
    "'k sm_env \<Rightarrow> nat \<Rightarrow> u8 list \<Rightarrow> u32 \<Rightarrow> 'k sm_state \<Rightarrow> Result \<times> 'k sm_state" where
  "UnregisterService E sd name nameSize s = UnregisterServiceOrPort E sd name nameSize False s"

definition UnregisterPort ::
    "'k sm_env \<Rightarrow> nat \<Rightarrow> u8 list \<Rightarrow> u32 \<Rightarrow> 'k sm_state \<Rightarrow> Result \<times> 'k sm_state" where
  "UnregisterPort E sd name nameSize s = UnregisterServiceOrPort E sd name nameSize True s"

text \<open>The out parameter keeps its old value where the code does not write it.\<close>

definition IsServiceRegistered ::
    "'k sm_env \<Rightarrow> nat \<Rightarrow> bool \<Rightarrow> u8 list \<Rightarrow> u32 \<Rightarrow> 'k sm_state \<Rightarrow> Result \<times> bool" where
  "IsServiceRegistered E sd isRegistered name nameSize s =
     (let res = checkServiceName name nameSize in
      if R_FAILED E res then (res, isRegistered)
      else if \<not> checkServiceAccess sd name nameSize then (0xD8E06406, isRegistered)
      else (0, findServicePortByName s False name nameSize \<noteq> None))"

definition GetServiceHandle ::
    "'k sm_env \<Rightarrow> nat \<Rightarrow> u8 list \<Rightarrow> u32 \<Rightarrow> u32 \<Rightarrow> 'k sm_state \<Rightarrow> (Result \<times> Handle) \<times> 'k sm_state" where
  "GetServiceHandle E sd name nameSize flags s =
     (let res = checkServiceName name nameSize in
      if R_FAILED E res then ((res, 0), s)
      else if \<not> checkServiceAccess sd name nameSize then ((0xD8E06406, 0), s)
      else case findServicePortByName s False name nameSize of
        None \<Rightarrow> ((0xD0406401, 0), s)
      | Some i \<Rightarrow>
          let port = clientPort (servicesInfo s ! i) in
          (case svcCreateSessionToPort E port (kernel s) of
             ((res, session), k) \<Rightarrow>
               let s = s\<lparr>kernel := k\<rparr>;
                   session = (if R_FAILED E res then 0 else session)
               in if res = 0xD0401834 \<and> flags AND 1 = 0
                  then ((0xD0406402, session),
                        upd_session sd (\<lambda>d. d\<lparr>busyClientPortHandle := port\<rparr>) s)
                  else ((res, session), s)))"

definition GetPort ::
    "'k sm_env \<Rightarrow> nat \<Rightarrow> u8 list \<Rightarrow> u32 \<Rightarrow> u8 \<Rightarrow> 'k sm_state \<Rightarrow> Result \<times> Handle" where
  "GetPort E sd name nameSize flags s =
     (let res = checkServiceName name nameSize in
      if R_FAILED E res then (res, 0)
      else if \<not> checkServiceAccess sd name nameSize then (0xD8E06406, 0)
      else case findServicePortByName s True name nameSize of
        None \<Rightarrow> (if flags \<noteq> 0 then 0xD0406401 else 0xD8801BFA, 0)
      | Some i \<Rightarrow> (0, if flags = 0 then clientPort (servicesInfo s ! i) else 0))"

end
