(* ===== verification/Sm_Processes.thy ===== *)
theory Sm_Processes
  imports Sm_Services
begin

text \<open>
  The table of registered processes, \<open>sysmodules/sm/source/processes.c\<close>.
\<close>

section \<open>Operations\<close>

definition findProcessData :: "'k sm_state \<Rightarrow> u32 \<Rightarrow> nat option" where
  "findProcessData s pid =
     List.find (\<lambda>n. pd_pid (processes s n) = pid) (process_lists s ProcessInUse)"

text \<open>The access list is ignored in this fork; the two parameters are kept.\<close>

definition doRegisterProcess ::
    "'k sm_env \<Rightarrow> u32 \<Rightarrow> u32 \<Rightarrow> u32 \<Rightarrow> 'k sm_state \<Rightarrow> (nat \<times> 'k sm_state) option" where
  "doRegisterProcess E pid serviceAccessList serviceAccessListSize s =
     do {
       (n, s) \<leftarrow> alloc_process s;
       (case svcCreateSemaphore E 0 0x10 (kernel s) of
          ((res, h), k) \<Rightarrow> do {
            _ \<leftarrow> assertSuccess E res;
            Some (n, upd_process n (\<lambda>p. p\<lparr>notificationSemaphore := h, pd_pid := pid\<rparr>)
                       (s\<lparr>kernel := k\<rparr>)) })
     }"

definition RegisterProcess ::
    "'k sm_env \<Rightarrow> u32 \<Rightarrow> u32 \<Rightarrow> u32 \<Rightarrow> 'k sm_state \<Rightarrow> (Result \<times> 'k sm_state) option" where
  "RegisterProcess E pid serviceAccessList serviceAccessListSize s =
     (let size = serviceAccessListSize - (serviceAccessListSize mod 8) in
      if findProcessData s pid \<noteq> None then Some (0xD9006403, s)
      else if size > 8 * (if IS_PRE_93 E then 32 else 34) then Some (0xD9006405, s)
      else do {
        (_, s) \<leftarrow> doRegisterProcess E pid serviceAccessList size s;
        Some (0, s)
      })"

text \<open>The loop of \<open>UnregisterProcess\<close>: a removal puts the last entry at \<open>i\<close> and looks at
  \<open>i\<close> again, so either \<open>i\<close> grows or the count shrinks.\<close>

function unregister_services :: "'k sm_env \<Rightarrow> u32 \<Rightarrow> nat \<Rightarrow> 'k sm_state \<Rightarrow> 'k sm_state" where
  "unregister_services E pid i s =
     (if i < nbServices s then
        (if si_pid (servicesInfo s ! i) = pid
         then unregister_services E pid i
                (remove_service i (close_handle E (clientPort (servicesInfo s ! i)) s))
         else unregister_services E pid (i + 1) s)
      else s)"
  by pat_completeness auto
termination
  by (relation "measure (\<lambda>(E, pid, i, s). nbServices s - i)")
     (auto simp: remove_service_def close_handle_def)

declare unregister_services.simps [simp del]

definition UnregisterProcess :: "'k sm_env \<Rightarrow> u32 \<Rightarrow> 'k sm_state \<Rightarrow> Result \<times> 'k sm_state" where
  "UnregisterProcess E pid s =
     (case findProcessData s pid of
        None \<Rightarrow> (0xD8806404, s)
      | Some n \<Rightarrow>
          let s = close_handle E (notificationSemaphore (processes s n)) s;
              s = unregister_services E pid 0 s
          in (0, move_process n ProcessFree False s))"

end
