(* ===== verification/Sm_Notifications.thy ===== *)
theory Sm_Notifications
  imports Sm_Processes
begin

text \<open>
  Notifications, \<open>sysmodules/sm/source/notifications.c\<close>: each registered process has a
  circular buffer of at most 16 pending notification ids and a set of at most 17
  subscriptions. The counters are 16-bit in the source; each increment is guarded by a
  bound below 18 and each decrement by a test that the counter is not zero, so they are
  natural numbers here.
\<close>

section \<open>Operations\<close>

definition isNotificationInhibited :: "ProcessData \<Rightarrow> u32 \<Rightarrow> bool" where
  "isNotificationInhibited p notificationId = False"

definition already_pending :: "ProcessData \<Rightarrow> u32 \<Rightarrow> bool" where
  "already_pending p notificationId \<longleftrightarrow>
     list_ex (\<lambda>i. pendingNotifications p ! ((receivedNotificationIndex p + i) mod 16) = notificationId)
       [0..<nbPendingNotifications p]"

definition push_pending :: "u32 \<Rightarrow> ProcessData \<Rightarrow> ProcessData" where
  "push_pending notificationId p =
     p\<lparr>pendingNotifications := (pendingNotifications p)[pendingNotificationIndex p := notificationId],
       pendingNotificationIndex := (pendingNotificationIndex p + 1) mod 16,
       nbPendingNotifications := nbPendingNotifications p + 1\<rparr>"

definition doPublishNotification ::
    "'k sm_env \<Rightarrow> nat \<Rightarrow> u32 \<Rightarrow> u32 \<Rightarrow> 'k sm_state \<Rightarrow> (bool \<times> 'k sm_state) option" where
  "doPublishNotification E n notificationId flags s =
     (let p = processes s n in
      if flags AND 1 \<noteq> 0 \<and> nbPendingNotifications p \<noteq> 0 \<and> already_pending p notificationId
      then Some (True, s)
      else if nbPendingNotifications p < 0x10 then
        (case svcReleaseSemaphore E (notificationSemaphore p) 1 (kernel s) of
           (res, k) \<Rightarrow> do {
             _ \<leftarrow> assertSuccess E res;
             Some (True, upd_process n (push_pending notificationId) (s\<lparr>kernel := k\<rparr>)) })
      else Some (flags AND 2 \<noteq> 0, s))"

definition EnableNotification ::
    "'k sm_env \<Rightarrow> nat \<Rightarrow> Handle \<Rightarrow> 'k sm_state \<Rightarrow> ((Result \<times> Handle) \<times> 'k sm_state) option" where
  "EnableNotification E sd sem0 s =
     (let enable = (\<lambda>n s. ((0, notificationSemaphore (processes s n)),
                           upd_process n (\<lambda>p. p\<lparr>notificationEnabled := True\<rparr>) s)) in
      case findProcessData s (sd_pid (sessions s sd)) of
        Some n \<Rightarrow> Some (enable n s)
      | None \<Rightarrow>
          if sd_pid (sessions s sd) < nbSection0Modules s then do {
            (n, s) \<leftarrow> doRegisterProcess E (sd_pid (sessions s sd)) 0 0 s;
            Some (enable n s)
          }
          else Some ((0xD8806404, sem0), s))"

definition enabled_process :: "nat \<Rightarrow> 'k sm_state \<Rightarrow> nat option" where
  "enabled_process sd s =
     (case findProcessData s (sd_pid (sessions s sd)) of
        None \<Rightarrow> None
      | Some n \<Rightarrow> if notificationEnabled (processes s n) then Some n else None)"

definition subscriptions :: "ProcessData \<Rightarrow> u32 list" where
  "subscriptions p = take (nbSubscribed p) (subscribedNotifications p)"

definition add_subscription :: "u32 \<Rightarrow> ProcessData \<Rightarrow> ProcessData" where
  "add_subscription notificationId p =
     p\<lparr>subscribedNotifications := (subscribedNotifications p)[nbSubscribed p := notificationId],
       nbSubscribed := nbSubscribed p + 1\<rparr>"

definition remove_subscription :: "nat \<Rightarrow> ProcessData \<Rightarrow> ProcessData" where
  "remove_subscription i p =
     p\<lparr>subscribedNotifications :=
         (subscribedNotifications p)[i := subscribedNotifications p ! (nbSubscribed p - 1)],
       nbSubscribed := nbSubscribed p - 1\<rparr>"

definition Subscribe :: "nat \<Rightarrow> u32 \<Rightarrow> 'k sm_state \<Rightarrow> Result \<times> 'k sm_state" where
  "Subscribe sd notificationId s =
     (case enabled_process sd s of
        None \<Rightarrow> (0xD8806404, s)
      | Some n \<Rightarrow>
          let p = processes s n in
          if list_ex (\<lambda>i. subscribedNotifications p ! i = notificationId) [0..<nbSubscribed p]
          then (0xD9006403, s)
          else if nbSubscribed p < 0x11 then
            (0, upd_process n (add_subscription notificationId) s)
          else (0xD9006405, s))"

text \<open>The index at which the search loop \<open>for (i = 0; i < n && xs[i] != x; i++)\<close> stops.\<close>

fun search_index :: "u32 \<Rightarrow> u32 list \<Rightarrow> nat" where
  "search_index x [] = 0"
| "search_index x (y # ys) = (if y = x then 0 else Suc (search_index x ys))"

definition Unsubscribe :: "nat \<Rightarrow> u32 \<Rightarrow> 'k sm_state \<Rightarrow> Result \<times> 'k sm_state" where
  "Unsubscribe sd notificationId s =
     (case enabled_process sd s of
        None \<Rightarrow> (0xD8806404, s)
      | Some n \<Rightarrow>
          let p = processes s n;
              i = search_index notificationId (subscriptions p)
          in if i = nbSubscribed p then (0xD8806404, s)
             else (0, upd_process n (remove_subscription i) s))"

definition pop_pending :: "ProcessData \<Rightarrow> ProcessData" where
  "pop_pending p =
     p\<lparr>nbPendingNotifications := nbPendingNotifications p - 1,
       receivedNotificationIndex := (receivedNotificationIndex p + 1) mod 16\<rparr>"

text \<open>\<open>id0\<close> is the value the out parameter holds before the call.\<close>

definition ReceiveNotification :: "nat \<Rightarrow> u32 \<Rightarrow> 'k sm_state \<Rightarrow> (Result \<times> u32) \<times> 'k sm_state" where
  "ReceiveNotification sd id0 s =
     (case findProcessData s (sd_pid (sessions s sd)) of
        None \<Rightarrow> ((0xD8806404, id0), s)
      | Some n \<Rightarrow>
          let p = processes s n in
          if \<not> notificationEnabled p \<or> nbPendingNotifications p = 0
          then ((0xD8806404, if nbPendingNotifications p \<noteq> 0 then 0 else id0), s)
          else ((0, pendingNotifications p ! receivedNotificationIndex p),
                upd_process n pop_pending s))"

definition wants :: "ProcessData \<Rightarrow> u32 \<Rightarrow> bool" where
  "wants p notificationId \<longleftrightarrow>
     notificationEnabled p \<and> \<not> isNotificationInhibited p notificationId
     \<and> search_index notificationId (subscriptions p) < nbSubscribed p"

fun publish_subscribers ::
    "'k sm_env \<Rightarrow> u32 \<Rightarrow> u32 \<Rightarrow> nat list \<Rightarrow> 'k sm_state \<Rightarrow> (Result \<times> 'k sm_state) option" where
  "publish_subscribers E notificationId flags [] s = Some (0, s)"
| "publish_subscribers E notificationId flags (n # ns) s =
     (if \<not> wants (processes s n) notificationId
      then publish_subscribers E notificationId flags ns s
      else do {
        (ok, s) \<leftarrow> doPublishNotification E n notificationId flags s;
        if \<not> ok then Some (0xD8606408, s)
        else publish_subscribers E notificationId flags ns s
      })"

definition PublishToSubscriber ::
    "'k sm_env \<Rightarrow> u32 \<Rightarrow> u32 \<Rightarrow> 'k sm_state \<Rightarrow> (Result \<times> 'k sm_state) option" where
  "PublishToSubscriber E notificationId flags s =
     publish_subscribers E notificationId flags (process_lists s ProcessInUse) s"

text \<open>\<open>at\<close> is the word of the command buffer \<open>pidList\<close> points to; the result carries the
  number of pids written when the call succeeds.\<close>

fun publish_and_list ::
    "'k sm_env \<Rightarrow> nat \<Rightarrow> u32 \<Rightarrow> u32 \<Rightarrow> nat \<Rightarrow> nat list \<Rightarrow> 'k sm_state
     \<Rightarrow> ((Result \<times> nat option) \<times> 'k sm_state) option" where
  "publish_and_list E at notificationId flags nb [] s = Some ((0, Some nb), s)"
| "publish_and_list E at notificationId flags nb (n # ns) s =
     (if \<not> wants (processes s n) notificationId
      then publish_and_list E at notificationId flags nb ns s
      else do {
        (ok, s) \<leftarrow> doPublishNotification E n notificationId flags s;
        if \<not> ok then Some ((0xD8606408, None), s)
        else if nb < 60
        then publish_and_list E at notificationId flags (nb + 1) ns
               (s\<lparr>cmdbuf := (cmdbuf s)(at + nb := pd_pid (processes s n))\<rparr>)
        else publish_and_list E at notificationId flags nb ns s
      })"

definition PublishAndGetSubscriber ::
    "'k sm_env \<Rightarrow> u32 \<Rightarrow> nat \<Rightarrow> u32 \<Rightarrow> u32 \<Rightarrow> 'k sm_state
     \<Rightarrow> ((Result \<times> u32) \<times> 'k sm_state) option" where
  "PublishAndGetSubscriber E pidCount0 at notificationId flags s =
     map_option (\<lambda>((res, nb), s). ((res, case nb of None \<Rightarrow> pidCount0 | Some n \<Rightarrow> of_nat n), s))
       (publish_and_list E at notificationId flags 0 (process_lists s ProcessInUse) s)"

definition PublishToProcess ::
    "'k sm_env \<Rightarrow> Handle \<Rightarrow> u32 \<Rightarrow> 'k sm_state \<Rightarrow> (Result \<times> 'k sm_state) option" where
  "PublishToProcess E process notificationId s =
     (case svcGetProcessId E process (kernel s) of
        ((res, pid), k) \<Rightarrow>
          let s = s\<lparr>kernel := k\<rparr> in
          if R_FAILED E res then Some (res, s)
          else do {
            (res, s) \<leftarrow>
              (case findProcessData s pid of
                 None \<Rightarrow> Some (0xD8806404, s)
               | Some n \<Rightarrow>
                   if \<not> notificationEnabled (processes s n) then Some (0xD8806404, s)
                   else do {
                     (ok, s) \<leftarrow> doPublishNotification E n notificationId 0 s;
                     Some (if \<not> ok then 0xD8606408 else 0, s)
                   });
            Some (res, close_handle E process s)
          })"

fun publish_all :: "'k sm_env \<Rightarrow> u32 \<Rightarrow> nat list \<Rightarrow> 'k sm_state \<Rightarrow> (Result \<times> 'k sm_state) option" where
  "publish_all E notificationId [] s = Some (0, s)"
| "publish_all E notificationId (n # ns) s =
     (if \<not> notificationEnabled (processes s n) then publish_all E notificationId ns s
      else do {
        (ok, s) \<leftarrow> doPublishNotification E n notificationId 0 s;
        if \<not> ok then Some (0xD8606408, s) else publish_all E notificationId ns s
      })"

definition PublishToAll :: "'k sm_env \<Rightarrow> u32 \<Rightarrow> 'k sm_state \<Rightarrow> (Result \<times> 'k sm_state) option" where
  "PublishToAll E notificationId s = publish_all E notificationId (process_lists s ProcessInUse) s"

section \<open>Pending notifications are a queue\<close>

text \<open>
  The contract of a bounded first-in first-out buffer, and what follows from it for
  sequences of operations.
\<close>

locale bounded_queue =
  fixes queue_ok :: "'q \<Rightarrow> bool"
    and items :: "'q \<Rightarrow> 'a list"
    and cap :: nat
    and push :: "'a \<Rightarrow> 'q \<Rightarrow> 'q"
    and first :: "'q \<Rightarrow> 'a"
    and pop :: "'q \<Rightarrow> 'q"
  assumes push_ok: "queue_ok q \<Longrightarrow> length (items q) < cap \<Longrightarrow> queue_ok (push x q)"
    and pop_ok: "queue_ok q \<Longrightarrow> items q \<noteq> [] \<Longrightarrow> queue_ok (pop q)"
    and items_push: "queue_ok q \<Longrightarrow> length (items q) < cap \<Longrightarrow> items (push x q) = items q @ [x]"
    and items_first: "queue_ok q \<Longrightarrow> items q \<noteq> [] \<Longrightarrow> first q = hd (items q)"
    and items_pop: "queue_ok q \<Longrightarrow> items q \<noteq> [] \<Longrightarrow> items (pop q) = tl (items q)"
    and items_cap: "queue_ok q \<Longrightarrow> length (items q) \<le> cap"
begin

lemma push_all:
  "queue_ok q \<Longrightarrow> length (items q) + length xs \<le> cap \<Longrightarrow>
     queue_ok (fold push xs q) \<and> items (fold push xs q) = items q @ xs"
  by (induction xs arbitrary: q) (auto simp: push_ok items_push)

lemma drain:
  "queue_ok q \<Longrightarrow> n \<le> length (items q) \<Longrightarrow>
     map (\<lambda>i. first ((pop ^^ i) q)) [0..<n] = take n (items q)
     \<and> queue_ok ((pop ^^ n) q) \<and> items ((pop ^^ n) q) = drop n (items q)"
proof (induction n)
  case (Suc n)
  then have IH: "map (\<lambda>i. first ((pop ^^ i) q)) [0..<n] = take n (items q)"
    "queue_ok ((pop ^^ n) q)" "items ((pop ^^ n) q) = drop n (items q)" and n: "n < length (items q)"
    by auto
  from n IH(3) have ne: "items ((pop ^^ n) q) \<noteq> []" by simp
  show ?case
    using IH n by (auto simp: items_first [OF IH(2) ne] items_pop [OF IH(2) ne] pop_ok [OF IH(2) ne]
        take_Suc_conv_app_nth hd_drop_conv_nth drop_Suc tl_drop)
qed simp

text \<open>What is pushed into an empty buffer comes out in the same order.\<close>

lemma fifo:
  assumes "queue_ok q" and "items q = []" and "length xs \<le> cap"
  shows "map (\<lambda>i. first ((pop ^^ i) (fold push xs q))) [0..<length xs] = xs"
  using push_all [of q xs] drain [of "fold push xs q" "length xs"] assms by simp

end

definition pending :: "ProcessData \<Rightarrow> u32 list" where
  "pending p = map (\<lambda>i. pendingNotifications p ! ((receivedNotificationIndex p + i) mod 16))
                 [0..<nbPendingNotifications p]"

definition ring_ok :: "ProcessData \<Rightarrow> bool" where
  "ring_ok p \<longleftrightarrow> length (pendingNotifications p) = 16 \<and> receivedNotificationIndex p < 16
     \<and> nbPendingNotifications p \<le> 16
     \<and> pendingNotificationIndex p = (receivedNotificationIndex p + nbPendingNotifications p) mod 16"

lemma length_pending [simp]: "length (pending p) = nbPendingNotifications p"
  by (simp add: pending_def)

lemma pending_nil_iff [simp]: "pending p = [] \<longleftrightarrow> nbPendingNotifications p = 0"
  by (simp add: pending_def)

lemma ring_index_distinct:
  fixes r i n :: nat
  assumes "i < n" and "n < 16" shows "(r + i) mod 16 \<noteq> (r + n) mod 16"
proof
  assume "(r + i) mod 16 = (r + n) mod 16"
  then have "16 dvd (r + n) - (r + i)"
    using assms mod_eq_dvd_iff_nat [of "r + i" "r + n" 16] by simp
  with assms show False by (auto dest: dvd_imp_le)
qed

interpretation ring: bounded_queue ring_ok pending 16 push_pending
    "\<lambda>p. pendingNotifications p ! receivedNotificationIndex p" pop_pending
proof
  fix p :: ProcessData and x
  assume ok: "ring_ok p"
  show "length (pending p) \<le> 16" using ok by (simp add: ring_ok_def)
  {
    assume nb: "length (pending p) < 16"
    then show "ring_ok (push_pending x p)"
      using ok by (auto simp: ring_ok_def push_pending_def mod_Suc_eq)
    show "pending (push_pending x p) = pending p @ [x]"
      using ok nb ring_index_distinct [of _ "nbPendingNotifications p" "receivedNotificationIndex p"]
      by (auto simp: ring_ok_def pending_def push_pending_def nth_list_update) metis
  }
  assume "pending p \<noteq> []"
  then obtain n where n: "nbPendingNotifications p = Suc n" by (cases "nbPendingNotifications p") auto
  then show "ring_ok (pop_pending p)"
    using ok by (auto simp: ring_ok_def pop_pending_def mod_Suc_eq mod_simps)
  have cons: "pending p = pendingNotifications p ! receivedNotificationIndex p #
       map (\<lambda>i. pendingNotifications p ! ((receivedNotificationIndex p + Suc i) mod 16)) [0..<n]"
    using ok n by (simp add: pending_def ring_ok_def map_upt_Suc del: upt_Suc)
  show "pendingNotifications p ! receivedNotificationIndex p = hd (pending p)" by (simp add: cons)
  show "pending (pop_pending p) = tl (pending p)"
    by (simp add: cons) (simp add: pending_def pop_pending_def n mod_simps)
qed

lemma already_pending_iff: "already_pending p x \<longleftrightarrow> x \<in> set (pending p)"
  by (auto simp: already_pending_def pending_def list_ex_iff)

section \<open>Subscriptions are a set\<close>

definition subs_ok :: "ProcessData \<Rightarrow> bool" where
  "subs_ok p \<longleftrightarrow> length (subscribedNotifications p) = 17 \<and> nbSubscribed p \<le> 17"

interpretation subs: entry_table subs_ok subscriptions "\<lambda>p. \<not> nbSubscribed p < 0x11"
    add_subscription remove_subscription
proof
  fix p :: ProcessData and e i
  assume ok: "subs_ok p"
  show "\<not> \<not> nbSubscribed p < 0x11 \<Longrightarrow> subs_ok (add_subscription e p)"
    using ok by (simp add: subs_ok_def add_subscription_def)
  show "\<not> \<not> nbSubscribed p < 0x11 \<Longrightarrow> subscriptions (add_subscription e p) = subscriptions p @ [e]"
    using ok by (simp add: subs_ok_def add_subscription_def subscriptions_def take_Suc_conv_app_nth)
  assume i: "i < length (subscriptions p)"
  show "subs_ok (remove_subscription i p)"
    using ok by (auto simp: subs_ok_def remove_subscription_def)
  show "mset (subscriptions (remove_subscription i p)) = mset (subscriptions p) - {#subscriptions p ! i#}"
    using ok i take_update_swap_last [of i "nbSubscribed p" "subscribedNotifications p"]
    by (simp add: subs_ok_def subscriptions_def remove_subscription_def)
qed

lemma length_subscriptions: "subs_ok p \<Longrightarrow> length (subscriptions p) = nbSubscribed p"
  by (simp add: subs_ok_def subscriptions_def)

lemma search_index_le: "search_index x ys \<le> length ys"
  by (induction ys) auto

lemma search_index_less_iff: "search_index x ys < length ys \<longleftrightarrow> x \<in> set ys"
  by (induction ys) auto

lemma search_index_nth: "x \<in> set ys \<Longrightarrow> ys ! search_index x ys = x"
  by (induction ys) auto

lemma wants_iff:
  "subs_ok p \<Longrightarrow> wants p x \<longleftrightarrow> notificationEnabled p \<and> x \<in> set (subscriptions p)"
  using search_index_less_iff [of x "subscriptions p"]
  by (simp add: wants_def isNotificationInhibited_def length_subscriptions)

lemma subscribed_loop_iff:
  "subs_ok p \<Longrightarrow>
     list_ex (\<lambda>i. subscribedNotifications p ! i = x) [0..<nbSubscribed p] \<longleftrightarrow> x \<in> set (subscriptions p)"
  by (auto simp: subs_ok_def subscriptions_def list_ex_iff in_set_conv_nth)

end
