(* ===== verification/Sm_Srv.thy ===== *)
theory Sm_Srv
  imports Sm_Notifications
begin

text \<open>
  The command dispatchers \<open>srvHandleCommands\<close> (\<open>sysmodules/sm/source/srv.c\<close>) and
  \<open>srvPmHandleCommands\<close> (\<open>srv_pm.c\<close>): decoding a request from the thread command buffer,
  calling the operation, and writing the reply into the same buffer.
\<close>

section \<open>Command buffer\<close>

fun set_words :: "nat \<Rightarrow> u32 list \<Rightarrow> (nat \<Rightarrow> u32) \<Rightarrow> (nat \<Rightarrow> u32)" where
  "set_words i [] buf = buf"
| "set_words i (w # ws) buf = set_words (Suc i) ws (buf(i := w))"

definition reply :: "u32 list \<Rightarrow> 'k sm_state \<Rightarrow> 'k sm_state" where
  "reply ws s = s\<lparr>cmdbuf := set_words 0 ws (cmdbuf s)\<rparr>"

definition save_request :: "nat \<Rightarrow> 'k sm_state \<Rightarrow> 'k sm_state" where
  "save_request sd s = upd_session sd (\<lambda>d. d\<lparr>replayCmdbuf := map (cmdbuf s) [0..<4]\<rparr>) s"

definition invalid_command :: "'k sm_env \<Rightarrow> Result \<Rightarrow> 'k sm_state \<Rightarrow> Result \<times> 'k sm_state" where
  "invalid_command E res s = (res, reply [IPC_MakeHeader E 0 1 0, res] s)"

text \<open>A reply of a header and a result word.\<close>

definition finish :: "'k sm_env \<Rightarrow> u32 \<Rightarrow> Result \<times> 'k sm_state \<Rightarrow> Result \<times> 'k sm_state" where
  "finish E cmd = (\<lambda>(res, s). (res, reply [IPC_MakeHeader E cmd 1 0, res] s))"

section \<open>\<open>srv:\<close>\<close>

definition srv_RegisterClient :: "'k sm_env \<Rightarrow> nat \<Rightarrow> 'k sm_state \<Rightarrow> Result \<times> 'k sm_state" where
  "srv_RegisterClient E sd s =
     (if cmdbuf s 0 = IPC_MakeHeader E 1 0 2 \<and> cmdbuf s 1 = IPC_Desc_CurProcessId E
      then (0, reply [IPC_MakeHeader E 1 1 0, 0]
                 (upd_session sd (\<lambda>d. d\<lparr>sd_pid := cmdbuf s 2\<rparr>) s))
      else invalid_command E 0xD9001830 s)"

definition srv_EnableNotification :: "'k sm_env \<Rightarrow> nat \<Rightarrow> 'k sm_state \<Rightarrow> (Result \<times> 'k sm_state) option" where
  "srv_EnableNotification E sd s = do {
     ((res, h), s) \<leftarrow> EnableNotification E sd 0 s;
     Some (res, reply [IPC_MakeHeader E 2 1 2, res, IPC_Desc_SharedHandles E 1, h] s)
   }"

definition srv_RegisterService :: "'k sm_env \<Rightarrow> nat \<Rightarrow> 'k sm_state \<Rightarrow> (Result \<times> 'k sm_state) option" where
  "srv_RegisterService E sd s = do {
     ((res, h), s) \<leftarrow> RegisterService E sd 0 (name_at (cmdbuf s) 1) (cmdbuf s 3) (cmdbuf s 4) s;
     Some (res, reply [IPC_MakeHeader E 3 1 2, res, IPC_Desc_MoveHandles E 1, h] s)
   }"

definition srv_GetServiceHandle :: "'k sm_env \<Rightarrow> nat \<Rightarrow> 'k sm_state \<Rightarrow> Result \<times> 'k sm_state" where
  "srv_GetServiceHandle E sd s =
     (case GetServiceHandle E sd (name_at (cmdbuf s) 1) (cmdbuf s 3) (cmdbuf s 4) s of
        ((res, session), s) \<Rightarrow>
          if would_block E res then (res, save_request sd s)
          else (res, reply [IPC_MakeHeader E 5 1 2, res, IPC_Desc_MoveHandles E 1, session] s))"

definition srv_RegisterPort :: "'k sm_env \<Rightarrow> nat \<Rightarrow> 'k sm_state \<Rightarrow> (Result \<times> 'k sm_state) option" where
  "srv_RegisterPort E sd s =
     (if cmdbuf s 0 = IPC_MakeHeader E 6 3 2 \<and> cmdbuf s 4 = IPC_Desc_SharedHandles E 1
      then map_option (finish E 6)
             (RegisterPort E sd (cmdbuf s 5) (name_at (cmdbuf s) 1) (cmdbuf s 3) s)
      else Some (invalid_command E 0xD9001830 s))"

definition srv_GetPort :: "'k sm_env \<Rightarrow> nat \<Rightarrow> 'k sm_state \<Rightarrow> Result \<times> 'k sm_state" where
  "srv_GetPort E sd s =
     (case GetPort E sd (name_at (cmdbuf s) 1) (cmdbuf s 3) (ucast (cmdbuf s 4)) s of
        (res, port) \<Rightarrow>
          if would_block E res then (res, save_request sd s)
          else (res, reply [IPC_MakeHeader E 8 1 2, res, IPC_Desc_SharedHandles E 1, port] s))"

text \<open>The out variable of \<open>ReceiveNotification\<close>, \<open>PublishAndGetSubscriber\<close> and
  \<open>IsServiceRegistered\<close> is not initialised by the dispatcher: it starts with the
  indeterminate value \<open>uninitialised\<close>.\<close>

definition srv_ReceiveNotification :: "'k sm_env \<Rightarrow> nat \<Rightarrow> 'k sm_state \<Rightarrow> Result \<times> 'k sm_state" where
  "srv_ReceiveNotification E sd s =
     (case ReceiveNotification sd (uninitialised E) s of
        ((res, notificationId), s) \<Rightarrow>
          (res, reply [IPC_MakeHeader E 11 2 0, res, notificationId] s))"

definition srv_PublishAndGetSubscriber :: "'k sm_env \<Rightarrow> 'k sm_state \<Rightarrow> (Result \<times> 'k sm_state) option" where
  "srv_PublishAndGetSubscriber E s = do {
     ((res, pidCount), s) \<leftarrow> PublishAndGetSubscriber E (uninitialised E) 3 (cmdbuf s 1) 0 s;
     Some (res, reply [IPC_MakeHeader E 13 62 0, res, pidCount] s)
   }"

definition srv_IsServiceRegistered :: "'k sm_env \<Rightarrow> nat \<Rightarrow> 'k sm_state \<Rightarrow> Result \<times> 'k sm_state" where
  "srv_IsServiceRegistered E sd s =
     (case IsServiceRegistered E sd (uninitialised E \<noteq> 0) (name_at (cmdbuf s) 1) (cmdbuf s 3) s of
        (res, isRegistered) \<Rightarrow>
          (res, reply [IPC_MakeHeader E 14 2 0, res, if isRegistered then 1 else 0] s))"

definition srvHandleCommands :: "'k sm_env \<Rightarrow> nat \<Rightarrow> 'k sm_state \<Rightarrow> (Result \<times> 'k sm_state) option" where
  "srvHandleCommands E sd s =
     (let cmd = drop_bit 16 (cmdbuf s 0) in
      if cmd = 1 then Some (srv_RegisterClient E sd s)
      else if cmd = 2 then srv_EnableNotification E sd s
      else if cmd = 3 then srv_RegisterService E sd s
      else if cmd = 4 then
        Some (finish E 4 (UnregisterService E sd (name_at (cmdbuf s) 1) (cmdbuf s 3) s))
      else if cmd = 5 then Some (srv_GetServiceHandle E sd s)
      else if cmd = 6 then srv_RegisterPort E sd s
      else if cmd = 7 then
        Some (finish E 7 (UnregisterPort E sd (name_at (cmdbuf s) 1) (cmdbuf s 3) s))
      else if cmd = 8 then Some (srv_GetPort E sd s)
      else if cmd = 9 then Some (finish E 9 (Subscribe sd (cmdbuf s 1) s))
      else if cmd = 10 then Some (finish E 10 (Unsubscribe sd (cmdbuf s 1) s))
      else if cmd = 11 then Some (srv_ReceiveNotification E sd s)
      else if cmd = 12 then
        map_option (finish E 12) (PublishToSubscriber E (cmdbuf s 1) (cmdbuf s 2) s)
      else if cmd = 13 then srv_PublishAndGetSubscriber E s
      else if cmd = 14 then Some (srv_IsServiceRegistered E sd s)
      else Some (invalid_command E 0xD9001830 s))"

section \<open>\<open>srv:pm\<close>\<close>

definition pm_PublishToProcess :: "'k sm_env \<Rightarrow> u32 \<Rightarrow> 'k sm_state \<Rightarrow> (Result \<times> 'k sm_state) option" where
  "pm_PublishToProcess E msk s =
     (if cmdbuf s 0 = IPC_MakeHeader E (msk OR 1) 1 2 \<and> cmdbuf s 2 = IPC_Desc_SharedHandles E 1
      then map_option (finish E (msk OR 1)) (PublishToProcess E (cmdbuf s 3) (cmdbuf s 1) s)
      else Some (invalid_command E 0xD900182F s))"

definition pm_RegisterProcess :: "'k sm_env \<Rightarrow> u32 \<Rightarrow> 'k sm_state \<Rightarrow> (Result \<times> 'k sm_state) option" where
  "pm_RegisterProcess E msk s =
     (if cmdbuf s 0 = IPC_MakeHeader E (msk OR 3) 2 2
         \<and> cmdbuf s 3 AND 0x3C0F = IPC_Desc_StaticBuffer E 0x110 0 AND 0x3C0F
      then map_option (finish E (msk OR 3))
             (RegisterProcess E (cmdbuf s 1) (cmdbuf s 4) (drop_bit 14 (cmdbuf s 3)) s)
      else Some (invalid_command E 0xD900182F s))"

definition srvPmHandleCommands :: "'k sm_env \<Rightarrow> nat \<Rightarrow> 'k sm_state \<Rightarrow> (Result \<times> 'k sm_state) option" where
  "srvPmHandleCommands E sd s =
     (let msk = drop_bit 16 (cmdbuf s 0 AND 0x04000000);
          cmd = drop_bit 16 (cmdbuf s 0) AND NOT msk
      in
      if IS_PRE_7X E \<and> msk = 0 then srvHandleCommands E sd s
      else if \<not> IS_PRE_7X E \<and> msk \<noteq> 0 then Some (invalid_command E 0xD900182F s)
      else if cmd = 1 then pm_PublishToProcess E msk s
      else if cmd = 2 then map_option (finish E (msk OR 2)) (PublishToAll E (cmdbuf s 1) s)
      else if cmd = 3 then pm_RegisterProcess E msk s
      else if cmd = 4 then Some (finish E (msk OR 4) (UnregisterProcess E (cmdbuf s 1) s))
      else Some (invalid_command E 0xD900182F s))"

end
