(* ===== verification/Sm_Main.thy ===== *)
theory Sm_Main
  imports Sm_Srv
begin

text \<open>
  Start-up and event loop of the service manager, \<open>sysmodules/sm/source/main.c\<close>. One
  iteration of the loop of \<open>main\<close> is the function \<open>main_step\<close>; what the kernel reports is
  whatever \<open>svcReplyAndReceive\<close> answers in the current kernel state. Reaching \<open>panic\<close> or
  a failed \<open>assertSuccess\<close> is the value \<open>None\<close>.
\<close>

section \<open>Start-up\<close>

definition initSystem :: "'k sm_env \<Rightarrow> 'k \<Rightarrow> 'k sm_state option" where
  "initSystem E k =
     (case svcGetSystemInfo E k of (out, k) \<Rightarrow>
      case svcCreateSemaphore E 0 64 k of ((res, h), k) \<Rightarrow> do {
        _ \<leftarrow> assertSuccess E res;
        Some \<lparr>sessions = (\<lambda>_. zero_session),
              session_lists = (\<lambda>_. [])(SessionFree := [0..<nb_session_pool]),
              processes = (\<lambda>_. zero_process),
              process_lists = (\<lambda>_. [])(ProcessFree := [0..<nb_process_pool]),
              servicesInfo = replicate max_services zero_service, nbServices = 0,
              nbSection0Modules = out, resumeSemaphore = h, cmdbuf = (\<lambda>_. 0), kernel = k,
              srvPort = 0, srvPmPort = 0, replyTarget = 0, srvPmSessionCreated = False\<rparr>
      })"

text \<open>The string \<open>"srv:pm"\<close> and its terminator, as the eight bytes \<open>strncpy\<close> reads.\<close>

definition srv_pm_name :: "u8 list" where
  "srv_pm_name = [0x73, 0x72, 0x76, 0x3A, 0x70, 0x6D, 0, 0]"

definition main_start :: "'k sm_env \<Rightarrow> 'k sm_state \<Rightarrow> 'k sm_state option" where
  "main_start E s =
     (case svcGetProcessId E (CUR_PROCESS_HANDLE E) (kernel s) of ((res, smPid), k) \<Rightarrow> do {
        _ \<leftarrow> assertSuccess E res;
        (case svcCreatePort E 64 k of ((res, port, dummy), k) \<Rightarrow> do {
           _ \<leftarrow> assertSuccess E res;
           let s = s\<lparr>srvPort := port, kernel := k\<rparr>;
           if IS_PRE_7X E then
             (case svcCreatePort E 64 k of ((res, port, dummy), k) \<Rightarrow> do {
                _ \<leftarrow> assertSuccess E res;
                Some (s\<lparr>srvPmPort := port, kernel := k\<rparr>) })
           else do {
             ((res, port), s) \<leftarrow> doRegisterService E smPid 0 srv_pm_name 6 64 s;
             _ \<leftarrow> assertSuccess E res;
             Some (s\<lparr>srvPmPort := port\<rparr>)
           } }) })"

section \<open>One iteration\<close>

definition wait_handles :: "'k sm_state \<Rightarrow> Handle list" where
  "wait_handles s =
     [resumeSemaphore s, srvPort s, srvPmPort s]
     @ map (\<lambda>n. sd_handle (sessions s n)) (session_lists s SessionInUse)
     @ map (\<lambda>n. busyClientPortHandle (sessions s n)) (session_lists s SessionWaitingPortReady)"

text \<open>The search over the session pool keeps the last match.\<close>

definition pool_session :: "'k sm_state \<Rightarrow> Handle \<Rightarrow> nat option" where
  "pool_session s h =
     fold (\<lambda>i found. if sd_handle (sessions s i) = h then Some i else found)
       [0..<nb_session_pool] None"

definition close_session :: "'k sm_env \<Rightarrow> Handle \<Rightarrow> 'k sm_state \<Rightarrow> 'k sm_state option" where
  "close_session E h s =
     (case pool_session s h of
        None \<Rightarrow> None
      | Some n \<Rightarrow>
          Some (move_session n SessionFree False (close_handle E (sd_handle (sessions s n)) s)))"

text \<open>A client port was closed: every session that waited for a free slot on it waits for
  the service to be registered again. The code stores an error code in word 1 of the
  saved request.\<close>

definition requeue_session :: "nat \<Rightarrow> 'k sm_state \<Rightarrow> 'k sm_state" where
  "requeue_session n s =
     upd_session n (\<lambda>d. d\<lparr>busyClientPortHandle := 0\<rparr>)
       (move_session n SessionWaitingRegister True
         (upd_session n (\<lambda>d. d\<lparr>replayCmdbuf := (replayCmdbuf d)[1 := 0xD0406401]\<rparr>) s))"

fun close_port :: "Handle \<Rightarrow> nat list \<Rightarrow> 'k sm_state \<Rightarrow> 'k sm_state" where
  "close_port h [] s = s"
| "close_port h (n # ns) s =
     close_port h ns
       (if busyClientPortHandle (sessions s n) = h then requeue_session n s else s)"

text \<open>A negative index means the reply target is gone: it is looked up in the handle array,
  and not finding it is a panic. An index past the array (the kernel reports none) is
  treated as a trap too.\<close>

definition on_unreachable :: "'k sm_env \<Rightarrow> Handle list \<Rightarrow> int \<Rightarrow> 'k sm_state \<Rightarrow> 'k sm_state option" where
  "on_unreachable E hs idx s = do {
     let i = (if idx < 0 then search_index (replyTarget s) hs else nat idx);
     _ \<leftarrow> (if i \<ge> length hs then None else Some ());
     if i < 3 then None
     else if i < 3 + length (session_lists s SessionInUse)
     then do {
       s \<leftarrow> close_session E (hs ! i) s;
       Some (s\<lparr>replyTarget := 0\<rparr>)
     }
     else Some ((close_port (hs ! i) (session_lists s SessionWaitingPortReady) s)\<lparr>replyTarget := 0\<rparr>)
   }"

definition accept_session :: "'k sm_env \<Rightarrow> Handle \<Rightarrow> bool \<Rightarrow> 'k sm_state \<Rightarrow> 'k sm_state option" where
  "accept_session E port pm s =
     (case svcAcceptSession E port (kernel s) of ((res, session), k) \<Rightarrow> do {
        _ \<leftarrow> assertSuccess E res;
        (n, s) \<leftarrow> alloc_session (s\<lparr>kernel := k\<rparr>);
        Some (upd_session n (\<lambda>d. d\<lparr>sd_pid := -1, sd_handle := session,
                                    isSrvPm := isSrvPm d \<or> pm\<rparr>) s)
      })"

definition restore_request :: "nat \<Rightarrow> 'k sm_state \<Rightarrow> 'k sm_state" where
  "restore_request n s =
     s\<lparr>cmdbuf := set_words 0 (replayCmdbuf (sessions s n)) (cmdbuf s)\<rparr>"

text \<open>Selecting the session a wake-up is for: \<open>None\<close> is a trap, \<open>Some None\<close> the \<open>continue\<close>.\<close>

definition select_session ::
    "Handle list \<Rightarrow> nat \<Rightarrow> 'k sm_state \<Rightarrow> (nat \<times> 'k sm_state) option option" where
  "select_session hs i s =
     (if i = 0 then
        (case session_lists s SessionToWakeUp of
           [] \<Rightarrow> None
         | n # _ \<Rightarrow> Some (Some (n, restore_request n (move_session n SessionInUse False s))))
      else if i \<ge> 3 + length (session_lists s SessionInUse) then
        (case List.find (\<lambda>n. busyClientPortHandle (sessions s n) = hs ! i)
                (session_lists s SessionWaitingPortReady) of
           None \<Rightarrow> Some None
         | Some n \<Rightarrow>
             Some (Some (n, upd_session n (\<lambda>d. d\<lparr>busyClientPortHandle := 0\<rparr>)
                              (restore_request n (move_session n SessionInUse False s)))))
      else
        (case List.find (\<lambda>n. sd_handle (sessions s n) = hs ! i) (session_lists s SessionInUse) of
           None \<Rightarrow> None
         | Some n \<Rightarrow> Some (Some (n, s))))"

definition dispatch :: "'k sm_env \<Rightarrow> nat \<Rightarrow> 'k sm_state \<Rightarrow> 'k sm_state option" where
  "dispatch E n s = do {
     (res, s) \<leftarrow> (if isSrvPm (sessions s n) then srvPmHandleCommands E n s
                  else srvHandleCommands E n s);
     if would_block E res then
       (if res = 0xD0406401 then Some (move_session n SessionWaitingRegister True s)
        else if res = 0xD0406402 then Some (move_session n SessionWaitingPortReady True s)
        else None)
     else Some (s\<lparr>replyTarget := sd_handle (sessions s n)\<rparr>)
   }"

definition on_success :: "'k sm_env \<Rightarrow> Handle list \<Rightarrow> int \<Rightarrow> 'k sm_state \<Rightarrow> 'k sm_state option" where
  "on_success E hs idx s =
     (if idx = 1 then accept_session E (srvPort s) False s
      else if idx = 2 then
        (if \<not> IS_PRE_7X E \<and> srvPmSessionCreated s then None
         else accept_session E (srvPmPort s) True s)
      else if idx < 0 \<or> idx \<ge> int (length hs) then None
      else do {
        sel \<leftarrow> select_session hs (nat idx) s;
        (case sel of None \<Rightarrow> Some s | Some (n, s) \<Rightarrow> dispatch E n s)
      })"

definition main_step :: "'k sm_env \<Rightarrow> 'k sm_state \<Rightarrow> 'k sm_state option" where
  "main_step E s =
     (let s = (if replyTarget s = 0 then s\<lparr>cmdbuf := (cmdbuf s)(0 := 0xFFFF0000)\<rparr> else s);
          hs = wait_handles s
      in case svcReplyAndReceive E hs (replyTarget s) (cmdbuf s) (kernel s) of
           ((res, idx, buf), k) \<Rightarrow>
             let s = s\<lparr>cmdbuf := buf, kernel := k\<rparr> in
             if res = 0xC920181A then on_unreachable E hs idx s
             else if R_FAILED E res then None
             else on_success E hs idx (s\<lparr>replyTarget := 0\<rparr>))"

text \<open>The states the loop goes through when the kernel starts the module in state \<open>k0\<close>.\<close>

inductive sm_reachable :: "'k sm_env \<Rightarrow> 'k \<Rightarrow> 'k sm_state \<Rightarrow> bool" for E k0 where
  start: "initSystem E k0 = Some s0 \<Longrightarrow> main_start E s0 = Some s \<Longrightarrow> sm_reachable E k0 s"
| step: "sm_reachable E k0 s \<Longrightarrow> main_step E s = Some s' \<Longrightarrow> sm_reachable E k0 s'"

inductive_cases sm_reachableE: "sm_reachable E k0 s"

text \<open>The first \<open>n\<close> iterations as a function.\<close>

fun sm_run :: "'k sm_env \<Rightarrow> 'k \<Rightarrow> nat \<Rightarrow> 'k sm_state option" where
  "sm_run E k0 0 = do { s0 \<leftarrow> initSystem E k0; main_start E s0 }"
| "sm_run E k0 (Suc n) = do { s \<leftarrow> sm_run E k0 n; main_step E s }"

lemma sm_reachable_run: "sm_reachable E k0 s \<longleftrightarrow> (\<exists>n. sm_run E k0 n = Some s)"
proof
  assume "sm_reachable E k0 s"
  then show "\<exists>n. sm_run E k0 n = Some s"
  proof induction
    case (start s0 s)
    then have "sm_run E k0 0 = Some s" by simp
    then show ?case ..
  next
    case (step s s')
    then obtain n where "sm_run E k0 n = Some s" by blast
    with step have "sm_run E k0 (Suc n) = Some s'" by simp
    then show ?case ..
  qed
next
  assume "\<exists>n. sm_run E k0 n = Some s"
  then obtain n where "sm_run E k0 n = Some s" by blast
  then show "sm_reachable E k0 s"
    by (induction n arbitrary: s) (auto split: bind_splits intro: sm_reachable.intros)
qed

end
