(* ===== verification/Sm_Invariant.thy ===== *)
theory Sm_Invariant
  imports Sm_Main
begin

text \<open>
  The invariant of the service manager and its preservation by every operation, every
  command and every iteration of the event loop.
\<close>

section \<open>Pools and lists\<close>

definition pool_ok :: "nat \<Rightarrow> ('l \<Rightarrow> nat list) \<Rightarrow> bool" where
  "pool_ok N L \<longleftrightarrow> lists_ok L \<and> (\<Union>l. set (L l)) = {..<N}"

lemma pool_ok_member: "pool_ok N L \<Longrightarrow> n \<in> set (L l) \<Longrightarrow> n < N"
  unfolding pool_ok_def by blast

lemma pool_ok_find: "pool_ok N L \<Longrightarrow> n < N \<Longrightarrow> \<exists>l. n \<in> set (L l)"
  unfolding pool_ok_def by blast

lemma pool_ok_move: "pool_ok N L \<Longrightarrow> n < N \<Longrightarrow> pool_ok N (move_list n dst back L)"
proof -
  assume ok: "pool_ok N L" and "n < N"
  then obtain l where l: "n \<in> set (L l)" using pool_ok_find by blast
  from ok show ?thesis
    unfolding pool_ok_def using abs_lists.move_members [where h = L, OF _ l] abs_lists.move_ok [where h = L, OF _ l] by auto
qed

lemma pool_ok_lists: "pool_ok N L \<Longrightarrow> lists_ok L"
  by (simp add: pool_ok_def)

lemma pool_ok_length: "pool_ok N L \<Longrightarrow> length (L l) \<le> N"
  unfolding pool_ok_def lists_ok_def by (intro distinct_below_length) blast+

lemma pool_ok_length2:
  assumes "pool_ok N L" and "l \<noteq> l'" shows "length (L l) + length (L l') \<le> N"
proof -
  have "distinct (L l @ L l')" using assms unfolding pool_ok_def lists_ok_def by auto
  moreover have "set (L l @ L l') \<subseteq> {..<N}" using assms unfolding pool_ok_def by auto
  ultimately have "length (L l @ L l') \<le> N" by (rule distinct_below_length)
  then show ?thesis by simp
qed

section \<open>Waking waiting sessions\<close>

lemma wake_loop_spec:
  assumes "lists_ok L" and "distinct xs" and "set xs \<subseteq> set (L SessionWaitingRegister)"
  shows "lists_ok (fst (wake_loop P xs L n))
     \<and> fst (wake_loop P xs L n) SessionToWakeUp = L SessionToWakeUp @ filter P xs
     \<and> fst (wake_loop P xs L n) SessionWaitingRegister
         = filter (\<lambda>x. x \<notin> set (filter P xs)) (L SessionWaitingRegister)
     \<and> (\<forall>l. l \<noteq> SessionToWakeUp \<longrightarrow> l \<noteq> SessionWaitingRegister \<longrightarrow> fst (wake_loop P xs L n) l = L l)
     \<and> snd (wake_loop P xs L n) = n + length (filter P xs)"
  using assms
proof (induction xs arbitrary: L n)
  case (Cons x xs)
  show ?case
  proof (cases "P x")
    case True
    let ?L = "move_list x SessionToWakeUp True L"
    have x: "x \<in> set (L SessionWaitingRegister)" using Cons.prems by simp
    have L': "lists_ok ?L" using Cons.prems(1) x by (rule abs_lists.move_ok)
    have d: "distinct (L SessionWaitingRegister)" using Cons.prems(1) by (simp add: lists_ok_def)
    have to: "?L SessionToWakeUp = L SessionToWakeUp @ [x]"
      using Cons.prems(1) x by (intro abs_lists.move_back) auto
    have x': "x \<notin> set (L SessionToWakeUp)"
      using Cons.prems(1) x abs_lists.ok_disjoint by fastforce
    then have wr: "?L SessionWaitingRegister = filter (\<lambda>y. y \<noteq> x) (L SessionWaitingRegister)"
      using d by (simp add: move_list_def distinct_remove1_removeAll removeAll_filter_not_eq)
        (metis)
    have other: "\<forall>l. l \<noteq> SessionToWakeUp \<longrightarrow> l \<noteq> SessionWaitingRegister \<longrightarrow> ?L l = L l"
      using Cons.prems(1) x by (auto intro: abs_lists.move_other)
    have sub: "set xs \<subseteq> set (?L SessionWaitingRegister)" using Cons.prems wr by auto
    show ?thesis
      using Cons.IH [OF L' _ sub, of "Suc n"] Cons.prems(2) True to wr other
      by (auto intro!: filter_cong)
  next
    case False
    with Cons show ?thesis by auto
  qed
qed simp

lemma wake_waiting_cases:
  assumes "wake_waiting E named name s = Some s'"
    and "wake_loop (\<lambda>x. waits_for named name (sessions s x)) (session_lists s SessionWaitingRegister)
           (session_lists s) 0 = (L, n)"
  obtains k where "s' = s\<lparr>session_lists := L, kernel := k\<rparr>"
    and "0 < n \<Longrightarrow> svcReleaseSemaphore E (resumeSemaphore s) n (kernel s)
           = (fst (svcReleaseSemaphore E (resumeSemaphore s) n (kernel s)), k)
         \<and> \<not> R_FAILED E (fst (svcReleaseSemaphore E (resumeSemaphore s) n (kernel s)))"
    and "n = 0 \<Longrightarrow> k = kernel s"
proof (cases "0 < n")
  case True
  obtain res k where "svcReleaseSemaphore E (resumeSemaphore s) n (kernel s) = (res, k)"
    by (meson surj_pair)
  with assms True that [of k] show ?thesis
    by (auto simp: wake_waiting_def Let_def split: bind_splits)
next
  case False
  with assms show ?thesis
    by (intro that [of "kernel s"]) (auto simp: wake_waiting_def Let_def)
qed

lemma wake_waiting_spec:
  assumes "pool_ok N (session_lists s)" and "wake_waiting E named name s = Some s'"
  shows "s' = s\<lparr>session_lists := session_lists s', kernel := kernel s'\<rparr>"
    and "session_lists s' SessionToWakeUp = session_lists s SessionToWakeUp
           @ filter (\<lambda>x. waits_for named name (sessions s x)) (session_lists s SessionWaitingRegister)"
    and "session_lists s' SessionWaitingRegister
           = filter (\<lambda>x. \<not> waits_for named name (sessions s x)) (session_lists s SessionWaitingRegister)"
    and "l \<noteq> SessionToWakeUp \<Longrightarrow> l \<noteq> SessionWaitingRegister \<Longrightarrow> session_lists s' l = session_lists s l"
    and "semaphore_law E (resumeSemaphore s) sem \<Longrightarrow> sem (kernel s')
           = sem (kernel s) + length (filter (\<lambda>x. waits_for named name (sessions s x))
                                        (session_lists s SessionWaitingRegister))"
proof -
  let ?P = "\<lambda>x. waits_for named name (sessions s x)"
  let ?xs = "session_lists s SessionWaitingRegister"
  let ?r = "wake_loop ?P ?xs (session_lists s) 0"
  have lk: "lists_ok (session_lists s)" using assms(1) by (rule pool_ok_lists)
  have spec: "fst ?r SessionToWakeUp = session_lists s SessionToWakeUp @ filter ?P ?xs"
    "fst ?r SessionWaitingRegister = filter (\<lambda>x. x \<notin> set (filter ?P ?xs)) ?xs"
    "\<And>l. l \<noteq> SessionToWakeUp \<Longrightarrow> l \<noteq> SessionWaitingRegister \<Longrightarrow> fst ?r l = session_lists s l"
    "snd ?r = length (filter ?P ?xs)"
    using wake_loop_spec [OF lk, of ?xs ?P 0] lk by (auto simp: lists_ok_def)
  obtain k where s': "s' = s\<lparr>session_lists := fst ?r, kernel := k\<rparr>"
    and k: "0 < snd ?r \<Longrightarrow> svcReleaseSemaphore E (resumeSemaphore s) (snd ?r) (kernel s)
           = (fst (svcReleaseSemaphore E (resumeSemaphore s) (snd ?r) (kernel s)), k)
         \<and> \<not> R_FAILED E (fst (svcReleaseSemaphore E (resumeSemaphore s) (snd ?r) (kernel s)))"
      "snd ?r = 0 \<Longrightarrow> k = kernel s"
    by (rule wake_waiting_cases [OF assms(2), of "fst ?r" "snd ?r"]) auto
  then have L': "session_lists s' = fst ?r" and K: "kernel s' = k" by simp_all
  show "s' = s\<lparr>session_lists := session_lists s', kernel := kernel s'\<rparr>" using s' by simp
  show "session_lists s' SessionToWakeUp = session_lists s SessionToWakeUp @ filter ?P ?xs"
    by (simp add: L' spec)
  show "session_lists s' SessionWaitingRegister = filter (\<lambda>x. \<not> ?P x) ?xs"
    by (auto simp: L' spec intro!: filter_cong)
  show "l \<noteq> SessionToWakeUp \<Longrightarrow> l \<noteq> SessionWaitingRegister \<Longrightarrow> session_lists s' l = session_lists s l"
    by (simp add: L' spec)
  assume law: "semaphore_law E (resumeSemaphore s) sem"
  show "sem (kernel s') = sem (kernel s) + length (filter ?P ?xs)"
  proof (cases "snd ?r > 0")
    case True
    have "sem k = sem (kernel s) + snd ?r"
      using semaphore_release [OF law conjunct1 [OF k(1)] conjunct2 [OF k(1)], OF True True]
      by simp
    with K spec(4) show ?thesis by simp
  next
    case False
    with k(2) K spec(4) show ?thesis by simp
  qed
qed


section \<open>The invariant\<close>

definition process_entry_ok :: "Handle \<Rightarrow> ProcessData \<Rightarrow> bool" where
  "process_entry_ok R p \<longleftrightarrow> ring_ok p \<and> subs_ok p \<and> distinct (subscriptions p)
     \<and> notificationSemaphore p \<noteq> R"

definition process_table_ok :: "'k sm_state \<Rightarrow> bool" where
  "process_table_ok s \<longleftrightarrow> pool_ok nb_process_pool (process_lists s)
     \<and> (\<forall>n \<in> set (process_lists s ProcessInUse). process_entry_ok (resumeSemaphore s) (processes s n))
     \<and> distinct (map (\<lambda>n. pd_pid (processes s n)) (process_lists s ProcessInUse))"

definition session_table_ok :: "'k sm_state \<Rightarrow> bool" where
  "session_table_ok s \<longleftrightarrow> pool_ok nb_session_pool (session_lists s)
     \<and> (\<forall>n. length (replayCmdbuf (sessions s n)) = 4)"

definition sm_inv :: "('k \<Rightarrow> nat) \<Rightarrow> 'k sm_state \<Rightarrow> bool" where
  "sm_inv sem s \<longleftrightarrow> session_table_ok s \<and> process_table_ok s \<and> service_table_ok s
     \<and> sem (kernel s) = length (session_lists s SessionToWakeUp)"

lemmas inv_defs = sm_inv_def session_table_ok_def process_table_ok_def service_table_ok_def

subsection \<open>Updates that keep it\<close>

lemma inv_kernel: "sm_inv sem s \<Longrightarrow> sem k = sem (kernel s) \<Longrightarrow> sm_inv sem (s\<lparr>kernel := k\<rparr>)"
  by (simp add: inv_defs)

lemma inv_close: "semaphore_law E R sem \<Longrightarrow> sm_inv sem s \<Longrightarrow> sm_inv sem (close_handle E h s)"
  by (simp add: close_handle_def inv_kernel semaphore_frame)

lemma inv_other [simp]:
  "sm_inv sem (s\<lparr>cmdbuf := b\<rparr>) = sm_inv sem s"
  "sm_inv sem (s\<lparr>srvPort := h\<rparr>) = sm_inv sem s"
  "sm_inv sem (s\<lparr>srvPmPort := h\<rparr>) = sm_inv sem s"
  "sm_inv sem (s\<lparr>replyTarget := h\<rparr>) = sm_inv sem s"
  by (simp_all add: inv_defs)

lemma inv_reply [simp]: "sm_inv sem (reply ws s) = sm_inv sem s"
  by (simp add: reply_def)

lemma inv_upd_session:
  "sm_inv sem s \<Longrightarrow> length (replayCmdbuf (f (sessions s n))) = 4 \<Longrightarrow> sm_inv sem (upd_session n f s)"
  by (simp add: inv_defs upd_session_def)

lemma inv_session_length: "sm_inv sem s \<Longrightarrow> length (replayCmdbuf (sessions s n)) = 4"
  by (simp add: inv_defs)

lemma inv_lists_ok: "sm_inv sem s \<Longrightarrow> lists_ok (session_lists s)"
  by (auto simp: inv_defs intro: pool_ok_lists)

lemma inv_move_session:
  assumes "sm_inv sem s" and n: "n \<in> set (session_lists s l)"
    and "l \<noteq> SessionToWakeUp" and "dst \<noteq> SessionToWakeUp"
  shows "sm_inv sem (move_session n dst back s)"
proof -
  have p: "pool_ok nb_session_pool (session_lists s)" using assms(1) by (simp add: inv_defs)
  have "move_list n dst back (session_lists s) SessionToWakeUp = session_lists s SessionToWakeUp"
    using pool_ok_lists [OF p] n assms(3,4) by (intro abs_lists.move_other) auto
  with assms(1) p show ?thesis
    using pool_ok_move [OF p pool_ok_member [OF p n]] by (simp add: inv_defs move_session_def)
qed

lemma inv_upd_process:
  assumes "sm_inv sem s"
    and "\<And>p. process_entry_ok (resumeSemaphore s) p \<Longrightarrow> p = processes s n \<Longrightarrow>
           process_entry_ok (resumeSemaphore s) (f p)"
    and "pd_pid (f (processes s n)) = pd_pid (processes s n)"
  shows "sm_inv sem (upd_process n f s)"
proof -
  have "pd_pid (((processes s)(n := f (processes s n))) m) = pd_pid (processes s m)" for m
    using assms(3) by simp
  with assms(1,2) show ?thesis by (auto simp: inv_defs upd_process_def fun_upd_def)
qed

lemma inv_add_service:
  assumes "sm_inv sem s" and "nbServices s < max_services"
  shows "sm_inv sem (add_service e s)"
  using assms services.add_ok [of s e]
  by (simp add: inv_defs add_service_def)

lemma inv_remove_service:
  "sm_inv sem s \<Longrightarrow> i < nbServices s \<Longrightarrow> sm_inv sem (remove_service i s)"
  by (auto simp: inv_defs remove_service_def)

lemma inv_wake_waiting:
  assumes law: "semaphore_law E (resumeSemaphore s) sem"
    and inv: "sm_inv sem s" and w: "wake_waiting E named name s = Some s'"
  shows "sm_inv sem s'"
proof -
  have p: "pool_ok nb_session_pool (session_lists s)" using inv by (simp add: inv_defs)
  note W = wake_waiting_spec [OF p w]
  have mem: "x \<in> set (session_lists s' l) \<longleftrightarrow>
      (if x \<in> set (session_lists s SessionWaitingRegister) \<and> waits_for named name (sessions s x)
       then l = SessionToWakeUp else x \<in> set (session_lists s l))" for x l
    using abs_lists.ok_disjoint [OF pool_ok_lists [OF p], of x SessionWaitingRegister]
    by (cases l) (auto simp: W(2,3) W(4))
  have "distinct (session_lists s' l)" for l
    using pool_ok_lists [OF p] unfolding lists_ok_def
    by (cases l) (auto simp: W(2,3) W(4) disjoint_iff)
  moreover have "set (session_lists s' l) \<inter> set (session_lists s' l') = {}" if "l \<noteq> l'" for l l'
    using that by (auto simp: disjoint_iff mem split: if_splits
        dest: abs_lists.ok_disjoint [OF pool_ok_lists [OF p]])
  moreover have "(\<exists>l. x \<in> set (session_lists s' l)) = (\<exists>l. x \<in> set (session_lists s l))" for x
    unfolding mem by (cases "x \<in> set (session_lists s SessionWaitingRegister) \<and> waits_for named name (sessions s x)") auto
  then have "(\<Union>l. set (session_lists s' l)) = (\<Union>l. set (session_lists s l))"
    by auto
  ultimately have "pool_ok nb_session_pool (session_lists s')"
    using p by (simp add: pool_ok_def lists_ok_def)
  moreover have "sem (kernel s') = length (session_lists s' SessionToWakeUp)"
    using W(5) [OF law] W(2) inv by (simp add: inv_defs)
  ultimately show ?thesis
    using inv by (subst W(1)) (simp add: inv_defs)
qed

section \<open>Every operation keeps it\<close>

lemma inv_semaphore: "sm_inv sem s \<Longrightarrow> semaphore_law E (resumeSemaphore s) sem \<Longrightarrow>
    semaphore_law E (resumeSemaphore (s\<lparr>kernel := k\<rparr>)) sem"
  by simp

text \<open>The handle of the module's own semaphore and the list of sessions being served are
  left alone.\<close>

lemma resume_frame [simp]:
  "resumeSemaphore (upd_session n f s) = resumeSemaphore s"
  "resumeSemaphore (upd_process n g s) = resumeSemaphore s"
  "resumeSemaphore (move_session n dst back s) = resumeSemaphore s"
  "resumeSemaphore (move_process n pdst back s) = resumeSemaphore s"
  "resumeSemaphore (add_service e s) = resumeSemaphore s"
  "resumeSemaphore (remove_service i s) = resumeSemaphore s"
  "resumeSemaphore (close_handle E h s) = resumeSemaphore s"
  "resumeSemaphore (reply ws s) = resumeSemaphore s"
  by (simp_all add: upd_session_def upd_process_def move_session_def move_process_def
      add_service_def remove_service_def close_handle_def reply_def)

lemma in_use_frame [simp]:
  "session_lists (upd_session n f s) = session_lists s"
  "session_lists (upd_process n g s) = session_lists s"
  "session_lists (move_process n pdst back s) = session_lists s"
  "session_lists (add_service e s) = session_lists s"
  "session_lists (remove_service i s) = session_lists s"
  "session_lists (close_handle E h s) = session_lists s"
  "session_lists (reply ws s) = session_lists s"
  by (simp_all add: upd_session_def upd_process_def move_process_def
      add_service_def remove_service_def close_handle_def reply_def)

lemma wake_waiting_frame:
  assumes "wake_waiting E named name s = Some s'"
  shows "\<exists>L k. s' = s\<lparr>session_lists := L, kernel := k\<rparr>"
  by (rule wake_waiting_cases [OF assms surjective_pairing]) blast

text \<open>The three ways a registration ends: refused, refused by the kernel, entered.\<close>

lemma doRegister_cases:
  assumes "doRegisterServiceOrPort E pid sp cp name nsize maxs named s = Some ((res, h), s')"
  obtains (refused) "s' = s" "R_FAILED E res \<or> res = 0xD9001BFC \<or> res = 0xD86067F3"
  | (no_port) p k where "svcCreatePort E maxs (kernel s) = (p, k)" "s' = s\<lparr>kernel := k\<rparr>"
      "res = 0xD9001BFC"
  | (entered) p k port where "nbServices s < max_services"
      "if named then k = kernel s \<and> port = cp
       else svcCreatePort E maxs (kernel s) = (p, k) \<and> port = snd (snd p) \<and> \<not> R_FAILED E (fst p)"
      "wake_waiting E named name
         (add_service \<lparr>si_name = strncpy8 name, clientPort = port, si_pid = pid, isNamedPort = named\<rparr>
            (s\<lparr>kernel := k\<rparr>)) = Some s'"
      "findServicePortByName s named name nsize = None" "\<not> R_FAILED E (checkServiceName name nsize)"
      "h = (if named then sp else fst (snd p))"
proof (cases "R_FAILED E (checkServiceName name nsize)
     \<or> findServicePortByName s named name nsize \<noteq> None \<or> nbServices s \<ge> max_services")
  case True
  with assms have "s' = s" "R_FAILED E res \<or> res = 0xD9001BFC \<or> res = 0xD86067F3"
    by (auto simp: doRegisterServiceOrPort_def Let_def split: if_splits)
  then show ?thesis by (rule refused)
next
  case False
  show ?thesis
  proof (cases named)
    case True
    with assms False show ?thesis
      by (intro entered [where k = "kernel s" and port = cp])
        (auto simp: doRegisterServiceOrPort_def Let_def split: bind_splits)
  next
    case named: False
    obtain r ps pc k where port: "svcCreatePort E maxs (kernel s) = ((r, ps, pc), k)"
      by (metis surj_pair)
    show ?thesis
    proof (cases "R_FAILED E r")
      case True
      with assms False named port have "s' = s\<lparr>kernel := k\<rparr>" "res = 0xD9001BFC"
        by (auto simp: doRegisterServiceOrPort_def Let_def)
      with port show ?thesis by (rule no_port)
    next
      case ok: False
      with assms False named port show ?thesis
        by (intro entered [where k = k and port = pc and p = "(r, ps, pc)"])
          (auto simp: doRegisterServiceOrPort_def Let_def split: bind_splits)
    qed
  qed
qed

lemma inv_doRegisterServiceOrPort:
  assumes law: "semaphore_law E (resumeSemaphore s) sem" and inv: "sm_inv sem s"
    and r: "doRegisterServiceOrPort E pid sp cp name nsize maxs named s = Some ((res, h), s')"
  shows "sm_inv sem s' \<and> resumeSemaphore s' = resumeSemaphore s
     \<and> session_lists s' SessionInUse = session_lists s SessionInUse"
  using r
proof (cases rule: doRegister_cases)
  case refused
  with inv show ?thesis by simp
next
  case (no_port p k)
  with inv semaphore_frame(2) [OF law] show ?thesis by (simp add: inv_kernel)
next
  case (entered p k port)
  have "sem k = sem (kernel s)"
    using entered(2) semaphore_frame(2) [OF law, of maxs "kernel s" p k]
    by (auto split: if_splits)
  then have "sm_inv sem (add_service \<lparr>si_name = strncpy8 name, clientPort = port, si_pid = pid,
      isNamedPort = named\<rparr> (s\<lparr>kernel := k\<rparr>))"
    using inv entered(1) by (intro inv_add_service inv_kernel) auto
  then have "sm_inv sem s'" using inv_wake_waiting [OF _ _ entered(3)] law by simp
  moreover have "resumeSemaphore s' = resumeSemaphore s
     \<and> session_lists s' SessionInUse = session_lists s SessionInUse"
    using wake_waiting_frame [OF entered(3)] wake_waiting_spec(4) [OF _ entered(3), of nb_session_pool SessionInUse] inv
    by (auto simp: add_service_def inv_defs)
  ultimately show ?thesis ..
qed

lemma inv_UnregisterServiceOrPort:
  assumes law: "semaphore_law E (resumeSemaphore s) sem" and inv: "sm_inv sem s"
  shows "sm_inv sem (snd (UnregisterServiceOrPort E sd name nsize named s))
     \<and> resumeSemaphore (snd (UnregisterServiceOrPort E sd name nsize named s)) = resumeSemaphore s
     \<and> session_lists (snd (UnregisterServiceOrPort E sd name nsize named s)) SessionInUse = session_lists s SessionInUse"
proof -
  have "sm_inv sem (remove_service i (close_handle E h s))"
    if "findServicePortByName s named name nsize = Some i" for i h
  proof -
    have "i < length (take (nbServices s) (servicesInfo s))"
      using that find_from_Some unfolding findServicePortByName_def by blast
    then have "i < nbServices (close_handle E h s)" by (simp add: close_handle_def)
    then show ?thesis using inv_close [OF law inv] by (intro inv_remove_service)
  qed
  with inv show ?thesis
    by (simp add: UnregisterServiceOrPort_def Let_def split: option.split)
qed

lemma inv_GetServiceHandle:
  assumes law: "semaphore_law E (resumeSemaphore s) sem" and inv: "sm_inv sem s"
    and g: "GetServiceHandle E sd name nsize flags s = ((res, h), s')"
  shows "sm_inv sem s' \<and> resumeSemaphore s' = resumeSemaphore s
     \<and> session_lists s' SessionInUse = session_lists s SessionInUse"
proof -
  have "sm_inv sem (s\<lparr>kernel := k\<rparr>)" if "svcCreateSessionToPort E p (kernel s) = (q, k)" for p q k
    using semaphore_frame(3) [OF law that] inv by (simp add: inv_kernel)
  with g inv show ?thesis
    by (auto simp: GetServiceHandle_def Let_def inv_upd_session inv_session_length
        split: if_splits option.splits prod.splits)
qed

subsection \<open>Processes\<close>

lemma findProcessData_Some:
  "findProcessData s pid = Some n \<Longrightarrow>
     n \<in> set (process_lists s ProcessInUse) \<and> pd_pid (processes s n) = pid"
  by (auto simp: findProcessData_def find_Some_iff)

lemma findProcessData_None:
  "findProcessData s pid = None \<longleftrightarrow>
     pid \<notin> set (map (\<lambda>n. pd_pid (processes s n)) (process_lists s ProcessInUse))"
  by (auto simp: findProcessData_def find_None_iff)

lemma zero_process_ok: "h \<noteq> R \<Longrightarrow> process_entry_ok R (zero_process\<lparr>notificationSemaphore := h, pd_pid := pid\<rparr>)"
  by (simp add: process_entry_ok_def zero_process_def ring_ok_def subs_ok_def subscriptions_def)

lemma inv_doRegisterProcess:
  assumes law: "semaphore_law E (resumeSemaphore s) sem" and inv: "sm_inv sem s"
    and new: "findProcessData s pid = None"
    and r: "doRegisterProcess E pid a b s = Some (n, s')"
  shows "sm_inv sem s'" and "resumeSemaphore s' = resumeSemaphore s
     \<and> session_lists s' SessionInUse = session_lists s SessionInUse"
    and "n \<in> set (process_lists s' ProcessInUse)" and "pd_pid (processes s' n) = pid"
    and "sessions s' = sessions s"
proof -
  obtain rest where free: "process_lists s ProcessFree = n # rest"
    using r by (auto simp: doRegisterProcess_def alloc_process_def alloc_list_def split: bind_splits list.splits prod.splits)
  obtain res h k where c: "svcCreateSemaphore E 0 0x10 (kernel s) = ((res, h), k)" by (metis surj_pair)
  let ?L = "move_list n ProcessInUse False (process_lists s)"
  let ?p = "zero_process\<lparr>notificationSemaphore := h, pd_pid := pid\<rparr>"
  have s': "s' = s\<lparr>processes := (processes s)(n := ?p), process_lists := ?L, kernel := k\<rparr>"
    using r free c by (auto simp: doRegisterProcess_def alloc_process_def alloc_list_def upd_process_def
        split: bind_splits)
  have p: "pool_ok nb_process_pool (process_lists s)" using inv by (simp add: inv_defs)
  have n: "n \<in> set (process_lists s ProcessFree)" using free by simp
  have off: "n \<notin> set (process_lists s ProcessInUse)"
    using abs_lists.ok_disjoint [OF pool_ok_lists [OF p] n] by auto
  have L: "?L ProcessInUse = n # process_lists s ProcessInUse"
    using off by (simp add: move_list_def)
  have sk: "sem k = sem (kernel s)" "h \<noteq> resumeSemaphore s"
    using semaphore_create [OF law c] by auto
  have pids: "map (\<lambda>m. pd_pid (((processes s)(n := ?p)) m)) (process_lists s ProcessInUse)
      = map (\<lambda>m. pd_pid (processes s m)) (process_lists s ProcessInUse)"
    using off by (auto intro: map_cong)
  have "\<forall>m \<in> set (?L ProcessInUse). process_entry_ok (resumeSemaphore s) (((processes s)(n := ?p)) m)"
    unfolding L using inv off zero_process_ok [OF sk(2)] by (auto simp: inv_defs)
  moreover have "map (\<lambda>m. pd_pid (((processes s)(n := ?p)) m)) (?L ProcessInUse)
      = pid # map (\<lambda>m. pd_pid (processes s m)) (process_lists s ProcessInUse)"
    unfolding L list.map pids by simp
  then have "distinct (map (\<lambda>m. pd_pid (((processes s)(n := ?p)) m)) (?L ProcessInUse))"
    using inv new [unfolded findProcessData_None] by (simp only: distinct.simps inv_defs) blast
  moreover have "pool_ok nb_process_pool ?L"
    by (rule pool_ok_move [OF p pool_ok_member [OF p n]])
  ultimately show "sm_inv sem s'" using inv sk by (simp add: s' inv_defs del: fun_upd_apply)
  show "resumeSemaphore s' = resumeSemaphore s
     \<and> session_lists s' SessionInUse = session_lists s SessionInUse" "n \<in> set (process_lists s' ProcessInUse)"
    "pd_pid (processes s' n) = pid" "sessions s' = sessions s"
    using L by (simp_all add: s')
qed

lemma inv_RegisterProcess:
  assumes "semaphore_law E (resumeSemaphore s) sem" and "sm_inv sem s"
    and "RegisterProcess E pid a b s = Some (res, s')"
  shows "sm_inv sem s' \<and> resumeSemaphore s' = resumeSemaphore s
     \<and> session_lists s' SessionInUse = session_lists s SessionInUse"
  using assms inv_doRegisterProcess(1,2) [OF assms(1,2)]
  by (auto simp: RegisterProcess_def Let_def split: if_splits bind_splits)

text \<open>The registry after a process has gone: what is left of the entries.\<close>

lemma unregister_services_frame:
  "sm_inv sem s \<Longrightarrow> semaphore_law E (resumeSemaphore s) sem \<Longrightarrow>
     sm_inv sem (unregister_services E pid i s)
     \<and> resumeSemaphore (unregister_services E pid i s) = resumeSemaphore s
     \<and> session_lists (unregister_services E pid i s) SessionInUse = session_lists s SessionInUse
     \<and> process_lists (unregister_services E pid i s) = process_lists s
     \<and> processes (unregister_services E pid i s) = processes s"
proof (induction E pid i s rule: unregister_services.induct)
  case (1 E pid i s)
  show ?case
  proof (cases "i < nbServices s \<and> si_pid (servicesInfo s ! i) = pid")
    case True
    let ?s = "remove_service i (close_handle E (clientPort (servicesInfo s ! i)) s)"
    have "sm_inv sem ?s"
      using True "1.prems" by (intro inv_remove_service inv_close) (auto simp: close_handle_def)
    moreover have "processes ?s = processes s" "process_lists ?s = process_lists s"
      by (simp_all add: remove_service_def close_handle_def)
    ultimately show ?thesis
      using "1.IH"(1) True "1.prems" by (simp add: unregister_services.simps [of E pid i s])
  next
    case False
    then show ?thesis
      using "1.IH"(2) "1.prems" by (auto simp: unregister_services.simps [of E pid i s])
  qed
qed

lemma inv_move_process_free:
  assumes inv: "sm_inv sem s" and n: "n \<in> set (process_lists s ProcessInUse)"
  shows "sm_inv sem (move_process n ProcessFree back s)"
proof -
  have p: "pool_ok nb_process_pool (process_lists s)" using inv by (simp add: inv_defs)
  have "n \<notin> set (process_lists s ProcessFree)"
    using abs_lists.ok_disjoint [OF pool_ok_lists [OF p] n] by auto
  then have L: "move_list n ProcessFree back (process_lists s) ProcessInUse
      = remove1 n (process_lists s ProcessInUse)"
    by (simp add: move_list_def)
  have "distinct (map f (remove1 n xs))" if "distinct (map f xs)" for f :: "nat \<Rightarrow> u32" and xs
    using that by (induction xs) (auto dest: notin_set_remove1 set_remove1_subset [THEN subsetD])
  then show ?thesis
    using inv L pool_ok_move [OF p pool_ok_member [OF p n]]
    by (auto simp: inv_defs move_process_def dest: set_remove1_subset [THEN subsetD])
qed

lemma inv_UnregisterProcess:
  assumes law: "semaphore_law E (resumeSemaphore s) sem" and inv: "sm_inv sem s"
  shows "sm_inv sem (snd (UnregisterProcess E pid s))
     \<and> resumeSemaphore (snd (UnregisterProcess E pid s)) = resumeSemaphore s
     \<and> session_lists (snd (UnregisterProcess E pid s)) SessionInUse = session_lists s SessionInUse"
proof (cases "findProcessData s pid")
  case (Some n)
  let ?s = "close_handle E (notificationSemaphore (processes s n)) s"
  have "sm_inv sem ?s" using law inv by (rule inv_close)
  then have U: "sm_inv sem (unregister_services E pid 0 ?s)"
    "resumeSemaphore (unregister_services E pid 0 ?s) = resumeSemaphore s"
    "process_lists (unregister_services E pid 0 ?s) = process_lists s"
    "session_lists (unregister_services E pid 0 ?s) SessionInUse = session_lists s SessionInUse"
    using unregister_services_frame [of sem ?s E pid 0] law by (auto simp: close_handle_def)
  have "n \<in> set (process_lists (unregister_services E pid 0 ?s) ProcessInUse)"
    using findProcessData_Some [OF Some] U(3) by simp
  from inv_move_process_free [OF U(1) this] U(2,4) show ?thesis
    by (simp add: UnregisterProcess_def Some)
qed (use inv in \<open>simp add: UnregisterProcess_def\<close>)

subsection \<open>Notifications\<close>

lemma push_pending_ok:
  "process_entry_ok R p \<Longrightarrow> nbPendingNotifications p < 16 \<Longrightarrow> process_entry_ok R (push_pending x p)"
  using ring.push_ok [of p x]
  by (auto simp: process_entry_ok_def push_pending_def subs_ok_def subscriptions_def)

lemma pop_pending_ok:
  "process_entry_ok R p \<Longrightarrow> nbPendingNotifications p \<noteq> 0 \<Longrightarrow> process_entry_ok R (pop_pending p)"
  using ring.pop_ok [of p]
  by (auto simp: process_entry_ok_def pop_pending_def subs_ok_def subscriptions_def)

lemma add_subscription_ok:
  assumes "process_entry_ok R p" and "nbSubscribed p < 0x11" and "x \<notin> set (subscriptions p)"
  shows "process_entry_ok R (add_subscription x p)"
proof -
  have "ring_ok (add_subscription x p)" using assms(1)
    by (simp add: process_entry_ok_def ring_ok_def add_subscription_def)
  moreover have "notificationSemaphore (add_subscription x p) = notificationSemaphore p"
    by (simp add: add_subscription_def)
  ultimately show ?thesis
    using assms subs.add_ok [of p x] subs.distinct_add [of p x]
    by (simp add: process_entry_ok_def)
qed

lemma remove_subscription_ok:
  assumes "process_entry_ok R p" and "i < nbSubscribed p"
  shows "process_entry_ok R (remove_subscription i p)"
proof -
  have "ring_ok (remove_subscription i p)" using assms(1)
    by (simp add: process_entry_ok_def ring_ok_def remove_subscription_def)
  moreover have "notificationSemaphore (remove_subscription i p) = notificationSemaphore p"
    by (simp add: remove_subscription_def)
  ultimately show ?thesis
    using assms subs.remove_ok [of p i] subs.distinct_remove(1) [of p i]
    by (simp add: process_entry_ok_def length_subscriptions)
qed

lemma pid_frame [simp]:
  "pd_pid (push_pending x p) = pd_pid p" "pd_pid (pop_pending p) = pd_pid p"
  "pd_pid (add_subscription x p) = pd_pid p" "pd_pid (remove_subscription i p) = pd_pid p"
  by (simp_all add: push_pending_def pop_pending_def add_subscription_def remove_subscription_def)

lemma enable_ok: "process_entry_ok R p \<Longrightarrow> process_entry_ok R (p\<lparr>notificationEnabled := b\<rparr>)"
  by (simp add: process_entry_ok_def ring_ok_def subs_ok_def subscriptions_def)

lemma inv_entry: "sm_inv sem s \<Longrightarrow> n \<in> set (process_lists s ProcessInUse) \<Longrightarrow>
    process_entry_ok (resumeSemaphore s) (processes s n)"
  by (simp add: inv_defs)

lemma doPublish_cases:
  assumes "doPublishNotification E n x flags s = Some (ok, s')"
  obtains (same) "s' = s"
  | (pushed) res k where "svcReleaseSemaphore E (notificationSemaphore (processes s n)) 1 (kernel s) = (res, k)"
      "\<not> R_FAILED E res" "nbPendingNotifications (processes s n) < 16" "ok"
      "s' = upd_process n (push_pending x) (s\<lparr>kernel := k\<rparr>)"
proof -
  obtain res k where r: "svcReleaseSemaphore E (notificationSemaphore (processes s n)) 1 (kernel s) = (res, k)"
    by (metis surj_pair)
  show ?thesis
  proof (cases "s' = s")
    case False
    with assms r show ?thesis
      by (intro pushed [OF r]) (auto simp: doPublishNotification_def Let_def split: if_splits bind_splits)
  qed (rule same)
qed

lemma inv_doPublish:
  assumes law: "semaphore_law E (resumeSemaphore s) sem" and inv: "sm_inv sem s"
    and n: "n \<in> set (process_lists s ProcessInUse)"
    and r: "doPublishNotification E n x flags s = Some (ok, s')"
  shows "sm_inv sem s' \<and> resumeSemaphore s' = resumeSemaphore s
     \<and> session_lists s' SessionInUse = session_lists s SessionInUse
     \<and> process_lists s' = process_lists s \<and> cmdbuf s' = cmdbuf s"
  using r
proof (cases rule: doPublish_cases)
  case (pushed res k)
  have "notificationSemaphore (processes s n) \<noteq> resumeSemaphore s"
    using inv_entry [OF inv n] by (simp add: process_entry_ok_def)
  then have "sem k = sem (kernel s)" using semaphore_release [OF law pushed(1,2)] by simp
  then have "sm_inv sem (s\<lparr>kernel := k\<rparr>)" using inv by (simp add: inv_kernel)
  then have "sm_inv sem (upd_process n (push_pending x) (s\<lparr>kernel := k\<rparr>))"
    using pushed(3) by (intro inv_upd_process) (auto intro: push_pending_ok)
  with pushed(5) show ?thesis by (simp add: upd_process_def)
qed (use inv in simp)

lemma inv_EnableNotification:
  assumes law: "semaphore_law E (resumeSemaphore s) sem" and inv: "sm_inv sem s"
    and r: "EnableNotification E sd h0 s = Some ((res, h), s')"
  shows "sm_inv sem s' \<and> resumeSemaphore s' = resumeSemaphore s
     \<and> session_lists s' SessionInUse = session_lists s SessionInUse"
proof -
  have upd: "sm_inv sem (upd_process n (\<lambda>p. p\<lparr>notificationEnabled := True\<rparr>) t)" if "sm_inv sem t" for t n
    using that by (intro inv_upd_process) (auto intro: enable_ok)
  show ?thesis
  proof (cases "findProcessData s (sd_pid (sessions s sd))")
    case (Some n)
    with r inv upd show ?thesis by (auto simp: EnableNotification_def Let_def)
  next
    case None
    with r inv upd inv_doRegisterProcess(1,2) [OF law inv None] show ?thesis
      by (auto simp: EnableNotification_def Let_def split: if_splits bind_splits)
  qed
qed

lemma enabled_process_Some:
  "enabled_process sd s = Some n \<Longrightarrow>
     n \<in> set (process_lists s ProcessInUse) \<and> notificationEnabled (processes s n)
     \<and> pd_pid (processes s n) = sd_pid (sessions s sd)"
  by (auto simp: enabled_process_def dest: findProcessData_Some split: option.splits if_splits)

lemma inv_Subscribe:
  assumes inv: "sm_inv sem s"
  shows "sm_inv sem (snd (Subscribe sd x s)) \<and> resumeSemaphore (snd (Subscribe sd x s)) = resumeSemaphore s
     \<and> session_lists (snd (Subscribe sd x s)) SessionInUse = session_lists s SessionInUse"
proof (cases "enabled_process sd s")
  case (Some n)
  have ok: "process_entry_ok (resumeSemaphore s) (processes s n)"
    using inv enabled_process_Some [OF Some] by (simp add: inv_entry)
  then have "subs_ok (processes s n)" by (simp add: process_entry_ok_def)
  note loop = subscribed_loop_iff [OF this, of x]
  show ?thesis
    using inv ok by (auto simp: Subscribe_def Some Let_def loop intro!: inv_upd_process add_subscription_ok)
qed (use inv in \<open>simp add: Subscribe_def\<close>)

lemma inv_Unsubscribe:
  assumes inv: "sm_inv sem s"
  shows "sm_inv sem (snd (Unsubscribe sd x s)) \<and> resumeSemaphore (snd (Unsubscribe sd x s)) = resumeSemaphore s
     \<and> session_lists (snd (Unsubscribe sd x s)) SessionInUse = session_lists s SessionInUse"
proof (cases "enabled_process sd s")
  case (Some n)
  have ok: "process_entry_ok (resumeSemaphore s) (processes s n)"
    using inv enabled_process_Some [OF Some] by (simp add: inv_entry)
  then have len: "length (subscriptions (processes s n)) = nbSubscribed (processes s n)"
    by (simp add: process_entry_ok_def length_subscriptions)
  have "search_index x (subscriptions (processes s n)) \<noteq> nbSubscribed (processes s n)
      \<Longrightarrow> search_index x (subscriptions (processes s n)) < nbSubscribed (processes s n)"
    using search_index_le [of x "subscriptions (processes s n)"] len by simp
  then show ?thesis
    using inv ok by (auto simp: Unsubscribe_def Some Let_def intro!: inv_upd_process remove_subscription_ok)
qed (use inv in \<open>simp add: Unsubscribe_def\<close>)

lemma inv_ReceiveNotification:
  assumes inv: "sm_inv sem s"
  shows "sm_inv sem (snd (ReceiveNotification sd x s))
     \<and> resumeSemaphore (snd (ReceiveNotification sd x s)) = resumeSemaphore s
     \<and> session_lists (snd (ReceiveNotification sd x s)) SessionInUse = session_lists s SessionInUse"
proof (cases "findProcessData s (sd_pid (sessions s sd))")
  case (Some n)
  then show ?thesis
    using inv by (auto simp: ReceiveNotification_def Let_def intro!: inv_upd_process pop_pending_ok)
qed (use inv in \<open>simp add: ReceiveNotification_def\<close>)

lemma inv_publish_subscribers:
  assumes "semaphore_law E (resumeSemaphore s) sem" and "sm_inv sem s"
    and "set ns \<subseteq> set (process_lists s ProcessInUse)"
    and "publish_subscribers E x flags ns s = Some (res, s')"
  shows "sm_inv sem s' \<and> resumeSemaphore s' = resumeSemaphore s
     \<and> session_lists s' SessionInUse = session_lists s SessionInUse"
  using assms
proof (induction ns arbitrary: s)
  case (Cons n ns)
  show ?case
  proof (cases "wants (processes s n) x")
    case True
    then obtain ok t where t: "doPublishNotification E n x flags s = Some (ok, t)"
      and rest: "(if \<not> ok then Some (0xD8606408, t) else publish_subscribers E x flags ns t) = Some (res, s')"
      using Cons.prems(4) by (auto split: bind_splits)
    from inv_doPublish [OF Cons.prems(1,2) _ t] Cons.prems(3)
    have "sm_inv sem t" "resumeSemaphore t = resumeSemaphore s" "process_lists t = process_lists s"
      "session_lists t SessionInUse = session_lists s SessionInUse"
      by auto
    with Cons.IH [of t] Cons.prems rest show ?thesis by (auto split: if_splits)
  qed (use Cons in auto)
qed simp

lemma inv_publish_and_list:
  assumes "semaphore_law E (resumeSemaphore s) sem" and "sm_inv sem s"
    and "set ns \<subseteq> set (process_lists s ProcessInUse)"
    and "publish_and_list E w x flags nb ns s = Some (res, s')"
  shows "sm_inv sem s' \<and> resumeSemaphore s' = resumeSemaphore s
     \<and> session_lists s' SessionInUse = session_lists s SessionInUse"
  using assms
proof (induction ns arbitrary: s nb)
  case (Cons n ns)
  show ?case
  proof (cases "wants (processes s n) x")
    case True
    then obtain ok t where t: "doPublishNotification E n x flags s = Some (ok, t)"
      and rest: "(if \<not> ok then Some ((0xD8606408, None), t)
          else if nb < 60 then publish_and_list E w x flags (nb + 1) ns
                 (t\<lparr>cmdbuf := (cmdbuf t)(w + nb := pd_pid (processes t n))\<rparr>)
          else publish_and_list E w x flags nb ns t) = Some (res, s')"
      using Cons.prems(4) by (auto split: bind_splits)
    from inv_doPublish [OF Cons.prems(1,2) _ t] Cons.prems(3)
    have T: "sm_inv sem t" "resumeSemaphore t = resumeSemaphore s" "process_lists t = process_lists s"
      "session_lists t SessionInUse = session_lists s SessionInUse"
      by auto
    let ?t = "t\<lparr>cmdbuf := (cmdbuf t)(w + nb := pd_pid (processes t n))\<rparr>"
    show ?thesis
      using Cons.IH [of t] Cons.IH [of ?t] Cons.prems(1,3) T rest by (auto split: if_splits)
  qed (use Cons in auto)
qed simp

lemma inv_publish_all:
  assumes "semaphore_law E (resumeSemaphore s) sem" and "sm_inv sem s"
    and "set ns \<subseteq> set (process_lists s ProcessInUse)"
    and "publish_all E x ns s = Some (res, s')"
  shows "sm_inv sem s' \<and> resumeSemaphore s' = resumeSemaphore s
     \<and> session_lists s' SessionInUse = session_lists s SessionInUse"
  using assms
proof (induction ns arbitrary: s)
  case (Cons n ns)
  show ?case
  proof (cases "notificationEnabled (processes s n)")
    case True
    then obtain ok t where t: "doPublishNotification E n x 0 s = Some (ok, t)"
      and rest: "(if \<not> ok then Some (0xD8606408, t) else publish_all E x ns t) = Some (res, s')"
      using Cons.prems(4) by (auto split: bind_splits)
    from inv_doPublish [OF Cons.prems(1,2) _ t] Cons.prems(3)
    have "sm_inv sem t" "resumeSemaphore t = resumeSemaphore s" "process_lists t = process_lists s"
      "session_lists t SessionInUse = session_lists s SessionInUse"
      by auto
    with Cons.IH [of t] Cons.prems rest show ?thesis by (auto split: if_splits)
  qed (use Cons in auto)
qed simp


lemma inv_PublishToProcess:
  assumes law: "semaphore_law E (resumeSemaphore s) sem" and inv: "sm_inv sem s"
    and r: "PublishToProcess E process x s = Some (res, s')"
  shows "sm_inv sem s' \<and> resumeSemaphore s' = resumeSemaphore s
     \<and> session_lists s' SessionInUse = session_lists s SessionInUse"
proof -
  obtain r0 pid k where g: "svcGetProcessId E process (kernel s) = ((r0, pid), k)" by (metis surj_pair)
  let ?s = "s\<lparr>kernel := k\<rparr>"
  have s1: "sm_inv sem ?s" using semaphore_frame(5) [OF law g] inv by (simp add: inv_kernel)
  show ?thesis
  proof (cases "R_FAILED E r0")
    case True
    with r g s1 show ?thesis by (auto simp: PublishToProcess_def)
  next
    case failed: False
    show ?thesis
    proof (cases "\<exists>n. findProcessData ?s pid = Some n \<and> notificationEnabled (processes ?s n)")
      case True
      then obtain n where n: "findProcessData ?s pid = Some n" "notificationEnabled (processes ?s n)" by blast
      with r g failed obtain ok t where t: "doPublishNotification E n x 0 ?s = Some (ok, t)"
        "s' = close_handle E process t"
        by (auto simp: PublishToProcess_def Let_def split: bind_splits)
      from inv_doPublish [OF _ s1 _ t(1)] law findProcessData_Some [OF n(1)]
      have "sm_inv sem t" "resumeSemaphore t = resumeSemaphore s"
        "session_lists t SessionInUse = session_lists s SessionInUse" by auto
      with t(2) law show ?thesis by (simp add: inv_close)
    next
      case False
      with r g failed have "s' = close_handle E process ?s"
        by (auto simp: PublishToProcess_def Let_def split: option.splits if_splits)
      with s1 law show ?thesis by (simp add: inv_close)
    qed
  qed
qed

section \<open>Commands\<close>

definition keeps :: "('k \<Rightarrow> nat) \<Rightarrow> 'k sm_state \<Rightarrow> 'k sm_state \<Rightarrow> bool" where
  "keeps sem s s' \<longleftrightarrow> sm_inv sem s' \<and> resumeSemaphore s' = resumeSemaphore s
     \<and> session_lists s' SessionInUse = session_lists s SessionInUse"

lemma keeps_refl: "sm_inv sem s \<Longrightarrow> keeps sem s s"
  by (simp add: keeps_def)

lemma keeps_reply: "keeps sem s t \<Longrightarrow> keeps sem s (reply ws t)"
  by (simp add: keeps_def)

lemma keeps_finish: "keeps sem s (snd r) \<Longrightarrow> keeps sem s (snd (finish E cmd r))"
  by (cases r) (simp add: finish_def keeps_reply)

lemma keeps_invalid: "sm_inv sem s \<Longrightarrow> keeps sem s (snd (invalid_command E res s))"
  by (simp add: invalid_command_def keeps_def)

lemma keeps_save: "keeps sem s t \<Longrightarrow> keeps sem s (save_request sd t)"
  by (simp add: keeps_def save_request_def inv_upd_session)

text \<open>What every command handler owes: a result that is not a trap keeps the invariant.\<close>

definition handler_ok :: "'k sm_env \<Rightarrow> ('k \<Rightarrow> nat) \<Rightarrow> 'k sm_state \<Rightarrow> (Result \<times> 'k sm_state) option \<Rightarrow> bool" where
  "handler_ok E sem s r \<longleftrightarrow> (case r of None \<Rightarrow> True | Some (res, s') \<Rightarrow> keeps sem s s')"

lemma handler_okI: "(\<And>res s'. r = Some (res, s') \<Longrightarrow> keeps sem s s') \<Longrightarrow> handler_ok E sem s r"
  by (auto simp: handler_ok_def split: option.split)

lemma handler_ok_Some: "keeps sem s (snd r) \<Longrightarrow> handler_ok E sem s (Some r)"
  by (cases r) (simp add: handler_ok_def)

lemma handler_ok_finish:
  "handler_ok E sem s r \<Longrightarrow> handler_ok E sem s (map_option (finish E cmd) r)"
  by (cases r) (auto simp: handler_ok_def finish_def keeps_reply)

lemma handler_ok_EnableNotification:
  assumes "semaphore_law E (resumeSemaphore s) sem" and "sm_inv sem s"
  shows "handler_ok E sem s (srv_EnableNotification E sd s)"
  using inv_EnableNotification [OF assms]
  by (intro handler_okI) (auto simp: srv_EnableNotification_def keeps_def split: bind_splits)

lemma handler_ok_RegisterService:
  assumes "semaphore_law E (resumeSemaphore s) sem" and "sm_inv sem s"
  shows "handler_ok E sem s (srv_RegisterService E sd s)"
  using inv_doRegisterServiceOrPort [OF assms]
  by (intro handler_okI)
    (auto simp: srv_RegisterService_def RegisterService_def doRegisterService_def keeps_def split: bind_splits)

lemma handler_ok_RegisterPort:
  assumes "semaphore_law E (resumeSemaphore s) sem" and "sm_inv sem s"
  shows "handler_ok E sem s (srv_RegisterPort E sd s)"
proof -
  have "handler_ok E sem s (RegisterPort E sd (cmdbuf s 5) (name_at (cmdbuf s) 1) (cmdbuf s 3) s)"
    using inv_doRegisterServiceOrPort [OF assms]
    by (intro handler_okI) (auto simp: RegisterPort_def keeps_def)
  then show ?thesis
    using assms(2) by (auto simp: srv_RegisterPort_def intro!: handler_ok_finish handler_ok_Some keeps_invalid)
qed

lemma handler_ok_GetServiceHandle:
  assumes "semaphore_law E (resumeSemaphore s) sem" and "sm_inv sem s"
  shows "handler_ok E sem s (Some (srv_GetServiceHandle E sd s))"
proof -
  obtain res h t where g: "GetServiceHandle E sd (name_at (cmdbuf s) 1) (cmdbuf s 3) (cmdbuf s 4) s = ((res, h), t)"
    by (metis surj_pair)
  have "keeps sem s t" using inv_GetServiceHandle [OF assms g] by (simp add: keeps_def)
  then show ?thesis
    by (auto simp: srv_GetServiceHandle_def g [simplified] intro!: handler_ok_Some keeps_save keeps_reply)
qed

lemma handler_ok_GetPort:
  "sm_inv sem s \<Longrightarrow> handler_ok E sem s (Some (srv_GetPort E sd s))"
  by (auto simp: srv_GetPort_def split: prod.split intro!: handler_ok_Some keeps_save keeps_reply keeps_refl)

lemma handler_ok_ReceiveNotification:
  assumes "sm_inv sem s"
  shows "handler_ok E sem s (Some (srv_ReceiveNotification E sd s))"
  using inv_ReceiveNotification [OF assms, of sd "uninitialised E"]
  by (auto simp: srv_ReceiveNotification_def keeps_def split: prod.split intro!: handler_ok_Some)

lemma handler_ok_PublishAndGetSubscriber:
  assumes "semaphore_law E (resumeSemaphore s) sem" and "sm_inv sem s"
  shows "handler_ok E sem s (srv_PublishAndGetSubscriber E s)"
  using inv_publish_and_list [OF assms subset_refl]
  by (intro handler_okI)
    (auto simp: srv_PublishAndGetSubscriber_def PublishAndGetSubscriber_def keeps_def split: bind_splits)

lemma handler_ok_PublishToSubscriber:
  assumes "semaphore_law E (resumeSemaphore s) sem" and "sm_inv sem s"
  shows "handler_ok E sem s (PublishToSubscriber E x flags s)"
  using inv_publish_subscribers [OF assms subset_refl]
  by (intro handler_okI) (auto simp: PublishToSubscriber_def keeps_def)

lemma keeps_register_client: "sm_inv sem s \<Longrightarrow> keeps sem s (snd (srv_RegisterClient E sd s))"
  by (auto simp: srv_RegisterClient_def keeps_def inv_upd_session inv_session_length
      invalid_command_def)

lemma srvHandleCommands_ok:
  assumes law: "semaphore_law E (resumeSemaphore s) sem" and inv: "sm_inv sem s"
  shows "handler_ok E sem s (srvHandleCommands E sd s)"
proof -
  have pure:
    "keeps sem s (snd (UnregisterService E sd n z s))" "keeps sem s (snd (UnregisterPort E sd n z s))"
    "keeps sem s (snd (Subscribe sd x s))" "keeps sem s (snd (Unsubscribe sd x s))"
    "keeps sem s (snd (srv_IsServiceRegistered E sd s))" for n z x
    using inv_UnregisterServiceOrPort [OF law inv] inv_Subscribe [OF inv] inv_Unsubscribe [OF inv] inv
    by (auto simp: keeps_def UnregisterService_def UnregisterPort_def srv_IsServiceRegistered_def split: prod.split)
  show ?thesis
    using handler_ok_EnableNotification [OF law inv] handler_ok_RegisterService [OF law inv]
      handler_ok_GetServiceHandle [OF law inv] handler_ok_RegisterPort [OF law inv]
      handler_ok_GetPort [OF inv] handler_ok_ReceiveNotification [OF inv]
      handler_ok_PublishToSubscriber [OF law inv] handler_ok_PublishAndGetSubscriber [OF law inv]
    unfolding srvHandleCommands_def Let_def
    by (auto intro!: handler_ok_finish handler_ok_Some keeps_finish pure keeps_register_client [OF inv]
        keeps_invalid [OF inv])
qed

lemma srvPmHandleCommands_ok:
  assumes law: "semaphore_law E (resumeSemaphore s) sem" and inv: "sm_inv sem s"
  shows "handler_ok E sem s (srvPmHandleCommands E sd s)"
proof -
  have "handler_ok E sem s (PublishToProcess E p x s)" for p x
    using inv_PublishToProcess [OF law inv] by (intro handler_okI) (auto simp: keeps_def)
  then have 1: "handler_ok E sem s (pm_PublishToProcess E m s)" for m
    using inv by (auto simp: pm_PublishToProcess_def intro!: handler_ok_finish handler_ok_Some keeps_invalid)
  have "handler_ok E sem s (RegisterProcess E pid a b s)" for pid a b
    using inv_RegisterProcess [OF law inv] by (intro handler_okI) (auto simp: keeps_def)
  then have 2: "handler_ok E sem s (pm_RegisterProcess E m s)" for m
    using inv by (auto simp: pm_RegisterProcess_def intro!: handler_ok_finish handler_ok_Some keeps_invalid)
  have 3: "handler_ok E sem s (PublishToAll E x s)" for x
    using inv_publish_all [OF law inv subset_refl] by (intro handler_okI) (auto simp: PublishToAll_def keeps_def)
  have 4: "keeps sem s (snd (UnregisterProcess E pid s))" for pid
    using inv_UnregisterProcess [OF law inv] by (simp add: keeps_def)
  show ?thesis
    unfolding srvPmHandleCommands_def Let_def
    using 1 2 3 4 srvHandleCommands_ok [OF law inv]
    by (auto intro!: handler_ok_finish handler_ok_Some keeps_finish keeps_invalid [OF inv])
qed


section \<open>The event loop\<close>

text \<open>The kernel never hands out one handle value for two open sessions.\<close>

definition live_handles_distinct :: "'k sm_state \<Rightarrow> bool" where
  "live_handles_distinct s \<longleftrightarrow>
     (\<forall>n < nb_session_pool. \<forall>m < nb_session_pool.
        n \<notin> set (session_lists s SessionFree) \<and> m \<notin> set (session_lists s SessionFree)
        \<and> sd_handle (sessions s n) = sd_handle (sessions s m) \<longrightarrow> n = m)"

lemma fold_last_match:
  "fold (\<lambda>i found. if P i then Some i else found) xs a = Some m \<Longrightarrow>
     (m \<in> set xs \<and> P m) \<or> a = Some m"
  by (induction xs arbitrary: a) (fastforce split: if_splits)+

lemma fold_last_match_None:
  "fold (\<lambda>i found. if P i then Some i else found) xs a = None \<longleftrightarrow> a = None \<and> (\<forall>x \<in> set xs. \<not> P x)"
  by (induction xs arbitrary: a) auto

lemma pool_session_Some:
  "pool_session s h = Some m \<Longrightarrow> m < nb_session_pool \<and> sd_handle (sessions s m) = h"
  unfolding pool_session_def by (drule fold_last_match) auto

lemma pool_session_None:
  "pool_session s h = None \<longleftrightarrow> (\<forall>n < nb_session_pool. sd_handle (sessions s n) \<noteq> h)"
  unfolding pool_session_def by (subst fold_last_match_None) auto

text \<open>The session the pool search finds for a handle of the in-use list is that session, or
  a free one with a stale handle.\<close>

lemma pool_session_in_use:
  assumes inv: "sm_inv sem s" and d: "live_handles_distinct s"
    and n: "n \<in> set (session_lists s SessionInUse)"
    and p: "pool_session s (sd_handle (sessions s n)) = Some m"
  shows "m = n \<or> m \<in> set (session_lists s SessionFree)"
proof -
  have P: "pool_ok nb_session_pool (session_lists s)" using inv by (simp add: inv_defs)
  have "n < nb_session_pool" using pool_ok_member [OF P n] .
  moreover have "n \<notin> set (session_lists s SessionFree)"
    using abs_lists.ok_disjoint [OF pool_ok_lists [OF P] n] by auto
  ultimately show ?thesis
    using pool_session_Some [OF p] d unfolding live_handles_distinct_def by blast
qed

lemma inv_close_session:
  assumes law: "semaphore_law E (resumeSemaphore s) sem" and inv: "sm_inv sem s"
    and d: "live_handles_distinct s" and n: "n \<in> set (session_lists s SessionInUse)"
    and r: "close_session E (sd_handle (sessions s n)) s = Some s'"
  shows "sm_inv sem s' \<and> resumeSemaphore s' = resumeSemaphore s"
proof -
  obtain m where m: "pool_session s (sd_handle (sessions s n)) = Some m"
    and s': "s' = move_session m SessionFree False (close_handle E (sd_handle (sessions s m)) s)"
    using r by (auto simp: close_session_def split: option.splits)
  let ?s = "close_handle E (sd_handle (sessions s m)) s"
  have "sm_inv sem ?s" by (rule inv_close [OF law inv])
  moreover have "m \<in> set (session_lists ?s SessionInUse) \<or> m \<in> set (session_lists ?s SessionFree)"
    using pool_session_in_use [OF inv d n m] n by auto
  ultimately show ?thesis
    using inv_move_session [of sem ?s m SessionInUse SessionFree]
      inv_move_session [of sem ?s m SessionFree SessionFree] s' by auto
qed

lemma inv_requeue:
  assumes inv: "sm_inv sem s" and n: "n \<in> set (session_lists s SessionWaitingPortReady)"
  shows "sm_inv sem (requeue_session n s)"
    and "session_lists (requeue_session n s) = move_list n SessionWaitingRegister True (session_lists s)"
    and "resumeSemaphore (requeue_session n s) = resumeSemaphore s"
proof -
  let ?s = "upd_session n (\<lambda>d. d\<lparr>replayCmdbuf := (replayCmdbuf d)[1 := 0xD0406401]\<rparr>) s"
  have "sm_inv sem ?s" using inv by (simp add: inv_upd_session inv_session_length)
  then have "sm_inv sem (move_session n SessionWaitingRegister True ?s)"
    by (rule inv_move_session [of _ _ _ SessionWaitingPortReady]) (use n in simp_all)
  then show "sm_inv sem (requeue_session n s)"
    by (simp add: requeue_session_def inv_upd_session inv_session_length)
  show "session_lists (requeue_session n s) = move_list n SessionWaitingRegister True (session_lists s)"
    "resumeSemaphore (requeue_session n s) = resumeSemaphore s"
    by (simp_all add: requeue_session_def move_session_def)
qed

lemma inv_close_port:
  assumes "sm_inv sem s" and "distinct ns" and "set ns \<subseteq> set (session_lists s SessionWaitingPortReady)"
  shows "sm_inv sem (close_port h ns s) \<and> resumeSemaphore (close_port h ns s) = resumeSemaphore s"
  using assms
proof (induction ns arbitrary: s)
  case (Cons n ns)
  show ?case
  proof (cases "busyClientPortHandle (sessions s n) = h")
    case True
    have n: "n \<in> set (session_lists s SessionWaitingPortReady)" using Cons.prems by simp
    have "m \<in> set (session_lists (requeue_session n s) SessionWaitingPortReady)" if "m \<in> set ns" for m
      using that Cons.prems(2,3) abs_lists.move_member [OF inv_lists_ok [OF Cons.prems(1)] n]
      by (auto simp: inv_requeue(2) [OF Cons.prems(1) n])
    then show ?thesis
      using Cons.IH [of "requeue_session n s"] inv_requeue [OF Cons.prems(1) n] Cons.prems(2) True by auto
  qed (use Cons in auto)
qed simp

lemma inv_accept_session:
  assumes law: "semaphore_law E (resumeSemaphore s) sem" and inv: "sm_inv sem s"
    and r: "accept_session E port pm s = Some s'"
  shows "sm_inv sem s' \<and> resumeSemaphore s' = resumeSemaphore s"
proof -
  obtain res h k where a: "svcAcceptSession E port (kernel s) = ((res, h), k)" by (metis surj_pair)
  let ?s = "s\<lparr>kernel := k\<rparr>"
  have s1: "sm_inv sem ?s" using semaphore_frame(4) [OF law a] inv by (simp add: inv_kernel)
  obtain n rest where free: "session_lists s SessionFree = n # rest"
    and s': "s' = upd_session n (\<lambda>d. d\<lparr>sd_pid := -1, sd_handle := h, isSrvPm := isSrvPm d \<or> pm\<rparr>)
      (upd_session n (\<lambda>_. zero_session) (move_session n SessionInUse False ?s))"
    using r a by (auto simp: accept_session_def alloc_session_def alloc_list_def upd_session_def
        move_session_def split: bind_splits list.splits)
  have "n \<in> set (session_lists ?s SessionFree)" using free by simp
  then have "sm_inv sem (move_session n SessionInUse False ?s)"
    using s1 by (intro inv_move_session) auto
  then have "sm_inv sem (upd_session n (\<lambda>_. zero_session) (move_session n SessionInUse False ?s))"
    by (rule inv_upd_session) (simp add: zero_session_def)
  then show ?thesis
    unfolding s' by (simp add: inv_upd_session inv_session_length)
qed

text \<open>Taking the head of the wake-up list pairs with the count the wait took.\<close>

lemma inv_take_woken:
  assumes inv: "sm_inv (\<lambda>k. Suc (sem k)) s" and n: "session_lists s SessionToWakeUp = n # rest"
  shows "sm_inv sem (move_session n SessionInUse back s)"
proof -
  have p: "pool_ok nb_session_pool (session_lists s)" using inv by (simp add: inv_defs)
  have m: "n \<in> set (session_lists s SessionToWakeUp)" using n by simp
  have "pool_ok nb_session_pool (move_list n SessionInUse back (session_lists s))"
    by (rule pool_ok_move [OF p pool_ok_member [OF p m]])
  moreover have "length (move_list n SessionInUse back (session_lists s) SessionToWakeUp)
      = length (session_lists s SessionToWakeUp) - 1"
    using abs_lists.move_length(2) [OF pool_ok_lists [OF p] m] by simp
  ultimately show ?thesis using inv by (auto simp: inv_defs move_session_def)
qed

lemma in_use_after_move:
  assumes "sm_inv sem' s" and "n \<in> set (session_lists s l)"
  shows "n \<in> set (session_lists (move_session n SessionInUse back s) SessionInUse)"
  using assms abs_lists.move_member [OF inv_lists_ok] by (fastforce simp: move_session_def)

lemma restore_frame [simp]:
  "sm_inv sem (restore_request n s) = sm_inv sem s"
  "session_lists (restore_request n s) = session_lists s"
  "resumeSemaphore (restore_request n s) = resumeSemaphore s"
  by (simp_all add: restore_request_def)

lemma inv_select_session:
  assumes inv: "if i = 0 then sm_inv (\<lambda>k. Suc (sem k)) s else sm_inv sem s"
    and r: "select_session hs i s = Some (Some (n, s'))"
  shows "sm_inv sem s' \<and> resumeSemaphore s' = resumeSemaphore s
     \<and> n \<in> set (session_lists s' SessionInUse)"
proof (cases "i = 0")
  case True
  then obtain rest where h: "session_lists s SessionToWakeUp = n # rest"
    and s': "s' = restore_request n (move_session n SessionInUse False s)"
    using r by (auto simp: select_session_def split: list.splits)
  have iv: "sm_inv (\<lambda>k. Suc (sem k)) s" using inv True by simp
  show ?thesis
    using inv_take_woken [OF iv h] in_use_after_move [OF iv, of n SessionToWakeUp] h
    by (simp add: s')
next
  case i: False
  then have iv: "sm_inv sem s" using inv by simp
  show ?thesis
  proof (cases "i \<ge> 3 + length (session_lists s SessionInUse)")
    case True
    then have n: "n \<in> set (session_lists s SessionWaitingPortReady)"
      and s': "s' = upd_session n (\<lambda>d. d\<lparr>busyClientPortHandle := 0\<rparr>)
                 (restore_request n (move_session n SessionInUse False s))"
      using r i by (auto simp: select_session_def find_Some_iff split: option.splits)
    have "sm_inv sem (move_session n SessionInUse False s)"
      by (rule inv_move_session [OF iv n]) simp_all
    then show ?thesis
      using in_use_after_move [OF iv n] by (simp add: s' inv_upd_session inv_session_length)
  next
    case False
    with r i iv show ?thesis by (auto simp: select_session_def find_Some_iff split: option.splits)
  qed
qed

lemma inv_dispatch:
  assumes law: "semaphore_law E (resumeSemaphore s) sem" and inv: "sm_inv sem s"
    and n: "n \<in> set (session_lists s SessionInUse)" and r: "dispatch E n s = Some s'"
  shows "sm_inv sem s' \<and> resumeSemaphore s' = resumeSemaphore s"
proof -
  obtain res t where t: "(if isSrvPm (sessions s n) then srvPmHandleCommands E n s
      else srvHandleCommands E n s) = Some (res, t)"
    and rest: "(if would_block E res then
       (if res = 0xD0406401 then Some (move_session n SessionWaitingRegister True t)
        else if res = 0xD0406402 then Some (move_session n SessionWaitingPortReady True t)
        else None)
     else Some (t\<lparr>replyTarget := sd_handle (sessions t n)\<rparr>)) = Some s'"
    using r unfolding dispatch_def by (auto split: bind_splits if_splits)
  have "keeps sem s t"
    using t srvHandleCommands_ok [OF law inv, of n] srvPmHandleCommands_ok [OF law inv, of n]
    by (auto simp: handler_ok_def split: if_splits)
  then have K: "sm_inv sem t" "resumeSemaphore t = resumeSemaphore s"
    "n \<in> set (session_lists t SessionInUse)" using n by (simp_all add: keeps_def)
  then show ?thesis
    using rest inv_move_session [OF K(1) K(3)] by (auto split: if_splits)
qed

lemma wait_handles_simps:
  "length (wait_handles s) = 3 + length (session_lists s SessionInUse)
     + length (session_lists s SessionWaitingPortReady)"
  "3 \<le> i \<Longrightarrow> i < 3 + length (session_lists s SessionInUse) \<Longrightarrow>
     wait_handles s ! i = sd_handle (sessions s (session_lists s SessionInUse ! (i - 3)))"
  by (auto simp: wait_handles_def nth_Cons nth_append less_Suc_eq numeral_3_eq_3 split: nat.split)

lemma inv_on_unreachable:
  assumes law: "semaphore_law E (resumeSemaphore s) sem" and inv: "sm_inv sem s"
    and d: "live_handles_distinct s"
    and hs: "\<And>i. 3 \<le> i \<Longrightarrow> i < 3 + length (session_lists s SessionInUse) \<Longrightarrow>
        hs ! i = sd_handle (sessions s (session_lists s SessionInUse ! (i - 3)))"
    and r: "on_unreachable E hs idx s = Some s'"
  shows "sm_inv sem s' \<and> resumeSemaphore s' = resumeSemaphore s"
proof -
  let ?i = "if idx < 0 then search_index (replyTarget s) hs else nat idx"
  have i: "3 \<le> ?i" using r by (auto simp: on_unreachable_def Let_def split: if_splits bind_splits)
  show ?thesis
  proof (cases "?i < 3 + length (session_lists s SessionInUse)")
    case True
    then obtain t where t: "close_session E (hs ! ?i) s = Some t" "s' = t\<lparr>replyTarget := 0\<rparr>"
      using r i by (auto simp: on_unreachable_def Let_def split: if_splits bind_splits)
    let ?n = "session_lists s SessionInUse ! (?i - 3)"
    have n: "?n \<in> set (session_lists s SessionInUse)" using True i by (intro nth_mem) linarith
    from t(1) have "close_session E (sd_handle (sessions s ?n)) s = Some t"
      unfolding hs [OF i True] .
    from inv_close_session [OF law inv d n this] t(2) show ?thesis by simp
  next
    case False
    then have s': "s' = (close_port (hs ! ?i) (session_lists s SessionWaitingPortReady) s)\<lparr>replyTarget := 0\<rparr>"
      using r i by (auto simp: on_unreachable_def Let_def split: if_splits bind_splits)
    have "distinct (session_lists s SessionWaitingPortReady)"
      using inv_lists_ok [OF inv] by (simp add: lists_ok_def)
    from inv_close_port [OF inv this subset_refl] show ?thesis by (simp add: s')
  qed
qed

lemma inv_on_success:
  assumes law: "semaphore_law E (resumeSemaphore s) sem"
    and inv: "if idx = 0 then sm_inv (\<lambda>k. Suc (sem k)) s else sm_inv sem s"
    and r: "on_success E hs idx s = Some s'"
  shows "sm_inv sem s' \<and> resumeSemaphore s' = resumeSemaphore s"
proof (cases "idx = 1 \<or> idx = 2")
  case True
  then show ?thesis
    using inv_accept_session [OF law] inv r by (auto simp: on_success_def split: if_splits)
next
  case False
  then have ge: "0 \<le> idx" using r by (auto simp: on_success_def split: if_splits)
  from False r obtain sel where sel: "select_session hs (nat idx) s = Some sel"
    and rest: "(case sel of None \<Rightarrow> Some s | Some (n, s) \<Rightarrow> dispatch E n s) = Some s'"
    by (auto simp: on_success_def split: if_splits bind_splits)
  show ?thesis
  proof (cases sel)
    case None
    have "idx \<noteq> 0"
      using sel None by (auto simp: select_session_def split: list.splits)
    with None rest inv show ?thesis by simp
  next
    case (Some p)
    obtain n t where p: "p = (n, t)" by (cases p)
    have "if nat idx = 0 then sm_inv (\<lambda>k. Suc (sem k)) s else sm_inv sem s"
      using inv ge by (auto split: if_splits)
    from inv_select_session [OF this sel [unfolded Some p]]
    have T: "sm_inv sem t" "resumeSemaphore t = resumeSemaphore s" "n \<in> set (session_lists t SessionInUse)"
      by auto
    from rest Some p have "dispatch E n t = Some s'" by simp
    from inv_dispatch [OF _ T(1,3) this] T(2) law show ?thesis by simp
  qed
qed

text \<open>One iteration of the loop.\<close>

lemma main_step_cases:
  assumes "main_step E s = Some s'"
  shows "\<exists>res idx buf k b.
    svcReplyAndReceive E (wait_handles s) (replyTarget s) b (kernel s) = ((res, idx, buf), k)
    \<and> (if res = 0xC920181A
       then on_unreachable E (wait_handles s) idx (s\<lparr>cmdbuf := buf, kernel := k\<rparr>) = Some s'
       else \<not> R_FAILED E res
         \<and> on_success E (wait_handles s) idx (s\<lparr>cmdbuf := buf, kernel := k, replyTarget := 0\<rparr>) = Some s')"
proof -
  let ?s = "if replyTarget s = 0 then s\<lparr>cmdbuf := (cmdbuf s)(0 := 0xFFFF0000)\<rparr> else s"
  have eqs: "wait_handles ?s = wait_handles s" "replyTarget ?s = replyTarget s" "kernel ?s = kernel s"
    by (simp_all add: wait_handles_def)
  obtain res idx buf k where
    r: "svcReplyAndReceive E (wait_handles s) (replyTarget s) (cmdbuf ?s) (kernel s) = ((res, idx, buf), k)"
    by (metis surj_pair)
  have upd: "?s\<lparr>cmdbuf := buf, kernel := k\<rparr> = s\<lparr>cmdbuf := buf, kernel := k\<rparr>" by simp
  have "(if res = 0xC920181A then on_unreachable E (wait_handles s) idx (s\<lparr>cmdbuf := buf, kernel := k\<rparr>)
     else if R_FAILED E res then None
     else on_success E (wait_handles s) idx (s\<lparr>cmdbuf := buf, kernel := k, replyTarget := 0\<rparr>)) = Some s'"
    using assms unfolding main_step_def Let_def eqs r by (simp split: if_splits)
  with r show ?thesis by (intro exI conjI) (auto split: if_splits)
qed

lemma inv_main_step:
  assumes law: "semaphore_law E (resumeSemaphore s) sem" and err: "R_FAILED E 0xC920181A"
    and inv: "sm_inv sem s" and d: "live_handles_distinct s"
    and r: "main_step E s = Some s'"
  shows "sm_inv sem s' \<and> resumeSemaphore s' = resumeSemaphore s"
proof -
  obtain res idx buf k b where
    recv: "svcReplyAndReceive E (wait_handles s) (replyTarget s) b (kernel s) = ((res, idx, buf), k)"
    and rest: "if res = 0xC920181A
       then on_unreachable E (wait_handles s) idx (s\<lparr>cmdbuf := buf, kernel := k\<rparr>) = Some s'
       else \<not> R_FAILED E res
         \<and> on_success E (wait_handles s) idx (s\<lparr>cmdbuf := buf, kernel := k, replyTarget := 0\<rparr>) = Some s'"
    using main_step_cases [OF r] by blast
  note sem = semaphore_receive [OF law recv]
  show ?thesis
  proof (cases "res = 0xC920181A")
    case True
    have "sm_inv sem (s\<lparr>cmdbuf := buf, kernel := k\<rparr>)"
      using inv sem True err by (simp add: inv_defs)
    moreover have "live_handles_distinct (s\<lparr>cmdbuf := buf, kernel := k\<rparr>)"
      using d by (simp add: live_handles_distinct_def)
    ultimately show ?thesis
      using inv_on_unreachable [OF _ _ _ _ rest [unfolded if_P [OF True]]] law wait_handles_simps(2) [of _ s] by simp
  next
    case False
    let ?t = "s\<lparr>cmdbuf := buf, kernel := k, replyTarget := 0\<rparr>"
    have "if idx = 0 then sm_inv (\<lambda>k. Suc (sem k)) ?t else sm_inv sem ?t"
      using inv sem rest False by (auto simp: inv_defs split: if_splits)
    from inv_on_success [OF _ this conjunct2 [OF rest [unfolded if_not_P [OF False]]]] law show ?thesis by simp
  qed
qed

section \<open>Start-up establishes it\<close>

lemma inv_initSystem:
  assumes "initSystem E k = Some s" and "sem (kernel s) = 0"
  shows "sm_inv sem s" and "live_handles_distinct s"
proof -
  have s: "session_lists s = (\<lambda>_. [])(SessionFree := [0..<nb_session_pool])"
    "process_lists s = (\<lambda>_. [])(ProcessFree := [0..<nb_process_pool])"
    "sessions s = (\<lambda>_. zero_session)" "servicesInfo s = replicate max_services zero_service"
    "nbServices s = 0"
    using assms(1) by (auto simp: initSystem_def split: prod.splits bind_splits)
  have p: "pool_ok N ((\<lambda>_. [])(l := [0..<N]))" for N and l :: 'l
    by (auto simp: pool_ok_def lists_ok_def)
  show "sm_inv sem s"
    unfolding inv_defs s using p [of nb_session_pool SessionFree] p [of nb_process_pool ProcessFree] assms(2)
    by (simp add: zero_session_def)
  show "live_handles_distinct s" by (simp add: live_handles_distinct_def s)
qed

lemma inv_main_start:
  assumes law: "semaphore_law E (resumeSemaphore s) sem" and inv: "sm_inv sem s"
    and r: "main_start E s = Some s'"
  shows "sm_inv sem s' \<and> resumeSemaphore s' = resumeSemaphore s"
proof -
  obtain r1 pid k1 where 1: "svcGetProcessId E (CUR_PROCESS_HANDLE E) (kernel s) = ((r1, pid), k1)"
    by (metis surj_pair)
  obtain r2 h2 d2 k2 where 2: "svcCreatePort E 64 k1 = ((r2, h2, d2), k2)" by (metis surj_pair)
  let ?s = "s\<lparr>srvPort := h2, kernel := k2\<rparr>"
  have s2: "sm_inv sem ?s"
    using inv semaphore_frame(5) [OF law 1] semaphore_frame(2) [OF law 2] by (simp add: inv_defs)
  show ?thesis
  proof (cases "IS_PRE_7X E")
    case True
    obtain r3 h3 d3 k3 where 3: "svcCreatePort E 64 k2 = ((r3, h3, d3), k3)" by (metis surj_pair)
    have "s' = ?s\<lparr>srvPmPort := h3, kernel := k3\<rparr>"
      using r 1 2 3 True by (auto simp: main_start_def Let_def split: bind_splits)
    with s2 semaphore_frame(2) [OF law 3] show ?thesis by (simp add: inv_defs)
  next
    case False
    then obtain r3 h3 t where t: "doRegisterService E pid 0 srv_pm_name 6 64 ?s = Some ((r3, h3), t)"
      and s': "s' = t\<lparr>srvPmPort := h3\<rparr>"
      using r 1 2 by (auto simp: main_start_def Let_def split: bind_splits)
    from inv_doRegisterServiceOrPort [OF _ s2 t [unfolded doRegisterService_def]] law s'
    show ?thesis by simp
  qed
qed


end
