(* ===== verification/Sm_Example.thy ===== *)
theory Sm_Example
  imports Sm_Invariant
begin

text \<open>
  A concrete kernel under which the event loop of the service manager runs, and the
  evaluation of a run of it: the hypotheses that the theorems make about the kernel hold
  there, so it serves as their witness.
\<close>

section \<open>A small kernel\<close>

text \<open>
  A small kernel on which the event loop runs: one counted semaphore, fresh handles, and a
  list of events the next waits report.
\<close>

record demo_kernel =
  d_sem :: nat
  d_next :: nat
  d_events :: "(Result \<times> int \<times> u32 list) list"

definition demo_fresh :: "demo_kernel \<Rightarrow> Handle \<times> demo_kernel" where
  "demo_fresh k = (of_nat (d_next k), k\<lparr>d_next := d_next k + 1\<rparr>)"

text \<open>The module's own semaphore, the only one created with maximum 64, is handle 5; a wait
  reports it first when its count is positive.\<close>

definition demo_env :: "demo_kernel sm_env" where
  "demo_env =
     \<lparr>svcCreateSemaphore = (\<lambda>a b k. if b = 64 then ((0, 5), k)
         else case demo_fresh k of (h, k) \<Rightarrow> ((0, if h = 5 then 6 else h), k)),
      svcReleaseSemaphore = (\<lambda>h n k. (0, if h = 5 then k\<lparr>d_sem := d_sem k + n\<rparr> else k)),
      svcCloseHandle = (\<lambda>h k. k),
      svcCreatePort = (\<lambda>m k. case demo_fresh k of (h, k) \<Rightarrow>
         case demo_fresh k of (h', k) \<Rightarrow> ((0, h, h'), k)),
      svcCreateSessionToPort = (\<lambda>h k. case demo_fresh k of (h, k) \<Rightarrow> ((0, h), k)),
      svcAcceptSession = (\<lambda>h k. case demo_fresh k of (h, k) \<Rightarrow> ((0, h), k)),
      svcGetProcessId = (\<lambda>h k. ((0, 2), k)),
      svcGetSystemInfo = (\<lambda>k. (5, k)),
      svcReplyAndReceive = (\<lambda>hs t b k.
         if 0 < d_sem k \<and> hs \<noteq> [] then ((0, 0, b), k\<lparr>d_sem := d_sem k - 1\<rparr>)
         else case d_events k of
           [] \<Rightarrow> ((0xD8E007F7, -1, b), k)
         | (res, i, ws) # es \<Rightarrow>
             if i \<le> 0 \<or> i \<ge> int (length hs) then ((0xD8E007F7, -1, b), k)
             else ((res, i, set_words 0 ws b), k\<lparr>d_events := es\<rparr>)),
      R_FAILED = (\<lambda>r. sint r < 0),
      R_MODULE = (\<lambda>r. drop_bit 10 r AND 0xFF), R_SUMMARY = (\<lambda>r. drop_bit 21 r AND 0x3F),
      RM_SRV = 25, RS_WOULDBLOCK = 2,
      IPC_MakeHeader = (\<lambda>c n t. push_bit 16 c OR push_bit 6 (n AND 0x3F) OR (t AND 0x3F)),
      IPC_Desc_CurProcessId = 0x20,
      IPC_Desc_SharedHandles = (\<lambda>n. push_bit 26 (n - 1)),
      IPC_Desc_MoveHandles = (\<lambda>n. push_bit 26 (n - 1) OR 0x10),
      IPC_Desc_StaticBuffer = (\<lambda>size i. push_bit 14 size OR push_bit 10 (i AND 0xF) OR 2),
      IS_PRE_7X = False, IS_PRE_93 = False, CUR_PROCESS_HANDLE = 0xFFFF8001, uninitialised = 0x1234\<rparr>"


section \<open>A run\<close>

text \<open>Two clients connect; the first asks for the service \<open>"test"\<close>, which is not there, and is
  parked; the second registers it, which wakes the first.\<close>

definition demo_name :: "u8 list" where
  "demo_name = [0x74, 0x65, 0x73, 0x74, 0, 0, 0, 0]"

definition demo_get :: "u32 list" where
  "demo_get = [0x50100, 0x74736574, 0, 4, 0]"

definition demo_register :: "u32 list" where
  "demo_register = [0x30100, 0x74736574, 0, 4, 1]"

definition demo_boot :: demo_kernel where
  "demo_boot = \<lparr>d_sem = 0, d_next = 16, d_events =
     [(0, 1, []), (0, 1, []), (0, 4, demo_get), (0, 3, demo_register)]\<rparr>"

abbreviation demo_pm :: ServiceInfo where
  "demo_pm \<equiv> \<lparr>si_name = srv_pm_name, clientPort = 19, si_pid = 2, isNamedPort = False\<rparr>"

abbreviation demo_session :: "Handle \<Rightarrow> SessionData" where
  "demo_session h \<equiv> \<lparr>sd_pid = -1, replayCmdbuf = [0, 0, 0, 0], busyClientPortHandle = 0,
     sd_handle = h, isSrvPm = False\<rparr>"

definition demo0 :: "demo_kernel sm_state" where
  "demo0 = \<lparr>sessions = (\<lambda>_. zero_session),
     session_lists = (\<lambda>_. [])(SessionFree := [0..<nb_session_pool]),
     processes = (\<lambda>_. zero_process), process_lists = (\<lambda>_. [])(ProcessFree := [0..<nb_process_pool]),
     servicesInfo = (replicate max_services zero_service)[0 := demo_pm], nbServices = 1,
     nbSection0Modules = 5, resumeSemaphore = 5, cmdbuf = (\<lambda>_. 0),
     kernel = demo_boot\<lparr>d_next := 20\<rparr>, srvPort = 16, srvPmPort = 18, replyTarget = 0,
     srvPmSessionCreated = False\<rparr>"

definition demo1 :: "demo_kernel sm_state" where
  "demo1 = demo0\<lparr>sessions := (\<lambda>_. zero_session)(0 := demo_session 20),
     session_lists := (\<lambda>_. [])(SessionFree := [1..<nb_session_pool], SessionInUse := [0]),
     cmdbuf := (\<lambda>_. 0)(0 := 0xFFFF0000),
     kernel := \<lparr>d_sem = 0, d_next = 21, d_events = [(0, 1, []), (0, 4, demo_get), (0, 3, demo_register)]\<rparr>\<rparr>"

definition demo2 :: "demo_kernel sm_state" where
  "demo2 = demo1\<lparr>sessions := (\<lambda>_. zero_session)(0 := demo_session 20, 1 := demo_session 21),
     session_lists := (\<lambda>_. [])(SessionFree := [2..<nb_session_pool], SessionInUse := [1, 0]),
     kernel := \<lparr>d_sem = 0, d_next = 22, d_events = [(0, 4, demo_get), (0, 3, demo_register)]\<rparr>\<rparr>"

definition demo3 :: "demo_kernel sm_state" where
  "demo3 = demo2\<lparr>sessions := (\<lambda>_. zero_session)(0 := (demo_session 20)\<lparr>replayCmdbuf := take 4 demo_get\<rparr>,
                                                1 := demo_session 21),
     session_lists := (\<lambda>_. [])(SessionFree := [2..<nb_session_pool], SessionInUse := [1],
                              SessionWaitingRegister := [0]),
     cmdbuf := set_words 0 demo_get (\<lambda>_. 0),
     kernel := \<lparr>d_sem = 0, d_next = 22, d_events = [(0, 3, demo_register)]\<rparr>\<rparr>"

definition demo4 :: "demo_kernel sm_state" where
  "demo4 = demo3\<lparr>
     session_lists := (\<lambda>_. [])(SessionFree := [2..<nb_session_pool], SessionInUse := [1],
                              SessionToWakeUp := [0]),
     servicesInfo := ((servicesInfo demo3)[1 := \<lparr>si_name = demo_name, clientPort = 23, si_pid = -1,
                                                isNamedPort = False\<rparr>]), nbServices := 2,
     cmdbuf := set_words 0 [0x30042, 0, 0x10, 22] (set_words 0 demo_register (\<lambda>_. 0)),
     replyTarget := 21,
     kernel := \<lparr>d_sem = 1, d_next = 24, d_events = []\<rparr>\<rparr>"

definition demo5 :: "demo_kernel sm_state" where
  "demo5 = demo4\<lparr>
     session_lists := (\<lambda>_. [])(SessionFree := [2..<nb_session_pool], SessionInUse := [0, 1]),
     cmdbuf := set_words 0 [0x50042, 0, 0x10, 24] (set_words 0 demo_register (\<lambda>_. 0)),
     replyTarget := 20,
     kernel := \<lparr>d_sem = 0, d_next = 25, d_events = []\<rparr>\<rparr>"


lemma demo_names [simp]:
  "strncpy8 srv_pm_name = srv_pm_name" "strncpy8 demo_name = demo_name"
  "checkServiceName srv_pm_name 6 = 0" "checkServiceName demo_name 4 = 0"
  "areServiceNamesEqual srv_pm_name demo_name 4 = False"
  "areServiceNamesEqual demo_name demo_name 4 = True"
  "word_bytes 0x74736574 @ word_bytes 0 = demo_name"
  by code_simp+

lemma replicate_two: "replicate 2 x = [x, x]"
  by (simp add: numeral_2_eq_2)

lemma demo_start: "sm_run demo_env demo_boot 0 = Some demo0"
  by (simp add: demo0_def initSystem_def demo_env_def main_start_def demo_fresh_def doRegisterService_def
    assertSuccess_def doRegisterServiceOrPort_def Let_def
    findServicePortByName_def add_service_def wake_waiting_def demo_boot_def)

lemmas demo_defs = demo_env_def demo_fresh_def main_step_def on_success_def wait_handles_def accept_session_def
  alloc_session_def alloc_list_def move_list_def upd_session_def move_session_def assertSuccess_def Let_def
  select_session_def dispatch_def

lemma demo_step1: "main_step demo_env demo0 = Some demo1"
  by (simp add: demo1_def demo0_def demo_boot_def demo_defs zero_session_def upt_rec fun_eq_iff
     del: upt.simps)

lemma demo_step2: "main_step demo_env demo1 = Some demo2"
  by (simp add: demo2_def demo1_def demo0_def demo_boot_def demo_defs zero_session_def upt_rec fun_eq_iff
     del: upt.simps)


lemma demo_step3: "main_step demo_env demo2 = Some demo3"
  by (simp add: demo3_def demo2_def demo1_def demo0_def demo_boot_def demo_get_def demo_defs zero_session_def fun_eq_iff
     srvHandleCommands_def srv_GetServiceHandle_def GetServiceHandle_def checkServiceAccess_def name_at_def
     findServicePortByName_def take_list_update would_block_def save_request_def upt_rec 
     del: upt.simps)

lemma demo_step4: "main_step demo_env demo3 = Some demo4"
  by (simp add: demo4_def demo3_def demo2_def demo1_def demo0_def demo_boot_def demo_get_def
     demo_register_def demo_defs zero_session_def fun_eq_iff
     srvHandleCommands_def srv_RegisterService_def RegisterService_def doRegisterService_def doRegisterServiceOrPort_def checkServiceAccess_def name_at_def
     findServicePortByName_def take_list_update would_block_def add_service_def wake_waiting_def waits_for_def reply_def
     del: upt.simps)

lemma demo_step5: "main_step demo_env demo4 = Some demo5"
  by (simp add: demo5_def demo4_def demo3_def demo2_def demo1_def demo0_def demo_boot_def demo_get_def
     demo_register_def demo_defs zero_session_def fun_eq_iff
     restore_request_def srvHandleCommands_def srv_GetServiceHandle_def GetServiceHandle_def checkServiceAccess_def name_at_def
     findServicePortByName_def take_list_update would_block_def reply_def replicate_two
     del: upt.simps)

lemma demo_step6: "main_step demo_env demo5 = None"
  by (simp add: demo5_def demo_defs)

section \<open>The laws hold\<close>

lemma demo_laws: "semaphore_law demo_env 5 d_sem" "libctru_ok demo_env" "receive_law demo_env"
  by (auto simp: semaphore_law_def libctru_ok_def receive_law_def demo_env_def demo_fresh_def
      split: prod.splits list.splits if_splits)

lemma demo_reachable:
  "sm_reachable demo_env demo_boot s \<Longrightarrow> s \<in> {demo0, demo1, demo2, demo3, demo4, demo5}"
proof (induction rule: sm_reachable.induct)
  case (start s0 s)
  then have "sm_run demo_env demo_boot 0 = Some s" by simp
  then have "Some s = Some demo0" unfolding demo_start by simp
  then show ?case by simp
next
  case (step s s')
  then show ?case
    by (auto simp: demo_step1 demo_step2 demo_step3 demo_step4 demo_step5 demo_step6)
qed

lemma demo_reaches4: "sm_reachable demo_env demo_boot demo4"
proof -
  have "sm_run demo_env demo_boot 4 = Some demo4"
    by (simp add: eval_nat_numeral demo_start [simplified] demo_step1 demo_step2 demo_step3 demo_step4)
  then show ?thesis unfolding sm_reachable_run ..
qed

lemma demo_reaches: "sm_reachable demo_env demo_boot demo5"
  using demo_reaches4 demo_step5 by (rule sm_reachable.step)

lemma demo_distinct: "sm_reachable demo_env demo_boot s \<Longrightarrow> live_handles_distinct s"
  by (drule demo_reachable)
    (auto simp: live_handles_distinct_def demo0_def demo1_def demo2_def demo3_def demo4_def demo5_def
      less_Suc_eq numeral_2_eq_2 zero_session_def split: if_splits simp del: upt.simps upt_rec_numeral)

end
