(* ===== verification/Sm_Theorems.thy ===== *)
theory Sm_Theorems
  imports Sm_Example
begin

text \<open>
  The properties of the service manager: the event loop, the registry, the processes and
  their notifications. Each stands for the behaviour its text states; the lemmas before a
  property are what its proof needs beyond the component theories.
\<close>

section \<open>Service names\<close>

lemma result_failed [simp]:
  assumes "libctru_ok E"
  shows "R_FAILED E 0xD9006405" "R_FAILED E 0xD9006407" "R_FAILED E 0xD9001BFC" "R_FAILED E 0xD86067F3"
    "R_FAILED E 0xD8801BFA" "R_FAILED E 0xD8E06406" "R_FAILED E 0xD8806404" "R_FAILED E 0xD8606408"
    "R_FAILED E 0xC920181A" "R_FAILED E 0xD0406401" "R_FAILED E 0xD0406402" "\<not> R_FAILED E 0"
  using assms by (simp_all add: libctru_ok_def)

lemma uint_eq_sint: "0 \<le> sint (n :: u32) \<Longrightarrow> uint n = sint n"
proof -
  assume "0 \<le> sint n"
  then have "\<not> bit (uint n) 31" using bit_last_iff [of n] by (simp add: bit_uint_iff)
  then show ?thesis
    using uint_lt2p [of n] by (simp add: sint_uint signed_take_bit_eq_take_bit_minus take_bit_eq_mod)
qed

lemma checkServiceName_valid:
  assumes "libctru_ok E" and "\<not> R_FAILED E (checkServiceName name size32)" and "length name = 8"
  shows "checkServiceName name size32 = 0" and "0 < unat size32" and "unat size32 \<le> 8"
    and "0 \<notin> set (take (unat size32) name)"
proof -
  have a: "0 < sint size32" "sint size32 \<le> 8" "\<not> strnlen name (unat size32) < unat size32"
    using assms(1,2) by (auto simp: checkServiceName_def split: if_splits)
  then show "checkServiceName name size32 = 0" by (simp add: checkServiceName_def)
  have "uint size32 = sint size32" using a(1) by (intro uint_eq_sint) simp
  then show u: "0 < unat size32" "unat size32 \<le> 8" using a by (simp_all add: unat_eq_nat_uint)
  show "0 \<notin> set (take (unat size32) name)"
    using a(3) strnlen_full_iff [of "unat size32" name] u assms(3) by simp
qed

text \<open>A name buffer whose bytes after the name are zero at the position the comparison looks at.\<close>

definition padded :: "u8 list \<Rightarrow> u32 \<Rightarrow> bool" where
  "padded name size32 \<longleftrightarrow> size32 = 8 \<or> name ! unat size32 = 0"

lemma names_equal_iff:
  assumes "length a = 8" and "length b = 8" and "unat n \<le> 8" and "0 \<notin> set (take (unat n) b)"
  shows "areServiceNamesEqual a b n \<longleftrightarrow> take (unat n) a = take (unat n) b \<and> padded a n"
proof -
  have "unat n = unat (8 :: u32) \<Longrightarrow> n = 8" by (simp only: word_unat_eq_iff)
  then have "n \<noteq> 8 \<Longrightarrow> unat n < 8" using assms(3) by fastforce
  then show ?thesis
    using assms strncmp_eq_take [of "unat n" a b] by (auto simp: areServiceNamesEqual_def padded_def)
qed

lemma strncpy8_nth:
  assumes "length name = 8" and "k \<le> 8" and "0 \<notin> set (take k name)"
  shows "take k (strncpy8 name) = take k name"
    and "k < 8 \<Longrightarrow> name ! k = 0 \<Longrightarrow> strncpy8 name = take k name @ replicate (8 - k) 0"
    and "k < 8 \<Longrightarrow> name ! k \<noteq> 0 \<Longrightarrow> strncpy8 name ! k = name ! k"
proof -
  have A: "take j (strncpy8 name) = take j name" if "j \<le> 8" "0 \<notin> set (take j name)" for j
  proof -
    have "takeWhile (\<lambda>c. c \<noteq> 0) (take j name @ drop j name)
        = take j name @ takeWhile (\<lambda>c. c \<noteq> 0) (drop j name)"
      by (rule takeWhile_append2) (use that(2) in auto)
    then obtain ys where ys: "takeWhile (\<lambda>c. c \<noteq> 0) name = take j name @ ys" by simp
    have "length (take j name) = j" using that assms(1) by simp
    then show ?thesis using assms(1) by (simp add: strncpy8_def Let_def ys)
  qed
  show "take k (strncpy8 name) = take k name" using A assms by blast
  show "strncpy8 name = take k name @ replicate (8 - k) 0" if "k < 8" "name ! k = 0"
  proof -
    have "takeWhile (\<lambda>c. c \<noteq> 0) name = take k name"
      using assms that by (intro takeWhile_eq_take_P_nth) (auto simp: in_set_conv_nth)
    with assms(1) that show ?thesis by (simp add: strncpy8_def Let_def)
  qed
  show "strncpy8 name ! k = name ! k" if "k < 8" "name ! k \<noteq> 0"
  proof -
    have "0 \<notin> set (take (Suc k) name)" using assms that by (simp add: take_Suc_conv_app_nth)
    from A [OF _ this] that have "take (Suc k) (strncpy8 name) = take (Suc k) name" by simp
    then show ?thesis by (metis lessI nth_take)
  qed
qed


section \<open>The event loop\<close>

text \<open>What the module relies on of the kernel that runs it: the libctru macros, the
  semaphore it waits on, and handle values that name one open session each.\<close>

definition kernel_ok :: "'k sm_env \<Rightarrow> 'k \<Rightarrow> ('k \<Rightarrow> nat) \<Rightarrow> bool" where
  "kernel_ok E k0 sem \<longleftrightarrow> libctru_ok E
     \<and> (\<forall>s0. initSystem E k0 = Some s0 \<longrightarrow> sem (kernel s0) = 0 \<and> semaphore_law E (resumeSemaphore s0) sem)
     \<and> (\<forall>s. sm_reachable E k0 s \<longrightarrow> live_handles_distinct s)"

lemma demo_kernel_ok: "kernel_ok demo_env demo_boot d_sem"
  unfolding kernel_ok_def
proof (intro conjI allI impI)
  show "libctru_ok demo_env" by (rule demo_laws)
  fix s0 assume "initSystem demo_env demo_boot = Some s0"
  then have "resumeSemaphore s0 = 5" "d_sem (kernel s0) = 0"
    by (auto simp: initSystem_def demo_env_def demo_boot_def assertSuccess_def)
  then show "d_sem (kernel s0) = 0" "semaphore_law demo_env (resumeSemaphore s0) d_sem"
    using demo_laws by simp_all
qed (rule demo_distinct)

lemma reachable_inv:
  assumes K: "kernel_ok E k0 sem" and r: "sm_reachable E k0 s"
  shows "sm_inv sem s \<and> semaphore_law E (resumeSemaphore s) sem"
  using r
proof induction
  case (start s0 s)
  have 0: "sem (kernel s0) = 0" "semaphore_law E (resumeSemaphore s0) sem"
    using K start(1) unfolding kernel_ok_def by blast+
  from inv_main_start [OF 0(2) inv_initSystem(1) [of E k0 s0 sem, OF start(1) 0(1)] start(2)] 0(2)
  show ?case by simp
next
  case (step s s')
  have "live_handles_distinct s" "libctru_ok E" using K step(1) unfolding kernel_ok_def by blast+
  then have "R_FAILED E 0xC920181A" "live_handles_distinct s" by (simp_all add: libctru_ok_def)
  with inv_main_step [of E s sem s'] step show ?case by simp
qed

text \<open>C1. In every state the event loop reaches, the session and process pools are
  partitioned by their lists, every registered process has a well-formed queue of pending
  notifications and a duplicate-free set of subscriptions, no two processes have the same
  pid, the registry does not exceed its array, and the count of the resume semaphore is the
  number of sessions waiting to be woken up.\<close>

theorem sm_invariant:
  assumes "kernel_ok E k0 sem" and "sm_reachable E k0 s"
  shows "sm_inv sem s"
  using reachable_inv [OF assms] by blast

lemma sm_invariant_witness:
  "sm_inv d_sem demo5 \<and> session_lists demo5 SessionInUse = [0, 1]"
  using sm_invariant [OF demo_kernel_ok demo_reaches] by (simp add: demo5_def)

text \<open>C2. When a wait reports the resume semaphore in a state the loop reaches, there is a
  session to wake up (the panic is not reached): the one that has waited longest goes back to
  the sessions in use, and the first four words of its request are put back into the command
  buffer. The words after those (the flags of \<open>GetServiceHandle\<close> are word 4) keep what the
  previous request left there.\<close>

theorem wakeup_resumes:
  assumes "kernel_ok E k0 sem" and "sm_reachable E k0 s" and "\<not> R_FAILED E res"
    and "svcReplyAndReceive E (wait_handles s) (replyTarget s) b (kernel s) = ((res, 0, buf), k)"
  shows "\<exists>n rest t. session_lists s SessionToWakeUp = n # rest
     \<and> select_session (wait_handles s) 0 (s\<lparr>cmdbuf := buf, kernel := k, replyTarget := 0\<rparr>) = Some (Some (n, t))
     \<and> session_lists t SessionInUse = n # session_lists s SessionInUse
     \<and> session_lists t SessionToWakeUp = rest
     \<and> map (cmdbuf t) [0..<4] = replayCmdbuf (sessions s n)
     \<and> (\<forall>i \<ge> 4. cmdbuf t i = buf i)"
proof -
  note inv = reachable_inv [OF assms(1,2)]
  have "0 < sem (kernel s)" using semaphore_receive [OF conjunct2 [OF inv] assms(4)] assms(3) by simp
  then have "session_lists s SessionToWakeUp \<noteq> []" using inv by (auto simp: inv_defs)
  then obtain n rest where n: "session_lists s SessionToWakeUp = n # rest"
    by (meson neq_Nil_conv)
  let ?t = "restore_request n (move_session n SessionInUse False (s\<lparr>cmdbuf := buf, kernel := k, replyTarget := 0\<rparr>))"
  have L: "lists_ok (session_lists s)" using inv_lists_ok [OF conjunct1 [OF inv]] .
  have m: "n \<in> set (session_lists s SessionToWakeUp)" using n by simp
  have "length (replayCmdbuf (sessions s n)) = 4" using inv_session_length [OF conjunct1 [OF inv]] .
  then obtain w0 w1 w2 w3 where w: "replayCmdbuf (sessions s n) = [w0, w1, w2, w3]"
    by (auto simp: length_Suc_conv eval_nat_numeral)
  have "n \<notin> set (session_lists s SessionInUse)"
    using abs_lists.ok_disjoint [of "session_lists s", OF L m] by blast
  then have "session_lists ?t SessionInUse = n # session_lists s SessionInUse"
    "session_lists ?t SessionToWakeUp = rest"
    using n by (simp_all add: move_session_def move_list_def)
  moreover have "map (cmdbuf ?t) [0..<4] = replayCmdbuf (sessions s n)" "\<forall>i \<ge> 4. cmdbuf ?t i = buf i"
    by (simp_all add: restore_request_def move_session_def w upt_rec)
  ultimately show ?thesis using n by (auto simp: select_session_def)
qed

lemma wakeup_resumes_witness:
  "\<exists>n rest t. session_lists demo4 SessionToWakeUp = n # rest
     \<and> select_session (wait_handles demo4) 0
         (demo4\<lparr>cmdbuf := cmdbuf demo4, kernel := (kernel demo4)\<lparr>d_sem := 0\<rparr>, replyTarget := 0\<rparr>) = Some (Some (n, t))
     \<and> session_lists t SessionInUse = n # session_lists demo4 SessionInUse
     \<and> session_lists t SessionToWakeUp = rest
     \<and> map (cmdbuf t) [0..<4] = replayCmdbuf (sessions demo4 n)
     \<and> (\<forall>i \<ge> 4. cmdbuf t i = cmdbuf demo4 i)"
  by (rule wakeup_resumes [OF demo_kernel_ok demo_reaches4, where res = 0 and b = "cmdbuf demo4"])
    (simp_all add: demo4_def demo_env_def wait_handles_def)

text \<open>The array \<open>handles[0xE3]\<close> of \<open>main\<close> is large enough for every handle list the loop
  builds: at most three fixed handles and one per session of the pool.\<close>

theorem wait_handles_bound:
  assumes "kernel_ok E k0 sem" and "sm_reachable E k0 s"
  shows "length (wait_handles s) \<le> 3 + nb_session_pool"
proof -
  have "pool_ok nb_session_pool (session_lists s)"
    using reachable_inv [OF assms] by (simp add: inv_defs)
  from pool_ok_length2 [OF this, of SessionInUse SessionWaitingPortReady]
  show "length (wait_handles s) \<le> 3 + nb_session_pool" by (simp add: wait_handles_simps)
qed

lemma wait_handles_bound_witness:
  "length (wait_handles demo5) \<le> 3 + nb_session_pool \<and> length (wait_handles demo5) = 5"
  using wait_handles_bound [OF demo_kernel_ok demo_reaches] by (simp add: demo5_def wait_handles_def demo4_def)


section \<open>The registry\<close>

text \<open>\<open>"testX"\<close>, for the name \<open>"test"\<close> of length 4.\<close>

definition demo_unpadded :: "u8 list" where
  "demo_unpadded = [0x74, 0x65, 0x73, 0x74, 0x58, 0, 0, 0]"

lemma demo_length: "length demo_name = 8" by code_simp

lemma demo_padded [simp]:
  "padded demo_name 4" "\<not> padded demo_unpadded 4" "checkServiceName demo_unpadded 4 = 0"
  "areServiceNamesEqual srv_pm_name demo_unpadded 4 = False"
  by code_simp+

lemma find_from_append_None:
  "find_from P xs = None \<Longrightarrow> find_from P (xs @ [x]) = (if P x then Some (length xs) else None)"
  by (induction xs) (auto split: if_splits)

lemma find_from_append_miss: "\<not> P x \<Longrightarrow> find_from P (xs @ [x]) = find_from P xs"
  by (induction xs) auto

lemma find_after_entry:
  assumes "registered s' = registered s @ [e]" and "findServicePortByName s named name n = None"
  shows "findServicePortByName s' named name n
     = (if isNamedPort e = named \<and> areServiceNamesEqual (si_name e) name n
        then Some (length (registered s)) else None)"
  using find_from_append_None [OF assms(2) [unfolded findServicePortByName_def, folded registered_def], of e]
  unfolding findServicePortByName_def registered_def [symmetric] assms(1) by simp

text \<open>What a successful registration leaves behind.\<close>

lemma register_entered:
  assumes K: "libctru_ok E" and inv: "sm_inv sem s" and len: "length name = 8"
    and r: "doRegisterServiceOrPort E pid sp cp name n maxs named s = Some ((res, h), s')"
    and ok: "\<not> R_FAILED E res"
  obtains port k p where "registered s' = registered s @ [\<lparr>si_name = strncpy8 name, clientPort = port, si_pid = pid, isNamedPort = named\<rparr>]"
    and "length (registered s) = nbServices s" and "nbServices s' = nbServices s + 1"
    and "findServicePortByName s named name n = None"
    and "\<not> R_FAILED E (checkServiceName name n)" and "service_table_ok s'"
    and "if named then k = kernel s \<and> port = cp
       else svcCreatePort E maxs (kernel s) = (p, k) \<and> port = snd (snd p) \<and> h = fst (snd p) \<and> \<not> R_FAILED E (fst p)"
    and "wake_waiting E named name
         (add_service \<lparr>si_name = strncpy8 name, clientPort = port, si_pid = pid, isNamedPort = named\<rparr>
            (s\<lparr>kernel := k\<rparr>)) = Some s'"
  using r
proof (cases rule: doRegister_cases)
  case refused
  then show ?thesis using ok K by auto
next
  case (no_port p k)
  then show ?thesis using ok K by simp
next
  case (entered p k port)
  let ?e = "\<lparr>si_name = strncpy8 name, clientPort = port, si_pid = pid, isNamedPort = named\<rparr>"
  let ?t = "add_service ?e (s\<lparr>kernel := k\<rparr>)"
  obtain L k' where s': "s' = ?t\<lparr>session_lists := L, kernel := k'\<rparr>"
    using wake_waiting_frame [OF entered(3)] by blast
  have ok: "service_table_ok (s\<lparr>kernel := k\<rparr>)" using inv by (simp add: inv_defs)
  have "registered s' = registered (add_service ?e (s\<lparr>kernel := k\<rparr>))"
    by (simp add: s' registered_def)
  also have "\<dots> = registered (s\<lparr>kernel := k\<rparr>) @ [?e]"
    using services.entries_add [OF ok] entered(1) by simp
  finally have reg: "registered s' = registered s @ [?e]" by (simp add: registered_def)
  have tab: "service_table_ok s'"
    using services.add_ok [OF ok] entered(1) by (simp add: s' service_table_ok_def add_service_def)
  have len: "length (registered s) = nbServices s" using ok by (simp add: registered_def service_table_ok_def)
  have nb: "nbServices s' = nbServices s + 1" by (simp add: s' add_service_def)
  show ?thesis
    by (rule that [OF reg len nb entered(4,5) tab _ entered(3)]) (use entered in auto)
qed

text \<open>The name stored by a registration under a padded name matches a lookup exactly when
  the two names are the same.\<close>

lemma stored_equal_iff:
  assumes K: "libctru_ok E"
    and a: "length a = 8" "\<not> R_FAILED E (checkServiceName a n)" "padded a n"
    and b: "length b = 8" "\<not> R_FAILED E (checkServiceName b m)"
  shows "areServiceNamesEqual (strncpy8 a) b m \<longleftrightarrow> take (unat m) b = take (unat n) a"
proof -
  note A = checkServiceName_valid [OF K a(2,1)] and B = checkServiceName_valid [OF K b(2,1)]
  let ?S = "strncpy8 a"
  have n8: "unat n < 8" if "n \<noteq> 8"
  proof -
    have "unat n \<noteq> unat (8 :: u32)" using that word_unat_eq_iff by blast
    then show ?thesis using A(3) by simp
  qed
  have S: "?S = take (unat n) a @ replicate (8 - unat n) 0"
  proof (cases "n = 8")
    case True
    then show ?thesis using strncpy8_nth(1) [OF a(1), of 8] A(4) a(1) by simp
  next
    case False
    then show ?thesis using strncpy8_nth(2) [OF a(1) A(3,4) n8] a(3) by (simp add: padded_def)
  qed
  have eq: "areServiceNamesEqual ?S b m \<longleftrightarrow> take (unat m) ?S = take (unat m) b \<and> padded ?S m"
    using names_equal_iff [OF _ b(1) B(3,4)] by simp
  consider "unat m < unat n" | "unat m = unat n" | "unat n < unat m" by linarith
  then show ?thesis
  proof cases
    case 1
    have "a ! unat m \<in> set (take (unat n) a)" using 1 A(3) a(1) by (auto simp: in_set_conv_nth)
    then have "?S ! unat m \<noteq> 0" using A(4) 1 a(1) A(3) by (auto simp: S nth_append)
    moreover have "m \<noteq> 8" using 1 A(3) by auto
    ultimately have "\<not> padded ?S m" by (simp add: padded_def)
    moreover have "take (unat m) b \<noteq> take (unat n) a"
      using 1 A(3) B(3) a(1) b(1) by (metis length_take less_irrefl min.absorb2)
    ultimately show ?thesis using eq by simp
  next
    case 2
    then have "m = n" by (simp add: word_unat_eq_iff)
    have "padded ?S n" using n8 A(3) a(1) by (cases "n = 8") (simp_all add: padded_def S nth_append)
    then show ?thesis using eq A(3) a(1) by (auto simp: S \<open>m = n\<close>)
  next
    case 3
    then have "0 \<in> set (take (unat m) ?S)" using B(3) A(3) a(1) by (auto simp: S)
    then have "take (unat m) ?S \<noteq> take (unat m) b" using B(4) by metis
    moreover have "take (unat m) b \<noteq> take (unat n) a"
      using 3 A(3) B(3) a(1) b(1) by (metis length_take less_irrefl min.absorb2)
    ultimately show ?thesis using eq by simp
  qed
qed

text \<open>C4. A service or port that is registered under a padded name (the byte behind the name, if
  there is one, is zero) is from then on found under that name. Its entry has the pid of the caller and, for a port,
  the handle the caller passed; for a service, the client end of the port that the kernel created with the
  requested number of sessions, whose server end is what the caller gets. Every lookup of another
  name, or of the same name as the other kind of entry, answers as before.\<close>

theorem registered_found:
  assumes "libctru_ok E" and "sm_inv sem s" and "length name = 8" and "padded name n"
    and "doRegisterServiceOrPort E pid sp cp name n maxs named s = Some ((res, h), s')"
    and "\<not> R_FAILED E res"
  shows "findServicePortByName s' named name n = Some (nbServices s)
     \<and> si_pid (servicesInfo s' ! nbServices s) = pid
     \<and> (if named then clientPort (servicesInfo s' ! nbServices s) = cp
        else case svcCreatePort E maxs (kernel s) of ((r, server, client), k) \<Rightarrow>
          \<not> R_FAILED E r \<and> h = server \<and> clientPort (servicesInfo s' ! nbServices s) = client)
     \<and> (\<forall>named' b m. length b = 8 \<and> \<not> R_FAILED E (checkServiceName b m)
           \<and> (named' \<noteq> named \<or> take (unat m) b \<noteq> take (unat n) name)
          \<longrightarrow> findServicePortByName s' named' b m = findServicePortByName s named' b m)"
  using assms(5)
proof (rule register_entered [OF assms(1-3) _ assms(6)])
  fix port k p
  let ?e = "\<lparr>si_name = strncpy8 name, clientPort = port, si_pid = pid, isNamedPort = named\<rparr>"
  assume reg: "registered s' = registered s @ [?e]" and len: "length (registered s) = nbServices s"
    and nb: "nbServices s' = nbServices s + 1"
    and none: "findServicePortByName s named name n = None"
    and valid: "\<not> R_FAILED E (checkServiceName name n)" and tab: "service_table_ok s'"
    and port: "if named then k = kernel s \<and> port = cp
       else svcCreatePort E maxs (kernel s) = (p, k) \<and> port = snd (snd p) \<and> h = fst (snd p) \<and> \<not> R_FAILED E (fst p)"
  note V = checkServiceName_valid [OF assms(1) valid assms(3)]
  have nth: "servicesInfo s' ! nbServices s = ?e"
    using reg len nb tab by (metis lessI nth_append_length nth_take registered_def Suc_eq_plus1)
  have find: "findServicePortByName s' nm b m
      = find_from (\<lambda>i. isNamedPort i = nm \<and> areServiceNamesEqual (si_name i) b m) (registered s @ [?e])" for nm b m
    by (simp add: findServicePortByName_def reg flip: registered_def)
  have hit: "areServiceNamesEqual (strncpy8 name) b m \<longleftrightarrow> take (unat m) b = take (unat n) name"
    if "length b = 8" "\<not> R_FAILED E (checkServiceName b m)" for b m
    using stored_equal_iff [OF assms(1,3) valid assms(4) that] .
  have "findServicePortByName s' named name n = Some (nbServices s)"
    using find_after_entry [OF reg none] len hit [OF assms(3) valid] by simp
  moreover have "findServicePortByName s' nm b m = findServicePortByName s nm b m"
    if "length b = 8" "\<not> R_FAILED E (checkServiceName b m)"
      "nm \<noteq> named \<or> take (unat m) b \<noteq> take (unat n) name" for nm b m
    unfolding find using that hit [OF that(1,2)]
    by (subst find_from_append_miss) (auto simp: findServicePortByName_def registered_def)
  moreover have "si_pid (servicesInfo s' ! nbServices s) = pid"
    "if named then clientPort (servicesInfo s' ! nbServices s) = cp
     else case svcCreatePort E maxs (kernel s) of ((r, server, client), k) \<Rightarrow>
       \<not> R_FAILED E r \<and> h = server \<and> clientPort (servicesInfo s' ! nbServices s) = client"
    using nth port by (auto split: prod.splits)
  ultimately show ?thesis by blast
qed

lemma demo_inv0: "sm_inv d_sem demo0"
proof -
  have "sm_reachable demo_env demo_boot demo0" using demo_start unfolding sm_reachable_run ..
  then show ?thesis using reachable_inv [OF demo_kernel_ok] by blast
qed

lemma demo_registration:
  assumes "name = demo_name \<and> n = 4 \<or> name = demo_unpadded \<and> n = 4"
  shows "doRegisterServiceOrPort demo_env pid 0 99 name n (-1) True demo0
     = Some ((0, 0), add_service \<lparr>si_name = strncpy8 name, clientPort = 99, si_pid = pid, isNamedPort = True\<rparr> demo0)"
  using assms by (auto simp: doRegisterServiceOrPort_def demo_env_def findServicePortByName_def demo0_def
      take_list_update wake_waiting_def Let_def)

lemma demo_facts: "R_FAILED demo_env r \<longleftrightarrow> sint r < 0" "sd_pid (sessions (add_service e demo0) n) = 0"
  by (simp_all add: demo_env_def add_service_def demo0_def zero_session_def)

text \<open>A name whose bytes after the given length are not zero passes the check of the name
  and is registered, but the entry is stored with those bytes: no lookup under the name and
  length it was registered with finds it, so the same registration succeeds again.\<close>

theorem unpadded_registration_lost:
  assumes "libctru_ok E" and "sm_inv sem s" and "length name = 8" and "\<not> padded name n"
    and "doRegisterServiceOrPort E pid sp cp name n maxs named s = Some ((res, h), s')"
    and "\<not> R_FAILED E res"
  shows "nbServices s' = nbServices s + 1 \<and> findServicePortByName s' named name n = None"
  using assms(5)
proof (rule register_entered [OF assms(1-3) _ assms(6)])
  fix port k p
  let ?e = "\<lparr>si_name = strncpy8 name, clientPort = port, si_pid = pid, isNamedPort = named\<rparr>"
  assume reg: "registered s' = registered s @ [?e]" and nb: "nbServices s' = nbServices s + 1"
    and none: "findServicePortByName s named name n = None"
    and valid: "\<not> R_FAILED E (checkServiceName name n)"
  note V = checkServiceName_valid [OF assms(1) valid assms(3)]
  have "n \<noteq> 8" using assms(4) by (simp add: padded_def)
  then have "unat n \<noteq> unat (8 :: u32)" using word_unat_eq_iff by blast
  then have "unat n < 8" using V(3) by simp
  then have "\<not> padded (strncpy8 name) n"
    using strncpy8_nth(3) [OF assms(3) V(3,4)] assms(4) by (simp add: padded_def)
  then have "\<not> areServiceNamesEqual (strncpy8 name) name n"
    using names_equal_iff [OF _ assms(3) V(3,4)] by simp
  then show ?thesis
    using find_after_entry [OF reg none] nb by simp
qed

lemma unpadded_registration_lost_witness:
  "findServicePortByName (add_service \<lparr>si_name = strncpy8 demo_unpadded, clientPort = 99, si_pid = 7, isNamedPort = True\<rparr> demo0)
     True demo_unpadded 4 = None"
  using unpadded_registration_lost [OF demo_laws(2) demo_inv0 _ _ demo_registration] demo_padded
  by (simp add: demo_unpadded_def demo_env_def)

text \<open>C6. A successful registration moves exactly the sessions whose saved request is for that
  kind and matches the name from the waiting list to the end of the wake-up list, in the
  order they waited, and releases the resume semaphore by their number; a session that waits
  for this very name is one of them.\<close>

theorem registration_wakes:
  assumes "libctru_ok E" and "sm_inv sem s" and "semaphore_law E (resumeSemaphore s) sem"
    and "length name = 8"
    and "doRegisterServiceOrPort E pid sp cp name n maxs named s = Some ((res, h), s')"
    and "\<not> R_FAILED E res"
  shows "session_lists s' SessionToWakeUp = session_lists s SessionToWakeUp
           @ filter (\<lambda>x. waits_for named name (sessions s x)) (session_lists s SessionWaitingRegister)
     \<and> session_lists s' SessionWaitingRegister
         = filter (\<lambda>x. \<not> waits_for named name (sessions s x)) (session_lists s SessionWaitingRegister)
     \<and> session_lists s' SessionInUse = session_lists s SessionInUse
     \<and> sessions s' = sessions s
     \<and> sem (kernel s') = sem (kernel s)
         + length (filter (\<lambda>x. waits_for named name (sessions s x)) (session_lists s SessionWaitingRegister))
     \<and> (padded name n \<longrightarrow> (\<forall>x \<in> set (session_lists s SessionWaitingRegister).
           replayCmdbuf (sessions s x) ! 0 AND 0xF0000 = (if named then 0x80000 else 0x50000)
           \<and> word_bytes (replayCmdbuf (sessions s x) ! 1) @ word_bytes (replayCmdbuf (sessions s x) ! 2) = name
           \<and> replayCmdbuf (sessions s x) ! 3 = n
          \<longrightarrow> x \<in> set (session_lists s' SessionToWakeUp)))"
  using assms(5)
proof (rule register_entered [OF assms(1,2,4) _ assms(6)])
  fix port k p
  let ?t = "add_service \<lparr>si_name = strncpy8 name, clientPort = port, si_pid = pid, isNamedPort = named\<rparr>
              (s\<lparr>kernel := k\<rparr>)"
  let ?P = "\<lambda>x. waits_for named name (sessions s x)"
  assume w: "wake_waiting E named name ?t = Some s'"
    and valid: "\<not> R_FAILED E (checkServiceName name n)"
    and port: "if named then k = kernel s \<and> port = cp
       else svcCreatePort E maxs (kernel s) = (p, k) \<and> port = snd (snd p) \<and> h = fst (snd p) \<and> \<not> R_FAILED E (fst p)"
  have same: "session_lists ?t = session_lists s" "sessions ?t = sessions s" "kernel ?t = k"
    by (simp_all add: add_service_def)
  have sk: "sem k = sem (kernel s)"
    using port semaphore_frame(2) [OF assms(3), of maxs "kernel s" p k] by (auto split: if_splits)
  have "pool_ok nb_session_pool (session_lists ?t)" using assms(2) by (simp add: inv_defs same)
  note W = wake_waiting_spec [OF this w, unfolded same]
  have law: "semaphore_law E (resumeSemaphore ?t) sem" using assms(3) by simp
  have "waits_for named name (sessions s x)"
    if "padded name n" "replayCmdbuf (sessions s x) ! 0 AND 0xF0000 = (if named then 0x80000 else 0x50000)"
      "word_bytes (replayCmdbuf (sessions s x) ! 1) @ word_bytes (replayCmdbuf (sessions s x) ! 2) = name"
      "replayCmdbuf (sessions s x) ! 3 = n" for x
    using that checkServiceName_valid [OF assms(1) valid assms(4)] names_equal_iff [OF assms(4,4), of n]
    by (simp add: waits_for_def)
  moreover have "sessions s' = sessions s" by (subst W(1)) (simp add: same)
  ultimately show ?thesis
    using W(2,3) W(4) [of SessionInUse] W(5) [OF law] sk by auto
qed

lemma demo_inv3: "sm_inv d_sem demo3"
proof -
  have "sm_run demo_env demo_boot 3 = Some demo3"
    by (simp add: eval_nat_numeral demo_start [simplified] demo_step1 demo_step2 demo_step3)
  then have "sm_reachable demo_env demo_boot demo3" unfolding sm_reachable_run ..
  then show ?thesis using reachable_inv [OF demo_kernel_ok] by blast
qed

text \<open>The registration that wakes the client of the example run.\<close>

definition demo_woken :: "demo_kernel sm_state" where
  "demo_woken = demo3\<lparr>session_lists := (\<lambda>_. [])(SessionFree := [2..<nb_session_pool], SessionInUse := [1],
       SessionToWakeUp := [0]),
     servicesInfo := ((servicesInfo demo3)[1 := \<lparr>si_name = demo_name, clientPort = 23, si_pid = 7,
                                                isNamedPort = False\<rparr>]), nbServices := 2,
     kernel := \<lparr>d_sem = 1, d_next = 24, d_events = [(0, 3, demo_register)]\<rparr>\<rparr>"

lemma demo_wake: "doRegisterServiceOrPort demo_env 7 0 0 demo_name 4 1 False demo3 = Some ((0, 22), demo_woken)"
  by (simp add: demo_woken_def demo3_def demo2_def demo1_def demo0_def demo_boot_def demo_get_def demo_defs
      fun_eq_iff doRegisterServiceOrPort_def findServicePortByName_def take_list_update add_service_def
      wake_waiting_def waits_for_def del: upt.simps)

lemma registered_found_witness:
  "findServicePortByName demo_woken False demo_name 4 = Some 1 \<and> si_pid (servicesInfo demo_woken ! 1) = 7
   \<and> clientPort (servicesInfo demo_woken ! 1) = 23"
proof -
  have l: "length demo_name = 8" "nbServices demo3 = 1" by (simp_all add: demo_length demo3_def demo2_def demo1_def demo0_def)
  have p: "svcCreatePort demo_env 1 (kernel demo3) = ((0, 22, 23), snd (svcCreatePort demo_env 1 (kernel demo3)))"
    by (simp add: demo_env_def demo_fresh_def demo3_def demo2_def demo1_def demo0_def)
  have "\<not> R_FAILED demo_env 0" by (simp add: demo_env_def)
  from registered_found [OF demo_laws(2) demo_inv3 l(1) demo_padded(1) demo_wake this] show ?thesis
    unfolding l(2) by (subst (asm) p) simp
qed

lemma registration_wakes_witness:
  "session_lists demo_woken SessionToWakeUp = [0] \<and> d_sem (kernel demo_woken) = 1"
proof -
  have "semaphore_law demo_env (resumeSemaphore demo3) d_sem"
    using demo_laws(1) by (simp add: demo3_def demo2_def demo1_def demo0_def)
  from registration_wakes [OF demo_laws(2) demo_inv3 this _ demo_wake]
  show ?thesis
    by (simp add: demo_name_def demo_env_def)
      (simp add: demo3_def demo_get_def waits_for_def demo_name_def [symmetric])
qed

text \<open>C7. The process that registered a padded name (the byte behind the name, if there is one, is zero) can
  take it back, which leaves the registry as it was before the registration; any other process
  gets an error and changes nothing. An entry under a name that is not padded is not found, so not
  even its owner can take it back.\<close>

theorem register_unregister:
  assumes "libctru_ok E" and "sm_inv sem s" and "length name = 8" and "padded name n"
    and "doRegisterServiceOrPort E pid sp cp name n maxs named s = Some ((res, h), s')"
    and "\<not> R_FAILED E res"
  shows "if sd_pid (sessions s' sd) = pid
     then \<exists>s''. UnregisterServiceOrPort E sd name n named s' = (0, s'') \<and> registered s'' = registered s
     else UnregisterServiceOrPort E sd name n named s' = (0xD8E06406, s')"
  using assms(5)
proof (rule register_entered [OF assms(1-3) _ assms(6)])
  fix port k p
  let ?e = "\<lparr>si_name = strncpy8 name, clientPort = port, si_pid = pid, isNamedPort = named\<rparr>"
  assume reg: "registered s' = registered s @ [?e]" and len: "length (registered s) = nbServices s"
    and nb: "nbServices s' = nbServices s + 1"
    and none: "findServicePortByName s named name n = None"
    and valid: "\<not> R_FAILED E (checkServiceName name n)" and tab: "service_table_ok s'"
  have nth: "servicesInfo s' ! nbServices s = ?e"
    using reg len nb tab by (metis lessI nth_append_length nth_take registered_def Suc_eq_plus1)
  have "findServicePortByName s' named name n = Some (nbServices s)"
    using find_after_entry [OF reg none] len stored_equal_iff [OF assms(1,3) valid assms(4,3) valid]
    by simp
  moreover have "registered (remove_service (nbServices s) (close_handle E port s')) = registered s"
  proof -
    have "registered (remove_service (nbServices s) (close_handle E port s')) = take (nbServices s) (registered s')"
      using nb by (simp add: registered_def remove_service_def close_handle_def)
    then show ?thesis using reg len by simp
  qed
  ultimately show ?thesis
    using valid nth by (auto simp: UnregisterServiceOrPort_def Let_def checkServiceName_valid(1) [OF assms(1) valid assms(3)])
qed

lemma register_unregister_witness:
  "\<exists>s''. UnregisterServiceOrPort demo_env 0 demo_name 4 True
       (add_service \<lparr>si_name = strncpy8 demo_name, clientPort = 99, si_pid = 0, isNamedPort = True\<rparr> demo0) = (0, s'')
     \<and> registered s'' = registered demo0"
  using register_unregister [where sd = 0, OF demo_laws(2) demo_inv0 _ _ demo_registration [where pid = 0 and name = demo_name and n = 4]]
  by (simp add: demo_length demo_facts)


section \<open>Processes\<close>

lemma find_remove1:
  "distinct (map f xs) \<Longrightarrow> n \<in> set xs \<Longrightarrow>
     List.find (\<lambda>x. f x = q) (remove1 n xs) = (if q = f n then None else List.find (\<lambda>x. f x = q) xs)"
  by (induction xs) (auto simp: find_None_iff image_iff)

lemma unregister_services_entries:
  "service_table_ok s \<Longrightarrow> i \<le> nbServices s \<Longrightarrow> \<forall>j < i. si_pid (servicesInfo s ! j) \<noteq> pid \<Longrightarrow>
     mset (registered (unregister_services E pid i s)) = filter_mset (\<lambda>e. si_pid e \<noteq> pid) (mset (registered s))
     \<and> sessions (unregister_services E pid i s) = sessions s"
proof (induction E pid i s rule: unregister_services.induct)
  case (1 E pid i s)
  have len: "length (registered s) = nbServices s"
    using "1.prems"(1) by (simp add: registered_def service_table_ok_def)
  consider (hit) "i < nbServices s" "si_pid (servicesInfo s ! i) = pid"
    | (miss) "i < nbServices s" "si_pid (servicesInfo s ! i) \<noteq> pid" | (stop) "i = nbServices s"
    using "1.prems"(2) by linarith
  then show ?case
  proof cases
    case hit
    let ?s = "close_handle E (clientPort (servicesInfo s ! i)) s"
    let ?t = "remove_service i ?s"
    have s: "service_table_ok ?s" "registered ?s = registered s"
      using "1.prems"(1) by (simp_all add: close_handle_def service_table_ok_def registered_def)
    then have i: "i < length (registered ?s)" using hit len by simp
    have e: "registered s ! i = servicesInfo s ! i" using hit by (simp add: registered_def)
    have "si_pid (servicesInfo ?t ! j) \<noteq> pid" if "j < i" for j
      using "1.prems"(3) that by (simp add: remove_service_def close_handle_def)
    then have "mset (registered (unregister_services E pid i ?t))
        = filter_mset (\<lambda>e. si_pid e \<noteq> pid) (mset (registered ?t))
        \<and> sessions (unregister_services E pid i ?t) = sessions ?t"
      using "1.IH"(1) hit services.remove_ok [OF s(1) i]
      by (simp add: remove_service_def close_handle_def)
    then show ?thesis
      using hit services.entries_remove [OF s(1) i] e s(2)
      by (simp add: unregister_services.simps [of E pid i s] remove_service_def close_handle_def)
  next
    case miss
    have "\<forall>j < i + 1. si_pid (servicesInfo s ! j) \<noteq> pid"
      using "1.prems"(3) miss by (auto simp: less_Suc_eq)
    with "1.IH"(2) miss "1.prems" show ?thesis by (simp add: unregister_services.simps [of E pid i s])
  next
    case stop
    have "\<forall>e \<in> set (registered s). si_pid e \<noteq> pid"
    proof
      fix e assume "e \<in> set (registered s)"
      then obtain j where "j < nbServices s" "e = servicesInfo s ! j"
        by (auto simp: registered_def in_set_conv_nth)
      with "1.prems"(3) stop show "si_pid e \<noteq> pid" by simp
    qed
    then have "filter_mset (\<lambda>e. si_pid e \<noteq> pid) (mset (registered s)) = mset (registered s)"
      by (simp add: filter_mset_eq_conv)
    moreover have "unregister_services E pid i s = s"
      using stop by (subst unregister_services.simps) simp
    ultimately show ?thesis by simp
  qed
qed

text \<open>\<open>UnregisterProcess\<close> removes all the services and ports the process had registered,
  wherever they stand in the array, and no others; afterwards the pid is not registered, and
  the data of every other process is as it was.\<close>

theorem unregister_process:
  assumes "sm_inv sem s" and "semaphore_law E (resumeSemaphore s) sem"
    and "findProcessData s pid = Some n" and "UnregisterProcess E pid s = (res, s')"
  shows "res = 0
     \<and> mset (registered s') = filter_mset (\<lambda>e. si_pid e \<noteq> pid) (mset (registered s))
     \<and> findProcessData s' pid = None
     \<and> (\<forall>p. p \<noteq> pid \<longrightarrow> findProcessData s' p = findProcessData s p)
     \<and> processes s' = processes s"
proof -
  let ?s = "close_handle E (notificationSemaphore (processes s n)) s"
  let ?u = "unregister_services E pid 0 ?s"
  have n: "n \<in> set (process_lists s ProcessInUse)" "pd_pid (processes s n) = pid"
    using findProcessData_Some [OF assms(3)] by auto
  have inv: "sm_inv sem ?s" by (rule inv_close [OF assms(2,1)])
  have U: "process_lists ?u = process_lists s" "processes ?u = processes s"
    using unregister_services_frame [OF inv, of E pid 0] assms(2) by (simp_all add: close_handle_def)
  have "mset (registered ?u) = filter_mset (\<lambda>e. si_pid e \<noteq> pid) (mset (registered ?s))"
    using unregister_services_entries [of ?s 0 pid E] inv by (simp add: inv_defs)
  then have reg: "mset (registered ?u) = filter_mset (\<lambda>e. si_pid e \<noteq> pid) (mset (registered s))"
    by (simp add: close_handle_def registered_def)
  have s': "res = 0" "s' = move_process n ProcessFree False ?u"
    using assms(3,4) by (auto simp: UnregisterProcess_def Let_def)
  have p: "pool_ok nb_process_pool (process_lists s)"
    "distinct (map (\<lambda>n. pd_pid (processes s n)) (process_lists s ProcessInUse))"
    using assms(1) by (simp_all add: inv_defs)
  have "n \<notin> set (process_lists s ProcessFree)"
    using abs_lists.ok_disjoint [where h = "process_lists s", OF pool_ok_lists [OF p(1)] n(1)] by blast
  then have L: "process_lists s' ProcessInUse = remove1 n (process_lists s ProcessInUse)"
    "processes s' = processes s"
    using U by (simp_all add: s' move_process_def move_list_def)
  have "findProcessData s' q = (if q = pid then None else findProcessData s q)" for q
    using find_remove1 [OF p(2) n(1), of q] n(2) unfolding findProcessData_def L by simp
  then show ?thesis using s' reg L by (auto simp: registered_def move_process_def)
qed

section \<open>Notifications\<close>

text \<open>What publishing does to one process that wants the notification.\<close>

definition published :: "u32 \<Rightarrow> u32 \<Rightarrow> u32 list \<Rightarrow> u32 list" where
  "published x flags q = (if flags AND 1 \<noteq> 0 \<and> x \<in> set q \<or> 16 \<le> length q then q else q @ [x])"

definition refuses :: "u32 \<Rightarrow> u32 \<Rightarrow> u32 list \<Rightarrow> bool" where
  "refuses x flags q \<longleftrightarrow> 16 \<le> length q \<and> flags AND 2 = 0 \<and> \<not> (flags AND 1 \<noteq> 0 \<and> x \<in> set q)"

lemma doPublish_spec:
  assumes "doPublishNotification E n x flags s = Some (ok, s')" and "ring_ok (processes s n)"
  shows "ok \<longleftrightarrow> \<not> refuses x flags (pending (processes s n))"
    and "pending (processes s' n) = published x flags (pending (processes s n))"
    and "m \<noteq> n \<Longrightarrow> processes s' m = processes s m"
    and "wants (processes s' m) y = wants (processes s m) y"
    and "ring_ok (processes s' n)" and "process_lists s' = process_lists s"
proof -
  let ?p = "processes s n"
  note cap = ring.items_cap [OF assms(2)]
  consider (dup) "flags AND 1 \<noteq> 0 \<and> nbPendingNotifications ?p \<noteq> 0 \<and> x \<in> set (pending ?p)"
      "ok" "s' = s"
    | (push) k where "\<not> (flags AND 1 \<noteq> 0 \<and> x \<in> set (pending ?p))" "nbPendingNotifications ?p < 16"
      "ok" "s' = upd_process n (push_pending x) (s\<lparr>kernel := k\<rparr>)"
    | (full) "\<not> (flags AND 1 \<noteq> 0 \<and> x \<in> set (pending ?p))" "16 \<le> nbPendingNotifications ?p"
      "ok \<longleftrightarrow> flags AND 2 \<noteq> 0" "s' = s"
    using assms(1) pending_nil_iff [of ?p]
    by (fastforce simp: doPublishNotification_def Let_def already_pending_iff split: if_splits prod.splits bind_splits)
  note cases = this
  show "ok \<longleftrightarrow> \<not> refuses x flags (pending ?p)"
    by (cases rule: cases) (auto simp: refuses_def)
  show "pending (processes s' n) = published x flags (pending ?p)"
    by (cases rule: cases) (auto simp: published_def upd_process_def ring.items_push [OF assms(2)])
  show "m \<noteq> n \<Longrightarrow> processes s' m = processes s m"
    by (cases rule: cases) (auto simp: upd_process_def)
  show "wants (processes s' m) y = wants (processes s m) y"
    by (cases rule: cases)
      (auto simp: upd_process_def wants_def subscriptions_def push_pending_def isNotificationInhibited_def)
  show "ring_ok (processes s' n)" "process_lists s' = process_lists s"
    by (cases rule: cases; use assms(2) ring.push_ok [OF assms(2)] in \<open>auto simp: upd_process_def\<close>)+
qed

lemma doPublish_refused: "doPublishNotification E n x flags s = Some (False, s') \<Longrightarrow> s' = s"
  by (auto simp: doPublishNotification_def Let_def split: if_splits prod.splits bind_splits)

text \<open>The processes that are looked at before one refuses.\<close>

definition served :: "u32 \<Rightarrow> u32 \<Rightarrow> 'k sm_state \<Rightarrow> nat list \<Rightarrow> nat list" where
  "served x flags s ns = takeWhile (\<lambda>n. \<not> (wants (processes s n) x \<and> refuses x flags (pending (processes s n)))) ns"

lemma publish_subscribers_spec:
  assumes "publish_subscribers E x flags ns s = Some (res, s')" and "distinct ns"
    and "\<forall>n \<in> set ns. ring_ok (processes s n)"
  shows "res = (if \<exists>n \<in> set ns. wants (processes s n) x \<and> refuses x flags (pending (processes s n))
               then 0xD8606408 else 0)
     \<and> (\<forall>m. m \<notin> set (served x flags s ns) \<or> \<not> wants (processes s m) x \<longrightarrow> processes s' m = processes s m)
     \<and> (\<forall>n \<in> set (served x flags s ns). wants (processes s n) x \<longrightarrow>
           pending (processes s' n) = published x flags (pending (processes s n)))"
  using assms
proof (induction ns arbitrary: s)
  case (Cons n ns)
  show ?case
  proof (cases "wants (processes s n) x")
    case False
    then have "publish_subscribers E x flags ns s = Some (res, s')" using Cons.prems by simp
    with Cons.IH [OF this] Cons.prems(2,3) False show ?thesis by (auto simp: served_def)
  next
    case True
    then obtain ok t where d: "doPublishNotification E n x flags s = Some (ok, t)"
      and rest: "(if \<not> ok then Some (0xD8606408, t) else publish_subscribers E x flags ns t) = Some (res, s')"
      using Cons.prems(1) by (auto split: bind_splits)
    note D = doPublish_spec [OF d]
    have rn: "ring_ok (processes s n)" using Cons.prems(3) by simp
    have other: "processes t m = processes s m" if "m \<in> set ns" for m
      by (rule D(3) [OF rn]) (use that Cons.prems(2) in auto)
    show ?thesis
    proof (cases ok)
      case False
      then have "s' = s" using doPublish_refused d rest by auto
      with False show ?thesis using rest D(1) [OF rn] True by (auto simp: served_def)
    next
      case ok: True
      have ns: "\<forall>m \<in> set ns. ring_ok (processes t m)" "distinct ns" "n \<notin> set ns" using Cons.prems(2,3) other by simp_all
      have "publish_subscribers E x flags ns t = Some (res, s')" using rest ok by simp
      note IH = Cons.IH [OF this ns(2,1)]
      have same: "served x flags t ns = served x flags s ns"
        unfolding served_def by (rule takeWhile_cong) (simp_all add: other)
      have ser: "served x flags s (n # ns) = n # served x flags s ns"
        using ok D(1) [OF rn] by (simp add: served_def)
      have sub: "set (served x flags s ns) \<subseteq> set ns" unfolding served_def by (auto dest: set_takeWhileD)
      have "processes s' m = processes s m"
        if "m \<notin> set (served x flags s (n # ns)) \<or> \<not> wants (processes s m) x" for m
      proof -
        have "m \<noteq> n" using that True ser by auto
        then have m: "processes t m = processes s m" using D(3) [OF rn] by simp
        have "m \<notin> set (served x flags t ns) \<or> \<not> wants (processes t m) x" using that m same ser by auto
        with IH m show ?thesis by auto
      qed
      moreover have "pending (processes s' m) = published x flags (pending (processes s m))"
        if "m \<in> set (served x flags s (n # ns))" "wants (processes s m) x" for m
      proof (cases "m = n")
        case True
        have "n \<notin> set (served x flags t ns)" using ns(3) sub same by auto
        then have "processes s' n = processes t n" using conjunct1 [OF conjunct2 [OF IH]] by simp
        with True show ?thesis using D(2) [OF rn] by simp
      next
        case False
        then have m: "m \<in> set (served x flags t ns)" "processes t m = processes s m"
          using that ser same sub other by auto
        with IH that(2) show ?thesis by auto
      qed
      moreover have "(\<exists>n \<in> set ns. wants (processes t n) x \<and> refuses x flags (pending (processes t n)))
          = (\<exists>m \<in> set (n # ns). wants (processes s m) x \<and> refuses x flags (pending (processes s m)))"
        using D(1) [OF rn] ok other by auto
      ultimately show ?thesis using IH by simp
    qed
  qed
qed (simp add: served_def)

text \<open>C9. \<open>PublishToSubscriber\<close> fails exactly when a subscribed process with notifications
  enabled has 16 pending ones, the drop flag is not set, and the notification is not one that
  the only-once flag suppresses. In any case each process in use that is subscribed, has enabled notifications and
  comes before the first that refuses (all of them if the call succeeds) has the notification at the
  end of its queue, except those whose queue is full or, under the only-once flag, holds it
  already; every other process is left as it was.\<close>

theorem publish_to_subscriber:
  assumes "sm_inv sem s" and "PublishToSubscriber E x flags s = Some (res, s')"
  defines "eligible \<equiv> \<lambda>n. notificationEnabled (processes s n) \<and> x \<in> set (subscriptions (processes s n))"
    and "full \<equiv> \<lambda>n. refuses x flags (pending (processes s n))"
  shows "res = (if \<exists>n \<in> set (process_lists s ProcessInUse). eligible n \<and> full n then 0xD8606408 else 0)
     \<and> (\<forall>n. if n \<in> set (takeWhile (\<lambda>n. \<not> (eligible n \<and> full n)) (process_lists s ProcessInUse)) \<and> eligible n
          then pending (processes s' n) = published x flags (pending (processes s n))
          else processes s' n = processes s n)"
proof -
  let ?ns = "process_lists s ProcessInUse"
  have ok: "\<forall>n \<in> set ?ns. ring_ok (processes s n) \<and> subs_ok (processes s n)" and d: "distinct ?ns"
    using assms(1) by (auto simp: inv_defs process_entry_ok_def pool_ok_def lists_ok_def)
  then have w: "n \<in> set ?ns \<Longrightarrow> wants (processes s n) x \<longleftrightarrow> eligible n" for n
    by (simp add: wants_iff eligible_def)
  have ser: "served x flags s ?ns = takeWhile (\<lambda>n. \<not> (eligible n \<and> full n)) ?ns"
    unfolding served_def full_def by (rule takeWhile_cong) (simp_all add: w)
  have sub: "set (takeWhile (\<lambda>n. \<not> (eligible n \<and> full n)) ?ns) \<subseteq> set ?ns" by (auto dest: set_takeWhileD)
  have r: "\<forall>n \<in> set ?ns. ring_ok (processes s n)" using ok by blast
  note spec = publish_subscribers_spec [OF assms(2) [unfolded PublishToSubscriber_def] d r, unfolded ser]
  have "res = (if \<exists>n \<in> set ?ns. eligible n \<and> full n then 0xD8606408 else 0)"
    using spec w unfolding full_def by auto
  moreover have "pending (processes s' n) = published x flags (pending (processes s n))"
    if "n \<in> set (takeWhile (\<lambda>n. \<not> (eligible n \<and> full n)) ?ns)" "eligible n" for n
    using spec w that sub by blast
  moreover have "processes s' n = processes s n"
    if "\<not> (n \<in> set (takeWhile (\<lambda>n. \<not> (eligible n \<and> full n)) ?ns) \<and> eligible n)" for n
    using spec w that sub by blast
  ultimately show ?thesis by simp
qed


text \<open>A state with one registered process: it has enabled notifications, is subscribed to
  \<open>0x100\<close> and owns a port.\<close>

definition demo_process :: ProcessData where
  "demo_process = zero_process\<lparr>pd_pid := 7, notificationSemaphore := 30, notificationEnabled := True,
     nbSubscribed := 1, subscribedNotifications := (replicate 17 0)[0 := 0x100]\<rparr>"

definition demo_client :: "demo_kernel sm_state" where
  "demo_client = add_service \<lparr>si_name = demo_name, clientPort = 99, si_pid = 7, isNamedPort = True\<rparr>
     (demo0\<lparr>processes := (\<lambda>_. zero_process)(0 := demo_process),
            process_lists := (\<lambda>_. [])(ProcessFree := [1..<nb_process_pool], ProcessInUse := [0]),
            sessions := (\<lambda>_. zero_session)(0 := (demo_session 20)\<lparr>sd_pid := 7\<rparr>)\<rparr>)"

lemma demo_process_facts:
  "subscriptions demo_process = [0x100]" "pending demo_process = []" "notificationEnabled demo_process"
  "pd_pid demo_process = 7" "subscriptions zero_process = []"
  by (simp_all add: demo_process_def zero_process_def subscriptions_def pending_def take_list_update)

lemma demo_client_facts:
  "process_lists demo_client ProcessInUse = [0]" "processes demo_client 0 = demo_process"
  "sd_pid (sessions demo_client 0) = 7" "findProcessData demo_client 7 = Some 0"
  "registered demo_client = [demo_pm, \<lparr>si_name = demo_name, clientPort = 99, si_pid = 7, isNamedPort = True\<rparr>]"
  by (simp_all add: demo_client_def add_service_def findProcessData_def demo_process_def registered_def
      demo0_def take_list_update replicate_two numeral_2_eq_2)

lemma demo_client_law: "semaphore_law demo_env (resumeSemaphore demo_client) d_sem"
  using demo_laws(1) by (simp add: demo_client_def demo0_def)

lemma demo_client_inv: "sm_inv d_sem demo_client"
proof -
  have "process_entry_ok 5 demo_process"
    by (simp add: process_entry_ok_def ring_ok_def subs_ok_def demo_process_facts)
      (simp add: demo_process_def zero_process_def)
  moreover have "lists_ok ((\<lambda>_. [])(ProcessFree := [1..<nb_process_pool], ProcessInUse := [0]))"
    by (auto simp: lists_ok_def simp del: upt.simps upt_rec_numeral)
  moreover have "(\<Union>l. set (((\<lambda>_. [])(ProcessFree := [1..<nb_process_pool], ProcessInUse := [0])) l)) = {..<nb_process_pool}"
    (is "?U = _")
  proof
    show "{..<nb_process_pool} \<subseteq> ?U"
    proof
      fix x :: nat assume "x \<in> {..<nb_process_pool}"
      then show "x \<in> ?U"
        by (intro UN_I [of "if x = 0 then ProcessInUse else ProcessFree"]) auto
    qed
  qed (auto simp del: upt.simps upt_rec_numeral split: if_splits)
  moreover have "length (replayCmdbuf (sessions demo_client n)) = 4" for n
    by (simp add: demo_client_def zero_session_def add_service_def)
  ultimately show ?thesis
    using demo_inv0 by (simp add: inv_defs pool_ok_def demo_client_facts)
      (simp add: demo_client_def add_service_def demo0_def)
qed

lemma unregister_process_witness:
  "\<exists>s'. UnregisterProcess demo_env 7 demo_client = (0, s') \<and> mset (registered s') = {#demo_pm#}"
  using unregister_process [OF demo_client_inv demo_client_law demo_client_facts(4) surjective_pairing]
  by (intro exI [of _ "snd (UnregisterProcess demo_env 7 demo_client)"])
    (simp add: prod_eq_iff demo_client_facts)

lemma demo_publish:
  "PublishToSubscriber demo_env 0x100 1 demo_client
     = Some (0, upd_process 0 (push_pending 0x100) demo_client)"
  by (simp add: PublishToSubscriber_def demo_client_facts doPublishNotification_def wants_def
      demo_process_facts isNotificationInhibited_def)
   (simp add: demo_process_def zero_process_def demo_env_def demo_client_def assertSuccess_def)

lemma publish_to_subscriber_witness:
  "pending (processes (upd_process 0 (push_pending 0x100) demo_client) 0) = [0x100]"
proof -
  have "nbPendingNotifications demo_process = 0" by (simp add: demo_process_def zero_process_def)
  then show ?thesis
    using spec [OF conjunct2 [OF publish_to_subscriber [OF demo_client_inv demo_publish]], of 0]
    by (simp add: demo_client_facts demo_process_facts published_def refuses_def)
qed


text \<open>Publishing a sequence of notifications to a process, and taking notifications one after
  the other.\<close>

fun publish_each :: "'k sm_env \<Rightarrow> nat \<Rightarrow> u32 list \<Rightarrow> 'k sm_state \<Rightarrow> 'k sm_state option" where
  "publish_each E n [] s = Some s"
| "publish_each E n (x # xs) s = do {
     (ok, s) \<leftarrow> doPublishNotification E n x 0 s;
     if ok then publish_each E n xs s else None
   }"

fun receive_each :: "nat \<Rightarrow> nat \<Rightarrow> 'k sm_state \<Rightarrow> (Result \<times> u32) list \<times> 'k sm_state" where
  "receive_each 0 sd s = ([], s)"
| "receive_each (Suc k) sd s =
     (case ReceiveNotification sd 0 s of (r, s) \<Rightarrow> case receive_each k sd s of (rs, s) \<Rightarrow> (r # rs, s))"

lemma publish_each_spec:
  assumes "publish_each E n xs s = Some s'" and "ring_ok (processes s n)"
  shows "pending (processes s' n) = pending (processes s n) @ xs \<and> ring_ok (processes s' n)
     \<and> findProcessData s' = findProcessData s \<and> sessions s' = sessions s
     \<and> notificationEnabled (processes s' n) = notificationEnabled (processes s n)"
  using assms
proof (induction xs arbitrary: s)
  case (Cons x xs)
  then obtain t where d: "doPublishNotification E n x 0 s = Some (True, t)" and r: "publish_each E n xs t = Some s'"
    by (auto split: bind_splits if_splits)
  have d0: "t = s \<or> (\<exists>k. t = upd_process n (push_pending x) (s\<lparr>kernel := k\<rparr>))"
    using d by (cases rule: doPublish_cases) auto
  note D = doPublish_spec [OF d Cons.prems(2)]
  have "findProcessData t = findProcessData s \<and> sessions t = sessions s
      \<and> notificationEnabled (processes t n) = notificationEnabled (processes s n)"
    using d0 by (auto simp: findProcessData_def upd_process_def push_pending_def fun_eq_iff intro!: find_cong)
  moreover have "length (pending (processes s n)) < 16"
    using D(1) ring.items_cap [OF Cons.prems(2)] by (auto simp: refuses_def)
  ultimately show ?case using Cons.IH [OF r D(5)] D(2) by (auto simp: published_def)
qed simp

lemma receive_each_spec:
  assumes "ring_ok (processes s n)" and "findProcessData s (sd_pid (sessions s sd)) = Some n"
    and "notificationEnabled (processes s n)" and "k \<le> length (pending (processes s n))"
  shows "fst (receive_each k sd s) = map (Pair 0) (take k (pending (processes s n)))
     \<and> pending (processes (snd (receive_each k sd s)) n) = drop k (pending (processes s n))"
  using assms
proof (induction k arbitrary: s)
  case (Suc k)
  let ?p = "processes s n" and ?s = "upd_process n pop_pending s"
  from Suc.prems(4) obtain x xs where q: "pending ?p = x # xs" by (cases "pending ?p") auto
  then have ne: "pending ?p \<noteq> []" by simp
  have "nbPendingNotifications ?p \<noteq> 0" using ne by simp
  then have r: "ReceiveNotification sd 0 s = ((0, x), ?s)"
    using Suc.prems q ring.items_first [OF Suc.prems(1) ne] by (auto simp: ReceiveNotification_def Let_def)
  have "pd_pid (processes ?s m) = pd_pid (processes s m)" for m by (simp add: upd_process_def)
  then have f: "findProcessData ?s (sd_pid (sessions ?s sd)) = Some n"
    using Suc.prems(2) by (simp add: findProcessData_def upd_process_def)
  have p: "pending (processes ?s n) = xs" "ring_ok (processes ?s n)" "notificationEnabled (processes ?s n)"
    using ring.items_pop [OF Suc.prems(1) ne] ring.pop_ok [OF Suc.prems(1) ne] q Suc.prems(3)
    by (simp_all add: upd_process_def) (simp add: pop_pending_def)
  show ?case
    using Suc.IH [OF p(2) f p(3)] p(1) q Suc.prems(4) r by (auto split: prod.splits)
qed simp

text \<open>C10. Notifications published to a process come out of \<open>ReceiveNotification\<close> in the order
  in which they went in, after those that were pending before, none lost and none repeated,
  wherever the circular buffer stands; after the last one the queue is empty.\<close>

theorem notifications_fifo:
  assumes "sm_inv sem s" and "findProcessData s (sd_pid (sessions s sd)) = Some n"
    and "notificationEnabled (processes s n)" and "publish_each E n xs s = Some t"
  shows "fst (receive_each (length (pending (processes s n)) + length xs) sd t)
       = map (Pair 0) (pending (processes s n) @ xs)
     \<and> pending (processes (snd (receive_each (length (pending (processes s n)) + length xs) sd t)) n) = []"
proof -
  have ok: "ring_ok (processes s n)"
    using inv_entry [OF assms(1)] findProcessData_Some [OF assms(2)] by (simp add: process_entry_ok_def)
  note P = publish_each_spec [OF assms(4) ok]
  show ?thesis
    using receive_each_spec [of t n sd "length (pending (processes s n)) + length xs"] P assms(2,3) by simp
qed

lemma demo_doPublish:
  assumes "nbPendingNotifications (processes s n) < 16" and "notificationSemaphore (processes s n) \<noteq> 5"
  shows "doPublishNotification demo_env n x 0 s = Some (True, upd_process n (push_pending x) s)"
  using assms by (simp add: doPublishNotification_def demo_env_def assertSuccess_def upd_process_def)

lemma demo_publish_each: "publish_each demo_env 0 [0x100, 0x200, 0x100] demo_client
    = Some (upd_process 0 (push_pending 0x100) (upd_process 0 (push_pending 0x200)
        (upd_process 0 (push_pending 0x100) demo_client)))"
proof -
  have f: "nbPendingNotifications demo_process = 0" "notificationSemaphore demo_process = 30"
    by (simp_all add: demo_process_def zero_process_def)
  show ?thesis
    by (simp add: demo_doPublish demo_client_facts f)
      (simp add: demo_doPublish upd_process_def push_pending_def demo_client_facts f)
qed

lemma notifications_fifo_witness:
  "fst (receive_each 3 0 (upd_process 0 (push_pending 0x100) (upd_process 0 (push_pending 0x200)
        (upd_process 0 (push_pending 0x100) demo_client))))
     = [(0, 0x100), (0, 0x200), (0, 0x100)]"
  using notifications_fifo [OF demo_client_inv _ _ demo_publish_each, of 0]
  by (simp add: demo_client_facts demo_process_facts eval_nat_numeral)

text \<open>C11. \<open>Subscribe\<close> and \<open>Unsubscribe\<close> treat the subscriptions of a process as a set of at most
  17 identifiers: they report a repeated or an unknown identifier and leave the set alone, and
  otherwise insert or remove just that identifier.\<close>

theorem subscription_set:
  assumes "sm_inv sem s" and "enabled_process sd s = Some n"
  shows "(\<exists>t. Subscribe sd x s = (if x \<in> set (subscriptions (processes s n)) then 0xD9006403
              else if card (set (subscriptions (processes s n))) < 17 then 0 else 0xD9006405, t)
          \<and> set (subscriptions (processes t n)) =
              (if card (set (subscriptions (processes s n))) < 17
               then insert x (set (subscriptions (processes s n))) else set (subscriptions (processes s n))))
     \<and> (\<exists>t. Unsubscribe sd x s = (if x \<in> set (subscriptions (processes s n)) then 0 else 0xD8806404, t)
          \<and> set (subscriptions (processes t n)) = set (subscriptions (processes s n)) - {x})"
proof -
  let ?p = "processes s n"
  have ok: "subs_ok ?p" "distinct (subscriptions ?p)"
    using inv_entry [OF assms(1)] enabled_process_Some [OF assms(2)] by (simp_all add: process_entry_ok_def)
  note len = length_subscriptions [OF ok(1)]
  have card: "card (set (subscriptions ?p)) = nbSubscribed ?p"
    using distinct_card [OF ok(2)] len by simp
  have i: "search_index x (subscriptions ?p) = nbSubscribed ?p \<longleftrightarrow> x \<notin> set (subscriptions ?p)"
    using search_index_less_iff [of x "subscriptions ?p"] search_index_le [of x "subscriptions ?p"] len by auto
  have sub: "Subscribe sd x s = (if x \<in> set (subscriptions ?p) then (0xD9006403, s)
      else if nbSubscribed ?p < 17 then (0, upd_process n (add_subscription x) s) else (0xD9006405, s))"
    using subscribed_loop_iff [OF ok(1), of x] by (simp add: Subscribe_def assms(2) Let_def)
  have un: "Unsubscribe sd x s = (if x \<in> set (subscriptions ?p)
      then (0, upd_process n (remove_subscription (search_index x (subscriptions ?p))) s) else (0xD8806404, s))"
    using i by (simp add: Unsubscribe_def assms(2) Let_def)
  have "nbSubscribed ?p < 17 \<Longrightarrow> set (subscriptions (add_subscription x ?p)) = insert x (set (subscriptions ?p))"
    using subs.entries_add [OF ok(1), of x] by simp
  moreover have "set (subscriptions (remove_subscription (search_index x (subscriptions ?p)) ?p))
      = set (subscriptions ?p) - {x}" if "x \<in> set (subscriptions ?p)"
    using subs.distinct_remove(2) [OF ok(1) _ ok(2)] that search_index_less_iff search_index_nth by metis
  ultimately show ?thesis
    unfolding sub un card by (auto simp: upd_process_def)
qed

lemma subscription_set_witness:
  "\<exists>t. Unsubscribe 0 0x100 demo_client = (0, t) \<and> set (subscriptions (processes t 0)) = {}"
proof -
  have "enabled_process 0 demo_client = Some 0"
    by (simp add: enabled_process_def demo_client_facts demo_process_facts)
  from subscription_set [OF demo_client_inv this, of "0x100"]
  show ?thesis by (simp add: demo_client_facts demo_process_facts)
qed


lemma doPublish_frame:
  assumes "doPublishNotification E n x flags s = Some (ok, s')"
  shows "wants (processes s' m) y = wants (processes s m) y" "pd_pid (processes s' m) = pd_pid (processes s m)"
    "cmdbuf s' = cmdbuf s"
  using assms
  by (cases rule: doPublish_cases; simp add: upd_process_def wants_def subscriptions_def push_pending_def
      isNotificationInhibited_def)+

lemma publish_and_list_spec:
  assumes "publish_and_list E w x flags nb ns s = Some ((res, cnt), s')" and "nb \<le> 60"
  shows "(\<forall>i. i < w + nb \<or> w + 60 \<le> i \<longrightarrow> cmdbuf s' i = cmdbuf s i)
     \<and> (case cnt of None \<Rightarrow> res = 0xD8606408
        | Some c \<Rightarrow> res = 0 \<and> c = min 60 (nb + length (filter (\<lambda>n. wants (processes s n) x) ns))
            \<and> map (cmdbuf s') [w + nb..<w + c]
                = take (60 - nb) (map (\<lambda>n. pd_pid (processes s n)) (filter (\<lambda>n. wants (processes s n) x) ns)))"
  using assms
proof (induction ns arbitrary: s nb)
  case (Cons n ns)
  show ?case
  proof (cases "wants (processes s n) x")
    case True
    then obtain ok t where d: "doPublishNotification E n x flags s = Some (ok, t)"
      and rest: "(if \<not> ok then Some ((0xD8606408, None), t)
         else if nb < 60 then publish_and_list E w x flags (nb + 1) ns
                (t\<lparr>cmdbuf := (cmdbuf t)(w + nb := pd_pid (processes t n))\<rparr>)
         else publish_and_list E w x flags nb ns t) = Some ((res, cnt), s')"
      using Cons.prems(1) by (auto split: bind_splits)
    note F = doPublish_frame [OF d]
    consider (fail) "\<not> ok" | (put) "ok" "nb < 60" | (skip) "ok" "nb = 60"
      using Cons.prems(2) by linarith
    then show ?thesis
    proof cases
      case fail
      with rest F show ?thesis by auto
    next
      case put
      let ?t = "t\<lparr>cmdbuf := (cmdbuf t)(w + nb := pd_pid (processes t n))\<rparr>"
      have r: "publish_and_list E w x flags (nb + 1) ns ?t = Some ((res, cnt), s')" using rest put by simp
      have "nb + 1 \<le> 60" using put by simp
      note IH = Cons.IH [OF r this]
      have w1: "cmdbuf s' (w + nb) = pd_pid (processes s n)" using IH F by simp
      show ?thesis
      proof (cases cnt)
        case None
        with IH F put show ?thesis by auto
      next
        case (Some c)
        then have "nb < c" "map (cmdbuf s') [w + (nb + 1)..<w + c]
          = take (60 - (nb + 1)) (map (\<lambda>n. pd_pid (processes s n)) (filter (\<lambda>n. wants (processes s n) x) ns))"
          using IH F put by auto
        moreover have "[w + nb..<w + c] = (w + nb) # [w + (nb + 1)..<w + c]"
          using \<open>nb < c\<close> by (simp add: upt_rec)
        moreover obtain m where "60 - nb = Suc m" "60 - (nb + 1) = m" using put by (cases "60 - nb") auto
        ultimately show ?thesis using IH F Some True w1 by auto
      qed
    next
      case skip
      with rest Cons.IH [of 60 t] F True show ?thesis by (auto split: option.splits)
    qed
  next
    case False
    with Cons.IH [of nb s] Cons.prems show ?thesis by (auto split: option.splits)
  qed
qed (auto split: option.splits)

text \<open>\<open>PublishAndGetSubscriber\<close> writes at most 60 pids into the command buffer, into words
  3 to 62, and nothing else of it; when it succeeds it reports the pids of the processes that
  want the notification, in list order, cut off at 60, and their number.\<close>

theorem pid_list_bounded:
  assumes "PublishAndGetSubscriber E pidCount0 3 x flags s = Some ((res, nret), s')"
  shows "(\<forall>i. i < 3 \<or> 63 \<le> i \<longrightarrow> cmdbuf s' i = cmdbuf s i)
     \<and> (res = 0 \<and> (\<exists>c \<le> 60. nret = of_nat c
           \<and> map (cmdbuf s') [3..<3 + c]
             = take 60 (map (\<lambda>n. pd_pid (processes s n))
                   (filter (\<lambda>n. wants (processes s n) x) (process_lists s ProcessInUse))))
        \<or> res = 0xD8606408 \<and> nret = pidCount0)"
proof -
  obtain cnt where r: "publish_and_list E 3 x flags 0 (process_lists s ProcessInUse) s = Some ((res, cnt), s')"
    and c: "nret = (case cnt of None \<Rightarrow> pidCount0 | Some n \<Rightarrow> of_nat n)"
    using assms by (auto simp: PublishAndGetSubscriber_def)
  show ?thesis
    using publish_and_list_spec [OF r] c
    by (cases cnt) (auto intro!: exI [of _ "min 60 (length (filter (\<lambda>n. wants (processes s n) x) (process_lists s ProcessInUse)))"])
qed

lemma pid_list_bounded_witness:
  "\<exists>s'. PublishAndGetSubscriber demo_env 0 3 0x100 0 demo_client = Some ((0, 1), s')
     \<and> map (cmdbuf s') [3..<4] = [7] \<and> (\<forall>i. i < 3 \<or> 63 \<le> i \<longrightarrow> cmdbuf s' i = cmdbuf demo_client i)"
proof -
  have f: "nbPendingNotifications demo_process = 0" "notificationSemaphore demo_process = 30"
    by (simp_all add: demo_process_def zero_process_def)
  have w: "wants demo_process 0x100"
    by (simp add: wants_def isNotificationInhibited_def demo_process_facts) (simp add: demo_process_def)
  obtain s' where r: "PublishAndGetSubscriber demo_env 0 3 0x100 0 demo_client = Some ((0, 1), s')"
    and b: "cmdbuf s' 3 = 7"
    by (simp add: PublishAndGetSubscriber_def demo_client_facts w demo_doPublish f)
      (simp add: upd_process_def demo_client_facts demo_process_facts push_pending_def)
  then show ?thesis using pid_list_bounded [OF r] by (auto simp: upt_rec)
qed

section \<open>Sessions that wait\<close>

lemma request_kind: "drop_bit 16 w = (5 :: u32) \<Longrightarrow> w AND 0xF0000 = 0x50000"
proof -
  assume a: "drop_bit 16 w = (5 :: u32)"
  have "w AND push_bit 16 v = push_bit 16 (drop_bit 16 w AND v)" for v :: u32
    by (auto intro!: bit_word_eqI simp: bit_simps)
  from this [of "0xF"] a show ?thesis by simp
qed

text \<open>C13. A request for a service that is not registered is not answered: the session goes to
  the end of the list of sessions that wait for a registration, its first four words are
  saved, and (for a padded name) the saved request is one that a registration of this name
  looks for.\<close>

theorem missing_service_parks:
  assumes "libctru_ok E" and "sm_inv sem s" and "n \<in> set (session_lists s SessionInUse)"
    and "\<not> isSrvPm (sessions s n)" and "drop_bit 16 (cmdbuf s 0) = 5"
    and "\<not> R_FAILED E (checkServiceName (name_at (cmdbuf s) 1) (cmdbuf s 3))"
    and "findServicePortByName s False (name_at (cmdbuf s) 1) (cmdbuf s 3) = None"
  shows "\<exists>t. dispatch E n s = Some t
     \<and> session_lists t SessionWaitingRegister = session_lists s SessionWaitingRegister @ [n]
     \<and> n \<notin> set (session_lists t SessionInUse)
     \<and> replayCmdbuf (sessions t n) = map (cmdbuf s) [0..<4]
     \<and> replyTarget t = replyTarget s \<and> cmdbuf t = cmdbuf s \<and> registered t = registered s
     \<and> (padded (name_at (cmdbuf s) 1) (cmdbuf s 3)
         \<longrightarrow> waits_for False (name_at (cmdbuf s) 1) (sessions t n))"
proof -
  let ?t = "move_session n SessionWaitingRegister True (save_request n s)"
  have wb: "would_block E 0xD0406401" using assms(1) by (simp add: would_block_def libctru_ok_def)
  have "srvHandleCommands E n s = Some (0xD0406401, save_request n s)"
    using assms(5,6,7) wb
    by (simp add: srvHandleCommands_def srv_GetServiceHandle_def GetServiceHandle_def Let_def checkServiceAccess_def)
  then have d: "dispatch E n s = Some ?t" using assms(4) wb by (simp add: dispatch_def)
  have L: "lists_ok (session_lists s)" by (rule inv_lists_ok [OF assms(2)])
  have off: "n \<notin> set (session_lists s SessionWaitingRegister)"
    using abs_lists.ok_disjoint [where h = "session_lists s", OF L assms(3)] by blast
  have rp: "replayCmdbuf (sessions ?t n) = map (cmdbuf s) [0..<4]"
    by (simp add: save_request_def move_session_def upd_session_def)
  have words: "map (cmdbuf s) [0..<4] = [cmdbuf s 0, cmdbuf s 1, cmdbuf s 2, cmdbuf s 3]"
    "word_bytes (cmdbuf s 1) @ word_bytes (cmdbuf s 2) = name_at (cmdbuf s) 1"
    by (simp_all add: upt_rec name_at_def numeral_2_eq_2 numeral_3_eq_3)
  have "waits_for False (name_at (cmdbuf s) 1) (sessions ?t n)" if "padded (name_at (cmdbuf s) 1) (cmdbuf s 3)"
    using that request_kind [OF assms(5)] checkServiceName_valid [OF assms(1,6)]
      names_equal_iff [of "name_at (cmdbuf s) 1" "name_at (cmdbuf s) 1" "cmdbuf s 3"]
    unfolding waits_for_def rp words(1) by (simp add: words(2) [unfolded One_nat_def] numeral_3_eq_3)
  moreover have "session_lists ?t SessionWaitingRegister = session_lists s SessionWaitingRegister @ [n]"
    "n \<notin> set (session_lists ?t SessionInUse)"
    using off L by (auto simp: move_session_def move_list_def save_request_def lists_ok_def)
  moreover have "replyTarget ?t = replyTarget s" "cmdbuf ?t = cmdbuf s" "registered ?t = registered s"
    by (simp_all add: save_request_def move_session_def upd_session_def registered_def)
  ultimately show ?thesis using d rp by blast
qed

lemma demo_inv2: "sm_inv d_sem demo2"
proof -
  have "sm_run demo_env demo_boot 2 = Some demo2"
    by (simp add: eval_nat_numeral demo_start [simplified] demo_step1 demo_step2)
  then have "sm_reachable demo_env demo_boot demo2" unfolding sm_reachable_run ..
  then show ?thesis using reachable_inv [OF demo_kernel_ok] by blast
qed

lemma missing_service_parks_witness:
  "\<exists>t. dispatch demo_env 0 (demo2\<lparr>cmdbuf := set_words 0 demo_get (\<lambda>_. 0)\<rparr>) = Some t
     \<and> session_lists t SessionWaitingRegister = [0]
     \<and> waits_for False demo_name (sessions t 0)"
proof -
  let ?s = "demo2\<lparr>cmdbuf := set_words 0 demo_get (\<lambda>_. 0)\<rparr>"
  have f: "name_at (cmdbuf ?s) 1 = demo_name" "cmdbuf ?s 3 = 4" "drop_bit 16 (cmdbuf ?s 0) = 5"
    "session_lists ?s SessionWaitingRegister = []" "0 \<in> set (session_lists ?s SessionInUse)"
    "\<not> isSrvPm (sessions ?s 0)" "findServicePortByName ?s False demo_name 4 = None"
    by (simp_all add: name_at_def demo_get_def demo2_def demo1_def demo0_def findServicePortByName_def
        take_list_update)
  have inv: "sm_inv d_sem ?s" using demo_inv2 by simp
  have "\<not> R_FAILED demo_env (checkServiceName (name_at (cmdbuf ?s) 1) (cmdbuf ?s 3))"
    "findServicePortByName ?s False (name_at (cmdbuf ?s) 1) (cmdbuf ?s 3) = None"
    unfolding f(1,2) using f(7) by (simp_all add: demo_facts)
  from missing_service_parks [OF demo_laws(2) inv f(5,6,3) this] show ?thesis
    unfolding f(1,2,4) by (auto simp: demo_padded)
qed

lemma requeue_sessions:
  "sessions (requeue_session n s) = (sessions s)(n := (sessions s n)\<lparr>
     replayCmdbuf := (replayCmdbuf (sessions s n))[1 := 0xD0406401], busyClientPortHandle := 0\<rparr>)"
  by (simp add: requeue_session_def upd_session_def move_session_def)

lemma close_port_sessions:
  assumes "distinct ns" and "n \<in> set ns" and "busyClientPortHandle (sessions s n) = h"
  shows "sessions (close_port h ns s) n = (sessions s n)\<lparr>
     replayCmdbuf := (replayCmdbuf (sessions s n))[1 := 0xD0406401], busyClientPortHandle := 0\<rparr>"
proof -
  have off: "sessions (close_port h ms t) m = sessions t m" if "m \<notin> set ms" for m ms and t :: "'a sm_state"
    using that by (induction ms arbitrary: t) (auto simp: requeue_sessions)
  show ?thesis
    using assms
  proof (induction ns arbitrary: s)
    case (Cons m ns)
    then show ?case
      by (cases "m = n"; cases "busyClientPortHandle (sessions s m) = h") (simp_all add: requeue_sessions off)
  qed simp
qed

lemma close_port_lists:
  assumes "sm_inv sem s" and "distinct ns" and "set ns \<subseteq> set (session_lists s SessionWaitingPortReady)"
    and "n \<in> set ns \<and> busyClientPortHandle (sessions s n) = h
         \<or> n \<in> set (session_lists s SessionWaitingRegister)"
  shows "n \<in> set (session_lists (close_port h ns s) SessionWaitingRegister)"
  using assms
proof (induction ns arbitrary: s)
  case (Cons m ns)
  have m: "m \<in> set (session_lists s SessionWaitingPortReady)" using Cons.prems by simp
  note R = inv_requeue [OF Cons.prems(1) m]
  have mem: "x \<in> set (session_lists (requeue_session m s) l) \<longleftrightarrow>
      (if x = m then l = SessionWaitingRegister else x \<in> set (session_lists s l))" for x l
    unfolding R(2) using abs_lists.move_member [where h = "session_lists s", OF inv_lists_ok [OF Cons.prems(1)] m] by simp
  show ?case
  proof (cases "busyClientPortHandle (sessions s m) = h")
    case True
    have "set ns \<subseteq> set (session_lists (requeue_session m s) SessionWaitingPortReady)"
      using Cons.prems(2,3) by (auto simp: mem)
    moreover have "n \<in> set ns \<and> busyClientPortHandle (sessions (requeue_session m s) n) = h
         \<or> n \<in> set (session_lists (requeue_session m s) SessionWaitingRegister)"
      using Cons.prems(2,4) by (auto simp: mem requeue_sessions)
    ultimately show ?thesis using Cons.IH [OF R(1)] Cons.prems(2) True by simp
  next
    case False
    then show ?thesis using Cons.IH [OF Cons.prems(1)] Cons.prems by auto
  qed
qed auto

text \<open>C14. When a port is closed, a session that waited for a free slot on it is put on the
  list of sessions that wait for a registration, but the error code is written over the first
  four bytes of the name in its saved request: no registration of a name that does not begin
  with the byte 1, so in particular not that of the service it asked for, wakes it up.\<close>

theorem requeued_not_woken:
  assumes "sm_inv sem s" and "n \<in> set (session_lists s SessionWaitingPortReady)"
    and "busyClientPortHandle (sessions s n) = h" and "replayCmdbuf (sessions s n) ! 3 \<noteq> 0"
    and "t = close_port h (session_lists s SessionWaitingPortReady) s"
  shows "n \<in> set (session_lists t SessionWaitingRegister)
     \<and> (\<forall>named name. length name = 8 \<and> name ! 0 \<noteq> 1 \<longrightarrow> \<not> waits_for named name (sessions t n))"
proof -
  let ?ns = "session_lists s SessionWaitingPortReady"
  have d: "distinct ?ns" using inv_lists_ok [OF assms(1)] by (simp add: lists_ok_def)
  have "n \<in> set (session_lists t SessionWaitingRegister)"
    unfolding assms(5) by (rule close_port_lists [OF assms(1) d subset_refl]) (use assms in blast)
  moreover have "\<not> waits_for named name (sessions t n)" if l: "length name = 8" and c: "name ! 0 \<noteq> 1" for named name
  proof -
    let ?r = "(replayCmdbuf (sessions s n))[1 := 0xD0406401]"
    have len: "length (replayCmdbuf (sessions s n)) = 4" using inv_session_length [OF assms(1)] .
    obtain k where k: "unat (replayCmdbuf (sessions s n) ! 3) = Suc k"
      using assms(4) by (cases "unat (replayCmdbuf (sessions s n) ! 3)") (auto simp: unat_eq_0)
    obtain c cs where name: "name = c # cs" using l by (cases name) auto
    have "word_bytes (?r ! 1) = [0x01, 0x64, 0x40, 0xD0]" using len by (simp add: word_bytes_def)
    then have "\<not> areServiceNamesEqual (word_bytes (?r ! 1) @ word_bytes (?r ! 2)) name (?r ! 3)"
      using c by (simp add: areServiceNamesEqual_def k name)
    then show ?thesis
      unfolding assms(5) waits_for_def close_port_sessions [OF d assms(2,3)] by simp
  qed
  ultimately show ?thesis by blast
qed

text \<open>The first client of the example waits for a free slot on port 99.\<close>

definition demo_full :: "demo_kernel sm_state" where
  "demo_full = demo2\<lparr>
     session_lists := (\<lambda>_. [])(SessionFree := [2..<nb_session_pool], SessionInUse := [1],
                              SessionWaitingPortReady := [0]),
     sessions := (sessions demo2)(0 := (demo_session 20)\<lparr>
       replayCmdbuf := take 4 demo_get, busyClientPortHandle := 99\<rparr>)\<rparr>"

lemma demo_full_inv: "sm_inv d_sem demo_full"
proof -
  have L: "(\<lambda>_. [])(SessionFree := [2..<nb_session_pool], SessionInUse := [1], SessionWaitingPortReady := [0])
      = move_list 0 SessionWaitingPortReady True (session_lists demo2)"
    by (auto simp: demo2_def move_list_def fun_eq_iff)
  have "sm_inv d_sem (move_session 0 SessionWaitingPortReady True demo2)"
    by (rule inv_move_session [OF demo_inv2, where l = SessionInUse]) (simp_all add: demo2_def)
  then have "sm_inv d_sem (upd_session 0 (\<lambda>_. (demo_session 20)\<lparr>
       replayCmdbuf := take 4 demo_get, busyClientPortHandle := 99\<rparr>)
       (move_session 0 SessionWaitingPortReady True demo2))"
    by (rule inv_upd_session) (simp add: demo_get_def)
  then show ?thesis unfolding demo_full_def L by (simp add: upd_session_def move_session_def)
qed

lemma requeued_not_woken_witness:
  "0 \<in> set (session_lists (close_port 99 [0] demo_full) SessionWaitingRegister)
     \<and> \<not> waits_for False demo_name (sessions (close_port 99 [0] demo_full) 0)"
proof -
  have f: "session_lists demo_full SessionWaitingPortReady = [0]" "sessions demo_full 0
      = (demo_session 20)\<lparr>replayCmdbuf := take 4 demo_get, busyClientPortHandle := 99\<rparr>"
    by (simp_all add: demo_full_def)
  have "busyClientPortHandle (sessions demo_full 0) = 99" "replayCmdbuf (sessions demo_full 0) ! 3 \<noteq> 0"
    "0 \<in> set (session_lists demo_full SessionWaitingPortReady)"
    unfolding f by (simp_all add: demo_get_def)
  from requeued_not_woken [OF demo_full_inv this(3,1,2) refl] demo_length show ?thesis
    unfolding f(1) by (simp add: demo_name_def)
qed

section \<open>The lists\<close>

text \<open>C15. \<open>moveNode\<close> on the pointers does to the lists exactly what the rest of the development
  takes it to do: the node leaves its list and goes to the chosen end of the other one (or
  stays where it is when it is there already), every other list keeps its elements and their
  order, the structure stays well formed, and walking any list ends.\<close>

theorem moveNode_refines:
  assumes "heap_ok N h" and "n \<in> set (heap_elems N h l)"
  shows "heap_ok N (moveNode n dst back h)
     \<and> heap_elems N (moveNode n dst back h) = move_list n dst back (heap_elems N h)
     \<and> (\<forall>k. walk N (moveNode n dst back h) k = Some (move_list n dst back (heap_elems N h) k))"
proof -
  have ok: "heap_ok N (moveNode n dst back h)" by (rule heap_lists.move_ok [OF assms])
  have el: "heap_elems N (moveNode n dst back h) = move_list n dst back (heap_elems N h)"
    by (rule heap_lists.move_elems [OF assms])
  obtain L where L: "repr (moveNode n dst back h) L" "\<And>l. set (L l) \<subseteq> {..<N}"
    using ok unfolding heap_ok_def by blast
  have "walk N (moveNode n dst back h) k = Some (L k)" for k
    using L(1) distinct_below_length [OF _ L(2)] unfolding repr_def
    by (intro walk_repr [OF L(1)]) blast
  with ok el heap_elems_repr [OF L] show ?thesis by simp
qed

definition demo_pool :: "(nat, nat) node_heap" where
  "demo_pool = buildList 1 3 \<lparr>nprev = \<lambda>_. None, nnext = \<lambda>_. None, nparent = \<lambda>_. 0,
     lfirst = \<lambda>_. None, llast = \<lambda>_. None\<rparr>"

lemma moveNode_refines_witness:
  "heap_elems 3 (moveNode 1 0 True demo_pool) 1 = [0, 2]
     \<and> walk 3 (moveNode 1 0 True demo_pool) 0 = Some [1]"
proof -
  have R: "repr demo_pool ((\<lambda>_. [])(1 := [0..<3]))"
    unfolding demo_pool_def by (rule repr_buildList) simp_all
  have S: "set (((\<lambda>_. [])(1 := [0..<3])) l) \<subseteq> {..<3}" for l :: nat by auto
  have E: "heap_elems 3 demo_pool = (\<lambda>_. [])(1 := [0..<3])" by (rule heap_elems_repr [OF R S])
  have "heap_ok 3 demo_pool" unfolding heap_ok_def using R S by blast
  moreover have "1 \<in> set (heap_elems 3 demo_pool 1)" unfolding E by simp
  ultimately show ?thesis
    using moveNode_refines [of 3 demo_pool 1 1 0 True] by (simp add: E move_list_def upt_rec)
qed

end
