(* ===== verification/Cheat_State.thy ===== *)
theory Cheat_State
  imports Omiiba_Prelude
begin

text \<open>
  The data of the cheat engine of Rosalina (\<open>sysmodules/rosalina/source/menus/cheats.c\<close>):
  the description of a cheat, the registers of the interpreter, its 4 KiB scratch page, the
  random generator, and the memory accesses through the debug system calls. The system
  calls, the input registers and the floating-point unit are not part of the repository:
  they are the fields of an environment record; \<open>'p\<close> is the state of the debugged process
  and of the input devices.
\<close>

section \<open>Data\<close>

text \<open>\<open>codes\<close> is the flexible array at the end of the structure and \<open>codesCount\<close> its length.\<close>

record CheatDescription =
  cd_active :: bool
  cd_valid :: bool
  hasKeyCode :: bool
  activeStorage_bit :: bool
  cd_name :: "u8 list"
  storage1 :: u32
  storage2 :: u32
  codes :: "u64 list"

abbreviation codesCount :: "CheatDescription \<Rightarrow> nat" where
  "codesCount c \<equiv> length (codes c)"

text \<open>The registers (\<open>cheat_state\<close>), with the other globals the interpreter works on and the
  cheat it runs. \<open>loopLine\<close> is the signed byte of the source, read with \<open>scast\<close>.\<close>

record 'p cheat_vm =
  vm_index :: u32
  offset1 :: u32
  offset2 :: u32
  data1 :: u32
  data2 :: u32
  activeOffset_bit :: bool
  activeData_bit :: bool
  conditionalMode :: u8
  data1Mode :: bool
  data2Mode :: bool
  floatMode :: bool
  typeELine :: u8
  typeEIdx :: u8
  loopLine :: u8
  loopCount :: u32
  ifStack :: u32
  storedStack :: u32
  ifCount :: u8
  storedIfCount :: u8
  cheatPage :: "u32 \<Rightarrow> u8"
  cheatRngState :: u64
  cheat :: CheatDescription
  world :: 'p

text \<open>\<open>memory_behind\<close> is what a read past the end of the code array of the cheat finds in
  the buffer that holds all the cheats.\<close>

record 'p cheat_env =
  svcQueryDebugProcessMemory :: "'p \<Rightarrow> u32 \<Rightarrow> Result \<times> u32 \<times> u32 \<times> u32"
  svcReadProcessMemory :: "'p \<Rightarrow> u32 \<Rightarrow> nat \<Rightarrow> Result \<times> u8 list"
  svcWriteProcessMemory :: "u32 \<Rightarrow> u8 list \<Rightarrow> 'p \<Rightarrow> Result \<times> 'p"
  HID_PAD :: "'p \<Rightarrow> u32 \<times> 'p"
  hidTouchRead :: "'p \<Rightarrow> (u16 \<times> u16) \<times> 'p"
  c_R_SUCCEEDED :: "Result \<Rightarrow> bool"
  MEMSTATE_FREE :: u32
  float_add :: "u32 \<Rightarrow> u32 \<Rightarrow> u32"
  float_mul :: "u32 \<Rightarrow> u32 \<Rightarrow> u32"
  float_div :: "u32 \<Rightarrow> u32 \<Rightarrow> u32"
  float_to_u32 :: "u32 \<Rightarrow> u32"
  u32_to_float :: "u32 \<Rightarrow> u32"
  memory_behind :: "nat \<Rightarrow> u64"

text \<open>How an instruction ends: the next one follows, the interpreter returns 0 or 1, or the C
  code has no defined behaviour (division by zero, a shift by 32 or more).\<close>

datatype 'p outcome =
    Cont "'p cheat_vm"
  | Return bool "'p cheat_vm"
  | Undefined

section \<open>Registers\<close>

definition activeOffset :: "'p cheat_vm \<Rightarrow> u32" where
  "activeOffset s = (if activeOffset_bit s then offset2 s else offset1 s)"

definition set_activeOffset :: "u32 \<Rightarrow> 'p cheat_vm \<Rightarrow> 'p cheat_vm" where
  "set_activeOffset v s = (if activeOffset_bit s then s\<lparr>offset2 := v\<rparr> else s\<lparr>offset1 := v\<rparr>)"

definition activeData :: "'p cheat_vm \<Rightarrow> u32" where
  "activeData s = (if activeData_bit s then data2 s else data1 s)"

definition set_activeData :: "u32 \<Rightarrow> 'p cheat_vm \<Rightarrow> 'p cheat_vm" where
  "set_activeData v s = (if activeData_bit s then s\<lparr>data2 := v\<rparr> else s\<lparr>data1 := v\<rparr>)"

definition activeStorage :: "'p cheat_vm \<Rightarrow> u32" where
  "activeStorage s = (if activeStorage_bit (cheat s) then storage2 (cheat s) else storage1 (cheat s))"

definition Cheat_GetRandomNumber :: "'p cheat_vm \<Rightarrow> u32 \<times> 'p cheat_vm" where
  "Cheat_GetRandomNumber s =
     (let r = 0x5D588B656C078965 * cheatRngState s + 0x0000000000269EC3
      in (ucast (drop_bit 32 r), s\<lparr>cheatRngState := r\<rparr>))"

definition Cheat_SeedRng :: "u64 \<Rightarrow> 'p cheat_vm \<Rightarrow> 'p cheat_vm" where
  "Cheat_SeedRng seed s = s\<lparr>cheatRngState := seed\<rparr>"

section \<open>Bytes\<close>

definition bytes16 :: "u16 \<Rightarrow> u8 list" where
  "bytes16 v = [ucast v, ucast (drop_bit 8 v)]"

definition bytes32 :: "u32 \<Rightarrow> u8 list" where
  "bytes32 v = [ucast v, ucast (drop_bit 8 v), ucast (drop_bit 16 v), ucast (drop_bit 24 v)]"

definition word16 :: "u8 list \<Rightarrow> u16" where
  "word16 b = ucast (b ! 0) OR push_bit 8 (ucast (b ! 1))"

definition word32 :: "u8 list \<Rightarrow> u32" where
  "word32 b = ucast (b ! 0) OR push_bit 8 (ucast (b ! 1)) OR push_bit 16 (ucast (b ! 2))
                OR push_bit 24 (ucast (b ! 3))"

lemma length_bytes [simp]: "length (bytes16 v) = 2" "length (bytes32 w) = 4"
  by (simp_all add: bytes16_def bytes32_def)

lemma word16_bytes16 [simp]: "word16 (bytes16 v) = v"
  by (rule bit_word_eqI) (auto simp: word16_def bytes16_def bit_simps)

lemma word32_bytes32 [simp]: "word32 (bytes32 v) = v"
proof (rule bit_word_eqI)
  fix n assume "n < LENGTH(32)"
  then consider "n < 8" | "8 \<le> n" "n < 16" | "16 \<le> n" "n < 24" | "24 \<le> n" "n < 32" by fastforce
  then show "bit (word32 (bytes32 v)) n = bit v n"
    by cases (auto simp: word32_def bytes32_def bit_simps)
qed

section \<open>Memory\<close>

definition Cheat_IsValidAddress :: "'p cheat_env \<Rightarrow> u32 \<Rightarrow> u32 \<Rightarrow> 'p cheat_vm \<Rightarrow> bool" where
  "Cheat_IsValidAddress E address size32 s =
     (case svcQueryDebugProcessMemory E (world s) address of
        (res, st, base_addr, info_size) \<Rightarrow>
          c_R_SUCCEEDED E res \<and> st \<noteq> MEMSTATE_FREE E \<and> base_addr > 0 \<and> base_addr \<le> address
          \<and> address \<le> base_addr + info_size - size32)"

text \<open>Storing bytes into the scratch page, from offset \<open>i\<close> on.\<close>

fun page_store :: "u32 \<Rightarrow> u8 list \<Rightarrow> (u32 \<Rightarrow> u8) \<Rightarrow> (u32 \<Rightarrow> u8)" where
  "page_store i [] page = page"
| "page_store i (b # bs) page = page_store (i + 1) bs (page(i := b))"

definition page_load :: "u32 \<Rightarrow> nat \<Rightarrow> (u32 \<Rightarrow> u8) \<Rightarrow> u8 list" where
  "page_load i n page = map (\<lambda>k. page (i + of_nat k)) [0..<n]"

definition Cheat_Write :: "'p cheat_env \<Rightarrow> u32 \<Rightarrow> u32 \<Rightarrow> u8 list \<Rightarrow> 'p cheat_vm \<Rightarrow> bool \<times> 'p cheat_vm" where
  "Cheat_Write E addr ext bs s =
     (if addr \<ge> 0x01E81000 \<and> addr + ext < 0x01E82000 then
        (True, s\<lparr>cheatPage := page_store (addr - 0x01E81000) bs (cheatPage s)\<rparr>)
      else if Cheat_IsValidAddress E addr (ext + 1) s then
        (case svcWriteProcessMemory E addr bs (world s) of
           (res, w) \<Rightarrow> (c_R_SUCCEEDED E res, s\<lparr>world := w\<rparr>))
      else (False, s))"

definition Cheat_Write8 :: "'p cheat_env \<Rightarrow> u32 \<Rightarrow> u8 \<Rightarrow> 'p cheat_vm \<Rightarrow> bool \<times> 'p cheat_vm" where
  "Cheat_Write8 E offset v s = Cheat_Write E (activeOffset s + offset) 0 [v] s"

definition Cheat_Write16 :: "'p cheat_env \<Rightarrow> u32 \<Rightarrow> u16 \<Rightarrow> 'p cheat_vm \<Rightarrow> bool \<times> 'p cheat_vm" where
  "Cheat_Write16 E offset v s = Cheat_Write E (activeOffset s + offset) 1 (bytes16 v) s"

definition Cheat_Write32 :: "'p cheat_env \<Rightarrow> u32 \<Rightarrow> u32 \<Rightarrow> 'p cheat_vm \<Rightarrow> bool \<times> 'p cheat_vm" where
  "Cheat_Write32 E offset v s = Cheat_Write E (activeOffset s + offset) 3 (bytes32 v) s"

text \<open>A read that fails is \<open>None\<close>: its callers return without looking at the value.\<close>

definition Cheat_Read :: "'p cheat_env \<Rightarrow> u32 \<Rightarrow> u32 \<Rightarrow> 'p cheat_vm \<Rightarrow> u8 list option" where
  "Cheat_Read E addr ext s =
     (if addr \<ge> 0x01E81000 \<and> addr + ext < 0x01E82000 then
        Some (page_load (addr - 0x01E81000) (unat ext + 1) (cheatPage s))
      else if Cheat_IsValidAddress E addr (ext + 1) s then
        (case svcReadProcessMemory E (world s) addr (unat ext + 1) of
           (res, bs) \<Rightarrow> if c_R_SUCCEEDED E res then Some bs else None)
      else None)"

definition Cheat_Read8 :: "'p cheat_env \<Rightarrow> u32 \<Rightarrow> 'p cheat_vm \<Rightarrow> u8 option" where
  "Cheat_Read8 E offset s = map_option hd (Cheat_Read E (activeOffset s + offset) 0 s)"

definition Cheat_Read16 :: "'p cheat_env \<Rightarrow> u32 \<Rightarrow> 'p cheat_vm \<Rightarrow> u16 option" where
  "Cheat_Read16 E offset s = map_option word16 (Cheat_Read E (activeOffset s + offset) 1 s)"

definition Cheat_Read32 :: "'p cheat_env \<Rightarrow> u32 \<Rightarrow> 'p cheat_vm \<Rightarrow> u32 option" where
  "Cheat_Read32 E offset s = map_option word32 (Cheat_Read E (activeOffset s + offset) 3 s)"

text \<open>\<open>if (!Cheat_Write...) return 0;\<close> and \<open>if (!Cheat_Read...) return 0;\<close>.\<close>

definition on_write :: "bool \<times> 'p cheat_vm \<Rightarrow> ('p cheat_vm \<Rightarrow> 'p outcome) \<Rightarrow> 'p outcome" where
  "on_write r k = (case r of (ok, s) \<Rightarrow> if ok then k s else Return False s)"

definition on_read :: "'a option \<Rightarrow> 'p cheat_vm \<Rightarrow> ('a \<Rightarrow> 'p outcome) \<Rightarrow> 'p outcome" where
  "on_read r s k = (case r of None \<Rightarrow> Return False s | Some v \<Rightarrow> k v)"

section \<open>Code words\<close>

definition code_at :: "'p cheat_env \<Rightarrow> 'p cheat_vm \<Rightarrow> nat \<Rightarrow> u64" where
  "code_at E s i = (if i < codesCount (cheat s) then codes (cheat s) ! i
                    else memory_behind E (i - codesCount (cheat s)))"

definition typeEMapping :: "nat list" where
  "typeEMapping = [32, 40, 48, 56, 0, 8, 16, 24]"

definition Cheat_GetNextTypeE :: "'p cheat_env \<Rightarrow> 'p cheat_vm \<Rightarrow> u8 \<times> 'p cheat_vm" where
  "Cheat_GetNextTypeE E s =
     (let s = (if typeEIdx s = 7 then s\<lparr>typeEIdx := 0, typeELine := typeELine s + 1\<rparr>
               else s\<lparr>typeEIdx := typeEIdx s + 1\<rparr>)
      in (ucast (drop_bit (typeEMapping ! unat (typeEIdx s)) (code_at E s (unat (typeELine s)))), s))"

end
