(* ===== verification/Cheat_Ops.thy ===== *)
theory Cheat_Ops
  imports Cheat_State
begin

text \<open>
  The instructions of the cheat engine: one definition per case of the switch in
  \<open>Cheat_ApplyCheat\<close> (\<open>cheats.c\<close>). Each takes the two words of the code line and gives how
  the case ends.
\<close>

section \<open>Conditionals\<close>

definition skipExecution :: "'p cheat_vm \<Rightarrow> bool" where
  "skipExecution s \<longleftrightarrow> ifStack s AND 1 \<noteq> 0"

definition push_if :: "bool \<Rightarrow> 'p cheat_vm \<Rightarrow> 'p cheat_vm" where
  "push_if newSkip s =
     s\<lparr>ifStack := push_bit 1 (ifStack s) OR (if newSkip \<or> skipExecution s then 1 else 0),
       ifCount := ifCount s + 1\<rparr>"

definition pop_if :: "'p cheat_vm \<Rightarrow> 'p cheat_vm" where
  "pop_if s = s\<lparr>ifStack := drop_bit 1 (ifStack s), ifCount := ifCount s - 1\<rparr>"

definition code_address :: "u32 \<Rightarrow> u32" where
  "code_address arg0 = arg0 AND 0x0FFFFFFF"

text \<open>The switch on \<open>conditionalMode\<close> the cases 3 to 6 share, for a comparison \<open>cmp\<close>.\<close>

definition conditional32 ::
    "(u32 \<Rightarrow> u32 \<Rightarrow> bool) \<Rightarrow> 'p cheat_env \<Rightarrow> u32 \<Rightarrow> u32 \<Rightarrow> 'p cheat_vm \<Rightarrow> 'p outcome" where
  "conditional32 cmp E arg0 arg1 s =
     (if conditionalMode s = 0 then
        on_read (Cheat_Read32 E (code_address arg0) s) s (\<lambda>v. Cont (push_if (\<not> cmp v arg1) s))
      else if conditionalMode s = 1 then
        on_read (Cheat_Read32 E (code_address arg0) s) s (\<lambda>v. Cont (push_if (\<not> cmp v (activeData s)) s))
      else if conditionalMode s = 2 then Cont (push_if (\<not> cmp (activeData s) arg1) s)
      else if conditionalMode s = 3 then Cont (push_if (\<not> cmp (activeStorage s) arg1) s)
      else if conditionalMode s = 4 then Cont (push_if (\<not> cmp (activeData s) (activeStorage s)) s)
      else Return False s)"

text \<open>The 16-bit cases 7 to A. The mask is a 16-bit variable, but \<open>~mask\<close> is computed on an
  \<open>int\<close>: its upper half is all ones.\<close>

definition not_mask :: "u32 \<Rightarrow> u32" where
  "not_mask arg1 = NOT (ucast (ucast (drop_bit 16 arg1) :: u16))"

definition conditional16 ::
    "(u32 \<Rightarrow> u32 \<Rightarrow> bool) \<Rightarrow> 'p cheat_env \<Rightarrow> u32 \<Rightarrow> u32 \<Rightarrow> 'p cheat_vm \<Rightarrow> 'p outcome" where
  "conditional16 cmp E arg0 arg1 s =
     (let nm = not_mask arg1 in
      if conditionalMode s = 0 then
        on_read (Cheat_Read16 E (code_address arg0) s) s
          (\<lambda>v. Cont (push_if (\<not> cmp (ucast v AND nm) (arg1 AND 0xFFFF)) s))
      else if conditionalMode s = 1 then
        on_read (Cheat_Read16 E (code_address arg0) s) s
          (\<lambda>v. Cont (push_if (\<not> cmp (ucast v AND nm) (activeData s AND nm)) s))
      else if conditionalMode s = 2 then
        Cont (push_if (\<not> cmp (activeData s AND nm) (arg1 AND 0xFFFF)) s)
      else if conditionalMode s = 3 then
        Cont (push_if (\<not> cmp (activeStorage s AND nm) (arg1 AND 0xFFFF)) s)
      else if conditionalMode s = 4 then
        Cont (push_if (\<not> cmp (activeData s AND nm) (activeStorage s AND nm)) s)
      else Return False s)"

definition op_3 :: "'p cheat_env \<Rightarrow> u32 \<Rightarrow> u32 \<Rightarrow> 'p cheat_vm \<Rightarrow> 'p outcome" where
  "op_3 = conditional32 (\<lambda>v w. v < w)"

definition op_4 :: "'p cheat_env \<Rightarrow> u32 \<Rightarrow> u32 \<Rightarrow> 'p cheat_vm \<Rightarrow> 'p outcome" where
  "op_4 = conditional32 (\<lambda>v w. v > w)"

definition op_5 :: "'p cheat_env \<Rightarrow> u32 \<Rightarrow> u32 \<Rightarrow> 'p cheat_vm \<Rightarrow> 'p outcome" where
  "op_5 = conditional32 (\<lambda>v w. v = w)"

definition op_6 :: "'p cheat_env \<Rightarrow> u32 \<Rightarrow> u32 \<Rightarrow> 'p cheat_vm \<Rightarrow> 'p outcome" where
  "op_6 = conditional32 (\<lambda>v w. v \<noteq> w)"

definition op_7 :: "'p cheat_env \<Rightarrow> u32 \<Rightarrow> u32 \<Rightarrow> 'p cheat_vm \<Rightarrow> 'p outcome" where
  "op_7 = conditional16 (\<lambda>v w. v < w)"

definition op_8 :: "'p cheat_env \<Rightarrow> u32 \<Rightarrow> u32 \<Rightarrow> 'p cheat_vm \<Rightarrow> 'p outcome" where
  "op_8 = conditional16 (\<lambda>v w. v > w)"

definition op_9 :: "'p cheat_env \<Rightarrow> u32 \<Rightarrow> u32 \<Rightarrow> 'p cheat_vm \<Rightarrow> 'p outcome" where
  "op_9 = conditional16 (\<lambda>v w. v = w)"

definition op_A :: "'p cheat_env \<Rightarrow> u32 \<Rightarrow> u32 \<Rightarrow> 'p cheat_vm \<Rightarrow> 'p outcome" where
  "op_A = conditional16 (\<lambda>v w. v \<noteq> w)"

section \<open>Writes and the offset\<close>

definition op_0 :: "'p cheat_env \<Rightarrow> u32 \<Rightarrow> u32 \<Rightarrow> 'p cheat_vm \<Rightarrow> 'p outcome" where
  "op_0 E arg0 arg1 s =
     (if skipExecution s then Cont s
      else on_write (Cheat_Write32 E (code_address arg0) arg1 s) Cont)"

definition op_1 :: "'p cheat_env \<Rightarrow> u32 \<Rightarrow> u32 \<Rightarrow> 'p cheat_vm \<Rightarrow> 'p outcome" where
  "op_1 E arg0 arg1 s =
     (if skipExecution s then Cont s
      else on_write (Cheat_Write16 E (code_address arg0) (ucast arg1) s) Cont)"

definition op_2 :: "'p cheat_env \<Rightarrow> u32 \<Rightarrow> u32 \<Rightarrow> 'p cheat_vm \<Rightarrow> 'p outcome" where
  "op_2 E arg0 arg1 s =
     (if skipExecution s then Cont s
      else on_write (Cheat_Write8 E (code_address arg0) (ucast arg1) s) Cont)"

definition op_B :: "'p cheat_env \<Rightarrow> u32 \<Rightarrow> u32 \<Rightarrow> 'p cheat_vm \<Rightarrow> 'p outcome" where
  "op_B E arg0 arg1 s =
     (if skipExecution s then Cont s
      else on_read (Cheat_Read32 E (code_address arg0) s) s (\<lambda>v. Cont (set_activeOffset v s)))"

section \<open>Loops\<close>

definition start_loop :: "u32 \<Rightarrow> 'p cheat_vm \<Rightarrow> 'p cheat_vm" where
  "start_loop n s =
     s\<lparr>loopLine := ucast (vm_index s), loopCount := n, storedStack := ifStack s, storedIfCount := ifCount s\<rparr>"

definition op_C :: "u32 \<Rightarrow> u32 \<Rightarrow> 'p cheat_vm \<Rightarrow> 'p outcome" where
  "op_C subcode arg1 s =
     Cont (if subcode = 0 then start_loop arg1 s
           else if subcode = 1 then start_loop (data1 s) s
           else if subcode = 2 then start_loop (data2 s) s
           else s)"

text \<open>\<open>cheat_state.index = cheat_state.loopLine\<close> sign-extends the byte.\<close>

definition jump_to_loop :: "'p cheat_vm \<Rightarrow> 'p cheat_vm" where
  "jump_to_loop s = (if loopLine s \<noteq> -1 then s\<lparr>vm_index := scast (loopLine s)\<rparr> else s)"

definition count_loop :: "'p cheat_vm \<Rightarrow> 'p cheat_vm" where
  "count_loop s =
     (let s = s\<lparr>loopCount := loopCount s - 1\<rparr> in
      if loopCount s = 0 then s\<lparr>loopLine := -1\<rparr> else jump_to_loop s)"

fun skip_to_end :: "u64 list \<Rightarrow> nat" where
  "skip_to_end [] = 0"
| "skip_to_end (c # cs) =
     (if c = 0xD100000000000000 \<or> c = 0xD200000000000000 then 1 else Suc (skip_to_end cs))"

definition break_loop :: "'p cheat_vm \<Rightarrow> 'p cheat_vm" where
  "break_loop s =
     (let i = vm_index s + 1 in
      s\<lparr>loopCount := 0, loopLine := -1,
        vm_index := i + of_nat (skip_to_end (drop (unat i) (codes (cheat s))))\<rparr>)"

definition op_D0 :: "u32 \<Rightarrow> 'p cheat_vm \<Rightarrow> 'p outcome" where
  "op_D0 arg1 s =
     Cont (if arg1 = 0 then
             (if loopLine s \<noteq> -1 then
                (if ifCount s > 0 \<and> ifCount s > storedIfCount s then pop_if s
                 else if loopCount s > 0 then count_loop s
                 else s)
              else if ifCount s > 0 then pop_if s
              else s)
           else if \<not> skipExecution s \<and> arg1 = 1 then break_loop s
           else s)"

definition op_D1 :: "'p cheat_vm \<Rightarrow> 'p outcome" where
  "op_D1 s =
     Cont (if loopCount s > 0
           then count_loop (s\<lparr>ifStack := storedStack s, ifCount := storedIfCount s\<rparr>)
           else s)"

definition clear_all :: "'p cheat_vm \<Rightarrow> 'p cheat_vm" where
  "clear_all s = (set_activeOffset 0 (set_activeData 0 s))\<lparr>ifStack := 0, ifCount := 0\<rparr>"

definition op_D2 :: "u32 \<Rightarrow> 'p cheat_vm \<Rightarrow> 'p outcome" where
  "op_D2 arg1 s =
     Cont (if arg1 = 0 then
             (if loopCount s > 0 then
                (let s = s\<lparr>loopCount := loopCount s - 1\<rparr> in
                 if loopCount s = 0 then (clear_all s)\<lparr>loopLine := -1\<rparr> else jump_to_loop s)
              else clear_all s)
           else if \<not> skipExecution s \<and> arg1 = 1 then s\<lparr>vm_index := of_nat (codesCount (cheat s))\<rparr>
           else s)"

section \<open>Offset and data registers\<close>

definition op_D3 :: "u32 \<Rightarrow> u32 \<Rightarrow> 'p cheat_vm \<Rightarrow> 'p outcome" where
  "op_D3 codeArg arg1 s =
     Cont (if skipExecution s then s
           else if codeArg = 0 then s\<lparr>offset1 := arg1\<rparr>
           else if codeArg = 1 then s\<lparr>offset2 := arg1\<rparr>
           else s)"

definition op_D4 :: "u32 \<Rightarrow> u32 \<Rightarrow> 'p cheat_vm \<Rightarrow> 'p outcome" where
  "op_D4 codeArg arg1 s =
     Cont (if skipExecution s then s
           else if codeArg = 0 then set_activeData (activeData s + arg1) s
           else if codeArg = 1 then s\<lparr>data1 := data1 s + (arg1 + data2 s)\<rparr>
           else if codeArg = 2 then s\<lparr>data2 := data2 s + (arg1 + data1 s)\<rparr>
           else s)"

text \<open>The register the cases D5 to DB work on: the active one, the first or the second; for
  other values of \<open>codeArg\<close> they do nothing.\<close>

definition data_reg :: "u32 \<Rightarrow> 'p cheat_vm \<Rightarrow> u32 option" where
  "data_reg codeArg s =
     (if codeArg = 0 then Some (activeData s) else if codeArg = 1 then Some (data1 s)
      else if codeArg = 2 then Some (data2 s) else None)"

definition set_data_reg :: "u32 \<Rightarrow> u32 \<Rightarrow> 'p cheat_vm \<Rightarrow> 'p cheat_vm" where
  "set_data_reg codeArg v s =
     (if codeArg = 0 then set_activeData v s else if codeArg = 1 then s\<lparr>data1 := v\<rparr>
      else if codeArg = 2 then s\<lparr>data2 := v\<rparr> else s)"

definition op_D5 :: "u32 \<Rightarrow> u32 \<Rightarrow> 'p cheat_vm \<Rightarrow> 'p outcome" where
  "op_D5 codeArg arg1 s = Cont (if skipExecution s then s else set_data_reg codeArg arg1 s)"

definition advance :: "u32 \<Rightarrow> 'p cheat_vm \<Rightarrow> 'p outcome" where
  "advance n s = Cont (set_activeOffset (activeOffset s + n) s)"

definition op_D6 :: "'p cheat_env \<Rightarrow> u32 \<Rightarrow> u32 \<Rightarrow> 'p cheat_vm \<Rightarrow> 'p outcome" where
  "op_D6 E codeArg arg1 s =
     (if skipExecution s then Cont s
      else case data_reg codeArg s of None \<Rightarrow> Cont s
      | Some v \<Rightarrow> on_write (Cheat_Write32 E arg1 v s) (advance 4))"

definition op_D7 :: "'p cheat_env \<Rightarrow> u32 \<Rightarrow> u32 \<Rightarrow> 'p cheat_vm \<Rightarrow> 'p outcome" where
  "op_D7 E codeArg arg1 s =
     (if skipExecution s then Cont s
      else case data_reg codeArg s of None \<Rightarrow> Cont s
      | Some v \<Rightarrow> on_write (Cheat_Write16 E arg1 (ucast v) s) (advance 2))"

definition op_D8 :: "'p cheat_env \<Rightarrow> u32 \<Rightarrow> u32 \<Rightarrow> 'p cheat_vm \<Rightarrow> 'p outcome" where
  "op_D8 E codeArg arg1 s =
     (if skipExecution s then Cont s
      else case data_reg codeArg s of None \<Rightarrow> Cont s
      | Some v \<Rightarrow> on_write (Cheat_Write8 E arg1 (ucast v) s) (advance 1))"

definition load_reg :: "u32 \<Rightarrow> u32 option \<Rightarrow> 'p cheat_vm \<Rightarrow> 'p outcome" where
  "load_reg codeArg r s =
     (if skipExecution s \<or> data_reg codeArg s = None then Cont s
      else on_read r s (\<lambda>v. Cont (set_data_reg codeArg v s)))"

definition op_D9 :: "'p cheat_env \<Rightarrow> u32 \<Rightarrow> u32 \<Rightarrow> 'p cheat_vm \<Rightarrow> 'p outcome" where
  "op_D9 E codeArg arg1 s = load_reg codeArg (Cheat_Read32 E arg1 s) s"

definition op_DA :: "'p cheat_env \<Rightarrow> u32 \<Rightarrow> u32 \<Rightarrow> 'p cheat_vm \<Rightarrow> 'p outcome" where
  "op_DA E codeArg arg1 s = load_reg codeArg (map_option ucast (Cheat_Read16 E arg1 s)) s"

definition op_DB :: "'p cheat_env \<Rightarrow> u32 \<Rightarrow> u32 \<Rightarrow> 'p cheat_vm \<Rightarrow> 'p outcome" where
  "op_DB E codeArg arg1 s = load_reg codeArg (map_option ucast (Cheat_Read8 E arg1 s)) s"

definition op_DC :: "u32 \<Rightarrow> 'p cheat_vm \<Rightarrow> 'p outcome" where
  "op_DC arg1 s = (if skipExecution s then Cont s else advance arg1 s)"

section \<open>Input\<close>

definition op_DD :: "'p cheat_env \<Rightarrow> u32 \<Rightarrow> 'p cheat_vm \<Rightarrow> 'p outcome" where
  "op_DD E arg1 s =
     (if arg1 = 0 then Cont (push_if False s)
      else case HID_PAD E (world s) of
        (pad, w) \<Rightarrow> Cont (push_if (pad AND arg1 \<noteq> arg1) (s\<lparr>world := w\<rparr>)))"

definition op_DE :: "'p cheat_env \<Rightarrow> u32 \<Rightarrow> u32 \<Rightarrow> 'p cheat_vm \<Rightarrow> 'p outcome" where
  "op_DE E codeArg arg1 s =
     (case hidTouchRead E (world s) of ((px, py), w) \<Rightarrow>
        let s = s\<lparr>world := w\<rparr>; highBound = drop_bit 16 arg1; lowBound = arg1 AND 0xFFFF in
        if codeArg = 0 then Cont (push_if (\<not> (lowBound \<le> ucast px \<and> highBound \<ge> ucast px)) s)
        else if codeArg = 1 then Cont (push_if (\<not> (lowBound \<le> ucast py \<and> highBound \<ge> ucast py)) s)
        else Return False s)"

section \<open>Register control (\<open>DF\<close>)\<close>

text \<open>These cases do not look at the skip flag.\<close>

definition op_DF_0 :: "u32 \<Rightarrow> 'p cheat_vm \<Rightarrow> 'p outcome" where
  "op_DF_0 arg1 s =
     Cont (if arg1 AND 0x00010000 \<noteq> 0 then
             (if arg1 AND 1 \<noteq> 0 then s\<lparr>offset2 := offset1 s\<rparr> else s\<lparr>offset1 := offset2 s\<rparr>)
           else if arg1 AND 0x00020000 \<noteq> 0 then
             (if arg1 AND 1 \<noteq> 0 then s\<lparr>data2 := offset2 s\<rparr> else s\<lparr>data1 := offset1 s\<rparr>)
           else s\<lparr>activeOffset_bit := (arg1 AND 1 \<noteq> 0)\<rparr>)"

definition op_DF_1 :: "u32 \<Rightarrow> 'p cheat_vm \<Rightarrow> 'p outcome" where
  "op_DF_1 arg1 s =
     Cont (if arg1 AND 0x00010000 \<noteq> 0 then
             (if arg1 AND 1 \<noteq> 0 then s\<lparr>data2 := data1 s\<rparr> else s\<lparr>data1 := data2 s\<rparr>)
           else if arg1 AND 0x00020000 \<noteq> 0 then
             (if arg1 AND 1 \<noteq> 0 then s\<lparr>offset2 := data2 s\<rparr> else s\<lparr>offset1 := data1 s\<rparr>)
           else s\<lparr>activeData_bit := (arg1 AND 1 \<noteq> 0)\<rparr>)"

definition op_DF_2 :: "u32 \<Rightarrow> 'p cheat_vm \<Rightarrow> 'p outcome" where
  "op_DF_2 arg1 s =
     Cont (if arg1 AND 0x00010000 \<noteq> 0 then
             (if arg1 AND 1 \<noteq> 0 then s\<lparr>data2 := storage2 (cheat s)\<rparr>
              else s\<lparr>data1 := storage1 (cheat s)\<rparr>)
           else if arg1 AND 0x00020000 \<noteq> 0 then
             (if arg1 AND 1 \<noteq> 0 then s\<lparr>cheat := (cheat s)\<lparr>storage2 := data2 s\<rparr>\<rparr>
              else s\<lparr>cheat := (cheat s)\<lparr>storage1 := data1 s\<rparr>\<rparr>)
           else s\<lparr>cheat := (cheat s)\<lparr>activeStorage_bit := (arg1 AND 1 \<noteq> 0)\<rparr>\<rparr>)"

definition op_DF_E :: "'p cheat_env \<Rightarrow> u32 \<Rightarrow> 'p cheat_vm \<Rightarrow> 'p outcome" where
  "op_DF_E E arg1 s =
     (if activeData_bit s then
        (if arg1 = 0 then Cont (s\<lparr>data2Mode := False\<rparr>)
         else if arg1 = 1 then Cont (s\<lparr>data2Mode := True\<rparr>)
         else if arg1 = 0x10 then Cont (s\<lparr>data2Mode := False, data2 := float_to_u32 E (data2 s)\<rparr>)
         else if arg1 = 0x11 then Cont (s\<lparr>data2Mode := True, data2 := u32_to_float E (data2 s)\<rparr>)
         else Return False s)
      else
        (if arg1 = 0 then Cont (s\<lparr>data1Mode := False\<rparr>)
         else if arg1 = 1 then Cont (s\<lparr>data1Mode := True\<rparr>)
         else if arg1 = 0x10 then Cont (s\<lparr>data1Mode := False, data1 := float_to_u32 E (data1 s)\<rparr>)
         else if arg1 = 0x11 then Cont (s\<lparr>data1Mode := True, data1 := u32_to_float E (data1 s)\<rparr>)
         else Return False s))"

definition op_DF_F :: "u32 \<Rightarrow> 'p cheat_vm \<Rightarrow> 'p outcome" where
  "op_DF_F arg1 s = (if arg1 < 5 then Cont (s\<lparr>conditionalMode := ucast arg1\<rparr>) else Return False s)"

definition op_DF :: "'p cheat_env \<Rightarrow> u32 \<Rightarrow> u32 \<Rightarrow> 'p cheat_vm \<Rightarrow> 'p outcome" where
  "op_DF E codeArg arg1 s =
     (if codeArg = 0 then op_DF_0 arg1 s
      else if codeArg = 1 then op_DF_1 arg1 s
      else if codeArg = 2 then op_DF_2 arg1 s
      else if codeArg = 0xE then op_DF_E E arg1 s
      else if codeArg = 0xF then op_DF_F arg1 s
      else Return False s)"

definition op_D :: "'p cheat_env \<Rightarrow> u32 \<Rightarrow> u32 \<Rightarrow> u32 \<Rightarrow> 'p cheat_vm \<Rightarrow> 'p outcome" where
  "op_D E subcode codeArg arg1 s =
     (if subcode = 0x0 then op_D0 arg1 s
      else if subcode = 0x1 then op_D1 s
      else if subcode = 0x2 then op_D2 arg1 s
      else if subcode = 0x3 then op_D3 codeArg arg1 s
      else if subcode = 0x4 then op_D4 codeArg arg1 s
      else if subcode = 0x5 then op_D5 codeArg arg1 s
      else if subcode = 0x6 then op_D6 E codeArg arg1 s
      else if subcode = 0x7 then op_D7 E codeArg arg1 s
      else if subcode = 0x8 then op_D8 E codeArg arg1 s
      else if subcode = 0x9 then op_D9 E codeArg arg1 s
      else if subcode = 0xA then op_DA E codeArg arg1 s
      else if subcode = 0xB then op_DB E codeArg arg1 s
      else if subcode = 0xC then op_DC arg1 s
      else if subcode = 0xD then op_DD E arg1 s
      else if subcode = 0xE then op_DE E codeArg arg1 s
      else if subcode = 0xF then op_DF E codeArg arg1 s
      else Return False s)"

section \<open>Writing a block of bytes (\<open>E\<close>)\<close>

fun typeE_loop :: "'p cheat_env \<Rightarrow> bool \<Rightarrow> u32 \<Rightarrow> nat \<Rightarrow> u32 \<Rightarrow> 'p cheat_vm \<Rightarrow> 'p outcome" where
  "typeE_loop E skip beginOffset 0 i s = Cont s"
| "typeE_loop E skip beginOffset (Suc n) i s =
     (case Cheat_GetNextTypeE E s of (byte, s) \<Rightarrow>
        if \<not> skip then
          on_write (Cheat_Write8 E (beginOffset + i) byte s) (typeE_loop E skip beginOffset n (i + 1))
        else typeE_loop E skip beginOffset n (i + 1) s)"

definition and_then :: "'p outcome \<Rightarrow> ('p cheat_vm \<Rightarrow> 'p outcome) \<Rightarrow> 'p outcome" where
  "and_then r k = (case r of Cont s \<Rightarrow> k s | Return b s \<Rightarrow> Return b s | Undefined \<Rightarrow> Undefined)"

definition op_E :: "'p cheat_env \<Rightarrow> u32 \<Rightarrow> u32 \<Rightarrow> 'p cheat_vm \<Rightarrow> 'p outcome" where
  "op_E E arg0 arg1 s =
     and_then
       (typeE_loop E (skipExecution s) (code_address arg0) (unat arg1) 0
          (s\<lparr>typeELine := ucast (vm_index s), typeEIdx := 7\<rparr>))
       (\<lambda>s. Cont (s\<lparr>vm_index := ucast (typeELine s)\<rparr>))"

section \<open>Arithmetic, copy, search and random (\<open>F\<close>)\<close>

definition f_address :: "u32 \<Rightarrow> u32" where
  "f_address arg0 = arg0 AND 0x00FFFFFF"

definition op_F0 :: "u32 \<Rightarrow> 'p cheat_vm \<Rightarrow> 'p outcome" where
  "op_F0 arg1 s = Cont (if skipExecution s then s else s\<lparr>floatMode := (arg1 AND 1 \<noteq> 0)\<rparr>)"

definition op_F1 :: "'p cheat_env \<Rightarrow> u32 \<Rightarrow> u32 \<Rightarrow> 'p cheat_vm \<Rightarrow> 'p outcome" where
  "op_F1 E arg0 arg1 s =
     (if skipExecution s then Cont s
      else on_read (Cheat_Read32 E (f_address arg0) s) s (\<lambda>tmp.
        on_write (Cheat_Write32 E (f_address arg0)
                    (if floatMode s then float_add E tmp arg1 else tmp + arg1) s) Cont))"

definition op_F2 :: "'p cheat_env \<Rightarrow> u32 \<Rightarrow> u32 \<Rightarrow> 'p cheat_vm \<Rightarrow> 'p outcome" where
  "op_F2 E arg0 arg1 s =
     (if skipExecution s then Cont s
      else on_read (Cheat_Read32 E (f_address arg0) s) s (\<lambda>tmp.
        on_write (Cheat_Write32 E (f_address arg0)
                    (if floatMode s then float_mul E tmp arg1 else tmp * arg1) s) Cont))"

definition op_F3 :: "'p cheat_env \<Rightarrow> u32 \<Rightarrow> u32 \<Rightarrow> 'p cheat_vm \<Rightarrow> 'p outcome" where
  "op_F3 E arg0 arg1 s =
     (if skipExecution s then Cont s
      else on_read (Cheat_Read32 E (f_address arg0) s) s (\<lambda>tmp.
        if \<not> floatMode s \<and> arg1 = 0 then Undefined
        else on_write (Cheat_Write32 E (f_address arg0)
                    (if floatMode s then float_div E tmp arg1 else tmp div arg1) s) Cont))"

definition op_F4 :: "'p cheat_env \<Rightarrow> u32 \<Rightarrow> 'p cheat_vm \<Rightarrow> 'p outcome" where
  "op_F4 E arg1 s =
     Cont (if skipExecution s then s
           else set_activeData (if data1Mode s then float_mul E (activeData s) arg1
                                else activeData s * arg1) s)"

definition op_F5 :: "'p cheat_env \<Rightarrow> u32 \<Rightarrow> 'p cheat_vm \<Rightarrow> 'p outcome" where
  "op_F5 E arg1 s =
     (if skipExecution s then Cont s
      else if data1Mode s then Cont (set_activeData (float_div E (activeData s) arg1) s)
      else if arg1 = 0 then Undefined
      else Cont (set_activeData (activeData s div arg1) s))"

text \<open>The bitwise cases 6 to 9 and the shifts A and B.\<close>

definition op_Fbits :: "u32 \<Rightarrow> u32 \<Rightarrow> 'p cheat_vm \<Rightarrow> 'p outcome" where
  "op_Fbits subcode arg1 s =
     Cont (if skipExecution s then s
           else set_activeData
             (if subcode = 6 then activeData s AND arg1
              else if subcode = 7 then activeData s OR arg1
              else if subcode = 8 then activeData s XOR arg1
              else NOT (activeData s)) s)"

definition op_Fshift :: "u32 \<Rightarrow> u32 \<Rightarrow> 'p cheat_vm \<Rightarrow> 'p outcome" where
  "op_Fshift subcode arg1 s =
     (if skipExecution s then Cont s
      else if arg1 \<ge> 32 then Undefined
      else Cont (set_activeData
             (if subcode = 0xA then push_bit (unat arg1) (activeData s)
              else drop_bit (unat arg1) (activeData s)) s))"

text \<open>The copy loop: each round reads at the second offset and writes at the first.\<close>

fun copy_loop :: "'p cheat_env \<Rightarrow> nat \<Rightarrow> 'p cheat_vm \<Rightarrow> 'p outcome" where
  "copy_loop E 0 s = Cont s"
| "copy_loop E (Suc n) s =
     (let s = s\<lparr>activeOffset_bit := True\<rparr> in
      on_read (Cheat_Read8 E 0 s) s (\<lambda>v.
        on_write (Cheat_Write8 E 0 v (s\<lparr>activeOffset_bit := False\<rparr>)) (copy_loop E n)))"

definition op_FC :: "'p cheat_env \<Rightarrow> u32 \<Rightarrow> 'p cheat_vm \<Rightarrow> 'p outcome" where
  "op_FC E arg1 s =
     (if skipExecution s then Cont s
      else and_then (copy_loop E (unat arg1) s)
             (\<lambda>t. Cont (t\<lparr>activeOffset_bit := activeOffset_bit s\<rparr>)))"

text \<open>The pattern is the memory image of the code words after the line.\<close>

definition searchData :: "'p cheat_vm \<Rightarrow> nat \<Rightarrow> u8 list" where
  "searchData s n =
     map (\<lambda>j. ucast (drop_bit (8 * (j mod 8)) (codes (cheat s) ! (unat (vm_index s) + 1 + j div 8)))) [0..<n]"

text \<open>\<open>None\<close>: a read failed. The comparison at one position, and the search over the
  positions.\<close>

fun match_at :: "'p cheat_env \<Rightarrow> 'p cheat_vm \<Rightarrow> u32 \<Rightarrow> u8 list \<Rightarrow> bool option" where
  "match_at E s i [] = Some True"
| "match_at E s i (b # bs) =
     (case Cheat_Read8 E i s of
        None \<Rightarrow> None
      | Some v \<Rightarrow> if v \<noteq> b then Some False else match_at E s (i + 1) bs)"

fun search_loop :: "'p cheat_env \<Rightarrow> 'p cheat_vm \<Rightarrow> u8 list \<Rightarrow> nat \<Rightarrow> u32 \<Rightarrow> bool option" where
  "search_loop E s pat 0 i = Some False"
| "search_loop E s pat (Suc n) i =
     (case match_at E s i pat of
        None \<Rightarrow> None
      | Some True \<Rightarrow> Some True
      | Some False \<Rightarrow> search_loop E s pat n (i + 1))"

definition op_FE :: "'p cheat_env \<Rightarrow> u32 \<Rightarrow> u32 \<Rightarrow> 'p cheat_vm \<Rightarrow> 'p outcome" where
  "op_FE E arg0 arg1 s =
     (let searchSize = arg0 AND 0xFFFF in
      if searchSize \<le> arg1 \<and> searchSize + vm_index s < of_nat (codesCount (cheat s)) then
        (if skipExecution s then Cont (push_if True s)
         else
           (let pat = searchData s (unat searchSize);
                s = s\<lparr>vm_index := vm_index s + searchSize div 8
                                    + (if searchSize AND 7 \<noteq> 0 then 1 else 0)\<rparr>
            in on_read (search_loop E s pat (unat (arg1 - searchSize)) 0) s
                 (\<lambda>found. Cont (push_if (\<not> found) s))))
      else Return False s)"

definition op_FF :: "u32 \<Rightarrow> u32 \<Rightarrow> 'p cheat_vm \<Rightarrow> 'p outcome" where
  "op_FF arg0 arg1 s =
     (if skipExecution s then Cont s
      else
        (let range = arg1 - f_address arg0 in
         case Cheat_GetRandomNumber s of (r, s) \<Rightarrow>
           if range = 0 then Undefined
           else Cont (set_activeData (f_address arg0 + r mod range) s)))"

definition op_F :: "'p cheat_env \<Rightarrow> u32 \<Rightarrow> u32 \<Rightarrow> u32 \<Rightarrow> 'p cheat_vm \<Rightarrow> 'p outcome" where
  "op_F E subcode arg0 arg1 s =
     (if arg0 = 0xF0F00000 then Return False s
      else if subcode = 0x0 then op_F0 arg1 s
      else if subcode = 0x1 then op_F1 E arg0 arg1 s
      else if subcode = 0x2 then op_F2 E arg0 arg1 s
      else if subcode = 0x3 then op_F3 E arg0 arg1 s
      else if subcode = 0x4 then op_F4 E arg1 s
      else if subcode = 0x5 then op_F5 E arg1 s
      else if subcode = 0x6 \<or> subcode = 0x7 \<or> subcode = 0x8 \<or> subcode = 0x9 then op_Fbits subcode arg1 s
      else if subcode = 0xA \<or> subcode = 0xB then op_Fshift subcode arg1 s
      else if subcode = 0xC then op_FC E arg1 s
      else if subcode = 0xE then op_FE E arg0 arg1 s
      else if subcode = 0xF then op_FF arg0 arg1 s
      else Return False s)"

end
