(* ===== verification/Cheat_Exec.thy ===== *)
theory Cheat_Exec
  imports Cheat_Ops
begin

text \<open>
  The interpreter loop \<open>Cheat_ApplyCheat\<close>: decoding a line, running its case, and going on
  to the next. The loop of the source can run forever, so it takes fuel here: \<open>None\<close> means
  that the fuel did not suffice.
\<close>

section \<open>One line\<close>

definition cheat_op :: "'p cheat_env \<Rightarrow> u32 \<Rightarrow> u32 \<Rightarrow> 'p cheat_vm \<Rightarrow> 'p outcome" where
  "cheat_op E arg0 arg1 s =
     (let code = drop_bit 28 arg0 AND 0x0F; subcode = drop_bit 24 arg0 AND 0x0F; codeArg = arg0 AND 0x0F in
      if code = 0x0 then op_0 E arg0 arg1 s
      else if code = 0x1 then op_1 E arg0 arg1 s
      else if code = 0x2 then op_2 E arg0 arg1 s
      else if code = 0x3 then op_3 E arg0 arg1 s
      else if code = 0x4 then op_4 E arg0 arg1 s
      else if code = 0x5 then op_5 E arg0 arg1 s
      else if code = 0x6 then op_6 E arg0 arg1 s
      else if code = 0x7 then op_7 E arg0 arg1 s
      else if code = 0x8 then op_8 E arg0 arg1 s
      else if code = 0x9 then op_9 E arg0 arg1 s
      else if code = 0xA then op_A E arg0 arg1 s
      else if code = 0xB then op_B E arg0 arg1 s
      else if code = 0xC then op_C subcode arg1 s
      else if code = 0xD then op_D E subcode codeArg arg1 s
      else if code = 0xE then op_E E arg0 arg1 s
      else if code = 0xF then op_F E subcode arg0 arg1 s
      else Return False s)"

definition code_words :: "'p cheat_vm \<Rightarrow> u32 \<times> u32" where
  "code_words s = (let c = codes (cheat s) ! unat (vm_index s) in (ucast (drop_bit 32 c), ucast c))"

definition next_line :: "'p cheat_vm \<Rightarrow> 'p cheat_vm" where
  "next_line s = s\<lparr>vm_index := vm_index s + 1\<rparr>"

text \<open>One round of the loop; at the end of the code the interpreter returns 1.\<close>

definition cheat_step :: "'p cheat_env \<Rightarrow> 'p cheat_vm \<Rightarrow> 'p outcome" where
  "cheat_step E s =
     (if unat (vm_index s) < codesCount (cheat s) then
        (case code_words s of (arg0, arg1) \<Rightarrow>
           if arg0 = 0 \<and> arg1 = 0 then Return False s
           else and_then (cheat_op E arg0 arg1 s) (\<lambda>s. Cont (next_line s)))
      else Return True s)"

fun cheat_loop :: "nat \<Rightarrow> 'p cheat_env \<Rightarrow> 'p cheat_vm \<Rightarrow> 'p outcome option" where
  "cheat_loop 0 E s = None"
| "cheat_loop (Suc fuel) E s =
     (case cheat_step E s of Cont s \<Rightarrow> cheat_loop fuel E s | r \<Rightarrow> Some r)"

section \<open>Running a cheat\<close>

definition reset_state :: "'p cheat_vm \<Rightarrow> 'p cheat_vm" where
  "reset_state s =
     s\<lparr>vm_index := 0, offset1 := 0, offset2 := 0, data1 := 0, data2 := 0,
       activeOffset_bit := False, activeData_bit := False, conditionalMode := 0,
       data1Mode := False, data2Mode := False, floatMode := False,
       loopCount := 0, loopLine := -1, ifStack := 0, storedStack := 0,
       ifCount := 0, storedIfCount := 0\<rparr>"

definition Cheat_ApplyCheat :: "nat \<Rightarrow> 'p cheat_env \<Rightarrow> 'p cheat_vm \<Rightarrow> 'p outcome option" where
  "Cheat_ApplyCheat fuel E s = cheat_loop fuel E (reset_state s)"

end
