(* ===== verification/Util_File.thy ===== *)
theory Util_File
  imports Omiiba_Prelude
begin

text \<open>
  Files on the SD card and in the NAND (\<open>ifile.c\<close> of \<open>rosalina\<close> and of \<open>loader\<close>). The file
  service is a parameter: a handle, an offset and a length give a result and the bytes
  read. Offsets are natural numbers.
\<close>

section \<open>Files\<close>

record file_env =
  FSUSER_OpenFileDirectly :: "u8 list \<Rightarrow> Result \<times> Handle"
  FSFILE_Read :: "Handle \<Rightarrow> nat \<Rightarrow> nat \<Rightarrow> Result \<times> u8 list"
  FSFILE_GetSize :: "Handle \<Rightarrow> Result \<times> nat"
  f_R_FAILED :: "Result \<Rightarrow> bool"

record IFile =
  if_handle :: Handle
  if_pos :: nat
  if_size :: nat

definition IFile_Open :: "file_env \<Rightarrow> u8 list \<Rightarrow> Result \<times> IFile" where
  "IFile_Open E path =
     (case FSUSER_OpenFileDirectly E path of
        (res, h) \<Rightarrow> (res, \<lparr>if_handle = h, if_pos = 0, if_size = 0\<rparr>))"

text \<open>The loop of \<open>IFile_Read\<close>: a short read is followed by another one.\<close>

function read_loop :: "file_env \<Rightarrow> Handle \<Rightarrow> nat \<Rightarrow> nat \<Rightarrow> Result \<times> u8 list" where
  "read_loop E h pos left =
     (case FSFILE_Read E h pos left of
        (res, bs) \<Rightarrow>
          if f_R_FAILED E res \<or> bs = [] then (res, [])
          else if length bs \<ge> left then (res, bs)
          else (case read_loop E h (pos + length bs) (left - length bs) of (res, cs) \<Rightarrow> (res, bs @ cs)))"
  by pat_completeness auto

termination by (relation "measure (\<lambda>(E, h, pos, left). left)") auto

declare read_loop.simps [simp del]

definition IFile_Read :: "file_env \<Rightarrow> IFile \<Rightarrow> nat \<Rightarrow> Result \<times> u8 list \<times> IFile" where
  "IFile_Read E f len =
     (if len = 0 then (0, [], f)
      else case read_loop E (if_handle f) (if_pos f) len of
        (res, bs) \<Rightarrow> (res, bs, f\<lparr>if_pos := if_pos f + length bs\<rparr>))"

definition IFile_GetSize :: "file_env \<Rightarrow> IFile \<Rightarrow> Result \<times> nat \<times> IFile" where
  "IFile_GetSize E f =
     (case FSFILE_GetSize E (if_handle f) of
        (res, n) \<Rightarrow> (res, n, if f_R_FAILED E res then f else f\<lparr>if_size := n\<rparr>))"

definition IFile_ReadAt :: "file_env \<Rightarrow> IFile \<Rightarrow> nat \<Rightarrow> nat \<Rightarrow> Result \<times> u8 list \<times> IFile" where
  "IFile_ReadAt E f offset len = IFile_Read E (f\<lparr>if_pos := offset\<rparr>) len"

section \<open>Files with a content\<close>

text \<open>The service serves the file behind a handle: reads stop at its end, results fail when
  they are negative.\<close>

definition serves :: "file_env \<Rightarrow> Handle \<Rightarrow> u8 list \<Rightarrow> bool" where
  "serves E h content \<longleftrightarrow>
     (\<forall>pos len. FSFILE_Read E h pos len = (0, take len (drop pos content)))
     \<and> FSFILE_GetSize E h = (0, length content)
     \<and> (\<forall>res. f_R_FAILED E res \<longleftrightarrow> sint res < 0)"

lemma read_loop_serves:
  assumes "serves E h content" and "0 < len"
  shows "read_loop E h pos len = (0, take len (drop pos content))"
proof (cases "drop pos content = [] \<or> len \<le> length content - pos")
  case True
  then show ?thesis using assms by (subst read_loop.simps) (auto simp: serves_def)
next
  case False
  then have "FSFILE_Read E h pos len = (0, drop pos content)" using assms by (simp add: serves_def)
  moreover have "read_loop E h (pos + length (drop pos content)) (len - length (drop pos content)) = (0, [])"
    using assms by (subst read_loop.simps) (simp add: serves_def)
  ultimately show ?thesis using False assms by (subst read_loop.simps) (simp add: serves_def)
qed

lemma IFile_Read_serves:
  assumes "serves E (if_handle f) content"
  shows "IFile_Read E f len =
    (0, take len (drop (if_pos f) content), f\<lparr>if_pos := if_pos f + length (take len (drop (if_pos f) content))\<rparr>)"
  using read_loop_serves [OF assms, of len "if_pos f"] by (simp add: IFile_Read_def)

lemma IFile_GetSize_serves:
  assumes "serves E (if_handle f) content"
  shows "IFile_GetSize E f = (0, length content, f\<lparr>if_size := length content\<rparr>)"
  using assms by (simp add: IFile_GetSize_def serves_def)

end
