(* ===== verification/Cheat_File.thy ===== *)
theory Cheat_File
  imports Cheat_Exec Util_File Util_Strings
begin

text \<open>
  Loading the cheats of a title from the SD card and running the active ones (the second
  half of \<open>cheats.c\<close>). Offsets in the file and in its 512-byte buffer are natural numbers.
\<close>

section \<open>The buffered file\<close>

record BufferedFile =
  bf_file :: IFile
  curPos :: nat
  maxPos :: nat
  bf_buffer :: "u8 list"

text \<open>Reading \<open>bs\<close> into the start of the buffer.\<close>

definition refill :: "file_env \<Rightarrow> BufferedFile \<Rightarrow> Result \<times> BufferedFile" where
  "refill E b =
     (case IFile_Read E (bf_file b) (length (bf_buffer b)) of
        (res, bs, f) \<Rightarrow> (res, b\<lparr>bf_file := f, maxPos := length bs,
                                bf_buffer := bs @ drop (length bs) (bf_buffer b), curPos := 0\<rparr>))"

lemma refill_curPos: "refill E b = (r, b') \<Longrightarrow> curPos b' = 0"
  by (auto simp: refill_def split: prod.splits)

definition BufferedFile_Open :: "file_env \<Rightarrow> u8 list \<Rightarrow> Result \<times> BufferedFile" where
  "BufferedFile_Open E path =
     (case IFile_Open E path of
        (res, f) \<Rightarrow>
          let b = \<lparr>bf_file = f, curPos = 0, maxPos = 0, bf_buffer = replicate 512 0\<rparr> in
          if f_R_FAILED E res then (res, b) else refill E b)"

text \<open>The loop of \<open>BufferedFile_Read\<close>; \<open>acc\<close> is what has been copied, so \<open>*totalRead\<close> is its
  length.\<close>

function buffered_loop :: "file_env \<Rightarrow> nat \<Rightarrow> Result \<Rightarrow> u8 list \<Rightarrow> BufferedFile \<Rightarrow> Result \<times> u8 list \<times> BufferedFile" where
  "buffered_loop E len res acc b =
     (if \<not> f_R_FAILED E res \<and> maxPos b \<noteq> 0 \<and> length acc < len then
        (let toRead = min (maxPos b - curPos b) (len - length acc);
             acc' = acc @ map (\<lambda>i. bf_buffer b ! (curPos b + i)) [0..<toRead];
             b' = b\<lparr>curPos := curPos b + toRead\<rparr>
         in if curPos b' \<ge> maxPos b' then
              (case refill E b' of (res, b'') \<Rightarrow> buffered_loop E len res acc' b'')
            else buffered_loop E len res acc' b')
      else (res, acc, b))"
  by pat_completeness auto

termination
  by (relation "measure (\<lambda>(E, len, res, acc, b).
      2 * (len - length acc) + (if curPos b \<ge> maxPos b \<and> maxPos b \<noteq> 0 then 1 else 0))")
    (auto simp: min_def dest!: refill_curPos [OF sym])

declare buffered_loop.simps [simp del]

definition BufferedFile_Read :: "file_env \<Rightarrow> BufferedFile \<Rightarrow> nat \<Rightarrow> Result \<times> u8 list \<times> BufferedFile" where
  "BufferedFile_Read E b len =
     (if len = 0 then (0, [], b)
      else if curPos b + len < maxPos b then
        (0, map (\<lambda>i. bf_buffer b ! (curPos b + i)) [0..<len], b\<lparr>curPos := curPos b + len\<rparr>)
      else buffered_loop E len 0 [] b)"

section \<open>Lines\<close>

text \<open>The loop of \<open>Cheat_ReadLine\<close> with \<open>n\<close> places left in the line; the line buffer keeps what
  earlier lines left in it.\<close>

fun line_loop :: "file_env \<Rightarrow> nat \<Rightarrow> nat \<Rightarrow> bool \<Rightarrow> Result \<Rightarrow> BufferedFile \<Rightarrow> u8 list
    \<Rightarrow> Result \<times> BufferedFile \<times> u8 list" where
  "line_loop E 0 idx cr res b line = (res, b, line)"
| "line_loop E (Suc n) idx cr res b line =
     (case BufferedFile_Read E b 1 of
        (res, bs, b) \<Rightarrow>
          if bs = [] then (-1, b, line[idx := 0])
          else
            let c = hd bs; line = line[idx := c] in
            if f_R_FAILED E res then (res, b, line)
            else if c = 0x0D then line_loop E n (idx + 1) True res b line
            else if c = 0x0A then
              (if cr then (of_nat (idx - 1), b, line[idx - 1 := 0]) else (of_nat idx, b, line[idx := 0]))
            else if c = 0 then (-1, b, line)
            else line_loop E n (idx + 1) False res b line)"

definition Cheat_ReadLine :: "file_env \<Rightarrow> BufferedFile \<Rightarrow> u8 list \<Rightarrow> nat \<Rightarrow> Result \<times> BufferedFile \<times> u8 list" where
  "Cheat_ReadLine E b line lineSize = line_loop E lineSize 0 False 0 b line"

text \<open>The C string at the start of a piece of memory.\<close>

definition cstring :: "u8 list \<Rightarrow> u8 list" where
  "cstring l = takeWhile (\<lambda>c. c \<noteq> 0) l"

definition is_hex_digit :: "u8 \<Rightarrow> bool" where
  "is_hex_digit c \<longleftrightarrow> (0x30 \<le> c \<and> c \<le> 0x39) \<or> (0x41 \<le> c \<and> c \<le> 0x46) \<or> (0x61 \<le> c \<and> c \<le> 0x66)"

definition Cheat_IsCodeLine :: "u8 list \<Rightarrow> bool" where
  "Cheat_IsCodeLine line \<longleftrightarrow>
     length (cstring (take 1023 line)) = 17 \<and> line ! 8 = 0x20
     \<and> list_all (\<lambda>i. is_hex_digit (line ! i)) [0..<8] \<and> list_all (\<lambda>i. is_hex_digit (line ! i)) [9..<17]"

definition hex_value :: "u8 \<Rightarrow> u8" where
  "hex_value c =
     (let code = (if 0x30 \<le> c \<and> c \<le> 0x39 then c - 0x30 else 0);
          code = (if 0x41 \<le> c \<and> c \<le> 0x46 then c - 0x41 + 10 else code)
      in if 0x61 \<le> c \<and> c \<le> 0x66 then c - 0x61 + 10 else code)"

definition push_digit :: "u64 \<Rightarrow> u8 \<Rightarrow> u64" where
  "push_digit tmp c = push_bit 4 tmp OR ucast (hex_value c AND 0xF)"

definition Cheat_GetCode :: "u8 list \<Rightarrow> u64" where
  "Cheat_GetCode line =
     fold (\<lambda>i tmp. push_digit tmp (line ! i)) [9..<17]
       (fold (\<lambda>i tmp. push_digit tmp (line ! i)) [0..<8] 0)"

definition is_blank :: "u8 \<Rightarrow> bool" where
  "is_blank c \<longleftrightarrow> c = 0x20 \<or> c = 0x09"

fun back_from :: "u8 list \<Rightarrow> nat \<Rightarrow> nat" where
  "back_from ret 0 = 0"
| "back_from ret (Suc n) = (if is_blank (ret ! Suc n) then back_from ret n else Suc n)"

text \<open>The offset of the returned pointer and the line; \<open>None\<close> when the line has no end, so that
  the source reads past the array.\<close>

definition stripWhitespace :: "u8 list \<Rightarrow> (nat \<times> u8 list) option" where
  "stripWhitespace line =
     (if 0 \<notin> set line then None
      else
        let k = length (takeWhile is_blank line); n = length (cstring (drop k line)) in
        Some (k, if n = 0 then line[k := 0] else line[k + back_from (drop k line) (n - 1) + 1 := 0]))"

section \<open>The cheats in memory\<close>

text \<open>
  \<open>cheats\<close> is the array of pointers, given as offsets in \<open>cheatBuffer\<close>, and \<open>store\<close> the
  description at an offset. Descriptions that are in use never overlap (see the invariant
  of the loader). The cheat being filled in is \<open>cur\<close>; \<open>allocs\<close> numbers the allocations.
\<close>

record loader =
  cheatCount :: u8
  cheats :: "nat \<Rightarrow> nat"
  store :: "nat \<Rightarrow> CheatDescription"
  cur :: "nat option"
  cheatSize :: nat
  allocs :: nat

definition sizeof_CheatDescription :: nat where
  "sizeof_CheatDescription = 56"

definition cheatBuffer_size :: nat where
  "cheatBuffer_size = 32768"

text \<open>\<open>activeStorage\<close> is not reset: it is whatever bit the memory held, \<open>stale n\<close> at the
  \<open>n\<close>-th allocation.\<close>

definition next_offset :: "loader \<Rightarrow> nat" where
  "next_offset s =
     (if cheatCount s = 0 then 0
      else let prev = cheats s (unat (cheatCount s - 1)) in
        prev + sizeof_CheatDescription + 8 * codesCount (store s prev))"

definition Cheat_AllocCheat :: "(nat \<Rightarrow> bool) \<Rightarrow> loader \<Rightarrow> nat \<times> loader" where
  "Cheat_AllocCheat stale s =
     (let p = next_offset s;
          c = \<lparr>cd_active = False, cd_valid = True, hasKeyCode = False, activeStorage_bit = stale (allocs s),
               cd_name = [0], storage1 = 0, storage2 = 0, codes = []\<rparr>
      in (p, s\<lparr>store := (store s)(p := c), cheats := (cheats s)(unat (cheatCount s) := p),
               cheatCount := cheatCount s + 1, allocs := allocs s + 1\<rparr>))"

definition Cheat_AddCode :: "nat \<Rightarrow> u64 \<Rightarrow> loader \<Rightarrow> loader" where
  "Cheat_AddCode p code s =
     s\<lparr>store := (store s)(p := (store s p)\<lparr>codes := codes (store s p) @ [code]\<rparr>)\<rparr>"

text \<open>\<open>strncpy(name, line, 38)\<close>, and the terminator.\<close>

definition copy_name :: "u8 list \<Rightarrow> u8 list" where
  "copy_name line = (let s = take 38 (cstring line) in s @ replicate (39 - length s) 0)"

section \<open>Loading\<close>

text \<open>One line of the loop of \<open>Cheat_LoadCheatsIntoMemory\<close>: whether the loop goes on (it is left
  by \<open>break\<close> otherwise) and the state.\<close>

definition add_code_line :: "u8 list \<Rightarrow> loader \<Rightarrow> bool \<times> loader" where
  "add_code_line stripped s =
     (if cheatSize s + 8 \<ge> cheatBuffer_size then (False, s\<lparr>cheatCount := cheatCount s - 1\<rparr>)
      else case cur s of
        None \<Rightarrow> (True, s)
      | Some p \<Rightarrow>
          let tmp = Cheat_GetCode stripped;
              s = (Cheat_AddCode p tmp s)\<lparr>cheatSize := cheatSize s + 8\<rparr>
          in (True, if ucast (drop_bit 32 tmp) = (0xDD000000 :: u32)
                    then s\<lparr>store := (store s)(p := (store s p)\<lparr>hasKeyCode := True\<rparr>)\<rparr> else s))"

definition set_name :: "nat \<Rightarrow> u8 list \<Rightarrow> loader \<Rightarrow> loader" where
  "set_name p line s = s\<lparr>store := (store s)(p := (store s p)\<lparr>cd_name := copy_name line\<rparr>)\<rparr>"

definition add_name_line :: "(nat \<Rightarrow> bool) \<Rightarrow> u8 list \<Rightarrow> loader \<Rightarrow> bool \<times> loader" where
  "add_name_line stale line s =
     (case cur s of
        Some p \<Rightarrow>
          if codesCount (store s p) = 0 then (True, set_name p line s)
          else if cheatSize s + sizeof_CheatDescription \<ge> cheatBuffer_size then (False, s)
          else (case Cheat_AllocCheat stale s of
                  (q, s) \<Rightarrow> (True, set_name q line (s\<lparr>cur := Some q, cheatSize := cheatSize s + sizeof_CheatDescription\<rparr>)))
      | None \<Rightarrow>
          if cheatSize s + sizeof_CheatDescription \<ge> cheatBuffer_size then (False, s)
          else (case Cheat_AllocCheat stale s of
                  (q, s) \<Rightarrow> (True, set_name q line (s\<lparr>cur := Some q, cheatSize := cheatSize s + sizeof_CheatDescription\<rparr>))))"

definition load_line :: "(nat \<Rightarrow> bool) \<Rightarrow> nat \<Rightarrow> u8 list \<Rightarrow> loader \<Rightarrow> bool \<times> loader" where
  "load_line stale k line s =
     (let stripped = drop k line in
      if length (cstring (take 1023 stripped)) = 0 then (True, s)
      else if stripped ! 0 = 0x23 then (True, s)
      else if Cheat_IsCodeLine stripped then add_code_line stripped s
      else add_name_line stale line s)"

text \<open>The loop ends with the loader state, or runs into a line without an end. The fuel bounds
  the number of lines.\<close>

datatype load_result = Loaded loader | Unterminated

fun load_loop :: "nat \<Rightarrow> file_env \<Rightarrow> (nat \<Rightarrow> bool) \<Rightarrow> BufferedFile \<Rightarrow> u8 list \<Rightarrow> loader \<Rightarrow> load_result option" where
  "load_loop 0 E stale b line s = None"
| "load_loop (Suc fuel) E stale b line s =
     (case Cheat_ReadLine E b line 1024 of
        (res, b, line) \<Rightarrow>
          if \<not> f_R_FAILED E res \<or> res = -1 then
            (case stripWhitespace line of
               None \<Rightarrow> Some Unterminated
             | Some (k, line) \<Rightarrow>
                 (case load_line stale k line s of
                    (go, s) \<Rightarrow>
                      if go \<and> \<not> f_R_FAILED E res \<and> cheatSize s < cheatBuffer_size
                      then load_loop fuel E stale b line s else Some (Loaded s)))
          else Some (Loaded s))"

definition drop_empty :: "loader \<Rightarrow> loader" where
  "drop_empty s =
     (if cheatCount s > 0 \<and> codesCount (store s (cheats s (unat (cheatCount s - 1)))) = 0
      then s\<lparr>cheatCount := cheatCount s - 1\<rparr> else s)"

text \<open>The two places a file is looked for: \<open>%016llX\<close> prints the title id with 16 digits.\<close>

definition open_cheats :: "file_env \<Rightarrow> u64 \<Rightarrow> BufferedFile option" where
  "open_cheats E titleId =
     (case BufferedFile_Open E (chars ''/omiiba/titles/'' @ hex16 titleId @ chars ''/cheats.txt'') of
        (res, b) \<Rightarrow>
          if \<not> f_R_FAILED E res then Some b
          else (case BufferedFile_Open E (chars ''/cheats/'' @ hex16 titleId @ chars ''.txt'') of
                  (res, b) \<Rightarrow> if \<not> f_R_FAILED E res then Some b else None))"

text \<open>The result also says whether the scratch page was cleared: an early return leaves it.\<close>

definition Cheat_LoadCheatsIntoMemory ::
    "nat \<Rightarrow> file_env \<Rightarrow> (nat \<Rightarrow> bool) \<Rightarrow> u64 \<Rightarrow> loader \<Rightarrow> (load_result \<times> bool) option" where
  "Cheat_LoadCheatsIntoMemory fuel E stale titleId s =
     (let s = s\<lparr>cheatCount := 0, cur := None, cheatSize := 0, allocs := 0\<rparr> in
      case open_cheats E titleId of
        None \<Rightarrow> Some (Loaded s, False)
      | Some b \<Rightarrow>
          map_option (\<lambda>r. case r of Loaded s \<Rightarrow> (Loaded (drop_empty s), True) | Unterminated \<Rightarrow> (Unterminated, True))
            (load_loop fuel E stale b (replicate 1024 0) s))"

end
