(* ===== verification/Cheat_File_Theorems.thy ===== *)
theory Cheat_File_Theorems
  imports Cheat_File
begin

text \<open>
  The properties of the cheat file loader: code lines, the memory the cheats take, and the
  cheats a file gives.
\<close>

section \<open>Code lines\<close>

text \<open>How a code is printed: two words of eight digits with a space between them.\<close>

definition print_code :: "u64 \<Rightarrow> u8 list" where
  "print_code c = take 8 (hex16 c) @ [0x20] @ drop 8 (hex16 c)"

definition to_upper :: "u8 \<Rightarrow> u8" where
  "to_upper c = (if 0x61 \<le> c \<and> c \<le> 0x66 then c - 0x20 else c)"

lemma hex_char_digit:
  assumes "d < 16"
  shows "is_hex_digit (hex_char d)" and "ucast (hex_value (hex_char d) AND 0xF) = d"
    and "hex_char d \<noteq> 0" and "hex_char d \<noteq> 0x20"
proof -
  from nibble_values [OF assms]
  show "is_hex_digit (hex_char d)" by (elim insertE emptyE) (simp_all add: is_hex_digit_def hex_char_def)
  from nibble_values [OF assms]
  show "ucast (hex_value (hex_char d) AND 0xF) = d" by (elim insertE emptyE) (simp_all add: hex_value_def hex_char_def)
  from nibble_values [OF assms]
  show "hex_char d \<noteq> 0" by (elim insertE emptyE) (simp_all add: hex_char_def)
  from nibble_values [OF assms]
  show "hex_char d \<noteq> 0x20" by (elim insertE emptyE) (simp_all add: hex_char_def)
qed

lemma hex_digit_values:
  assumes "is_hex_digit c"
  shows "c \<in> {0x30, 0x31, 0x32, 0x33, 0x34, 0x35, 0x36, 0x37, 0x38, 0x39, 0x41, 0x42, 0x43, 0x44, 0x45, 0x46,
    0x61, 0x62, 0x63, 0x64, 0x65, 0x66}"
proof -
  have "unat c \<in> set ([48..<58] @ [65..<71] @ [97..<103])"
  proof -
    have "unat c \<in> {48..<58} \<or> unat c \<in> {65..<71} \<or> unat c \<in> {97..<103}"
      using assms by (auto simp: is_hex_digit_def word_le_nat_alt)
    then show ?thesis by (simp only: set_append set_upt Un_iff)
  qed
  also have "set ([48..<58] @ [65..<71] @ [97..<103])
      = {48, 49, 50, 51, 52, 53, 54, 55, 56, 57, 65, 66, 67, 68, 69, 70, 97, 98, 99, 100, 101, 102 :: nat}"
    by (simp add: upt_rec)
  finally show ?thesis by (elim insertE emptyE) (simp_all add: word_unat_eq_iff)
qed

lemma hex_digit_char:
  assumes "is_hex_digit c"
  shows "hex_char (ucast (hex_value c AND 0xF)) = to_upper c" and "(ucast (hex_value c AND 0xF) :: u64) < 16"
proof -
  from hex_digit_values [OF assms] show "hex_char (ucast (hex_value c AND 0xF)) = to_upper c"
    by (elim insertE emptyE) (simp_all add: hex_char_def hex_value_def to_upper_def)
  from hex_digit_values [OF assms] show "(ucast (hex_value c AND 0xF) :: u64) < 16"
    by (elim insertE emptyE) (simp_all add: hex_value_def)
qed

text \<open>Reading the digits of a number from the top, one after the other.\<close>

abbreviation push_nibble :: "u64 \<Rightarrow> u64 \<Rightarrow> u64" where
  "push_nibble d t \<equiv> push_bit 4 t OR d"

lemma bit_0xF: "bit (0xF :: u64) n \<longleftrightarrow> n < 4"
proof -
  have "(0xF :: u64) = mask 4" by (simp add: mask_eq_exp_minus_1)
  then show ?thesis unfolding bit_mask_iff by (simp only: bit_mask_iff) auto
qed

lemma bit_nibble: "bit (nibble i v) n \<longleftrightarrow> n < 4 \<and> bit v (4 * i + n)"
  by (simp only: bit_and_iff bit_drop_bit_eq comp_apply bit_0xF) auto

lemma bit_push_nibble: "bit (push_nibble d t) n \<longleftrightarrow> n < 64 \<and> 4 \<le> n \<and> bit t (n - 4) \<or> bit d n"
  by (simp only: bit_or_iff bit_push_bit_iff) (auto simp: bit_simps)

lemma push_next_nibble: "push_nibble (nibble i v) (drop_bit (4 * Suc i) v) = drop_bit (4 * i) v"
proof (rule bit_word_eqI)
  fix n assume "n < LENGTH(64)"
  moreover have "4 * Suc i + (n - 4) = 4 * i + n" if "4 \<le> n" using that by simp
  ultimately show "bit (push_nibble (nibble i v) (drop_bit (4 * Suc i) v)) n = bit (drop_bit (4 * i) v) n"
    unfolding bit_push_nibble bit_nibble bit_drop_bit_eq comp_apply by (cases "n < 4") auto
qed

lemma fold_nibbles:
  "k \<le> 16 \<Longrightarrow> fold push_nibble (map (\<lambda>i. nibble (15 - i) v) [0..<k]) 0 = drop_bit (4 * (16 - k)) v"
proof (induction k)
  case 0
  show ?case by (rule bit_word_eqI) (auto simp: bit_simps dest: bit_imp_le_length)
next
  case (Suc k)
  then have "16 - k = Suc (15 - k)" by simp
  then show ?case using Suc push_next_nibble [of "15 - k" v] by simp
qed

lemma nibble_push:
  assumes "d < 16"
  shows "nibble 0 (push_nibble d t) = d" and "i < 15 \<Longrightarrow> nibble (Suc i) (push_nibble d t) = nibble i t"
proof -
  have "d AND 0xF = d" using nibble_values [OF assms] by (elim insertE emptyE) simp_all
  then have d: "bit d n \<Longrightarrow> n < 4" for n using bit_0xF by (metis bit_and_iff)
  have "bit (nibble 0 (push_nibble d t)) n = bit d n" for n
    unfolding bit_nibble bit_push_nibble by (auto dest: d)
  then show "nibble 0 (push_nibble d t) = d" by (intro bit_word_eqI) blast
  show "nibble (Suc i) (push_nibble d t) = nibble i t" if "i < 15"
  proof (rule bit_word_eqI)
    fix n
    have "\<not> bit d (4 * Suc i + n)" using d [of "4 * Suc i + n"] by auto
    moreover have "4 * Suc i + n - 4 = 4 * i + n" by simp
    moreover have "n < 4 \<Longrightarrow> 4 * Suc i + n < 64" using that by simp
    ultimately show "bit (nibble (Suc i) (push_nibble d t)) n = bit (nibble i t) n"
      unfolding bit_nibble bit_push_nibble by auto
  qed
qed

lemma nibble_fold:
  assumes "\<forall>d \<in> set ds. d < 16" and "length ds \<le> 16" and "i < length ds"
  shows "nibble (length ds - 1 - i) (fold push_nibble ds 0) = ds ! i"
  using assms
proof (induction ds arbitrary: i rule: rev_induct)
  case (snoc d ds)
  show ?case
  proof (cases "i = length ds")
    case True
    then show ?thesis using nibble_push(1) [of d] snoc.prems by simp
  next
    case False
    then have i: "i < length ds" using snoc.prems by simp
    then have "length (ds @ [d]) - 1 - i = Suc (length ds - 1 - i)" by simp
    then show ?thesis
      using nibble_push(2) [of d "length ds - 1 - i" "fold push_nibble ds 0"] snoc.IH [OF _ _ i] snoc.prems i
      by (simp add: nth_append)
  qed
qed simp


definition digit :: "u8 \<Rightarrow> u64" where
  "digit c = ucast (hex_value c AND 0xF)"

definition digits :: "u8 list \<Rightarrow> u64 list" where
  "digits line = map (\<lambda>i. digit (line ! i)) ([0..<8] @ [9..<17])"

lemma GetCode_fold: "Cheat_GetCode line = fold push_nibble (digits line) 0"
  unfolding Cheat_GetCode_def digits_def push_digit_def digit_def by (simp add: fold_map comp_def del: upt_rec_numeral)

lemma length_print_code [simp]: "length (print_code c) = 17" by (simp add: print_code_def)

lemma nth_print_code:
  "i < 17 \<Longrightarrow> print_code c ! i = (if i < 8 then hex16 c ! i else if i = 8 then 0x20 else hex16 c ! (i - 1))"
  by (auto simp: print_code_def nth_append nth_Cons' not_less)

lemma length_digits [simp]: "length (digits line) = 16" by (simp add: digits_def)

lemma nth_digits: "i < 16 \<Longrightarrow> digits line ! i = digit (line ! (if i < 8 then i else i + 1))"
  by (auto simp: digits_def nth_append not_less simp del: upt_rec_numeral)

lemma print_GetCode:
  assumes "Cheat_IsCodeLine line"
  shows "print_code (Cheat_GetCode line) = map to_upper (take 17 line)"
proof (rule nth_equalityI)
  have hex: "is_hex_digit (line ! i)" if "i < 17" "i \<noteq> 8" for i
    using assms that by (cases "i < 8") (auto simp: Cheat_IsCodeLine_def list_all_iff simp del: upt_rec_numeral)
  have "length (cstring (take 1023 line)) \<le> length line"
    unfolding cstring_def by (metis length_take length_takeWhile_le min.cobounded1 order_trans)
  then have len: "17 \<le> length line" using assms by (simp add: Cheat_IsCodeLine_def)
  then show "length (print_code (Cheat_GetCode line)) = length (map to_upper (take 17 line))" by simp
  have small: "\<forall>d \<in> set (digits line). d < 16"
    using hex hex_digit_char(2) by (auto simp: digits_def digit_def)
  have d: "hex16 (Cheat_GetCode line) ! i = to_upper (line ! (if i < 8 then i else i + 1))" if "i < 16" for i
  proof -
    have "nibble (15 - i) (Cheat_GetCode line) = digits line ! i"
      using nibble_fold [OF small, of i] that by (simp add: GetCode_fold)
    then show ?thesis using that hex by (simp add: nth_hex16 nth_digits digit_def hex_digit_char(1))
  qed
  fix i assume "i < length (print_code (Cheat_GetCode line))"
  moreover have "to_upper (line ! 8) = 0x20" using assms by (simp add: Cheat_IsCodeLine_def to_upper_def)
  ultimately show "print_code (Cheat_GetCode line) ! i = map to_upper (take 17 line) ! i"
    using len d [of i] d [of "i - 1"] by (auto simp: nth_print_code)
qed

lemma hex16_chars:
  assumes "c \<in> set (hex16 v)"
  shows "c \<noteq> 0" and "c \<noteq> 0x20" and "is_hex_digit c"
  using assms hex_char_digit [OF nibble_less] by (auto simp: hex16_def)

lemma IsCodeLine_print: "Cheat_IsCodeLine (print_code c @ 0 # rest)"
proof -
  let ?line = "print_code c @ 0 # rest"
  have "\<forall>x \<in> set (print_code c). x \<noteq> 0"
    using hex16_chars(1) by (auto simp: print_code_def dest: in_set_takeD in_set_dropD)
  then have "cstring (take 1023 ?line) = print_code c"
    by (simp add: cstring_def takeWhile_append2 take_Cons')
  moreover have "?line ! i = hex16 c ! (if i < 8 then i else i - 1)" if "i < 17" "i \<noteq> 8" for i
    using that by (simp add: nth_append nth_print_code)
  then have "is_hex_digit (?line ! i)" if "i < 17" "i \<noteq> 8" for i
    using that hex16_chars(3) [OF nth_mem, of "if i < 8 then i else i - 1" c] by (cases "i < 8") auto
  moreover have "?line ! 8 = 0x20" by (simp add: nth_append nth_print_code)
  ultimately show ?thesis by (simp add: Cheat_IsCodeLine_def list_all_iff)
qed

lemma GetCode_print: "Cheat_GetCode (print_code c @ rest) = c"
proof -
  have "digits (print_code c @ rest) = map (\<lambda>i. nibble (15 - i) c) [0..<16]"
  proof (rule nth_equalityI)
    fix i assume "i < length (digits (print_code c @ rest))"
    then show "digits (print_code c @ rest) ! i = map (\<lambda>i. nibble (15 - i) c) [0..<16] ! i"
      by (auto simp: nth_digits nth_append nth_print_code nth_hex16 digit_def hex_char_digit(2) [OF nibble_less]
          simp del: upt_rec_numeral)
  qed simp
  then show ?thesis using fold_nibbles [of 16 c] by (simp add: GetCode_fold)
qed

text \<open>Reading a code line and printing the code gives the line back, with its letters in
  upper case, and every printed code is a code line that is read as that code.\<close>

theorem code_line_roundtrip:
  "(Cheat_IsCodeLine line \<longrightarrow> print_code (Cheat_GetCode line) = map to_upper (take 17 line))
   \<and> Cheat_IsCodeLine (print_code c @ 0 # rest) \<and> Cheat_GetCode (print_code c @ 0 # rest) = c"
  using print_GetCode IsCodeLine_print GetCode_print by blast

lemma code_line_roundtrip_witness:
  "print_code (Cheat_GetCode (chars ''d3000000 01E8aB09'' @ [0])) = chars ''D3000000 01E8AB09''"
proof -
  have "Cheat_IsCodeLine (chars ''d3000000 01E8aB09'' @ [0])"
    by (simp add: Cheat_IsCodeLine_def chars_def cstring_def is_hex_digit_def upt_rec)
  with code_line_roundtrip [of "chars ''d3000000 01E8aB09'' @ [0]" 0 "[]"]
  have "print_code (Cheat_GetCode (chars ''d3000000 01E8aB09'' @ [0]))
      = map to_upper (take 17 (chars ''d3000000 01E8aB09'' @ [0]))" by blast
  then show ?thesis by (simp add: chars_def to_upper_def)
qed

section \<open>The memory of the cheats\<close>

text \<open>How many entries of the pointer array are in use while a file is loaded: the count is a
  byte, so 0 means 256 once there is a current cheat.\<close>

definition entries_used :: "loader \<Rightarrow> nat" where
  "entries_used s = (if cur s = None then 0 else if cheatCount s = 0 then 256 else unat (cheatCount s))"

definition cheat_end :: "loader \<Rightarrow> nat \<Rightarrow> nat" where
  "cheat_end s i = cheats s i + sizeof_CheatDescription + 8 * codesCount (store s (cheats s i))"

text \<open>The first \<open>n\<close> cheats follow each other from the start of the buffer.\<close>

definition laid_out :: "nat \<Rightarrow> loader \<Rightarrow> bool" where
  "laid_out n s \<longleftrightarrow> (\<forall>i < n. cheats s i = (if i = 0 then 0 else cheat_end s (i - 1)))"

definition named :: "loader \<Rightarrow> nat \<Rightarrow> bool" where
  "named s p \<longleftrightarrow> length (cd_name (store s p)) = 39 \<and> cd_name (store s p) ! 38 = 0"

definition load_inv :: "loader \<Rightarrow> bool" where
  "load_inv s \<longleftrightarrow> laid_out (entries_used s) s \<and> cheatSize s < cheatBuffer_size
     \<and> (\<forall>i < entries_used s - 1. codes (store s (cheats s i)) \<noteq> [])
     \<and> (\<forall>i < entries_used s. named s (cheats s i))
     \<and> (case cur s of None \<Rightarrow> cheatSize s = 0 \<and> cheatCount s = 0
        | Some p \<Rightarrow> p = cheats s (entries_used s - 1) \<and> cheat_end s (entries_used s - 1) \<le> cheatSize s)"

text \<open>What is left when the loop ends.\<close>

definition load_end :: "loader \<Rightarrow> bool" where
  "load_end s \<longleftrightarrow> laid_out (unat (cheatCount s)) s \<and> (\<forall>i < unat (cheatCount s). named s (cheats s i))
     \<and> (\<forall>i. Suc i < unat (cheatCount s) \<longrightarrow> codes (store s (cheats s i)) \<noteq> [])
     \<and> (0 < unat (cheatCount s) \<longrightarrow> cheat_end s (unat (cheatCount s) - 1) \<le> cheatBuffer_size)"

lemma laid_out_mono: "laid_out n s \<Longrightarrow> m \<le> n \<Longrightarrow> laid_out m s"
  by (simp add: laid_out_def)

lemma laid_out_less:
  assumes "laid_out n s" and "i < j" and "j < n"
  shows "cheat_end s i \<le> cheats s j"
  using assms(2,3)
proof (induction j)
  case (Suc j)
  have e: "cheats s (Suc j) = cheat_end s j" using assms(1) Suc.prems(2) by (auto simp: laid_out_def)
  show ?case
  proof (cases "i = j")
    case False
    then have "cheat_end s i \<le> cheats s j" using Suc by simp
    also have "\<dots> \<le> cheat_end s j" by (simp add: cheat_end_def)
    finally show ?thesis by (simp add: e)
  qed (simp add: e)
qed simp

lemma laid_out_neq: "laid_out n s \<Longrightarrow> i < n \<Longrightarrow> j < n \<Longrightarrow> i \<noteq> j \<Longrightarrow> cheats s i \<noteq> cheats s j"
  using laid_out_less [of n s i j] laid_out_less [of n s j i]
  by (auto simp: cheat_end_def sizeof_CheatDescription_def neq_iff)

lemma load_inv_end:
  assumes "load_inv s"
  shows "load_end s"
proof (cases "cheatCount s = 0")
  case False
  then obtain p where "cur s = Some p" using assms by (cases "cur s") (auto simp: load_inv_def)
  moreover from this False have "entries_used s = unat (cheatCount s)" by (simp add: entries_used_def)
  ultimately show ?thesis using assms unfolding load_inv_def load_end_def by simp
qed (simp add: load_end_def laid_out_def)

text \<open>Changing the current cheat.\<close>

lemma load_inv_change:
  assumes "load_inv s" and "cur s = Some p" and "length (codes c) = codesCount (store s p) + k"
    and "length (cd_name c) = 39 \<and> cd_name c ! 38 = 0" and "cheatSize s + 8 * k < cheatBuffer_size"
  shows "load_inv (s\<lparr>store := (store s)(p := c), cheatSize := cheatSize s + 8 * k\<rparr>)"
proof -
  let ?t = "s\<lparr>store := (store s)(p := c), cheatSize := cheatSize s + 8 * k\<rparr>" and ?n = "entries_used s"
  have n: "entries_used ?t = ?n" by (simp add: entries_used_def)
  have pos: "0 < ?n" using assms(2) by (simp add: entries_used_def unat_gt_0)
  have lay: "laid_out ?n s" and p: "p = cheats s (?n - 1)" and e: "cheat_end s (?n - 1) \<le> cheatSize s"
    using assms(1,2) by (auto simp: load_inv_def)
  have other: "store ?t (cheats s i) = store s (cheats s i)" if "i < ?n - 1" for i
    using laid_out_neq [OF lay, of i "?n - 1"] that by (simp add: p)
  then have ends: "cheat_end ?t i = cheat_end s i" if "i < ?n - 1" for i using that by (simp add: cheat_end_def)
  have "laid_out ?n ?t" using lay ends by (auto simp: laid_out_def)
  moreover have "cheat_end ?t (?n - 1) \<le> cheatSize ?t"
    using e assms(3) by (simp add: cheat_end_def p)
  moreover have "\<forall>i < ?n. named ?t (cheats s i)"
    using assms(1,4) by (auto simp: load_inv_def named_def)
  ultimately show ?thesis using assms p other unfolding load_inv_def n by (auto simp: n)
qed

text \<open>A new cheat, with its name.\<close>

lemma copy_name_ok: "length (copy_name line) = 39 \<and> copy_name line ! 38 = 0"
proof -
  have "length (take 38 (cstring line)) \<le> 38" by simp
  then show ?thesis by (simp only: copy_name_def Let_def length_append length_replicate nth_append) auto
qed

lemma alloc_above:
  assumes "load_inv s"
  shows "laid_out (unat (cheatCount s)) s"
    and "next_offset s = (if unat (cheatCount s) = 0 then 0 else cheat_end s (unat (cheatCount s) - 1))"
    and "i < unat (cheatCount s) \<Longrightarrow> cheats s i < next_offset s"
proof -
  let ?n = "unat (cheatCount s)"
  show lay: "laid_out ?n s" using load_inv_end [OF assms] by (simp add: load_end_def)
  show q: "next_offset s = (if ?n = 0 then 0 else cheat_end s (?n - 1))"
    by (auto simp: next_offset_def Let_def cheat_end_def unat_eq_zero unat_minus_one)
  show "cheats s i < next_offset s" if "i < ?n"
  proof -
    have "cheat_end s i \<le> next_offset s"
    proof (cases "i = ?n - 1")
      case False
      then have "cheat_end s i \<le> cheats s (?n - 1)" using laid_out_less [OF lay, of i "?n - 1"] that by simp
      also have "\<dots> \<le> next_offset s" using q that by (simp add: cheat_end_def)
      finally show ?thesis .
    qed (use that q in simp)
    then show ?thesis by (simp add: cheat_end_def sizeof_CheatDescription_def)
  qed
qed

lemma alloc_used:
  assumes a: "Cheat_AllocCheat stale s = (q, t)"
  shows "entries_used (set_name q line (t\<lparr>cur := Some q, cheatSize := cheatSize t + sizeof_CheatDescription\<rparr>))
    = Suc (unat (cheatCount s))"
proof (cases "cheatCount s = 0xFF")
  case False
  then have "unat (cheatCount s) \<noteq> 255" by (auto simp: word_unat_eq_iff)
  moreover have "unat (cheatCount s) < 2 ^ LENGTH(8)" by (rule unsigned_less)
  ultimately have "unat (cheatCount s + 1) = Suc (unat (cheatCount s))" by (simp add: unat_word_ariths(1))
  then show ?thesis using a by (auto simp: entries_used_def Cheat_AllocCheat_def Let_def set_name_def)
qed (use a in \<open>auto simp: entries_used_def Cheat_AllocCheat_def Let_def set_name_def\<close>)

lemma load_inv_alloc:
  assumes "load_inv s" and "cheatSize s + sizeof_CheatDescription < cheatBuffer_size"
    and "\<forall>p. cur s = Some p \<longrightarrow> codes (store s p) \<noteq> []"
    and a: "Cheat_AllocCheat stale s = (q, t)"
  shows "load_inv (set_name q line (t\<lparr>cur := Some q, cheatSize := cheatSize t + sizeof_CheatDescription\<rparr>))"
proof -
  define u where "u = set_name q line (t\<lparr>cur := Some q, cheatSize := cheatSize t + sizeof_CheatDescription\<rparr>)"
  let ?n = "unat (cheatCount s)"
  have used: "entries_used s = (if cur s = None then 0 else if cheatCount s = 0 then 256 else ?n)"
    by (simp add: entries_used_def)
  have n: "entries_used u = Suc ?n" unfolding u_def by (rule alloc_used [OF a])
  have nx: "q = next_offset s" using a by (simp add: Cheat_AllocCheat_def Let_def)
  note lay = alloc_above(1) [OF assms(1)] and q = alloc_above(2) [OF assms(1), folded nx]
    and below = alloc_above(3) [OF assms(1), folded nx]
  have ub: "cheats u = (cheats s)(?n := q)" "cheatSize u = cheatSize s + sizeof_CheatDescription"
    "cur u = Some q" "codes (store u q) = []" "cd_name (store u q) = copy_name line"
    "\<And>p. p \<noteq> q \<Longrightarrow> store u p = store s p"
    using a by (auto simp: Cheat_AllocCheat_def Let_def set_name_def u_def)
  have other: "store u (cheats s i) = store s (cheats s i)" if "i < ?n" for i
    using below [OF that] ub(6) by (metis less_irrefl)
  then have ends: "cheat_end u i = cheat_end s i" if "i < ?n" for i
    using that by (simp add: cheat_end_def ub)
  have old: "codes (store s (cheats s i)) \<noteq> [] \<and> named s (cheats s i)" if "i < ?n" for i
    using assms(1,3) that used by (cases "cur s"; cases "i = ?n - 1")
      (auto simp: load_inv_def split: if_splits)
  have "laid_out (Suc ?n) u"
    unfolding laid_out_def
  proof (intro allI impI)
    fix i assume "i < Suc ?n"
    then show "cheats u i = (if i = 0 then 0 else cheat_end u (i - 1))"
      using lay ends [of "i - 1"] q by (cases "i = ?n") (auto simp: ub(1) laid_out_def)
  qed
  moreover have "cheat_end u ?n \<le> cheatSize u"
  proof (cases "?n = 0")
    case False
    then have nz: "cheatCount s \<noteq> 0" by (simp add: unat_eq_zero)
    moreover have "cur s = None \<Longrightarrow> cheatCount s = 0" using assms(1) by (simp add: load_inv_def)
    ultimately obtain p where "cur s = Some p" by auto
    moreover from this nz have "entries_used s = ?n" by (simp add: used)
    ultimately have "q \<le> cheatSize s" using assms(1) q False by (simp add: load_inv_def)
    then show ?thesis by (simp add: cheat_end_def ub)
  qed (use ub(4) q in \<open>simp add: cheat_end_def ub(1,2)\<close>)
  moreover have "\<forall>i < ?n. codes (store u (cheats u i)) \<noteq> []" using old other by (simp add: ub)
  moreover have "\<forall>i < Suc ?n. named u (cheats u i)"
    using old other copy_name_ok by (auto simp: named_def ub less_Suc_eq)
  moreover have "cheatSize u < cheatBuffer_size" using assms(2) by (simp only: ub(2))
  ultimately show ?thesis unfolding u_def [symmetric] load_inv_def n by (simp add: ub)
qed


text \<open>One line of the file.\<close>

lemma load_inv_code:
  assumes "load_inv s" and "add_code_line stripped s = (go, t)"
  shows "if go then load_inv t else load_end t"
proof (cases "cur s")
  case None
  then show ?thesis using assms
    by (auto simp: add_code_line_def load_inv_def cheatBuffer_size_def split: if_splits)
next
  case (Some p)
  let ?n = "entries_used s"
  show ?thesis
  proof (cases "cheatSize s + 8 \<ge> cheatBuffer_size")
    case True
    then have t: "\<not> go" "t = s\<lparr>cheatCount := cheatCount s - 1\<rparr>" using assms(2) by (auto simp: add_code_line_def)
    have "unat (0xFF :: u8) = 255" "(0xFF :: u8) = -1" by simp_all
    then have "unat (-1 :: u8) = 255" by metis
    then have n: "unat (cheatCount t) = ?n - 1"
      using Some by (cases "cheatCount s = 0") (simp_all add: t entries_used_def unat_minus_one)
    have lay: "laid_out ?n s" and e: "cheat_end s (?n - 1) \<le> cheatSize s" and size: "cheatSize s < cheatBuffer_size"
      and codes: "\<forall>i < ?n - 1. codes (store s (cheats s i)) \<noteq> []" and named: "\<forall>i < ?n. named s (cheats s i)"
      using assms(1) Some by (auto simp: load_inv_def)
    have same: "cheat_end t = cheat_end s" "named t = named s" "cheats t = cheats s" "store t = store s"
      "laid_out m t = laid_out m s" for m
      by (simp_all add: fun_eq_iff cheat_end_def named_def laid_out_def t)
    have "cheat_end s (?n - 1 - 1) \<le> cheatBuffer_size" if "0 < ?n - 1"
    proof -
      have "cheat_end s (?n - 1 - 1) \<le> cheats s (?n - 1)" using laid_out_less [OF lay, of "?n - 1 - 1" "?n - 1"] that by simp
      also have "\<dots> \<le> cheat_end s (?n - 1)" by (simp add: cheat_end_def)
      finally show ?thesis using e size by simp
    qed
    then have "load_end t"
      unfolding load_end_def n same using laid_out_mono [OF lay, of "?n - 1"] codes named by simp
    then show ?thesis using t(1) by simp
  next
    case False
    let ?c = "store s p"
    let ?k = "Cheat_GetCode stripped"
    let ?c' = "?c\<lparr>codes := codes ?c @ [?k], hasKeyCode := hasKeyCode ?c \<or> ucast (drop_bit 32 ?k) = (0xDD000000 :: u32)\<rparr>"
    have "named s (cheats s (?n - 1))" and p: "p = cheats s (?n - 1)"
      using assms(1) Some by (auto simp: load_inv_def entries_used_def unat_gt_0)
    then have "length (cd_name ?c') = 39 \<and> cd_name ?c' ! 38 = 0" by (simp add: named_def)
    then have "load_inv (s\<lparr>store := (store s)(p := ?c'), cheatSize := cheatSize s + 8 * 1\<rparr>)"
      using False by (intro load_inv_change [OF assms(1) Some]) simp_all
    moreover have "go \<and> t = s\<lparr>store := (store s)(p := ?c'), cheatSize := cheatSize s + 8 * 1\<rparr>"
      using assms(2) False Some by (auto simp: add_code_line_def Cheat_AddCode_def Let_def)
    ultimately show ?thesis by simp
  qed
qed

lemma load_inv_name:
  assumes "load_inv s" and "add_name_line stale line s = (go, t)"
  shows "if go then load_inv t else load_end t"
proof -
  have new: "if go then load_inv t else load_end t"
    if "\<forall>p. cur s = Some p \<longrightarrow> codes (store s p) \<noteq> []"
      and r: "(if cheatSize s + sizeof_CheatDescription \<ge> cheatBuffer_size then (False, s)
          else (case Cheat_AllocCheat stale s of
                  (q, s) \<Rightarrow> (True, set_name q line (s\<lparr>cur := Some q, cheatSize := cheatSize s + sizeof_CheatDescription\<rparr>))))
        = (go, t)"
  proof (cases "cheatSize s + sizeof_CheatDescription \<ge> cheatBuffer_size")
    case True
    then show ?thesis using r load_inv_end [OF assms(1)] by simp
  next
    case False
    obtain q u where a: "Cheat_AllocCheat stale s = (q, u)" by (metis surj_pair)
    from load_inv_alloc [OF assms(1) _ that(1) a] False r show ?thesis by (auto simp: a)
  qed
  show ?thesis
  proof (cases "cur s")
    case None
    then show ?thesis using assms(2) by (intro new) (simp_all add: add_name_line_def)
  next
    case (Some p)
    show ?thesis
    proof (cases "codesCount (store s p) = 0")
      case True
      then have t: "go" "t = set_name p line s" using assms(2) Some by (auto simp: add_name_line_def)
      have "load_inv (s\<lparr>store := (store s)(p := (store s p)\<lparr>cd_name := copy_name line\<rparr>), cheatSize := cheatSize s + 8 * 0\<rparr>)"
        using assms(1) copy_name_ok
        by (intro load_inv_change [OF assms(1) Some]) (simp_all add: load_inv_def)
      then show ?thesis using t by (simp add: set_name_def)
    next
      case False
      then show ?thesis using assms(2) Some by (intro new) (simp_all add: add_name_line_def)
    qed
  qed
qed

lemma load_inv_line:
  assumes "load_inv s" and "load_line stale k line s = (go, t)"
  shows "if go then load_inv t else load_end t"
  using assms load_inv_code [OF assms(1)] load_inv_name [OF assms(1)]
  by (auto simp: load_line_def Let_def split: if_splits)

lemma load_inv_loop:
  "load_inv s \<Longrightarrow> load_loop fuel E stale b line s = Some (Loaded t) \<Longrightarrow> load_end t"
proof (induction fuel arbitrary: b line s)
  case (Suc fuel)
  obtain res b' line' where r: "Cheat_ReadLine E b line 1024 = (res, b', line')" by (metis prod_cases3)
  show ?case
  proof (cases "\<not> f_R_FAILED E res \<or> res = -1")
    case True
    then obtain k line'' where strip: "stripWhitespace line' = Some (k, line'')"
      using Suc.prems(2) r by (auto split: option.splits if_splits)
    obtain go u where l: "load_line stale k line'' s = (go, u)" by (metis surj_pair)
    from load_inv_line [OF Suc.prems(1) l] have inv: "if go then load_inv u else load_end u" .
    then have "load_end u" using load_inv_end by (cases go) auto
    then show ?thesis using Suc.prems(2) Suc.IH inv r strip l True by (auto split: if_splits)
  next
    case False
    then show ?thesis using Suc.prems r load_inv_end by auto
  qed
qed simp

text \<open>Dropping an empty last cheat.\<close>

lemma drop_empty_list:
  "cheats (drop_empty u) = cheats u" "store (drop_empty u) = store u" "cheat_end (drop_empty u) = cheat_end u"
  "named (drop_empty u) = named u" "unat (cheatCount (drop_empty u)) \<le> unat (cheatCount u)"
  by (auto simp: drop_empty_def fun_eq_iff cheat_end_def named_def unat_minus_one)

lemma drop_empty_codes:
  assumes e: "load_end u" and i: "i < unat (cheatCount (drop_empty u))"
  shows "codes (store u (cheats u i)) \<noteq> []"
proof (cases "Suc i < unat (cheatCount u)")
  case True
  then show ?thesis using e by (simp add: load_end_def)
next
  case False
  then have m: "i = unat (cheatCount u) - 1" "0 < unat (cheatCount u)"
    using i drop_empty_list(5) [of u] by linarith+
  then have nz: "cheatCount u \<noteq> 0" by auto
  then have pos: "0 < cheatCount u" "unat (cheatCount u - 1) = i" using m(1) by (simp_all add: word_gt_0 unat_minus_one)
  show ?thesis
  proof
    assume "codes (store u (cheats u i)) = []"
    then have "cheatCount (drop_empty u) = cheatCount u - 1" using pos by (simp add: drop_empty_def)
    then show False using i pos(2) by simp
  qed
qed

lemma load_end_in_buffer:
  assumes "load_end u" and "i < unat (cheatCount u)"
  shows "cheat_end u i \<le> cheatBuffer_size"
proof -
  let ?m = "unat (cheatCount u)"
  have lay: "laid_out ?m u" using assms(1) by (simp add: load_end_def)
  have "cheat_end u i \<le> cheat_end u (?m - 1)"
  proof (cases "i = ?m - 1")
    case False
    then have "cheat_end u i \<le> cheats u (?m - 1)" using laid_out_less [OF lay, of i "?m - 1"] assms(2) by simp
    also have "\<dots> \<le> cheat_end u (?m - 1)" by (simp add: cheat_end_def)
    finally show ?thesis .
  qed simp
  also have "\<dots> \<le> cheatBuffer_size" using assms by (simp add: load_end_def)
  finally show ?thesis .
qed

text \<open>However the file service behaves: if loading ends with a list, its cheats lie one after the other in the 32768-byte buffer without overlapping, each has
  at least one code, and each name ends within its 39 bytes.\<close>

lemma list_in_buffer:
  assumes "Cheat_LoadCheatsIntoMemory fuel E stale titleId s = Some (Loaded t, cleared)"
    and "i < unat (cheatCount t)"
  shows "cheats t i = (if i = 0 then 0 else cheat_end t (i - 1)) \<and> cheat_end t i \<le> cheatBuffer_size
    \<and> codes (store t (cheats t i)) \<noteq> [] \<and> named t (cheats t i)"
proof -
  let ?s = "s\<lparr>cheatCount := 0, cur := None, cheatSize := 0, allocs := 0\<rparr>"
  obtain b where "open_cheats E titleId = Some b"
    using assms by (auto simp: Cheat_LoadCheatsIntoMemory_def Let_def split: option.splits)
  then obtain u where l: "load_loop fuel E stale b (replicate 1024 0) ?s = Some (Loaded u)" and t: "t = drop_empty u"
    using assms(1) by (cases "load_loop fuel E stale b (replicate 1024 0) ?s")
      (auto simp: Cheat_LoadCheatsIntoMemory_def Let_def split: load_result.splits)
  have "load_inv ?s" by (simp add: load_inv_def entries_used_def laid_out_def cheatBuffer_size_def)
  from load_inv_loop [OF this l] have e: "load_end u" .
  have i: "i < unat (cheatCount u)" using assms(2) drop_empty_list(5) [of u] by (simp add: t)
  have "cheats u i = (if i = 0 then 0 else cheat_end u (i - 1))" using e i by (simp add: load_end_def laid_out_def)
  moreover have "named u (cheats u i)" using e i by (simp add: load_end_def)
  moreover have "codes (store u (cheats u i)) \<noteq> []" using drop_empty_codes [OF e] assms(2) by (simp add: t)
  ultimately show ?thesis using load_end_in_buffer [OF e i] by (simp add: t drop_empty_list)
qed

section \<open>Reading a file\<close>

text \<open>The bytes a buffered file still has to give.\<close>

definition left_over :: "u8 list \<Rightarrow> BufferedFile \<Rightarrow> u8 list" where
  "left_over content b = drop (curPos b) (take (maxPos b) (bf_buffer b)) @ drop (if_pos (bf_file b)) content"

definition buffered :: "Handle \<Rightarrow> u8 list \<Rightarrow> BufferedFile \<Rightarrow> bool" where
  "buffered h content b \<longleftrightarrow> if_handle (bf_file b) = h \<and> length (bf_buffer b) = 512 \<and> maxPos b \<le> 512
     \<and> (if maxPos b = 0 then drop (if_pos (bf_file b)) content = [] else curPos b < maxPos b)"

lemma refill_serves:
  assumes "serves E h content" and "if_handle (bf_file b) = h" and "length (bf_buffer b) = 512"
  shows "\<exists>b'. refill E b = (0, b') \<and> buffered h content b'
    \<and> left_over content b' = drop (if_pos (bf_file b)) content"
proof -
  let ?rest = "drop (if_pos (bf_file b)) content"
  define chunk where "chunk = take 512 ?rest"
  have r: "refill E b = (0, b\<lparr>bf_file := (bf_file b)\<lparr>if_pos := if_pos (bf_file b) + length chunk\<rparr>,
      maxPos := length chunk, bf_buffer := chunk @ drop (length chunk) (bf_buffer b), curPos := 0\<rparr>)"
    using read_loop_serves [OF assms(1), of 512] assms(2,3) by (simp add: refill_def IFile_Read_def chunk_def)
  have len: "length chunk \<le> 512" and empty: "chunk = [] \<Longrightarrow> ?rest = []" by (auto simp: chunk_def)
  have whole: "chunk @ drop (if_pos (bf_file b) + length chunk) content = ?rest"
    unfolding chunk_def
  proof (cases "length ?rest \<le> 512")
    case False
    then have "length (take 512 ?rest) = 512" by simp
    then show "take 512 ?rest @ drop (if_pos (bf_file b) + length (take 512 ?rest)) content = ?rest"
      by (metis append_take_drop_id drop_drop add.commute)
  qed simp
  show ?thesis unfolding r using assms(2,3) len empty whole by (auto simp: buffered_def left_over_def)
qed

lemma read_byte:
  assumes "serves E h content" and "buffered h content b"
  shows "left_over content b = [] \<Longrightarrow> BufferedFile_Read E b 1 = (0, [], b)"
    and "left_over content b = c # rest \<Longrightarrow>
      \<exists>b'. BufferedFile_Read E b 1 = (0, [c], b') \<and> buffered h content b' \<and> left_over content b' = rest"
proof -
  show "BufferedFile_Read E b 1 = (0, [], b)" if "left_over content b = []"
  proof -
    have "maxPos b = 0" using assms(2) that by (auto simp: buffered_def left_over_def split: if_splits)
    then show ?thesis by (simp add: BufferedFile_Read_def buffered_loop.simps)
  qed
  assume l: "left_over content b = c # rest"
  have m: "maxPos b \<noteq> 0" using assms(2) l by (cases "maxPos b = 0") (simp_all add: buffered_def left_over_def)
  then have cur: "curPos b < maxPos b" "maxPos b \<le> length (bf_buffer b)" using assms(2) by (auto simp: buffered_def)
  then have split: "drop (curPos b) (take (maxPos b) (bf_buffer b))
      = bf_buffer b ! curPos b # drop (Suc (curPos b)) (take (maxPos b) (bf_buffer b))"
    by (simp add: Cons_nth_drop_Suc [symmetric])
  then have c: "bf_buffer b ! curPos b = c"
    and rest: "rest = drop (Suc (curPos b)) (take (maxPos b) (bf_buffer b)) @ drop (if_pos (bf_file b)) content"
    using l by (simp_all add: left_over_def)
  let ?b = "b\<lparr>curPos := Suc (curPos b)\<rparr>"
  show "\<exists>b'. BufferedFile_Read E b 1 = (0, [c], b') \<and> buffered h content b' \<and> left_over content b' = rest"
  proof (cases "Suc (curPos b) < maxPos b")
    case True
    then have "BufferedFile_Read E b 1 = (0, [c], ?b)" by (simp add: BufferedFile_Read_def c)
    moreover have "buffered h content ?b" "left_over content ?b = rest"
      using assms(2) True rest by (simp_all add: buffered_def left_over_def)
    ultimately show ?thesis by blast
  next
    case False
    then have e: "maxPos b = Suc (curPos b)" using cur by simp
    obtain b' where b': "refill E ?b = (0, b')" "buffered h content b'" "left_over content b' = drop (if_pos (bf_file b)) content"
      using refill_serves [OF assms(1), of ?b] assms(2) by (auto simp: buffered_def)
    have ok: "\<not> f_R_FAILED E 0" using assms(1) by (simp add: serves_def)
    have "buffered_loop E 1 0 [] b = buffered_loop E 1 0 [c] b'"
      using e c ok b'(1) by (subst buffered_loop.simps) (simp add: Let_def)
    also have "\<dots> = (0, [c], b')" by (simp add: buffered_loop.simps)
    finally have "BufferedFile_Read E b 1 = (0, [c], b')" using e by (simp add: BufferedFile_Read_def)
    moreover have "left_over content b' = rest" using rest b'(3) e by simp
    ultimately show ?thesis using b'(2) by blast
  qed
qed

text \<open>A line of a text file: its end is a line feed, or a carriage return and a line feed.\<close>

definition eol_ok :: "u8 list \<Rightarrow> bool" where
  "eol_ok eol \<longleftrightarrow> eol = [0x0A] \<or> eol = [0x0D, 0x0A]"

definition plain :: "u8 list \<Rightarrow> bool" where
  "plain l \<longleftrightarrow> (\<forall>c \<in> set l. c \<noteq> 0 \<and> c \<noteq> 0x0A \<and> c \<noteq> 0x0D)"

lemma take_Suc_update: "i < length xs \<Longrightarrow> take (Suc i) (xs[i := x]) = take i xs @ [x]"
  by (simp add: take_Suc_conv_app_nth)

lemma line_loop_reads:
  assumes "serves E h content" and "buffered h content b" and "left_over content b = l @ eol @ rest"
    and "eol_ok eol" and "plain l" and "length l + 1 < n" and "length line = idx + n"
  shows "\<exists>b' line'. line_loop E n idx False res b line = (of_nat (idx + length l), b', line')
    \<and> buffered h content b' \<and> left_over content b' = rest \<and> length line' = length line
    \<and> take (idx + length l) line' = take idx line @ l \<and> line' ! (idx + length l) = 0"
  using assms(2-)
proof (induction l arbitrary: n idx b line res)
  case Nil
  have ok: "\<not> f_R_FAILED E 0" using assms(1) by (simp add: serves_def)
  obtain m where n: "n = Suc (Suc m)" using Nil.prems(5) by (cases n; cases "n - 1") auto
  have idx: "idx < length line" "Suc idx < length line" using Nil.prems(6) n by simp_all
  show ?case
  proof (cases "eol = [0x0A]")
    case True
    then obtain b' where "BufferedFile_Read E b 1 = (0, [0x0A], b')" "buffered h content b'" "left_over content b' = rest"
      using read_byte(2) [OF assms(1) Nil.prems(1), of "0x0A" rest] Nil.prems(2) by auto
    then show ?thesis using idx ok by (auto simp: n Let_def)
  next
    case False
    then have "left_over content b = 0x0D # 0x0A # rest" using Nil.prems(2,3) by (auto simp: eol_ok_def)
    then obtain b1 where b1: "BufferedFile_Read E b 1 = (0, [0x0D], b1)" "buffered h content b1"
        "left_over content b1 = 0x0A # rest"
      using read_byte(2) [OF assms(1) Nil.prems(1)] by blast
    then obtain b2 where b2: "BufferedFile_Read E b1 1 = (0, [0x0A], b2)" "buffered h content b2" "left_over content b2 = rest"
      using read_byte(2) [OF assms(1) b1(2)] by blast
    show ?thesis using b1(1) b2 idx ok by (auto simp: n Let_def)
  qed
next
  case (Cons c l)
  have ok: "\<not> f_R_FAILED E 0" using assms(1) by (simp add: serves_def)
  obtain m where n: "n = Suc m" "length l + 1 < m" using Cons.prems(5) by (cases n) auto
  have c: "c \<noteq> 0" "c \<noteq> 0x0A" "c \<noteq> 0x0D" "plain l" using Cons.prems(4) by (auto simp: plain_def)
  obtain b1 where b1: "BufferedFile_Read E b 1 = (0, [c], b1)" "buffered h content b1" "left_over content b1 = l @ eol @ rest"
    using read_byte(2) [OF assms(1) Cons.prems(1)] Cons.prems(2) by auto
  have len: "length (line[idx := c]) = Suc idx + m" using Cons.prems(6) n by simp
  obtain b' line' where r: "line_loop E m (Suc idx) False 0 b1 (line[idx := c]) = (of_nat (Suc idx + length l), b', line')"
    "buffered h content b'" "left_over content b' = rest" "length line' = length line"
    "take (Suc idx + length l) line' = take (Suc idx) (line[idx := c]) @ l" "line' ! (Suc idx + length l) = 0"
    using Cons.IH [OF b1(2,3) Cons.prems(3) c(4) n(2) len, of 0] by auto
  have "line_loop E n idx False res b line = line_loop E m (Suc idx) False 0 b1 (line[idx := c])"
    using b1(1) c ok by (simp add: n Let_def)
  moreover have "take (Suc idx) (line[idx := c]) = take idx line @ [c]"
    using Cons.prems(6) n by (intro take_Suc_update) simp
  ultimately show ?case using r by auto
qed

section \<open>Loading ends\<close>

text \<open>Reading a line takes bytes from the file or tells its end, and a line that has no end has used up as
  many bytes, none of them a line feed or NUL, as there is room.\<close>

lemma line_progress:
  assumes "serves E h content" and "buffered h content b" and "line_loop E n idx cr res b line = (r, b', line')"
    and "idx + n = length line" and "cr \<longrightarrow> 0 < idx"
  shows "buffered h content b' \<and> length line' = length line
    \<and> (\<exists>m. left_over content b' = drop m (left_over content b) \<and> m \<le> length (left_over content b) \<and> (0 < n \<and> r \<noteq> -1 \<longrightarrow> 0 < m))
    \<and> (0 \<notin> set line' \<longrightarrow> n \<le> length (left_over content b) \<and> set (take n (left_over content b)) \<inter> {0, 0x0A} = {})"
  using assms(2-)
proof (induction n arbitrary: idx cr res b line)
  case 0
  then show ?case by (auto intro: exI [of _ 0])
next
  case (Suc n)
  have ok: "\<not> f_R_FAILED E 0" using assms(1) by (simp add: serves_def)
  have idx: "idx < length line" using Suc.prems(3) by simp
  show ?case
  proof (cases "left_over content b")
    case Nil
    then have "BufferedFile_Read E b 1 = (0, [], b)" by (rule read_byte(1) [OF assms(1) Suc.prems(1)])
    then have "r = -1" "b' = b" "line' = line[idx := 0]" using Suc.prems(2) by auto
    moreover have "0 \<in> set (line[idx := 0])" using idx by (rule set_update_memI)
    ultimately show ?thesis using Suc.prems(1) Nil by auto
  next
    case (Cons c rest)
    then obtain b1 where b1: "BufferedFile_Read E b 1 = (0, [c], b1)" "buffered h content b1" "left_over content b1 = rest"
      using read_byte(2) [OF assms(1) Suc.prems(1)] by blast
    have memz: "0 \<in> set ((line[idx := c])[j := 0])" if "j < length line" for j
      using that by (intro set_update_memI) simp
    show ?thesis
    proof (cases "c = 0x0A \<or> c = 0")
      case True
      then have "b' = b1" "length line' = length line" "0 \<in> set line'"
        using Suc.prems(2) b1(1) ok memz [of idx] memz [of "idx - 1"] idx set_update_memI [OF idx, of 0]
        by (auto simp: Let_def split: if_splits)
      then show ?thesis using b1 Cons by (auto intro!: exI [of _ 1])
    next
      case False
      then have "line_loop E n (Suc idx) (c = 0x0D) 0 b1 (line[idx := c]) = (r, b', line')"
        using Suc.prems(2) b1(1) ok by (auto simp: Let_def split: if_splits)
      from Suc.IH [OF b1(2) this] Suc.prems(3)
      have IH: "buffered h content b'" "length line' = length line"
        "\<exists>m. left_over content b' = drop m rest \<and> m \<le> length rest"
        "0 \<notin> set line' \<longrightarrow> n \<le> length rest \<and> set (take n rest) \<inter> {0, 0x0A} = {}"
        unfolding b1(3) by auto
      then obtain m where "left_over content b' = drop (Suc m) (left_over content b)" "Suc m \<le> length (left_over content b)"
        unfolding Cons by auto
      then show ?thesis using IH(1,2,4) False Cons by (auto intro!: exI [of _ "Suc m"])
    qed
  qed
qed

lemma strip_length: "stripWhitespace line = Some (k, line') \<Longrightarrow> length line' = length line"
  by (auto simp: stripWhitespace_def Let_def split: if_splits)

lemma strip_None: "stripWhitespace line = None \<longleftrightarrow> 0 \<notin> set line"
  by (simp add: stripWhitespace_def Let_def)

text \<open>A place in a file where the line buffer has no room for the end of the line.\<close>

definition endless_line :: "u8 list \<Rightarrow> bool" where
  "endless_line content \<longleftrightarrow> (\<exists>k. k + 1024 \<le> length content \<and> set (take 1024 (drop k content)) \<inter> {0, 0x0A} = {})"

lemma endless_drop: "endless_line (drop j content) \<Longrightarrow> endless_line content"
proof -
  assume "endless_line (drop j content)"
  then obtain k where "k + 1024 \<le> length (drop j content)" "set (take 1024 (drop (k + j) content)) \<inter> {0, 0x0A} = {}"
    unfolding endless_line_def by auto
  then show ?thesis unfolding endless_line_def by (intro exI [of _ "k + j"]) simp
qed

lemma load_loop_ends:
  assumes "serves E h content" and "buffered h content b" and "length line = 1024"
    and "length (left_over content b) < fuel"
  shows "\<exists>r. load_loop fuel E stale b line s = Some r \<and> (r = Unterminated \<longrightarrow> endless_line (left_over content b))"
  using assms(2-)
proof (induction fuel arbitrary: b line s)
  case 0
  then show ?case by simp
next
  case (Suc fuel)
  have neg: "f_R_FAILED E (-1)" using assms(1) by (simp add: serves_def)
  obtain res b' line' where r: "Cheat_ReadLine E b line 1024 = (res, b', line')" by (metis prod_cases3)
  note P = line_progress [OF assms(1) Suc.prems(1) r [unfolded Cheat_ReadLine_def]]
  from P Suc.prems(2) obtain m where m: "left_over content b' = drop m (left_over content b)" "m \<le> length (left_over content b)"
      "res \<noteq> -1 \<longrightarrow> 0 < m" and b': "buffered h content b'" "length line' = 1024"
      and endless: "0 \<notin> set line' \<longrightarrow> 1024 \<le> length (left_over content b) \<and> set (take 1024 (left_over content b)) \<inter> {0, 0x0A} = {}"
    by auto
  show ?case
  proof (cases "\<not> f_R_FAILED E res \<or> res = -1")
    case False
    then show ?thesis using r by auto
  next
    case True
    show ?thesis
    proof (cases "stripWhitespace line'")
      case None
      then have "endless_line (left_over content b)"
        using endless strip_None [of line'] unfolding endless_line_def by (intro exI [of _ 0]) simp
      with None True r show ?thesis by simp
    next
      case (Some q)
      then obtain k l where kl: "stripWhitespace line' = Some (k, l)" by (cases q) auto
      have l: "length l = 1024" using strip_length [OF kl] b'(2) by simp
      obtain go t where g: "load_line stale k l s = (go, t)" by (metis surj_pair)
      show ?thesis
      proof (cases "go \<and> \<not> f_R_FAILED E res \<and> cheatSize t < cheatBuffer_size")
        case False
        then show ?thesis using r True kl g by auto
      next
        case go: True
        then have "res \<noteq> -1" using neg by auto
        then have "length (left_over content b') < fuel" using m Suc.prems(3) by auto
        from Suc.IH [OF b'(1) l this, of t] endless_drop [of m "left_over content b"] show ?thesis
          using r True kl g go m(1) by auto
      qed
    qed
  qed
qed

lemma load_loop_more:
  "load_loop fuel E stale b line s = Some r \<Longrightarrow> fuel \<le> fuel' \<Longrightarrow> load_loop fuel' E stale b line s = Some r"
proof (induction fuel arbitrary: b line s fuel')
  case (Suc fuel)
  then obtain f where f: "fuel' = Suc f" "fuel \<le> f" by (cases fuel') auto
  show ?case using Suc.prems(1) Suc.IH [OF _ f(2)] unfolding f(1)
    by (auto split: prod.splits option.splits if_splits)
qed simp

lemma open_cheats_serves:
  assumes files: "\<And>path res h. FSUSER_OpenFileDirectly E path = (res, h) \<Longrightarrow> \<not> f_R_FAILED E res \<Longrightarrow> serves E h (content h)"
    and "open_cheats E titleId = Some b"
  obtains h where "serves E h (content h)" and "buffered h (content h) b" and "left_over (content h) b = content h"
proof -
  have one: "\<exists>h. serves E h (content h) \<and> buffered h (content h) b' \<and> left_over (content h) b' = content h"
    if o: "BufferedFile_Open E path = (res, b')" "\<not> f_R_FAILED E res" for path res b'
  proof -
    obtain r h where r: "FSUSER_OpenFileDirectly E path = (r, h)" by (metis surj_pair)
    then have ok: "\<not> f_R_FAILED E r" using o by (auto simp: BufferedFile_Open_def IFile_Open_def Let_def split: if_splits)
    let ?b = "\<lparr>bf_file = \<lparr>if_handle = h, if_pos = 0, if_size = 0\<rparr>, curPos = 0, maxPos = 0, bf_buffer = replicate 512 (0 :: u8)\<rparr>"
    have sv: "serves E h (content h)" by (rule files [OF r ok])
    obtain b1 where b1: "refill E ?b = (0, b1)" "buffered h (content h) b1" "left_over (content h) b1 = content h"
      using refill_serves [OF sv, of ?b] by auto
    have "BufferedFile_Open E path = refill E ?b"
      using r ok by (simp add: BufferedFile_Open_def IFile_Open_def Let_def)
    with b1 sv o(1) show ?thesis by auto
  qed
  from assms(2) show thesis
    unfolding open_cheats_def using one that by (auto split: prod.splits if_splits)
qed

text \<open>C27. Whatever the files of the card hold (the service delivers the bytes of a file it has opened), loading ends,
  and it ends in one of two ways. Either the cheats that are left in the list lie one after the other in the
  32768-byte buffer without overlapping, each has at least one code, and each name ends within its 39 bytes; or
  the loader has met 1024 bytes in a row without a line feed or NUL, for which its line buffer has
  no end, so that it reads past that array.\<close>

theorem loaded_in_buffer:
  assumes files: "\<And>path res h. FSUSER_OpenFileDirectly E path = (res, h) \<Longrightarrow> \<not> f_R_FAILED E res \<Longrightarrow> serves E h (content h)"
  shows "\<exists>n r cleared. (\<forall>fuel \<ge> n. Cheat_LoadCheatsIntoMemory fuel E stale titleId s = Some (r, cleared))
    \<and> (case r of
         Loaded t \<Rightarrow> \<forall>i < unat (cheatCount t).
           cheats t i = (if i = 0 then 0 else cheat_end t (i - 1)) \<and> cheat_end t i \<le> cheatBuffer_size
           \<and> codes (store t (cheats t i)) \<noteq> [] \<and> named t (cheats t i)
       | Unterminated \<Rightarrow> \<exists>h. endless_line (content h))"
proof -
  let ?s = "s\<lparr>cheatCount := 0, cur := None, cheatSize := 0, allocs := 0\<rparr>"
  have "\<exists>n r cleared. (\<forall>fuel \<ge> n. Cheat_LoadCheatsIntoMemory fuel E stale titleId s = Some (r, cleared))
      \<and> (r = Unterminated \<longrightarrow> (\<exists>h. endless_line (content h)))"
  proof (cases "open_cheats E titleId")
    case None
    then show ?thesis by (auto simp: Cheat_LoadCheatsIntoMemory_def Let_def)
  next
    case (Some b)
    obtain h where h: "serves E h (content h)" "buffered h (content h) b" "left_over (content h) b = content h"
      by (rule open_cheats_serves [OF files Some])
    let ?n = "Suc (length (content h))"
    obtain r where r: "load_loop ?n E stale b (replicate 1024 0) ?s = Some r" "r = Unterminated \<longrightarrow> endless_line (content h)"
      using load_loop_ends [OF h(1,2), of "replicate 1024 0" ?n] h(3) by auto
    then have "Cheat_LoadCheatsIntoMemory fuel E stale titleId s =
        Some (case r of Loaded t \<Rightarrow> Loaded (drop_empty t) | Unterminated \<Rightarrow> Unterminated, True)" if "?n \<le> fuel" for fuel
      using load_loop_more [OF r(1) that] Some
      by (simp add: Cheat_LoadCheatsIntoMemory_def Let_def split: load_result.splits del: load_loop.simps)
    with r(2) show ?thesis
      by (intro exI [of _ ?n] exI [of _ "case r of Loaded t \<Rightarrow> Loaded (drop_empty t) | Unterminated \<Rightarrow> Unterminated"] exI [of _ True])
        (auto split: load_result.splits)
  qed
  then obtain n r cleared where r: "\<forall>fuel \<ge> n. Cheat_LoadCheatsIntoMemory fuel E stale titleId s = Some (r, cleared)"
    "r = Unterminated \<longrightarrow> (\<exists>h. endless_line (content h))" by blast
  show ?thesis
  proof (cases r)
    case (Loaded t)
    with r(1) have "Cheat_LoadCheatsIntoMemory n E stale titleId s = Some (Loaded t, cleared)" by simp
    from list_in_buffer [OF this]
    have "\<forall>i < unat (cheatCount t). cheats t i = (if i = 0 then 0 else cheat_end t (i - 1)) \<and> cheat_end t i \<le> cheatBuffer_size
        \<and> codes (store t (cheats t i)) \<noteq> [] \<and> named t (cheats t i)" by blast
    with r(1) show ?thesis
      by (intro exI [of _ n] exI [of _ r] exI [of _ cleared] conjI) (simp_all only: Loaded load_result.case)
  next
    case Unterminated
    with r show ?thesis by (intro exI [of _ n] exI [of _ r] exI [of _ cleared]) simp
  qed
qed

section \<open>The cheats of a file\<close>

lemma cstring_line: "plain l \<Longrightarrow> cstring (l @ 0 # r) = l"
  by (auto simp: cstring_def plain_def)

lemma cstring_line_take:
  assumes "plain l" and "length l \<le> 1000"
  shows "cstring (take 1023 (l @ 0 # r)) = l"
proof -
  have "take 1023 (l @ 0 # r) = l @ 0 # take (1022 - length l) r"
    using assms(2) by (simp add: take_Cons')
  then show ?thesis using cstring_line [OF assms(1)] by simp
qed

lemma IsCodeLine_line:
  assumes "plain l" and "length l \<le> 1000"
  shows "Cheat_IsCodeLine (l @ 0 # r) \<longleftrightarrow> Cheat_IsCodeLine (l @ [0])"
proof (cases "length l = 17")
  case True
  then have "(l @ 0 # r) ! i = (l @ [0]) ! i" if "i < 17" for i using that by (simp add: nth_append)
  then show ?thesis
    unfolding Cheat_IsCodeLine_def cstring_line_take [OF assms] by (auto simp: list_all_iff simp del: upt_rec_numeral)
next
  case False
  then show ?thesis unfolding Cheat_IsCodeLine_def cstring_line_take [OF assms] by simp
qed

lemma back_from_stays: "\<not> is_blank (ret ! n) \<Longrightarrow> back_from ret n = n"
  by (cases n) simp_all

lemma strip_line:
  assumes "plain l" and "l \<noteq> []" and "\<not> is_blank (hd l)" and "\<not> is_blank (last l)"
  shows "stripWhitespace (l @ 0 # r) = Some (0, l @ 0 # r)"
proof -
  have "takeWhile is_blank (l @ 0 # r) = []" using assms(2,3) by (cases l) simp_all
  moreover have "back_from (l @ 0 # r) (length l - 1) = length l - 1"
    using assms(2,4) by (intro back_from_stays) (simp add: nth_append last_conv_nth)
  ultimately show ?thesis using assms(2) by (simp add: stripWhitespace_def cstring_line [OF assms(1)])
qed

definition name_ok :: "u8 list \<Rightarrow> bool" where
  "name_ok name \<longleftrightarrow> plain name \<and> name \<noteq> [] \<and> length name \<le> 38 \<and> \<not> is_blank (hd name) \<and> \<not> is_blank (last name)
     \<and> hd name \<noteq> 0x23 \<and> \<not> Cheat_IsCodeLine (name @ [0])"

text \<open>A cheat as it is written in a file, the file, and the bytes its cheats take in the buffer.\<close>

type_synonym text_cheat = "u8 list \<times> u64 list"

fun cheat_lines :: "text_cheat \<Rightarrow> u8 list list" where
  "cheat_lines (name, cs) = name # map print_code cs"

definition print_lines :: "u8 list \<Rightarrow> u8 list list \<Rightarrow> u8 list" where
  "print_lines eol ls = concat (map (\<lambda>l. l @ eol) ls)"

definition file_lines :: "text_cheat list \<Rightarrow> u8 list list" where
  "file_lines xs = concat (map cheat_lines xs)"

definition buffer_need :: "text_cheat list \<Rightarrow> nat" where
  "buffer_need xs = sum_list (map (\<lambda>(name, cs). sizeof_CheatDescription + 8 * length cs) xs)"

text \<open>The description of the \<open>k\<close>-th cheat.\<close>

fun desc :: "(nat \<Rightarrow> bool) \<Rightarrow> nat \<Rightarrow> text_cheat \<Rightarrow> CheatDescription" where
  "desc stale k (name, cs) =
     \<lparr>cd_active = False, cd_valid = True, hasKeyCode = (\<exists>c \<in> set cs. ucast (drop_bit 32 c) = (0xDD000000 :: u32)),
      activeStorage_bit = stale k, cd_name = copy_name name, storage1 = 0, storage2 = 0, codes = cs\<rparr>"

text \<open>Since the count is a byte, the list starts anew after every 256 cheats.\<close>

definition first_kept :: "text_cheat list \<Rightarrow> nat" where
  "first_kept xs = 256 * ((length xs - 1) div 256)"

definition loads :: "(nat \<Rightarrow> bool) \<Rightarrow> text_cheat list \<Rightarrow> loader \<Rightarrow> bool" where
  "loads stale xs s \<longleftrightarrow> load_inv s \<and> allocs s = length xs \<and> cheatCount s = of_nat (length xs)
     \<and> cheatSize s = buffer_need xs \<and> (cur s = None \<longleftrightarrow> xs = [])
     \<and> (\<forall>i < entries_used s. store s (cheats s i) = desc stale (first_kept xs + i) (xs ! (first_kept xs + i)))"

lemma loads_used:
  assumes "loads stale xs s"
  shows "first_kept xs + entries_used s = length xs"
proof (cases "xs = []")
  case False
  then obtain n where n: "length xs = Suc n" by (cases xs) auto
  have count: "cheatCount s = of_nat (Suc n)" "cur s \<noteq> None"
    using assms False by (simp_all only: loads_def n) simp_all
  have zero: "(of_nat (Suc n) :: u8) = 0 \<longleftrightarrow> Suc n mod 256 = 0"
    by (simp only: word_of_nat_eq_0_iff dvd_eq_mod_eq_0) simp
  have u: "unat (of_nat (Suc n) :: u8) = Suc n mod 256" by (simp only: unat_of_nat) simp
  have "entries_used s = (if Suc n mod 256 = 0 then 256 else Suc n mod 256)"
    unfolding entries_used_def count(1) zero u using count(2) by (cases "cur s") simp_all
  moreover have "256 * (n div 256) + (if Suc n mod 256 = 0 then 256 else Suc n mod 256) = Suc n"
  proof -
    define q r where "q = n div 256" and "r = n mod 256"
    have "n = 256 * q + r" "r < 256" by (simp_all add: q_def r_def)
    moreover have "Suc n mod 256 = (if Suc r = 256 then 0 else Suc r)" by (simp add: mod_Suc r_def)
    ultimately show ?thesis by (simp add: q_def [symmetric])
  qed
  ultimately show ?thesis by (simp add: first_kept_def n)
qed (use assms in \<open>simp add: loads_def entries_used_def first_kept_def\<close>)

lemma load_line_name:
  assumes "name_ok name"
  shows "load_line stale 0 (name @ 0 # r) s = add_name_line stale (name @ 0 # r) s"
proof -
  have n: "plain name" "name \<noteq> []" "length name \<le> 1000" "\<not> Cheat_IsCodeLine (name @ [0])" "hd name \<noteq> 0x23"
    using assms by (auto simp: name_ok_def)
  then have "(name @ 0 # r) ! 0 \<noteq> 0x23" by (cases name) auto
  moreover have "\<not> Cheat_IsCodeLine (name @ 0 # r)" using IsCodeLine_line [OF n(1,3)] n(4) by blast
  ultimately show ?thesis
    unfolding load_line_def Let_def drop_0 cstring_line_take [OF n(1,3)] using n(2) by simp
qed

lemma plain_print_code: "plain (print_code c)"
  unfolding plain_def
proof
  fix x assume "x \<in> set (print_code c)"
  then have "x = 0x20 \<or> is_hex_digit x"
    using hex16_chars(3) by (auto simp: print_code_def dest: in_set_takeD in_set_dropD)
  then show "x \<noteq> 0 \<and> x \<noteq> 0x0A \<and> x \<noteq> 0x0D" by (auto simp: is_hex_digit_def)
qed

lemma print_code_ends:
  "print_code c \<noteq> []" "is_hex_digit (hd (print_code c))" "is_hex_digit (last (print_code c))"
proof -
  show ne: "print_code c \<noteq> []" by (simp add: print_code_def)
  have "is_hex_digit (print_code c ! 0)" "is_hex_digit (print_code c ! 16)"
    using hex16_chars(3) [OF nth_mem] by (simp_all add: nth_print_code)
  then show "is_hex_digit (hd (print_code c))" "is_hex_digit (last (print_code c))"
    using ne by (simp_all add: hd_conv_nth last_conv_nth)
qed

lemma hex_digit_not: "is_hex_digit c \<Longrightarrow> \<not> is_blank c \<and> c \<noteq> 0x23"
  by (auto simp: is_hex_digit_def is_blank_def)

lemma load_line_code:
  "load_line stale 0 (print_code c @ 0 # r) s = add_code_line (print_code c @ 0 # r) s"
proof -
  have "(print_code c @ 0 # r) ! 0 = hd (print_code c)"
    using print_code_ends(1) by (cases "print_code c") simp_all
  then have "(print_code c @ 0 # r) ! 0 \<noteq> 0x23" using hex_digit_not print_code_ends(2) by metis
  moreover have "length (print_code c) \<le> 1000" by simp
  ultimately show ?thesis
    unfolding load_line_def Let_def drop_0 cstring_line_take [OF plain_print_code \<open>length (print_code c) \<le> 1000\<close>]
    using IsCodeLine_print by (simp add: print_code_ends(1))
qed


lemma copy_name_line: "plain name \<Longrightarrow> copy_name (name @ 0 # r) = copy_name name"
proof -
  assume p: "plain name"
  then have "cstring name = name" by (simp add: cstring_def plain_def takeWhile_eq_all_conv)
  then show ?thesis by (simp only: copy_name_def cstring_line [OF p])
qed

lemma buffer_need_snoc [simp]:
  "buffer_need (xs @ [(name, cs)]) = buffer_need xs + sizeof_CheatDescription + 8 * length cs"
  by (simp add: buffer_need_def)

lemma loads_start:
  "loads stale [] (s\<lparr>cheatCount := 0, cur := None, cheatSize := 0, allocs := 0\<rparr>)"
  by (simp add: loads_def load_inv_def entries_used_def laid_out_def cheatBuffer_size_def buffer_need_def)

lemma loads_name:
  assumes l: "loads stale xs s" and "name_ok name" and "xs \<noteq> [] \<longrightarrow> snd (last xs) \<noteq> []"
    and room: "buffer_need (xs @ [(name, [])]) < cheatBuffer_size"
  shows "\<exists>t. load_line stale 0 (name @ 0 # r) s = (True, t) \<and> loads stale (xs @ [(name, [])]) t"
proof -
  have inv: "load_inv s" and size: "cheatSize s = buffer_need xs" using l by (simp_all add: loads_def)
  have fits: "cheatSize s + sizeof_CheatDescription < cheatBuffer_size" using room size by simp
  have used: "first_kept xs + entries_used s = length xs" using loads_used [OF l] .
  have full: "\<forall>p. cur s = Some p \<longrightarrow> codes (store s p) \<noteq> []"
  proof (intro allI impI)
    fix p assume p: "cur s = Some p"
    then have ne: "xs \<noteq> []" and "0 < entries_used s" using l by (auto simp: loads_def entries_used_def unat_gt_0)
    then have "store s p = desc stale (length xs - 1) (xs ! (length xs - 1))"
      using l p used by (auto simp: loads_def load_inv_def)
    then show "codes (store s p) \<noteq> []" using assms(3) ne by (cases "last xs") (simp add: last_conv_nth)
  qed
  obtain q u where a: "Cheat_AllocCheat stale s = (q, u)" by (metis surj_pair)
  define t where "t = set_name q (name @ 0 # r) (u\<lparr>cur := Some q, cheatSize := cheatSize u + sizeof_CheatDescription\<rparr>)"
  have step: "load_line stale 0 (name @ 0 # r) s = (True, t)"
    using full fits a by (auto simp: load_line_name [OF assms(2)] add_name_line_def t_def split: option.split)
  have inv': "load_inv t" unfolding t_def by (rule load_inv_alloc [OF inv fits full a])
  have tb: "cheats t = (cheats s)(unat (cheatCount s) := q)" "cheatSize t = cheatSize s + sizeof_CheatDescription"
    "cur t = Some q" "cheatCount t = cheatCount s + 1" "allocs t = allocs s + 1"
    "store t q = desc stale (allocs s) (name, [])" "\<And>p. p \<noteq> q \<Longrightarrow> store t p = store s p"
    using a assms(2) by (auto simp: Cheat_AllocCheat_def Let_def set_name_def t_def name_ok_def copy_name_line)
  have q: "q = next_offset s" using a by (simp add: Cheat_AllocCheat_def Let_def)
  let ?ys = "xs @ [(name, [])]" and ?n = "unat (cheatCount s)"
  have count: "entries_used t = Suc ?n" unfolding t_def by (rule alloc_used [OF a])
  have n: "?n = length xs mod 256" using l by (simp add: loads_def unat_of_nat)
  then have kept: "first_kept ?ys + ?n = length xs" by (simp add: first_kept_def)
  have "store t (cheats t i) = desc stale (first_kept ?ys + i) (?ys ! (first_kept ?ys + i))" if "i < Suc ?n" for i
  proof (cases "i = ?n")
    case True
    moreover have "allocs s = length xs" using l by (simp add: loads_def)
    ultimately show ?thesis by (simp only: tb kept fun_upd_same nth_append_length)
  next
    case False
    then have i: "i < ?n" using that by simp
    then have "xs \<noteq> []" using n by auto
    then have "entries_used s = ?n" using i l by (cases "cur s") (auto simp: entries_used_def loads_def)
    then have "first_kept xs = first_kept ?ys" using used kept by simp
    moreover have "cheats t i \<noteq> q" using alloc_above(3) [OF inv i] False q by (simp add: tb(1))
    moreover have "first_kept ?ys + i < length xs" using i kept by simp
    ultimately show ?thesis using l i False \<open>entries_used s = ?n\<close>
      by (simp add: tb(1,7) loads_def nth_append)
  qed
  then have "loads stale ?ys t" using inv' l tb size by (simp add: loads_def count)
  with step show ?thesis by blast
qed

lemma loads_code:
  assumes l: "loads stale (xs @ [(name, cs)]) s" and room: "buffer_need (xs @ [(name, cs @ [c])]) < cheatBuffer_size"
  shows "\<exists>t. load_line stale 0 (print_code c @ 0 # r) s = (True, t) \<and> loads stale (xs @ [(name, cs @ [c])]) t"
proof -
  let ?xs = "xs @ [(name, cs)]" and ?ys = "xs @ [(name, cs @ [c])]"
  have inv: "load_inv s" and size: "cheatSize s = buffer_need ?xs" using l by (simp_all add: loads_def)
  obtain p where p: "cur s = Some p" using l by (auto simp: loads_def)
  have used: "first_kept ?xs + entries_used s = length ?xs" using loads_used [OF l] .
  have pos: "0 < entries_used s" using p by (simp add: entries_used_def unat_gt_0)
  let ?n = "entries_used s"
  have last: "p = cheats s (?n - 1)" using inv p by (simp add: load_inv_def)
  then have "store s p = desc stale (length xs) (name, cs)"
    using l pos used by (auto simp: loads_def nth_append)
  note sp = this
  define t where "t = s\<lparr>store := (store s)(p := desc stale (length xs) (name, cs @ [c])), cheatSize := cheatSize s + 8 * 1\<rparr>"
  have fits: "cheatSize s + 8 * 1 < cheatBuffer_size" using room size by simp
  have step: "load_line stale 0 (print_code c @ 0 # r) s = (True, t)"
    using fits p by (auto simp: load_line_code add_code_line_def GetCode_print Cheat_AddCode_def sp t_def Let_def)
  have inv': "load_inv t"
    unfolding t_def using copy_name_ok sp fits by (intro load_inv_change [OF inv p]) simp_all
  have same: "entries_used t = ?n" "cheats t = cheats s" "first_kept ?ys = first_kept ?xs"
    by (simp_all add: t_def entries_used_def first_kept_def)
  have "store t (cheats s i) = desc stale (first_kept ?xs + i) (?ys ! (first_kept ?xs + i))" if "i < ?n" for i
  proof (cases "i = ?n - 1")
    case True
    then have "first_kept ?xs + i = length xs" using used pos by simp
    then show ?thesis using True last by (simp add: t_def)
  next
    case False
    then have "cheats s i \<noteq> p" using laid_out_neq [of ?n s i "?n - 1"] inv that last by (simp add: load_inv_def)
    moreover have "first_kept ?xs + i < length xs" using False that used by simp
    ultimately show ?thesis using l that by (simp add: t_def loads_def nth_append)
  qed
  then have "loads stale ?ys t" using inv' l size p by (simp add: loads_def same) (simp add: t_def)
  with step show ?thesis by blast
qed

lemma loop_line:
  assumes "serves E h content" and "buffered h content b" and "left_over content b = l @ eol @ rest"
    and "eol_ok eol" and "plain l" and "l \<noteq> []" and "\<not> is_blank (hd l)" and "\<not> is_blank (last l)"
    and "length l \<le> 1000" and "length line = 1024"
    and step: "\<And>r. \<exists>t. load_line stale 0 (l @ 0 # r) s = (True, t) \<and> loads stale ys t"
  shows "\<exists>b' line' t. load_loop (Suc fuel) E stale b line s = load_loop fuel E stale b' line' t
    \<and> buffered h content b' \<and> left_over content b' = rest \<and> length line' = 1024 \<and> loads stale ys t"
proof -
  have n: "length l + 1 < 1024" "length line = 0 + 1024" using assms(9,10) by simp_all
  obtain b' line' where r: "Cheat_ReadLine E b line 1024 = (of_nat (length l), b', line')"
    and b': "buffered h content b'" "left_over content b' = rest" and line': "length line' = 1024"
    "take (length l) line' = l" "line' ! length l = 0"
    using line_loop_reads [OF assms(1-5) n, of 0] assms(10) unfolding Cheat_ReadLine_def by auto
  have whole: "line' = l @ 0 # drop (Suc (length l)) line'"
    using id_take_nth_drop [of "length l" line'] line' n(1) by simp
  obtain t where t: "load_line stale 0 line' s = (True, t)" "loads stale ys t"
    using step [of "drop (Suc (length l)) line'"] whole by auto
  have strip: "stripWhitespace line' = Some (0, line')"
    using strip_line [OF assms(5-8), of "drop (Suc (length l)) line'"] unfolding whole [symmetric] .
  have "sint (of_nat (length l) :: Result) = int (length l)"
    using assms(9) by (simp add: signed_of_nat signed_take_bit_int_eq_self)
  then have ok: "\<not> f_R_FAILED E (of_nat (length l))" using assms(1) by (simp add: serves_def)
  have "cheatSize t < cheatBuffer_size" using t(2) by (simp add: loads_def load_inv_def)
  then have "load_loop (Suc fuel) E stale b line s = load_loop fuel E stale b' line' t"
    using r ok strip t(1) by simp
  then show ?thesis using b' line'(1) t(2) by blast
qed

lemma buffer_need_append: "buffer_need (xs @ ys) = buffer_need xs + buffer_need ys"
  by (simp add: buffer_need_def)

lemma loop_codes:
  assumes "serves E h content" and "eol_ok eol"
  shows "buffered h content b \<Longrightarrow> left_over content b = print_lines eol (map print_code ds) @ rest \<Longrightarrow>
    length line = 1024 \<Longrightarrow> loads stale (xs @ [(name, cs)]) s \<Longrightarrow>
    buffer_need (xs @ [(name, cs @ ds)]) < cheatBuffer_size \<Longrightarrow>
    \<exists>b' line' t. load_loop (length ds + fuel) E stale b line s = load_loop fuel E stale b' line' t
      \<and> buffered h content b' \<and> left_over content b' = rest \<and> length line' = 1024 \<and> loads stale (xs @ [(name, cs @ ds)]) t"
proof (induction ds arbitrary: b line s cs)
  case Nil
  then show ?case by (auto simp: print_lines_def)
next
  case (Cons d ds)
  have l: "left_over content b = print_code d @ eol @ (print_lines eol (map print_code ds) @ rest)"
    using Cons.prems(2) by (simp add: print_lines_def)
  have step: "\<exists>t. load_line stale 0 (print_code d @ 0 # r) s = (True, t) \<and> loads stale (xs @ [(name, cs @ [d])]) t" for r
    using Cons.prems(5) by (intro loads_code [OF Cons.prems(4)]) simp
  have ends: "\<not> is_blank (hd (print_code d))" "\<not> is_blank (last (print_code d))" "length (print_code d) \<le> 1000"
    using hex_digit_not print_code_ends(2,3) by simp_all
  from loop_line [OF assms(1) Cons.prems(1) l assms(2) plain_print_code print_code_ends(1) ends Cons.prems(3) step,
      of "length ds + fuel"]
  obtain b1 line1 t1 where 1: "load_loop (Suc (length ds + fuel)) E stale b line s = load_loop (length ds + fuel) E stale b1 line1 t1"
    "buffered h content b1" "left_over content b1 = print_lines eol (map print_code ds) @ rest" "length line1 = 1024"
    "loads stale (xs @ [(name, cs @ [d])]) t1" by blast
  have "buffer_need (xs @ [(name, (cs @ [d]) @ ds)]) < cheatBuffer_size" using Cons.prems(5) by simp
  from Cons.IH [OF 1(2,3,4,5) this] show ?case using 1(1) by (simp del: load_loop.simps)
qed

lemma loop_cheats:
  assumes "serves E h content" and "eol_ok eol"
  shows "buffered h content b \<Longrightarrow> left_over content b = print_lines eol (file_lines ys) @ rest \<Longrightarrow>
    length line = 1024 \<Longrightarrow> loads stale xs s \<Longrightarrow> xs \<noteq> [] \<longrightarrow> snd (last xs) \<noteq> [] \<Longrightarrow>
    \<forall>(name, cs) \<in> set ys. name_ok name \<and> cs \<noteq> [] \<Longrightarrow> buffer_need (xs @ ys) < cheatBuffer_size \<Longrightarrow>
    \<exists>b' line' t. load_loop (length (file_lines ys) + fuel) E stale b line s = load_loop fuel E stale b' line' t
      \<and> buffered h content b' \<and> left_over content b' = rest \<and> length line' = 1024 \<and> loads stale (xs @ ys) t"
proof (induction ys arbitrary: b line s xs)
  case Nil
  then show ?case by (auto simp: print_lines_def file_lines_def)
next
  case (Cons y ys)
  obtain name cs where y: "y = (name, cs)" by (cases y)
  then have ok: "name_ok name" "cs \<noteq> []" using Cons.prems(6) by auto
  then have name: "plain name" "name \<noteq> []" "\<not> is_blank (hd name)" "\<not> is_blank (last name)" "length name \<le> 1000"
    by (auto simp: name_ok_def)
  have room: "buffer_need (xs @ [(name, cs)]) < cheatBuffer_size"
    using Cons.prems(7) by (simp add: y buffer_need_append buffer_need_def)
  let ?rest = "print_lines eol (file_lines ys) @ rest"
  have l: "left_over content b = name @ eol @ (print_lines eol (map print_code cs) @ ?rest)"
    using Cons.prems(2) by (simp add: y print_lines_def file_lines_def)
  have "\<exists>t. load_line stale 0 (name @ 0 # r) s = (True, t) \<and> loads stale (xs @ [(name, [])]) t" for r
    using room by (intro loads_name [OF Cons.prems(4) ok(1) Cons.prems(5)]) simp
  from loop_line [OF assms(1) Cons.prems(1) l assms(2) name Cons.prems(3) this, of "length cs + (length (file_lines ys) + fuel)"]
  obtain b1 line1 t1 where 1: "load_loop (Suc (length cs + (length (file_lines ys) + fuel))) E stale b line s
      = load_loop (length cs + (length (file_lines ys) + fuel)) E stale b1 line1 t1"
    "buffered h content b1" "left_over content b1 = print_lines eol (map print_code cs) @ ?rest" "length line1 = 1024"
    "loads stale (xs @ [(name, [])]) t1" by blast
  from loop_codes [OF assms 1(2-5), of "length (file_lines ys) + fuel"] room
  obtain b2 line2 t2 where 2: "load_loop (length cs + (length (file_lines ys) + fuel)) E stale b1 line1 t1
      = load_loop (length (file_lines ys) + fuel) E stale b2 line2 t2"
    "buffered h content b2" "left_over content b2 = ?rest" "length line2 = 1024" "loads stale (xs @ [(name, cs)]) t2" by auto
  have "\<exists>b' line' t. load_loop (length (file_lines ys) + fuel) E stale b2 line2 t2 = load_loop fuel E stale b' line' t
      \<and> buffered h content b' \<and> left_over content b' = rest \<and> length line' = 1024 \<and> loads stale ((xs @ [(name, cs)]) @ ys) t"
    using Cons.prems(6,7) ok by (intro Cons.IH [OF 2(2-5)]) (auto simp: y)
  moreover have "length (file_lines (y # ys)) + fuel = Suc (length cs + (length (file_lines ys) + fuel))"
    by (simp add: file_lines_def y)
  ultimately show ?case unfolding y using 1(1) 2(1) by (simp add: add.assoc del: load_loop.simps)
qed


lemma loop_end:
  assumes "serves E h content" and "buffered h content b" and "left_over content b = []" and "length line = 1024"
  shows "load_loop (Suc fuel) E stale b line s = Some (Loaded s)"
proof -
  have "line_loop E (Suc 1023) 0 False 0 b line = (-1, b, line[0 := 0])"
    using read_byte(1) [OF assms(1-3)] by (simp only: line_loop.simps prod.case) simp
  then have r: "Cheat_ReadLine E b line 1024 = (-1, b, line[0 := 0])" by (simp only: Cheat_ReadLine_def) simp
  obtain c cs where line: "line[0 := 0] = 0 # cs" using assms(4) by (cases line) auto
  have "stripWhitespace (0 # cs) = Some (0, 0 # cs)" by (simp add: stripWhitespace_def is_blank_def cstring_def)
  moreover have "load_line stale 0 (0 # cs) s = (True, s)" by (simp add: load_line_def cstring_def)
  moreover have "f_R_FAILED E (-1)" using assms(1) by (simp add: serves_def)
  ultimately show ?thesis by (simp add: r line)
qed

text \<open>Where the file of a title is found.\<close>

definition title_file :: "file_env \<Rightarrow> u64 \<Rightarrow> Handle \<Rightarrow> bool" where
  "title_file E titleId h \<longleftrightarrow>
     (let r = FSUSER_OpenFileDirectly E (chars ''/omiiba/titles/'' @ hex16 titleId @ chars ''/cheats.txt'') in
      r = (0, h) \<or> f_R_FAILED E (fst r)
        \<and> FSUSER_OpenFileDirectly E (chars ''/cheats/'' @ hex16 titleId @ chars ''.txt'') = (0, h))"

lemma open_serves:
  assumes "serves E h content" and "FSUSER_OpenFileDirectly E path = (0, h)"
  shows "\<exists>b. BufferedFile_Open E path = (0, b) \<and> buffered h content b \<and> left_over content b = content"
proof -
  let ?b = "\<lparr>bf_file = \<lparr>if_handle = h, if_pos = 0, if_size = 0\<rparr>, curPos = 0, maxPos = 0, bf_buffer = replicate 512 0\<rparr>"
  have "\<not> f_R_FAILED E 0" using assms(1) by (simp add: serves_def)
  then show ?thesis
    using refill_serves [OF assms(1), of ?b] assms(2) by (simp add: BufferedFile_Open_def IFile_Open_def)
qed

lemma title_file_opens:
  assumes "serves E h content" and "title_file E titleId h"
  shows "\<exists>b. open_cheats E titleId = Some b \<and> buffered h content b \<and> left_over content b = content"
proof -
  have ok: "\<not> f_R_FAILED E 0" using assms(1) by (simp add: serves_def)
  let ?first = "chars ''/omiiba/titles/'' @ hex16 titleId @ chars ''/cheats.txt''"
  and ?second = "chars ''/cheats/'' @ hex16 titleId @ chars ''.txt''"
  show ?thesis
  proof (cases "FSUSER_OpenFileDirectly E ?first = (0, h)")
    case True
    then obtain b where "BufferedFile_Open E ?first = (0, b)" "buffered h content b" "left_over content b = content"
      using open_serves [OF assms(1)] by blast
    then show ?thesis using ok unfolding open_cheats_def by simp
  next
    case False
    then have fail: "f_R_FAILED E (fst (FSUSER_OpenFileDirectly E ?first))"
      and "FSUSER_OpenFileDirectly E ?second = (0, h)" using assms(2) unfolding title_file_def Let_def by blast+
    then obtain b where b: "BufferedFile_Open E ?second = (0, b)" "buffered h content b" "left_over content b = content"
      using open_serves [OF assms(1)] by blast
    obtain res f where "FSUSER_OpenFileDirectly E ?first = (res, f)" by (metis surj_pair)
    then have "BufferedFile_Open E ?first = (res, \<lparr>bf_file = \<lparr>if_handle = f, if_pos = 0, if_size = 0\<rparr>, curPos = 0,
        maxPos = 0, bf_buffer = replicate 512 0\<rparr>)" and "f_R_FAILED E res"
      using fail by (simp_all add: BufferedFile_Open_def IFile_Open_def)
    then show ?thesis using b ok unfolding open_cheats_def by simp
  qed
qed

lemma file_loads_state:
  assumes "serves E h content" and "title_file E titleId h" and "eol_ok eol"
    and "content = print_lines eol (file_lines xs)" and "\<forall>(name, cs) \<in> set xs. name_ok name \<and> cs \<noteq> []"
    and "buffer_need xs < cheatBuffer_size" and "length (file_lines xs) < fuel"
  shows "\<exists>t. Cheat_LoadCheatsIntoMemory fuel E stale titleId s = Some (Loaded t, True) \<and> loads stale xs t"
proof -
  obtain k where fuel: "fuel = length (file_lines xs) + Suc k" using less_imp_Suc_add [OF assms(7)] by auto
  let ?s = "s\<lparr>cheatCount := 0, cur := None, cheatSize := 0, allocs := 0\<rparr>"
  obtain b where b: "open_cheats E titleId = Some b" "buffered h content b" "left_over content b = content"
    using title_file_opens [OF assms(1,2)] by blast
  obtain b' line' t where t: "load_loop fuel E stale b (replicate 1024 0) ?s = load_loop (Suc k) E stale b' line' t"
    "buffered h content b'" "left_over content b' = []" "length line' = 1024" "loads stale xs t"
    using loop_cheats [OF assms(1,3) b(2), of xs "[]" "replicate 1024 0" stale "[]" ?s "Suc k"] b(3) assms(4-6)
      loads_start [of stale s] unfolding fuel by auto
  have end': "load_loop fuel E stale b (replicate 1024 0) ?s = Some (Loaded t)"
    using t(1) loop_end [OF assms(1) t(2-4)] by simp
  have "drop_empty t = t"
  proof (cases "cheatCount t = 0")
    case False
    have ne: "xs \<noteq> []" using False t(5) by (auto simp: loads_def)
    then have "entries_used t = unat (cheatCount t)" using t(5) False by (cases "cur t") (auto simp: loads_def entries_used_def)
    moreover from this have "0 < entries_used t" using False by (simp add: unat_gt_0)
    moreover have "first_kept xs + entries_used t = length xs" by (rule loads_used [OF t(5)])
    ultimately have "store t (cheats t (unat (cheatCount t - 1))) = desc stale (length xs - 1) (last xs)"
      using t(5) False ne by (auto simp: loads_def unat_minus_one last_conv_nth)
    moreover obtain name cs where "last xs = (name, cs)" by (metis surj_pair)
    moreover from this have "cs \<noteq> []" using assms(5) last_in_set [OF ne] by auto
    ultimately show ?thesis by (simp add: drop_empty_def)
  qed (simp add: drop_empty_def)
  then have "Cheat_LoadCheatsIntoMemory fuel E stale titleId s = Some (Loaded t, True)"
    using b(1) end' by (simp add: Cheat_LoadCheatsIntoMemory_def Let_def del: load_loop.simps)
  with t(5) show ?thesis by blast
qed

text \<open>C28. A text file of named cheats is loaded as those cheats, with their codes, names and
  hold-key flags, all inactive and valid (the storage selector keeps a stale bit), wherever the
  512-byte buffer ends and with either line ending. But the count of cheats is a byte: 256
  cheats in a file count as none, and 256 + k as the last k.\<close>

theorem file_loads:
  assumes "serves E h content" and "title_file E titleId h" and "eol_ok eol"
    and "content = print_lines eol (file_lines xs)" and "\<forall>(name, cs) \<in> set xs. name_ok name \<and> cs \<noteq> []"
    and "buffer_need xs < cheatBuffer_size" and "length (file_lines xs) < fuel"
  shows "\<exists>t. Cheat_LoadCheatsIntoMemory fuel E stale titleId s = Some (Loaded t, True)
    \<and> map (\<lambda>i. store t (cheats t i)) [0..<unat (cheatCount t)]
      = drop (256 * (length xs div 256)) (map2 (desc stale) [0..<length xs] xs)"
proof -
  obtain t where load: "Cheat_LoadCheatsIntoMemory fuel E stale titleId s = Some (Loaded t, True)" and t: "loads stale xs t"
    using file_loads_state [OF assms] by blast
  let ?n = "unat (cheatCount t)" and ?k = "256 * (length xs div 256)"
  have n: "?n = length xs mod 256" using t by (simp add: loads_def unat_of_nat)
  then have kn: "?k + ?n = length xs" by simp
  have "map (\<lambda>i. store t (cheats t i)) [0..<?n] = drop ?k (map2 (desc stale) [0..<length xs] xs)"
  proof (rule nth_equalityI)
    show "length (map (\<lambda>i. store t (cheats t i)) [0..<?n]) = length (drop ?k (map2 (desc stale) [0..<length xs] xs))"
      using kn by simp
    fix i assume "i < length (map (\<lambda>i. store t (cheats t i)) [0..<?n])"
    then have i: "i < ?n" by simp
    then have "xs \<noteq> []" using n by auto
    then have used: "entries_used t = ?n" using i t by (cases "cur t") (auto simp: entries_used_def loads_def)
    then have "first_kept xs = ?k" using loads_used [OF t] kn by simp
    then show "map (\<lambda>i. store t (cheats t i)) [0..<?n] ! i = drop ?k (map2 (desc stale) [0..<length xs] xs) ! i"
      using i t used kn by (simp add: loads_def)
  qed
  with load show ?thesis by blast
qed

text \<open>A card with one file, for the witnesses.\<close>

definition demo_cheats :: "text_cheat list" where
  "demo_cheats = [(chars ''Lives'', [0x0123456700000063]), (chars ''Gold'', [0xDD00000000000001, 0x2ABCDEF0000000FF])]"

definition demo_file :: "u8 list" where
  "demo_file = print_lines [0x0D, 0x0A] (file_lines demo_cheats)"

definition demo_card :: file_env where
  "demo_card = \<lparr>FSUSER_OpenFileDirectly = (\<lambda>path. (0, 7)), FSFILE_Read = (\<lambda>h pos len. (0, take len (drop pos demo_file))),
     FSFILE_GetSize = (\<lambda>h. (0, length demo_file)),
     f_R_FAILED = (\<lambda>res. sint res < 0)\<rparr>"

definition demo_loader :: loader where
  "demo_loader = \<lparr>cheatCount = 3, cheats = (\<lambda>_. 0), store = (\<lambda>_. desc (\<lambda>_. True) 0 ([], [])), cur = None,
     cheatSize = 0, allocs = 0\<rparr>"

lemma demo_file_laws:
  "serves demo_card 7 demo_file" "title_file demo_card titleId 7" "eol_ok [0x0D, 0x0A]"
  "demo_file = print_lines [0x0D, 0x0A] (file_lines demo_cheats)"
  "\<forall>(name, cs) \<in> set demo_cheats. name_ok name \<and> cs \<noteq> []"
  "buffer_need demo_cheats < cheatBuffer_size" "length (file_lines demo_cheats) < 6"
proof -
  show "serves demo_card 7 demo_file" "title_file demo_card titleId 7" "eol_ok [0x0D, 0x0A]"
    "demo_file = print_lines [0x0D, 0x0A] (file_lines demo_cheats)"
    by (simp_all add: serves_def demo_card_def title_file_def eol_ok_def demo_file_def)
  show "buffer_need demo_cheats < cheatBuffer_size" "length (file_lines demo_cheats) < 6"
    by (simp_all add: buffer_need_def demo_cheats_def sizeof_CheatDescription_def cheatBuffer_size_def file_lines_def)
  have "name_ok (chars ''Lives'')" "name_ok (chars ''Gold'')"
    by (simp_all add: name_ok_def chars_def plain_def is_blank_def Cheat_IsCodeLine_def cstring_def)
  then show "\<forall>(name, cs) \<in> set demo_cheats. name_ok name \<and> cs \<noteq> []" by (simp add: demo_cheats_def)
qed

lemma loaded_in_buffer_witness:
  "\<exists>n t. (\<forall>fuel \<ge> n. Cheat_LoadCheatsIntoMemory fuel demo_card (\<lambda>_. False) 0x40000 demo_loader = Some (Loaded t, True))
    \<and> cheats t 0 = 0 \<and> codes (store t 0) \<noteq> []"
proof -
  have files: "FSUSER_OpenFileDirectly demo_card path = (res, h) \<Longrightarrow> \<not> f_R_FAILED demo_card res \<Longrightarrow> serves demo_card h demo_file"
    for path res h using demo_file_laws(1) by (auto simp: demo_card_def)
  have "\<exists>n r cleared. (\<forall>fuel \<ge> n. Cheat_LoadCheatsIntoMemory fuel demo_card (\<lambda>_. False) 0x40000 demo_loader = Some (r, cleared))
    \<and> (case r of
         Loaded t \<Rightarrow> \<forall>i < unat (cheatCount t).
           cheats t i = (if i = 0 then 0 else cheat_end t (i - 1)) \<and> cheat_end t i \<le> cheatBuffer_size
           \<and> codes (store t (cheats t i)) \<noteq> [] \<and> named t (cheats t i)
       | Unterminated \<Rightarrow> \<exists>h :: Handle. endless_line demo_file)"
    by (rule loaded_in_buffer) (rule files)
  then obtain n r cleared where r: "\<forall>fuel \<ge> n. Cheat_LoadCheatsIntoMemory fuel demo_card (\<lambda>_. False) 0x40000 demo_loader = Some (r, cleared)"
    "case r of Loaded t \<Rightarrow> \<forall>i < unat (cheatCount t).
           cheats t i = (if i = 0 then 0 else cheat_end t (i - 1)) \<and> cheat_end t i \<le> cheatBuffer_size
           \<and> codes (store t (cheats t i)) \<noteq> [] \<and> named t (cheats t i)
       | Unterminated \<Rightarrow> \<exists>h :: Handle. endless_line demo_file"
    by (elim exE conjE)
  have "length (file_lines demo_cheats) < max n 6" using demo_file_laws(7) by simp
  then obtain t where t: "Cheat_LoadCheatsIntoMemory (max n 6) demo_card (\<lambda>_. False) 0x40000 demo_loader = Some (Loaded t, True)"
    and l: "loads (\<lambda>_. False) demo_cheats t"
    using file_loads_state [OF demo_file_laws(1-6)] by blast
  have rt: "r = Loaded t" "cleared = True" using r(1) t by simp_all
  have "0 < unat (cheatCount t)" using l by (simp add: loads_def demo_cheats_def)
  with r(2) have c: "cheats t 0 = 0" "codes (store t (cheats t 0)) \<noteq> []" by (auto simp: rt(1) split: if_splits)
  from c(2) have "codes (store t 0) \<noteq> []" unfolding c(1) .
  with r(1) c(1) rt show ?thesis by blast
qed

lemma file_loads_witness:
  "\<exists>t. Cheat_LoadCheatsIntoMemory 6 demo_card (\<lambda>_. False) 0x40000 demo_loader = Some (Loaded t, True)
    \<and> map (\<lambda>i. (codes (store t (cheats t i)), hasKeyCode (store t (cheats t i)))) [0..<unat (cheatCount t)]
      = [([0x0123456700000063], False), ([0xDD00000000000001, 0x2ABCDEF0000000FF], True)]"
proof -
  obtain t where t: "Cheat_LoadCheatsIntoMemory 6 demo_card (\<lambda>_. False) 0x40000 demo_loader = Some (Loaded t, True)"
    and l: "map (\<lambda>i. store t (cheats t i)) [0..<unat (cheatCount t)]
      = drop (256 * (length demo_cheats div 256)) (map2 (desc (\<lambda>_. False)) [0..<length demo_cheats] demo_cheats)"
    using file_loads [OF demo_file_laws] by blast
  have "map (\<lambda>c. (codes c, hasKeyCode c)) (map (\<lambda>i. store t (cheats t i)) [0..<unat (cheatCount t)])
      = [([0x0123456700000063], False), ([0xDD00000000000001, 0x2ABCDEF0000000FF], True)]"
    unfolding l by (simp add: demo_cheats_def upt_rec)
  then show ?thesis using t by (auto simp: comp_def)
qed

end
