(* ===== verification/Cheat_Safety.thy ===== *)
theory Cheat_Safety
  imports Cheat_Exec
begin

text \<open>
  What a run of the cheat engine may change: the frame every instruction, and so every run,
  stays in.
\<close>

section \<open>What a run may touch\<close>

text \<open>The changes of the debugged process: a write of at most four bytes at an address for which
  the kernel reports a mapped region that holds them, and the reading of the input devices.\<close>

inductive world_step :: "'p cheat_env \<Rightarrow> 'p \<Rightarrow> 'p \<Rightarrow> bool" for E where
  store: "svcQueryDebugProcessMemory E w addr = (res, st, base, sz) \<Longrightarrow> c_R_SUCCEEDED E res \<Longrightarrow>
    st \<noteq> MEMSTATE_FREE E \<Longrightarrow> 0 < base \<Longrightarrow> base \<le> addr \<Longrightarrow> length bs \<le> 4 \<Longrightarrow>
    addr \<le> base + sz - of_nat (length bs) \<Longrightarrow>
    world_step E w (snd (svcWriteProcessMemory E addr bs w))"
| pad: "world_step E w (snd (HID_PAD E w))"
| touch: "world_step E w (snd (hidTouchRead E w))"

text \<open>Positions of the scratch page outside it, and also outside the few positions that the
  bounds check lets through because \<open>addr + 3\<close> wraps around (see the property below).\<close>

definition far :: "u32 \<Rightarrow> bool" where
  "far i \<longleftrightarrow> 0x1000 \<le> i \<and> (i < 0xFE17EFFD \<or> 0xFE17F002 < i)"

definition vm_frame :: "'p cheat_env \<Rightarrow> 'p cheat_vm \<Rightarrow> 'p cheat_vm \<Rightarrow> bool" where
  "vm_frame E s t \<longleftrightarrow>
     codes (cheat t) = codes (cheat s) \<and> cd_name (cheat t) = cd_name (cheat s)
     \<and> cd_active (cheat t) = cd_active (cheat s) \<and> hasKeyCode (cheat t) = hasKeyCode (cheat s)
     \<and> (\<forall>i. far i \<longrightarrow> cheatPage t i = cheatPage s i)
     \<and> (world_step E)\<^sup>*\<^sup>* (world s) (world t)"

definition outcome_all :: "('p cheat_vm \<Rightarrow> bool) \<Rightarrow> 'p outcome \<Rightarrow> bool" where
  "outcome_all P r = (case r of Cont t \<Rightarrow> P t | Return _ t \<Rightarrow> P t | Undefined \<Rightarrow> True)"

lemma outcome_all_simps [simp]:
  "outcome_all P (Cont t) = P t" "outcome_all P (Return b t) = P t" "outcome_all P Undefined"
  by (simp_all add: outcome_all_def)

lemma outcome_all_if: "outcome_all P (if b then r else r') = (if b then outcome_all P r else outcome_all P r')"
  by simp

lemma frame_refl [simp]: "vm_frame E s s"
  by (simp add: vm_frame_def)

lemma frame_trans: "vm_frame E s t \<Longrightarrow> vm_frame E t u \<Longrightarrow> vm_frame E s u"
  by (auto simp: vm_frame_def)

text \<open>Changing registers is within the frame.\<close>

lemma frame_regs [simp]:
  "vm_frame E s (t\<lparr>vm_index := a\<rparr>) = vm_frame E s t" "vm_frame E s (t\<lparr>offset1 := a\<rparr>) = vm_frame E s t"
  "vm_frame E s (t\<lparr>offset2 := a\<rparr>) = vm_frame E s t" "vm_frame E s (t\<lparr>data1 := a\<rparr>) = vm_frame E s t"
  "vm_frame E s (t\<lparr>data2 := a\<rparr>) = vm_frame E s t" "vm_frame E s (t\<lparr>activeOffset_bit := b\<rparr>) = vm_frame E s t"
  "vm_frame E s (t\<lparr>activeData_bit := b\<rparr>) = vm_frame E s t" "vm_frame E s (t\<lparr>conditionalMode := c\<rparr>) = vm_frame E s t"
  "vm_frame E s (t\<lparr>data1Mode := b\<rparr>) = vm_frame E s t" "vm_frame E s (t\<lparr>data2Mode := b\<rparr>) = vm_frame E s t"
  "vm_frame E s (t\<lparr>floatMode := b\<rparr>) = vm_frame E s t" "vm_frame E s (t\<lparr>typeELine := c\<rparr>) = vm_frame E s t"
  "vm_frame E s (t\<lparr>typeEIdx := c\<rparr>) = vm_frame E s t" "vm_frame E s (t\<lparr>loopLine := c\<rparr>) = vm_frame E s t"
  "vm_frame E s (t\<lparr>loopCount := a\<rparr>) = vm_frame E s t" "vm_frame E s (t\<lparr>ifStack := a\<rparr>) = vm_frame E s t"
  "vm_frame E s (t\<lparr>storedStack := a\<rparr>) = vm_frame E s t" "vm_frame E s (t\<lparr>ifCount := c\<rparr>) = vm_frame E s t"
  "vm_frame E s (t\<lparr>storedIfCount := c\<rparr>) = vm_frame E s t" "vm_frame E s (t\<lparr>cheatRngState := d\<rparr>) = vm_frame E s t"
  "vm_frame E s (t\<lparr>cheat := (cheat t)\<lparr>storage1 := a\<rparr>\<rparr>) = vm_frame E s t"
  "vm_frame E s (t\<lparr>cheat := (cheat t)\<lparr>storage2 := a\<rparr>\<rparr>) = vm_frame E s t"
  "vm_frame E s (t\<lparr>cheat := (cheat t)\<lparr>activeStorage_bit := b\<rparr>\<rparr>) = vm_frame E s t"
  by (simp_all add: vm_frame_def)

lemma frame_helpers [simp]:
  "vm_frame E s (set_activeOffset a t) = vm_frame E s t" "vm_frame E s (set_activeData a t) = vm_frame E s t"
  "vm_frame E s (push_if b t) = vm_frame E s t" "vm_frame E s (pop_if t) = vm_frame E s t"
  "vm_frame E s (start_loop a t) = vm_frame E s t" "vm_frame E s (jump_to_loop t) = vm_frame E s t"
  "vm_frame E s (count_loop t) = vm_frame E s t" "vm_frame E s (break_loop t) = vm_frame E s t"
  "vm_frame E s (clear_all t) = vm_frame E s t" "vm_frame E s (set_data_reg c a t) = vm_frame E s t"
  "vm_frame E s (next_line t) = vm_frame E s t" "vm_frame E s (reset_state t) = vm_frame E s t"
  by (simp_all add: set_activeOffset_def set_activeData_def push_if_def pop_if_def start_loop_def
      jump_to_loop_def count_loop_def break_loop_def clear_all_def set_data_reg_def next_line_def
      reset_state_def Let_def)

lemma frame_pad: "HID_PAD E (world s) = (p, w) \<Longrightarrow> vm_frame E s (s\<lparr>world := w\<rparr>)"
  using world_step.pad [of E "world s"] by (auto simp: vm_frame_def)

lemma frame_touch: "hidTouchRead E (world s) = (p, w) \<Longrightarrow> vm_frame E s (s\<lparr>world := w\<rparr>)"
  using world_step.touch [of E "world s"] by (auto simp: vm_frame_def)

text \<open>Writes.\<close>

lemma page_store_other:
  "(\<And>k. k < length bs \<Longrightarrow> j \<noteq> i + of_nat k) \<Longrightarrow> page_store i bs page j = page j"
proof (induction bs arbitrary: i page)
  case (Cons b bs)
  have "j \<noteq> i + 1 + of_nat k" if "k < length bs" for k
    using Cons.prems [of "Suc k"] that by (simp add: add.assoc)
  moreover have "j \<noteq> i" using Cons.prems [of 0] by simp
  ultimately show ?case using Cons.IH [of "i + 1"] by simp
qed simp

lemma far_address:
  assumes "far j" and "k \<le> ext" and "ext \<le> 3"
    and "addr \<ge> 0x01E81000" and "addr + ext < (0x01E82000 :: u32)"
  shows "j \<noteq> addr - 0x01E81000 + k"
proof
  assume j: "j = addr - 0x01E81000 + k"
  have u: "uint addr < 2 ^ 32" "uint k \<le> uint ext" "uint ext \<le> 3" "0x01E81000 \<le> uint addr" "0 \<le> uint k"
    using assms(2-4) uint_lt2p [of addr] by (simp_all add: word_le_def)
  have d: "uint (addr - 0x01E81000) = uint addr - 0x01E81000"
    using u(4) by (subst uint_sub_if') simp
  have uj: "uint j = uint addr - 0x01E81000 + uint k"
    unfolding j using u d by (subst uint_plus_if') simp
  have "uint (addr + ext) = uint addr + uint ext \<or> 2 ^ 32 \<le> uint addr + uint ext"
    using u by (subst uint_plus_if') simp
  moreover have "uint (addr + ext) < 0x01E82000" using assms(5) by (simp add: word_less_def)
  ultimately have "uint j < 0x1000 \<or> (0xFE17EFFD \<le> uint j \<and> uint j \<le> 0xFE17F002)"
  proof (elim disjE)
    assume "uint (addr + ext) = uint addr + uint ext"
    then have "uint j < 0x1000" using u uj \<open>uint (addr + ext) < 0x01E82000\<close> by linarith
    then show ?thesis ..
  next
    assume "2 ^ 32 \<le> uint addr + uint ext"
    then have "4294967293 \<le> uint addr" using u(3) by simp
    then have "0xFE17EFFD \<le> uint j" using u(5) uj by linarith
    moreover have "uint j \<le> 0xFE17F002" using u(1,2,3) uj by simp
    ultimately have "0xFE17EFFD \<le> uint j" "uint j \<le> 0xFE17F002" .
    then show ?thesis by simp
  qed
  then show False using assms(1) unfolding far_def word_less_def word_le_def by auto
qed

lemma frame_Write:
  assumes "length bs = unat ext + 1" and "ext \<le> 3"
  shows "vm_frame E s (snd (Cheat_Write E addr ext bs s))"
proof (cases "addr \<ge> 0x01E81000 \<and> addr + ext < 0x01E82000")
  case True
  have "page_store (addr - 0x01E81000) bs (cheatPage s) j = cheatPage s j" if "far j" for j
  proof (rule page_store_other)
    fix k assume "k < length bs"
    then have "k \<le> unat ext" using assms(1) by simp
    then have "(of_nat k :: u32) \<le> ext"
      by (simp add: word_le_nat_alt le_unat_uoi)
    then show "j \<noteq> addr - 0x01E81000 + of_nat k"
      using far_address [OF that] assms(2) True by blast
  qed
  with True show ?thesis by (simp add: Cheat_Write_def vm_frame_def)
next
  case False
  show ?thesis
  proof (cases "Cheat_IsValidAddress E addr (ext + 1) s")
    case True
    obtain res st base sz where q: "svcQueryDebugProcessMemory E (world s) addr = (res, st, base, sz)"
      by (metis surj_pair)
    have ext: "ext + 1 = of_nat (length bs)" "length bs \<le> 4"
      using assms by (simp_all add: word_le_nat_alt)
    have "world_step E (world s) (snd (svcWriteProcessMemory E addr bs (world s)))"
      by (rule world_step.store [OF q]) (use True q ext in \<open>auto simp: Cheat_IsValidAddress_def\<close>)
    with False True show ?thesis by (auto simp: Cheat_Write_def vm_frame_def split: prod.splits)
  next
    case F: False
    with False show ?thesis by (auto simp: Cheat_Write_def)
  qed
qed

lemma frame_writes:
  "vm_frame E s (snd (Cheat_Write8 E a v8 s))" "vm_frame E s (snd (Cheat_Write16 E a v16 s))"
  "vm_frame E s (snd (Cheat_Write32 E a v32 s))"
  unfolding Cheat_Write8_def Cheat_Write16_def Cheat_Write32_def by (rule frame_Write; simp)+

lemma frame_on_write:
  assumes "vm_frame E s (snd r)" and "\<And>t. vm_frame E s t \<Longrightarrow> outcome_all (vm_frame E s) (k t)"
  shows "outcome_all (vm_frame E s) (on_write r k)"
  using assms by (cases r) (simp add: on_write_def)

lemma frame_on_read:
  assumes "vm_frame E s t" and "\<And>v. outcome_all (vm_frame E s) (k v)"
  shows "outcome_all (vm_frame E s) (on_read r t k)"
  using assms by (cases r) (simp_all add: on_read_def)

lemma frame_and_then:
  assumes "outcome_all (vm_frame E s) r" and "\<And>t. vm_frame E s t \<Longrightarrow> outcome_all (vm_frame E s) (k t)"
  shows "outcome_all (vm_frame E s) (and_then r k)"
  using assms by (cases r) (simp_all add: and_then_def)

lemma frame_conditional:
  "outcome_all (vm_frame E s) (conditional32 cmp E arg0 arg1 s)"
  "outcome_all (vm_frame E s) (conditional16 cmp E arg0 arg1 s)"
  by (simp_all add: conditional32_def conditional16_def Let_def frame_on_read)

lemma frame_conditionals:
  "outcome_all (vm_frame E s) (op_3 E arg0 arg1 s)" "outcome_all (vm_frame E s) (op_4 E arg0 arg1 s)"
  "outcome_all (vm_frame E s) (op_5 E arg0 arg1 s)" "outcome_all (vm_frame E s) (op_6 E arg0 arg1 s)"
  "outcome_all (vm_frame E s) (op_7 E arg0 arg1 s)" "outcome_all (vm_frame E s) (op_8 E arg0 arg1 s)"
  "outcome_all (vm_frame E s) (op_9 E arg0 arg1 s)" "outcome_all (vm_frame E s) (op_A E arg0 arg1 s)"
  unfolding op_3_def op_4_def op_5_def op_6_def op_7_def op_8_def op_9_def op_A_def
  by (rule frame_conditional)+

lemma frame_plain_writes:
  "outcome_all (vm_frame E s) (op_0 E arg0 arg1 s)" "outcome_all (vm_frame E s) (op_1 E arg0 arg1 s)"
  "outcome_all (vm_frame E s) (op_2 E arg0 arg1 s)" "outcome_all (vm_frame E s) (op_B E arg0 arg1 s)"
  by (simp_all add: op_0_def op_1_def op_2_def op_B_def frame_on_write frame_on_read frame_writes)

lemma frame_loop_ops:
  "outcome_all (vm_frame E s) (op_C subcode arg1 s)" "outcome_all (vm_frame E s) (op_D0 arg1 s)"
  "outcome_all (vm_frame E s) (op_D1 s)" "outcome_all (vm_frame E s) (op_D2 arg1 s)"
  by (simp_all add: op_C_def op_D0_def op_D1_def op_D2_def Let_def)

lemma frame_register_ops:
  "outcome_all (vm_frame E s) (op_D3 codeArg arg1 s)" "outcome_all (vm_frame E s) (op_D4 codeArg arg1 s)"
  "outcome_all (vm_frame E s) (op_D5 codeArg arg1 s)" "outcome_all (vm_frame E s) (op_DC arg1 s)"
  "outcome_all (vm_frame E s) (advance arg1 s)"
  by (simp_all add: op_D3_def op_D4_def op_D5_def op_DC_def advance_def)

lemma frame_store_ops:
  "outcome_all (vm_frame E s) (op_D6 E codeArg arg1 s)" "outcome_all (vm_frame E s) (op_D7 E codeArg arg1 s)"
  "outcome_all (vm_frame E s) (op_D8 E codeArg arg1 s)"
  by (simp_all add: op_D6_def op_D7_def op_D8_def advance_def frame_on_write frame_writes split: option.split)

lemma frame_load_ops:
  "outcome_all (vm_frame E s) (op_D9 E codeArg arg1 s)" "outcome_all (vm_frame E s) (op_DA E codeArg arg1 s)"
  "outcome_all (vm_frame E s) (op_DB E codeArg arg1 s)"
  by (simp_all add: op_D9_def op_DA_def op_DB_def load_reg_def frame_on_read)

lemma frame_input_ops:
  "outcome_all (vm_frame E s) (op_DD E arg1 s)" "outcome_all (vm_frame E s) (op_DE E codeArg arg1 s)"
  by (auto simp: op_DD_def op_DE_def Let_def frame_pad frame_touch split: prod.split)

lemma frame_DF:
  "outcome_all (vm_frame E s) (op_DF E codeArg arg1 s)"
  by (simp add: op_DF_def op_DF_0_def op_DF_1_def op_DF_2_def op_DF_E_def op_DF_F_def outcome_all_if)

lemma frame_D: "outcome_all (vm_frame E s) (op_D E subcode codeArg arg1 s)"
  by (simp add: op_D_def frame_loop_ops frame_register_ops frame_store_ops frame_load_ops frame_input_ops
      frame_DF)

lemma frame_typeE:
  "vm_frame E s t \<Longrightarrow> outcome_all (vm_frame E s) (typeE_loop E skip b n i t)"
proof (induction n arbitrary: i t)
  case (Suc n)
  obtain v u where g: "Cheat_GetNextTypeE E t = (v, u)" by (metis surj_pair)
  then have u: "vm_frame E s u" using Suc.prems by (auto simp: Cheat_GetNextTypeE_def Let_def split: if_splits)
  show ?case
    using Suc.IH u frame_trans [OF u frame_writes(1)] by (auto simp: g intro!: frame_on_write)
qed simp

lemma frame_copy:
  "vm_frame E s t \<Longrightarrow> outcome_all (vm_frame E s) (copy_loop E n t)"
proof (induction n arbitrary: t)
  case (Suc n)
  show ?case
    using Suc by (auto simp: Let_def intro!: frame_on_read frame_on_write frame_trans [OF _ frame_writes(1)])
qed simp

lemma frame_F_memory:
  "outcome_all (vm_frame E s) (op_F1 E arg0 arg1 s)" "outcome_all (vm_frame E s) (op_F2 E arg0 arg1 s)"
  "outcome_all (vm_frame E s) (op_F3 E arg0 arg1 s)"
  by (simp_all add: op_F1_def op_F2_def op_F3_def frame_on_read frame_on_write frame_writes)

lemma frame_F_register:
  "outcome_all (vm_frame E s) (op_F0 arg1 s)" "outcome_all (vm_frame E s) (op_F4 E arg1 s)"
  "outcome_all (vm_frame E s) (op_F5 E arg1 s)" "outcome_all (vm_frame E s) (op_Fbits subcode arg1 s)"
  "outcome_all (vm_frame E s) (op_Fshift subcode arg1 s)" "outcome_all (vm_frame E s) (op_FF arg0 arg1 s)"
  by (simp_all add: op_F0_def op_F4_def op_F5_def op_Fbits_def op_Fshift_def op_FF_def
      Cheat_GetRandomNumber_def Let_def)

lemma frame_F_block:
  "outcome_all (vm_frame E s) (op_FC E arg1 s)" "outcome_all (vm_frame E s) (op_FE E arg0 arg1 s)"
  by (simp_all add: op_FC_def op_FE_def Let_def frame_and_then frame_copy frame_on_read)

lemma frame_F: "outcome_all (vm_frame E s) (op_F E subcode arg0 arg1 s)"
  by (simp add: op_F_def frame_F_memory frame_F_register frame_F_block)

lemma frame_op: "outcome_all (vm_frame E s) (cheat_op E arg0 arg1 s)"
  using frame_typeE [of E s]
  by (simp add: cheat_op_def Let_def frame_plain_writes frame_conditionals frame_loop_ops frame_D frame_F
      op_E_def frame_and_then)

lemma frame_step: "outcome_all (vm_frame E s) (cheat_step E s)"
  by (auto simp: cheat_step_def frame_op split: prod.split intro!: frame_and_then)

lemma frame_loop: "cheat_loop fuel E s = Some r \<Longrightarrow> outcome_all (vm_frame E s) r"
proof (induction fuel arbitrary: s)
  case (Suc fuel)
  then show ?case
  proof (cases "cheat_step E s")
    case (Cont t)
    with frame_step [of E s] have st: "vm_frame E s t" by simp
    from Suc Cont have "outcome_all (vm_frame E t) r" by simp
    with st show ?thesis by (cases r) (auto intro: frame_trans)
  qed (use frame_step [of E s] Suc.prems in auto)
qed simp

end
