(* ===== verification/Cheat_Flow.thy ===== *)
theory Cheat_Flow
  imports Cheat_Safety
begin

text \<open>
  The control flow of the cheat engine: which line runs next, and the termination of the
  interpreter on the cheats it can address.
\<close>

section \<open>Control flow\<close>

definition outcome_cont :: "('p cheat_vm \<Rightarrow> bool) \<Rightarrow> 'p outcome \<Rightarrow> bool" where
  "outcome_cont P r = (case r of Cont t \<Rightarrow> P t | Return _ _ \<Rightarrow> True | Undefined \<Rightarrow> True)"

lemma outcome_cont_simps [simp]:
  "outcome_cont P (Cont t) = P t" "outcome_cont P (Return b t)" "outcome_cont P Undefined"
  by (simp_all add: outcome_cont_def)

lemma outcome_cont_mono: "outcome_cont P r \<Longrightarrow> (\<And>t. P t \<Longrightarrow> Q t) \<Longrightarrow> outcome_cont Q r"
  by (cases r) auto

text \<open>The state of the control flow: the line, the loop, and the code.\<close>

definition ctl :: "'p cheat_vm \<Rightarrow> u32 \<times> u8 \<times> u32 \<times> u64 list" where
  "ctl s = (vm_index s, loopLine s, loopCount s, codes (cheat s))"

lemma ctl_regs [simp]:
  "ctl (t\<lparr>offset1 := a\<rparr>) = ctl t" "ctl (t\<lparr>offset2 := a\<rparr>) = ctl t" "ctl (t\<lparr>data1 := a\<rparr>) = ctl t"
  "ctl (t\<lparr>data2 := a\<rparr>) = ctl t" "ctl (t\<lparr>activeOffset_bit := b\<rparr>) = ctl t"
  "ctl (t\<lparr>activeData_bit := b\<rparr>) = ctl t" "ctl (t\<lparr>conditionalMode := c\<rparr>) = ctl t"
  "ctl (t\<lparr>data1Mode := b\<rparr>) = ctl t" "ctl (t\<lparr>data2Mode := b\<rparr>) = ctl t"
  "ctl (t\<lparr>floatMode := b\<rparr>) = ctl t" "ctl (t\<lparr>typeELine := c\<rparr>) = ctl t" "ctl (t\<lparr>typeEIdx := c\<rparr>) = ctl t"
  "ctl (t\<lparr>ifStack := a\<rparr>) = ctl t" "ctl (t\<lparr>storedStack := a\<rparr>) = ctl t" "ctl (t\<lparr>ifCount := c\<rparr>) = ctl t"
  "ctl (t\<lparr>storedIfCount := c\<rparr>) = ctl t" "ctl (t\<lparr>cheatRngState := d\<rparr>) = ctl t"
  "ctl (t\<lparr>cheatPage := p\<rparr>) = ctl t" "ctl (t\<lparr>world := w\<rparr>) = ctl t"
  "ctl (t\<lparr>cheat := (cheat t)\<lparr>storage1 := a\<rparr>\<rparr>) = ctl t"
  "ctl (t\<lparr>cheat := (cheat t)\<lparr>storage2 := a\<rparr>\<rparr>) = ctl t"
  "ctl (t\<lparr>cheat := (cheat t)\<lparr>activeStorage_bit := b\<rparr>\<rparr>) = ctl t"
  by (simp_all add: ctl_def)

lemma ctl_helpers [simp]:
  "ctl (set_activeOffset a t) = ctl t" "ctl (set_activeData a t) = ctl t"
  "ctl (push_if b t) = ctl t" "ctl (pop_if t) = ctl t" "ctl (set_data_reg c a t) = ctl t"
  by (simp_all add: set_activeOffset_def set_activeData_def push_if_def pop_if_def set_data_reg_def)

lemma ctl_Write: "ctl (snd (Cheat_Write E addr ext bs s)) = ctl s"
  by (auto simp: Cheat_Write_def split: prod.split)

lemma ctl_writes [simp]:
  "ctl (snd (Cheat_Write8 E a v8 s)) = ctl s" "ctl (snd (Cheat_Write16 E a v16 s)) = ctl s"
  "ctl (snd (Cheat_Write32 E a v32 s)) = ctl s"
  unfolding Cheat_Write8_def Cheat_Write16_def Cheat_Write32_def by (rule ctl_Write)+

lemma cont_on_write:
  assumes "ctl (snd r) = ctl s" and "\<And>t. ctl t = ctl s \<Longrightarrow> outcome_cont P (k t)"
  shows "outcome_cont P (on_write r k)"
  using assms by (cases r) (simp add: on_write_def)

lemma cont_on_read: "(\<And>v. outcome_cont P (k v)) \<Longrightarrow> outcome_cont P (on_read r t k)"
  by (cases r) (simp_all add: on_read_def)

lemma cont_and_then:
  "outcome_cont P r \<Longrightarrow> (\<And>t. P t \<Longrightarrow> outcome_cont Q (k t)) \<Longrightarrow> outcome_cont Q (and_then r k)"
  by (cases r) (simp_all add: and_then_def)

text \<open>Most instructions leave it alone.\<close>

abbreviation keeps_ctl :: "'p cheat_vm \<Rightarrow> 'p outcome \<Rightarrow> bool" where
  "keeps_ctl s \<equiv> outcome_cont (\<lambda>t. ctl t = ctl s)"

lemma ctl_conditionals:
  "keeps_ctl s (op_3 E arg0 arg1 s)" "keeps_ctl s (op_4 E arg0 arg1 s)" "keeps_ctl s (op_5 E arg0 arg1 s)"
  "keeps_ctl s (op_6 E arg0 arg1 s)" "keeps_ctl s (op_7 E arg0 arg1 s)" "keeps_ctl s (op_8 E arg0 arg1 s)"
  "keeps_ctl s (op_9 E arg0 arg1 s)" "keeps_ctl s (op_A E arg0 arg1 s)"
proof -
  have "keeps_ctl s (conditional32 cmp E arg0 arg1 s)" "keeps_ctl s (conditional16 cmp E arg0 arg1 s)" for cmp
    by (simp_all add: conditional32_def conditional16_def Let_def cont_on_read)
  then show "keeps_ctl s (op_3 E arg0 arg1 s)" "keeps_ctl s (op_4 E arg0 arg1 s)" "keeps_ctl s (op_5 E arg0 arg1 s)"
    "keeps_ctl s (op_6 E arg0 arg1 s)" "keeps_ctl s (op_7 E arg0 arg1 s)" "keeps_ctl s (op_8 E arg0 arg1 s)"
    "keeps_ctl s (op_9 E arg0 arg1 s)" "keeps_ctl s (op_A E arg0 arg1 s)"
    unfolding op_3_def op_4_def op_5_def op_6_def op_7_def op_8_def op_9_def op_A_def by blast+
qed

lemma ctl_plain:
  "keeps_ctl s (op_0 E arg0 arg1 s)" "keeps_ctl s (op_1 E arg0 arg1 s)" "keeps_ctl s (op_2 E arg0 arg1 s)"
  "keeps_ctl s (op_B E arg0 arg1 s)"
  by (simp_all add: op_0_def op_1_def op_2_def op_B_def cont_on_write cont_on_read)

lemma ctl_register_ops:
  "keeps_ctl s (op_D3 codeArg arg1 s)" "keeps_ctl s (op_D4 codeArg arg1 s)" "keeps_ctl s (op_D5 codeArg arg1 s)"
  "keeps_ctl s (op_DC arg1 s)"
  by (simp_all add: op_D3_def op_D4_def op_D5_def op_DC_def advance_def)

lemma ctl_store_ops:
  "keeps_ctl s (op_D6 E codeArg arg1 s)" "keeps_ctl s (op_D7 E codeArg arg1 s)" "keeps_ctl s (op_D8 E codeArg arg1 s)"
  by (simp_all add: op_D6_def op_D7_def op_D8_def advance_def cont_on_write split: option.split)

lemma ctl_load_ops:
  "keeps_ctl s (op_D9 E codeArg arg1 s)" "keeps_ctl s (op_DA E codeArg arg1 s)" "keeps_ctl s (op_DB E codeArg arg1 s)"
  by (simp_all add: op_D9_def op_DA_def op_DB_def load_reg_def cont_on_read)

lemma ctl_input_ops:
  "keeps_ctl s (op_DD E arg1 s)" "keeps_ctl s (op_DE E codeArg arg1 s)"
  by (auto simp: op_DD_def op_DE_def Let_def split: prod.split)

lemma ctl_DF: "keeps_ctl s (op_DF E codeArg arg1 s)"
  by (simp add: op_DF_def op_DF_0_def op_DF_1_def op_DF_2_def op_DF_E_def op_DF_F_def)

lemma ctl_F_memory:
  "keeps_ctl s (op_F1 E arg0 arg1 s)" "keeps_ctl s (op_F2 E arg0 arg1 s)" "keeps_ctl s (op_F3 E arg0 arg1 s)"
  by (simp_all add: op_F1_def op_F2_def op_F3_def cont_on_read cont_on_write)

lemma ctl_F_register:
  "keeps_ctl s (op_F0 arg1 s)" "keeps_ctl s (op_F4 E arg1 s)" "keeps_ctl s (op_F5 E arg1 s)"
  "keeps_ctl s (op_Fbits subcode arg1 s)" "keeps_ctl s (op_Fshift subcode arg1 s)" "keeps_ctl s (op_FF arg0 arg1 s)"
  by (simp_all add: op_F0_def op_F4_def op_F5_def op_Fbits_def op_Fshift_def op_FF_def
      Cheat_GetRandomNumber_def Let_def)

lemma ctl_copy: "ctl t = ctl s \<Longrightarrow> keeps_ctl s (copy_loop E n t)"
proof (induction n arbitrary: t)
  case (Suc n)
  then show ?case by (auto simp: Let_def intro!: cont_on_read cont_on_write [where s = s])
qed simp

lemma ctl_FC: "keeps_ctl s (op_FC E arg1 s)"
  by (auto simp: op_FC_def intro!: cont_and_then [OF ctl_copy])

lemma ctl_typeE: "ctl t = ctl s \<Longrightarrow> keeps_ctl s (typeE_loop E skip b n i t)"
proof (induction n arbitrary: i t)
  case (Suc n)
  obtain v u where g: "Cheat_GetNextTypeE E t = (v, u)" by (metis surj_pair)
  then have u: "ctl u = ctl s" using Suc.prems by (auto simp: Cheat_GetNextTypeE_def Let_def split: if_splits)
  then show ?case using Suc.IH by (auto simp: g intro!: cont_on_write [where s = s])
qed simp

text \<open>Where the block writer stands after \<open>n\<close> bytes, and the line it ends on.\<close>

definition typeE_at :: "u8 \<Rightarrow> nat \<Rightarrow> u8 \<times> u8" where
  "typeE_at line n = (line + of_nat ((n + 7) div 8), of_nat ((n + 7) mod 8))"

lemma next_typeE_at:
  assumes "(typeELine t, typeEIdx t) = typeE_at line n" and "Cheat_GetNextTypeE E t = (v, u)"
  shows "(typeELine u, typeEIdx u) = typeE_at line (Suc n)"
proof -
  have *: "(Suc n + 7) div 8 = (if (n + 7) mod 8 = 7 then Suc ((n + 7) div 8) else (n + 7) div 8)"
    "(Suc n + 7) mod 8 = (if (n + 7) mod 8 = 7 then 0 else Suc ((n + 7) mod 8))" by presburger+
  define q r where "q = (n + 7) div 8" and "r = (n + 7) mod 8"
  have "r < 8" by (simp add: r_def)
  then have "unat (of_nat r :: u8) = r" by (simp add: unat_of_nat)
  then have i: "(of_nat r :: u8) = 7 \<longleftrightarrow> r = 7" by (auto simp: word_unat_eq_iff)
  have at: "typeE_at line n = (line + of_nat q, of_nat r)"
    "typeE_at line (Suc n) = (if r = 7 then (line + of_nat q + 1, 0) else (line + of_nat q, of_nat r + 1))"
    unfolding typeE_at_def * q_def r_def by simp_all
  have "Cheat_GetNextTypeE E t = (v, u) \<Longrightarrow> (typeELine u, typeEIdx u) =
      (if typeEIdx t = 7 then (typeELine t + 1, 0) else (typeELine t, typeEIdx t + 1))"
    by (auto simp: Cheat_GetNextTypeE_def Let_def)
  with assms i show ?thesis unfolding at by (auto split: if_splits)
qed

lemma typeE_line:
  "(typeELine t, typeEIdx t) = typeE_at line k \<Longrightarrow>
     outcome_cont (\<lambda>u. typeELine u = fst (typeE_at line (k + n))) (typeE_loop E skip b n i t)"
proof (induction n arbitrary: i t k)
  case 0
  then have "typeELine t = fst (typeE_at line k)" by (metis fst_conv)
  then show ?case by simp
next
  case (Suc n)
  obtain v u where g: "Cheat_GetNextTypeE E t = (v, u)" by (metis surj_pair)
  note u = next_typeE_at [OF Suc.prems g]
  show ?case
  proof (cases skip)
    case True
    then show ?thesis using Suc.IH [OF u, of "i + 1"] by (simp add: g)
  next
    case False
    obtain ok w where w: "Cheat_Write8 E (b + i) v u = (ok, w)" by (metis surj_pair)
    then have "typeELine w = typeELine u" "typeEIdx w = typeEIdx u"
      by (auto simp: Cheat_Write8_def Cheat_Write_def split: prod.splits if_splits)
    then have "(typeELine w, typeEIdx w) = typeE_at line (Suc k)" using u by simp
    then show ?thesis using Suc.IH [of w "Suc k" "i + 1"] False by (simp add: g w on_write_def)
  qed
qed


section \<open>Where an instruction goes\<close>

definition line_type :: "u64 \<Rightarrow> u32" where
  "line_type c = drop_bit 28 (ucast (drop_bit 32 c)) AND 0x0F"

text \<open>The cheats the engine can address: the line numbers fit the signed loop register, and
  no block of bytes reaches past the lines an 8-bit line number can name.\<close>

definition addressable :: "u64 list \<Rightarrow> bool" where
  "addressable cs \<longleftrightarrow> length cs \<le> 127
     \<and> (\<forall>i < length cs. line_type (cs ! i) = 0xE \<longrightarrow> i + (unat (ucast (cs ! i) :: u32) + 7) div 8 < 256)"

text \<open>An instruction at line \<open>vm_index s\<close> goes on (and then keeps, ends or starts the loop) or
  jumps back to the loop line, which costs one round of the loop.\<close>

definition flow :: "'p cheat_vm \<Rightarrow> 'p cheat_vm \<Rightarrow> bool" where
  "flow s t \<longleftrightarrow> codes (cheat t) = codes (cheat s)
     \<and> (vm_index s \<le> vm_index t \<and> vm_index t \<le> 300
          \<and> (loopLine t = loopLine s \<and> loopCount t = loopCount s
             \<or> loopLine t = -1 \<or> loopLine t = ucast (vm_index s))
        \<or> loopLine s \<noteq> -1 \<and> loopLine t = loopLine s \<and> loopCount t < loopCount s
          \<and> vm_index t = scast (loopLine s))"

lemma flow_ctl: "ctl t = ctl s \<Longrightarrow> vm_index s \<le> 300 \<Longrightarrow> flow s t"
  by (simp add: ctl_def flow_def)

lemma flow_trans_ctl: "ctl s' = ctl s \<Longrightarrow> flow s' t \<Longrightarrow> flow s t"
  by (simp add: ctl_def flow_def)

lemma less_minus_one: "0 < (c :: u32) \<Longrightarrow> c - 1 < c"
proof -
  assume "0 < c"
  then have "c \<noteq> 0" by (metis less_irrefl)
  then show ?thesis unfolding word_less_nat_alt by (rule measure_unat)
qed

lemma flow_count_loop:
  assumes "loopCount s > 0" and "vm_index s \<le> 300"
  shows "flow s (count_loop s)" and "flow s (jump_to_loop (s\<lparr>loopCount := loopCount s - 1\<rparr>))"
  using assms less_minus_one [OF assms(1)]
  by (auto simp: flow_def count_loop_def jump_to_loop_def Let_def)

lemma skip_to_end_le: "skip_to_end cs \<le> length cs"
  by (induction cs) auto

lemma index_small:
  assumes "unat (vm_index s) < codesCount (cheat s)" and "codesCount (cheat s) \<le> 127"
  shows "vm_index s \<le> 300" and "unat (vm_index s + 1) = unat (vm_index s) + 1"
proof -
  show "vm_index s \<le> 300" using assms by (simp add: word_le_nat_alt)
  have "unat (vm_index s) + 1 < 2 ^ LENGTH(32)" using assms by simp
  then show "unat (vm_index s + 1) = unat (vm_index s) + 1" by (simp add: unat_word_ariths)
qed

lemma flow_break:
  assumes "unat (vm_index s) < codesCount (cheat s)" and "codesCount (cheat s) \<le> 127"
  shows "flow s (break_loop s)"
proof -
  note I = index_small [OF assms]
  let ?k = "skip_to_end (drop (unat (vm_index s + 1)) (codes (cheat s)))"
  have "unat (vm_index s + 1) + ?k \<le> codesCount (cheat s)"
    using skip_to_end_le [of "drop (unat (vm_index s + 1)) (codes (cheat s))"] I(2) assms(1) by simp
  then have "unat (vm_index s + 1 + of_nat ?k) = unat (vm_index s) + 1 + ?k"
    using assms I(2) by (simp add: unat_word_ariths unat_of_nat)
  then have "vm_index s \<le> vm_index s + 1 + of_nat ?k" "vm_index s + 1 + of_nat ?k \<le> 300"
    using \<open>unat (vm_index s + 1) + ?k \<le> codesCount (cheat s)\<close> I(2) assms
    by (simp_all add: word_le_nat_alt)
  then show ?thesis by (simp add: flow_def break_loop_def Let_def)
qed

lemma flow_D012:
  assumes "unat (vm_index s) < codesCount (cheat s)" and "codesCount (cheat s) \<le> 127"
  shows "outcome_cont (flow s) (op_D0 arg1 s)" "outcome_cont (flow s) (op_D1 s)"
    "outcome_cont (flow s) (op_D2 arg1 s)" "outcome_cont (flow s) (op_C subcode arg1 s)"
proof -
  note I = index_small(1) [OF assms]
  have same: "flow s s" "flow s (pop_if s)" "flow s (clear_all s)"
    using I by (auto intro!: flow_ctl simp: clear_all_def)
  show "outcome_cont (flow s) (op_D0 arg1 s)"
    using same flow_count_loop(1) [OF _ I] flow_break [OF assms] by (simp add: op_D0_def)
  have "flow s (count_loop (s\<lparr>ifStack := storedStack s, ifCount := storedIfCount s\<rparr>))" if "loopCount s > 0"
    using that I by (intro flow_trans_ctl [OF _ flow_count_loop(1)]) simp_all
  then show "outcome_cont (flow s) (op_D1 s)" using same by (simp add: op_D1_def)
  have "vm_index s \<le> of_nat (codesCount (cheat s))" "(of_nat (codesCount (cheat s)) :: u32) \<le> 300"
    using assms by (simp_all add: word_le_nat_alt unat_of_nat)
  then have "flow s (s\<lparr>vm_index := of_nat (codesCount (cheat s))\<rparr>)"
    by (simp add: flow_def)
  moreover have "flow s ((clear_all (s\<lparr>loopCount := c\<rparr>))\<lparr>loopLine := -1\<rparr>)" for c
    using I by (simp add: flow_def clear_all_def set_activeOffset_def set_activeData_def)
  ultimately show "outcome_cont (flow s) (op_D2 arg1 s)"
    using same flow_count_loop(2) [OF _ I] by (simp add: op_D2_def Let_def)
  show "outcome_cont (flow s) (op_C subcode arg1 s)"
    using same(1) I by (simp add: op_C_def start_loop_def flow_def)
qed

lemma flow_E:
  assumes "vm_index s \<le> 127" and "unat (vm_index s) + (unat arg1 + 7) div 8 < 256"
  shows "outcome_cont (flow s) (op_E E arg0 arg1 s)"
proof -
  let ?t = "s\<lparr>typeELine := ucast (vm_index s), typeEIdx := 7\<rparr>"
  let ?loop = "typeE_loop E (skipExecution s) (code_address arg0) (unat arg1) 0 ?t"
  have i: "unat (ucast (vm_index s) :: u8) = unat (vm_index s)"
    using assms(1) by (simp add: unsigned_ucast_eq word_le_nat_alt take_bit_nat_eq_self)
  have "(typeELine ?t, typeEIdx ?t) = typeE_at (ucast (vm_index s)) 0" by (simp add: typeE_at_def)
  from typeE_line [OF this] have L: "outcome_cont (\<lambda>u. typeELine u = fst (typeE_at (ucast (vm_index s)) (unat arg1))) ?loop"
    by simp
  have C: "keeps_ctl s ?loop" by (rule ctl_typeE) simp
  have line: "unat (ucast (fst (typeE_at (ucast (vm_index s)) (unat arg1))) :: u32)
      = unat (vm_index s) + (unat arg1 + 7) div 8"
    using assms(2) i by (simp add: typeE_at_def unat_word_ariths unat_of_nat unsigned_ucast_eq take_bit_nat_eq_self)
  have "flow s (u\<lparr>vm_index := ucast (typeELine u)\<rparr>)"
    if "ctl u = ctl s" "typeELine u = fst (typeE_at (ucast (vm_index s)) (unat arg1))" for u
    using that line assms(2) by (simp add: flow_def ctl_def word_le_nat_alt)
  then show ?thesis
    using L C unfolding op_E_def by (cases ?loop) (auto simp: and_then_def)
qed

lemma flow_FE:
  assumes "unat (vm_index s) < codesCount (cheat s)" and "codesCount (cheat s) \<le> 127"
  shows "outcome_cont (flow s) (op_FE E arg0 arg1 s)"
proof -
  note I = index_small(1) [OF assms]
  let ?z = "arg0 AND 0xFFFF"
  let ?n = "vm_index s + ?z div 8 + (if ?z AND 7 \<noteq> 0 then 1 else 0)"
  have "vm_index s \<le> ?n \<and> ?n \<le> 300" if g: "?z + vm_index s < of_nat (codesCount (cheat s))"
  proof -
    have "?z \<le> 0xFFFF" by (rule word_and_le1)
    then have z: "unat ?z \<le> 0xFFFF" by (simp add: word_le_nat_alt)
    have "unat (?z + vm_index s) = unat ?z + unat (vm_index s)"
      using z assms by (simp add: unat_word_ariths)
    then have "unat ?z + unat (vm_index s) < codesCount (cheat s)"
      using g assms(2) by (simp add: word_less_nat_alt unat_of_nat)
    moreover have "unat (?z div 8) = unat ?z div 8" by (simp add: unat_div)
    ultimately have "unat ?n = unat (vm_index s) + unat ?z div 8 + (if ?z AND 7 \<noteq> 0 then 1 else 0)"
      using assms(2) by (simp add: unat_word_ariths)
    moreover have "unat ?z div 8 \<le> unat ?z" by (rule div_le_dividend)
    ultimately show ?thesis
      using \<open>unat ?z + unat (vm_index s) < codesCount (cheat s)\<close> assms(2)
      by (simp add: word_le_nat_alt split: if_splits)
  qed
  moreover have "flow s (push_if b s)" for b using I by (intro flow_ctl) simp_all
  moreover have "flow s (push_if b (s\<lparr>vm_index := i\<rparr>))" if "vm_index s \<le> i \<and> i \<le> 300" for b i
    using that by (simp add: flow_def push_if_def)
  ultimately show ?thesis
    by (simp add: op_FE_def Let_def cont_on_read)
qed

lemma flow_op:
  assumes i: "unat (vm_index s) < codesCount (cheat s)" and a: "addressable (codes (cheat s))"
    and w: "code_words s = (arg0, arg1)"
  shows "outcome_cont (flow s) (cheat_op E arg0 arg1 s)"
proof -
  have c: "codesCount (cheat s) \<le> 127" using a by (simp add: addressable_def)
  note I = index_small(1) [OF i c]
  have k: "outcome_cont (flow s) r" if "keeps_ctl s r" for r
    using that by (rule outcome_cont_mono) (use I in \<open>simp add: flow_ctl\<close>)
  have D: "outcome_cont (flow s) (op_D E subcode codeArg arg1 s)" for subcode codeArg
    by (simp add: op_D_def flow_D012 [OF i c] k ctl_register_ops ctl_store_ops ctl_load_ops ctl_input_ops ctl_DF)
  have F: "outcome_cont (flow s) (op_F E subcode arg0 arg1 s)" for subcode
    by (simp add: op_F_def k ctl_F_memory ctl_F_register ctl_FC flow_FE [OF i c])
  have E: "outcome_cont (flow s) (op_E E arg0 arg1 s)" if "drop_bit 28 arg0 AND 0x0F = 0xE"
  proof (rule flow_E)
    show "vm_index s \<le> 127" using i c by (simp add: word_le_nat_alt)
    show "unat (vm_index s) + (unat arg1 + 7) div 8 < 256"
      using that a i w by (auto simp: addressable_def line_type_def code_words_def Let_def)
  qed
  show ?thesis
    using E by (simp add: cheat_op_def Let_def k ctl_plain ctl_conditionals flow_D012 [OF i c] D F)
qed

section \<open>Termination\<close>

text \<open>While a loop is open, its line is before the current one.\<close>

definition loop_ok :: "'p cheat_vm \<Rightarrow> bool" where
  "loop_ok s \<longleftrightarrow> loopLine s = -1
     \<or> unat (loopLine s) < codesCount (cheat s) \<and> unat (loopLine s) < unat (vm_index s)"

text \<open>The first line that can still run.\<close>

definition first_line :: "'p cheat_vm \<Rightarrow> nat" where
  "first_line s = (if loopLine s = -1 then unat (vm_index s) else unat (loopLine s) + 1)"

definition cheat_measure :: "'p cheat_vm \<Rightarrow> nat \<times> nat \<times> nat" where
  "cheat_measure s = (codesCount (cheat s) - first_line s, unat (loopCount s),
                      codesCount (cheat s) - unat (vm_index s))"

lemma unat_scast_small: "unat (w :: u8) < 127 \<Longrightarrow> unat (scast w :: u32) = unat w"
proof -
  assume "unat w < 127"
  then have b: "uint w < 127" by (metis of_nat_unat of_nat_less_iff of_nat_numeral)
  have "signed_take_bit 7 (uint w) = uint w"
  proof (rule signed_take_bit_int_eq_self)
    have "- (2 ^ 7) \<le> (0 :: int)" by simp
    also have "0 \<le> uint w" by simp
    finally show "- (2 ^ 7) \<le> uint w" .
    have "(127 :: int) < 2 ^ 7" by simp
    with b show "uint w < 2 ^ 7" by (rule less_trans)
  qed
  then have "sint w = uint w" unfolding sint_uint by simp
  then have "uint (scast w :: u32) = uint w mod 2 ^ 32"
    by (simp only: scast_eq uint_word_of_int) simp
  then have "uint (scast w :: u32) = uint w" using b uint_ge_0 [of w] by simp
  then show ?thesis by (metis of_nat_unat of_nat_eq_iff)
qed
lemma flow_next:
  assumes i: "unat (vm_index s) < codesCount (cheat s)" and c: "codesCount (cheat s) \<le> 127"
    and l: "loop_ok s" and f: "flow s t"
  shows "loop_ok (next_line t) \<and> codes (cheat (next_line t)) = codes (cheat s)
     \<and> (cheat_measure (next_line t), cheat_measure s) \<in> less_than <*lex*> less_than <*lex*> less_than"
proof -
  have codes: "codes (cheat t) = codes (cheat s)" using f by (auto simp: flow_def)
  have first: "first_line s \<le> unat (vm_index s)"
    using l by (auto simp: loop_ok_def first_line_def)
  have idx: "unat (ucast (vm_index s) :: u8) = unat (vm_index s)"
    using i c by (simp add: unsigned_ucast_eq take_bit_nat_eq_self)
  have "unat (-1 :: u8) = 255" by (simp add: unsigned_minus_1_eq_mask mask_eq_exp_minus_1)
  then have idx1: "ucast (vm_index s) \<noteq> (-1 :: u8)" using idx i c by (auto simp: word_unat_eq_iff)
  consider (ahead) "vm_index s \<le> vm_index t" "vm_index t \<le> 300"
      "loopLine t = loopLine s \<and> loopCount t = loopCount s \<or> loopLine t = -1 \<or> loopLine t = ucast (vm_index s)"
    | (jump) "loopLine s \<noteq> -1" "loopLine t = loopLine s" "loopCount t < loopCount s"
      "vm_index t = scast (loopLine s)"
    using f by (auto simp: flow_def)
  then show ?thesis
  proof cases
    case ahead
    have n: "unat (vm_index t + 1) = unat (vm_index t) + 1"
      using ahead(2) by (simp add: unat_word_ariths word_le_nat_alt)
    have le: "unat (vm_index s) \<le> unat (vm_index t)" using ahead(1) by (simp add: word_le_nat_alt)
    show ?thesis
      using ahead(3) l first i c n le idx idx1 codes
      by (auto simp: loop_ok_def first_line_def cheat_measure_def next_line_def)
  next
    case jump
    have b: "unat (loopLine s) < 127" using l jump(1) c by (simp add: loop_ok_def)
    then have "unat (scast (loopLine s) :: u32) = unat (loopLine s)" by (rule unat_scast_small)
    then have n: "unat (vm_index t + 1) = unat (loopLine s) + 1"
      using b jump(4) by (simp add: unat_word_ariths)
    show ?thesis
      using jump l i n codes by (simp add: loop_ok_def first_line_def cheat_measure_def next_line_def word_less_nat_alt)
  qed
qed

lemma cheat_terminates:
  assumes "loop_ok s" and "addressable (codes (cheat s))"
  shows "\<exists>fuel r. cheat_loop fuel E s = Some r"
proof -
  have "wf (inv_image (less_than <*lex*> less_than <*lex*> less_than) (cheat_measure :: 'a cheat_vm \<Rightarrow> _))"
    by (intro wf_inv_image wf_lex_prod wf_less_than)
  then show ?thesis
    using assms
  proof (induction s rule: wf_induct_rule)
    case (less s)
    show ?case
    proof (cases "cheat_step E s")
      case (Cont u)
      then have i: "unat (vm_index s) < codesCount (cheat s)"
        by (auto simp: cheat_step_def split: if_splits)
      obtain arg0 arg1 where w: "code_words s = (arg0, arg1)" by (metis surj_pair)
      obtain t where t: "cheat_op E arg0 arg1 s = Cont t" and u: "u = next_line t"
        using Cont i w by (cases "cheat_op E arg0 arg1 s")
          (auto simp: cheat_step_def and_then_def split: if_splits)
      have "flow s t" using flow_op [OF i less.prems(2) w, of E] t by simp
      from flow_next [OF i _ less.prems(1) this] less.prems(2) u
      have "loop_ok u" "codes (cheat u) = codes (cheat s)"
        "(u, s) \<in> inv_image (less_than <*lex*> less_than <*lex*> less_than) cheat_measure"
        by (simp_all add: addressable_def)
      with less.IH [of u] less.prems(2) obtain fuel r where "cheat_loop fuel E u = Some r" by auto
      then have "cheat_loop (Suc fuel) E s = Some r" by (simp add: Cont)
      then show ?thesis by blast
    next
      case (Return b t)
      then have "cheat_loop 1 E s = Some (Return b t)" by simp
      then show ?thesis by blast
    next
      case Undefined
      then have "cheat_loop 1 E s = Some Undefined" by simp
      then show ?thesis by blast
    qed
  qed
qed

end
