(* ===== verification/Cheat_Theorems.thy ===== *)
theory Cheat_Theorems
  imports Cheat_Flow
begin

text \<open>
  The properties of the cheat engine.
\<close>

section \<open>A machine without a game\<close>

text \<open>For the witnesses: no process memory is mapped, so only the scratch page can be used.\<close>

definition page_env :: "unit cheat_env" where
  "page_env = \<lparr>svcQueryDebugProcessMemory = (\<lambda>w a. (0xD8E007F7, 0, 0, 0)),
     svcReadProcessMemory = (\<lambda>w a n. (0xD8E007F7, [])), svcWriteProcessMemory = (\<lambda>a bs w. (0xD8E007F7, w)),
     HID_PAD = (\<lambda>w. (0, w)), hidTouchRead = (\<lambda>w. ((0, 0), w)), c_R_SUCCEEDED = (\<lambda>r. 0 \<le> sint r),
     MEMSTATE_FREE = 0, float_add = (\<lambda>a b. a), float_mul = (\<lambda>a b. a), float_div = (\<lambda>a b. a),
     float_to_u32 = (\<lambda>a. a), u32_to_float = (\<lambda>a. a), memory_behind = (\<lambda>_. 0)\<rparr>"

definition page_vm :: "u64 list \<Rightarrow> unit cheat_vm" where
  "page_vm cs = \<lparr>vm_index = 0, offset1 = 0, offset2 = 0, data1 = 0, data2 = 0, activeOffset_bit = False,
     activeData_bit = False, conditionalMode = 0, data1Mode = False, data2Mode = False, floatMode = False,
     typeELine = 0, typeEIdx = 0, loopLine = -1, loopCount = 0, ifStack = 0, storedStack = 0, ifCount = 0,
     storedIfCount = 0, cheatPage = (\<lambda>_. 0), cheatRngState = 0,
     cheat = \<lparr>cd_active = True, cd_valid = True, hasKeyCode = False, activeStorage_bit = False, cd_name = [],
              storage1 = 0, storage2 = 0, codes = cs\<rparr>, world = ()\<rparr>"

lemma reset_page_vm [simp]: "reset_state (page_vm cs) = page_vm cs"
  by (simp add: reset_state_def page_vm_def)

section \<open>Safety\<close>





lemma step_line:
  assumes "unat (vm_index s) < codesCount (cheat s)"
    and "ucast (drop_bit 32 (codes (cheat s) ! unat (vm_index s))) = hi"
    and "ucast (codes (cheat s) ! unat (vm_index s)) = lo" and "hi \<noteq> 0 \<or> lo \<noteq> 0"
  shows "cheat_step E s = and_then (cheat_op E hi lo s) (\<lambda>s. Cont (next_line s))"
  using assms by (auto simp: cheat_step_def code_words_def Let_def)

lemma step_end: "codesCount (cheat s) \<le> unat (vm_index s) \<Longrightarrow> cheat_step E s = Return True s"
  by (simp add: cheat_step_def)

text \<open>The two-line cheat that sets the offset to \<open>a\<close> and stores \<open>0xABCD\<close> there.\<close>

lemma store_run:
  assumes "codes (cheat s) = [c, 0x100000000000ABCD]" and "vm_index s = 0" and "ifStack s = 0"
    and "activeOffset_bit s = False"
    and "ucast (drop_bit 32 c) = (0xD3000000 :: u32)" and "ucast c = a"
    and w: "Cheat_Write E a 1 [0xCD, 0xAB] (s\<lparr>offset1 := a, vm_index := 1\<rparr>) = (True, t)"
    and "cheat t = cheat s" and "vm_index t = 1"
  shows "cheat_loop 3 E s = Some (Return True (next_line t))"
proof -
  let ?u = "s\<lparr>offset1 := a, vm_index := 1\<rparr>"
  have "cheat_op E 0xD3000000 a s = Cont (s\<lparr>offset1 := a\<rparr>)"
    using assms(3) by (simp add: cheat_op_def op_D_def op_D3_def skipExecution_def)
  then have 1: "cheat_step E s = Cont ?u"
    using assms by (subst step_line [of s "0xD3000000" a]) (simp_all add: and_then_def next_line_def)
  have "bytes16 0xABCD = [0xCD, 0xAB]" by (simp add: bytes16_def)
  then have "cheat_op E 0x10000000 0xABCD ?u = on_write (Cheat_Write E a 1 [0xCD, 0xAB] ?u) Cont"
    using assms(3,4) by (simp add: cheat_op_def op_1_def skipExecution_def code_address_def Cheat_Write16_def
        activeOffset_def)
  then have 2: "cheat_step E ?u = Cont (next_line t)"
    using assms by (subst step_line [of ?u "0x10000000" "0xABCD"])
      (simp_all add: and_then_def on_write_def next_line_def)
  have 3: "cheat_step E (next_line t) = Return True (next_line t)"
    using assms by (intro step_end) (simp add: next_line_def)
  show ?thesis by (simp add: numeral_3_eq_3 1 2 3)
qed

lemma store_run_page:
  assumes "ucast (drop_bit 32 c) = (0xD3000000 :: u32)" and "ucast c = a"
    and "a \<ge> 0x01E81000" and "a + 1 < 0x01E82000"
  shows "\<exists>t. Cheat_ApplyCheat 3 page_env (page_vm [c, 0x100000000000ABCD]) = Some (Return True t)
    \<and> cheatPage t = page_store (a - 0x01E81000) [0xCD, 0xAB] (\<lambda>_. 0)"
proof -
  let ?s = "page_vm [c, 0x100000000000ABCD]"
  let ?t = "?s\<lparr>offset1 := a, vm_index := 1, cheatPage := page_store (a - 0x01E81000) [0xCD, 0xAB] (\<lambda>_. 0)\<rparr>"
  have "cheat_loop 3 page_env ?s = Some (Return True (next_line ?t))"
    by (rule store_run [OF _ _ _ _ assms(1,2)]) (use assms(3,4) in \<open>simp_all add: page_vm_def Cheat_Write_def\<close>)
  then show ?thesis by (simp add: Cheat_ApplyCheat_def next_line_def)
qed


text \<open>The bounds check of the scratch page adds without looking at the wrap-around: a 16-bit
  or 32-bit write whose last byte is past address 0xFFFFFFFF passes it, reports success and
  stores outside the page, at offset 0xFE17EFFF from its start for address 0xFFFFFFFF. A cheat
  of two lines does this.\<close>

theorem page_check_wraps:
  "Cheat_Write E 0xFFFFFFFF 1 [b, c] s
     = (True, s\<lparr>cheatPage := (cheatPage s)(0xFE17EFFF := b, 0xFE17F000 := c)\<rparr>)
   \<and> Cheat_Write E 0xFFFFFFFD 3 [b, c, d, e] s
     = (True, s\<lparr>cheatPage := (cheatPage s)(0xFE17EFFD := b, 0xFE17EFFE := c, 0xFE17EFFF := d, 0xFE17F000 := e)\<rparr>)
   \<and> (\<exists>t. Cheat_ApplyCheat 3 page_env (page_vm [0xD3000000FFFFFFFF, 0x100000000000ABCD]) = Some (Return True t)
        \<and> cheatPage t = (\<lambda>_. 0)(0xFE17EFFF := 0xCD, 0xFE17F000 := 0xAB))"
  using store_run_page [of "0xD3000000FFFFFFFF" "0xFFFFFFFF"] by (auto simp: Cheat_Write_def)

section \<open>Termination\<close>

lemma cheat_loop_more: "cheat_loop fuel E s = Some r \<Longrightarrow> fuel \<le> fuel' \<Longrightarrow> cheat_loop fuel' E s = Some r"
proof (induction fuel arbitrary: s fuel')
  case (Suc fuel)
  then obtain f where f: "fuel' = Suc f" "fuel \<le> f" by (cases fuel') auto
  with Suc show ?case by (cases "cheat_step E s") auto
qed simp

text \<open>C18. The interpreter ends on every cheat of at most 127 lines whose blocks of bytes stay
  within the lines an 8-bit number can name, whatever the memory, the input and the loop
  counts (up to \<open>2 ^ 32 - 1\<close> rounds) are, and more fuel gives the same result.\<close>

theorem cheat_run_ends:
  assumes "addressable (codes (cheat s))"
  shows "\<exists>r n. \<forall>fuel \<ge> n. Cheat_ApplyCheat fuel E s = Some r"
proof -
  have "loop_ok (reset_state s)" "codes (cheat (reset_state s)) = codes (cheat s)"
    by (simp_all add: loop_ok_def reset_state_def)
  then obtain n r where "cheat_loop n E (reset_state s) = Some r"
    using cheat_terminates [of "reset_state s" E] assms by auto
  then have "\<forall>fuel \<ge> n. Cheat_ApplyCheat fuel E s = Some r"
    by (auto simp: Cheat_ApplyCheat_def intro: cheat_loop_more)
  then show ?thesis by blast
qed

lemma cheat_run_ends_witness:
  "\<exists>r n. \<forall>fuel \<ge> n. Cheat_ApplyCheat fuel page_env
     (page_vm [0xD300000001E81000, 0xC0000000FFFFFFFF, 0xD800000000000000, 0xD100000000000000]) = Some r"
proof (rule cheat_run_ends)
  have no_block: "addressable cs" if "length cs \<le> 127" "\<forall>c \<in> set cs. line_type c \<noteq> 0xE" for cs
    using that by (auto simp: addressable_def)
  have "\<forall>c \<in> set [0xD300000001E81000, 0xC0000000FFFFFFFF, 0xD800000000000000, 0xD100000000000000]. line_type c \<noteq> 0xE"
    by (simp add: line_type_def)
  then show "addressable (codes (cheat (page_vm [0xD300000001E81000, 0xC0000000FFFFFFFF, 0xD800000000000000, 0xD100000000000000])))"
    by (intro no_block) (simp_all add: page_vm_def)
qed

section \<open>Blocks of bytes\<close>

lemma page_store_at:
  assumes "length bs \<le> 2 ^ 32" and "k < length bs"
  shows "page_store i bs page (i + of_nat k) = bs ! k"
  using assms
proof (induction bs arbitrary: i page k)
  case (Cons b bs)
  show ?case
  proof (cases k)
    case 0
    have "page_store (i + 1) bs (page(i := b)) i = (page(i := b)) i"
    proof (rule page_store_other)
      fix m assume "m < length bs"
      then have "(of_nat (Suc m) :: u32) \<noteq> 0" using Cons.prems(1) by (simp only: word_of_nat_eq_0_iff) (auto dest: dvd_imp_le)
      then show "i \<noteq> i + 1 + of_nat m" by (simp add: add.assoc)
    qed
    with 0 show ?thesis by simp
  next
    case (Suc m)
    then show ?thesis using Cons.IH [of m "i + 1"] Cons.prems by (simp add: add.assoc)
  qed
qed simp

text \<open>Byte \<open>k\<close> of the block after line \<open>line\<close>: the upper word of each code line comes first.\<close>

definition block_byte :: "'p cheat_env \<Rightarrow> 'p cheat_vm \<Rightarrow> u8 \<Rightarrow> nat \<Rightarrow> u8" where
  "block_byte E s line k =
     ucast (drop_bit (typeEMapping ! (k mod 8)) (code_at E s (unat (line + 1 + of_nat (k div 8)))))"

lemma block_byte_cong: "cheat t = cheat s \<Longrightarrow> block_byte E t line k = block_byte E s line k"
  by (simp add: block_byte_def code_at_def)

lemma next_typeE:
  assumes "(typeELine t, typeEIdx t) = typeE_at line m"
  shows "Cheat_GetNextTypeE E t = (block_byte E t line m,
           t\<lparr>typeELine := fst (typeE_at line (Suc m)), typeEIdx := snd (typeE_at line (Suc m))\<rparr>)"
proof -
  obtain v u where g: "Cheat_GetNextTypeE E t = (v, u)" by (metis surj_pair)
  from next_typeE_at [OF assms g]
  have u: "typeELine u = fst (typeE_at line (Suc m))" "typeEIdx u = snd (typeE_at line (Suc m))"
    by (metis fst_conv, metis snd_conv)
  have u': "u = t\<lparr>typeELine := typeELine u, typeEIdx := typeEIdx u\<rparr>"
    and v: "v = ucast (drop_bit (typeEMapping ! unat (typeEIdx u)) (code_at E t (unat (typeELine u))))"
    using g by (auto simp: Cheat_GetNextTypeE_def Let_def code_at_def split: if_splits)
  have "(Suc m + 7) div 8 = Suc (m div 8)" "(Suc m + 7) mod 8 = m mod 8" by presburger+
  then have "fst (typeE_at line (Suc m)) = line + 1 + of_nat (m div 8)"
    "unat (snd (typeE_at line (Suc m))) = m mod 8"
    by (simp_all add: typeE_at_def unat_of_nat)
  then have "v = block_byte E t line m" unfolding v u block_byte_def by simp
  then show ?thesis using g u u' by simp
qed

text \<open>A block whose addresses all lie in the scratch page.\<close>

lemma typeE_page:
  assumes "(typeELine t, typeEIdx t) = typeE_at line m"
    and "0x01E81000 \<le> unat (activeOffset t + b + i)" and "unat (activeOffset t + b + i) + n \<le> 0x01E82000"
  shows "typeE_loop E False b n i t = Cont (t\<lparr>
      typeELine := fst (typeE_at line (m + n)), typeEIdx := snd (typeE_at line (m + n)),
      cheatPage := page_store (activeOffset t + b + i - 0x01E81000) (map (block_byte E t line) [m..<m + n]) (cheatPage t)\<rparr>)"
  using assms
proof (induction n arbitrary: i t m)
  case 0
  then have "typeELine t = fst (typeE_at line m)" "typeEIdx t = snd (typeE_at line m)"
    by (metis fst_conv, metis snd_conv)
  then show ?case by simp
next
  case (Suc n)
  let ?a = "activeOffset t + b + i"
  let ?u = "t\<lparr>typeELine := fst (typeE_at line (Suc m)), typeEIdx := snd (typeE_at line (Suc m))\<rparr>"
  let ?w = "?u\<lparr>cheatPage := (cheatPage t)(?a - 0x01E81000 := block_byte E t line m)\<rparr>"
  note g = next_typeE [OF Suc.prems(1), of E]
  have addr: "activeOffset ?u + (b + i) = ?a" by (simp add: activeOffset_def add.assoc)
  have "?a \<ge> 0x01E81000" "?a < 0x01E82000"
    using Suc.prems(2,3) by (simp_all add: word_le_nat_alt word_less_nat_alt)
  then have wr: "Cheat_Write8 E (b + i) (block_byte E t line m) ?u = (True, ?w)"
    unfolding Cheat_Write8_def addr by (simp add: Cheat_Write_def)
  have nx: "activeOffset ?w + b + (i + 1) = ?a + 1" by (simp add: activeOffset_def add.assoc)
  have next_addr: "unat (x + 1) = unat x + 1" if "unat x < 0x01E82000" for x :: u32
    using that by (simp add: unat_word_ariths(1))
  have up: "unat (?a + 1) = unat ?a + 1" by (rule next_addr) (use Suc.prems(3) in simp)
  have at: "(typeELine ?w, typeEIdx ?w) = typeE_at line (Suc m)" by simp
  have bb: "block_byte E ?w line = block_byte E t line" by (rule ext, rule block_byte_cong) simp
  have "0x01E81000 \<le> unat (activeOffset ?w + b + (i + 1))" "unat (activeOffset ?w + b + (i + 1)) + n \<le> 0x01E82000"
    unfolding nx up using Suc.prems(2,3) by simp_all
  from Suc.IH [OF at this] show ?case
    unfolding nx bb by (simp add: g wr on_write_def upt_conv_Cons add_diff_eq [symmetric] add.assoc fun_upd_def del: upt_Suc)
qed

text \<open>The block line on a block for the scratch page.\<close>

lemma block_run:
  assumes "\<not> skipExecution s" and "addr = activeOffset s + code_address arg0"
    and "0x01E81000 \<le> unat addr" and "unat addr + unat arg1 \<le> 0x01E82000"
  shows "op_E E arg0 arg1 s = Cont (s\<lparr>
      typeELine := fst (typeE_at (ucast (vm_index s)) (unat arg1)),
      typeEIdx := snd (typeE_at (ucast (vm_index s)) (unat arg1)),
      cheatPage := page_store (addr - 0x01E81000)
        (map (block_byte E s (ucast (vm_index s))) [0..<unat arg1]) (cheatPage s),
      vm_index := ucast (fst (typeE_at (ucast (vm_index s)) (unat arg1)))\<rparr>)"
proof -
  let ?line = "ucast (vm_index s) :: u8"
  let ?s = "s\<lparr>typeELine := ?line, typeEIdx := 7\<rparr>"
  let ?bytes = "map (block_byte E s ?line) [0..<unat arg1]"
  have at: "(typeELine ?s, typeEIdx ?s) = typeE_at ?line 0" by (simp add: typeE_at_def)
  have bb: "block_byte E ?s ?line = block_byte E s ?line" by (rule ext, rule block_byte_cong) simp
  have a: "activeOffset ?s + code_address arg0 + 0 = addr" by (simp add: assms(2) activeOffset_def)
  have "typeE_loop E False (code_address arg0) (unat arg1) 0 ?s = Cont (?s\<lparr>
      typeELine := fst (typeE_at ?line (unat arg1)), typeEIdx := snd (typeE_at ?line (unat arg1)),
      cheatPage := page_store (addr - 0x01E81000) ?bytes (cheatPage s)\<rparr>)"
    using typeE_page [OF at, of "code_address arg0" 0 "unat arg1" E] assms(3,4) unfolding a bb by simp
  then show ?thesis using assms(1) by (simp add: op_E_def and_then_def)
qed



section \<open>Runs that do not end\<close>

lemma loop_forever:
  assumes "\<And>s. P s \<Longrightarrow> \<exists>t. cheat_step E s = Cont t \<and> P t" and "P s"
  shows "cheat_loop fuel E s = None"
  using assms(2)
proof (induction fuel arbitrary: s)
  case (Suc fuel)
  then obtain t where "cheat_step E s = Cont t" "P t" using assms(1) by blast
  with Suc.IH show ?case by simp
qed simp

text \<open>C20. The line number of the block instruction is a byte. A cheat of two lines whose block
  of 2040 bytes covers 255 lines brings the interpreter back to the block itself, and the run
  never ends, whatever the machine is.\<close>

theorem block_line_wraps:
  assumes "codes (cheat s) = [0xD300000001E81000, 0xE0000000000007F8]"
  shows "Cheat_ApplyCheat fuel E s = None"
proof -
  define P where "P u \<longleftrightarrow> vm_index u = 1 \<and> ifStack u = 0 \<and> \<not> activeOffset_bit u \<and> offset1 u = 0x01E81000
    \<and> codes (cheat u) = [0xD300000001E81000, 0xE0000000000007F8]" for u :: "'a cheat_vm"
  let ?s = "reset_state s"
  have block: "\<exists>t. cheat_step E u = Cont t \<and> P t" if "P u" for u
  proof -
    note P = that [unfolded P_def]
    have "(typeE_at 1 2040 :: u8 \<times> u8) = (0, 7)" by (simp add: typeE_at_def)
    moreover have "\<not> skipExecution u" "(0x01E81000 :: u32) = activeOffset u + code_address 0xE0000000"
      using P by (simp_all add: skipExecution_def activeOffset_def code_address_def)
    ultimately obtain t where "op_E E 0xE0000000 0x7F8 u = Cont t" "vm_index t = 0" "ifStack t = ifStack u"
      "activeOffset_bit t = activeOffset_bit u" "offset1 t = offset1 u" "cheat t = cheat u"
      using block_run [of u "0x01E81000" "0xE0000000" "0x7F8" E] P by simp
    moreover from this have "cheat_op E 0xE0000000 0x7F8 u = Cont t" by (simp add: cheat_op_def)
    ultimately show ?thesis
      using P by (subst step_line [of u "0xE0000000" "0x7F8"]) (simp_all add: P_def and_then_def next_line_def)
  qed
  have "cheat_op E 0xD3000000 0x01E81000 ?s = Cont (?s\<lparr>offset1 := 0x01E81000\<rparr>)"
    by (simp add: cheat_op_def op_D_def op_D3_def skipExecution_def reset_state_def)
  then have "cheat_step E ?s = Cont (?s\<lparr>offset1 := 0x01E81000, vm_index := 1\<rparr>)"
    using assms by (subst step_line [of ?s "0xD3000000" "0x01E81000"])
      (simp_all add: and_then_def next_line_def reset_state_def)
  moreover have "P (?s\<lparr>offset1 := 0x01E81000, vm_index := 1\<rparr>)"
    using assms by (simp add: P_def reset_state_def)
  ultimately have "cheat_loop fuel E ?s = None" if "fuel = Suc f" for f
    using that loop_forever [of P E, OF block] by simp
  then show ?thesis by (cases fuel) (simp_all add: Cheat_ApplyCheat_def)
qed

lemma block_line_wraps_witness:
  "Cheat_ApplyCheat 1000000 page_env (page_vm [0xD300000001E81000, 0xE0000000000007F8]) = None"
  by (rule block_line_wraps) (simp add: page_vm_def)

section \<open>Copy, search and random numbers\<close>

lemma read8_page:
  assumes "0x01E81000 \<le> unat (activeOffset s + a)" and "unat (activeOffset s + a) < 0x01E82000"
  shows "Cheat_Read8 E a s = Some (cheatPage s (activeOffset s + a - 0x01E81000))"
  using assms by (simp add: Cheat_Read8_def Cheat_Read_def page_load_def word_le_nat_alt word_less_nat_alt)

lemma write8_page:
  assumes "0x01E81000 \<le> unat (activeOffset s + a)" and "unat (activeOffset s + a) < 0x01E82000"
  shows "Cheat_Write8 E a v s
    = (True, s\<lparr>cheatPage := (cheatPage s)(activeOffset s + a - 0x01E81000 := v)\<rparr>)"
  using assms by (simp add: Cheat_Write8_def Cheat_Write_def word_le_nat_alt word_less_nat_alt)

text \<open>The copy instruction moves neither of its two offsets: whatever length it is given, it
  copies the one byte at the second offset to the first.\<close>

theorem copy_moves_one_byte:
  assumes "\<not> skipExecution s" and "0 < n"
    and "0x01E81000 \<le> unat (offset1 s)" and "unat (offset1 s) < 0x01E82000"
    and "0x01E81000 \<le> unat (offset2 s)" and "unat (offset2 s) < 0x01E82000"
  shows "op_FC E n s = Cont (s\<lparr>cheatPage :=
           (cheatPage s)(offset1 s - 0x01E81000 := cheatPage s (offset2 s - 0x01E81000))\<rparr>)"
proof -
  let ?copied = "\<lambda>t :: 'a cheat_vm. t\<lparr>activeOffset_bit := False, cheatPage :=
      (cheatPage t)(offset1 t - 0x01E81000 := cheatPage t (offset2 t - 0x01E81000))\<rparr>"
  have round: "copy_loop E (Suc k) t = copy_loop E k (?copied t)"
    if "offset1 t = offset1 s" "offset2 t = offset2 s" for k t
    using assms(3-6) that
    by (simp add: Let_def on_read_def on_write_def read8_page write8_page activeOffset_def)
  have "copy_loop E k (?copied s) = Cont (?copied s)" for k
  proof (induction k)
    case (Suc k)
    have "?copied (?copied s) = ?copied s" by simp
    with round [of "?copied s" k] Suc.IH show ?case by (simp add: fun_upd_def del: copy_loop.simps)
  qed simp
  moreover obtain k where "unat n = Suc k" using assms(2) by (metis not0_implies_Suc unat_eq_zero word_less_nat_alt not_less_zero)
  ultimately have "copy_loop E (unat n) s = Cont (?copied s)" using round [of s k] by simp
  then show ?thesis using assms(1) by (simp add: op_FC_def and_then_def)
qed

lemma copy_moves_one_byte_witness:
  "\<exists>t. op_FC page_env 0x10 ((page_vm [])\<lparr>offset1 := 0x01E81000, offset2 := 0x01E81800,
      cheatPage := (\<lambda>i. ucast i)\<rparr>) = Cont t \<and> cheatPage t 1 = 1"
  by (subst copy_moves_one_byte) (simp_all add: skipExecution_def page_vm_def)

lemma read8_index: "Cheat_Read8 E a (s\<lparr>vm_index := i\<rparr>) = Cheat_Read8 E a s"
proof -
  have "activeOffset (s\<lparr>vm_index := i\<rparr>) = activeOffset s" by (simp add: activeOffset_def)
  moreover have "Cheat_IsValidAddress E b n (s\<lparr>vm_index := i\<rparr>) = Cheat_IsValidAddress E b n s" for b n
    by (simp add: Cheat_IsValidAddress_def)
  ultimately show ?thesis unfolding Cheat_Read8_def Cheat_Read_def by simp
qed

lemma match_at_readable:
  assumes "\<And>k. k < N \<Longrightarrow> Cheat_Read8 E (of_nat k) s = Some (mem k)" and "i + length pat \<le> N"
  shows "match_at E s (of_nat i) pat = Some (\<forall>j < length pat. mem (i + j) = pat ! j)"
  using assms(2)
proof (induction pat arbitrary: i)
  case (Cons b bs)
  have "(\<forall>j < length (b # bs). mem (i + j) = (b # bs) ! j)
      \<longleftrightarrow> mem i = b \<and> (\<forall>j < length bs. mem (Suc i + j) = bs ! j)"
    by (simp only: length_Cons All_less_Suc2) simp
  moreover have "match_at E s (of_nat (Suc i)) bs = Some (\<forall>j < length bs. mem (Suc i + j) = bs ! j)"
    using Cons.prems by (intro Cons.IH) simp
  ultimately show ?case using assms(1) [of i] Cons.prems by (simp add: add.commute)
qed simp

lemma search_loop_readable:
  assumes "\<And>k. k < N \<Longrightarrow> Cheat_Read8 E (of_nat k) s = Some (mem k)" and "i + n + length pat \<le> N"
  shows "search_loop E s pat n (of_nat i) = Some (\<exists>k < n. \<forall>j < length pat. mem (i + k + j) = pat ! j)"
  using assms(2)
proof (induction n arbitrary: i)
  case (Suc n)
  let ?here = "\<forall>j < length pat. mem (i + j) = pat ! j"
  have split: "(\<exists>k < Suc n. \<forall>j < length pat. mem (i + k + j) = pat ! j)
      \<longleftrightarrow> ?here \<or> (\<exists>k < n. \<forall>j < length pat. mem (Suc i + k + j) = pat ! j)"
    by (simp only: Ex_less_Suc2) simp
  let ?later = "\<exists>k < n. \<forall>j < length pat. mem (Suc i + k + j) = pat ! j"
  have *: "search_loop E s pat (Suc n) (of_nat i) = Some (h \<or> l)"
    if "match_at E s (of_nat i) pat = Some h" "search_loop E s pat n (of_nat (Suc i)) = Some l" for h l
    using that by (cases h) (simp_all add: add.commute)
  show ?case unfolding split
  proof (rule *)
    show "match_at E s (of_nat i) pat = Some ?here"
      using match_at_readable [of N E s mem i pat] assms(1) Suc.prems by simp
    show "search_loop E s pat n (of_nat (Suc i)) = Some ?later" using Suc.prems by (intro Suc.IH) simp
  qed
qed simp

text \<open>A search of readable memory opens a conditional that holds exactly if the pattern is
  found at one of the first \<open>arg1 - size\<close> positions, and the run goes on after the pattern: the
  last position at which the pattern would still fit is never looked at.\<close>

theorem search_finds:
  assumes "\<not> skipExecution s" and "size16 = arg0 AND 0xFFFF" and "size16 \<le> arg1"
    and "size16 + vm_index s < of_nat (codesCount (cheat s))"
    and readable: "\<And>k. k < unat arg1 \<Longrightarrow> Cheat_Read8 E (of_nat k) s = Some (mem k)"
  shows "op_FE E arg0 arg1 s = Cont (push_if
    (\<not> (\<exists>k < unat arg1 - unat size16. \<forall>j < unat size16. mem (k + j) = searchData s (unat size16) ! j))
    (s\<lparr>vm_index := vm_index s + size16 div 8 + (if size16 AND 7 \<noteq> 0 then 1 else 0)\<rparr>))"
proof -
  let ?s = "s\<lparr>vm_index := vm_index s + size16 div 8 + (if size16 AND 7 \<noteq> 0 then 1 else 0)\<rparr>"
  let ?pat = "searchData s (unat size16)"
  have len: "length ?pat = unat size16" by (simp add: searchData_def)
  have sub: "unat (arg1 - size16) = unat arg1 - unat size16" using assms(3) by (rule unat_sub)
  have r: "Cheat_Read8 E (of_nat k) ?s = Some (mem k)" if "k < unat arg1" for k
    using readable [OF that] by (simp only: read8_index)
  have "0 + (unat arg1 - unat size16) + length ?pat \<le> unat arg1"
    using assms(3) by (simp add: len word_le_nat_alt)
  from search_loop_readable [OF r this]
  have "search_loop E ?s ?pat (unat (arg1 - size16)) 0
      = Some (\<exists>k < unat arg1 - unat size16. \<forall>j < unat size16. mem (k + j) = ?pat ! j)"
    by (simp add: len sub)
  then show ?thesis using assms(1,3,4) by (simp add: op_FE_def Let_def on_read_def flip: assms(2))
qed

text \<open>Searching \<open>22 33\<close> in \<open>11 22 33\<close>: found with a range of 4 bytes, but not with the range of 3
  bytes that the pattern ends.\<close>

lemma search_finds_witness:
  "\<exists>t u. op_FE page_env 0xFE000002 4 ((page_vm [0xFE00000200000004, 0x3322, 0x1, 0x1])\<lparr>offset1 := 0x01E81000,
        cheatPage := (\<lambda>i. (ucast i + 1) * 0x11)\<rparr>) = Cont t \<and> \<not> skipExecution t
     \<and> op_FE page_env 0xFE000002 3 ((page_vm [0xFE00000200000003, 0x3322, 0x1, 0x1])\<lparr>offset1 := 0x01E81000,
        cheatPage := (\<lambda>i. (ucast i + 1) * 0x11)\<rparr>) = Cont u \<and> skipExecution u"
proof -
  define S where "S c = (page_vm [c, 0x3322, 0x1, 0x1])\<lparr>offset1 := 0x01E81000, cheatPage := (\<lambda>i. (ucast i + 1) * 0x11)\<rparr>"
    for c
  define mem where "mem k = [0x11, 0x22, 0x33, 0x44 :: u8] ! k" for k
  have r: "Cheat_Read8 page_env (of_nat k) (S c) = Some (mem k)" if less: "k < 4" for k c
  proof -
    have "unat (0x01E81000 + of_nat k :: u32) = 0x01E81000 + k" using less by (simp add: unat_word_ariths unat_of_nat)
    then have "Cheat_Read8 page_env (of_nat k) (S c) = Some (cheatPage (S c) (of_nat k))"
      using less by (subst read8_page) (simp_all add: activeOffset_def page_vm_def S_def)
    moreover consider "k = 0" | "k = 1" | "k = 2" | "k = 3" using less by linarith
    then have "cheatPage (S c) (of_nat k) = mem k" by cases (simp_all add: S_def mem_def)
    ultimately show ?thesis by simp
  qed
  have s: "\<not> skipExecution (S c)" "vm_index (S c) = 0" "codesCount (cheat (S c)) = 4" "searchData (S c) 2 = [0x22, 0x33]" for c
    by (simp_all add: skipExecution_def page_vm_def S_def searchData_def upt_rec)
  have two: "(\<forall>j < 2. P j) \<longleftrightarrow> P 0 \<and> P 1" "(\<exists>j < 2. P j) \<longleftrightarrow> P 0 \<or> P 1" for P :: "nat \<Rightarrow> bool"
    by (auto simp: less_2_cases_iff)
  have "op_FE page_env 0xFE000002 4 (S c) = Cont (push_if
      (\<not> (\<exists>k < unat (4 :: u32) - unat (2 :: u32). \<forall>j < unat (2 :: u32). mem (k + j) = searchData (S c) (unat (2 :: u32)) ! j))
      ((S c)\<lparr>vm_index := vm_index (S c) + 2 div 8 + (if (2 :: u32) AND 7 \<noteq> 0 then 1 else 0)\<rparr>))" for c
    by (rule search_finds) (simp_all add: s r)
  then have "op_FE page_env 0xFE000002 4 (S c) = Cont (push_if False ((S c)\<lparr>vm_index := 1\<rparr>))" for c
    by (simp add: s two mem_def)
  moreover have "op_FE page_env 0xFE000002 3 (S c) = Cont (push_if
      (\<not> (\<exists>k < unat (3 :: u32) - unat (2 :: u32). \<forall>j < unat (2 :: u32). mem (k + j) = searchData (S c) (unat (2 :: u32)) ! j))
      ((S c)\<lparr>vm_index := vm_index (S c) + 2 div 8 + (if (2 :: u32) AND 7 \<noteq> 0 then 1 else 0)\<rparr>))" for c
    by (rule search_finds) (simp_all add: s r)
  then have "op_FE page_env 0xFE000002 3 (S c) = Cont (push_if True ((S c)\<lparr>vm_index := 1\<rparr>))" for c
    by (simp add: s two mem_def)
  moreover have "\<not> skipExecution (push_if False ((S c)\<lparr>vm_index := 1\<rparr>))" "skipExecution (push_if True ((S c)\<lparr>vm_index := 1\<rparr>))" for c
    by (simp_all add: push_if_def skipExecution_def page_vm_def S_def)
  ultimately show ?thesis unfolding S_def [symmetric] by blast
qed

text \<open>A random number is one of those from the lower bound up to, but not including, the upper
  one, and the generator makes one step.\<close>

theorem random_in_range:
  assumes "\<not> skipExecution s" and "f_address arg0 < arg1"
  shows "\<exists>v. op_FF arg0 arg1 s = Cont (set_activeData v (snd (Cheat_GetRandomNumber s)))
    \<and> f_address arg0 \<le> v \<and> v < arg1"
proof -
  let ?lo = "f_address arg0" and ?r = "fst (Cheat_GetRandomNumber s)"
  let ?v = "?lo + ?r mod (arg1 - ?lo)"
  have nz: "arg1 - ?lo \<noteq> 0" using assms(2) by auto
  then have "unat (?r mod (arg1 - ?lo)) < unat (arg1 - ?lo)" by (simp add: unat_mod unat_gt_0)
  also have "unat (arg1 - ?lo) = unat arg1 - unat ?lo" using assms(2) by (intro unat_sub) simp
  finally have "unat (?r mod (arg1 - ?lo)) < unat arg1 - unat ?lo" .
  then have "unat ?lo + unat (?r mod (arg1 - ?lo)) < unat arg1" by simp
  moreover have "unat arg1 < 2 ^ LENGTH(32)" by (rule unsigned_less)
  ultimately have "unat ?v = unat ?lo + unat (?r mod (arg1 - ?lo))" by (simp add: unat_word_ariths)
  then have "?lo \<le> ?v" "?v < arg1"
    using \<open>unat ?lo + unat (?r mod (arg1 - ?lo)) < unat arg1\<close> by (simp_all add: word_le_nat_alt word_less_nat_alt)
  moreover have "op_FF arg0 arg1 s = Cont (set_activeData ?v (snd (Cheat_GetRandomNumber s)))"
    using assms(1) nz by (simp add: op_FF_def Let_def split: prod.split)
  ultimately show ?thesis by blast
qed


lemma random_in_range_witness:
  "\<exists>v. op_FF 0xFF000010 0x20 (page_vm []) = Cont (set_activeData v (snd (Cheat_GetRandomNumber (page_vm []))))
    \<and> 0x10 \<le> v \<and> v < 0x20"
  using random_in_range [of "page_vm []" "0xFF000010" "0x20"]
  by (simp add: skipExecution_def page_vm_def f_address_def)

section \<open>Loops and conditionals\<close>

text \<open>The two words of a line, put together.\<close>

definition code_line :: "u32 \<Rightarrow> u32 \<Rightarrow> u64" where
  "code_line hi lo = push_bit 32 (ucast hi) OR ucast lo"

lemma code_line_words [simp]:
  "ucast (drop_bit 32 (code_line hi lo)) = hi" "ucast (code_line hi lo) = lo"
  by (rule bit_word_eqI, auto simp: code_line_def bit_simps dest: bit_imp_le_length)+

lemma step_code_line:
  assumes "unat (vm_index s) < codesCount (cheat s)" and "codes (cheat s) ! unat (vm_index s) = code_line hi lo"
    and "hi \<noteq> 0" and "cheat_op E hi lo s = Cont t"
  shows "cheat_step E s = Cont (next_line t)"
  using step_line [of s hi lo E] assms by (simp add: and_then_def)

lemma page_store_append:
  "page_store i (xs @ ys) page = page_store (i + of_nat (length xs)) ys (page_store i xs page)"
  by (induction xs arbitrary: i page) (simp_all add: algebra_simps)

lemma nth_concat_replicate:
  "i < n * length xs \<Longrightarrow> concat (replicate n xs) ! i = xs ! (i mod length xs)"
proof (induction n arbitrary: i)
  case (Suc n)
  then show ?case
    by (cases "i < length xs") (auto simp: nth_append le_mod_geq)
qed simp

lemma length_concat_replicate: "length (concat (replicate n xs)) = n * length xs"
  by (induction n) simp_all

lemma cheat_op_loop:
  "cheat_op E 0xD6000000 a s = op_D6 E 0 a s" "cheat_op E 0xD1000000 a s = op_D1 s"
  "cheat_op E 0xD0000000 a s = op_D0 a s"
  by (simp_all add: cheat_op_def op_D_def)

text \<open>The word \<open>v\<close>, \<open>k\<close> times.\<close>

definition filled :: "u32 \<Rightarrow> u32 \<Rightarrow> nat \<Rightarrow> (u32 \<Rightarrow> u8) \<Rightarrow> (u32 \<Rightarrow> u8)" where
  "filled i v k page = page_store i (concat (replicate k (bytes32 v))) page"

lemma filled_Suc: "filled i v (Suc k) page = page_store (i + 4 * of_nat k) (bytes32 v) (filled i v k page)"
proof -
  have "concat (replicate (Suc k) (bytes32 v)) = concat (replicate k (bytes32 v)) @ bytes32 v"
    by (simp add: replicate_append_same [symmetric])
  then show ?thesis
    unfolding filled_def by (simp add: page_store_append length_concat_replicate mult.commute)
qed

text \<open>The cheat that fills memory from \<open>addr\<close> on, and its states inside the loop.\<close>

definition fill_cheat :: "u32 \<Rightarrow> u32 \<Rightarrow> u32 \<Rightarrow> u64 list" where
  "fill_cheat addr v n = [code_line 0xD3000000 addr, code_line 0xD5000000 v, code_line 0xC0000000 n,
     code_line 0xD6000000 0, code_line 0xD1000000 0]"

definition in_fill :: "u32 \<Rightarrow> u32 \<Rightarrow> nat \<Rightarrow> u32 \<Rightarrow> 'p cheat_vm \<Rightarrow> 'p cheat_vm" where
  "in_fill addr v k c s = (reset_state s)\<lparr>vm_index := 3, offset1 := addr + 4 * of_nat k, data1 := v, loopLine := 2,
     loopCount := c, cheatPage := filled (addr - 0x01E81000) v k (cheatPage s)\<rparr>"

lemma fill_start:
  assumes "codes (cheat s) = fill_cheat addr v n"
  shows "cheat_loop (3 + fuel) E (reset_state s) = cheat_loop fuel E (in_fill addr v 0 n s)"
proof -
  let ?s0 = "reset_state s"
  let ?s1 = "?s0\<lparr>offset1 := addr, vm_index := 1\<rparr>"
  let ?s2 = "?s1\<lparr>data1 := v, vm_index := 2\<rparr>"
  note cs = assms [unfolded fill_cheat_def]
  have "cheat_op E 0xD3000000 addr ?s0 = Cont (?s0\<lparr>offset1 := addr\<rparr>)"
    by (simp add: cheat_op_def op_D_def op_D3_def skipExecution_def reset_state_def)
  from step_code_line [OF _ _ _ this] have 0: "cheat_step E ?s0 = Cont ?s1"
    by (simp add: cs reset_state_def next_line_def)
  have "cheat_op E 0xD5000000 v ?s1 = Cont (?s1\<lparr>data1 := v\<rparr>)"
    by (simp add: cheat_op_def op_D_def op_D5_def set_data_reg_def set_activeData_def skipExecution_def reset_state_def)
  from step_code_line [OF _ _ _ this] have 1: "cheat_step E ?s1 = Cont ?s2"
    by (simp add: cs reset_state_def next_line_def)
  have "cheat_op E 0xC0000000 n ?s2 = Cont (start_loop n ?s2)"
    by (simp add: cheat_op_def op_C_def)
  from step_code_line [OF _ _ _ this] have "cheat_step E ?s2 = Cont (next_line (start_loop n ?s2))"
    by (simp add: cs reset_state_def)
  also have "next_line (start_loop n ?s2) = in_fill addr v 0 n s"
    by (simp add: start_loop_def next_line_def in_fill_def reset_state_def filled_def)
  finally have 2: "cheat_step E ?s2 = Cont (in_fill addr v 0 n s)" .
  show ?thesis by (simp only: numeral_3_eq_3 add_Suc add_0 cheat_loop.simps outcome.case 0 1 2)
qed

lemma fill_round:
  assumes "codes (cheat s) = fill_cheat addr v n"
    and "0x01E81000 \<le> unat addr" and "unat addr + 4 * Suc k \<le> 0x01E82000"
  shows "cheat_loop (2 + fuel) E (in_fill addr v k c s)
    = cheat_loop fuel E (if 1 < c then in_fill addr v (Suc k) (c - 1) s
        else (in_fill addr v (Suc k) 0 s)\<lparr>loopLine := (if c = 1 then -1 else 2), vm_index := 5\<rparr>)"
proof -
  let ?s = "in_fill addr v k c s"
  let ?t = "(in_fill addr v (Suc k) c s)\<lparr>vm_index := 4\<rparr>"
  let ?u = "if 1 < c then in_fill addr v (Suc k) (c - 1) s
        else (in_fill addr v (Suc k) 0 s)\<lparr>loopLine := (if c = 1 then -1 else 2), vm_index := 5\<rparr>"
  note cs = assms(1) [unfolded fill_cheat_def]
  have a: "unat (addr + 4 * of_nat k) = unat addr + 4 * k"
    using assms(3) by (simp add: unat_word_ariths unat_of_nat)
  have up: "unat (x + 3) = unat x + 3" if "unat x \<le> 0x01E82000" for x :: u32
    using that by (simp add: unat_word_ariths)
  have b: "unat (addr + 4 * of_nat k + 3) = unat addr + 4 * k + 3"
    using up [of "addr + 4 * of_nat k"] a assms(3) by simp
  have "0x01E81000 \<le> addr + 4 * of_nat k" "addr + 4 * of_nat k + 3 < 0x01E82000"
    using assms(2,3) by (simp_all only: word_le_nat_alt word_less_nat_alt a b) simp_all
  then have "Cheat_Write32 E 0 v ?s = (True, ?s\<lparr>cheatPage := filled (addr - 0x01E81000) v (Suc k) (cheatPage s)\<rparr>)"
    by (simp add: Cheat_Write32_def Cheat_Write_def in_fill_def activeOffset_def reset_state_def filled_Suc algebra_simps)
  then have "cheat_op E 0xD6000000 0 ?s = Cont ((in_fill addr v (Suc k) c s)\<lparr>vm_index := 3\<rparr>)"
    by (simp add: cheat_op_loop op_D6_def skipExecution_def data_reg_def activeData_def advance_def on_write_def
        in_fill_def reset_state_def set_activeOffset_def activeOffset_def algebra_simps)
  from step_code_line [OF _ _ _ this] have 1: "cheat_step E ?s = Cont ?t"
    by (simp add: cs in_fill_def reset_state_def next_line_def)
  have "cheat_op E 0xD1000000 0 ?t = op_D1 ?t" by (rule cheat_op_loop)
  also have "op_D1 ?t = Cont (?u\<lparr>vm_index := vm_index ?u - 1\<rparr>)"
  proof -
    have "c = 0 \<or> c = 1 \<or> 1 < c"
      by (cases "unat c = 0"; cases "unat c = 1") (auto simp: word_less_nat_alt word_unat_eq_iff)
    moreover have "1 < c \<Longrightarrow> 0 < c" by (rule less_trans [of 0 1 c]) simp_all
    ultimately show ?thesis
      by (elim disjE) (auto simp: op_D1_def count_loop_def jump_to_loop_def in_fill_def reset_state_def Let_def)
  qed
  finally have "cheat_op E 0xD1000000 0 ?t = Cont (?u\<lparr>vm_index := vm_index ?u - 1\<rparr>)" .
  from step_code_line [OF _ _ _ this] have 2: "cheat_step E ?t = Cont ?u"
    by (simp add: cs in_fill_def reset_state_def next_line_def)
  show ?thesis by (simp only: numeral_2_eq_2 add_Suc add_0 cheat_loop.simps outcome.case 1 2)
qed


lemma fill_rounds:
  assumes "codes (cheat s) = fill_cheat addr v n" and "0x01E81000 \<le> unat addr"
    and "unat addr + 4 * (k + unat c) \<le> 0x01E82000" and "c \<noteq> 0"
  shows "cheat_loop (2 * unat c + fuel) E (in_fill addr v k c s)
    = cheat_loop fuel E ((in_fill addr v (k + unat c) 0 s)\<lparr>loopLine := -1, vm_index := 5\<rparr>)"
  using assms(3,4)
proof (induction "unat c" arbitrary: k c fuel)
  case 0
  then show ?case by (simp add: unat_eq_zero)
next
  case (Suc m)
  have le: "unat addr + 4 * Suc k \<le> 0x01E82000" using Suc.prems(1) Suc.hyps(2) by simp
  have e: "2 * unat c + fuel = 2 + (2 * m + fuel)" using Suc.hyps(2) by simp
  have m: "m = unat (c - 1)" using Suc.hyps(2) Suc.prems(2) by (simp add: unat_minus_one)
  note r = fill_round [OF assms(1,2) le, of "2 * m + fuel" E c]
  show ?case
  proof (cases "m = 0")
    case True
    then have "c = 1" using Suc.hyps(2) by (simp add: word_unat_eq_iff)
    then show ?thesis using r True by (simp add: e)
  next
    case False
    then have "1 < c" "c - 1 \<noteq> 0" using Suc.hyps(2) m by (auto simp: word_less_nat_alt)
    moreover have "cheat_loop (2 * unat (c - 1) + fuel) E (in_fill addr v (Suc k) (c - 1) s)
        = cheat_loop fuel E ((in_fill addr v (Suc k + unat (c - 1)) 0 s)\<lparr>loopLine := -1, vm_index := 5\<rparr>)"
      using Suc.prems(1) Suc.hyps(2) m \<open>c - 1 \<noteq> 0\<close> by (intro Suc.hyps(1)) simp_all
    moreover have "Suc k + unat (c - 1) = k + unat c" "2 * m = 2 * unat (c - 1)" using Suc.hyps(2) m by simp_all
    ultimately show ?thesis using r unfolding e by (simp only: if_True)
  qed
qed

lemma filled_at:
  assumes "4 * k \<le> 2 ^ 32"
  shows "i < 4 * k \<Longrightarrow> filled a v k page (a + of_nat i) = bytes32 v ! (i mod 4)"
    and "(\<And>i. i < 4 * k \<Longrightarrow> j \<noteq> a + of_nat i) \<Longrightarrow> filled a v k page j = page j"
proof -
  have len: "length (concat (replicate k (bytes32 v))) = 4 * k" by (simp add: length_concat_replicate)
  show "filled a v k page (a + of_nat i) = bytes32 v ! (i mod 4)" if "i < 4 * k"
    using that assms nth_concat_replicate [of i k "bytes32 v"]
    by (simp add: filled_def page_store_at len)
  show "filled a v k page j = page j" if "\<And>i. i < 4 * k \<Longrightarrow> j \<noteq> a + of_nat i"
    unfolding filled_def using that by (intro page_store_other) (simp add: len)
qed

text \<open>C24. The loop instructions: a cheat that stores a word and advances, \<open>n\<close> times, fills exactly
  the \<open>4 n\<close> bytes from its address on (a count of 0 still runs the body once), leaves the rest of
  the page alone, and ends with success within two steps a round, whatever the machine is.\<close>

theorem fill_loop:
  assumes "codes (cheat s) = fill_cheat addr v n" and "m = max 1 (unat n)"
    and "0x01E81000 \<le> unat addr" and "unat addr + 4 * m \<le> 0x01E82000"
  shows "\<exists>t. (\<forall>fuel \<ge> 2 * m + 4. Cheat_ApplyCheat fuel E s = Some (Return True t))
    \<and> (\<forall>i < 4 * m. cheatPage t (addr - 0x01E81000 + of_nat i) = bytes32 v ! (i mod 4))
    \<and> (\<forall>j. (\<forall>i < 4 * m. j \<noteq> addr - 0x01E81000 + of_nat i) \<longrightarrow> cheatPage t j = cheatPage s j)
    \<and> offset1 t = addr + 4 * of_nat m \<and> world t = world s"
proof -
  let ?t = "(in_fill addr v m 0 s)\<lparr>loopLine := (if n = 0 then 2 else -1), vm_index := 5\<rparr>"
  have "cheat_loop (2 * m + 1) E (in_fill addr v 0 n s) = cheat_loop 1 E ?t"
  proof (cases "n = 0")
    case True
    then have "m = 1" using assms(2) by simp
    then have "unat addr + 4 * Suc 0 \<le> 0x01E82000" using assms(4) by simp
    from fill_round [OF assms(1,3) this, of 1 E n] show ?thesis using True \<open>m = 1\<close> by simp
  next
    case False
    then have "m = unat n" using assms(2) by (simp add: max_def unat_gt_0 Suc_le_eq)
    then show ?thesis using fill_rounds [OF assms(1,3), of 0 n 1 E] assms(4) False by simp
  qed
  also have "cheat_step E ?t = Return True ?t"
    by (rule step_end) (simp add: in_fill_def reset_state_def assms(1) fill_cheat_def)
  then have "cheat_loop 1 E ?t = Some (Return True ?t)" by (simp only: One_nat_def cheat_loop.simps outcome.case)
  finally have "Cheat_ApplyCheat (2 * m + 4) E s = Some (Return True ?t)"
    unfolding Cheat_ApplyCheat_def using fill_start [OF assms(1), of "2 * m + 1" E]
    by (simp add: add.commute numeral_eq_Suc del: cheat_loop.simps)
  then have "\<forall>fuel \<ge> 2 * m + 4. Cheat_ApplyCheat fuel E s = Some (Return True ?t)"
    unfolding Cheat_ApplyCheat_def using cheat_loop_more by blast
  moreover have "4 * m \<le> 2 ^ 32" using assms(4) by simp
  then have "\<forall>i < 4 * m. cheatPage ?t (addr - 0x01E81000 + of_nat i) = bytes32 v ! (i mod 4)"
    "\<forall>j. (\<forall>i < 4 * m. j \<noteq> addr - 0x01E81000 + of_nat i) \<longrightarrow> cheatPage ?t j = cheatPage s j"
    by (simp_all add: in_fill_def filled_at)
  moreover have "offset1 ?t = addr + 4 * of_nat m" "world ?t = world s"
    by (simp_all add: in_fill_def reset_state_def)
  ultimately show ?thesis by blast
qed

lemma fill_loop_witness:
  "\<exists>t. Cheat_ApplyCheat 10 page_env (page_vm (fill_cheat 0x01E81000 0x11223344 3)) = Some (Return True t)
     \<and> cheatPage t 0 = 0x44 \<and> cheatPage t 11 = 0x11 \<and> cheatPage t 12 = 0"
proof -
  have "codes (cheat (page_vm (fill_cheat 0x01E81000 0x11223344 3))) = fill_cheat 0x01E81000 0x11223344 3"
    "(3 :: nat) = max 1 (unat (3 :: u32))" "0x01E81000 \<le> unat (0x01E81000 :: u32)"
    "unat (0x01E81000 :: u32) + 4 * 3 \<le> 0x01E82000"
    by (simp_all add: page_vm_def)
  from fill_loop [OF this, of page_env] obtain t where
    r: "\<forall>fuel \<ge> 2 * 3 + 4. Cheat_ApplyCheat fuel page_env (page_vm (fill_cheat 0x01E81000 0x11223344 3)) = Some (Return True t)"
    and b: "\<forall>i < 4 * 3. cheatPage t (0x01E81000 - 0x01E81000 + of_nat i) = bytes32 0x11223344 ! (i mod 4)"
    and o: "\<forall>j. (\<forall>i < 4 * 3. j \<noteq> 0x01E81000 - 0x01E81000 + of_nat i)
      \<longrightarrow> cheatPage t j = cheatPage (page_vm (fill_cheat 0x01E81000 0x11223344 3)) j"
    by blast
  have "cheatPage t 0 = 0x44" "cheatPage t 11 = 0x11"
    using b [rule_format, of 0] b [rule_format, of 11] by (simp_all add: bytes32_def)
  moreover have "(12 :: u32) \<noteq> of_nat i" if "i < 12" for i
    using that by (auto simp: word_unat_eq_iff unat_of_nat)
  then have "cheatPage t 12 = 0" using o [rule_format, of 12] by (simp add: page_vm_def)
  moreover have "Cheat_ApplyCheat 10 page_env (page_vm (fill_cheat 0x01E81000 0x11223344 3)) = Some (Return True t)"
    using r by simp
  ultimately show ?thesis by blast
qed

text \<open>The lines that do nothing while execution is skipped: the writes, the loads, the register
  instructions and the arithmetic.\<close>

definition inert_line :: "u32 \<Rightarrow> bool" where
  "inert_line hi \<longleftrightarrow> hi \<noteq> 0 \<and> hi \<noteq> 0xF0F00000 \<and>
     (let code = drop_bit 28 hi AND 0x0F; subcode = drop_bit 24 hi AND 0x0F in
      code \<in> {0x0, 0x1, 0x2, 0xB} \<or> code = 0xD \<and> 3 \<le> subcode \<and> subcode \<le> 0xC
      \<or> code = 0xF \<and> (subcode \<le> 0xC \<or> subcode = 0xF))"

lemma nibble_cases:
  fixes n :: u32
  assumes "n \<le> 0xC"
  shows "n \<in> {0, 1, 2, 3, 4, 5, 6, 7, 8, 9, 0xA, 0xB, 0xC}"
proof -
  have "unat n \<le> 12" using assms by (simp add: word_le_nat_alt)
  then have "unat n \<in> {0, 1, 2, 3, 4, 5, 6, 7, 8, 9, 10, 11, 12}" by (simp only: insert_iff empty_iff) arith
  then show ?thesis by (auto simp: word_unat_eq_iff)
qed

lemma skipped_inert:
  assumes "skipExecution s" and "inert_line hi"
  shows "cheat_op E hi lo s = Cont s"
proof -
  let ?code = "drop_bit 28 hi AND 0x0F" and ?sub = "drop_bit 24 hi AND 0x0F"
  have ops: "op_0 E hi lo s = Cont s" "op_1 E hi lo s = Cont s" "op_2 E hi lo s = Cont s" "op_B E hi lo s = Cont s"
    using assms(1) by (simp_all add: op_0_def op_1_def op_2_def op_B_def)
  have D: "op_D E ?sub (hi AND 0x0F) lo s = Cont s" if "3 \<le> ?sub" "?sub \<le> 0xC"
    using nibble_cases [OF that(2)] that(1) assms(1)
    by (auto simp: word_le_nat_alt op_D_def op_D3_def op_D4_def op_D5_def op_D6_def op_D7_def op_D8_def op_D9_def op_DA_def
        op_DB_def op_DC_def load_reg_def)
  have F: "op_F E ?sub hi lo s = Cont s" if "?sub \<le> 0xC \<or> ?sub = 0xF" "hi \<noteq> 0xF0F00000"
    using that nibble_cases [of ?sub] assms(1)
    by (auto simp: op_F_def op_F0_def op_F1_def op_F2_def op_F3_def op_F4_def op_F5_def op_Fbits_def
        op_Fshift_def op_FC_def op_FF_def)
  consider "?code = 0" | "?code = 1" | "?code = 2" | "?code = 0xB" | "?code = 0xD" "3 \<le> ?sub" "?sub \<le> 0xC"
    | "?code = 0xF" "?sub \<le> 0xC \<or> ?sub = 0xF" "hi \<noteq> 0xF0F00000"
    using assms(2) by (auto simp: inert_line_def Let_def)
  then show ?thesis by cases (simp_all add: cheat_op_def Let_def ops D F)
qed


lemma unat_of_nat32: "m < 2 ^ 32 \<Longrightarrow> unat (of_nat m :: u32) = m"
  by (simp add: unat_of_nat)

lemma skipped_lines:
  assumes "skipExecution s" and "unat (vm_index s) = i" and "i + n \<le> codesCount (cheat s)"
    and "codesCount (cheat s) < 2 ^ 32"
    and "\<forall>k < n. inert_line (ucast (drop_bit 32 (codes (cheat s) ! (i + k))))"
  shows "cheat_loop (n + fuel) E s = cheat_loop fuel E (s\<lparr>vm_index := of_nat (i + n)\<rparr>)"
  using assms
proof (induction n arbitrary: s i)
  case 0
  then have "of_nat i = vm_index s" by auto
  then show ?case by simp
next
  case (Suc n)
  let ?hi = "ucast (drop_bit 32 (codes (cheat s) ! i)) :: u32" and ?lo = "ucast (codes (cheat s) ! i) :: u32"
  let ?t = "s\<lparr>vm_index := of_nat (Suc i)\<rparr>"
  have inert: "inert_line ?hi" using Suc.prems(5) by auto
  have idx: "vm_index s = of_nat i" using Suc.prems(2) by auto
  have "cheat_step E s = Cont ?t"
    using Suc.prems inert
    by (subst step_line [of s ?hi ?lo])
      (auto simp: skipped_inert and_then_def next_line_def idx inert_line_def add.commute)
  moreover have "cheat_loop (n + fuel) E ?t = cheat_loop fuel E (?t\<lparr>vm_index := of_nat (Suc i + n)\<rparr>)"
  proof (rule Suc.IH)
    show "unat (vm_index ?t) = Suc i" using Suc.prems(3,4) by (simp add: unat_of_nat32 del: of_nat_Suc)
    show "\<forall>k<n. inert_line (ucast (drop_bit 32 (codes (cheat ?t) ! (Suc i + k))))"
      using Suc.prems(5) by auto
  qed (use Suc.prems in \<open>simp_all add: skipExecution_def\<close>)
  ultimately show ?case by simp
qed

lemma pop_push:
  assumes "ifStack s < 0x80000000" and "ifCount s \<noteq> 0xFF"
  shows "pop_if (push_if b s) = s"
proof -
  have "drop_bit 1 (push_bit 1 (ifStack s) OR (if c then 1 else 0)) = ifStack s" for c
  proof (rule bit_word_eqI)
    fix n assume "n < LENGTH(32)"
    have "\<not> bit (unat (ifStack s)) 31" using assms(1) by (simp add: bit_iff_odd word_less_nat_alt)
    then have "\<not> bit (ifStack s) 31" by (simp add: bit_unsigned_iff)
    then show "bit (drop_bit 1 (push_bit 1 (ifStack s) OR (if c then 1 else 0))) n = bit (ifStack s) n"
      unfolding bit_drop_bit_eq comp_def bit_or_iff bit_push_bit_iff
      using \<open>n < LENGTH(32)\<close> by (cases "n = 31") auto
  qed
  then show ?thesis unfolding pop_if_def push_if_def by simp
qed

text \<open>A conditional that fails skips its body: when the lines up to the matching
  \<open>D0000000 00000000\<close> are writes, loads, register or arithmetic lines, the run goes on behind
  that line with every register, the memory and the process as they were before the
  conditional.\<close>

theorem failed_conditional_skips:
  assumes "cheat_step E s = Cont (next_line (push_if True s))"
    and "unat (vm_index s) = i" and "i + n + 1 < codesCount (cheat s)" and "codesCount (cheat s) < 2 ^ 32"
    and "\<forall>k < n. inert_line (ucast (drop_bit 32 (codes (cheat s) ! (i + 1 + k))))"
    and "codes (cheat s) ! (i + n + 1) = 0xD000000000000000"
    and "loopLine s = -1" and "ifStack s < 0x80000000" and "ifCount s \<noteq> 0xFF"
  shows "cheat_loop (n + 2 + fuel) E s = cheat_loop fuel E (s\<lparr>vm_index := of_nat (i + n + 2)\<rparr>)"
proof -
  let ?s1 = "next_line (push_if True s)"
  let ?s2 = "(push_if True s)\<lparr>vm_index := of_nat (i + 1 + n)\<rparr>"
  have "of_nat i = vm_index s" using assms(2) by auto
  then have i1: "vm_index ?s1 = of_nat (i + 1)" by (simp add: next_line_def push_if_def)
  have "cheat_loop (n + (1 + fuel)) E ?s1 = cheat_loop (1 + fuel) E (?s1\<lparr>vm_index := of_nat (i + 1 + n)\<rparr>)"
  proof (rule skipped_lines)
    show "skipExecution ?s1" by (simp add: skipExecution_def next_line_def push_if_def word_ao_dist)
    show "unat (vm_index ?s1) = i + 1" unfolding i1 using assms(3,4) by (simp add: unat_of_nat32 del: of_nat_Suc of_nat_add)
  qed (use assms in \<open>simp_all add: next_line_def push_if_def\<close>)
  also have "?s1\<lparr>vm_index := of_nat (i + 1 + n)\<rparr> = ?s2" by (simp add: next_line_def)
  also have "cheat_step E ?s2 = Cont (s\<lparr>vm_index := of_nat (i + n + 2)\<rparr>)"
  proof -
    have u: "unat (vm_index ?s2) = i + n + 1" using assms(3,4) by (simp add: unat_of_nat32 del: of_nat_Suc of_nat_add)
    have "ifCount s + 1 \<noteq> 0"
    proof
      assume "ifCount s + 1 = 0"
      then have "ifCount s = -1" by (simp only: eq_neg_iff_add_eq_0)
      with assms(9) show False by simp
    qed
    then have "ifCount ?s2 > 0" by (simp add: push_if_def word_gt_0)
    moreover have "loopLine ?s2 = -1" using assms(7) by (simp add: push_if_def)
    ultimately have "cheat_op E 0xD0000000 0 ?s2 = Cont (pop_if ?s2)" by (simp add: cheat_op_loop op_D0_def)
    then have "cheat_step E ?s2 = Cont (next_line (pop_if ?s2))"
      using assms(3,6) u by (subst step_line [of ?s2 "0xD0000000" 0]) (simp_all add: push_if_def and_then_def)
    also have "pop_if ?s2 = s\<lparr>vm_index := of_nat (i + n + 1)\<rparr>"
    proof -
      have "pop_if ?s2 = (pop_if (push_if True s))\<lparr>vm_index := of_nat (i + n + 1)\<rparr>"
        by (simp add: pop_if_def add.commute add.left_commute)
      then show ?thesis using pop_push [OF assms(8,9)] by simp
    qed
    finally show ?thesis by (simp add: next_line_def add.commute)
  qed
  then have "cheat_loop (1 + fuel) E ?s2 = cheat_loop fuel E (s\<lparr>vm_index := of_nat (i + n + 2)\<rparr>)" by simp
  finally show ?thesis using assms(1) by simp
qed


lemma failed_conditional_skips_witness:
  "Cheat_ApplyCheat 4 page_env (page_vm [0x51E8100000000001, 0x01E810000000007F, 0xD000000000000000])
    = Some (Return True ((page_vm [0x51E8100000000001, 0x01E810000000007F, 0xD000000000000000])\<lparr>vm_index := 3\<rparr>))"
proof -
  define s where "s = page_vm [0x51E8100000000001, 0x01E810000000007F, 0xD000000000000000]"
  have s: "vm_index s = 0" "codesCount (cheat s) = 3" "loopLine s = -1" "ifStack s = 0" "ifCount s = 0"
    "conditionalMode s = 0" "activeOffset s = 0" "codes (cheat s) ! Suc 0 = 0x01E810000000007F"
    "codes (cheat s) ! 2 = 0xD000000000000000" "codes (cheat s) ! 0 = 0x51E8100000000001" "cheatPage s = (\<lambda>_. 0)"
    by (simp_all add: s_def page_vm_def activeOffset_def)
  have "Cheat_Read32 page_env 0x01E81000 s = Some 0"
    by (simp add: Cheat_Read32_def Cheat_Read_def page_load_def s word32_def upt_rec)
  then have "cheat_op page_env 0x51E81000 1 s = Cont (push_if True s)"
    by (simp add: cheat_op_def op_5_def conditional32_def s code_address_def on_read_def)
  then have "cheat_step page_env s = Cont (next_line (push_if True s))"
    by (subst step_line [of s "0x51E81000" 1]) (simp_all add: s and_then_def)
  then have "cheat_loop (1 + 2 + 1) page_env s = cheat_loop 1 page_env (s\<lparr>vm_index := of_nat (0 + 1 + 2)\<rparr>)"
  proof (rule failed_conditional_skips)
    have "inert_line 0x01E81000" by (simp add: inert_line_def)
    then show "\<forall>k<1. inert_line (ucast (drop_bit 32 (codes (cheat s) ! (0 + 1 + k))))" by (simp add: s)
  qed (simp_all add: s flip: numeral_2_eq_2)
  then have "cheat_loop 4 page_env s = cheat_loop 1 page_env (s\<lparr>vm_index := 3\<rparr>)"
    by (simp only: semiring_norm of_nat_numeral arith_simps add_0)
  also have "\<dots> = Some (Return True (s\<lparr>vm_index := 3\<rparr>))" by (simp add: step_end s)
  finally show ?thesis unfolding Cheat_ApplyCheat_def reset_page_vm s_def .
qed

end
