(* ===== verification/Cheat_Apply.thy ===== *)
theory Cheat_Apply
  imports Cheat_File_Theorems Cheat_Theorems
begin

text \<open>
  Running the cheats of the list on the current application (\<open>Cheat_ApplyCheats\<close> and what it
  calls in \<open>cheats.c\<close>), on the state of the loader and of the interpreter together. The
  debug system calls and the program information of the process manager are parameters.
\<close>

section \<open>State\<close>

record 'p machine =
  loaded :: loader
  vm :: "'p cheat_vm"
  cheatTitleInfo :: u64

text \<open>\<open>cheat_calls\<close> gives the calls of the interpreter for a debug handle; what it finds behind the
  code of a cheat depends on the buffer and on where the cheat is.\<close>

record 'p apply_env =
  cheat_calls :: "Handle \<Rightarrow> loader \<Rightarrow> nat \<Rightarrow> 'p cheat_env"
  svcOpenProcess :: "u32 \<Rightarrow> 'p \<Rightarrow> (Result \<times> Handle) \<times> 'p"
  svcDebugActiveProcess :: "u32 \<Rightarrow> 'p \<Rightarrow> (Result \<times> Handle) \<times> 'p"
  svcGetProcessDebugEvent :: "Handle \<Rightarrow> 'p \<Rightarrow> Result \<times> 'p"
  svcContinueDebugEvent :: "Handle \<Rightarrow> u32 \<Rightarrow> 'p \<Rightarrow> 'p"
  svcCloseHandle_p :: "Handle \<Rightarrow> 'p \<Rightarrow> 'p"
  PMDBG_GetCurrentAppInfo :: "'p \<Rightarrow> (Result \<times> u64 \<times> u32) \<times> 'p"
  a_R_SUCCEEDED :: "Result \<Rightarrow> bool"

definition on_world :: "('p \<Rightarrow> 'p) \<Rightarrow> 'p machine \<Rightarrow> 'p machine" where
  "on_world f m = m\<lparr>vm := (vm m)\<lparr>world := f (world (vm m))\<rparr>\<rparr>"

section \<open>Operations\<close>

text \<open>The loop continues after every event and every error but the one that says there is no
  event left.\<close>

fun Cheat_EatEvents :: "nat \<Rightarrow> 'p apply_env \<Rightarrow> Handle \<Rightarrow> 'p \<Rightarrow> 'p option" where
  "Cheat_EatEvents 0 A debug w = None"
| "Cheat_EatEvents (Suc fuel) A debug w =
     (case svcGetProcessDebugEvent A debug w of
        (r, w) \<Rightarrow>
          if r \<noteq> 0 \<and> r = 0xd8402009 then Some w
          else Cheat_EatEvents fuel A debug (svcContinueDebugEvent A debug 3 w))"

text \<open>\<open>None\<close>: the run does not end within the fuel, or does something C does not define.\<close>

definition run_cheat :: "nat \<Rightarrow> 'p apply_env \<Rightarrow> Handle \<Rightarrow> nat \<Rightarrow> 'p machine \<Rightarrow> 'p machine option" where
  "run_cheat fuel A debug p m =
     (case Cheat_ApplyCheat fuel (cheat_calls A debug (loaded m) p) ((vm m)\<lparr>cheat := store (loaded m) p\<rparr>) of
        Some (Return ok s) \<Rightarrow>
          Some (m\<lparr>vm := s, loaded := (loaded m)\<lparr>store := (store (loaded m))(p := (cheat s)\<lparr>cd_valid := ok\<rparr>)\<rparr>\<rparr>)
      | _ \<Rightarrow> None)"

definition Cheat_MapMemoryAndApplyCheat ::
    "nat \<Rightarrow> 'p apply_env \<Rightarrow> u32 \<Rightarrow> nat \<Rightarrow> 'p machine \<Rightarrow> (Result \<times> 'p machine) option" where
  "Cheat_MapMemoryAndApplyCheat fuel A pid p m =
     (case svcOpenProcess A pid (world (vm m)) of
        ((res, processHandle), w) \<Rightarrow>
          if a_R_SUCCEEDED A res then
            (case svcDebugActiveProcess A pid w of
               ((res, debugHandle), w) \<Rightarrow>
                 if a_R_SUCCEEDED A res then
                   (case Cheat_EatEvents fuel A debugHandle w of
                      None \<Rightarrow> None
                    | Some w \<Rightarrow>
                        (case run_cheat fuel A debugHandle p (on_world (\<lambda>_. w) m) of
                           None \<Rightarrow> None
                         | Some m \<Rightarrow>
                             let m = on_world (\<lambda>w. svcCloseHandle_p A processHandle (svcCloseHandle_p A debugHandle w)) m;
                                 l = loaded m
                             in Some (res, m\<lparr>loaded := l\<lparr>store := (store l)(p := (store l p)\<lparr>cd_active := True\<rparr>)\<rparr>\<rparr>)))
                 else Some (res, on_world (\<lambda>_. svcCloseHandle_p A processHandle w) m))
          else Some (res, on_world (\<lambda>_. w) m))"

definition Cheat_GetCurrentProcessAndTitleId :: "'p apply_env \<Rightarrow> 'p machine \<Rightarrow> (u32 \<times> u64) \<times> 'p machine" where
  "Cheat_GetCurrentProcessAndTitleId A m =
     (case PMDBG_GetCurrentAppInfo A (world (vm m)) of
        ((res, programId, pid), w) \<Rightarrow>
          (if \<not> a_R_SUCCEEDED A res then (0xFFFFFFFF, 0) else (pid, programId), on_world (\<lambda>_. w) m))"

fun apply_loop :: "nat \<Rightarrow> 'p apply_env \<Rightarrow> u32 \<Rightarrow> nat list \<Rightarrow> 'p machine \<Rightarrow> 'p machine option" where
  "apply_loop fuel A pid [] m = Some m"
| "apply_loop fuel A pid (i # is) m =
     (let p = cheats (loaded m) i in
      if cd_active (store (loaded m) p) then
        (case Cheat_MapMemoryAndApplyCheat fuel A pid p m of
           None \<Rightarrow> None
         | Some (res, m) \<Rightarrow> apply_loop fuel A pid is m)
      else apply_loop fuel A pid is m)"

definition Cheat_ApplyCheats :: "nat \<Rightarrow> 'p apply_env \<Rightarrow> 'p machine \<Rightarrow> 'p machine option" where
  "Cheat_ApplyCheats fuel A m =
     (if cheatCount (loaded m) = 0 then Some m
      else case Cheat_GetCurrentProcessAndTitleId A m of
        ((pid, titleId), m) \<Rightarrow>
          if titleId = 0 \<or> titleId \<noteq> cheatTitleInfo m then Some (m\<lparr>loaded := (loaded m)\<lparr>cheatCount := 0\<rparr>\<rparr>)
          else apply_loop fuel A pid [0..<unat (cheatCount (loaded m))] m)"

text \<open>Loading, on the whole state, and the start of \<open>RosalinaMenu_Cheats\<close>.\<close>

definition load_cheats :: "nat \<Rightarrow> file_env \<Rightarrow> (nat \<Rightarrow> bool) \<Rightarrow> u64 \<Rightarrow> 'p machine \<Rightarrow> 'p machine option" where
  "load_cheats fuel F stale titleId m =
     (case Cheat_LoadCheatsIntoMemory fuel F stale titleId (loaded m) of
        Some (Loaded l, cleared) \<Rightarrow>
          Some (m\<lparr>loaded := l, cheatTitleInfo := titleId,
                  vm := (if cleared then (vm m)\<lparr>cheatPage := (\<lambda>i. if i < 0x1000 then 0 else cheatPage (vm m) i)\<rparr> else vm m)\<rparr>)
      | _ \<Rightarrow> None)"

definition enter_menu :: "nat \<Rightarrow> 'p apply_env \<Rightarrow> file_env \<Rightarrow> (nat \<Rightarrow> bool) \<Rightarrow> 'p machine \<Rightarrow> ((u32 \<times> u64) \<times> 'p machine) option" where
  "enter_menu fuel A F stale m =
     (case Cheat_GetCurrentProcessAndTitleId A m of
        ((pid, titleId), m) \<Rightarrow>
          if titleId \<noteq> 0 \<and> (cheatTitleInfo m \<noteq> titleId \<or> cheatCount (loaded m) = 0)
          then map_option (\<lambda>m. ((pid, titleId), m)) (load_cheats fuel F stale titleId m)
          else Some ((pid, titleId), m))"

section \<open>What running the cheats keeps\<close>

text \<open>The parts of a cheat a run leaves alone.\<close>

definition fixed_part :: "CheatDescription \<Rightarrow> u64 list \<times> u8 list \<times> bool" where
  "fixed_part c = (codes c, cd_name c, hasKeyCode c)"

definition same_list :: "nat set \<Rightarrow> 'p machine \<Rightarrow> 'p machine \<Rightarrow> bool" where
  "same_list P m m' \<longleftrightarrow> cheats (loaded m') = cheats (loaded m) \<and> cheatCount (loaded m') = cheatCount (loaded m)
     \<and> cheatTitleInfo m' = cheatTitleInfo m \<and> cur (loaded m') = cur (loaded m)
     \<and> (\<forall>p. fixed_part (store (loaded m') p) = fixed_part (store (loaded m) p))
     \<and> (\<forall>p. p \<notin> P \<longrightarrow> store (loaded m') p = store (loaded m) p)"

lemma same_list_trans: "same_list P m m' \<Longrightarrow> same_list P m' m'' \<Longrightarrow> same_list P m m''"
  by (simp add: same_list_def)

lemma same_list_on_world [simp]: "same_list P m (on_world f m)" "loaded (on_world f m) = loaded m"
  by (simp_all add: same_list_def on_world_def)

lemma run_cheat_keeps:
  assumes "run_cheat fuel A debug p m = Some m'" and "p \<in> P"
  shows "same_list P m m'"
proof -
  let ?s = "(vm m)\<lparr>cheat := store (loaded m) p\<rparr>" and ?E = "cheat_calls A debug (loaded m) p"
  obtain ok s where r: "Cheat_ApplyCheat fuel ?E ?s = Some (Return ok s)"
    and m': "m' = m\<lparr>vm := s, loaded := (loaded m)\<lparr>store := (store (loaded m))(p := (cheat s)\<lparr>cd_valid := ok\<rparr>)\<rparr>\<rparr>"
    using assms(1) by (auto simp: run_cheat_def split: option.splits outcome.splits)
  have "outcome_all (vm_frame ?E (reset_state ?s)) (Return ok s)"
    using r unfolding Cheat_ApplyCheat_def by (rule frame_loop)
  then have "fixed_part (cheat s) = fixed_part (store (loaded m) p)"
    by (simp add: vm_frame_def fixed_part_def reset_state_def)
  then show ?thesis using assms(2) by (simp add: m' same_list_def fixed_part_def)
qed

lemma map_and_apply_keeps:
  assumes "Cheat_MapMemoryAndApplyCheat fuel A pid p m = Some (res, m')" and "p \<in> P"
  shows "same_list P m m'"
proof -
  obtain res1 ph w1 where o: "svcOpenProcess A pid (world (vm m)) = ((res1, ph), w1)" by (metis surj_pair)
  obtain res2 dh w2 where d: "svcDebugActiveProcess A pid w1 = ((res2, dh), w2)" by (metis surj_pair)
  show ?thesis
  proof (cases "a_R_SUCCEEDED A res1 \<and> a_R_SUCCEEDED A res2")
    case True
    then obtain w3 m1 where m1: "run_cheat fuel A dh p (on_world (\<lambda>_. w3) m) = Some m1"
      and m': "m' = (on_world (\<lambda>w. svcCloseHandle_p A ph (svcCloseHandle_p A dh w)) m1)
          \<lparr>loaded := (loaded m1)\<lparr>store := (store (loaded m1))(p := (store (loaded m1) p)\<lparr>cd_active := True\<rparr>)\<rparr>\<rparr>"
      using assms(1) o d by (auto simp: Cheat_MapMemoryAndApplyCheat_def Let_def split: option.splits)
    have "same_list P m m1"
      using same_list_trans [OF same_list_on_world(1) run_cheat_keeps [OF m1 assms(2)]] .
    moreover have "same_list P m1 m'"
      using assms(2) by (simp add: m' same_list_def fixed_part_def on_world_def)
    ultimately show ?thesis by (rule same_list_trans)
  next
    case False
    then show ?thesis using assms(1) o d by (auto simp: Cheat_MapMemoryAndApplyCheat_def split: if_splits)
  qed
qed

lemma apply_loop_keeps:
  assumes "\<forall>i \<in> set is. cd_active (store (loaded m) (cheats (loaded m) i)) \<longrightarrow> cheats (loaded m) i \<in> P"
  shows "apply_loop fuel A pid is m = Some m' \<Longrightarrow> same_list P m m'"
  using assms
proof (induction "is" arbitrary: m)
  case Nil
  then show ?case by (simp add: same_list_def)
next
  case (Cons i "is")
  let ?p = "cheats (loaded m) i"
  have later: "\<forall>j \<in> set is. cd_active (store (loaded m1) (cheats (loaded m1) j)) \<longrightarrow> cheats (loaded m1) j \<in> P"
    if "same_list P m m1" for m1
    using Cons.prems(2) that unfolding same_list_def by (metis list.set_intros(2))
  show ?case
  proof (cases "cd_active (store (loaded m) ?p)")
    case True
    then obtain res m1 where m1: "Cheat_MapMemoryAndApplyCheat fuel A pid ?p m = Some (res, m1)"
      "apply_loop fuel A pid is m1 = Some m'"
      using Cons.prems(1) by (auto simp: Let_def split: option.splits)
    have "same_list P m m1" using map_and_apply_keeps [OF m1(1)] Cons.prems(2) True by simp
    then show ?thesis using Cons.IH [OF m1(2)] later same_list_trans by blast
  next
    case False
    then show ?thesis using Cons.IH [of m] Cons.prems by (simp add: Let_def)
  qed
qed

text \<open>Running the cheats leaves the list as the loader made it: the pointers, the codes, the
  names and the flags of every cheat are the same afterwards, only active cheats are touched
  at all, and if there is no current application or another title is running, nothing is run
  and the list is emptied.\<close>

theorem apply_keeps_list:
  assumes "Cheat_ApplyCheats fuel A m = Some m'"
  shows "cheats (loaded m') = cheats (loaded m) \<and> cheatTitleInfo m' = cheatTitleInfo m
    \<and> (\<forall>p. fixed_part (store (loaded m') p) = fixed_part (store (loaded m) p))
    \<and> (\<forall>p. (\<forall>i < unat (cheatCount (loaded m)). cheats (loaded m) i = p \<longrightarrow> \<not> cd_active (store (loaded m) p))
          \<longrightarrow> store (loaded m') p = store (loaded m) p)
    \<and> (let titleId = snd (fst (Cheat_GetCurrentProcessAndTitleId A m)) in
       if titleId = 0 \<or> titleId \<noteq> cheatTitleInfo m
       then cheatCount (loaded m') = 0 \<and> store (loaded m') = store (loaded m)
       else cheatCount (loaded m') = cheatCount (loaded m))"
proof -
  obtain pid titleId m1 where g: "Cheat_GetCurrentProcessAndTitleId A m = ((pid, titleId), m1)" by (metis surj_pair)
  then have m1: "loaded m1 = loaded m" "cheatTitleInfo m1 = cheatTitleInfo m"
    by (auto simp: Cheat_GetCurrentProcessAndTitleId_def on_world_def split: prod.splits)
  let ?n = "unat (cheatCount (loaded m))"
  let ?P = "{p. \<exists>i < ?n. cheats (loaded m) i = p \<and> cd_active (store (loaded m) p)}"
  show ?thesis
  proof (cases "cheatCount (loaded m) = 0 \<or> titleId = 0 \<or> titleId \<noteq> cheatTitleInfo m")
    case True
    then show ?thesis using assms g m1
      by (cases "cheatCount (loaded m) = 0") (auto simp: Cheat_ApplyCheats_def Let_def)
  next
    case False
    then have run: "apply_loop fuel A pid [0..<?n] m1 = Some m'" using assms g m1 by (auto simp: Cheat_ApplyCheats_def)
    have "same_list ?P m1 m'" by (rule apply_loop_keeps [OF _ run]) (auto simp: m1)
    then show ?thesis using False g m1 by (auto simp: same_list_def Let_def)
  qed
qed


text \<open>A machine whose list holds one active cheat, the one that stores to the scratch page.\<close>

definition demo_machine :: "unit machine" where
  "demo_machine = \<lparr>loaded = \<lparr>cheatCount = 1, cheats = (\<lambda>_. 0),
       store = (\<lambda>_. cheat (page_vm [0xD300000001E81000, 0x100000000000ABCD])), cur = None, cheatSize = 0, allocs = 0\<rparr>,
     vm = page_vm [], cheatTitleInfo = 5\<rparr>"

definition demo_apply :: "unit apply_env" where
  "demo_apply = \<lparr>cheat_calls = (\<lambda>_ _ _. page_env), svcOpenProcess = (\<lambda>pid w. ((0, 1), w)),
     svcDebugActiveProcess = (\<lambda>pid w. ((0, 2), w)), svcGetProcessDebugEvent = (\<lambda>h w. (0xd8402009, w)),
     svcContinueDebugEvent = (\<lambda>h f w. w), svcCloseHandle_p = (\<lambda>h w. w),
     PMDBG_GetCurrentAppInfo = (\<lambda>w. ((0, 5, 0x20), w)), a_R_SUCCEEDED = (\<lambda>r. 0 \<le> sint r)\<rparr>"

lemma demo_apply_calls [simp]:
  "cheat_calls demo_apply h l p = page_env" "svcOpenProcess demo_apply pid w = ((0, 1), w)"
  "svcDebugActiveProcess demo_apply pid w = ((0, 2), w)" "svcGetProcessDebugEvent demo_apply h w = (0xd8402009, w)"
  "svcCloseHandle_p demo_apply h w = w" "PMDBG_GetCurrentAppInfo demo_apply w = ((0, 5, 0x20), w)"
  "a_R_SUCCEEDED demo_apply 0"
  by (simp_all add: demo_apply_def)

lemma demo_world [simp]: "on_world f demo_machine = demo_machine"
  by (simp add: on_world_def demo_machine_def page_vm_def)

lemma apply_keeps_list_witness:
  "\<exists>m'. Cheat_ApplyCheats 3 demo_apply demo_machine = Some m' \<and> cheatCount (loaded m') = 1
    \<and> fixed_part (store (loaded m') 0) = ([0xD300000001E81000, 0x100000000000ABCD], [], False)"
proof -
  let ?cs = "[0xD300000001E81000, 0x100000000000ABCD] :: u64 list"
  have vm: "(vm demo_machine)\<lparr>cheat := store (loaded demo_machine) 0\<rparr> = page_vm ?cs"
    by (simp add: demo_machine_def page_vm_def)
  obtain t where t: "Cheat_ApplyCheat 3 page_env (page_vm ?cs) = Some (Return True t)"
    using store_run_page [of "0xD300000001E81000" "0x01E81000"] by auto
  have eat: "Cheat_EatEvents 3 demo_apply h w = Some w" for h w by (simp add: numeral_3_eq_3)
  have "\<exists>m1. run_cheat 3 demo_apply 2 0 demo_machine = Some m1"
    using t by (simp add: run_cheat_def vm)
  then have "\<exists>m2. Cheat_MapMemoryAndApplyCheat 3 demo_apply 0x20 0 demo_machine = Some (0, m2)"
    by (auto simp: Cheat_MapMemoryAndApplyCheat_def eat Let_def)
  then obtain m2 where m2: "Cheat_MapMemoryAndApplyCheat 3 demo_apply 0x20 0 demo_machine = Some (0, m2)" by blast
  have g: "Cheat_GetCurrentProcessAndTitleId demo_apply demo_machine = ((0x20, 5), demo_machine)"
    by (simp add: Cheat_GetCurrentProcessAndTitleId_def)
  have d: "cheatCount (loaded demo_machine) = 1" "cheats (loaded demo_machine) 0 = 0" "cheatTitleInfo demo_machine = 5"
    "cd_active (store (loaded demo_machine) 0)"
    by (simp_all add: demo_machine_def page_vm_def)
  have "Cheat_ApplyCheats 3 demo_apply demo_machine = Some m2"
    by (simp add: Cheat_ApplyCheats_def g d m2 Let_def upt_rec)
  from apply_keeps_list [OF this] this show ?thesis
    by (auto simp: g d Let_def) (simp add: demo_machine_def fixed_part_def page_vm_def)
qed

end
