(* ===== verification/Ldr_Patcher.thy ===== *)
theory Ldr_Patcher
  imports Util_File Util_Strings Util_Memory
begin

text \<open>
  The code patcher of the loader (\<open>loader/source/patcher.c\<close>): replacing byte patterns, the
  IPS patch of a title, the locale of a title, and the search for the functions that the
  layered file system hooks. The code of a title is a function from offsets to bytes; an offset
  may be negative, before the start of the code. The archive the files are in (SD card or
  NAND, by \<open>isSdMode\<close>) is chosen with the file service.
\<close>

section \<open>Memory\<close>

type_synonym image = "int \<Rightarrow> u8"

definition load16 :: "image \<Rightarrow> int \<Rightarrow> u16" where
  "load16 m a = ucast (m a) OR push_bit 8 (ucast (m (a + 1)))"

definition load32 :: "image \<Rightarrow> int \<Rightarrow> u32" where
  "load32 m a = ucast (m a) OR push_bit 8 (ucast (m (a + 1))) OR push_bit 16 (ucast (m (a + 2))) OR push_bit 24 (ucast (m (a + 3)))"

definition write_bytes :: "image \<Rightarrow> int \<Rightarrow> u8 list \<Rightarrow> image" where
  "write_bytes m a bs = (\<lambda>x. if a \<le> x \<and> x < a + int (length bs) then bs ! nat (x - a) else m x)"

section \<open>Patterns\<close>

text \<open>\<open>patchMemory\<close> counts its matches and leaves the loop at the first search without one; \<open>start\<close>
  is the offset the search starts from. The fuel is for the search.\<close>

primrec patch_loop :: "nat \<Rightarrow> nat \<Rightarrow> u8 list \<Rightarrow> int \<Rightarrow> u8 list \<Rightarrow> u32 \<Rightarrow> int \<Rightarrow> u32 \<Rightarrow> image \<Rightarrow> (u32 \<times> image) option" where
  "patch_loop fuel 0 pat offset replace i start sz code = Some (i, code)"
| "patch_loop fuel (Suc k) pat offset replace i start sz code =
     (case memsearch fuel (\<lambda>x. code (start + int x)) (nth pat) sz (of_nat (length pat)) of
        None \<Rightarrow> None
      | Some None \<Rightarrow> Some (i, code)
      | Some (Some found) \<Rightarrow>
          let code = write_bytes code (start + uint found + offset) replace in
          if found + of_nat (length pat) > sz then Some (i, code)
          else patch_loop fuel k pat offset replace (i + 1) (start + uint found + int (length pat))
                 (sz - (found + of_nat (length pat))) code)"

definition patchMemory :: "nat \<Rightarrow> int \<Rightarrow> u32 \<Rightarrow> u8 list \<Rightarrow> int \<Rightarrow> u8 list \<Rightarrow> nat \<Rightarrow> image \<Rightarrow> (u32 \<times> image) option" where
  "patchMemory fuel start sz pat offset replace cnt code = patch_loop fuel cnt pat offset replace 0 start sz code"

section \<open>Files of a title\<close>

text \<open>The title id is written into a path of zeros with its last digit at position 28, in the path
  of a system module at position 32.\<close>

definition title_path :: "string \<Rightarrow> u64 \<Rightarrow> u8 list" where
  "title_path file progId = progIdToStr (chars (''/omiiba/titles/0000000000000000'' @ file)) 28 progId"

definition sysmodule_ips_path :: "u64 \<Rightarrow> u8 list" where
  "sysmodule_ips_path progId = progIdToStr (chars ''/omiiba/sysmodules/0000000000000000.ips'') 32 progId"

definition openOmiibaFile :: "file_env \<Rightarrow> u8 list \<Rightarrow> IFile option" where
  "openOmiibaFile E path = (case IFile_Open E path of (res, f) \<Rightarrow> if f_R_FAILED E res then None else Some f)"

definition be :: "u8 list \<Rightarrow> nat" where
  "be bs = foldl (\<lambda>n b. 256 * n + unat b) 0 bs"

section \<open>IPS patches\<close>

text \<open>One record in each round; \<open>IFile_Read\<close> with a test of the number of bytes is \<open>read_exact\<close>, which
  also gives what has been read when it fails. Offsets have 24 bits and lengths 16, so their sum
  does not wrap.\<close>

definition read_exact :: "file_env \<Rightarrow> IFile \<Rightarrow> nat \<Rightarrow> bool \<times> u8 list \<times> IFile" where
  "read_exact E f n = (case IFile_Read E f n of (res, bs, f) \<Rightarrow> (\<not> f_R_FAILED E res \<and> length bs = n, bs, f))"

fun ips_loop :: "nat \<Rightarrow> file_env \<Rightarrow> nat \<Rightarrow> IFile \<Rightarrow> image \<Rightarrow> (bool \<times> image) option" where
  "ips_loop 0 E sz f code = None"
| "ips_loop (Suc fuel) E sz f code =
     (let (ok, buffer, f) = read_exact E f 3 in
      if \<not> ok then Some (False, code)
      else if buffer = chars ''EOF'' then Some (True, code)
      else
        let offset = be buffer; (ok, buffer, f) = read_exact E f 2 in
        if \<not> ok then Some (False, code)
        else
          let patchSize = be buffer in
          if patchSize = 0 then
            let (ok, buffer, f) = read_exact E f 2 in
            if \<not> ok then Some (False, code)
            else
              let rleSize = be buffer in
              if offset + rleSize > sz then Some (False, code)
              else
                let (ok, buffer, f) = read_exact E f 1 in
                if \<not> ok then Some (False, code)
                else ips_loop fuel E sz f (write_bytes code (int offset) (replicate rleSize (buffer ! 0)))
          else if offset + patchSize > sz then Some (False, code)
          else
            let (ok, buffer, f) = read_exact E f patchSize; code = write_bytes code (int offset) buffer in
            if \<not> ok then Some (False, code) else ips_loop fuel E sz f code)"

definition isSysmodule :: "u64 \<Rightarrow> bool" where
  "isSysmodule progId \<longleftrightarrow> drop_bit 32 progId = 0x00040130"

definition applyCodeIpsPatch :: "nat \<Rightarrow> file_env \<Rightarrow> u64 \<Rightarrow> nat \<Rightarrow> image \<Rightarrow> (bool \<times> image) option" where
  "applyCodeIpsPatch fuel E progId sz code =
     (case openOmiibaFile E (if isSysmodule progId then sysmodule_ips_path (progId AND NOT 0xF0000000)
                             else title_path ''/code.ips'' progId) of
        None \<Rightarrow> Some (True, code)
      | Some f \<Rightarrow>
          let (ok, buffer, f) = read_exact E f 5 in
          if \<not> ok \<or> buffer \<noteq> chars ''PATCH'' then Some (False, code) else ips_loop fuel E sz f code)"

section \<open>The locale of a title\<close>

record locale_config =
  lc_mask :: u8
  lc_region :: u8
  lc_language :: u8
  lc_country :: u8
  lc_state :: u8

definition no_locale :: locale_config where
  "no_locale = \<lparr>lc_mask = 0, lc_region = 0, lc_language = 0, lc_country = 0, lc_state = 0\<rparr>"

definition regions :: "string list" where
  "regions = [''---'', ''JPN'', ''USA'', ''EUR'', ''AUS'', ''CHN'', ''KOR'', ''TWN'']"

definition languages :: "string list" where
  "languages = [''--'', ''JP'', ''EN'', ''FR'', ''DE'', ''IT'', ''ES'', ''ZH'', ''KO'', ''NL'', ''PT'', ''RU'', ''TW'']"

definition countries :: "string list" where
  "countries =
    [''--'', ''JP'', ''--'', ''--'', ''--'', ''--'', ''--'', ''--'', ''AI'', ''AG'', ''AR'', ''AW'',
     ''BS'', ''BB'', ''BZ'', ''BO'', ''BR'', ''VG'', ''CA'', ''KY'', ''CL'', ''CO'', ''CR'', ''DM'',
     ''DO'', ''EC'', ''SV'', ''GF'', ''GD'', ''GP'', ''GT'', ''GY'', ''HT'', ''HN'', ''JM'', ''MQ'',
     ''MX'', ''MS'', ''AN'', ''NI'', ''PA'', ''PY'', ''PE'', ''KN'', ''LC'', ''VC'', ''SR'', ''TT'',
     ''TC'', ''US'', ''UY'', ''VI'', ''VE'', ''--'', ''--'', ''--'', ''--'', ''--'', ''--'', ''--'',
     ''--'', ''--'', ''--'', ''--'', ''AL'', ''AU'', ''AT'', ''BE'', ''BA'', ''BW'', ''BG'', ''HR'',
     ''CY'', ''CZ'', ''DK'', ''EE'', ''FI'', ''FR'', ''DE'', ''GR'', ''HU'', ''IS'', ''IE'', ''IT'',
     ''LV'', ''LS'', ''LI'', ''LT'', ''LU'', ''MK'', ''MT'', ''ME'', ''MZ'', ''NA'', ''NL'', ''NZ'',
     ''NO'', ''PL'', ''PT'', ''RO'', ''RU'', ''RS'', ''SK'', ''SI'', ''ZA'', ''ES'', ''SZ'', ''SE'',
     ''CH'', ''TR'', ''GB'', ''ZM'', ''ZW'', ''AZ'', ''MR'', ''ML'', ''NE'', ''TD'', ''SD'', ''ER'',
     ''DJ'', ''SO'', ''AD'', ''GI'', ''GG'', ''IM'', ''JE'', ''MC'', ''TW'', ''--'', ''--'', ''--'',
     ''--'', ''--'', ''--'', ''--'', ''KR'', ''--'', ''--'', ''--'', ''--'', ''--'', ''--'', ''--'',
     ''HK'', ''MO'', ''--'', ''--'', ''--'', ''--'', ''--'', ''--'', ''ID'', ''SG'', ''TH'', ''PH'',
     ''MY'', ''--'', ''--'', ''--'', ''CN'', ''--'', ''--'', ''--'', ''--'', ''--'', ''--'', ''--'',
     ''AE'', ''IN'', ''EG'', ''OM'', ''QA'', ''KW'', ''SA'', ''SY'', ''BH'', ''JO'', ''--'', ''--'',
     ''--'', ''--'', ''--'', ''--'', ''SM'', ''VA'', ''BM'']"

text \<open>The search of a code of the file in a table; the first entry of a table is no code.\<close>

fun search_code :: "u8 list \<Rightarrow> nat \<Rightarrow> string list \<Rightarrow> nat option" where
  "search_code code i [] = None"
| "search_code code i (c # cs) = (if code = chars c \<and> i \<noteq> 0 then Some i else search_code code (i + 1) cs)"

definition hex_digit_of :: "u8 \<Rightarrow> u8 option" where
  "hex_digit_of c =
     (if 0x30 \<le> c \<and> c \<le> 0x39 then Some (c - 0x30)
      else if 0x61 \<le> c \<and> c \<le> 0x66 then Some (c - 0x61 + 10)
      else if 0x41 \<le> c \<and> c \<le> 0x46 then Some (c - 0x41 + 10) else None)"

definition parse_locale :: "nat \<Rightarrow> u8 list \<Rightarrow> locale_config" where
  "parse_locale fileSize buf =
     (let l = no_locale;
          l = (case search_code (take 3 buf) 0 regions of None \<Rightarrow> l
               | Some i \<Rightarrow> l\<lparr>lc_region := of_nat (i - 1), lc_mask := lc_mask l OR 1\<rparr>);
          l = (case (if fileSize \<ge> 6 then search_code (take 2 (drop 4 buf)) 0 languages else None) of None \<Rightarrow> l
               | Some i \<Rightarrow> l\<lparr>lc_language := of_nat (i - 1), lc_mask := lc_mask l OR 2\<rparr>);
          l = (case (if fileSize \<ge> 9 then search_code (take 2 (drop 7 buf)) 0 countries else None) of None \<Rightarrow> l
               | Some i \<Rightarrow> l\<lparr>lc_country := of_nat i, lc_mask := lc_mask l OR 4\<rparr>)
      in case (if fileSize \<ge> 12 then hex_digit_of (buf ! 10) else None, hex_digit_of (buf ! 11)) of
           (Some h, Some d) \<Rightarrow> l\<lparr>lc_state := 16 * h + d, lc_mask := lc_mask l OR 8\<rparr>
         | _ \<Rightarrow> l)"

definition loadTitleLocaleConfig :: "file_env \<Rightarrow> u64 \<Rightarrow> bool \<times> locale_config" where
  "loadTitleLocaleConfig E progId =
     (case openOmiibaFile E (title_path ''/locale.txt'' progId) of
        None \<Rightarrow> (False, no_locale)
      | Some f \<Rightarrow>
          (case IFile_GetSize E f of (res, fileSize, f) \<Rightarrow>
             if f_R_FAILED E res \<or> fileSize < 3 then (False, no_locale)
             else
               let fileSize = min fileSize 12 in
               (case IFile_Read E f fileSize of (res, bs, f) \<Rightarrow>
                  if f_R_FAILED E res then (False, no_locale)
                  else (True, parse_locale fileSize (bs @ replicate (12 - length bs) 0x2D)))))"

text \<open>The word \<open>patchCode\<close> passes to \<open>svcKernelSetState\<close>, type 0x10001, before the title id.\<close>

definition locale_word :: "locale_config \<Rightarrow> u32" where
  "locale_word l = push_bit 24 (ucast (lc_state l)) OR push_bit 16 (ucast (lc_country l)) OR
     push_bit 8 (ucast (lc_language l)) OR push_bit 4 (ucast (lc_region l)) OR ucast (lc_mask l)"

end
