(* ===== verification/K11_Ipc.thy ===== *)
theory K11_Ipc
  imports Util_Strings
begin

text \<open>
  The session table of the kernel extension (\<open>k11_extension/source/ipc.c\<close>): which kernel
  sessions belong to which service, kept as an array sorted by the address of the session; and
  the two replies the extension makes itself (\<open>doLangEmu\<close>, \<open>doErrfThrowHook\<close>). The kernel is a
  parameter: its vtables are read through \<open>ipc_env\<close>, its destructors and the hooks of other
  threads come in as \<open>kernel_event\<close>s. Pointers are 32-bit numbers, compared as such; the locks
  are left out, every operation is one step.
\<close>

section \<open>Data\<close>

record SessionInfo =
  info_session :: u32
  info_name :: "u8 list"

record LangemuAttributes =
  la_titleId :: u64
  la_mask :: u8
  la_region :: u8
  la_language :: u8
  la_country :: u8
  la_state :: u8

definition MAX_SESSION :: nat where
  "MAX_SESSION = 345"

definition zero_info :: SessionInfo where
  "zero_info = \<lparr>info_session = 0, info_name = replicate 12 0\<rparr>"

record ipc_state =
  sessionInfos :: "SessionInfo list"
  nbActiveSessions :: nat
  customSessionVtable :: "u32 list"
  KSession_dtor_orig :: u32
  vtable_of :: "u32 \<Rightarrow> u32"
  processLangemuAttributes :: "LangemuAttributes list"

text \<open>Addresses of the extension and the kernel's read-only vtables.\<close>

record ipc_env =
  custom_addr :: u32
  dtor_hook_addr :: u32
  vtable_words :: "u32 \<Rightarrow> u32 list"

section \<open>C strings\<close>

definition c_str :: "u8 list \<Rightarrow> u8 list" where
  "c_str s = takeWhile (\<lambda>c. c \<noteq> 0) s"

definition strcmp_equal :: "u8 list \<Rightarrow> u8 list \<Rightarrow> bool" where
  "strcmp_equal a b \<longleftrightarrow> c_str a = c_str b"

definition strncmp_equal :: "u8 list \<Rightarrow> u8 list \<Rightarrow> nat \<Rightarrow> bool" where
  "strncmp_equal a b n \<longleftrightarrow> take n (c_str a) = take n (c_str b)"

definition strncpy12 :: "u8 list \<Rightarrow> u8 list" where
  "strncpy12 s = (let t = take 12 (c_str s) in t @ replicate (12 - length t) 0)"

section \<open>The table of sessions\<close>

text \<open>One round of the binary search; the loop ends when the bounds are neighbours.\<close>

function closest_loop :: "SessionInfo list \<Rightarrow> u32 \<Rightarrow> nat \<Rightarrow> nat \<Rightarrow> nat" where
  "closest_loop infos session a b =
     (let m = (a + b) div 2 in
      if info_session (infos ! m) < session then
        if b - m > 1 then closest_loop infos session m b else b
      else if info_session (infos ! m) > session then
        if m - a > 1 then closest_loop infos session a m else m
      else m)"
  by pat_completeness auto
termination by (relation "measure (\<lambda>(_, _, a, b). b - a)") auto

declare closest_loop.simps [simp del]

definition SessionInfo_FindClosestSlot :: "u32 \<Rightarrow> ipc_state \<Rightarrow> nat" where
  "SessionInfo_FindClosestSlot session s =
     (if nbActiveSessions s = 0 \<or> session \<le> info_session (sessionInfos s ! 0) then 0
      else if session > info_session (sessionInfos s ! (nbActiveSessions s - 1)) then nbActiveSessions s
      else closest_loop (sessionInfos s) session 0 (nbActiveSessions s - 1))"

definition has_custom_vtable :: "ipc_env \<Rightarrow> ipc_state \<Rightarrow> nat \<Rightarrow> bool" where
  "has_custom_vtable E s i \<longleftrightarrow> vtable_of s (info_session (sessionInfos s ! i)) = custom_addr E"

text \<open>A pointer into the table is the index of the entry.\<close>

definition SessionInfo_Lookup :: "ipc_env \<Rightarrow> u32 \<Rightarrow> ipc_state \<Rightarrow> nat option" where
  "SessionInfo_Lookup E session s =
     (let i = SessionInfo_FindClosestSlot session s in
      if i = nbActiveSessions s then None
      else if has_custom_vtable E s i then Some i else None)"

fun find_name :: "SessionInfo list \<Rightarrow> u8 list \<Rightarrow> nat \<Rightarrow> nat \<Rightarrow> nat" where
  "find_name infos name i 0 = i"
| "find_name infos name i (Suc k) =
     (if \<not> strncmp_equal (info_name (infos ! i)) name 12 then find_name infos name (i + 1) k else i)"

definition SessionInfo_FindFirst :: "ipc_env \<Rightarrow> u8 list \<Rightarrow> ipc_state \<Rightarrow> nat option" where
  "SessionInfo_FindFirst E name s =
     (let i = find_name (sessionInfos s) name 0 (nbActiveSessions s) in
      if i = nbActiveSessions s then None
      else if has_custom_vtable E s i then Some i else None)"

definition SessionInfo_ChangeVtable :: "ipc_env \<Rightarrow> u32 \<Rightarrow> ipc_state \<Rightarrow> ipc_state" where
  "SessionInfo_ChangeVtable E session s =
     (let words = vtable_words E (vtable_of s session);
          s = (if customSessionVtable s ! 2 = 0
               then s\<lparr>customSessionVtable := (take 16 words)[2 := dtor_hook_addr E], KSession_dtor_orig := words ! 2\<rparr>
               else s)
      in s\<lparr>vtable_of := (vtable_of s)(session := custom_addr E)\<rparr>)"

fun shift_up :: "nat \<Rightarrow> nat \<Rightarrow> SessionInfo list \<Rightarrow> SessionInfo list" where
  "shift_up i 0 infos = infos"
| "shift_up i (Suc k) infos =
     (if Suc k > i then shift_up i k (infos[Suc k := infos ! k]) else infos)"

fun shift_down :: "nat \<Rightarrow> nat \<Rightarrow> SessionInfo list \<Rightarrow> SessionInfo list" where
  "shift_down i 0 infos = infos"
| "shift_down i (Suc k) infos = shift_down (i + 1) k (infos[i := infos ! (i + 1)])"

text \<open>The part of \<open>SessionInfo_Add\<close> under the locks, after the vtable has been changed.\<close>

definition add_info :: "u32 \<Rightarrow> u8 list \<Rightarrow> ipc_state \<Rightarrow> ipc_state" where
  "add_info session name s =
     (if nbActiveSessions s = MAX_SESSION then s
      else let i = SessionInfo_FindClosestSlot session s in
        if i \<noteq> nbActiveSessions s \<and> info_session (sessionInfos s ! i) = session then s
        else s\<lparr>sessionInfos := (shift_up i (nbActiveSessions s) (sessionInfos s))
                  [i := \<lparr>info_session = session, info_name = strncpy12 name\<rparr>],
               nbActiveSessions := nbActiveSessions s + 1\<rparr>)"

definition SessionInfo_Remove :: "u32 \<Rightarrow> ipc_state \<Rightarrow> ipc_state" where
  "SessionInfo_Remove session s =
     (if nbActiveSessions s = MAX_SESSION then s
      else let i = SessionInfo_FindClosestSlot session s in
        if i = nbActiveSessions s then s
        else let n = nbActiveSessions s - 1 in
          s\<lparr>sessionInfos := (shift_down i (n - i) (sessionInfos s))[n := zero_info],
            nbActiveSessions := n\<rparr>)"

text \<open>What the kernel and the other threads do to the table while a kernel function runs: a
  session is constructed at an address, a session is destroyed (its vtable's destructor is
  called), and a hook in another thread changes a vtable or adds an entry.\<close>

datatype kernel_event =
    Session_constructed u32 u32
  | Session_destroyed u32
  | Vtable_changed u32
  | Info_added u32 "u8 list"

definition KSession_dtor :: "ipc_env \<Rightarrow> u32 \<Rightarrow> ipc_state \<Rightarrow> ipc_state" where
  "KSession_dtor E session s =
     (if vtable_of s session = custom_addr E then SessionInfo_Remove session s else s)"

primrec kernel_step :: "ipc_env \<Rightarrow> kernel_event \<Rightarrow> ipc_state \<Rightarrow> ipc_state" where
  "kernel_step E (Session_constructed session vt) s = s\<lparr>vtable_of := (vtable_of s)(session := vt)\<rparr>"
| "kernel_step E (Session_destroyed session) s = KSession_dtor E session s"
| "kernel_step E (Vtable_changed session) s = SessionInfo_ChangeVtable E session s"
| "kernel_step E (Info_added session name) s = add_info session name s"

definition kernel_steps :: "ipc_env \<Rightarrow> kernel_event list \<Rightarrow> ipc_state \<Rightarrow> ipc_state" where
  "kernel_steps E es s = fold (kernel_step E) es s"

text \<open>\<open>dec_ref\<close> are the events of the call of \<open>DecrementReferenceCount\<close>.\<close>

definition SessionInfo_Add :: "ipc_env \<Rightarrow> kernel_event list \<Rightarrow> u32 \<Rightarrow> u8 list \<Rightarrow> ipc_state \<Rightarrow> ipc_state" where
  "SessionInfo_Add E dec_ref session name s =
     add_info session name (kernel_steps E dec_ref (SessionInfo_ChangeVtable E session s))"

definition ipc_init :: "(u32 \<Rightarrow> u32) \<Rightarrow> ipc_state" where
  "ipc_init vt = \<lparr>sessionInfos = replicate MAX_SESSION zero_info, nbActiveSessions = 0,
     customSessionVtable = replicate 16 0, KSession_dtor_orig = 0, vtable_of = vt,
     processLangemuAttributes = replicate 0x40
       \<lparr>la_titleId = 0, la_mask = 0, la_region = 0, la_language = 0, la_country = 0, la_state = 0\<rparr>\<rparr>"

section \<open>The table as a sorted list\<close>

definition infos :: "ipc_state \<Rightarrow> SessionInfo list" where
  "infos s = take (nbActiveSessions s) (sessionInfos s)"

definition sorted_infos :: "SessionInfo list \<Rightarrow> bool" where
  "sorted_infos xs \<longleftrightarrow> sorted_wrt (<) (map info_session xs)"

definition ipc_inv :: "ipc_state \<Rightarrow> bool" where
  "ipc_inv s \<longleftrightarrow> length (sessionInfos s) = MAX_SESSION \<and> nbActiveSessions s \<le> MAX_SESSION \<and> sorted_infos (infos s)"

text \<open>The reference: the number of entries below the session.\<close>

definition slot_of :: "u32 \<Rightarrow> SessionInfo list \<Rightarrow> nat" where
  "slot_of session xs = length (takeWhile (\<lambda>i. info_session i < session) xs)"

definition insert_info :: "SessionInfo \<Rightarrow> SessionInfo list \<Rightarrow> SessionInfo list" where
  "insert_info i xs = (let k = slot_of (info_session i) xs in take k xs @ i # drop k xs)"

definition remove_slot :: "nat \<Rightarrow> SessionInfo list \<Rightarrow> SessionInfo list" where
  "remove_slot k xs = take k xs @ drop (k + 1) xs"

lemma length_infos: "ipc_inv s \<Longrightarrow> length (infos s) = nbActiveSessions s"
  by (simp add: ipc_inv_def infos_def)

lemma nth_infos: "i < nbActiveSessions s \<Longrightarrow> infos s ! i = sessionInfos s ! i"
  by (simp add: infos_def)

lemma sorted_infos_nth_less:
  assumes "sorted_infos xs" and "i < j" and "j < length xs"
  shows "info_session (xs ! i) < info_session (xs ! j)"
  using assms unfolding sorted_infos_def sorted_wrt_iff_nth_less by auto

lemma sorted_infos_nth_le:
  assumes "sorted_infos xs" and "i \<le> j" and "j < length xs"
  shows "info_session (xs ! i) \<le> info_session (xs ! j)"
  using sorted_infos_nth_less [OF assms(1), of i j] assms(2,3) by (cases "i = j") auto

lemma slot_of_eqI:
  assumes "k \<le> length xs" and "\<And>i. i < k \<Longrightarrow> info_session (xs ! i) < session"
    and "k < length xs \<Longrightarrow> \<not> info_session (xs ! k) < session"
  shows "slot_of session xs = k"
proof -
  have "takeWhile (\<lambda>i. info_session i < session) xs = take k xs"
    using assms by (intro takeWhile_eq_take_P_nth) auto
  then show ?thesis using assms(1) by (simp add: slot_of_def)
qed

lemma slot_of_le: "slot_of session xs \<le> length xs"
  by (simp add: slot_of_def length_takeWhile_le)

lemma slot_of_below: "i < slot_of session xs \<Longrightarrow> info_session (xs ! i) < session"
  unfolding slot_of_def by (metis (no_types, lifting) nth_mem set_takeWhileD takeWhile_nth)

lemma slot_of_at: "slot_of session xs < length xs \<Longrightarrow> session \<le> info_session (xs ! slot_of session xs)"
  unfolding slot_of_def using nth_length_takeWhile by fastforce

lemma closest_loop_bounds:
  assumes "a < b" and "info_session (xs ! a) < session" and "session \<le> info_session (xs ! b)"
  defines "r \<equiv> closest_loop xs session a b"
  shows "a < r \<and> r \<le> b \<and> session \<le> info_session (xs ! r) \<and>
         (info_session (xs ! r) = session \<or> info_session (xs ! (r - 1)) < session)"
  using assms(1-3) unfolding r_def
proof (induction xs session a b rule: closest_loop.induct)
  case (1 infos session a b)
  let ?m = "(a + b) div 2"
  have m: "a \<le> ?m" "?m < b" using 1(3) by auto
  consider (less) "info_session (infos ! ?m) < session" | (greater) "info_session (infos ! ?m) > session"
    | (eq) "info_session (infos ! ?m) = session" by force
  then show ?case
  proof cases
    case less
    show ?thesis
    proof (cases "b - ?m > 1")
      case True
      then have "closest_loop infos session a b = closest_loop infos session ?m b"
        using less closest_loop.simps [of infos session a b] by (simp only: Let_def if_True)
      then show ?thesis using 1(1) [OF refl less True] less True m 1(5) by auto
    next
      case False
      then have "closest_loop infos session a b = b"
        using less closest_loop.simps [of infos session a b] by (simp only: Let_def if_True if_False)
      moreover have "b - 1 = ?m" using m False by linarith
      ultimately show ?thesis using less m 1(3,5) by auto
    qed
  next
    case greater
    then have nl: "\<not> info_session (infos ! ?m) < session" and ne: "?m \<noteq> a" using 1(4) by auto
    show ?thesis
    proof (cases "?m - a > 1")
      case True
      then have "closest_loop infos session a b = closest_loop infos session a ?m"
        using nl greater closest_loop.simps [of infos session a b] by (simp only: Let_def if_True if_False)
      moreover note 1(2) [OF refl nl greater True]
      moreover have "a < ?m" "session \<le> info_session (infos ! ?m)" using True greater by simp_all
      ultimately show ?thesis using m(2) 1(4) by (metis less_imp_le_nat le_trans)
    next
      case False
      then have "closest_loop infos session a b = ?m"
        using nl greater closest_loop.simps [of infos session a b] by (simp only: Let_def if_True if_False)
      moreover have "?m - 1 = a" using m ne False by linarith
      ultimately show ?thesis using greater m ne 1(4) by auto
    qed
  next
    case eq
    then have "closest_loop infos session a b = ?m" 
      using closest_loop.simps [of infos session a b] by (simp only: Let_def less_irrefl if_False)
    moreover have "?m \<noteq> a" using eq 1(4) by auto
    ultimately show ?thesis using eq m by auto
  qed
qed

lemma closest_slot_infos:
  assumes "ipc_inv s"
  shows "SessionInfo_FindClosestSlot session s = slot_of session (infos s)"
proof -
  let ?n = "nbActiveSessions s" and ?xs = "infos s"
  have len: "length ?xs = ?n" and srt: "sorted_infos ?xs"
    using assms by (simp_all add: length_infos) (simp add: ipc_inv_def)
  have nth: "sessionInfos s ! i = ?xs ! i" if "i < ?n" for i using that by (simp add: nth_infos)
  consider "?n = 0" | "0 < ?n" "session \<le> info_session (?xs ! 0)"
    | "0 < ?n" "info_session (?xs ! 0) < session" "info_session (?xs ! (?n - 1)) < session"
    | "0 < ?n" "info_session (?xs ! 0) < session" "session \<le> info_session (?xs ! (?n - 1))" by force
  then show ?thesis
  proof cases
    case 1
    then show ?thesis using slot_of_le [of session ?xs] len by (simp add: SessionInfo_FindClosestSlot_def)
  next
    case 2
    have "slot_of session ?xs = 0" using 2 by (intro slot_of_eqI) auto
    then show ?thesis using 2 by (simp add: SessionInfo_FindClosestSlot_def nth)
  next
    case 3
    have "info_session (?xs ! i) \<le> info_session (?xs ! (?n - 1))" if "i < ?n" for i
      using that len by (intro sorted_infos_nth_le [OF srt]) auto
    then have "slot_of session ?xs = ?n" using 3 len by (intro slot_of_eqI) (auto intro: le_less_trans)
    then show ?thesis using 3 by (simp add: SessionInfo_FindClosestSlot_def nth not_le)
  next
    case 4
    define r where "r = closest_loop (sessionInfos s) session 0 (?n - 1)"
    have "?n - 1 \<noteq> 0" using 4 by (intro notI) simp
    then have r: "0 < r \<and> r \<le> ?n - 1 \<and> session \<le> info_session (sessionInfos s ! r) \<and>
       (info_session (sessionInfos s ! r) = session \<or> info_session (sessionInfos s ! (r - 1)) < session)"
      unfolding r_def using 4 by (intro closest_loop_bounds) (simp_all add: nth)
    have rn: "r < ?n" "r - 1 < ?n" using r 4(1) by auto
    have below: "info_session (?xs ! i) < session" if "i < r" for i
    proof (cases "info_session (?xs ! r) = session")
      case True
      then show ?thesis using sorted_infos_nth_less [OF srt that] rn len by simp
    next
      case False
      then have "info_session (?xs ! (r - 1)) < session" using r rn by (simp add: nth)
      moreover have "info_session (?xs ! i) \<le> info_session (?xs ! (r - 1))"
        using that rn len by (intro sorted_infos_nth_le [OF srt]) auto
      ultimately show ?thesis by simp
    qed
    have "slot_of session ?xs = r" using r rn below len by (intro slot_of_eqI) (auto simp: nth not_less)
    moreover have "\<not> session \<le> info_session (?xs ! 0)" "\<not> info_session (?xs ! (?n - 1)) < session" using 4 by auto
    ultimately show ?thesis using 4(1) unfolding SessionInfo_FindClosestSlot_def r_def
      by (simp add: nth del: not_le not_less)
  qed
qed

text \<open>The shifting loops.\<close>

lemma length_shift_up [simp]: "length (shift_up i k xs) = length xs"
  by (induction i k xs rule: shift_up.induct) auto

lemma shift_up_nth:
  assumes "k < length xs" and "j < length xs"
  shows "shift_up i k xs ! j = (if i < j \<and> j \<le> k then xs ! (j - 1) else xs ! j)"
  using assms
proof (induction i k xs rule: shift_up.induct)
  case (2 i k infos)
  then show ?case by (auto simp: nth_list_update le_Suc_eq)
qed simp

lemma length_shift_down [simp]: "length (shift_down i k xs) = length xs"
  by (induction i k xs rule: shift_down.induct) auto

lemma shift_down_nth:
  assumes "i + k < length xs" and "j < length xs"
  shows "shift_down i k xs ! j = (if i \<le> j \<and> j < i + k then xs ! (j + 1) else xs ! j)"
  using assms
proof (induction i k xs rule: shift_down.induct)
  case (2 i k infos)
  then show ?case by (auto simp: nth_list_update)
qed auto

lemma shift_up_insert:
  assumes "i \<le> n" and "n < length xs"
  shows "take (n + 1) ((shift_up i n xs)[i := x]) = take i (take n xs) @ x # drop i (take n xs)"
proof (rule nth_equalityI)
  show "length (take (n + 1) ((shift_up i n xs)[i := x])) = length (take i (take n xs) @ x # drop i (take n xs))"
    using assms by simp
  show "take (n + 1) ((shift_up i n xs)[i := x]) ! j = (take i (take n xs) @ x # drop i (take n xs)) ! j"
    if "j < length (take (n + 1) ((shift_up i n xs)[i := x]))" for j
  proof -
    have j: "j \<le> n" "j < length xs" using that assms by auto
    show ?thesis
    proof (cases "j \<le> i")
      case True
      then show ?thesis using j assms by (auto simp: shift_up_nth nth_append nth_list_update min_def)
    next
      case False
      then show ?thesis using j assms by (simp add: shift_up_nth nth_append nth_list_update nth_Cons' min_def)
    qed
  qed
qed

lemma shift_down_remove:
  assumes "i \<le> n" and "n < length xs"
  shows "take n ((shift_down i (n - i) xs)[n := z]) = remove_slot i (take (n + 1) xs)"
proof (rule nth_equalityI)
  show "length (take n ((shift_down i (n - i) xs)[n := z])) = length (remove_slot i (take (n + 1) xs))"
    using assms by (simp add: remove_slot_def)
  show "take n ((shift_down i (n - i) xs)[n := z]) ! j = remove_slot i (take (n + 1) xs) ! j"
    if "j < length (take n ((shift_down i (n - i) xs)[n := z]))" for j
    using that assms by (auto simp: remove_slot_def shift_down_nth nth_append nth_list_update min_def)
qed

lemma infos_add:
  assumes "ipc_inv s" and "nbActiveSessions s < MAX_SESSION" and "session \<notin> info_session ` set (infos s)"
  shows "infos (add_info session name s) = insert_info \<lparr>info_session = session, info_name = strncpy12 name\<rparr> (infos s)"
    and "nbActiveSessions (add_info session name s) = nbActiveSessions s + 1"
proof -
  let ?k = "slot_of session (infos s)" and ?n = "nbActiveSessions s"
  have k: "?k \<le> ?n" using slot_of_le [of session "infos s"] assms(1) by (simp add: length_infos)
  have "?k = ?n \<or> info_session (sessionInfos s ! ?k) \<noteq> session"
  proof (rule disjCI)
    assume "\<not> info_session (sessionInfos s ! ?k) \<noteq> session"
    moreover have "?k < ?n \<Longrightarrow> infos s ! ?k \<in> set (infos s)" using assms(1) by (simp add: length_infos)
    ultimately show "?k = ?n" using k nth_infos [of ?k s] assms(3) by (cases "?k = ?n") (auto simp: image_iff)
  qed
  moreover have "?n < length (sessionInfos s)" using assms by (simp add: ipc_inv_def)
  ultimately show "infos (add_info session name s) = insert_info \<lparr>info_session = session, info_name = strncpy12 name\<rparr> (infos s)"
    "nbActiveSessions (add_info session name s) = ?n + 1"
    using assms(2) shift_up_insert [OF k, of "sessionInfos s"]
    by (auto simp: add_info_def closest_slot_infos [OF assms(1)] insert_info_def infos_def Let_def)
qed

lemma infos_remove:
  assumes "ipc_inv s" and "nbActiveSessions s < MAX_SESSION" and "slot_of session (infos s) < nbActiveSessions s"
  shows "infos (SessionInfo_Remove session s) = remove_slot (slot_of session (infos s)) (infos s)"
    and "nbActiveSessions (SessionInfo_Remove session s) = nbActiveSessions s - 1"
proof -
  let ?k = "slot_of session (infos s)" and ?n = "nbActiveSessions s - 1"
  have "?k \<le> ?n" "?n < length (sessionInfos s)" using assms by (auto simp: ipc_inv_def)
  from shift_down_remove [OF this, of zero_info] assms(2,3)
  show "infos (SessionInfo_Remove session s) = remove_slot ?k (infos s)" "nbActiveSessions (SessionInfo_Remove session s) = ?n"
    by (simp_all add: SessionInfo_Remove_def closest_slot_infos [OF assms(1)] infos_def Let_def)
qed

end
