(* ===== verification/K11_Table.thy ===== *)
theory K11_Table
  imports K11_Ipc
begin

text \<open>
  The session table as a finite map from sessions to names: the interface of the table as a
  locale, its interpretation on the sorted array of \<open>K11_Ipc\<close>, and the properties of
  \<open>SessionInfo_FindClosestSlot\<close>, \<open>SessionInfo_Lookup\<close>, \<open>SessionInfo_Add\<close> and
  \<open>SessionInfo_Remove\<close>.
\<close>

section \<open>Sorted lists of entries\<close>

definition names_in :: "SessionInfo list \<Rightarrow> u32 \<Rightarrow> u8 list option" where
  "names_in xs = map_of (map (\<lambda>i. (info_session i, info_name i)) xs)"

lemma dom_names_in: "dom (names_in xs) = info_session ` set xs"
  by (simp add: names_in_def dom_map_of_conv_image_fst image_image)

lemma names_in_append: "names_in (xs @ ys) = names_in ys ++ names_in xs"
  by (simp add: names_in_def)

lemma names_in_Cons: "names_in (x # xs) = (names_in xs)(info_session x \<mapsto> info_name x)"
  by (simp add: names_in_def)

lemma sorted_infos_append:
  "sorted_infos (xs @ ys) \<longleftrightarrow> sorted_infos xs \<and> sorted_infos ys \<and>
     (\<forall>x \<in> set xs. \<forall>y \<in> set ys. info_session x < info_session y)"
  by (simp add: sorted_infos_def sorted_wrt_append)

lemma sorted_infos_Cons:
  "sorted_infos (x # xs) \<longleftrightarrow> (\<forall>y \<in> set xs. info_session x < info_session y) \<and> sorted_infos xs"
  by (simp add: sorted_infos_def)

lemma split_at_slot:
  fixes session :: u32
  assumes "sorted_infos xs"
  defines "k \<equiv> slot_of session xs"
  shows "xs = take k xs @ drop k xs" and "\<forall>x \<in> set (take k xs). info_session x < session"
    and "\<forall>x \<in> set (drop k xs). session \<le> info_session x"
proof -
  show "\<forall>x \<in> set (take k xs). info_session x < session"
    by (auto simp: k_def in_set_conv_nth slot_of_below)
  show "\<forall>x \<in> set (drop k xs). session \<le> info_session x"
  proof (clarsimp simp: in_set_conv_nth)
    fix i assume i: "i < length xs - k"
    then have "k < length xs" by simp
    then have "session \<le> info_session (xs ! k)" unfolding k_def by (rule slot_of_at)
    also have "\<dots> \<le> info_session (xs ! (k + i))" using i by (intro sorted_infos_nth_le [OF assms(1)]) auto
    finally show "session \<le> info_session (xs ! (k + i))" .
  qed
qed simp

lemma sorted_insert_info:
  assumes "sorted_infos xs" and "info_session i \<notin> info_session ` set xs"
  shows "sorted_infos (insert_info i xs)"
proof -
  define k where "k = slot_of (info_session i) xs"
  note sp = split_at_slot [OF assms(1), of "info_session i", folded k_def]
  have "\<forall>x \<in> set (drop k xs). info_session i < info_session x"
    using sp(3) assms(2) by (metis image_eqI in_set_dropD order.not_eq_order_implies_strict)
  moreover have "sorted_infos (take k xs @ drop k xs)" using assms(1) by simp
  ultimately show ?thesis
    using sp(2) unfolding insert_info_def Let_def k_def [symmetric]
    by (simp only: sorted_infos_append sorted_infos_Cons set_simps) auto
qed

lemma names_insert_info:
  assumes "sorted_infos xs" and "info_session i \<notin> info_session ` set xs"
  shows "names_in (insert_info i xs) = (names_in xs)(info_session i \<mapsto> info_name i)"
proof -
  define k where "k = slot_of (info_session i) xs"
  have "names_in xs = names_in (drop k xs) ++ names_in (take k xs)"
    using names_in_append [of "take k xs" "drop k xs"] by simp
  moreover have "info_session i \<notin> dom (names_in (take k xs))"
    using assms(2) by (auto simp: dom_names_in dest: in_set_takeD)
  ultimately show ?thesis
    by (simp add: insert_info_def Let_def k_def [symmetric] names_in_append names_in_Cons map_add_upd_left)
qed

lemma sorted_remove_slot: "sorted_infos xs \<Longrightarrow> sorted_infos (remove_slot k xs)"
proof -
  assume s: "sorted_infos xs"
  have "sorted_infos (take (k + 1) xs @ drop (k + 1) xs)" using s by simp
  then show ?thesis unfolding remove_slot_def sorted_infos_append
    by (metis add.commute append_take_drop_id in_set_takeD s set_take_subset_set_take sorted_infos_append
        subset_iff le_add2)
qed

lemma names_remove_slot:
  assumes "sorted_infos xs" and "k < length xs"
  shows "names_in (remove_slot k xs) = (names_in xs)(info_session (xs ! k) := None)"
proof -
  have xs: "xs = take k xs @ xs ! k # drop (k + 1) xs" using assms(2) by (simp add: id_take_nth_drop)
  have "sorted_infos (take k xs @ xs ! k # drop (k + 1) xs)" using assms(1) xs by simp
  then have "info_session (xs ! k) \<notin> info_session ` set (take k xs)"
    "info_session (xs ! k) \<notin> info_session ` set (drop (k + 1) xs)"
    unfolding sorted_infos_append sorted_infos_Cons by fastforce+
  then have none: "names_in (take k xs) (info_session (xs ! k)) = None"
    "names_in (drop (k + 1) xs) (info_session (xs ! k)) = None"
    using dom_names_in by (metis domIff)+
  have "names_in xs = (names_in (drop (k + 1) xs))(info_session (xs ! k) \<mapsto> info_name (xs ! k)) ++ names_in (take k xs)"
    using arg_cong [OF xs, of names_in] by (simp only: names_in_append names_in_Cons)
  then show ?thesis
    using none by (auto simp: remove_slot_def names_in_append map_add_def fun_eq_iff split: option.splits)
qed

lemma slot_of_present:
  assumes "sorted_infos xs" and "session \<in> info_session ` set xs"
  shows "slot_of session xs < length xs \<and> info_session (xs ! slot_of session xs) = session"
proof -
  define k where "k = slot_of session xs"
  note sp = split_at_slot [OF assms(1), of session, folded k_def]
  obtain x where x: "x \<in> set xs" "info_session x = session" using assms(2) by auto
  then have "x \<in> set (drop k xs)" using sp(1,2) by (metis Un_iff less_irrefl set_append)
  then have k: "k < length xs" by (cases "k < length xs") auto
  obtain j where j: "j < length xs" "xs ! j = x" using x(1) by (auto simp: in_set_conv_nth)
  have "\<not> j < k" using slot_of_below [of j session xs] j x(2) by (auto simp: k_def)
  then have "info_session (xs ! k) \<le> session"
    using sorted_infos_nth_le [OF assms(1), of k j] j x(2) by simp
  then show ?thesis using slot_of_at [of session xs] k by (simp add: k_def antisym)
qed

section \<open>The table as a map\<close>

definition names_of :: "ipc_state \<Rightarrow> u32 \<Rightarrow> u8 list option" where
  "names_of s = names_in (infos s)"

definition table_full :: "ipc_state \<Rightarrow> bool" where
  "table_full s \<longleftrightarrow> nbActiveSessions s = MAX_SESSION"

text \<open>The entry an operation picks for a session: the first one not below it.\<close>

definition ceiling_of :: "u32 \<Rightarrow> ipc_state \<Rightarrow> u32 option" where
  "ceiling_of session s = map_option info_session (find (\<lambda>i. session \<le> info_session i) (infos s))"

text \<open>What a client of the table relies on; \<open>near k s\<close> is the key an operation on \<open>k\<close> acts on.\<close>

locale session_map =
  fixes inv :: "'s \<Rightarrow> bool"
    and names :: "'s \<Rightarrow> 'k \<Rightarrow> 'v option"
    and full :: "'s \<Rightarrow> bool"
    and near :: "'k \<Rightarrow> 's \<Rightarrow> 'k option"
    and add :: "'k \<Rightarrow> 'v \<Rightarrow> 's \<Rightarrow> 's"
    and remove :: "'k \<Rightarrow> 's \<Rightarrow> 's"
    and norm :: "'v \<Rightarrow> 'v"
  assumes inv_add: "inv s \<Longrightarrow> inv (add k v s)"
    and inv_remove: "inv s \<Longrightarrow> inv (remove k s)"
    and full_add: "full s \<Longrightarrow> add k v s = s"
    and full_remove: "full s \<Longrightarrow> remove k s = s"
    and names_add: "inv s \<Longrightarrow> \<not> full s \<Longrightarrow>
          names (add k v s) = (if k \<in> dom (names s) then names s else (names s)(k \<mapsto> norm v))"
    and names_remove: "inv s \<Longrightarrow> \<not> full s \<Longrightarrow>
          names (remove k s) = (case near k s of None \<Rightarrow> names s | Some k' \<Rightarrow> (names s)(k' := None))"
    and near_present: "inv s \<Longrightarrow> k \<in> dom (names s) \<Longrightarrow> near k s = Some k"
begin

lemma names_remove_present:
  "inv s \<Longrightarrow> \<not> full s \<Longrightarrow> k \<in> dom (names s) \<Longrightarrow> names (remove k s) = (names s)(k := None)"
  by (simp add: names_remove near_present)

lemma add_then_remove:
  assumes "inv s" and "\<not> full s" and "\<not> full (add k v s)" and "k \<notin> dom (names s)"
  shows "names (remove k (add k v s)) = names s"
proof -
  have "names (add k v s) = (names s)(k \<mapsto> norm v)" using assms by (simp add: names_add)
  moreover have "names s k = None" using assms(4) by blast
  ultimately show ?thesis
    using assms by (subst names_remove_present) (simp_all add: inv_add fun_upd_idem)
qed

text \<open>A sequence of operations; a full table never changes again.\<close>

definition run :: "('k \<times> 'v option) list \<Rightarrow> 's \<Rightarrow> 's" where
  "run ops s = fold (\<lambda>(k, v) s. case v of None \<Rightarrow> remove k s | Some v \<Rightarrow> add k v s) ops s"

lemma run_inv: "inv s \<Longrightarrow> inv (run ops s)"
  by (induction ops arbitrary: s) (auto simp: run_def inv_add inv_remove split: option.splits)

lemma run_full: "full s \<Longrightarrow> run ops s = s"
  by (induction ops) (auto simp: run_def full_add full_remove split: option.splits)

end

lemma find_slot_of:
  "find (\<lambda>i. session \<le> info_session i) xs =
     (if slot_of session xs < length xs then Some (xs ! slot_of session xs) else None)"
  by (induction xs) (auto simp: slot_of_def)

lemma ceiling_of_slot:
  "ipc_inv s \<Longrightarrow> ceiling_of session s =
     (if slot_of session (infos s) < nbActiveSessions s
      then Some (info_session (infos s ! slot_of session (infos s))) else None)"
  by (simp add: ceiling_of_def find_slot_of length_infos)

lemma present_not_added:
  assumes "ipc_inv s" and "session \<in> dom (names_of s)"
  shows "add_info session name s = s"
proof -
  have "slot_of session (infos s) < nbActiveSessions s \<and> info_session (infos s ! slot_of session (infos s)) = session"
    using slot_of_present [of "infos s" session] assms
    by (simp add: names_of_def dom_names_in length_infos) (simp add: ipc_inv_def)
  then show ?thesis
    by (auto simp: add_info_def closest_slot_infos [OF assms(1)] Let_def nth_infos)
qed

lemma ipc_inv_add_info: "ipc_inv s \<Longrightarrow> ipc_inv (add_info session name s)"
proof -
  assume inv: "ipc_inv s"
  consider "nbActiveSessions s = MAX_SESSION" | "session \<in> dom (names_of s)"
    | "nbActiveSessions s < MAX_SESSION" "session \<notin> info_session ` set (infos s)"
    using inv by (force simp: ipc_inv_def names_of_def dom_names_in)
  then show "ipc_inv (add_info session name s)"
  proof cases
    case 1
    then show ?thesis using inv by (simp add: add_info_def)
  next
    case 2
    then show ?thesis using inv by (simp add: present_not_added)
  next
    case 3
    have "length (sessionInfos (add_info session name s)) = length (sessionInfos s)"
      by (simp add: add_info_def Let_def)
    then show ?thesis
      using inv 3 infos_add [OF inv 3, of name] sorted_insert_info [of "infos s" "\<lparr>info_session = session, info_name = strncpy12 name\<rparr>"]
      by (simp add: ipc_inv_def)
  qed
qed

lemma ipc_inv_remove: "ipc_inv s \<Longrightarrow> ipc_inv (SessionInfo_Remove session s)"
proof -
  assume inv: "ipc_inv s"
  consider "nbActiveSessions s = MAX_SESSION" | "\<not> slot_of session (infos s) < nbActiveSessions s"
    | "nbActiveSessions s < MAX_SESSION" "slot_of session (infos s) < nbActiveSessions s"
    using inv by (force simp: ipc_inv_def)
  then show "ipc_inv (SessionInfo_Remove session s)"
  proof cases
    case 1
    then show ?thesis using inv by (simp add: SessionInfo_Remove_def)
  next
    case 2
    then show ?thesis using inv slot_of_le [of session "infos s"]
      by (simp add: SessionInfo_Remove_def closest_slot_infos length_infos)
  next
    case 3
    have "length (sessionInfos (SessionInfo_Remove session s)) = length (sessionInfos s)"
      by (simp add: SessionInfo_Remove_def Let_def)
    then show ?thesis
      using inv 3 infos_remove [OF inv 3] sorted_remove_slot [of "infos s" "slot_of session (infos s)"]
      by (simp add: ipc_inv_def)
  qed
qed

interpretation table: session_map ipc_inv names_of table_full ceiling_of add_info SessionInfo_Remove strncpy12
proof unfold_locales
  fix s :: ipc_state and k :: u32 and v :: "u8 list"
  show "table_full s \<Longrightarrow> add_info k v s = s" "table_full s \<Longrightarrow> SessionInfo_Remove k s = s"
    by (simp_all add: table_full_def add_info_def SessionInfo_Remove_def)
  assume inv: "ipc_inv s"
  then show "ipc_inv (add_info k v s)" "ipc_inv (SessionInfo_Remove k s)"
    by (rule ipc_inv_add_info, rule ipc_inv_remove)
  have srt: "sorted_infos (infos s)" using inv by (simp add: ipc_inv_def)
  show "ceiling_of k s = Some k" if "k \<in> dom (names_of s)"
    using slot_of_present [OF srt, of k] that inv
    by (simp add: names_of_def dom_names_in ceiling_of_slot length_infos)
  assume "\<not> table_full s"
  then have room: "nbActiveSessions s < MAX_SESSION" using inv by (simp add: table_full_def ipc_inv_def)
  show "names_of (add_info k v s) = (if k \<in> dom (names_of s) then names_of s else (names_of s)(k \<mapsto> strncpy12 v))"
  proof (cases "k \<in> dom (names_of s)")
    case True
    then show ?thesis using inv by (simp add: present_not_added)
  next
    case False
    then have "k \<notin> info_session ` set (infos s)" by (simp add: names_of_def dom_names_in)
    then show ?thesis
      using False infos_add [OF inv room, of k v] names_insert_info [OF srt, of "\<lparr>info_session = k, info_name = strncpy12 v\<rparr>"]
      by (simp add: names_of_def)
  qed
  show "names_of (SessionInfo_Remove k s) =
     (case ceiling_of k s of None \<Rightarrow> names_of s | Some k' \<Rightarrow> (names_of s)(k' := None))"
  proof (cases "slot_of k (infos s) < nbActiveSessions s")
    case True
    then show ?thesis
      using infos_remove [OF inv room True] names_remove_slot [OF srt, of "slot_of k (infos s)"] inv
      by (simp add: names_of_def ceiling_of_slot length_infos)
  next
    case False
    then show ?thesis using inv room slot_of_le [of k "infos s"]
      by (simp add: SessionInfo_Remove_def closest_slot_infos ceiling_of_slot length_infos)
  qed
qed

lemma ipc_inv_init: "ipc_inv (ipc_init vt)"
  by (simp add: ipc_inv_def ipc_init_def infos_def sorted_infos_def)

lemma ipc_inv_ChangeVtable [simp]: "ipc_inv (SessionInfo_ChangeVtable E k s) = ipc_inv s"
  by (simp add: ipc_inv_def SessionInfo_ChangeVtable_def infos_def Let_def)

lemma ipc_inv_kernel_steps: "ipc_inv s \<Longrightarrow> ipc_inv (kernel_steps E es s)"
proof (induction es arbitrary: s)
  case (Cons e es)
  have "ipc_inv (kernel_step E e s)"
    using Cons.prems by (cases e) (simp_all add: KSession_dtor_def table.inv_add table.inv_remove, simp add: ipc_inv_def infos_def)
  then show ?case using Cons.IH by (simp add: kernel_steps_def)
qed (simp add: kernel_steps_def)

lemma lookup_present:
  assumes "ipc_inv s" and "names_of s k = Some n" and "vtable_of s k = custom_addr E"
  shows "\<exists>i. SessionInfo_Lookup E k s = Some i \<and> info_name (sessionInfos s ! i) = n"
proof -
  let ?i = "slot_of k (infos s)"
  have srt: "sorted_infos (infos s)" using assms(1) by (simp add: ipc_inv_def)
  have "k \<in> info_session ` set (infos s)" using assms(2) dom_names_in [of "infos s"] by (auto simp: names_of_def)
  then have i: "?i < nbActiveSessions s" "info_session (infos s ! ?i) = k"
    using slot_of_present [OF srt] assms(1) by (simp_all add: length_infos)
  have "distinct (map info_session (infos s))" using srt by (simp add: sorted_infos_def strict_sorted_iff)
  then have "names_of s (info_session (infos s ! ?i)) = Some (info_name (infos s ! ?i))"
    unfolding names_of_def names_in_def using i(1) assms(1)
    by (intro map_of_is_SomeI) (auto simp: comp_def length_infos)
  then have "info_name (sessionInfos s ! ?i) = n" using assms(2) i nth_infos [OF i(1)] by simp
  then show ?thesis
    using assms(1,3) i nth_infos [OF i(1)]
    by (simp add: SessionInfo_Lookup_def closest_slot_infos has_custom_vtable_def Let_def)
qed

section \<open>Properties of the table\<close>

definition demo_table :: ipc_state where
  "demo_table = (ipc_init (\<lambda>_. 7))\<lparr>sessionInfos :=
     [\<lparr>info_session = 0x10, info_name = strncpy12 (chars ''srv:'')\<rparr>,
      \<lparr>info_session = 0x20, info_name = strncpy12 (chars ''cfg:u'')\<rparr>,
      \<lparr>info_session = 0x40, info_name = strncpy12 (chars ''ndm:u'')\<rparr>] @ replicate 342 zero_info,
     nbActiveSessions := 3\<rparr>"

definition demo_ipc_env :: ipc_env where
  "demo_ipc_env = \<lparr>custom_addr = 7, dtor_hook_addr = 8, vtable_words = (\<lambda>_. replicate 16 1)\<rparr>"

lemma demo_table_infos: "infos demo_table =
     [\<lparr>info_session = 0x10, info_name = strncpy12 (chars ''srv:'')\<rparr>,
      \<lparr>info_session = 0x20, info_name = strncpy12 (chars ''cfg:u'')\<rparr>,
      \<lparr>info_session = 0x40, info_name = strncpy12 (chars ''ndm:u'')\<rparr>]"
  "nbActiveSessions demo_table = 3" "vtable_of demo_table = (\<lambda>_. 7)"
  by (simp_all add: demo_table_def infos_def ipc_init_def)

lemma demo_table_inv: "ipc_inv demo_table"
  by (simp add: ipc_inv_def demo_table_infos sorted_infos_def MAX_SESSION_def) (simp add: demo_table_def)

text \<open>C31. The binary search ends on every table and returns the position of the first entry that
  is not below the session: all entries before it are below, all from it on are not.\<close>

theorem closest_slot:
  fixes session :: u32
  assumes "ipc_inv s"
  defines "r \<equiv> SessionInfo_FindClosestSlot session s"
  shows "r \<le> nbActiveSessions s \<and>
         (\<forall>i < r. info_session (sessionInfos s ! i) < session) \<and>
         (\<forall>i. r \<le> i \<and> i < nbActiveSessions s \<longrightarrow> session \<le> info_session (sessionInfos s ! i))"
proof -
  have r: "r = slot_of session (infos s)" using assms by (simp add: closest_slot_infos)
  have srt: "sorted_infos (infos s)" and len: "length (infos s) = nbActiveSessions s"
    using assms(1) by (simp add: ipc_inv_def) (rule length_infos [OF assms(1)])
  have le: "r \<le> nbActiveSessions s" using slot_of_le [of session "infos s"] by (simp add: r len)
  moreover have "info_session (sessionInfos s ! i) < session" if "i < r" for i
    using slot_of_below [of i session "infos s"] that le by (simp add: r nth_infos)
  moreover have "session \<le> info_session (sessionInfos s ! i)" if "r \<le> i" "i < nbActiveSessions s" for i
    using slot_of_at [of session "infos s"] sorted_infos_nth_le [OF srt, of r i] that
    by (simp add: r len nth_infos)
  ultimately show ?thesis by simp
qed

lemma closest_slot_witness: "SessionInfo_FindClosestSlot 0x20 demo_table = 1"
proof -
  let ?r = "SessionInfo_FindClosestSlot 0x20 demo_table"
  note r = closest_slot [OF demo_table_inv, of "0x20"]
  have e: "info_session (sessionInfos demo_table ! 0) = 0x10" "info_session (sessionInfos demo_table ! 1) = 0x20"
    by (simp_all add: demo_table_def)
  have "\<not> 1 < ?r" using r e(2) by fastforce
  moreover have "\<not> ?r \<le> 0" using r e(1) demo_table_infos(2) by fastforce
  ultimately show ?thesis by simp
qed

text \<open>C32. The table refines a finite map: as long as it is not full, adding a session inserts it
  under its name unless it is there, and removing one deletes the first entry not below it, which
  is the session itself if it is registered and a neighbour otherwise. A full table ignores both,
  so it never shrinks again. The table stays sorted, without duplicates and within its bounds.\<close>

theorem table_refines_map:
  assumes "ipc_inv s"
  shows "ipc_inv (add_info session name s) \<and> ipc_inv (SessionInfo_Remove session s) \<and>
    (if table_full s then add_info session name s = s \<and> SessionInfo_Remove session s = s
     else names_of (add_info session name s) =
            (if session \<in> dom (names_of s) then names_of s else (names_of s)(session \<mapsto> strncpy12 name)) \<and>
          names_of (SessionInfo_Remove session s) =
            (case ceiling_of session s of None \<Rightarrow> names_of s | Some k \<Rightarrow> (names_of s)(k := None)) \<and>
          (session \<in> dom (names_of s) \<longrightarrow> ceiling_of session s = Some session))"
  using assms table.inv_add table.inv_remove table.full_add table.full_remove
    table.names_add table.names_remove table.near_present by auto

lemma table_refines_map_witness:
  "names_of (SessionInfo_Remove 0x30 demo_table) = (names_of demo_table)(0x40 := None)"
proof -
  have "\<not> table_full demo_table" by (simp add: table_full_def demo_table_infos MAX_SESSION_def)
  moreover have "ceiling_of 0x30 demo_table = Some 0x40" by (simp add: ceiling_of_def demo_table_infos)
  ultimately show ?thesis using table_refines_map [OF demo_table_inv, where session = "0x30"] by simp
qed

text \<open>Looking up a session yields the first entry not below it, if that entry's session still
  has the extension's vtable. A registered session yields its own entry; one that was never
  registered yields its neighbour's, and with it the name of another service.\<close>

theorem lookup_result:
  assumes "ipc_inv s"
  shows "case SessionInfo_Lookup E session s of
       Some i \<Rightarrow> i < nbActiveSessions s \<and> ceiling_of session s = Some (info_session (sessionInfos s ! i)) \<and>
         vtable_of s (info_session (sessionInfos s ! i)) = custom_addr E \<and>
         names_of s (info_session (sessionInfos s ! i)) = Some (info_name (sessionInfos s ! i)) \<and>
         (session \<in> dom (names_of s) \<longrightarrow> info_session (sessionInfos s ! i) = session)
     | None \<Rightarrow> ceiling_of session s = None \<or>
         (\<exists>k. ceiling_of session s = Some k \<and> vtable_of s k \<noteq> custom_addr E)"
proof (cases "slot_of session (infos s) < nbActiveSessions s")
  case True
  let ?i = "slot_of session (infos s)"
  have nth: "infos s ! ?i = sessionInfos s ! ?i" using True by (rule nth_infos)
  have srt: "sorted_infos (infos s)" and len: "length (infos s) = nbActiveSessions s"
    using assms(1) by (simp add: ipc_inv_def) (rule length_infos [OF assms(1)])
  have "distinct (map info_session (infos s))"
    using srt by (simp add: sorted_infos_def strict_sorted_iff)
  then have "names_of s (info_session (infos s ! ?i)) = Some (info_name (infos s ! ?i))"
    unfolding names_of_def names_in_def using True len by (intro map_of_is_SomeI) (auto simp: comp_def)
  moreover have "session \<in> dom (names_of s) \<Longrightarrow> info_session (infos s ! ?i) = session"
    using slot_of_present [OF srt, of session] by (simp add: names_of_def dom_names_in)
  ultimately show ?thesis
    using True assms by (auto simp: SessionInfo_Lookup_def closest_slot_infos ceiling_of_slot has_custom_vtable_def nth Let_def)
next
  case False
  then show ?thesis using assms slot_of_le [of session "infos s"]
    by (simp add: SessionInfo_Lookup_def closest_slot_infos ceiling_of_slot length_infos)
qed

lemma lookup_result_witness:
  "\<exists>i. SessionInfo_Lookup demo_ipc_env 0x30 demo_table = Some i \<and> info_session (sessionInfos demo_table ! i) = 0x40"
proof (cases "SessionInfo_Lookup demo_ipc_env 0x30 demo_table")
  case None
  then show ?thesis using lookup_result [OF demo_table_inv, where E = demo_ipc_env and session = "0x30"]
    by (simp add: demo_ipc_env_def demo_table_infos ceiling_of_def)
next
  case (Some i)
  then show ?thesis using lookup_result [OF demo_table_inv, where E = demo_ipc_env and session = "0x30"]
    by (simp add: demo_table_infos ceiling_of_def)
qed

end
