(* ===== verification/K11_Hooks.thy ===== *)
theory K11_Hooks
  imports K11_Table
begin

text \<open>
  The hooks of the kernel extension on requests between processes: \<open>SendSyncRequestHook\<close>,
  \<open>ConnectToPortHook\<close> and \<open>ControlService\<close> (\<open>k11_extension/source/svc\<close>), the replies the
  extension makes itself (\<open>doLangEmu\<close>, \<open>doErrfThrowHook\<close>, in \<open>ipc.c\<close>), the registration of a
  title's language (\<open>KernelSetStateHook\<close>) and the plugin events (\<open>globals.c\<close>). What the kernel
  does is a parameter, \<open>hook_env\<close>; each of its blocking calls may report events of other threads.
  A result of \<open>None\<close> is the use of a null pointer.
\<close>

section \<open>State and kernel interface\<close>

record 'k hook_state =
  ipc :: ipc_state
  tls_cmdbuf :: "u32 list"
  user_mem :: "u32 \<Rightarrow> u8"
  hasStartedRosalinaNetworkFuncsOnce :: bool
  plg_config :: u32
  kern :: 'k

record 'k hook_env =
  ipcE :: ipc_env
  kernelVersion :: u32
  nbSection0Modules :: u32
  cfw_config :: u32
  k_titleId :: "'k \<Rightarrow> u64"
  k_pid :: "'k \<Rightarrow> u32"
  k_processName :: "'k \<Rightarrow> u8 list"
  k_usr_regs :: "'k \<Rightarrow> u32 list"
  k_spsr :: "'k \<Rightarrow> u32"
  k_className :: "u32 \<Rightarrow> 'k \<Rightarrow> u8 list"
  k_parentSession :: "u32 \<Rightarrow> 'k \<Rightarrow> u32"
  k_ToKAutoObject :: "Handle \<Rightarrow> 'k \<Rightarrow> u32 \<times> 'k"
  k_AddReference :: "u32 \<Rightarrow> 'k \<Rightarrow> 'k"
  k_DecrementReferenceCount :: "u32 \<Rightarrow> 'k \<Rightarrow> 'k \<times> kernel_event list"
  k_createHandle :: "u32 \<Rightarrow> 'k \<Rightarrow> Result \<times> Handle \<times> 'k"
  k_CloseHandle :: "Handle \<Rightarrow> 'k \<Rightarrow> 'k \<times> kernel_event list"
  k_SendSyncRequest :: "Handle \<Rightarrow> u32 list \<times> (u32 \<Rightarrow> u8) \<Rightarrow> 'k \<Rightarrow>
    Result \<times> (u32 list \<times> (u32 \<Rightarrow> u8)) \<times> 'k \<times> kernel_event list"
  k_ConnectToPort :: "u32 \<Rightarrow> 'k \<Rightarrow> Result \<times> Handle \<times> 'k \<times> kernel_event list"
  k_strncpy_from_user :: "u32 \<Rightarrow> 'k \<Rightarrow> int \<times> u8 list"
  k_writable :: "u32 \<Rightarrow> nat \<Rightarrow> 'k \<Rightarrow> bool"
  k_WaitPluginEvent :: "'k \<Rightarrow> 'k \<times> kernel_event list"
  k_SignalPluginEvent :: "'k \<Rightarrow> 'k"

definition with_kernel :: "'k hook_env \<Rightarrow> 'k \<Rightarrow> kernel_event list \<Rightarrow> 'k hook_state \<Rightarrow> 'k hook_state" where
  "with_kernel E k es s = s\<lparr>kern := k, ipc := kernel_steps (ipcE E) es (ipc s)\<rparr>"

definition ToKAutoObject :: "'k hook_env \<Rightarrow> Handle \<Rightarrow> 'k hook_state \<Rightarrow> u32 \<times> 'k hook_state" where
  "ToKAutoObject E h s = (let (obj, k) = k_ToKAutoObject E h (kern s) in (obj, s\<lparr>kern := k\<rparr>))"

definition DecrementReferenceCount :: "'k hook_env \<Rightarrow> u32 \<Rightarrow> 'k hook_state \<Rightarrow> 'k hook_state" where
  "DecrementReferenceCount E obj s =
     (let (k, es) = k_DecrementReferenceCount E obj (kern s) in with_kernel E k es s)"

definition SendSyncRequest :: "'k hook_env \<Rightarrow> Handle \<Rightarrow> 'k hook_state \<Rightarrow> Result \<times> 'k hook_state" where
  "SendSyncRequest E h s =
     (let (res, (cmd, mem), k, es) = k_SendSyncRequest E h (tls_cmdbuf s, user_mem s) (kern s) in
      (res, with_kernel E k es (s\<lparr>tls_cmdbuf := cmd, user_mem := mem\<rparr>)))"

definition hook_add :: "'k hook_env \<Rightarrow> u32 \<Rightarrow> u8 list \<Rightarrow> 'k hook_state \<Rightarrow> 'k hook_state" where
  "hook_add E session name s =
     (let (k, es) = k_DecrementReferenceCount E session (k_AddReference E session (kern s)) in
      s\<lparr>ipc := SessionInfo_Add (ipcE E) es session name (ipc s), kern := k\<rparr>)"

definition set_word :: "nat \<Rightarrow> u32 \<Rightarrow> 'k hook_state \<Rightarrow> 'k hook_state" where
  "set_word i v s = s\<lparr>tls_cmdbuf := (tls_cmdbuf s)[i := v]\<rparr>"

section \<open>Replies made by the extension\<close>

definition find_langemu :: "u64 \<Rightarrow> LangemuAttributes list \<Rightarrow> LangemuAttributes option" where
  "find_langemu titleId as = fold (\<lambda>a r. if la_titleId a = titleId then Some a else r) as None"

definition doLangEmu :: "'k hook_env \<Rightarrow> 'k hook_state \<Rightarrow> bool \<times> 'k hook_state" where
  "doLangEmu E s =
     (let cmd = tls_cmdbuf s in
      case find_langemu (k_titleId E (kern s)) (processLangemuAttributes (ipc s)) of
        None \<Rightarrow> (False, s)
      | Some a \<Rightarrow>
          if (cmd ! 0 = 0x20000 \<or> cmd ! 0 = 0x4060000 \<or> cmd ! 0 = 0x8160000) \<and> la_mask a AND 1 \<noteq> 0 then
            (True, s\<lparr>tls_cmdbuf := cmd[0 := (cmd ! 0 AND 0xFFFF0000) OR 0x80, 1 := 0, 2 := ucast (la_region a)]\<rparr>)
          else if cmd ! 1 = 1 \<and> cmd ! 2 = 0xA0002 \<and> cmd ! 3 = 0x1C \<and> la_mask a AND 2 \<noteq> 0 then
            (True, s\<lparr>tls_cmdbuf := cmd[0 := (cmd ! 0 AND 0xFFFF0000) OR 0x40, 1 := 0],
                     user_mem := (user_mem s)(cmd ! 4 := la_language a)\<rparr>)
          else if cmd ! 1 = 4 \<and> cmd ! 2 = 0xB0000 \<and> cmd ! 3 = 0x4C \<and> la_mask a AND 0xC \<noteq> 0 then
            (let p = cmd ! 4; m = user_mem s;
                 m = (if la_mask a AND 4 \<noteq> 0 then m(p + 3 := la_country a) else m);
                 m = (if la_mask a AND 8 \<noteq> 0 then m(p + 2 := la_state a) else m)
             in (True, s\<lparr>user_mem := m(p + 1 := 0, p := 0)\<rparr>))
          else (False, s))"

text \<open>The one error code that may be ignored, when \<open>ENABLESAFEFIRMROSALINA\<close> (bit 9) is set; the
  second entry of the table is disabled.\<close>

definition errorCodesToIgnore :: "'k hook_env \<Rightarrow> (u8 list \<times> u32 \<times> bool) list" where
  "errorCodesToIgnore E = [(chars ''qtm'', 0xF96183FE, drop_bit 9 (cfw_config E) AND 1 \<noteq> 0), ([], 0, False)]"

definition doErrfThrowHook :: "'k hook_env \<Rightarrow> 'k hook_state \<Rightarrow> bool \<times> 'k hook_state" where
  "doErrfThrowHook E s =
     (let srcerrbuf = k_usr_regs E (kern s) ! (if k_spsr E (kern s) AND 0x20 \<noteq> 0 then 4 else 6) in
      if list_ex (\<lambda>(name, errCode, enabled). enabled \<and> strcmp_equal (k_processName E (kern s)) name \<and>
           tls_cmdbuf s ! 2 = errCode) (errorCodesToIgnore E)
      then (True, s\<lparr>user_mem := (user_mem s)(srcerrbuf := 5), tls_cmdbuf := (tls_cmdbuf s)[0 := 0x10040, 1 := 0]\<rparr>)
      else (False, s))"

text \<open>\<open>KernelSetStateHook\<close>, type 0x10001: the language of a title goes to the first free entry.\<close>

fun first_free :: "LangemuAttributes list \<Rightarrow> nat" where
  "first_free [] = 0"
| "first_free (a # as) = (if la_titleId a \<noteq> 0 then 1 + first_free as else 0)"

definition register_langemu :: "u32 \<Rightarrow> u32 \<Rightarrow> u32 \<Rightarrow> 'k hook_state \<Rightarrow> Result \<times> 'k hook_state" where
  "register_langemu varg1 varg2 varg3 s =
     (let i = first_free (processLangemuAttributes (ipc s)) in
      if i < 0x40 then
        (0, s\<lparr>ipc := (ipc s)\<lparr>processLangemuAttributes := (processLangemuAttributes (ipc s))[i :=
           \<lparr>la_titleId = push_bit 32 (ucast varg3) OR ucast varg2, la_mask = ucast (varg1 AND 0xF),
            la_region = ucast (drop_bit 4 varg1 AND 0xF), la_language = ucast (drop_bit 8 varg1),
            la_country = ucast (drop_bit 16 varg1), la_state = ucast (drop_bit 24 varg1)\<rparr>]\<rparr>\<rparr>)
      else (0xD8609013, s))"

section \<open>Plugin events\<close>

definition PLG_CFG_RUNNING :: u32 where "PLG_CFG_RUNNING = 1"
definition PLG_CFG_INHOME :: u32 where "PLG_CFG_INHOME = 2"
definition PLG_CFG_HOME_EVENT :: u32 where "PLG_CFG_HOME_EVENT = 0x10000"
definition PLG_CFG_EXIT_EVENT :: u32 where "PLG_CFG_EXIT_EVENT = 0x20000"

definition PLG_GetStatus :: "'k hook_state \<Rightarrow> u32" where
  "PLG_GetStatus s = plg_config s AND 0xFFFF"

definition PLG_WakeAppThread :: "'k hook_env \<Rightarrow> 'k hook_state \<Rightarrow> 'k hook_state" where
  "PLG_WakeAppThread E s = s\<lparr>kern := k_SignalPluginEvent E (kern s)\<rparr>"

definition PLG_SignalEvent :: "'k hook_env \<Rightarrow> u32 \<Rightarrow> 'k hook_state \<Rightarrow> 'k hook_state option" where
  "PLG_SignalEvent E event s =
     (let s = s\<lparr>plg_config := plg_config s OR event\<rparr>;
          b0 = tls_cmdbuf s ! 0; b1 = tls_cmdbuf s ! 1; b2 = tls_cmdbuf s ! 2
      in do {
        i \<leftarrow> SessionInfo_FindFirst (ipcE E) (chars ''srv:'') (ipc s);
        let (res, srvHandle, k) = k_createHandle E (info_session (sessionInfos (ipc s) ! i)) (kern s);
        let s = s\<lparr>kern := k\<rparr>;
        let s = (if sint res \<ge> 0
                 then let s = set_word 2 0 (set_word 1 0x1001 (set_word 0 0x000C0080 s));
                          (_, s) = SendSyncRequest E srvHandle s;
                          (k, es) = k_CloseHandle E srvHandle (kern s)
                      in with_kernel E k es s
                 else s);
        let s = set_word 2 b2 (set_word 1 b1 (set_word 0 b0 s));
        let (k, es) = k_WaitPluginEvent E (kern s);
        Some (with_kernel E k es s)
      })"

section \<open>SendSyncRequestHook\<close>

text \<open>The name of the service behind the session of a request; \<open>name_is\<close> is the test
  \<open>info != NULL && strcmp(info->name, n) == 0\<close>.\<close>

definition lookup_name :: "'k hook_env \<Rightarrow> u32 \<Rightarrow> 'k hook_state \<Rightarrow> u8 list option" where
  "lookup_name E clientSession s =
     map_option (\<lambda>i. info_name (sessionInfos (ipc s) ! i))
       (SessionInfo_Lookup (ipcE E) (k_parentSession E clientSession (kern s)) (ipc s))"

definition name_is :: "u8 list option \<Rightarrow> string \<Rightarrow> bool" where
  "name_is info n = (case info of None \<Rightarrow> False | Some name \<Rightarrow> strcmp_equal name (chars n))"

definition isNdmuWorkaround :: "'k hook_env \<Rightarrow> u8 list option \<Rightarrow> 'k hook_state \<Rightarrow> bool" where
  "isNdmuWorkaround E info s \<longleftrightarrow>
     name_is info ''ndm:u'' \<and> hasStartedRosalinaNetworkFuncsOnce s \<and> k_pid E (kern s) \<ge> nbSection0Modules E"

text \<open>Each case of the switch gives \<open>skip\<close>, \<open>res\<close> and the state.\<close>

type_synonym 'k case_result = "bool \<times> Result \<times> 'k hook_state"

definition pass :: "'k hook_state \<Rightarrow> 'k case_result" where
  "pass s = (False, 0, s)"

definition ndmu_reply :: "'k hook_env \<Rightarrow> u8 list option \<Rightarrow> u32 \<Rightarrow> 'k hook_state \<Rightarrow> 'k case_result" where
  "ndmu_reply E info header s =
     (if isNdmuWorkaround E info s then (True, 0, set_word 1 0 (set_word 0 header s)) else pass s)"

definition langemu_reply :: "'k hook_env \<Rightarrow> u8 list option \<Rightarrow> string list \<Rightarrow> 'k hook_state \<Rightarrow> 'k case_result" where
  "langemu_reply E info names s =
     (if list_ex (name_is info) names then let (skip, s) = doLangEmu E s in (skip, 0, s) else pass s)"

definition errf_reply :: "'k hook_env \<Rightarrow> u8 list option \<Rightarrow> 'k hook_state \<Rightarrow> 'k case_result" where
  "errf_reply E info s =
     (if name_is info ''err:f'' then let (skip, s) = doErrfThrowHook E s in (skip, 0, s) else pass s)"

definition suspend_scheduler :: "'k hook_env \<Rightarrow> u8 list option \<Rightarrow> 'k hook_state \<Rightarrow> 'k case_result" where
  "suspend_scheduler E info s =
     (if \<not> hasStartedRosalinaNetworkFuncsOnce s then pass s
      else if isNdmuWorkaround E info s then (True, 0, set_word 1 0 s) else pass s)"

definition resume_scheduler :: "'k hook_env \<Rightarrow> u8 list option \<Rightarrow> 'k hook_state \<Rightarrow> 'k case_result" where
  "resume_scheduler E info s =
     (if \<not> hasStartedRosalinaNetworkFuncsOnce s then pass s else ndmu_reply E info 0x90040 s)"

definition get_service_handle :: "'k hook_env \<Rightarrow> Handle \<Rightarrow> u8 list option \<Rightarrow> 'k hook_state \<Rightarrow> 'k case_result" where
  "get_service_handle E handle info s =
     (if name_is info ''srv:'' \<or> drop_bit 16 (kernelVersion E) AND 0xFF < 39 \<and> name_is info ''srv:pm'' then
        let name = le_bytes (tls_cmdbuf s ! 1) @ le_bytes (tls_cmdbuf s ! 2) @ [0];
            (res, s) = SendSyncRequest E handle s
        in if res = 0 then
             let (out, s) = ToKAutoObject E (tls_cmdbuf s ! 3) s in
             if out \<noteq> 0 then
               let s = (if strcmp_equal (k_className E out (kern s)) (chars ''KClientSession'')
                        then hook_add E (k_parentSession E out (kern s)) name s else s)
               in (True, res, DecrementReferenceCount E out s)
             else (True, res, s)
           else (True, res, set_word 3 0 s)
      else pass s)"

definition publish_to_subscriber :: "'k hook_env \<Rightarrow> u8 list option \<Rightarrow> 'k hook_state \<Rightarrow> 'k case_result" where
  "publish_to_subscriber E info s =
     (if name_is info ''srv:'' \<and> tls_cmdbuf s ! 1 = 0x1002
      then (True, 0, set_word 1 0 (set_word 0 0xC0040 (PLG_WakeAppThread E s)))
      else pass s)"

definition receive_parameter :: "'k hook_env \<Rightarrow> Handle \<Rightarrow> u8 list option \<Rightarrow> 'k hook_state \<Rightarrow> 'k case_result option" where
  "receive_parameter E handle info s =
     (if (case info of None \<Rightarrow> False | Some name \<Rightarrow> strncmp_equal name (chars ''APT:'') 4) \<and> tls_cmdbuf s ! 1 = 0x300 then
        let (res, s) = SendSyncRequest E handle s in
        if sint res \<ge> 0 then
          let plgStatus = PLG_GetStatus s; command = tls_cmdbuf s ! 3 in
          if plgStatus = PLG_CFG_RUNNING \<and> command = 3 \<or>
             plgStatus = PLG_CFG_INHOME \<and> (command \<ge> 10 \<or> command \<le> 12)
          then map_option (\<lambda>s. (True, res, s)) (PLG_SignalEvent E PLG_CFG_HOME_EVENT s)
          else Some (True, res, s)
        else Some (True, res, s)
      else Some (pass s))"

definition hook_switch :: "'k hook_env \<Rightarrow> Handle \<Rightarrow> u32 \<Rightarrow> 'k hook_state \<Rightarrow> 'k case_result option" where
  "hook_switch E handle clientSession s =
     (let header = tls_cmdbuf s ! 0; info = lookup_name E clientSession s in
      if header = 0x10042 then Some (ndmu_reply E info 0x10040 s)
      else if header = 0x10082 then Some (langemu_reply E info [''cfg:u'', ''cfg:s'', ''cfg:i''] s)
      else if header = 0x10800 then Some (errf_reply E info s)
      else if header = 0x20000 then Some (langemu_reply E info [''cfg:u'', ''cfg:s'', ''cfg:i''] s)
      else if header = 0x20002 then Some (ndmu_reply E info 0x20040 s)
      else if header = 0x50100 then Some (get_service_handle E handle info s)
      else if header = 0x80040 then Some (suspend_scheduler E info s)
      else if header = 0x90000 then Some (resume_scheduler E info s)
      else if header = 0x00C0080 then Some (publish_to_subscriber E info s)
      else if header = 0x00D0080 then receive_parameter E handle info s
      else if header = 0x4010082 \<or> header = 0x4020082 \<or> header = 0x8010082 \<or> header = 0x4060000
        then Some (langemu_reply E info [''cfg:s'', ''cfg:i''] s)
      else if header = 0x8020082 \<or> header = 0x8160000 then Some (langemu_reply E info [''cfg:i''] s)
      else Some (pass s))"

definition SendSyncRequestHook :: "'k hook_env \<Rightarrow> Handle \<Rightarrow> 'k hook_state \<Rightarrow> (Result \<times> 'k hook_state) option" where
  "SendSyncRequestHook E handle s =
     (let (clientSession, s) = ToKAutoObject E handle s;
          valid = (clientSession \<noteq> 0 \<and> strcmp_equal (k_className E clientSession (kern s)) (chars ''KClientSession''))
      in do {
        (skip, res, s) \<leftarrow> if valid then hook_switch E handle clientSession s else Some (pass s);
        let s = (if clientSession \<noteq> 0 then DecrementReferenceCount E clientSession s else s);
        Some (if skip then (res, s) else SendSyncRequest E handle s)
      })"

section \<open>ConnectToPortHook and ControlService\<close>

text \<open>The port name is a user address, 0 for \<open>NULL\<close>; the result holds the handle written to \<open>out\<close>
  where one is.\<close>

definition ConnectToPortHook :: "'k hook_env \<Rightarrow> u32 \<Rightarrow> 'k hook_state \<Rightarrow> Result \<times> Handle option \<times> 'k hook_state" where
  "ConnectToPortHook E name s =
     (let (nb, copied) = k_strncpy_from_user E name (kern s);
          portName = (if name \<noteq> 0 then copied else replicate 12 0)
      in if name \<noteq> 0 \<and> nb < 0 then (0xD9001814, None, s)
         else if name \<noteq> 0 \<and> nb = 12 \<and> portName ! 11 \<noteq> 0 then (0xE0E0181E, None, s)
         else
           let (res, out, k, es) = k_ConnectToPort E name (kern s); s = with_kernel E k es s in
           if res \<noteq> 0 then (res, Some 0, s)
           else
             let (clientSession, s) = ToKAutoObject E out s in
             if clientSession \<noteq> 0 then
               (res, Some out, DecrementReferenceCount E clientSession
                  (hook_add E (k_parentSession E clientSession (kern s)) portName s))
             else (res, Some out, s))"

definition write_user :: "u32 \<Rightarrow> u8 list \<Rightarrow> 'k hook_state \<Rightarrow> 'k hook_state" where
  "write_user addr bytes s =
     s\<lparr>user_mem := fold (\<lambda>i m. m(addr + of_nat i := bytes ! i)) [0..<length bytes] (user_mem s)\<rparr>"

definition service_get_name :: "'k hook_env \<Rightarrow> u32 \<Rightarrow> u32 \<Rightarrow> 'k hook_state \<Rightarrow> Result \<times> 'k hook_state" where
  "service_get_name E varg1 varg2 s =
     (let (obj, s) = ToKAutoObject E varg2 s in
      if obj = 0 then (0xD8E007F7, s)
      else
        let class = k_className E obj (kern s);
            session = (if strcmp_equal class (chars ''KServerSession'') \<or> strcmp_equal class (chars ''KClientSession'')
                       then k_parentSession E obj (kern s) else 0);
            info = (if session \<noteq> 0 then lookup_name E obj s else None);
            (res, s) = (case info of
              None \<Rightarrow> (0xD8E007F7, s)
            | Some n \<Rightarrow>
                let bytes = c_str (strncpy12 n) @ [0] in
                if k_writable E varg1 (length bytes) (kern s) then (0, write_user varg1 bytes s) else (0xE0E01BF5, s))
        in (res, DecrementReferenceCount E obj s))"

definition service_steal_session :: "'k hook_env \<Rightarrow> u32 \<Rightarrow> u32 \<Rightarrow> 'k hook_state \<Rightarrow> Result \<times> 'k hook_state" where
  "service_steal_session E varg1 varg2 s =
     (let (nb, name) = k_strncpy_from_user E varg2 (kern s) in
      if nb < 0 then (0xD9001814, s)
      else if nb = 12 \<and> name ! 11 \<noteq> 0 then (0xE0E0181E, s)
      else case SessionInfo_FindFirst (ipcE E) name (ipc s) of
          None \<Rightarrow> (0x09401BFE, s)
        | Some i \<Rightarrow>
            let (res, out, k) = k_createHandle E (info_session (sessionInfos (ipc s) ! i)) (kern s);
                s = s\<lparr>kern := k\<rparr>
            in if res \<noteq> 0 then (res, s)
               else if k_writable E varg1 4 (kern s) then (0, write_user varg1 (le_bytes out) s)
               else (0xE0E01BF5, s))"

datatype ServiceOp = SERVICEOP_STEAL_CLIENT_SESSION | SERVICEOP_GET_NAME | SERVICEOP_OTHER u32

primrec ControlService :: "'k hook_env \<Rightarrow> ServiceOp \<Rightarrow> u32 \<Rightarrow> u32 \<Rightarrow> 'k hook_state \<Rightarrow> Result \<times> 'k hook_state" where
  "ControlService E SERVICEOP_STEAL_CLIENT_SESSION varg1 varg2 s = service_steal_session E varg1 varg2 s"
| "ControlService E SERVICEOP_GET_NAME varg1 varg2 s = service_get_name E varg1 varg2 s"
| "ControlService E (SERVICEOP_OTHER n) varg1 varg2 s = (0xF8C007F4, s)"

end
