(* ===== verification/K11_Requests.thy ===== *)
theory K11_Requests
  imports K11_Hooks
begin

text \<open>
  Properties of the request hooks: the table invariant holds through every hook, requests to
  services the extension does not handle are forwarded as they are, a registered title is told
  its emulated region, and a service handle is entered in the table under its name.
\<close>

section \<open>Invariants through the hooks\<close>

definition hook_inv :: "'k hook_state \<Rightarrow> bool" where
  "hook_inv s \<longleftrightarrow> ipc_inv (ipc s)"

named_theorems hook_simps \<open>the invariant through the operations of the hooks\<close>

lemma hook_inv_updates [hook_simps]:
  "hook_inv (s\<lparr>kern := k\<rparr>) = hook_inv s" "hook_inv (s\<lparr>tls_cmdbuf := c\<rparr>) = hook_inv s"
  "hook_inv (s\<lparr>user_mem := m\<rparr>) = hook_inv s" "hook_inv (s\<lparr>plg_config := p\<rparr>) = hook_inv s"
  "hook_inv (set_word i v s) = hook_inv s"
  by (simp_all add: hook_inv_def set_word_def)

lemma hook_inv_with_kernel [hook_simps]: "hook_inv s \<Longrightarrow> hook_inv (with_kernel E k es s)"
  by (simp add: hook_inv_def with_kernel_def ipc_inv_kernel_steps)

lemma hook_inv_ToKAutoObject [hook_simps]: "hook_inv s \<Longrightarrow> hook_inv (snd (ToKAutoObject E h s))"
  by (simp add: ToKAutoObject_def hook_simps split: prod.splits)

lemma hook_inv_Decrement [hook_simps]: "hook_inv s \<Longrightarrow> hook_inv (DecrementReferenceCount E obj s)"
  by (simp add: DecrementReferenceCount_def hook_simps split: prod.splits)

lemma hook_inv_Send [hook_simps]: "hook_inv s \<Longrightarrow> hook_inv (snd (SendSyncRequest E h s))"
  by (simp add: SendSyncRequest_def hook_simps split: prod.splits)

lemma hook_inv_add [hook_simps]: "hook_inv s \<Longrightarrow> hook_inv (hook_add E session name s)"
  by (auto simp: hook_add_def SessionInfo_Add_def hook_inv_def split: prod.splits
      intro!: table.inv_add ipc_inv_kernel_steps)

lemma hook_inv_replies [hook_simps]:
  assumes "hook_inv s"
  shows "hook_inv (snd (doLangEmu E s))" and "hook_inv (snd (doErrfThrowHook E s))"
  using assms by (auto simp: doLangEmu_def doErrfThrowHook_def hook_simps Let_def split: option.splits)

lemma hook_inv_SignalEvent:
  assumes "hook_inv s" and "PLG_SignalEvent E ev s = Some s'"
  shows "hook_inv s'"
  using assms by (auto simp: PLG_SignalEvent_def case_prod_beta Let_def hook_simps bind_eq_Some_conv)

lemma hook_inv_switch:
  assumes "hook_inv s" and "hook_switch E h obj s = Some (skip, res, s')"
  shows "hook_inv s'"
proof -
  obtain r u where u: "SendSyncRequest E h s = (r, u)" by force
  with hook_inv_Send [OF assms(1), of E h] have "hook_inv u" by simp
  then have "hook_inv s'" if "receive_parameter E h info s = Some (skip, res, s')" for info
    using assms(1) that
    by (auto simp: receive_parameter_def pass_def Let_def u
        dest!: hook_inv_SignalEvent [rotated] split: if_splits)
  moreover have "hook_inv (snd (snd (f E info hd s)))" if "f \<in> {ndmu_reply}" for f info hd
    using assms(1) that by (auto simp: ndmu_reply_def pass_def hook_simps)
  moreover have "hook_inv (snd (snd (langemu_reply E info ns s)))" for info ns
    using assms(1) by (simp add: langemu_reply_def pass_def case_prod_beta hook_simps)
  moreover have "hook_inv (snd (snd (errf_reply E info s)))" for info
    using assms(1) by (simp add: errf_reply_def pass_def case_prod_beta hook_simps)
  moreover have "hook_inv (snd (snd (suspend_scheduler E info s)))" "hook_inv (snd (snd (resume_scheduler E info s)))"
    "hook_inv (snd (snd (publish_to_subscriber E info s)))" for info
    using assms(1)
    by (simp_all add: suspend_scheduler_def resume_scheduler_def ndmu_reply_def publish_to_subscriber_def
        PLG_WakeAppThread_def pass_def hook_simps)
  moreover have "hook_inv (snd (snd (get_service_handle E h info s)))" for info
    using assms(1) by (simp add: get_service_handle_def pass_def case_prod_beta Let_def hook_simps)
  ultimately show ?thesis
    using assms unfolding hook_switch_def Let_def pass_def
    by (auto split: if_splits) (metis insertI1 snd_conv)+
qed

lemma hook_inv_SendSyncRequestHook:
  assumes "hook_inv s" and "SendSyncRequestHook E h s = Some (res, s')"
  shows "hook_inv s'"
proof -
  let ?obj = "fst (ToKAutoObject E h s)" and ?s = "snd (ToKAutoObject E h s)"
  obtain skip r t where "hook_inv t"
    "s' = (let u = (if ?obj \<noteq> 0 then DecrementReferenceCount E ?obj t else t) in
            if skip then u else snd (SendSyncRequest E h u))"
    using assms(2) hook_inv_switch [of ?s E h ?obj] hook_inv_ToKAutoObject [OF assms(1), of E h]
    by (fastforce simp: SendSyncRequestHook_def case_prod_beta Let_def bind_eq_Some_conv pass_def split: if_splits)
  then show ?thesis by (simp add: Let_def hook_simps)
qed

lemma hook_inv_ConnectToPortHook: "hook_inv s \<Longrightarrow> hook_inv (snd (snd (ConnectToPortHook E name s)))"
  by (simp add: ConnectToPortHook_def case_prod_beta Let_def hook_simps)

lemma hook_inv_ControlService: "hook_inv s \<Longrightarrow> hook_inv (snd (ControlService E op a b s))"
  by (cases op) (auto simp: service_get_name_def service_steal_session_def write_user_def case_prod_beta Let_def
      hook_simps split: option.splits)

section \<open>Requests that are not handled\<close>

definition handled :: "u8 list option \<Rightarrow> bool" where
  "handled info \<longleftrightarrow>
     list_ex (name_is info) [''ndm:u'', ''cfg:u'', ''cfg:s'', ''cfg:i'', ''err:f'', ''srv:'', ''srv:pm''] \<or>
     (case info of None \<Rightarrow> False | Some name \<Rightarrow> strncmp_equal name (chars ''APT:'') 4)"

lemma not_handled_pass:
  assumes "\<not> handled (lookup_name E obj s)"
  shows "hook_switch E h obj s = Some (pass s)"
  using assms
  by (simp add: hook_switch_def Let_def handled_def ndmu_reply_def isNdmuWorkaround_def langemu_reply_def
      errf_reply_def get_service_handle_def suspend_scheduler_def resume_scheduler_def
      publish_to_subscriber_def receive_parameter_def split: option.splits)

text \<open>C34. A request over a session that is not known under one of the handled names is forwarded
  to the kernel exactly once and with its command buffer unchanged, whatever its header.\<close>

theorem other_services_untouched:
  assumes "\<not> handled (lookup_name E (fst (ToKAutoObject E h s)) (snd (ToKAutoObject E h s)))"
  shows "SendSyncRequestHook E h s = Some (SendSyncRequest E h
           (let (obj, s1) = ToKAutoObject E h s in if obj \<noteq> 0 then DecrementReferenceCount E obj s1 else s1))"
  using not_handled_pass [OF assms]
  by (simp add: SendSyncRequestHook_def case_prod_beta Let_def pass_def)

definition demo_hooks :: "nat hook_env" where
  "demo_hooks = \<lparr>ipcE = demo_ipc_env, kernelVersion = 0x02390000, nbSection0Modules = 5, cfw_config = 0,
     k_titleId = (\<lambda>_. 0x0004000000030800), k_pid = (\<lambda>_. 9), k_processName = (\<lambda>_. chars ''app''),
     k_usr_regs = (\<lambda>_. replicate 9 0), k_spsr = (\<lambda>_. 0),
     k_className = (\<lambda>_ _. chars ''KClientSession''), k_parentSession = (\<lambda>obj _. obj - 4),
     k_ToKAutoObject = (\<lambda>h k. (h + 4, k + 1)), k_AddReference = (\<lambda>_ k. k + 1),
     k_DecrementReferenceCount = (\<lambda>_ k. (k - 1, [])), k_createHandle = (\<lambda>_ k. (0, 1, k)),
     k_CloseHandle = (\<lambda>_ k. (k, [])), k_SendSyncRequest = (\<lambda>h (cmd, mem) k. (0, (cmd[3 := 0x30], mem), k, [])),
     k_ConnectToPort = (\<lambda>_ k. (0, 1, k, [])), k_strncpy_from_user = (\<lambda>_ _. (4, chars ''srv:'')),
     k_writable = (\<lambda>_ _ _. True), k_WaitPluginEvent = (\<lambda>k. (k, [])), k_SignalPluginEvent = (\<lambda>k. k)\<rparr>"

definition demo_hook_state :: "u32 list \<Rightarrow> nat hook_state" where
  "demo_hook_state cmd = \<lparr>ipc = demo_table, tls_cmdbuf = cmd, user_mem = (\<lambda>_. 0),
     hasStartedRosalinaNetworkFuncsOnce = False, plg_config = 0, kern = 1\<rparr>"

lemma demo_lookups:
  "SessionInfo_Lookup demo_ipc_env 0x10 demo_table = Some 0" "SessionInfo_Lookup demo_ipc_env 0x20 demo_table = Some 1"
  "SessionInfo_Lookup demo_ipc_env 0x50 demo_table = None"
  by (simp_all add: SessionInfo_Lookup_def closest_slot_infos [OF demo_table_inv] slot_of_def demo_table_infos
      has_custom_vtable_def demo_ipc_env_def)

lemma other_services_untouched_witness:
  "SendSyncRequestHook demo_hooks 0x50 (demo_hook_state [0x20000, 0, 0, 0]) =
     Some (0, (demo_hook_state [0x20000, 0, 0, 0x30]))"
proof -
  let ?s = "demo_hook_state [0x20000, 0, 0, 0]"
  have to: "ToKAutoObject demo_hooks 0x50 ?s = (0x54, ?s\<lparr>kern := 2\<rparr>)"
    by (simp add: ToKAutoObject_def demo_hooks_def demo_hook_state_def)
  have "lookup_name demo_hooks 0x54 (?s\<lparr>kern := 2\<rparr>) = None"
    by (simp add: lookup_name_def demo_hooks_def demo_hook_state_def demo_lookups)
  then have "SendSyncRequestHook demo_hooks 0x50 ?s =
      Some (SendSyncRequest demo_hooks 0x50 (DecrementReferenceCount demo_hooks 0x54 (?s\<lparr>kern := 2\<rparr>)))"
    using other_services_untouched [of demo_hooks "0x50" ?s] by (simp add: to handled_def name_is_def)
  then show ?thesis
    by (simp add: SendSyncRequest_def DecrementReferenceCount_def with_kernel_def kernel_steps_def
        demo_hooks_def demo_hook_state_def)
qed

section \<open>Emulated regions\<close>

text \<open>Entries are filled from the front: behind a free one all are free.\<close>

definition langemu_packed :: "LangemuAttributes list \<Rightarrow> bool" where
  "langemu_packed as \<longleftrightarrow> length as = 0x40 \<and> (\<forall>j. first_free as \<le> j \<and> j < length as \<longrightarrow> la_titleId (as ! j) = 0)"

lemma first_free_le: "first_free as \<le> length as"
  by (induction as) auto

lemma first_free_update:
  "i = first_free as \<Longrightarrow> i < length as \<Longrightarrow> la_titleId a \<noteq> 0 \<Longrightarrow>
   first_free (as[i := a]) = 1 + i + first_free (drop (i + 1) as)"
  by (induction as arbitrary: i) (auto split: if_splits)

lemma langemu_packed_init: "langemu_packed (processLangemuAttributes (ipc_init vt))"
  by (simp add: langemu_packed_def ipc_init_def)

lemma langemu_packed_register:
  assumes "langemu_packed (processLangemuAttributes (ipc s))" and "(push_bit 32 (ucast varg3) OR ucast varg2 :: u64) \<noteq> 0"
  shows "langemu_packed (processLangemuAttributes (ipc (snd (register_langemu varg1 varg2 varg3 s))))"
  using assms by (auto simp: register_langemu_def Let_def langemu_packed_def first_free_update nth_list_update)

lemma find_langemu_append:
  "find_langemu t (xs @ ys) = (case find_langemu t ys of None \<Rightarrow> find_langemu t xs | Some a \<Rightarrow> Some a)"
proof (induction ys rule: rev_induct)
  case (snoc y ys)
  then show ?case by (simp add: find_langemu_def split: option.splits)
qed (simp add: find_langemu_def)

lemma find_langemu_none: "(\<And>a. a \<in> set as \<Longrightarrow> la_titleId a \<noteq> t) \<Longrightarrow> find_langemu t as = None"
  by (induction as rule: rev_induct) (auto simp: find_langemu_def)

lemma find_langemu_last:
  assumes "i < length as" and "la_titleId (as ! i) = t" and "\<And>j. i < j \<Longrightarrow> j < length as \<Longrightarrow> la_titleId (as ! j) \<noteq> t"
  shows "find_langemu t as = Some (as ! i)"
proof -
  have "find_langemu t (drop (Suc i) as) = None"
  proof (rule find_langemu_none)
    fix a assume "a \<in> set (drop (Suc i) as)"
    then obtain k where "k < length as - Suc i" "a = as ! (Suc i + k)" by (auto simp: in_set_conv_nth)
    then show "la_titleId a \<noteq> t" using assms(3) [of "Suc i + k"] by simp
  qed
  moreover have "find_langemu t (take i as @ [as ! i]) = Some (as ! i)"
    using assms(2) by (simp add: find_langemu_def)
  moreover have "as = (take i as @ [as ! i]) @ drop (Suc i) as" using assms(1) by (simp add: id_take_nth_drop)
  ultimately show ?thesis using find_langemu_append [of t "take i as @ [as ! i]" "drop (Suc i) as"] by simp
qed

lemma langemu_found:
  fixes t :: u64
  assumes "langemu_packed (processLangemuAttributes (ipc s))" and "t = push_bit 32 (ucast varg3) OR ucast varg2"
    and "t \<noteq> 0" and "register_langemu varg1 varg2 varg3 s = (0, s')"
  shows "find_langemu t (processLangemuAttributes (ipc s')) = Some
      \<lparr>la_titleId = t, la_mask = ucast (varg1 AND 0xF), la_region = ucast (drop_bit 4 varg1 AND 0xF),
       la_language = ucast (drop_bit 8 varg1), la_country = ucast (drop_bit 16 varg1), la_state = ucast (drop_bit 24 varg1)\<rparr>"
    (is "_ = Some ?a")
proof -
  let ?as = "processLangemuAttributes (ipc s)"
  define i where "i = first_free ?as"
  have i: "i < 0x40" and s': "processLangemuAttributes (ipc s') = ?as[i := ?a]"
    using assms(2,4) by (auto simp: register_langemu_def Let_def i_def split: if_splits)
  have "find_langemu t (?as[i := ?a]) = Some ((?as[i := ?a]) ! i)"
  proof (rule find_langemu_last)
    show "i < length (?as[i := ?a])" "la_titleId ((?as[i := ?a]) ! i) = t" 
      using i assms(1) by (simp_all add: langemu_packed_def)
    show "la_titleId ((?as[i := ?a]) ! j) \<noteq> t" if "i < j" "j < length (?as[i := ?a])" for j
      using that assms(1,3) by (simp add: langemu_packed_def i_def)
  qed
  then show ?thesis using i assms(1) s' by (simp add: langemu_packed_def)
qed

text \<open>The requests for the region of the console, and the services that take them.\<close>

definition region_request :: "u32 \<Rightarrow> u8 list option \<Rightarrow> bool" where
  "region_request header info \<longleftrightarrow>
     header = 0x20000 \<and> list_ex (name_is info) [''cfg:u'', ''cfg:s'', ''cfg:i''] \<or>
     header = 0x4060000 \<and> list_ex (name_is info) [''cfg:s'', ''cfg:i''] \<or>
     header = 0x8160000 \<and> name_is info ''cfg:i''"

lemma doLangEmu_region:
  assumes "find_langemu (k_titleId E (kern s)) (processLangemuAttributes (ipc s)) = Some a" and "la_mask a AND 1 \<noteq> 0"
    and "region_request (tls_cmdbuf s ! 0) info"
  shows "doLangEmu E s = (True,
     s\<lparr>tls_cmdbuf := (tls_cmdbuf s)[0 := (tls_cmdbuf s ! 0 AND 0xFFFF0000) OR 0x80, 1 := 0, 2 := ucast (la_region a)]\<rparr>)"
proof -
  have "tls_cmdbuf s ! 0 = 0x20000 \<or> tls_cmdbuf s ! 0 = 0x4060000 \<or> tls_cmdbuf s ! 0 = 0x8160000"
    using assms(3) by (auto simp: region_request_def)
  then show ?thesis using assms(1,2) unfolding doLangEmu_def Let_def by (simp only: option.case simp_thms if_True)
qed

lemma region_switch:
  assumes "region_request (tls_cmdbuf s ! 0) (lookup_name E obj s)" and "doLangEmu E s = (True, s')"
  shows "hook_switch E h obj s = Some (True, 0, s')"
  using assms by (auto simp: region_request_def hook_switch_def Let_def langemu_reply_def)

lemma and_1_bit: "(v :: 'a :: len word) AND 1 \<noteq> 0 \<longleftrightarrow> bit v 0"
  by (simp add: and_one_eq bit_0 mod_2_eq_odd)

lemma low_nibble_bit0: "(ucast (v AND 0xF :: u32) :: u8) AND 1 \<noteq> 0 \<longleftrightarrow> v AND 1 \<noteq> 0"
  unfolding and_1_bit by (simp add: bit_ucast_iff bit_and_iff)

lemma nibble_ucast: "(ucast (ucast (w AND 0xF :: u32) :: u8) :: u32) = w AND 0xF"
proof (rule bit_word_eqI)
  fix n assume "n < LENGTH(32)"
  have "bit (0xF :: u32) n \<Longrightarrow> n < 4" using bit_mask_iff [of 4 n, where 'a = u32] by (simp add: mask_eq_exp_minus_1)
  then show "bit (ucast (ucast (w AND 0xF) :: u8) :: u32) n = bit (w AND 0xF) n"
    by (auto simp: bit_ucast_iff bit_and_iff)
qed

lemma region_served:
  fixes varg1 varg2 varg3 :: u32
  assumes "langemu_packed (processLangemuAttributes (ipc s0))"
    and "register_langemu varg1 varg2 varg3 s0 = (0, s0')"
    and "ToKAutoObject E h s = (obj, s1)" and "obj \<noteq> 0"
    and "strcmp_equal (k_className E obj (kern s1)) (chars ''KClientSession'')"
    and "processLangemuAttributes (ipc s) = processLangemuAttributes (ipc s0')"
    and "k_titleId E (kern s1) = push_bit 32 (ucast varg3) OR ucast varg2" and "k_titleId E (kern s1) \<noteq> 0"
    and "varg1 AND 1 \<noteq> 0" and "region_request (tls_cmdbuf s ! 0) (lookup_name E obj s1)"
  shows "SendSyncRequestHook E h s = Some (0, DecrementReferenceCount E obj (s1\<lparr>tls_cmdbuf :=
      (tls_cmdbuf s)[0 := (tls_cmdbuf s ! 0 AND 0xFFFF0000) OR 0x80, 1 := 0, 2 := drop_bit 4 varg1 AND 0xF]\<rparr>))"
proof -
  have s1: "tls_cmdbuf s1 = tls_cmdbuf s" "ipc s1 = ipc s"
    using assms(3) by (auto simp: ToKAutoObject_def split: prod.splits)
  note found = langemu_found [OF assms(1,7,8,2)]
  show ?thesis
    using region_switch [of s1 E obj, OF _ doLangEmu_region [OF found [folded assms(6), folded s1(2)]]] assms(3-5,9,10)
    by (simp add: SendSyncRequestHook_def s1 low_nibble_bit0 nibble_ucast)
qed

text \<open>C35. Once a title is registered with region emulation, a request for the region over one of
  the configuration services gets the registered region as its answer: the reply is written in
  the command buffer and the request never reaches the kernel.\<close>

theorem registered_region_served:
  fixes varg1 varg2 varg3 :: u32
  assumes "langemu_packed (processLangemuAttributes (ipc s0))"
    and "register_langemu varg1 varg2 varg3 s0 = (0, s0')"
    and "ToKAutoObject E h s = (obj, s1)" and "obj \<noteq> 0"
    and "strcmp_equal (k_className E obj (kern s1)) (chars ''KClientSession'')"
    and "processLangemuAttributes (ipc s) = processLangemuAttributes (ipc s0')"
    and "k_titleId E (kern s1) = push_bit 32 (ucast varg3) OR ucast varg2" and "k_titleId E (kern s1) \<noteq> 0"
    and "varg1 AND 1 \<noteq> 0" and "region_request (tls_cmdbuf s ! 0) (lookup_name E obj s1)"
  shows "SendSyncRequestHook E h s = Some (0, DecrementReferenceCount E obj (s1\<lparr>tls_cmdbuf :=
      (tls_cmdbuf s)[0 := (tls_cmdbuf s ! 0 AND 0xFFFF0000) OR 0x80, 1 := 0, 2 := drop_bit 4 varg1 AND 0xF]\<rparr>))"
  by (rule region_served [OF assms])

lemma register_langemu_frame:
  "tls_cmdbuf (snd (register_langemu a b c s)) = tls_cmdbuf s" "kern (snd (register_langemu a b c s)) = kern s"
  "nbActiveSessions (ipc (snd (register_langemu a b c s))) = nbActiveSessions (ipc s)"
  "sessionInfos (ipc (snd (register_langemu a b c s))) = sessionInfos (ipc s)"
  "vtable_of (ipc (snd (register_langemu a b c s))) = vtable_of (ipc s)"
  "infos (ipc (snd (register_langemu a b c s))) = infos (ipc s)"
  by (simp_all add: register_langemu_def Let_def infos_def)

text \<open>A console on which one title has been registered and asks for its region.\<close>

definition demo_asks :: "u32 \<Rightarrow> nat hook_state" where
  "demo_asks varg1 = snd (register_langemu varg1 0x30800 0x40000 (demo_hook_state [0x20000, 0, 0, 0]))"

lemma demo_asks_setup:
  "langemu_packed (processLangemuAttributes (ipc (demo_hook_state cmd)))"
  "register_langemu varg1 0x30800 0x40000 (demo_hook_state [0x20000, 0, 0, 0]) = (0, demo_asks varg1)"
  "ToKAutoObject demo_hooks 0x20 (demo_asks varg1) = (0x24, (demo_asks varg1)\<lparr>kern := 2\<rparr>)"
  "tls_cmdbuf (demo_asks varg1) = [0x20000, 0, 0, 0]"
  "region_request (tls_cmdbuf (demo_asks varg1) ! 0) (lookup_name demo_hooks 0x24 ((demo_asks varg1)\<lparr>kern := 2\<rparr>))"
  "strcmp_equal (k_className demo_hooks x k) (chars ''KClientSession'')"
  "k_titleId demo_hooks k = 0x0004000000030800"
  "tls_cmdbuf (DecrementReferenceCount demo_hooks 0x24 t) = tls_cmdbuf t"
proof -
  let ?start = "demo_hook_state [0x20000, 0, 0, 0]" and ?s = "demo_asks varg1"
  show "langemu_packed (processLangemuAttributes (ipc (demo_hook_state cmd)))"
    by (simp add: demo_hook_state_def demo_table_def langemu_packed_init)
  have "first_free (processLangemuAttributes (ipc ?start)) = 0"
    by (simp add: demo_hook_state_def demo_table_def ipc_init_def numeral_eq_Suc)
  then have "fst (register_langemu varg1 0x30800 0x40000 ?start) = 0" by (simp add: register_langemu_def Let_def)
  then show "register_langemu varg1 0x30800 0x40000 ?start = (0, ?s)" by (simp add: demo_asks_def prod_eq_iff)
  have s: "tls_cmdbuf ?s = [0x20000, 0, 0, 0]" "kern ?s = 1" "nbActiveSessions (ipc ?s) = 3"
    "sessionInfos (ipc ?s) = sessionInfos demo_table" "vtable_of (ipc ?s) = (\<lambda>_. 7)" "infos (ipc ?s) = infos demo_table"
    unfolding demo_asks_def register_langemu_frame by (simp_all add: demo_hook_state_def demo_table_infos)
  show "tls_cmdbuf ?s = [0x20000, 0, 0, 0]" by (rule s(1))
  show "ToKAutoObject demo_hooks 0x20 ?s = (0x24, ?s\<lparr>kern := 2\<rparr>)"
    by (simp add: ToKAutoObject_def demo_hooks_def s)
  have "ipc_inv (ipc ?s)" using demo_table_inv by (simp add: ipc_inv_def s demo_table_infos(2))
  then have "SessionInfo_Lookup demo_ipc_env 0x20 (ipc ?s) = Some 1"
    by (simp add: SessionInfo_Lookup_def closest_slot_infos slot_of_def demo_table_infos s has_custom_vtable_def demo_ipc_env_def)
  then have name: "lookup_name demo_hooks 0x24 (?s\<lparr>kern := 2\<rparr>) = Some (strncpy12 (chars ''cfg:u''))"
    by (simp add: lookup_name_def demo_hooks_def s) (simp add: demo_table_def)
  show "region_request (tls_cmdbuf ?s ! 0) (lookup_name demo_hooks 0x24 (?s\<lparr>kern := 2\<rparr>))"
    by (simp add: region_request_def name s name_is_def strcmp_equal_def strncpy12_def chars_def c_str_def)
  show "strcmp_equal (k_className demo_hooks x k) (chars ''KClientSession'')" "k_titleId demo_hooks k = 0x0004000000030800"
    "tls_cmdbuf (DecrementReferenceCount demo_hooks 0x24 t) = tls_cmdbuf t"
    by (simp_all add: demo_hooks_def strcmp_equal_def DecrementReferenceCount_def with_kernel_def)
qed

lemma registered_region_served_witness:
  "\<exists>s'. SendSyncRequestHook demo_hooks 0x20 (demo_asks 0x131) = Some (0, s') \<and> tls_cmdbuf s' = [0x20080, 0, 3, 0]"
proof -
  note d = demo_asks_setup(1) demo_asks_setup(2-5) [of "0x131"] demo_asks_setup(6-8)
  from registered_region_served [OF d(1,2,3) _ d(6) refl _ _ _ d(5)]
  show ?thesis by (simp add: d(4,7,8))
qed

section \<open>Service handles\<close>

text \<open>C36. When a request to \<open>srv:\<close> for a service handle succeeds and the new handle is one of a session, the
  session is entered in the table with the requested name, if the table has room and the session is not in it yet; with a full
  table, or a session already there, the names in the table are as before. The reply of \<open>srv:\<close> is passed on unchanged, and a
  later request over the session finds its entry, if it has one. The hypothesis \<open>alive\<close> says that the three references
  the hook gives up are not the last ones, so that the kernel destroys no session meanwhile.\<close>

theorem service_handle_registered:
  fixes E h s obj s1 s2 out s3
  defines "session \<equiv> k_parentSession E out (kern s3)"
  defines "name \<equiv> strncpy12 (le_bytes (tls_cmdbuf s ! 1) @ le_bytes (tls_cmdbuf s ! 2) @ [0])"
  assumes "hook_inv s" and "ToKAutoObject E h s = (obj, s1)" and "obj \<noteq> 0"
    and "strcmp_equal (k_className E obj (kern s1)) (chars ''KClientSession'')"
    and "tls_cmdbuf s ! 0 = 0x50100" and "name_is (lookup_name E obj s1) ''srv:''"
    and "SendSyncRequest E h s1 = (0, s2)" and "ToKAutoObject E (tls_cmdbuf s2 ! 3) s2 = (out, s3)" and "out \<noteq> 0"
    and "strcmp_equal (k_className E out (kern s3)) (chars ''KClientSession'')"
    and alive: "\<And>ob k. ob \<in> {obj, out, session} \<Longrightarrow> snd (k_DecrementReferenceCount E ob k) = []"
  shows "\<exists>s'. SendSyncRequestHook E h s = Some (0, s') \<and> tls_cmdbuf s' = tls_cmdbuf s2 \<and>
     names_of (ipc s') = (if table_full (ipc s3) \<or> session \<in> dom (names_of (ipc s3)) then names_of (ipc s3)
                          else (names_of (ipc s3))(session \<mapsto> name)) \<and>
     (\<forall>nm. names_of (ipc s') session = Some nm \<longrightarrow>
        (\<exists>i. SessionInfo_Lookup (ipcE E) session (ipc s') = Some i \<and> info_name (sessionInfos (ipc s') ! i) = nm))"
proof -
  let ?parent = "k_parentSession E out (kern s3)"
  let ?name = "le_bytes (tls_cmdbuf s ! 1) @ le_bytes (tls_cmdbuf s ! 2) @ [0]"
  have s1: "tls_cmdbuf s1 = tls_cmdbuf s" and s3: "tls_cmdbuf s3 = tls_cmdbuf s2"
    using assms(4,10) by (auto simp: ToKAutoObject_def split: prod.splits)
  define t where "t = hook_add E ?parent ?name s3"
  define u where "u = DecrementReferenceCount E obj (DecrementReferenceCount E out t)"
  have "hook_inv s3"
    using hook_inv_ToKAutoObject [OF hook_inv_Send [OF hook_inv_ToKAutoObject [OF assms(3)]], of E _ E h E h] assms(4,9,10)
    by (metis snd_conv hook_inv_ToKAutoObject hook_inv_Send assms(3))
  then have inv: "ipc_inv (SessionInfo_ChangeVtable (ipcE E) ?parent (ipc s3))" by (simp add: hook_inv_def)
  have dec: "ipc (DecrementReferenceCount E ob v) = ipc v" "tls_cmdbuf (DecrementReferenceCount E ob v) = tls_cmdbuf v"
    if "ob \<in> {obj, out}" for ob v
    using alive [of ob "kern v"] that
    by (auto simp: DecrementReferenceCount_def with_kernel_def kernel_steps_def split: prod.splits)
  have t: "ipc t = add_info ?parent ?name (SessionInfo_ChangeVtable (ipcE E) ?parent (ipc s3))" "tls_cmdbuf t = tls_cmdbuf s2"
    using alive [of ?parent "k_AddReference E ?parent (kern s3)", unfolded session_def] s3
    by (auto simp: t_def hook_add_def SessionInfo_Add_def kernel_steps_def split: prod.splits)
  have cv: "names_of (SessionInfo_ChangeVtable (ipcE E) ?parent (ipc s3)) = names_of (ipc s3)"
    "table_full (SessionInfo_ChangeVtable (ipcE E) ?parent (ipc s3)) = table_full (ipc s3)"
    by (simp_all add: names_of_def infos_def SessionInfo_ChangeVtable_def table_full_def Let_def)
  have names: "names_of (ipc t) = (if table_full (ipc s3) \<or> ?parent \<in> dom (names_of (ipc s3)) then names_of (ipc s3)
      else (names_of (ipc s3))(?parent \<mapsto> strncpy12 ?name))"
    unfolding t by (cases "table_full (ipc s3)") (simp_all add: table.names_add [OF inv] table.full_add cv)
  have "vtable_of (ipc t) ?parent = custom_addr (ipcE E)"
    by (simp add: t add_info_def SessionInfo_ChangeVtable_def Let_def)
  then have found: "\<exists>i. SessionInfo_Lookup (ipcE E) ?parent (ipc t) = Some i \<and> info_name (sessionInfos (ipc t) ! i) = nm"
    if "names_of (ipc t) ?parent = Some nm" for nm
    using that lookup_present table.inv_add [OF inv] unfolding t(1) by blast
  have "hook_switch E h obj s1 = Some (True, 0, DecrementReferenceCount E out t)"
    using assms(7-12) by (simp add: hook_switch_def get_service_handle_def s1 s3 Let_def t_def)
  then have "SendSyncRequestHook E h s = Some (0, u)"
    using assms(4-6) by (simp add: SendSyncRequestHook_def u_def)
  moreover have "ipc u = ipc t" "tls_cmdbuf u = tls_cmdbuf s2" by (simp_all add: u_def dec t)
  ultimately show ?thesis using names found unfolding session_def name_def by simp
qed

lemma service_handle_registered_witness:
  "\<exists>s' i. SendSyncRequestHook demo_hooks 0x10 (demo_hook_state [0x50100, 0x3A6C6D66, 0x75, 0]) = Some (0, s') \<and>
     SessionInfo_Lookup demo_ipc_env 0x30 (ipc s') = Some i \<and>
     info_name (sessionInfos (ipc s') ! i) = strncpy12 (chars ''fml:u'')"
proof -
  let ?s = "demo_hook_state [0x50100, 0x3A6C6D66, 0x75, 0]"
  let ?s2 = "?s\<lparr>kern := 2, tls_cmdbuf := [0x50100, 0x3A6C6D66, 0x75, 0x30]\<rparr>"
  have inv: "hook_inv ?s" using demo_table_inv by (simp add: hook_inv_def demo_hook_state_def)
  have to: "ToKAutoObject demo_hooks 0x10 ?s = (0x14, ?s\<lparr>kern := 2\<rparr>)"
    and send: "SendSyncRequest demo_hooks 0x10 (?s\<lparr>kern := 2\<rparr>) = (0, ?s2)"
    and out: "ToKAutoObject demo_hooks (tls_cmdbuf ?s2 ! 3) ?s2 = (0x34, ?s2\<lparr>kern := 3\<rparr>)"
    by (simp_all add: ToKAutoObject_def SendSyncRequest_def with_kernel_def kernel_steps_def demo_hooks_def demo_hook_state_def)
  have "lookup_name demo_hooks 0x14 (?s\<lparr>kern := 2\<rparr>) = Some (strncpy12 (chars ''srv:''))"
    by (simp add: lookup_name_def demo_hooks_def demo_hook_state_def demo_lookups) (simp add: demo_table_def)
  then have nm: "name_is (lookup_name demo_hooks 0x14 (?s\<lparr>kern := 2\<rparr>)) ''srv:''"
    by (simp add: name_is_def strcmp_equal_def strncpy12_def chars_def c_str_def)
  have kobj: "strcmp_equal (k_className demo_hooks x k) (chars ''KClientSession'')"
    "snd (k_DecrementReferenceCount demo_hooks x k) = []" "k_parentSession demo_hooks 0x34 k = 0x30" for x k
    by (simp_all add: demo_hooks_def strcmp_equal_def)
  have room: "\<not> table_full (ipc (?s2\<lparr>kern := 3\<rparr>))"
    and new: "k_parentSession demo_hooks 0x34 (kern (?s2\<lparr>kern := 3\<rparr>)) \<notin> dom (names_of (ipc (?s2\<lparr>kern := 3\<rparr>)))"
    by (simp_all add: kobj demo_hook_state_def table_full_def demo_table_infos MAX_SESSION_def names_of_def dom_names_in)
  have hd: "tls_cmdbuf ?s ! 0 = 0x50100" by (simp add: demo_hook_state_def)
  have "strncpy12 (le_bytes (tls_cmdbuf ?s ! 1) @ le_bytes (tls_cmdbuf ?s ! 2) @ [0]) = strncpy12 (chars ''fml:u'')"
    by (simp add: demo_hook_state_def le_bytes_def strncpy12_def chars_def c_str_def)
  moreover have "ipcE demo_hooks = demo_ipc_env" by (simp add: demo_hooks_def)
  moreover have "names_of (ipc (?s2\<lparr>kern := 3\<rparr>)) 0x30 = None" using new unfolding kobj(3) by blast
  moreover obtain s' where "SendSyncRequestHook demo_hooks 0x10 ?s = Some (0, s')"
      "names_of (ipc s') = (names_of (ipc (?s2\<lparr>kern := 3\<rparr>)))(0x30 \<mapsto> strncpy12 (chars ''fml:u''))"
      "\<forall>nm. names_of (ipc s') 0x30 = Some nm \<longrightarrow>
        (\<exists>i. SessionInfo_Lookup demo_ipc_env 0x30 (ipc s') = Some i \<and> info_name (sessionInfos (ipc s') ! i) = nm)"
    using service_handle_registered [OF inv to _ kobj(1) hd nm send out _ kobj(1) kobj(2)] room new calculation(1,2)
    unfolding kobj(3) by auto
  ultimately show ?thesis by auto
qed

end
