(* ===== verification/Ldr_Theorems.thy ===== *)
theory Ldr_Theorems
  imports Ldr_Patcher K11_Requests
begin

text \<open>
  Properties of the code patcher: the path a title's files are looked for, IPS patches, byte
  patterns, and the way of a locale from the file of a title to the answer it gets from the
  kernel extension.
\<close>

section \<open>Paths\<close>

lemma drop_bit_small:
  fixes w :: u64
  assumes "unat w < 2 ^ n"
  shows "drop_bit n w = 0"
  using assms by (simp only: word_unat_eq_iff unat_drop_bit_eq) (simp add: drop_bit_eq_div)

lemma nibble_shifted:
  fixes w :: u64
  assumes "unat w < 2 ^ 56" and "i < 16"
  shows "nibble (15 - i) (push_bit 8 w) = (if i \<le> 13 then nibble (13 - i) w else 0)"
proof (rule bit_word_eqI)
  fix n assume "n < LENGTH(64)"
  have hi: "k < 56" if "bit w k" for k
  proof (rule ccontr)
    assume "\<not> k < 56"
    then have "bit (drop_bit 56 w) (k - 56) = bit w k" by (simp add: bit_drop_bit_eq)
    then show False using drop_bit_small [OF assms(1)] that by simp
  qed
  have lo: "bit (0xF :: u64) n \<longleftrightarrow> n < 4" using bit_mask_iff [of 4 n, where 'a = u64] by (simp add: mask_eq_exp_minus_1) auto
  show "bit (nibble (15 - i) (push_bit 8 w)) n = bit (if i \<le> 13 then nibble (13 - i) w else 0) n"
  proof (cases "i \<le> 13")
    case True
    then have "4 * (15 - i) + n = 8 + (4 * (13 - i) + n)" by simp
    then show ?thesis using True hi [of "4 * (13 - i) + n"]
      by (auto simp: bit_and_iff bit_drop_bit_eq bit_push_bit_iff)
  next
    case False
    then have "i = 14 \<or> i = 15" using assms(2) by arith
    then show ?thesis using lo by (auto simp: bit_and_iff bit_drop_bit_eq bit_push_bit_iff)
  qed
qed

lemma title_path_zeros:
  "chars (''/omiiba/titles/0000000000000000'' @ file) = chars ''/omiiba/titles/'' @ replicate 16 0x30 @ chars file"
  by (simp add: chars_def numeral_eq_Suc)

text \<open>C37. The title id is written two positions too far to the left: the files of a title are
  looked for in the directory of another title, whose id is the one shifted by two digits.\<close>

theorem title_path_shifted:
  assumes "unat progId < 2 ^ 56"
  shows "title_path file progId = chars ''/omiiba/titles/'' @ hex16 (push_bit 8 progId) @ chars file"
proof -
  have "title_path file progId = progIdToStr (chars ''/omiiba/titles/'' @ replicate 16 0x30 @ chars file)
      (length (chars ''/omiiba/titles/'') + 13) progId"
    by (simp only: title_path_def title_path_zeros) simp
  moreover have "\<dots> = chars ''/omiiba/titles/'' @ map (\<lambda>i. hex_char (nibble (13 - i) progId)) [0..<13 + 1] @
      drop (13 + 1) (replicate 16 0x30) @ chars file"
    using drop_bit_small [OF assms] by (intro progIdToStr_digits) auto
  moreover have "map (\<lambda>i. hex_char (nibble (13 - i) progId)) [0..<13 + 1] @ drop (13 + 1) (replicate 16 0x30) =
      hex16 (push_bit 8 progId)" (is "?l = ?r")
  proof (rule nth_equalityI)
    fix i assume "i < length ?l"
    then have "i < 16" by simp
    then show "?l ! i = ?r ! i"
      by (cases "i \<le> 13") (simp_all add: nth_hex16 nibble_shifted [OF assms] nth_append hex_char_def del: upt_Suc upt_rec_numeral)
  qed simp
  ultimately show ?thesis by (simp only: append_assoc [symmetric])
qed

lemma title_path_shifted_witness:
  "title_path ''/code.ips'' 0x0004000000030800 = chars ''/omiiba/titles/0400000003080000/code.ips''"
  by (subst title_path_shifted) (simp_all add: hex16_def chars_def hex_char_def upt_rec)

section \<open>IPS patches\<close>

text \<open>The abstract patch: a list of records, and what a record does to the code.\<close>

datatype ips_record = Chunk nat "u8 list" | Rle nat nat u8

definition be16 :: "nat \<Rightarrow> u8 list" where
  "be16 n = [of_nat (n div 256), of_nat (n mod 256)]"

definition be24 :: "nat \<Rightarrow> u8 list" where
  "be24 n = [of_nat (n div 65536), of_nat (n div 256 mod 256), of_nat (n mod 256)]"

fun ips_encode :: "ips_record \<Rightarrow> u8 list" where
  "ips_encode (Chunk off bs) = be24 off @ be16 (length bs) @ bs"
| "ips_encode (Rle off n b) = be24 off @ be16 0 @ be16 n @ [b]"

fun ips_apply :: "ips_record \<Rightarrow> image \<Rightarrow> image" where
  "ips_apply (Chunk off bs) m = write_bytes m (int off) bs"
| "ips_apply (Rle off n b) m = write_bytes m (int off) (replicate n b)"

text \<open>A record of the format (the offset that spells \<open>EOF\<close> is taken for the end), and one that fits
  into the code.\<close>

definition ips_offset_ok :: "nat \<Rightarrow> bool" where
  "ips_offset_ok off \<longleftrightarrow> off < 0x1000000 \<and> off \<noteq> 0x454F46"

fun ips_record_ok :: "ips_record \<Rightarrow> bool" where
  "ips_record_ok (Chunk off bs) \<longleftrightarrow> ips_offset_ok off \<and> bs \<noteq> [] \<and> length bs < 0x10000"
| "ips_record_ok (Rle off n b) \<longleftrightarrow> ips_offset_ok off \<and> n < 0x10000"

fun ips_fits :: "nat \<Rightarrow> ips_record \<Rightarrow> bool" where
  "ips_fits sz (Chunk off bs) \<longleftrightarrow> off + length bs \<le> sz"
| "ips_fits sz (Rle off n b) \<longleftrightarrow> off + n \<le> sz"

lemma unat_of_nat8: "n < 256 \<Longrightarrow> unat (of_nat n :: u8) = n"
  by (simp add: unat_of_nat)

lemma length_be [simp]: "length (be16 n) = 2" "length (be24 n) = 3"
  by (simp_all add: be16_def be24_def)

lemma be_be16: "n < 0x10000 \<Longrightarrow> be (be16 n) = n"
  by (simp add: be_def be16_def unat_of_nat8 less_mult_imp_div_less)

lemma be_be24: "n < 0x1000000 \<Longrightarrow> be (be24 n) = n"
proof -
  assume n: "n < 0x1000000"
  then have "n div 65536 < 256" by simp
  moreover have "256 * (256 * (n div 65536) + n div 256 mod 256) + n mod 256 = n"
  proof -
    have "n div 65536 = n div 256 div 256" by (simp add: div_mult2_eq [symmetric])
    then show ?thesis by (simp only: mult_div_mod_eq)
  qed
  ultimately show ?thesis by (simp add: be_def be24_def unat_of_nat8)
qed

lemma be_EOF: "be (chars ''EOF'') = 0x454F46"
  by (simp add: be_def chars_def)

lemma read_exact_ok:
  assumes "serves E (if_handle f) content" and "drop (if_pos f) content = bs @ rest" and "length bs = n"
  shows "read_exact E f n = (True, bs, f\<lparr>if_pos := if_pos f + n\<rparr>)"
proof -
  have "\<not> f_R_FAILED E 0" using assms(1) by (simp add: serves_def)
  then show ?thesis using assms by (simp add: read_exact_def IFile_Read_serves)
qed

text \<open>Reading on: what is left after a record.\<close>

lemma drop_more: "drop p content = bs @ rest \<Longrightarrow> drop (p + length bs) content = rest"
  by (metis add.commute append_eq_conv_conj drop_drop)

definition at_rest :: "file_env \<Rightarrow> Handle \<Rightarrow> u8 list \<Rightarrow> IFile \<Rightarrow> u8 list \<Rightarrow> bool" where
  "at_rest E h content f rest \<longleftrightarrow> serves E h content \<and> if_handle f = h \<and> drop (if_pos f) content = rest"

lemma at_rest_read:
  assumes "at_rest E h content f (bs @ rest)" and "length bs = n"
  obtains f' where "read_exact E f n = (True, bs, f')" and "at_rest E h content f' rest"
proof
  show "read_exact E f n = (True, bs, f\<lparr>if_pos := if_pos f + n\<rparr>)"
    using assms by (intro read_exact_ok) (auto simp: at_rest_def)
  show "at_rest E h content (f\<lparr>if_pos := if_pos f + n\<rparr>) rest"
    using assms drop_more [of "if_pos f" content bs rest] by (simp add: at_rest_def)
qed

lemma ips_header:
  assumes "at_rest E h content f (be24 off @ be16 n @ rest)" and "ips_offset_ok off" and "n < 0x10000"
  obtains f1 f2 where "read_exact E f 3 = (True, be24 off, f1)" "be24 off \<noteq> chars ''EOF''" "be (be24 off) = off"
    "read_exact E f1 2 = (True, be16 n, f2)" "be (be16 n) = n" "at_rest E h content f2 rest"
proof -
  obtain f1 where f1: "read_exact E f 3 = (True, be24 off, f1)" "at_rest E h content f1 (be16 n @ rest)"
    using at_rest_read [OF assms(1), of 3] by auto
  obtain f2 where f2: "read_exact E f1 2 = (True, be16 n, f2)" "at_rest E h content f2 rest"
    using at_rest_read [OF f1(2), of 2] by auto
  have "be (be24 off) = off" "be (be16 n) = n" using assms(2,3) by (simp_all add: ips_offset_ok_def be_be24 be_be16)
  moreover from this(1) have "be24 off \<noteq> chars ''EOF''" using assms(2) be_EOF by (auto simp: ips_offset_ok_def)
  ultimately show ?thesis using f1(1) f2 that by blast
qed

lemma ips_step:
  assumes "at_rest E h content f (ips_encode r @ rest)" and "ips_record_ok r" and "ips_fits sz r"
  obtains f' where "ips_loop (Suc fuel) E sz f code = ips_loop fuel E sz f' (ips_apply r code)"
    and "at_rest E h content f' rest"
proof (cases r)
  case (Chunk off bs)
  then have "at_rest E h content f (be24 off @ be16 (length bs) @ bs @ rest)" "ips_offset_ok off" "length bs < 0x10000"
    using assms(1,2) by auto
  from ips_header [OF this] obtain f1 f2 where f: "read_exact E f 3 = (True, be24 off, f1)" "be24 off \<noteq> chars ''EOF''"
    "be (be24 off) = off" "read_exact E f1 2 = (True, be16 (length bs), f2)" "be (be16 (length bs)) = length bs"
    "at_rest E h content f2 (bs @ rest)" by metis
  obtain f3 where f3: "read_exact E f2 (length bs) = (True, bs, f3)" "at_rest E h content f3 rest"
    using at_rest_read [OF f(6) refl] by auto
  have "ips_loop (Suc fuel) E sz f code = ips_loop fuel E sz f3 (ips_apply r code)"
    using f f3(1) assms(2,3) Chunk by simp
  then show ?thesis using f3(2) that by blast
next
  case (Rle off n b)
  then have r: "at_rest E h content f (be24 off @ be16 0 @ be16 n @ [b] @ rest)" "ips_offset_ok off" and n: "n < 0x10000"
    using assms(1,2) by auto
  obtain f1 f2 where f: "read_exact E f 3 = (True, be24 off, f1)" "be24 off \<noteq> chars ''EOF''"
    "be (be24 off) = off" "read_exact E f1 2 = (True, be16 0, f2)" "be (be16 0) = 0"
    "at_rest E h content f2 (be16 n @ [b] @ rest)" using ips_header [OF r] by auto
  obtain f3 where f3: "read_exact E f2 2 = (True, be16 n, f3)" "at_rest E h content f3 ([b] @ rest)"
    using at_rest_read [OF f(6), of 2] by auto
  obtain f4 where f4: "read_exact E f3 1 = (True, [b], f4)" "at_rest E h content f4 rest"
    using at_rest_read [OF f3(2), of 1] by auto
  have "ips_loop (Suc fuel) E sz f code = ips_loop fuel E sz f4 (ips_apply r code)"
    using f f3(1) f4(1) assms(3) Rle be_be16 [OF n] by simp
  then show ?thesis using f4(2) that by blast
qed

lemma ips_reject:
  assumes "at_rest E h content f (ips_encode r @ rest)" and "ips_record_ok r" and "\<not> ips_fits sz r"
  shows "ips_loop (Suc fuel) E sz f code = Some (False, code)"
proof (cases r)
  case (Chunk off bs)
  then have "at_rest E h content f (be24 off @ be16 (length bs) @ bs @ rest)" "ips_offset_ok off" "length bs < 0x10000"
    using assms(1,2) by auto
  from ips_header [OF this] obtain f1 f2 where f: "read_exact E f 3 = (True, be24 off, f1)" "be24 off \<noteq> chars ''EOF''"
    "be (be24 off) = off" "read_exact E f1 2 = (True, be16 (length bs), f2)" "be (be16 (length bs)) = length bs" by metis
  then show ?thesis using assms(2,3) Chunk by simp
next
  case (Rle off n b)
  then have r: "at_rest E h content f (be24 off @ be16 0 @ be16 n @ [b] @ rest)" "ips_offset_ok off" and n: "n < 0x10000"
    using assms(1,2) by auto
  obtain f1 f2 where f: "read_exact E f 3 = (True, be24 off, f1)" "be24 off \<noteq> chars ''EOF''"
    "be (be24 off) = off" "read_exact E f1 2 = (True, be16 0, f2)" "be (be16 0) = 0"
    "at_rest E h content f2 (be16 n @ [b] @ rest)" using ips_header [OF r] by auto
  obtain f3 where "read_exact E f2 2 = (True, be16 n, f3)" using at_rest_read [OF f(6), of 2] by auto
  then show ?thesis using f assms(3) Rle be_be16 [OF n] by simp
qed

text \<open>A patch that ends: with the end mark, or with a record that does not fit into the code.\<close>

definition ips_ending :: "nat \<Rightarrow> bool \<Rightarrow> u8 list \<Rightarrow> bool" where
  "ips_ending sz ok tail \<longleftrightarrow>
     (if ok then \<exists>rest. tail = chars ''EOF'' @ rest
      else \<exists>r rest. tail = ips_encode r @ rest \<and> ips_record_ok r \<and> \<not> ips_fits sz r)"

lemma ips_loop_ends:
  assumes "at_rest E h content f tail" and "ips_ending sz ok tail"
  shows "ips_loop (Suc fuel) E sz f code = Some (ok, code)"
proof (cases ok)
  case True
  then obtain rest where "tail = chars ''EOF'' @ rest" using assms(2) by (auto simp: ips_ending_def)
  with assms(1) obtain f' where "read_exact E f 3 = (True, chars ''EOF'', f')"
    using at_rest_read [of E h content f "chars ''EOF''" rest 3] by auto
  then show ?thesis using True by simp
next
  case False
  then show ?thesis using assms ips_reject by (fastforce simp: ips_ending_def)
qed

lemma ips_loop_applies:
  assumes "at_rest E h content f (concat (map ips_encode rs) @ tail)" and "ips_ending sz ok tail"
    and "\<forall>r \<in> set rs. ips_record_ok r \<and> ips_fits sz r" and "length rs < fuel"
  shows "ips_loop fuel E sz f code = Some (ok, fold ips_apply rs code)"
  using assms
proof (induction rs arbitrary: f code fuel)
  case Nil
  then show ?case using ips_loop_ends [of E h content f tail sz ok "fuel - 1" code] by (cases fuel) auto
next
  case (Cons r rs)
  obtain k where k: "fuel = Suc k" using Cons.prems(4) by (cases fuel) auto
  have "at_rest E h content f (ips_encode r @ concat (map ips_encode rs) @ tail)" "ips_record_ok r" "ips_fits sz r"
    using Cons.prems(1,3) by simp_all
  from ips_step [OF this] obtain f' where "ips_loop (Suc k) E sz f code = ips_loop k E sz f' (ips_apply r code)"
    "at_rest E h content f' (concat (map ips_encode rs) @ tail)" by metis
  then show ?case using Cons.IH [of f' k "ips_apply r code"] Cons.prems(2-4) k by simp
qed

text \<open>C38. An IPS patch is applied record by record: when the file ends with its end mark the result
  is success and the code has every record, in order; when a record reaches beyond the code the
  result is failure, and only the records before it have been applied.\<close>

theorem ips_patch_applied:
  assumes "FSUSER_OpenFileDirectly E (if isSysmodule progId then sysmodule_ips_path (progId AND NOT 0xF0000000)
             else title_path ''/code.ips'' progId) = (0, h)"
    and "serves E h (chars ''PATCH'' @ concat (map ips_encode rs) @ tail)"
    and "\<forall>r \<in> set rs. ips_record_ok r \<and> ips_fits sz r" and "ips_ending sz ok tail" and "length rs < fuel"
  shows "applyCodeIpsPatch fuel E progId sz code = Some (ok, fold ips_apply rs code)"
proof -
  let ?content = "chars ''PATCH'' @ concat (map ips_encode rs) @ tail"
  let ?f = "\<lparr>if_handle = h, if_pos = 0, if_size = 0\<rparr>"
  have "\<not> f_R_FAILED E 0" using assms(2) by (simp add: serves_def)
  then have open_ok: "openOmiibaFile E (if isSysmodule progId then sysmodule_ips_path (progId AND NOT 0xF0000000)
      else title_path ''/code.ips'' progId) = Some ?f"
    using assms(1) by (simp add: openOmiibaFile_def IFile_Open_def)
  have "at_rest E h ?content ?f (chars ''PATCH'' @ concat (map ips_encode rs) @ tail)"
    using assms(2) by (simp add: at_rest_def)
  from at_rest_read [OF this, of 5] obtain f' where "read_exact E ?f 5 = (True, chars ''PATCH'', f')"
    "at_rest E h ?content f' (concat (map ips_encode rs) @ tail)" by auto
  then show ?thesis
    using ips_loop_applies [of E h ?content f' rs tail sz ok fuel code] assms(3-5) open_ok
    by (simp add: applyCodeIpsPatch_def)
qed

definition demo_ips :: "u8 list \<Rightarrow> file_env" where
  "demo_ips content = \<lparr>FSUSER_OpenFileDirectly = (\<lambda>path. (0, 7)),
     FSFILE_Read = (\<lambda>h pos len. (0, take len (drop pos content))), FSFILE_GetSize = (\<lambda>h. (0, length content)),
     f_R_FAILED = (\<lambda>res. sint res < 0)\<rparr>"

lemma demo_ips_serves: "serves (demo_ips content) h content" "FSUSER_OpenFileDirectly (demo_ips content) path = (0, 7)"
  by (simp_all add: serves_def demo_ips_def)

lemma ips_patch_applied_witness:
  "applyCodeIpsPatch 3 (demo_ips (chars ''PATCH'' @ [0, 0, 2, 0, 2, 8, 9] @ [0, 0, 3, 0, 0, 0, 2, 7] @ chars ''EOF'')) 0x0004000000030800 4 (\<lambda>_. 1) =
     Some (False, write_bytes (\<lambda>_. 1) 2 [8, 9])"
proof -
  have enc: "ips_encode (Chunk 2 [8, 9]) = [0, 0, 2, 0, 2, 8, 9]" "ips_encode (Rle 3 2 7) = [0, 0, 3, 0, 0, 0, 2, 7]"
    by (simp_all add: be24_def be16_def)
  have "ips_ending 4 False (ips_encode (Rle 3 2 7) @ chars ''EOF'')"
    by (auto simp: ips_ending_def ips_offset_ok_def simp del: ips_encode.simps intro!: exI [of _ "Rle 3 2 7"])
  then show ?thesis
    using ips_patch_applied [of "demo_ips (chars ''PATCH'' @ [0, 0, 2, 0, 2, 8, 9] @ [0, 0, 3, 0, 0, 0, 2, 7] @ chars ''EOF'')"
        "0x0004000000030800" 7 "[Chunk 2 [8, 9]]" "ips_encode (Rle 3 2 7) @ chars ''EOF''" 4 False 3 "\<lambda>_. 1"]
    by (simp add: enc demo_ips_serves ips_offset_ok_def del: ips_encode.simps)
qed

section \<open>Locales\<close>

lemma region_index: "0 < i \<Longrightarrow> i < 8 \<Longrightarrow> i \<in> {1, 2, 3, 4, 5, 6, 7 :: nat}"
  by (simp only: insert_iff empty_iff) arith

lemma search_region:
  assumes "0 < i" and "i < 8"
  shows "search_code (chars (regions ! i)) 0 regions = Some i" and "length (regions ! i) = 3"
proof -
  from region_index [OF assms] show "search_code (chars (regions ! i)) 0 regions = Some i" "length (regions ! i) = 3"
    by (elim insertE emptyE; simp add: regions_def chars_def)+
qed

text \<open>The bits of the mask a parsed locale can have.\<close>

lemma parse_locale_region:
  assumes "search_code (take 3 buf) 0 regions = Some i"
  shows "lc_region (parse_locale n buf) = of_nat (i - 1)" and "bit (lc_mask (parse_locale n buf)) 0"
    and "bit (lc_mask (parse_locale n buf)) k \<Longrightarrow> k < 4"
proof -
  let ?l = "parse_locale n buf"
  have "lc_region ?l = of_nat (i - 1) \<and> lc_mask ?l \<in> {1, 3, 5, 7, 9, 11, 13, 15}"
    using assms by (auto simp: parse_locale_def no_locale_def Let_def split: option.splits)
  then show "lc_region ?l = of_nat (i - 1)" "bit (lc_mask ?l) 0" by auto
  have small: "lc_mask ?l = lc_mask ?l AND 0xF"
    using \<open>lc_region ?l = of_nat (i - 1) \<and> _\<close> by auto
  have "bit (0xF :: u8) k \<longleftrightarrow> k < 4" using bit_mask_iff [of 4 k, where 'a = u8] by (simp add: mask_eq_exp_minus_1) auto
  moreover have "bit (lc_mask ?l) k \<Longrightarrow> bit (0xF :: u8) k" by (subst (asm) small) (simp only: bit_and_iff)
  ultimately show "bit (lc_mask ?l) k \<Longrightarrow> k < 4" by blast
qed

lemma locale_word_fields:
  assumes "\<And>k. bit (lc_mask l) k \<Longrightarrow> k < 4" and "lc_region l < 8"
  shows "drop_bit 4 (locale_word l) AND 0xF = ucast (lc_region l)"
    and "locale_word l AND 1 \<noteq> 0 \<longleftrightarrow> bit (lc_mask l) 0"
proof -
  have reg: "k < 4" if "bit (lc_region l) k" for k
  proof (rule ccontr)
    assume "\<not> k < 4"
    then have "bit (drop_bit 4 (lc_region l)) (k - 4)" using that by (simp add: bit_drop_bit_eq)
    moreover have "unat (drop_bit 4 (lc_region l)) = 0"
      using assms(2) by (simp only: unat_drop_bit_eq) (simp add: drop_bit_eq_div word_less_nat_alt)
    ultimately show False by (simp add: unat_eq_0)
  qed
  show "drop_bit 4 (locale_word l) AND 0xF = ucast (lc_region l)"
  proof (rule bit_word_eqI)
    fix n assume "n < LENGTH(32)"
    have "bit (0xF :: u32) n \<longleftrightarrow> n < 4" using bit_mask_iff [of 4 n, where 'a = u32] by (simp add: mask_eq_exp_minus_1) auto
    then show "bit (drop_bit 4 (locale_word l) AND 0xF) n = bit (ucast (lc_region l) :: u32) n"
      using assms(1) [of "4 + n"] reg [of n]
      by (simp only: locale_word_def bit_and_iff bit_or_iff bit_drop_bit_eq comp_apply bit_push_bit_iff bit_ucast_iff) auto
  qed
  show "locale_word l AND 1 \<noteq> 0 \<longleftrightarrow> bit (lc_mask l) 0"
    unfolding and_1_bit by (simp add: locale_word_def bit_or_iff bit_push_bit_iff bit_ucast_iff)
qed

lemma u64_halves: "push_bit 32 (ucast (ucast (drop_bit 32 p) :: u32)) OR ucast (ucast p :: u32) = (p :: u64)"
  by (rule bit_word_eqI) (auto simp: bit_or_iff bit_push_bit_iff bit_ucast_iff bit_drop_bit_eq)

text \<open>C39. From the file to the answer: when a title's locale file begins with the code of a region
  and the loader has handed the parsed locale to the kernel, a request of that title for its region is answered
  with the number of that region.\<close>

theorem locale_file_region:
  fixes progId :: u64
  assumes "FSUSER_OpenFileDirectly F (title_path ''/locale.txt'' progId) = (0, fh)"
    and "serves F fh (chars (regions ! i) @ rest)" and "0 < i" and "i < 8"
    and "loadTitleLocaleConfig F progId = (found, l)"
    and "langemu_packed (processLangemuAttributes (ipc s0))"
    and "register_langemu (locale_word l) (ucast progId) (ucast (drop_bit 32 progId)) s0 = (0, s0')"
    and "ToKAutoObject E h s = (obj, s1)" and "obj \<noteq> 0"
    and "strcmp_equal (k_className E obj (kern s1)) (chars ''KClientSession'')"
    and "processLangemuAttributes (ipc s) = processLangemuAttributes (ipc s0')"
    and "k_titleId E (kern s1) = progId" and "progId \<noteq> 0"
    and "region_request (tls_cmdbuf s ! 0) (lookup_name E obj s1)"
  shows "found \<and> SendSyncRequestHook E h s = Some (0, DecrementReferenceCount E obj (s1\<lparr>tls_cmdbuf :=
      (tls_cmdbuf s)[0 := (tls_cmdbuf s ! 0 AND 0xFFFF0000) OR 0x80, 1 := 0, 2 := of_nat (i - 1)]\<rparr>))"
proof -
  let ?content = "chars (regions ! i) @ rest" and ?f = "\<lparr>if_handle = fh, if_pos = 0, if_size = 0\<rparr>"
  let ?n = "min (length ?content) 12"
  let ?buf = "take ?n ?content @ replicate (12 - length (take ?n ?content)) 0x2D"
  note code = search_region [OF assms(3,4)]
  have ok: "\<not> f_R_FAILED F 0" using assms(2) by (simp add: serves_def)
  have "openOmiibaFile F (title_path ''/locale.txt'' progId) = Some ?f"
    using assms(1) ok by (simp add: openOmiibaFile_def IFile_Open_def)
  then have "loadTitleLocaleConfig F progId = (True, parse_locale ?n ?buf)"
    using IFile_GetSize_serves [of F ?f ?content] ok code(2)
      IFile_Read_serves [of F "?f\<lparr>if_size := length ?content\<rparr>" ?content ?n] assms(2)
    by (simp add: loadTitleLocaleConfig_def Let_def)
  then have l: "found" "l = parse_locale ?n ?buf" using assms(5) by simp_all
  have "take 3 ?buf = chars (regions ! i)" using code(2) by (simp add: min_def)
  then have "search_code (take 3 ?buf) 0 regions = Some i" using code(1) by simp
  note pl = parse_locale_region [OF this, of ?n, folded l(2)]
  have "of_nat (i - 1) < (8 :: u8)" using assms(4) by (simp add: word_less_nat_alt unat_of_nat)
  then have reg: "lc_region l < 8" using pl(1) by simp
  note word = locale_word_fields [OF pl(3) reg]
  have "ucast (lc_region l) = (of_nat (i - 1) :: u32)"
    unfolding pl(1) using region_index [OF assms(3,4)] by (elim insertE emptyE) simp_all
  with word(1) have nib: "drop_bit 4 (locale_word l) AND 0xF = of_nat (i - 1)" by simp
  have "k_titleId E (kern s1) = push_bit 32 (ucast (ucast (drop_bit 32 progId) :: u32)) OR ucast (ucast progId :: u32)"
    "k_titleId E (kern s1) \<noteq> 0" "locale_word l AND 1 \<noteq> 0"
    using assms(12,13) word(2) pl(2) by (simp_all add: u64_halves)
  from region_served [OF assms(6-11) this assms(14)] show ?thesis
    using l(1) unfolding nib by simp
qed

definition demo_locale :: file_env where
  "demo_locale = \<lparr>FSUSER_OpenFileDirectly = (\<lambda>path. (0, 7)),
     FSFILE_Read = (\<lambda>h pos len. (0, take len (drop pos (chars ''EUR'')))), FSFILE_GetSize = (\<lambda>h. (0, 3)),
     f_R_FAILED = (\<lambda>res. sint res < 0)\<rparr>"

lemma locale_file_region_witness:
  "\<exists>s'. SendSyncRequestHook demo_hooks 0x20 (demo_asks (locale_word (snd (loadTitleLocaleConfig demo_locale 0x0004000000030800)))) =
      Some (0, s') \<and> tls_cmdbuf s' = [0x20080, 0, 2, 0]"
proof -
  note d = demo_asks_setup(1) demo_asks_setup(2-5) [of "locale_word (snd (loadTitleLocaleConfig demo_locale 0x0004000000030800))"]
    demo_asks_setup(6-8)
  have f: "FSUSER_OpenFileDirectly demo_locale path = (0, 7)" "serves demo_locale 7 (chars (regions ! 3) @ [])" for path
    by (simp_all add: demo_locale_def serves_def regions_def)
  have half: "(ucast (0x0004000000030800 :: u64) :: u32) = 0x30800" "(ucast (drop_bit 32 (0x0004000000030800 :: u64)) :: u32) = 0x40000"
    by simp_all
  from locale_file_region [OF f _ _ surjective_pairing d(1) d(2) [folded half] d(3) _ d(6) refl d(7) _ d(5)]
  show ?thesis by (simp add: d(4,8))
qed

end
