(* ===== verification/Ldr_LayeredFs.thy ===== *)
theory Ldr_LayeredFs
  imports Ldr_Patcher
begin

text \<open>
  The layered file system of the loader (\<open>findLayeredFsSymbols\<close>, \<open>findLayeredFsPayloadOffset\<close> and
  \<open>patchLayeredFs\<close> of \<open>loader/source/patcher.c\<close>): the functions of a title that are hooked are
  recognised by their instructions, a place for the payload and for the path is looked for, and
  the hooks are placed. The payload itself is assembly (\<open>romfsredir.s\<close>) and a parameter. Addresses
  are 32-bit as in the source, so that bounds such as \<open>size - 4\<close> wrap; the loops have fuel.
\<close>

definition write32 :: "image \<Rightarrow> u32 \<Rightarrow> u32 \<Rightarrow> image" where
  "write32 m a w = write_bytes m (uint a) (le_bytes w)"

abbreviation no_address :: u32 where
  "no_address \<equiv> 0xFFFFFFFF"

text \<open>The start of a function: a \<open>push\<close>, looked for backwards.\<close>

definition is_push :: "image \<Rightarrow> u32 \<Rightarrow> bool" where
  "is_push code pos \<longleftrightarrow> load16 code (uint pos + 2) = 0xE92D"

function findFunctionStart :: "image \<Rightarrow> u32 \<Rightarrow> u32" where
  "findFunctionStart code pos =
     (if pos \<ge> 4 then let pos = pos - 4 in if is_push code pos then pos else findFunctionStart code pos
      else no_address)"
  by pat_completeness auto
termination by (relation "measure (\<lambda>(_, pos). unat pos)") (auto simp: word_le_nat_alt unat_sub)

declare findFunctionStart.simps [simp del]

section \<open>Symbols\<close>

datatype fs_symbol = FsMountArchive | FsUnMountArchive | FsRegisterArchive | FsTryOpenFile | FsOpenFileDirectly

type_synonym symbols = "fs_symbol \<Rightarrow> u32"

definition no_symbols :: symbols where
  "no_symbols = (\<lambda>_. no_address)"

text \<open>The symbol whose instructions stand at an address, if it is not known yet.\<close>

definition symbol_at :: "image \<Rightarrow> u32 \<Rightarrow> u32 \<Rightarrow> symbols \<Rightarrow> fs_symbol option" where
  "symbol_at code sz addr syms =
     (let w = (\<lambda>i. load32 code (uint addr + 4 * i)) in
      if w 0 = 0xE5970010 then
        if addr \<le> sz - 12 \<and> syms FsMountArchive = no_address \<and> w 1 = 0xE1CD20D8 \<and> w 2 AND 0xFFFFFF = 0x008D0000
        then Some FsMountArchive else None
      else if w 0 = 0xE24DD028 then
        if addr \<le> sz - 16 \<and> syms FsMountArchive = no_address \<and> w 1 = 0xE1A04000 \<and> w 2 = 0xE59F60A8 \<and> w 3 = 0xE3A0C001
        then Some FsMountArchive else None
      else if w 0 = 0xE2844001 then
        if addr \<le> sz - 12 \<and> syms FsUnMountArchive = no_address \<and> w 1 = 0xE3540020 \<and> w 2 = 0x3AFFFFF0
        then Some FsUnMountArchive else None
      else if w 0 = 0xE353003A then
        if addr \<le> sz - 12 \<and> syms FsUnMountArchive = no_address \<and> w 1 AND 0xFFFFFF0F = 0x0A000009 \<and> w 2 AND 0xFFFF0FF0 = 0xE1A00400
        then Some FsUnMountArchive else None
      else if w 0 = 0xE3500008 then
        if addr \<le> sz - 12 \<and> syms FsRegisterArchive = no_address \<and> w 1 AND 0xFFF00FF0 = 0xE1800400 \<and> w 2 AND 0xFFF00FF0 = 0xE1800FC0
        then Some FsRegisterArchive else None
      else if w 0 = 0xE351003A then
        if addr \<le> sz - 0x40 \<and> syms FsTryOpenFile = no_address \<and> w 1 = 0x1AFFFFFC \<and> w 0xD = 0xE590C000 \<and> w 0xF = 0xE12FFF3C
        then Some FsTryOpenFile else None
      else if w 0 = 0x08030204 then
        if syms FsOpenFileDirectly = no_address then Some FsOpenFileDirectly else None
      else None)"

fun symbols_loop :: "nat \<Rightarrow> image \<Rightarrow> u32 \<Rightarrow> u32 \<Rightarrow> nat \<Rightarrow> symbols \<Rightarrow> (bool \<times> symbols) option" where
  "symbols_loop 0 code sz addr found syms = None"
| "symbols_loop (Suc fuel) code sz addr found syms =
     (if addr \<le> sz - 4 then
        case symbol_at code sz addr syms of
          None \<Rightarrow> symbols_loop fuel code sz (addr + 4) found syms
        | Some k \<Rightarrow>
            let f = findFunctionStart code addr; syms = syms(k := f) in
            if f \<noteq> no_address then
              if found + 1 = 5 then Some (True, syms) else symbols_loop fuel code sz (addr + 4) (found + 1) syms
            else symbols_loop fuel code sz (addr + 4) found syms
      else Some (found = 5, syms))"

definition findLayeredFsSymbols :: "nat \<Rightarrow> image \<Rightarrow> u32 \<Rightarrow> (bool \<times> symbols) option" where
  "findLayeredFsSymbols fuel code sz = symbols_loop fuel code sz 0 0 no_symbols"

section \<open>Places for the payload and the path\<close>

definition branch_offset :: "u32 \<Rightarrow> u32 \<Rightarrow> u32" where
  "branch_offset src dst = (signed_drop_bit 2 (dst - src) - 2) AND 0xFFFFFF"

definition MAKE_BRANCH :: "u32 \<Rightarrow> u32 \<Rightarrow> u32" where
  "MAKE_BRANCH src dst = 0xEA000000 OR branch_offset src dst"

definition MAKE_BRANCH_LINK :: "u32 \<Rightarrow> u32 \<Rightarrow> u32" where
  "MAKE_BRANCH_LINK src dst = 0xEB000000 OR branch_offset src dst"

text \<open>The loops over the words of the code that stop at the first address found.\<close>

fun scan_words :: "nat \<Rightarrow> u32 \<Rightarrow> u32 \<Rightarrow> (u32 \<Rightarrow> u32 option) \<Rightarrow> u32 option" where
  "scan_words 0 sz addr f = None"
| "scan_words (Suc fuel) sz addr f =
     (if addr \<le> sz - 4 then
        case f addr of None \<Rightarrow> None
        | Some r \<Rightarrow> if r \<noteq> no_address then Some r else scan_words fuel sz (addr + 4) f
      else Some no_address)"

text \<open>The function at \<open>func\<close>, unless it has the instruction that marks the wrong one.\<close>

fun reject_marked :: "nat \<Rightarrow> image \<Rightarrow> u32 \<Rightarrow> u32 \<Rightarrow> u32 \<Rightarrow> u32 option" where
  "reject_marked 0 code sz func pos = None"
| "reject_marked (Suc fuel) code sz func pos =
     (if func \<noteq> no_address \<and> pos \<le> sz - 4 \<and> \<not> is_push code pos then
        reject_marked fuel code sz (if load32 code (uint pos) = 0xE200167E then no_address else func) (pos + 4)
      else Some func)"

definition throwFatalError :: "nat \<Rightarrow> image \<Rightarrow> u32 \<Rightarrow> u32 option" where
  "throwFatalError fuel code sz = do {
     svcConnectToPort \<leftarrow> scan_words fuel sz 4
       (\<lambda>addr. Some (if load32 code (uint addr) = 0xEF00002D then addr - 4 else no_address));
     if svcConnectToPort = no_address then Some no_address
     else scan_words fuel sz 4 (\<lambda>i.
       if load32 code (uint i) \<noteq> MAKE_BRANCH_LINK i svcConnectToPort then Some no_address
       else let func = findFunctionStart code i in reject_marked fuel code sz func (func + 4))
   }"

definition round_page :: "u32 \<Rightarrow> u32" where
  "round_page n = (n + 4095) AND 0xFFFFF000"

record payload_place =
  payloadOffset :: u32
  pathOffset :: u32
  pathAddress :: u32

definition findLayeredFsPayloadOffset ::
    "nat \<Rightarrow> u32 \<Rightarrow> image \<Rightarrow> u32 \<Rightarrow> u32 \<Rightarrow> u32 \<Rightarrow> u32 \<Rightarrow> u32 \<Rightarrow> (bool \<times> payload_place) option" where
  "findLayeredFsPayloadOffset fuel romfsRedirPatchSize code sz roSize dataSize roAddress dataAddress = do {
     let p = \<lparr>payloadOffset = 0, pathOffset = 0, pathAddress = 0xDEADCAFE\<rparr>;
     p \<leftarrow> if round_page sz - sz \<ge> romfsRedirPatchSize then Some (p\<lparr>payloadOffset := sz\<rparr>)
         else map_option (\<lambda>func. if func \<noteq> no_address then p\<lparr>payloadOffset := func\<rparr> else p) (throwFatalError fuel code sz);
     p \<leftarrow> if round_page roSize - roSize \<ge> 39 then
            Some (p\<lparr>pathOffset := round_page sz + roSize, pathAddress := roAddress + roSize\<rparr>)
         else if round_page dataSize - dataSize \<ge> 39 then
            Some (p\<lparr>pathOffset := round_page sz + round_page roSize + dataSize, pathAddress := dataAddress + dataSize\<rparr>)
         else map_option (\<lambda>strSpace.
                if strSpace \<noteq> no_address then p\<lparr>pathOffset := strSpace, pathAddress := 0x100000 + strSpace\<rparr> else p)
              (scan_words fuel sz 0 (\<lambda>addr.
                Some (if load32 code (uint addr) = 0xE3A00B42 then findFunctionStart code addr else no_address)));
     Some (payloadOffset p \<noteq> 0 \<and> pathOffset p \<noteq> 0, p)
   }"

section \<open>Hooks\<close>

record redir_words =
  rw_substituted1 :: u32
  rw_hook1 :: u32
  rw_substituted2 :: u32
  rw_hook2 :: u32
  rw_customPath :: u32
  rw_mount :: u32
  rw_unmount :: u32
  rw_register :: u32
  rw_archiveId :: u32
  rw_updateMount :: "u8 list"

text \<open>The payload: its bytes for given words, and where the words that are branches stand in it.\<close>

record redir_payload =
  rp_bytes :: "redir_words \<Rightarrow> u8 list"
  rp_size :: u32
  rp_hook1 :: u32
  rp_hook2 :: u32
  rp_mount :: u32
  rp_unmount :: u32
  rp_register :: u32

definition updateRomFsMounts :: "string list" where
  "updateRomFsMounts = [''ro2:'', ''rom2:'', ''rex:'', ''patch:'', ''ext:'', ''rom:'']"

text \<open>The first mount point, of those before the last one, whose name stands in the code behind a
  zero byte.\<close>

fun find_mount :: "nat \<Rightarrow> image \<Rightarrow> u32 \<Rightarrow> string list \<Rightarrow> string option" where
  "find_mount fuel code sz [] = Some ''''"
| "find_mount fuel code sz [m] = Some m"
| "find_mount fuel code sz (m # ms) =
     (case memsearch fuel (\<lambda>x. code (int x)) (nth (0 # chars m)) sz (of_nat (length m + 1)) of
        None \<Rightarrow> None
      | Some None \<Rightarrow> find_mount fuel code sz ms
      | Some (Some _) \<Rightarrow> Some m)"

definition isMarioKart7 :: "u64 \<Rightarrow> bool" where
  "isMarioKart7 progId \<longleftrightarrow> (ucast progId :: u32) \<in> {0x00030600, 0x00030700, 0x00030800, 0x00030A00, 0x0008B400}"

text \<open>\<open>dir\<close> gives the archive that has a directory, 0 if none has it.\<close>

definition patchLayeredFs :: "nat \<Rightarrow> redir_payload \<Rightarrow> (u8 list \<Rightarrow> u32) \<Rightarrow> u64 \<Rightarrow> image \<Rightarrow> u32 \<Rightarrow> u32 \<Rightarrow> u32 \<Rightarrow> u32 \<Rightarrow>
    u32 \<Rightarrow> u32 \<Rightarrow> (bool \<times> image) option" where
  "patchLayeredFs fuel R dir progId code sz textSize roSize dataSize roAddress dataAddress =
     (let path = title_path ''/romfs'' progId; archiveId = dir path in
      if archiveId = 0 then Some (True, code)
      else do {
        (ok, syms) \<leftarrow> findLayeredFsSymbols fuel code textSize;
        if \<not> ok then Some (False, code)
        else do {
          (ok, p) \<leftarrow> findLayeredFsPayloadOffset fuel (rp_size R) code textSize roSize dataSize roAddress dataAddress;
          if \<not> ok then Some (False, code)
          else do {
            mount \<leftarrow> if isMarioKart7 progId then Some ''pat1'' else find_mount fuel code sz updateRomFsMounts;
            let at_payload = (\<lambda>off. payloadOffset p + off);
            let words = \<lparr>rw_substituted1 = load32 code (uint (syms FsOpenFileDirectly)),
              rw_hook1 = MAKE_BRANCH (at_payload (rp_hook1 R)) (syms FsOpenFileDirectly + 4),
              rw_substituted2 = load32 code (uint (syms FsTryOpenFile)),
              rw_hook2 = MAKE_BRANCH (at_payload (rp_hook2 R)) (syms FsTryOpenFile + 4),
              rw_customPath = pathAddress p,
              rw_mount = MAKE_BRANCH_LINK (at_payload (rp_mount R)) (syms FsMountArchive),
              rw_unmount = MAKE_BRANCH_LINK (at_payload (rp_unmount R)) (syms FsUnMountArchive),
              rw_register = MAKE_BRANCH_LINK (at_payload (rp_register R)) (syms FsRegisterArchive),
              rw_archiveId = archiveId, rw_updateMount = take 4 (chars mount)\<rparr>;
            let code = write_bytes code (uint (payloadOffset p)) (rp_bytes R words);
            let code = write_bytes code (uint (pathOffset p)) (chars ''lf:'');
            let code = write_bytes code (uint (pathOffset p) + 3) (path @ [0]);
            let code = write32 code (syms FsOpenFileDirectly) (MAKE_BRANCH (syms FsOpenFileDirectly) (payloadOffset p));
            let code = write32 code (syms FsTryOpenFile) (MAKE_BRANCH (syms FsTryOpenFile) (payloadOffset p + 12));
            Some (True, code)
          }
        }
      })"

section \<open>The search for the symbols\<close>

lemma unat_plus_4:
  fixes a sz :: u32
  assumes "4 \<le> sz" and "a \<le> sz - 4"
  shows "unat (a + 4) = unat a + 4" and "unat a + 4 \<le> unat sz"
proof -
  have "unat (sz - 4) = unat sz - 4" "4 \<le> unat sz" using assms(1) by (simp_all add: unat_sub word_le_nat_alt)
  then show le: "unat a + 4 \<le> unat sz" using assms(2) by (simp add: word_le_nat_alt)
  then show "unat (a + 4) = unat a + 4" using unat_u32_less [of sz] by (simp add: unat_word_ariths)
qed

lemma function_start:
  assumes "findFunctionStart code pos \<noteq> no_address"
  shows "is_push code (findFunctionStart code pos)" and "unat (findFunctionStart code pos) + 4 \<le> unat pos"
    and "4 dvd unat pos \<Longrightarrow> 4 dvd unat (findFunctionStart code pos)"
  using assms
proof (induction code pos rule: findFunctionStart.induct)
  case (1 code pos)
  {
    case 1
    then show ?case using "1.IH"(1) findFunctionStart.simps [of code pos] by (auto simp: Let_def split: if_splits)
  next
    case 2
    have "4 \<le> pos" using 2 findFunctionStart.simps [of code pos] by (auto split: if_splits)
    then have "unat (pos - 4) = unat pos - 4" "4 \<le> unat pos" by (simp_all add: unat_sub word_le_nat_alt)
    then show ?case using 2 "1.IH"(2) \<open>4 \<le> pos\<close> findFunctionStart.simps [of code pos]
      by (auto simp: Let_def split: if_splits)
  next
    case 3
    have "4 \<le> pos" using 3 findFunctionStart.simps [of code pos] by (auto split: if_splits)
    then have "unat (pos - 4) = unat pos - 4" "4 \<le> unat pos" by (simp_all add: unat_sub word_le_nat_alt)
    then have "4 dvd unat (pos - 4)" using 3(1) by (simp add: dvd_diff_nat)
    then show ?case using 3 "1.IH"(3) \<open>4 \<le> pos\<close> findFunctionStart.simps [of code pos]
      by (auto simp: Let_def split: if_splits)
  }
qed

lemma symbol_at_unknown: "symbol_at code sz addr syms = Some k \<Longrightarrow> syms k = no_address"
  by (auto simp: symbol_at_def Let_def split: if_splits)

lemma UNIV_fs_symbol: "(UNIV :: fs_symbol set) =
    {FsMountArchive, FsUnMountArchive, FsRegisterArchive, FsTryOpenFile, FsOpenFileDirectly}"
  using fs_symbol.exhaust by blast

definition known :: "symbols \<Rightarrow> fs_symbol set" where
  "known syms = {k. syms k \<noteq> no_address}"

lemma finite_known [simp]: "finite (known syms)"
  by (rule finite_subset [OF subset_UNIV]) (simp add: UNIV_fs_symbol)

lemma card_known_5: "card (known syms) = 5 \<longleftrightarrow> known syms = UNIV"
proof
  assume "card (known syms) = 5"
  moreover have "card (UNIV :: fs_symbol set) = 5" "finite (UNIV :: fs_symbol set)" by (simp_all add: UNIV_fs_symbol)
  ultimately show "known syms = UNIV" using card_subset_eq [of "UNIV :: fs_symbol set" "known syms"] by simp
next
  assume "known syms = UNIV"
  then show "card (known syms) = 5" by (simp add: UNIV_fs_symbol)
qed

text \<open>A symbol that is known is the aligned start of a function inside the text.\<close>

definition symbols_ok :: "image \<Rightarrow> u32 \<Rightarrow> symbols \<Rightarrow> bool" where
  "symbols_ok code sz syms \<longleftrightarrow>
     (\<forall>k \<in> known syms. is_push code (syms k) \<and> 4 dvd unat (syms k) \<and> unat (syms k) + 8 \<le> unat sz)"

lemma symbols_loop_finds:
  assumes "4 \<le> sz" and "0 < fuel" and "unat sz < 4 * fuel + unat addr" and "4 dvd unat addr"
    and "found = card (known syms)" and "found < 5" and "symbols_ok code sz syms"
  shows "\<exists>ok syms'. symbols_loop fuel code sz addr found syms = Some (ok, syms') \<and>
           ok = (known syms' = UNIV) \<and> symbols_ok code sz syms'"
  using assms(2-7)
proof (induction fuel arbitrary: addr found syms)
  case (Suc fuel)
  show ?case
  proof (cases "addr \<le> sz - 4")
    case False
    then show ?thesis using Suc.prems(4,5,6) card_known_5 [of syms] by auto
  next
    case True
    note a = unat_plus_4 [OF assms(1) True]
    have more: "0 < fuel" "unat sz < 4 * fuel + unat (addr + 4)" "4 dvd unat (addr + 4)"
      using Suc.prems(2,3) a by auto
    show ?thesis
    proof (cases "symbol_at code sz addr syms")
      case None
      then show ?thesis using Suc.IH [OF more Suc.prems(4-6)] True by simp
    next
      case (Some k)
      let ?f = "findFunctionStart code addr"
      have k: "k \<notin> known syms" using symbol_at_unknown [OF Some] by (simp add: known_def)
      show ?thesis
      proof (cases "?f = no_address")
        case True
        then have "syms(k := ?f) = syms" using k by (simp add: known_def fun_upd_idem)
        then show ?thesis using Suc.IH [OF more Suc.prems(4-6)] Some \<open>addr \<le> sz - 4\<close> True by simp
      next
        case False
        have kn: "known (syms(k := ?f)) = insert k (known syms)" using False by (auto simp: known_def)
        then have c: "card (known (syms(k := ?f))) = found + 1" using k Suc.prems(4) by simp
        have "is_push code ?f" "4 dvd unat ?f" "unat ?f + 8 \<le> unat sz"
          using function_start [OF False] Suc.prems(3) a by auto
        then have ok: "symbols_ok code sz (syms(k := ?f))" using Suc.prems(6) k by (auto simp: symbols_ok_def kn)
        show ?thesis
        proof (cases "found + 1 = 5")
          case True
          then show ?thesis using Some \<open>addr \<le> sz - 4\<close> False ok c card_known_5 [of "syms(k := ?f)"] by (auto simp: Let_def)
        next
          case more_left: False
          then have "found + 1 < 5" using Suc.prems(5) by simp
          from Suc.IH [OF more c [symmetric] this ok]
          have "\<exists>ok syms'. symbols_loop fuel code sz (addr + 4) (found + 1) (syms(k := ?f)) = Some (ok, syms') \<and>
              ok = (known syms' = UNIV) \<and> symbols_ok code sz syms'" .
          moreover have "symbols_loop (Suc fuel) code sz addr found syms =
              symbols_loop fuel code sz (addr + 4) (found + 1) (syms(k := ?f))"
            using Some \<open>addr \<le> sz - 4\<close> False more_left by (simp add: Let_def del: fun_upd_apply)
          ultimately show ?thesis by metis
        qed
      qed
    qed
  qed
qed simp

text \<open>C40. The search for the functions of the file system ends on every text of at least one word;
  it succeeds exactly if all five are known, and every one that is known is the aligned start of
  a function inside the text, so that the hooks are written over instructions of the title.\<close>

theorem layeredfs_symbols:
  assumes "4 \<le> textSize" and "unat textSize < 4 * fuel"
  shows "\<exists>ok syms. findLayeredFsSymbols fuel code textSize = Some (ok, syms) \<and>
     (ok \<longleftrightarrow> (\<forall>k. syms k \<noteq> no_address)) \<and>
     (\<forall>k. syms k = no_address \<or> is_push code (syms k) \<and> 4 dvd unat (syms k) \<and> unat (syms k) + 8 \<le> unat textSize)"
proof -
  have "known no_symbols = {}" by (simp add: known_def no_symbols_def)
  then obtain ok syms where "findLayeredFsSymbols fuel code textSize = Some (ok, syms)" "ok = (known syms = UNIV)"
    "symbols_ok code textSize syms"
    using symbols_loop_finds [OF assms(1), of fuel 0 0 no_symbols code] assms(2)
    by (auto simp: findLayeredFsSymbols_def symbols_ok_def)
  then show ?thesis by (auto simp: symbols_ok_def known_def)
qed

lemma layeredfs_symbols_witness:
  "\<exists>ok syms. findLayeredFsSymbols 9 (\<lambda>_. 0) 32 = Some (ok, syms)"
  using layeredfs_symbols [of 32 9 "\<lambda>_. 0"] by auto

end
