(* ===== verification/Ldr_PatchCode.thy ===== *)
theory Ldr_PatchCode
  imports Ldr_LayeredFs
begin

text \<open>
  \<open>patchCode\<close> of \<open>loader/source/patcher.c\<close>: the patches of the system titles, the user's patches
  and the locale of a title, in the order of the code; and the files that replace the code or
  the header of a title. A patch gives the new code, or \<open>None\<close> where the source goes to \<open>error\<close>
  and stops the system; the outer option is the fuel of the searches. The BPS patcher (C++) is
  a parameter.
\<close>

section \<open>Environment and outcomes\<close>

record patch_env =
  pe_files :: file_env
  pe_nand :: file_env
  pe_dir :: "u8 list \<Rightarrow> u32"
  pe_redir :: redir_payload
  pe_bps :: "u64 \<Rightarrow> u32 \<Rightarrow> image \<Rightarrow> bool \<times> image"
  pe_config :: u32
  pe_multiConfig :: u32
  pe_bootConfig :: u32
  pe_isN3DS :: bool
  pe_isOmiibaWithKext :: bool
  pe_secureInfo :: bool
  pe_stale :: "u8 list"

datatype single_option =
    AUTOBOOTEMU | LOADEXTFIRMSANDMODULES | PATCHGAMES | REDIRECTAPPTHREADS | PATCHVERSTRING | SHOWGBABOOT
  | PATCHUNITINFO | ENABLEDSIEXTFILTER | DISABLEARM11EXCHANDLERS | ENABLESAFEFIRMROSALINA

primrec option_bit :: "single_option \<Rightarrow> nat" where
  "option_bit AUTOBOOTEMU = 0"
| "option_bit LOADEXTFIRMSANDMODULES = 1"
| "option_bit PATCHGAMES = 2"
| "option_bit REDIRECTAPPTHREADS = 3"
| "option_bit PATCHVERSTRING = 4"
| "option_bit SHOWGBABOOT = 5"
| "option_bit PATCHUNITINFO = 6"
| "option_bit ENABLEDSIEXTFILTER = 7"
| "option_bit DISABLEARM11EXCHANDLERS = 8"
| "option_bit ENABLESAFEFIRMROSALINA = 9"

definition CONFIG :: "patch_env \<Rightarrow> single_option \<Rightarrow> bool" where
  "CONFIG E opt \<longleftrightarrow> drop_bit (option_bit opt) (pe_config E) AND 1 \<noteq> 0"

definition MULTICONFIG_NEWCPU :: "patch_env \<Rightarrow> u32" where
  "MULTICONFIG_NEWCPU E = drop_bit 8 (pe_multiConfig E) AND 3"

definition BOOTCFG_NAND :: "patch_env \<Rightarrow> u32" where
  "BOOTCFG_NAND E = pe_bootConfig E AND 1"

definition BOOTCFG_EMUINDEX :: "patch_env \<Rightarrow> u32" where
  "BOOTCFG_EMUINDEX E = drop_bit 1 (pe_bootConfig E) AND 3"

type_synonym patched = "image option option"

definition patch_then :: "patched \<Rightarrow> (image \<Rightarrow> patched) \<Rightarrow> patched" where
  "patch_then r f = (case r of None \<Rightarrow> None | Some None \<Rightarrow> Some None | Some (Some code) \<Rightarrow> f code)"

definition patched :: "image \<Rightarrow> patched" where
  "patched code = Some (Some code)"

definition patch_error :: patched where
  "patch_error = Some None"

text \<open>\<open>patchMemory\<close> whose number of matches is tested.\<close>

definition patch_pattern :: "nat \<Rightarrow> int \<Rightarrow> u32 \<Rightarrow> u8 list \<Rightarrow> int \<Rightarrow> u8 list \<Rightarrow> nat \<Rightarrow> (u32 \<Rightarrow> bool) \<Rightarrow> image \<Rightarrow> patched" where
  "patch_pattern fuel start sz pat offset replace cnt ok code =
     (case patchMemory fuel start sz pat offset replace cnt code of
        None \<Rightarrow> None
      | Some (n, code) \<Rightarrow> if ok n then patched code else patch_error)"

definition search_bytes :: "nat \<Rightarrow> image \<Rightarrow> int \<Rightarrow> u32 \<Rightarrow> u8 list \<Rightarrow> u32 option option" where
  "search_bytes fuel code start sz pat = memsearch fuel (\<lambda>x. code (start + int x)) (nth pat) sz (of_nat (length pat))"

definition utf16_chars :: "u16 list \<Rightarrow> u8 list" where
  "utf16_chars cs = concat (map (\<lambda>c. [ucast c, ucast (drop_bit 8 c)]) cs)"

definition utf16_string :: "string \<Rightarrow> u16 list" where
  "utf16_string s = map ucast (chars s)"

section \<open>Title ids\<close>

definition home_menus :: "u64 list" where
  "home_menus = [0x0004003000008F02, 0x0004003000008202, 0x0004003000009802, 0x000400300000A902,
     0x000400300000A102, 0x000400300000B102]"

definition msets :: "u64 list" where
  "msets = [0x0004001000021000, 0x0004001000020000, 0x0004001000022000, 0x0004001000026000,
     0x0004001000027000, 0x0004001000028000]"

definition isApp :: "u64 \<Rightarrow> bool" where
  "isApp progId \<longleftrightarrow> drop_bit 32 progId AND NOT 0x12 = 0x00040000"

definition isApplet :: "u64 \<Rightarrow> bool" where
  "isApplet progId \<longleftrightarrow> drop_bit 32 progId = 0x00040030"

section \<open>HOME menu\<close>

fun manual_check_loop :: "nat \<Rightarrow> u32 \<Rightarrow> u32 \<Rightarrow> image \<Rightarrow> patched" where
  "manual_check_loop 0 i textSize code = None"
| "manual_check_loop (Suc fuel) i textSize code =
     (if i < textSize then
        if load32 code (uint i + 4) = 0xE1A0000D \<and> load32 code (uint i) AND 0xFFFFFF00 = 0x0A000000 \<and>
           load32 code (uint i - 4) AND 0xFFFFFF00 = 0xE1110000
        then patched (write32 code i 0xE320F000)
        else manual_check_loop fuel (i + 4) textSize code
      else if i = textSize then patch_error else patched code)"

definition applyRegionFreePatch :: "u64 \<Rightarrow> u16 \<Rightarrow> bool" where
  "applyRegionFreePatch progId progVer \<longleftrightarrow>
     \<not> (progId \<in> {0x0004003000008F02, 0x0004003000008202, 0x0004003000009802} \<and> progVer \<le> 4) \<and>
     \<not> (progId = 0x000400300000A902 \<and> progVer = 0)"

definition patch_home_menu :: "nat \<Rightarrow> u64 \<Rightarrow> u16 \<Rightarrow> u32 \<Rightarrow> image \<Rightarrow> patched" where
  "patch_home_menu fuel progId progVer textSize code =
     patch_then
       (if applyRegionFreePatch progId progVer
        then patch_pattern fuel 0 textSize [0x0A, 0x0C, 0x00, 0x10] (- 31)
               [0x01, 0x00, 0xA0, 0xE3, 0x1E, 0xFF, 0x2F, 0xE1] 1 (\<lambda>n. n \<noteq> 0) code
        else patched code) (\<lambda>code.
     patch_then (manual_check_loop fuel 4 textSize code) (\<lambda>code.
     case search_bytes fuel code 0 textSize [0x10, 0xD1, 0xE5, 0x08, 0x00, 0x8D] of
       None \<Rightarrow> None
     | Some None \<Rightarrow> patch_error
     | Some (Some temp) \<Rightarrow>
         let additive = findFunctionStart code (temp - 1) in
         if additive = no_address then patch_error
         else patched (write32 (write32 code additive 0xE3A00000) (additive + 4) 0xE12FFF1E)))"

section \<open>System settings\<close>

text \<open>The conversion of the custom version string from UTF-8: at most 19 units.\<close>

fun utf16_loop :: "nat \<Rightarrow> u8 list \<Rightarrow> nat \<Rightarrow> nat \<Rightarrow> u16 list" where
  "utf16_loop 0 buf fileSize i = []"
| "utf16_loop (Suc k) buf fileSize i =
     (if i < fileSize then
        if buf ! i AND 0x80 = 0 \<and> \<not> (buf ! i = 0xA \<or> buf ! i = 0xD) then
          ucast (buf ! i) # utf16_loop k buf fileSize (i + 1)
        else if buf ! i AND 0xE0 = 0xC0 \<and> i + 1 < fileSize \<and> buf ! (i + 1) AND 0xC0 = 0x80 then
          (push_bit 6 (ucast (buf ! i AND 0x1F)) OR ucast (buf ! (i + 1) AND 0x3F)) # utf16_loop k buf fileSize (i + 2)
        else if buf ! i AND 0xF0 = 0xE0 \<and> i + 2 < fileSize \<and> buf ! (i + 1) AND 0xC0 = 0x80 \<and> buf ! (i + 2) AND 0xC0 = 0x80 then
          (push_bit 12 (ucast (buf ! i AND 0xF)) OR push_bit 6 (ucast (buf ! (i + 1) AND 0x3F)) OR ucast (buf ! (i + 2) AND 0x3F))
            # utf16_loop k buf fileSize (i + 3)
        else []
      else [])"

definition version_units :: "u8 list \<Rightarrow> nat \<Rightarrow> u16 list" where
  "version_units buf fileSize =
     (let us = utf16_loop 19 buf fileSize (if fileSize > 2 \<and> take 3 buf = [0xEF, 0xBB, 0xBF] then 3 else 0) in
      if 5 < length us \<and> length us < 19 then us @ [0] else us)"

definition customVersion_paths :: "string list" where
  "customVersion_paths = [''/omiiba/customversion_sys.txt'', ''/omiiba/customversion_emu.txt'',
     ''/omiiba/customversion_emu2.txt'', ''/omiiba/customversion_emu3.txt'', ''/omiiba/customversion_emu4.txt'']"

text \<open>The units of the string, none if there is no usable file; bytes that are not read are those
  the buffer on the stack had before.\<close>

definition loadCustomVerString :: "patch_env \<Rightarrow> u32 \<Rightarrow> u16 list" where
  "loadCustomVerString E currentNand =
     (let F = pe_files E in
      case openOmiibaFile F (chars (customVersion_paths ! unat currentNand)) of
        None \<Rightarrow> []
      | Some f \<Rightarrow>
          (case IFile_GetSize F f of (res, fileSize, f) \<Rightarrow>
             if f_R_FAILED F res \<or> fileSize > 62 then []
             else (case IFile_Read F f fileSize of (res, bs, f) \<Rightarrow>
                     if f_R_FAILED F res then [] else version_units (bs @ drop (length bs) (pe_stale E)) fileSize)))"

definition default_version :: "patch_env \<Rightarrow> u16 list" where
  "default_version E =
     utf16_string (if BOOTCFG_NAND E = 0 then '' Sys''
                   else ['' Emu'', ''Emu2'', ''Emu3'', ''Emu4''] ! unat (BOOTCFG_EMUINDEX E))"

text \<open>The two searches of the date picker go from word to word until the end of the text.\<close>

fun find_words :: "nat \<Rightarrow> image \<Rightarrow> int \<Rightarrow> int \<Rightarrow> (int \<Rightarrow> bool) \<Rightarrow> int option" where
  "find_words 0 code off textSize p = None"
| "find_words (Suc fuel) code off textSize p =
     (if off < textSize \<and> \<not> p off then find_words fuel code (off + 4) textSize p else Some off)"

definition set_low_byte :: "image \<Rightarrow> int \<Rightarrow> u8 \<Rightarrow> image" where
  "set_low_byte code off b = write_bytes code off (le_bytes ((load32 code off AND NOT 0xFF) OR ucast b))"

definition patch_date_picker :: "nat \<Rightarrow> u32 \<Rightarrow> image \<Rightarrow> patched" where
  "patch_date_picker fuel textSize code =
     (case find_words fuel code 0 (uint textSize)
             (\<lambda>off. \<not> (load32 code off AND 0xFFF0FFFF \<noteq> 0xE3500032 \<or> load32 code (off + 8) AND 0xFFFF0FFF \<noteq> 0xC3A00032)) of
        None \<Rightarrow> None
      | Some off \<Rightarrow>
          if off \<ge> uint textSize then patch_error
          else
            let code = set_low_byte (set_low_byte code off 99) (off + 8) 99 in
            case find_words fuel code 0 (uint textSize)
                   (\<lambda>off. \<not> (load32 code off \<noteq> 0xE2800001 \<or> load32 code (off + 4) \<noteq> 0xE3500032)) of
              None \<Rightarrow> None
            | Some off \<Rightarrow>
                if off \<ge> uint textSize then patch_error
                else patched (set_low_byte (set_low_byte code (off + 4) 99) (off + 36) 99))"

definition patch_mset :: "nat \<Rightarrow> patch_env \<Rightarrow> u32 \<Rightarrow> image \<Rightarrow> patched" where
  "patch_mset fuel E textSize code =
     patch_then
       (if CONFIG E PATCHVERSTRING then
          let custom = loadCustomVerString E (BOOTCFG_NAND E);
              patch = (if custom \<noteq> [] then custom else default_version E)
          in patch_pattern fuel 0 textSize (utf16_chars (utf16_string ''Ve'')) 0 (utf16_chars patch) 1 (\<lambda>n. n \<noteq> 0) code
        else patched code)
       (patch_date_picker fuel textSize)"

section \<open>NS\<close>

text \<open>The search for the end of the table in the read-only data goes in steps of 8 bytes.\<close>

fun table_end :: "nat \<Rightarrow> image \<Rightarrow> int \<Rightarrow> int \<Rightarrow> int option option" where
  "table_end 0 code stop pos = None"
| "table_end (Suc fuel) code stop pos =
     (if load32 code pos \<noteq> 0xCC010000 then
        if pos \<ge> stop then Some None else table_end fuel code stop (pos + 8)
      else Some (Some pos))"

definition load_bytes :: "image \<Rightarrow> int \<Rightarrow> nat \<Rightarrow> u8 list" where
  "load_bytes code a n = map (\<lambda>i. code (a + int i)) [0..<n]"

definition write_word :: "image \<Rightarrow> int \<Rightarrow> u32 \<Rightarrow> image" where
  "write_word code a w = write_bytes code a (le_bytes w)"

definition patch_cpu_setting :: "nat \<Rightarrow> u32 \<Rightarrow> u32 \<Rightarrow> image \<Rightarrow> patched" where
  "patch_cpu_setting fuel cpuSetting textSize code =
     (case search_bytes fuel code 0 textSize [0x0C, 0x00, 0x94, 0x15] of
        None \<Rightarrow> None
      | Some None \<Rightarrow> patch_error
      | Some (Some found) \<Rightarrow>
          let off = uint found;
              code = write_word code (off - 16) (load32 code (off - 12));
              code = write_word code (off - 12) (load32 code (off - 4));
              code = write_bytes code (off - 4) (load_bytes code off 16)
          in patched (write_word code (off + 12) (0xE3800000 OR cpuSetting)))"

definition patch_ns :: "nat \<Rightarrow> patch_env \<Rightarrow> u16 \<Rightarrow> u32 \<Rightarrow> u32 \<Rightarrow> image \<Rightarrow> patched" where
  "patch_ns fuel E progVer textSize roSize code =
     patch_then
       (if progVer > 4 then
          patch_pattern fuel 0 textSize [0x0C, 0x18, 0xE1, 0xD8] 0 [0x0B, 0x18, 0x21, 0xC8] 2
            (\<lambda>ret. \<not> (ret = 0 \<or> (ret = 1 \<and> progVer > 0xB))) code
        else patched code) (\<lambda>code.
     patch_then
       (if pe_isN3DS E \<and> MULTICONFIG_NEWCPU E \<noteq> 0 then patch_cpu_setting fuel (MULTICONFIG_NEWCPU E) textSize code
        else patched code) (\<lambda>code.
     if progVer > 0x12 then
       let roStart = uint (round_page textSize) in
       (case search_bytes fuel code roStart roSize [0x00, 0xB1, 0x15, 0x00] of
          None \<Rightarrow> None
        | Some None \<Rightarrow> patch_error
        | Some (Some found) \<Rightarrow>
            let start = roStart + uint found + 1 in
            (case table_end fuel code (roStart + uint roSize - 12) (start + 8) of
               None \<Rightarrow> None
             | Some None \<Rightarrow> patch_error
             | Some (Some pos) \<Rightarrow> patched (write_bytes code start (replicate (nat (pos - start)) 0))))
     else patched code))"

section \<open>The other system modules\<close>

text \<open>\<open>exists\<close>, the variable that remembers an earlier success, is \<open>pe_secureInfo\<close>.\<close>

definition secureInfoExists :: "patch_env \<Rightarrow> bool" where
  "secureInfoExists E \<longleftrightarrow> pe_secureInfo E \<or>
     (case IFile_Open (pe_nand E) (chars ''/sys/SecureInfo_C'') of (res, f) \<Rightarrow> \<not> f_R_FAILED (pe_nand E) res)"

definition patch_cfg :: "nat \<Rightarrow> patch_env \<Rightarrow> u32 \<Rightarrow> u32 \<Rightarrow> image \<Rightarrow> patched" where
  "patch_cfg fuel E textSize roSize code =
     patch_then (patch_pattern fuel 0 textSize [0x06, 0x46, 0x10, 0x48] 0 [0x00, 0x26] 1 (\<lambda>n. n \<noteq> 0) code) (\<lambda>code.
     if secureInfoExists E then
       patch_pattern fuel (uint (round_page textSize)) roSize (utf16_chars (utf16_string ''Sec'')) 22
         (utf16_chars (utf16_string ''C'')) 2 (\<lambda>n. n = 2) code
     else patched code)"

definition patch_ro :: "nat \<Rightarrow> u32 \<Rightarrow> image \<Rightarrow> patched" where
  "patch_ro fuel textSize code =
     (let patch = [0x00, 0x00, 0xA0, 0xE3, 0x1E, 0xFF, 0x2F, 0xE1] in
      patch_then (patch_pattern fuel 0 textSize [0x20, 0xA0, 0xE1, 0x8B] (- 9) patch 1 (\<lambda>n. n \<noteq> 0) code) (\<lambda>code.
      patch_then (patch_pattern fuel 0 textSize [0xE1, 0x30, 0x40, 0x2D] 1 patch 1 (\<lambda>n. n \<noteq> 0) code)
        (patch_pattern fuel 0 textSize [0x2D, 0xE9, 0x01, 0x70] (- 2) patch 1 (\<lambda>n. n \<noteq> 0))))"

text \<open>The second search of the client's region check is not tested: when it finds nothing, the
  code behind the null pointer is read, which stops the system as an error does. The third
  search covers \<open>textSize\<close> bytes from the place found, and so reaches beyond the code.\<close>

definition patch_dlp :: "nat \<Rightarrow> u32 \<Rightarrow> image \<Rightarrow> patched" where
  "patch_dlp fuel textSize code =
     patch_then (patch_pattern fuel 0 textSize [0x0C, 0xAC, 0xC0, 0xD8] 0 [0x00, 0x00, 0x00, 0x00] 1 (\<lambda>n. n \<noteq> 0) code) (\<lambda>code.
     case search_bytes fuel code 0 textSize [0x20, 0x82, 0xa8, 0x7e, 0x00, 0x28, 0x00, 0xd0, 0x01, 0x20, 0xa0, 0x77] of
       None \<Rightarrow> None
     | Some None \<Rightarrow> patch_error
     | Some (Some found) \<Rightarrow> patch_pattern fuel (uint found) textSize [0x42] 1 [0xC0, 0x46] 1 (\<lambda>n. n \<noteq> 0) code)"

definition patch_dsp :: "nat \<Rightarrow> u32 \<Rightarrow> image \<Rightarrow> patched" where
  "patch_dsp fuel textSize =
     patch_pattern fuel 0 textSize [0xE3, 0x10, 0x10, 0x80, 0xE2] (- 3) [0x00, 0x20, 0xA0, 0xE3] 1 (\<lambda>n. n \<noteq> 0)"

section \<open>The whole patcher\<close>

definition system_patches :: "nat \<Rightarrow> patch_env \<Rightarrow> u64 \<Rightarrow> u16 \<Rightarrow> u32 \<Rightarrow> u32 \<Rightarrow> image \<Rightarrow> patched" where
  "system_patches fuel E progId progVer textSize roSize code =
     (if progId \<in> set home_menus then patch_home_menu fuel progId progVer textSize code
      else if progId \<in> set msets then patch_mset fuel E textSize code
      else if progId = 0x0004013000008002 then patch_ns fuel E progVer textSize roSize code
      else if progId AND NOT 0xF0000001 = 0x0004013000001702 then patch_cfg fuel E textSize roSize code
      else if progId = 0x0004013000003702 \<and> progVer > 0 then patch_ro fuel textSize code
      else if progId = 0x0004013000002802 then patch_dlp fuel textSize code
      else if progId AND NOT 0xF0000001 = 0x0004013000001A02 then patch_dsp fuel textSize code
      else patched code)"

definition checked :: "(bool \<times> image) option \<Rightarrow> patched" where
  "checked r = map_option (\<lambda>(ok, code). if ok then Some code else None) r"

definition user_patches :: "nat \<Rightarrow> patch_env \<Rightarrow> u64 \<Rightarrow> u32 \<Rightarrow> image \<Rightarrow> patched" where
  "user_patches fuel E progId sz code =
     patch_then (checked (Some (pe_bps E progId sz code)))
       (\<lambda>code. checked (applyCodeIpsPatch fuel (pe_files E) progId (unat sz) code))"

text \<open>The sizes and addresses of the sections of a title.\<close>

record code_layout =
  cl_size :: u32
  cl_textSize :: u32
  cl_roSize :: u32
  cl_dataSize :: u32
  cl_roAddress :: u32
  cl_dataAddress :: u32

text \<open>The word passed to \<open>svcKernelSetState\<close> for the locale of a title, if it is called.\<close>

definition locale_call :: "patch_env \<Rightarrow> u64 \<Rightarrow> (u32 \<times> u64) option" where
  "locale_call E progId =
     (if pe_isOmiibaWithKext E then
        (case loadTitleLocaleConfig (pe_files E) progId of (ok, l) \<Rightarrow> if ok then Some (locale_word l, progId) else None)
      else None)"

definition games_patched :: "patch_env \<Rightarrow> bool \<Rightarrow> u64 \<Rightarrow> bool" where
  "games_patched E nextGamePatchDisabled progId \<longleftrightarrow>
     CONFIG E PATCHGAMES \<and> \<not> (isApp progId \<and> nextGamePatchDisabled)"

text \<open>The result is the code or an error, the call of the kernel, and the new value of
  \<open>nextGamePatchDisabled\<close>.\<close>

definition patchCode :: "nat \<Rightarrow> patch_env \<Rightarrow> bool \<Rightarrow> u64 \<Rightarrow> u16 \<Rightarrow> code_layout \<Rightarrow> image \<Rightarrow>
    (image option \<times> (u32 \<times> u64) option \<times> bool) option" where
  "patchCode fuel E nextGamePatchDisabled progId progVer L code =
     (let sz = cl_size L;
          error = Some (None, None, nextGamePatchDisabled) in
      case system_patches fuel E progId progVer (cl_textSize L) (cl_roSize L) code of
        None \<Rightarrow> None | Some None \<Rightarrow> error
      | Some (Some code) \<Rightarrow>
     (case if isSysmodule progId \<and> CONFIG E LOADEXTFIRMSANDMODULES then user_patches fuel E progId sz code else patched code of
        None \<Rightarrow> None | Some None \<Rightarrow> error
      | Some (Some code) \<Rightarrow>
      if games_patched E nextGamePatchDisabled progId then
        (case if \<not> isSysmodule progId then user_patches fuel E progId sz code else patched code of
           None \<Rightarrow> None | Some None \<Rightarrow> error
         | Some (Some code) \<Rightarrow>
             if isApp progId \<or> isApplet progId then
               let call = locale_call E progId in
               (case checked (patchLayeredFs fuel (pe_redir E) (pe_dir E) progId code sz (cl_textSize L) (cl_roSize L)
                                (cl_dataSize L) (cl_roAddress L) (cl_dataAddress L)) of
                  None \<Rightarrow> None
                | Some None \<Rightarrow> Some (None, call, nextGamePatchDisabled)
                | Some (Some code) \<Rightarrow> Some (Some code, call, False))
             else Some (Some code, None, False))
      else Some (Some code, None, False)))"

end
