(* ===== verification/Ldr_Titles.thy ===== *)
theory Ldr_Titles
  imports Ldr_PatchCode
begin

text \<open>
  The files that replace a title or a part of it (\<open>openSysmoduleCxi\<close> to \<open>loadTitleExheaderInfo\<close> of
  \<open>loader/source/patcher.c\<close>): the image of a system module on the SD card, with its header, extended
  header and code, and the code and the extended header of a title. Headers are the bytes of the
  file; the sizes of the extended header, a structure of the system library, are parameters.
\<close>

definition le32 :: "u8 list \<Rightarrow> nat \<Rightarrow> u32" where
  "le32 bs i = load32 (\<lambda>a. bs ! nat a) (int i)"

section \<open>Images of system modules\<close>

definition sysmodule_cxi_path :: "u64 \<Rightarrow> u8 list" where
  "sysmodule_cxi_path progId = progIdToStr (chars ''/omiiba/sysmodules/0000000000000000.cxi'') 34 progId"

definition openSysmoduleCxi :: "file_env \<Rightarrow> u64 \<Rightarrow> Result \<times> IFile" where
  "openSysmoduleCxi F progId = IFile_Open F (sysmodule_cxi_path (progId AND NOT 0xF0000000))"

text \<open>The fields of the NCCH header that are used.\<close>

abbreviation sizeof_Ncch :: nat where
  "sizeof_Ncch \<equiv> 0x200"

definition exHeaderSize :: "u8 list \<Rightarrow> u32" where
  "exHeaderSize hdr = le32 hdr 0x180"

definition contentUnitShift :: "u8 list \<Rightarrow> nat" where
  "contentUnitShift hdr = 9 + unat (hdr ! 0x18E)"

definition exeFsOffset :: "u8 list \<Rightarrow> u32" where
  "exeFsOffset hdr = push_bit (contentUnitShift hdr) (le32 hdr 0x1A0)"

definition exeFsSize :: "u8 list \<Rightarrow> u32" where
  "exeFsSize hdr = push_bit (contentUnitShift hdr) (le32 hdr 0x1A4)"

text \<open>\<open>IFile_ReadAt\<close> with a test of the number of bytes.\<close>

definition read_exact_at :: "file_env \<Rightarrow> IFile \<Rightarrow> u32 \<Rightarrow> u32 \<Rightarrow> bool \<times> u8 list \<times> IFile" where
  "read_exact_at F f offset len =
     (case IFile_ReadAt F f (unat offset) (unat len) of
        (res, bs, f) \<Rightarrow> (\<not> f_R_FAILED F res \<and> length bs = unat len, bs, f))"

definition readSysmoduleCxiNcchHeader :: "file_env \<Rightarrow> IFile \<Rightarrow> bool \<times> u8 list \<times> IFile" where
  "readSysmoduleCxiNcchHeader F f = read_exact_at F f 0 (of_nat sizeof_Ncch)"

definition readSysmoduleCxiExHeaderInfo :: "file_env \<Rightarrow> u32 \<Rightarrow> u8 list \<Rightarrow> IFile \<Rightarrow> bool \<times> u8 list \<times> IFile" where
  "readSysmoduleCxiExHeaderInfo F sizeof_ExHeader_Info hdr f =
     (let n = exHeaderSize hdr in
      if n < sizeof_ExHeader_Info then (False, [], f) else read_exact_at F f (of_nat sizeof_Ncch) n)"

text \<open>The last of the eight entries of the ExeFS whose name is \<open>.code\<close>: its offset and its size.\<close>

fun find_code :: "u8 list \<Rightarrow> nat \<Rightarrow> (u32 \<times> u32) option" where
  "find_code hdr 0 = None"
| "find_code hdr (Suc i) =
     (if take 6 (drop (16 * i) hdr) = chars ''.code'' @ [0] then Some (le32 hdr (16 * i + 8), le32 hdr (16 * i + 12))
      else find_code hdr i)"

text \<open>The result is the success, the size, and the bytes read into the memory of the code.\<close>

definition readSysmoduleCxiCode :: "file_env \<Rightarrow> u32 \<Rightarrow> IFile \<Rightarrow> u8 list \<Rightarrow> bool \<times> u32 \<times> u8 list \<times> IFile" where
  "readSysmoduleCxiCode F maxSize f ncch =
     (if exeFsSize ncch < 0x200 \<or> exeFsOffset ncch < 0x200 + exHeaderSize ncch then (False, 0, [], f)
      else
        (case read_exact_at F f (exeFsOffset ncch) 0x200 of
           (ok, hdr, f) \<Rightarrow>
             if \<not> ok then (False, 0, [], f)
             else
               (case find_code hdr 8 of
                  None \<Rightarrow> (False, 0, [], f)
                | Some (offset, sz) \<Rightarrow>
                    if sz > maxSize then (False, sz, [], f)
                    else (case read_exact_at F f (exeFsOffset ncch + 0x200 + offset) sz of
                            (ok, bs, f) \<Rightarrow> (ok, sz, bs, f)))))"

section \<open>Code and extended header of a title\<close>

text \<open>\<open>None\<close> is the end at the label \<open>error\<close>, which stops the system.\<close>

definition loadTitleCodeSection :: "file_env \<Rightarrow> u64 \<Rightarrow> u32 \<Rightarrow> (bool \<times> u8 list) option" where
  "loadTitleCodeSection F progId sz =
     (case openOmiibaFile F (title_path ''/code.bin'' progId) of
        None \<Rightarrow> Some (False, [])
      | Some f \<Rightarrow>
          (case IFile_GetSize F f of
             (res, fileSize, f) \<Rightarrow>
               if f_R_FAILED F res \<or> fileSize > unat sz then None
               else (case read_exact F f fileSize of (ok, bs, f) \<Rightarrow> if ok then Some (True, bs) else None)))"

definition loadTitleExheaderInfo :: "file_env \<Rightarrow> nat \<Rightarrow> nat \<Rightarrow> u64 \<Rightarrow> (bool \<times> u8 list) option" where
  "loadTitleExheaderInfo F sizeof_ExHeader_Info sizeof_ExHeader progId =
     (case openOmiibaFile F (title_path ''/exheader.bin'' progId) of
        None \<Rightarrow> Some (False, [])
      | Some f \<Rightarrow>
          (case IFile_GetSize F f of
             (res, fileSize, f) \<Rightarrow>
               if f_R_FAILED F res \<or> (fileSize \<noteq> sizeof_ExHeader_Info \<and> fileSize \<noteq> sizeof_ExHeader) then None
               else (case read_exact F f sizeof_ExHeader_Info of (ok, bs, f) \<Rightarrow> if ok then Some (True, bs) else None)))"

end
