(* ===== verification/Ldr_Paslr.thy ===== *)
theory Ldr_Paslr
  imports Omiiba_Prelude
begin

text \<open>
  The memory of a new process (\<open>loader/source/paslr.c\<close>): the image is divided into chunks of random
  sizes, which are allocated in a random order. The kernel, the system tick and the constants of
  the system headers are parameters; the calls of the kernel are recorded, and its answers may
  depend on the earlier ones. The state of \<open>getRandomInt\<close> is the variable of the source and the
  number of times the tick has been read.
\<close>

section \<open>Environment and state\<close>

record mem_call =
  mc_addr :: u32
  mc_size :: u32
  mc_op :: u32

record paslr_env =
  svcGetSystemTick :: "nat \<Rightarrow> u64"
  svcControlMemory :: "mem_call list \<Rightarrow> mem_call \<Rightarrow> Result"
  px_R_FAILED :: "Result \<Rightarrow> bool"
  px_no_region :: Result
  MEMOP_ALLOC :: u32
  MEMOP_FREE :: u32
  MEMOP_REGION_APP :: u32
  MEMOP_REGION_SYSTEM :: u32
  LIB_APPLET :: u32
  kernel_11_2 :: u16
  LOADER_ENABLE_PASLR :: bool

record paslr_state =
  rng_state :: u64
  rng_ticks :: nat
  mem_calls :: "mem_call list"

definition getRandomInt :: "paslr_env \<Rightarrow> u32 \<Rightarrow> paslr_state \<Rightarrow> u32 \<times> paslr_state" where
  "getRandomInt E maxNum s =
     (let tick = svcGetSystemTick E (rng_ticks s);
          tmp = drop_bit 7 (rng_state s) - signed_drop_bit 2 tick;
          state = (tmp XOR rng_state s) AND 0x49CC9BA7FC61CA67;
          tmp = 0x5D588B656C078965 * state + 0x29EC3
      in (ucast (drop_bit 32 (drop_bit 32 tmp * ucast maxNum)), s\<lparr>rng_state := state, rng_ticks := rng_ticks s + 1\<rparr>))"

definition control_memory :: "paslr_env \<Rightarrow> mem_call \<Rightarrow> paslr_state \<Rightarrow> Result \<times> paslr_state" where
  "control_memory E c s = (svcControlMemory E (mem_calls s) c, s\<lparr>mem_calls := mem_calls s @ [c]\<rparr>)"

section \<open>Which titles\<close>

text \<open>The parts of an extended header the allocation depends on.\<close>

record alloc_header =
  ah_descriptors :: "u32 list"
  ah_reslimit_category :: u32
  ah_title_id :: u64

definition titleUidListForPaslr :: "u64 list" where
  "titleUidListForPaslr = [0x0209, 0x0219, 0x0229, 0x0269, 0x0289, 0x0334, 0x0335, 0x0336, 0x0343, 0x0465, 0x04B3,
     0x0913, 0x09FA, 0x0933, 0x07FD, 0x0961, 0x0A5D, 0x0A5E, 0x0A6F, 0x0C61, 0x0C81, 0x0D7C, 0x0D7D, 0x0D7E,
     0x11C4, 0x11C5, 0x149B, 0x1746, 0x1744, 0x1773, 0x12C1, 0x136E, 0x17C1]"

fun scan_descriptors :: "u32 list \<Rightarrow> u32 \<Rightarrow> u16 \<Rightarrow> u32 \<times> u16" where
  "scan_descriptors [] region ver = (region, ver)"
| "scan_descriptors (desc # ds) region ver =
     (if drop_bit 23 desc = 0x1FE then scan_descriptors ds (desc AND 0xF00) ver
      else if drop_bit 25 desc = 0x7E then scan_descriptors ds region (ucast desc)
      else scan_descriptors ds region ver)"

definition needsPaslr :: "paslr_env \<Rightarrow> alloc_header \<Rightarrow> bool \<times> u32" where
  "needsPaslr E exhi =
     (case scan_descriptors (take 28 (ah_descriptors exhi)) 0 0 of (region, minKernelVer) \<Rightarrow>
        (if \<not> LOADER_ENABLE_PASLR E then False
         else if region \<noteq> MEMOP_REGION_APP E \<and> region \<noteq> MEMOP_REGION_SYSTEM E then False
         else if region = MEMOP_REGION_SYSTEM E \<and> ah_reslimit_category exhi = LIB_APPLET E then False
         else if minKernelVer \<ge> kernel_11_2 E then True
         else if drop_bit 46 (ah_title_id exhi) \<noteq> 0x10 then False
         else drop_bit 8 (ah_title_id exhi) AND 0xFFFFF \<in> set titleUidListForPaslr,
         region))"

section \<open>Chunks\<close>

type_synonym chunk = "u32 \<times> u32"

definition page_chunk :: "u32 \<Rightarrow> u32 \<Rightarrow> u32 \<Rightarrow> chunk" where
  "page_chunk vaddr curPage numPages = (vaddr + push_bit 12 curPage, push_bit 12 numPages)"

text \<open>At most seven chunks of random sizes; the argument counts those that may follow.\<close>

primrec chunk_loop :: "nat \<Rightarrow> paslr_env \<Rightarrow> u32 \<Rightarrow> u32 \<Rightarrow> u32 \<Rightarrow> paslr_state \<Rightarrow> chunk list \<times> u32 \<times> paslr_state" where
  "chunk_loop 0 E vaddr pages cur s = ([], cur, s)"
| "chunk_loop (Suc k) E vaddr pages cur s =
     (let maxUnits = (pages - cur) div 16 in
      if maxUnits = 0 then ([], cur, s)
      else
        let (r, s) = getRandomInt E (if maxUnits > 15 then 15 else maxUnits) s;
            numPages = 16 * (1 + r);
            (cs, cur', s) = chunk_loop k E vaddr pages (cur + numPages) s
        in (page_chunk vaddr cur numPages # cs, cur', s))"

definition split_chunks :: "paslr_env \<Rightarrow> u32 \<Rightarrow> u32 \<Rightarrow> paslr_state \<Rightarrow> chunk list \<times> paslr_state" where
  "split_chunks E vaddr pages s =
     (case chunk_loop 7 E vaddr pages 0 s of (cs, cur, s) \<Rightarrow>
        (if cur < pages then cs @ [page_chunk vaddr cur (pages - cur)] else cs, s))"

text \<open>The order: the first \<open>n\<close> entries are shuffled from the last one down.\<close>

primrec shuffle :: "nat \<Rightarrow> paslr_env \<Rightarrow> nat list \<Rightarrow> paslr_state \<Rightarrow> nat list \<times> paslr_state" where
  "shuffle 0 E order s = (order, s)"
| "shuffle (Suc i) E order s =
     (let (j, s) = getRandomInt E (of_nat i + 1) s
      in shuffle i E (order[i := order ! unat j, unat j := order ! i]) s)"

section \<open>Allocation\<close>

definition chunk_call :: "u32 \<Rightarrow> chunk \<Rightarrow> mem_call" where
  "chunk_call op c = \<lparr>mc_addr = fst c, mc_size = snd c, mc_op = op\<rparr>"

text \<open>The chunks in their order, until a call fails; the number of calls that succeeded and the last
  result.\<close>

fun alloc_loop :: "paslr_env \<Rightarrow> u32 \<Rightarrow> chunk list \<Rightarrow> Result \<Rightarrow> paslr_state \<Rightarrow> nat \<times> Result \<times> paslr_state" where
  "alloc_loop E flags [] res s = (0, res, s)"
| "alloc_loop E flags (c # cs) res s =
     (case control_memory E (chunk_call flags c) s of (res, s) \<Rightarrow>
        if px_R_FAILED E res then (0, res, s)
        else (case alloc_loop E flags cs res s of (i, r) \<Rightarrow> (Suc i, r)))"

primrec free_loop :: "nat \<Rightarrow> paslr_env \<Rightarrow> chunk \<Rightarrow> paslr_state \<Rightarrow> paslr_state" where
  "free_loop 0 E c s = s"
| "free_loop (Suc j) E c s = free_loop j E c (snd (control_memory E (chunk_call (MEMOP_FREE E) c) s))"

definition allocateChunks :: "paslr_env \<Rightarrow> u32 \<Rightarrow> chunk list \<Rightarrow> nat list \<Rightarrow> paslr_state \<Rightarrow> Result \<times> paslr_state" where
  "allocateChunks E allocFlags chunks chunkOrder s =
     (case alloc_loop E allocFlags (map (nth chunks) (take (length chunks) chunkOrder)) 0 s of (i, res, s) \<Rightarrow>
        if i = length chunks then (res, s)
        else (res, free_loop i E (chunks ! (chunkOrder ! i)) s))"

definition allocateProgramMemory :: "paslr_env \<Rightarrow> alloc_header \<Rightarrow> u32 \<Rightarrow> u32 \<Rightarrow> paslr_state \<Rightarrow> Result \<times> paslr_state" where
  "allocateProgramMemory E exhi vaddr sz s =
     (case needsPaslr E exhi of (doPaslr, region) \<Rightarrow>
        if region = 0 then (px_no_region E, s)
        else
          let allocFlags = MEMOP_ALLOC E OR region in
          if \<not> doPaslr then control_memory E (chunk_call allocFlags (vaddr, sz)) s
          else
            let pages = drop_bit 12 sz;
                (chunks, s) = split_chunks E vaddr pages s;
                n = length chunks;
                (order, s) = shuffle (if pages mod 16 \<noteq> 0 then n - 1 else n) E [0, 1, 2, 3, 4, 5, 6, 7] s
            in allocateChunks E allocFlags chunks order s)"


section \<open>Random numbers\<close>

lemma unat_drop_bit_div: "unat (drop_bit n w) = unat w div 2 ^ n"
  by (simp only: unat_drop_bit_eq) (simp add: drop_bit_eq_div)

lemma unat_push_bit_12:
  fixes w :: u32
  assumes "unat w < 2 ^ 20"
  shows "unat (push_bit 12 w) = 4096 * unat w"
proof -
  have "unat (push_bit 12 w) = take_bit 32 (push_bit 12 (unat w))" by (simp only: unsigned_push_bit_eq) simp
  also have "\<dots> = 4096 * unat w" using assms by (simp add: push_bit_eq_mult take_bit_eq_mod)
  finally show ?thesis .
qed

lemma random_below:
  assumes "getRandomInt E maxNum s = (r, s')" and "0 < maxNum"
  shows "r < maxNum" and "mem_calls s' = mem_calls s"
proof -
  obtain t :: u64 where r: "r = ucast (drop_bit 32 (drop_bit 32 t * ucast maxNum))" and "mem_calls s' = mem_calls s"
    using assms(1) by (auto simp: getRandomInt_def Let_def)
  then show "mem_calls s' = mem_calls s" by simp
  let ?x = "drop_bit 32 t" and ?m = "ucast maxNum :: u64"
  have x: "unat ?x < 2 ^ 32" by (simp only: unat_drop_bit_div) (rule less_mult_imp_div_less, rule less_le_trans [OF unsigned_less], simp)
  have mb: "unat maxNum < 2 ^ 32" by (rule less_le_trans [OF unsigned_less]) simp
  then have m: "unat ?m = unat maxNum" "unat maxNum < 2 ^ 32" by (simp_all add: unsigned_ucast_eq take_bit_eq_mod)
  have "unat ?x * unat ?m < 2 ^ 32 * unat maxNum" using x m assms(2) by (simp add: word_less_nat_alt)
  moreover have "2 ^ 32 * unat maxNum < 2 ^ 64" using m(2) by simp
  ultimately have "unat (?x * ?m) < 2 ^ 32 * unat maxNum" by (simp add: unat_word_ariths)
  then have "unat (drop_bit 32 (?x * ?m)) < unat maxNum"
    by (simp only: unat_drop_bit_div) (simp add: less_mult_imp_div_less mult.commute)
  then have "unat r < unat maxNum" using m(2) by (simp add: r unsigned_ucast_eq take_bit_eq_mod)
  then show "r < maxNum" by (simp add: word_less_nat_alt)
qed

section \<open>The chunks divide the image\<close>

fun tiles :: "nat \<Rightarrow> nat \<Rightarrow> chunk list \<Rightarrow> bool" where
  "tiles a b [] \<longleftrightarrow> a = b"
| "tiles a b ((addr, sz) # cs) \<longleftrightarrow> unat addr = a \<and> 0 < unat sz \<and> 4096 dvd unat sz \<and> tiles (a + unat sz) b cs"

lemma tiles_append: "tiles a b cs \<Longrightarrow> tiles b c ds \<Longrightarrow> tiles a c (cs @ ds)"
  by (induction a b cs rule: tiles.induct) auto

lemma tiles_page_chunk:
  assumes "unat vaddr + 4096 * (unat cur + unat n) \<le> 2 ^ 32" and "0 < n" and "unat cur + unat n \<le> 2 ^ 20 - 1"
  shows "tiles (unat vaddr + 4096 * unat cur) (unat vaddr + 4096 * (unat cur + unat n)) [page_chunk vaddr cur n]"
proof -
  have n: "0 < unat n" using assms(2) by (simp add: word_less_nat_alt)
  have p: "unat (push_bit 12 cur) = 4096 * unat cur" "unat (push_bit 12 n) = 4096 * unat n"
    using assms(3) by (auto intro!: unat_push_bit_12)
  have "unat vaddr + 4096 * unat cur < 2 ^ 32" using assms(1) n by (simp add: algebra_simps)
  then have "unat (vaddr + push_bit 12 cur) = unat vaddr + 4096 * unat cur" using p by (simp only: unat_word_ariths) simp
  then show ?thesis using p n by (simp only: page_chunk_def tiles.simps) simp
qed

lemma chunk_loop_tiles:
  assumes "chunk_loop k E vaddr pages cur s = (cs, cur', s')" and "cur \<le> pages"
    and "unat vaddr + 4096 * unat pages \<le> 2 ^ 32" and "unat pages < 2 ^ 20"
  shows "cur' \<le> pages \<and> length cs \<le> k \<and> mem_calls s' = mem_calls s \<and>
    tiles (unat vaddr + 4096 * unat cur) (unat vaddr + 4096 * unat cur') cs"
  using assms(1,2)
proof (induction k arbitrary: cur s cs cur' s')
  case 0
  then show ?case by simp
next
  case (Suc k)
  let ?u = "(pages - cur) div 16"
  show ?case
  proof (cases "?u = 0")
    case True
    then show ?thesis using Suc.prems by simp
  next
    case False
    let ?m = "if ?u > 15 then 15 else ?u"
    obtain r s1 where r: "getRandomInt E ?m s = (r, s1)" by fastforce
    obtain ds c s2 where l: "chunk_loop k E vaddr pages (cur + 16 * (1 + r)) s1 = (ds, c, s2)" by (cases "chunk_loop k E vaddr pages (cur + 16 * (1 + r)) s1") auto
    have "0 < ?m" using False by (auto simp: word_gt_0)
    note r2 = random_below [OF r this]
    then have "unat r < unat ?m" by (simp add: word_less_nat_alt)
    moreover have "unat ?m \<le> 15" "unat ?m \<le> unat ?u" by (auto simp: word_less_nat_alt not_less)
    moreover have "unat ?u = (unat pages - unat cur) div 16" using Suc.prems(2) by (simp only: unat_div unat_sub) simp
    ultimately have ru: "unat r + 1 \<le> 15" "16 * (unat r + 1) \<le> unat pages - unat cur" by auto
    have n: "unat (16 * (1 + r)) = 16 * (unat r + 1)" using ru(1) by (simp add: unat_word_ariths)
    have c: "unat (cur + 16 * (1 + r)) = unat cur + 16 * (unat r + 1)" "unat cur \<le> unat pages"
      using ru(2) n assms(4) Suc.prems(2) by (simp_all add: unat_word_ariths word_le_nat_alt)
    have pos: "0 < 16 * (1 + r)" using n by (simp add: word_less_nat_alt)
    have "cur + 16 * (1 + r) \<le> pages" using c ru(2) by (simp add: word_le_nat_alt)
    note IH = Suc.IH [OF l this]
    have "tiles (unat vaddr + 4096 * unat cur) (unat vaddr + 4096 * (unat cur + unat (16 * (1 + r)))) [page_chunk vaddr cur (16 * (1 + r))]"
      using assms(3,4) c ru(2) n by (intro tiles_page_chunk pos) auto
    then have "tiles (unat vaddr + 4096 * unat cur) (unat vaddr + 4096 * unat c) ([page_chunk vaddr cur (16 * (1 + r))] @ ds)"
      using IH c(1) n by (intro tiles_append [of _ "unat vaddr + 4096 * unat (cur + 16 * (1 + r))"]) auto
    moreover have "cs = page_chunk vaddr cur (16 * (1 + r)) # ds" "cur' = c" "s' = s2"
      using Suc.prems(1) False r l by (simp_all add: Let_def)
    ultimately show ?thesis using IH r2(2) by simp
  qed
qed

lemma split_chunks_tiles:
  assumes "split_chunks E vaddr pages s = (cs, s')" and "unat vaddr + 4096 * unat pages \<le> 2 ^ 32" and "unat pages < 2 ^ 20"
  shows "length cs \<le> 8 \<and> mem_calls s' = mem_calls s \<and> tiles (unat vaddr) (unat vaddr + 4096 * unat pages) cs"
proof -
  obtain ds cur s1 where l: "chunk_loop 7 E vaddr pages 0 s = (ds, cur, s1)" by (cases "chunk_loop 7 E vaddr pages 0 s") auto
  note d = chunk_loop_tiles [OF l _ assms(2,3)]
  show ?thesis
  proof (cases "cur < pages")
    case True
    then have lt: "unat cur < unat pages" by (simp add: word_less_nat_alt)
    have sub: "unat (pages - cur) = unat pages - unat cur" using True by (intro unat_sub) simp
    then have "0 < pages - cur" using lt by (simp only: word_less_nat_alt) simp
    note this lt sub
    then have "tiles (unat vaddr + 4096 * unat cur) (unat vaddr + 4096 * unat pages) [page_chunk vaddr cur (pages - cur)]"
      using tiles_page_chunk [of vaddr cur "pages - cur"] assms(2,3) by simp
    then show ?thesis using d True assms(1) l tiles_append [of "unat vaddr" _ ds] by (auto simp: split_chunks_def)
  next
    case False
    then show ?thesis using d assms(1) l by (auto simp: split_chunks_def)
  qed
qed

section \<open>The order is a permutation\<close>

lemma mset_swap_take:
  assumes "i < n" and "j < n" and "n \<le> length xs"
  shows "mset (take n (xs[i := xs ! j, j := xs ! i])) = mset (take n xs)"
proof -
  have "take n (xs[i := xs ! j, j := xs ! i]) = (take n xs)[i := take n xs ! j, j := take n xs ! i]"
    using assms by (simp add: take_list_update)
  also have "mset \<dots> = mset (take n xs)" using assms by (intro mset_swap) simp_all
  finally show ?thesis .
qed

lemma shuffle_permutes:
  assumes "shuffle k E order s = (order', s')" and "k \<le> n" and "n \<le> length order" and "n < 2 ^ 32"
  shows "mset (take n order') = mset (take n order) \<and> length order' = length order \<and> mem_calls s' = mem_calls s"
  using assms(1-3)
proof (induction k arbitrary: order s)
  case 0
  then show ?case by simp
next
  case (Suc i)
  obtain j s1 where j: "getRandomInt E (of_nat i + 1) s = (j, s1)" by fastforce
  have i: "unat (of_nat i + 1 :: u32) = i + 1" using Suc.prems(2) assms(4) by (simp add: unat_word_ariths unat_of_nat)
  then have "0 < (of_nat i + 1 :: u32)" by (simp only: word_less_nat_alt) simp
  note r = random_below [OF j this]
  then have jn: "unat j < n" using i Suc.prems(2) by (simp add: word_less_nat_alt)
  let ?xs = "order[i := order ! unat j, unat j := order ! i]"
  have "shuffle i E ?xs s1 = (order', s')" using Suc.prems(1) j by (simp add: Let_def)
  then have "mset (take n order') = mset (take n ?xs) \<and> length order' = length order \<and> mem_calls s' = mem_calls s1"
    using Suc.IH [of ?xs s1] Suc.prems by simp
  then show ?case using mset_swap_take [of i n "unat j" order] r(2) jn Suc.prems by simp
qed

section \<open>The calls\<close>

lemma alloc_loop_calls:
  assumes "alloc_loop E flags cs res s = (i, res', s')"
  shows "i \<le> length cs \<and> mem_calls s' = mem_calls s @ map (chunk_call flags) (take (Suc i) cs) \<and>
    (i < length cs \<longrightarrow> px_R_FAILED E res')"
  using assms
proof (induction cs arbitrary: res s i)
  case Nil
  then show ?case by simp
next
  case (Cons c cs)
  obtain r s1 where c: "control_memory E (chunk_call flags c) s = (r, s1)" by fastforce
  then have s1: "mem_calls s1 = mem_calls s @ [chunk_call flags c]" by (auto simp: control_memory_def)
  show ?case
  proof (cases "px_R_FAILED E r")
    case True
    then show ?thesis using Cons.prems c s1 by auto
  next
    case False
    obtain j where "alloc_loop E flags cs r s1 = (j, res', s')" "i = Suc j"
      using Cons.prems c False by (auto split: prod.splits)
    then show ?thesis using Cons.IH s1 by simp
  qed
qed

lemma alloc_loop_ok:
  assumes "alloc_loop E flags cs res s = (i, res', s')" and "i = length cs" and "\<not> px_R_FAILED E res"
  shows "\<not> px_R_FAILED E res'"
  using assms
  by (induction cs arbitrary: res s i) (auto split: prod.splits if_splits)

lemma free_loop_calls:
  "mem_calls (free_loop j E c s) = mem_calls s @ replicate j (chunk_call (MEMOP_FREE E) c)"
  by (induction j arbitrary: s) (simp_all add: control_memory_def replicate_append_same)

lemma map_nth_take_perm:
  assumes "mset (take n order) = mset [0..<n]" and "length cs = n"
  shows "mset (map (nth cs) (take n order)) = mset cs"
proof -
  have "mset (map (nth cs) (take n order)) = image_mset (nth cs) (mset [0..<n])" using assms(1) by simp
  also have "\<dots> = mset (map (nth cs) [0..<n])" by simp
  also have "map (nth cs) [0..<n] = cs" using assms(2) map_nth by blast
  finally show ?thesis .
qed

lemma take_upt_8:
  assumes "n \<le> 8"
  shows "take n [0, 1, 2, 3, 4, 5, 6, 7] = [0..<n]"
proof -
  have "[0, 1, 2, 3, 4, 5, 6, 7] = [0..<8]" by (simp add: upt_rec)
  then show ?thesis using assms by simp
qed

text \<open>What a randomised allocation does, in terms of its chunks and their order.\<close>

lemma paslr_allocation:
  assumes "allocateProgramMemory E exhi vaddr sz s = (res, s')"
    and "needsPaslr E exhi = (True, region)" and "region \<noteq> 0" and "unat vaddr + unat sz \<le> 2 ^ 32"
  obtains cs order s1 where "tiles (unat vaddr) (unat vaddr + 4096 * (unat sz div 4096)) cs"
    and "mset (map (nth cs) (take (length cs) order)) = mset cs" and "mem_calls s1 = mem_calls s"
    and "length (take (length cs) order) = length cs"
    and "allocateChunks E (MEMOP_ALLOC E OR region) cs order s1 = (res, s')"
proof -
  let ?pages = "drop_bit 12 sz"
  have pages: "unat ?pages = unat sz div 4096" by (simp only: unat_drop_bit_div) simp
  have "unat ?pages < 2 ^ 20" by (simp only: unat_drop_bit_div) (rule less_mult_imp_div_less, rule less_le_trans [OF unsigned_less], simp)
  moreover have "unat vaddr + 4096 * unat ?pages \<le> 2 ^ 32" using assms(4) pages by simp
  moreover obtain cs s1 where c: "split_chunks E vaddr ?pages s = (cs, s1)" by fastforce
  ultimately have t: "length cs \<le> 8" "mem_calls s1 = mem_calls s"
    "tiles (unat vaddr) (unat vaddr + 4096 * (unat sz div 4096)) cs"
    using split_chunks_tiles [OF c] pages by auto
  let ?k = "if ?pages mod 16 \<noteq> 0 then length cs - 1 else length cs"
  obtain order s2 where o: "shuffle ?k E [0, 1, 2, 3, 4, 5, 6, 7] s1 = (order, s2)" by fastforce
  have "mset (take (length cs) order) = mset (take (length cs) [0, 1, 2, 3, 4, 5, 6, 7]) \<and> length order = 8 \<and> mem_calls s2 = mem_calls s1"
    using shuffle_permutes [OF o, of "length cs"] t(1) by simp
  then have p: "mset (take (length cs) order) = mset [0..<length cs]" "length order = 8" "mem_calls s2 = mem_calls s"
    using t(1,2) by (simp_all only: take_upt_8)
  show thesis
  proof (rule that [OF t(3) map_nth_take_perm [OF p(1) refl] p(3)])
    show "length (take (length cs) order) = length cs" using p(2) t(1) by simp
    show "allocateChunks E (MEMOP_ALLOC E OR region) cs order s2 = (res, s')"
      using assms(1-3) c o by (simp add: allocateProgramMemory_def Let_def)
  qed
qed

lemma tiles_above: "tiles a b cs \<Longrightarrow> c \<in> set cs \<Longrightarrow> a \<le> unat (fst c)"
  by (induction a b cs rule: tiles.induct) (auto intro: le_trans)

lemma tiles_distinct: "tiles a b cs \<Longrightarrow> distinct (map fst cs)"
proof (induction a b cs rule: tiles.induct)
  case (2 a b addr sz cs)
  then show ?case using tiles_above [of "a + unat sz" b cs] by force
qed simp

section \<open>What is allocated, and what is freed\<close>

text \<open>C3. A randomised allocation that succeeds allocates chunks of whole pages that tile the image:
  they begin at its address, each begins where the one before ends, the last one ends with the
  image, and each is allocated exactly once.\<close>

theorem paslr_tiles:
  assumes "allocateProgramMemory E exhi vaddr sz s = (res, s')"
    and "needsPaslr E exhi = (True, region)" and "region \<noteq> 0" and "unat vaddr + unat sz \<le> 2 ^ 32"
    and "\<not> px_R_FAILED E res"
  shows "\<exists>cs calls. tiles (unat vaddr) (unat vaddr + 4096 * (unat sz div 4096)) cs \<and>
     mem_calls s' = mem_calls s @ calls \<and> mset calls = mset (map (chunk_call (MEMOP_ALLOC E OR region)) cs)"
proof -
  obtain cs order s1 where t: "tiles (unat vaddr) (unat vaddr + 4096 * (unat sz div 4096)) cs"
    and p: "mset (map (nth cs) (take (length cs) order)) = mset cs" and s1: "mem_calls s1 = mem_calls s"
    and len: "length (take (length cs) order) = length cs"
    and a: "allocateChunks E (MEMOP_ALLOC E OR region) cs order s1 = (res, s')"
    using paslr_allocation [OF assms(1-4)] by blast
  let ?xs = "map (nth cs) (take (length cs) order)"
  obtain i r s2 where l: "alloc_loop E (MEMOP_ALLOC E OR region) ?xs 0 s1 = (i, r, s2)"
    by (cases "alloc_loop E (MEMOP_ALLOC E OR region) ?xs 0 s1") auto
  note c = alloc_loop_calls [OF l]
  have "i = length cs" using a l c len assms(5) by (auto simp: allocateChunks_def split: if_splits)
  then have "s' = s2" "take (Suc i) ?xs = ?xs" using a l len by (simp_all add: allocateChunks_def)
  then have "mem_calls s' = mem_calls s @ map (chunk_call (MEMOP_ALLOC E OR region)) ?xs" using c s1 by simp
  moreover have "mset (map (chunk_call (MEMOP_ALLOC E OR region)) ?xs) = mset (map (chunk_call (MEMOP_ALLOC E OR region)) cs)"
    using p by (metis mset_map)
  ultimately show ?thesis using t by blast
qed

text \<open>C23. When a call fails, the chunk that could not be allocated is freed, once for each chunk
  that was, and none of those is freed.\<close>

theorem paslr_failure_leaks:
  assumes "allocateProgramMemory E exhi vaddr sz s = (res, s')"
    and "needsPaslr E exhi = (True, region)" and "region \<noteq> 0" and "unat vaddr + unat sz \<le> 2 ^ 32"
    and "px_R_FAILED E res" and "\<not> px_R_FAILED E 0"
  shows "\<exists>got c. mem_calls s' = mem_calls s @ map (chunk_call (MEMOP_ALLOC E OR region)) (got @ [c]) @
       replicate (length got) (chunk_call (MEMOP_FREE E) c) \<and> fst c \<notin> fst ` set got"
proof -
  obtain cs order s1 where t: "tiles (unat vaddr) (unat vaddr + 4096 * (unat sz div 4096)) cs"
    and p: "mset (map (nth cs) (take (length cs) order)) = mset cs" and s1: "mem_calls s1 = mem_calls s"
    and len: "length (take (length cs) order) = length cs"
    and a: "allocateChunks E (MEMOP_ALLOC E OR region) cs order s1 = (res, s')"
    using paslr_allocation [OF assms(1-4)] by blast
  let ?xs = "map (nth cs) (take (length cs) order)"
  obtain i r s2 where l: "alloc_loop E (MEMOP_ALLOC E OR region) ?xs 0 s1 = (i, r, s2)"
    by (cases "alloc_loop E (MEMOP_ALLOC E OR region) ?xs 0 s1") auto
  note c = alloc_loop_calls [OF l]
  have "i < length cs"
    using a l c len assms(5,6) alloc_loop_ok [OF l] by (cases "i = length cs") (auto simp: allocateChunks_def)
  then have i: "i < length ?xs" "?xs ! i = cs ! (order ! i)" using len by simp_all
  have "mem_calls s' = mem_calls s2 @ replicate i (chunk_call (MEMOP_FREE E) (?xs ! i))"
    using a l i len \<open>i < length cs\<close> by (auto simp: allocateChunks_def free_loop_calls)
  moreover have sx: "take (Suc i) ?xs = take i ?xs @ [?xs ! i]" using i(1) by (rule take_Suc_conv_app_nth)
  ultimately have "mem_calls s' = mem_calls s @ map (chunk_call (MEMOP_ALLOC E OR region)) (take i ?xs @ [?xs ! i]) @
      replicate (length (take i ?xs)) (chunk_call (MEMOP_FREE E) (?xs ! i))"
    using c s1 i(1) by simp
  moreover have "distinct (map fst ?xs)"
    using tiles_distinct [OF t] p by (metis mset_map mset_eq_imp_distinct_iff)
  then have "distinct (map fst (take (Suc i) ?xs))" by (simp only: take_map [symmetric] distinct_take)
  then have "fst (?xs ! i) \<notin> fst ` set (take i ?xs)" by (simp only: sx) simp
  ultimately show ?thesis by blast
qed

section \<open>Two allocations\<close>

definition demo_paslr :: "(mem_call list \<Rightarrow> mem_call \<Rightarrow> Result) \<Rightarrow> paslr_env" where
  "demo_paslr svc = \<lparr>svcGetSystemTick = (\<lambda>n. 0x9E3779B97F4A7C15 * of_nat n), svcControlMemory = svc,
     px_R_FAILED = (\<lambda>res. sint res < 0), px_no_region = 0xD8E007ED, MEMOP_ALLOC = 3, MEMOP_FREE = 1,
     MEMOP_REGION_APP = 0x100, MEMOP_REGION_SYSTEM = 0x200, LIB_APPLET = 2, kernel_11_2 = 0x239,
     LOADER_ENABLE_PASLR = True\<rparr>"

definition demo_header :: alloc_header where
  "demo_header = \<lparr>ah_descriptors = [0xFF000100, 0xFC000239], ah_reslimit_category = 0, ah_title_id = 0\<rparr>"

definition no_calls :: paslr_state where
  "no_calls = \<lparr>rng_state = 0, rng_ticks = 0, mem_calls = []\<rparr>"

lemma demo_needs: "needsPaslr (demo_paslr svc) demo_header = (True, 0x100)"
  by (simp add: needsPaslr_def demo_paslr_def demo_header_def take_bit_eq_mod)

definition demo_second_fails :: "mem_call list \<Rightarrow> mem_call \<Rightarrow> Result" where
  "demo_second_fails calls c = (if length calls = 1 then 0xC860180A else 0)"

lemma demo_allocation:
  "\<not> sint (fst (allocateProgramMemory (demo_paslr (\<lambda>_ _. 0)) demo_header 0x10000000 0x23000 no_calls)) < 0"
  by code_simp

lemma demo_failure:
  "sint (fst (allocateProgramMemory (demo_paslr demo_second_fails) demo_header 0x10000000 0x23000 no_calls)) < 0"
  by code_simp

lemma paslr_tiles_witness:
  "\<exists>cs. tiles 0x10000000 0x10023000 cs \<and> mset (mem_calls
      (snd (allocateProgramMemory (demo_paslr (\<lambda>_ _. 0)) demo_header 0x10000000 0x23000 no_calls))) =
     mset (map (chunk_call 0x103) cs)"
  using paslr_tiles [where E = "demo_paslr (\<lambda>_ _. 0)" and exhi = demo_header and vaddr = "0x10000000" and sz = "0x23000"
      and s = no_calls and region = "0x100"
      and res = "fst (allocateProgramMemory (demo_paslr (\<lambda>_ _. 0)) demo_header 0x10000000 0x23000 no_calls)"
      and s' = "snd (allocateProgramMemory (demo_paslr (\<lambda>_ _. 0)) demo_header 0x10000000 0x23000 no_calls)"]
    demo_needs demo_allocation
  by (auto simp: demo_paslr_def no_calls_def)

lemma paslr_failure_leaks_witness:
  "\<exists>got c. mem_calls (snd (allocateProgramMemory (demo_paslr demo_second_fails) demo_header 0x10000000 0x23000 no_calls)) =
     map (chunk_call 0x103) (got @ [c]) @ replicate (length got) (chunk_call 1 c) \<and> fst c \<notin> fst ` set got"
  using paslr_failure_leaks [where E = "demo_paslr demo_second_fails" and exhi = demo_header and vaddr = "0x10000000" and sz = "0x23000"
      and s = no_calls and region = "0x100"
      and res = "fst (allocateProgramMemory (demo_paslr demo_second_fails) demo_header 0x10000000 0x23000 no_calls)"
      and s' = "snd (allocateProgramMemory (demo_paslr demo_second_fails) demo_header 0x10000000 0x23000 no_calls)"]
    demo_needs demo_failure
  by (auto simp: demo_paslr_def no_calls_def)

end
