(* ===== verification/Ldr_Lzss.thy ===== *)
theory Ldr_Lzss
  imports Ldr_Patcher
begin

text \<open>
  The decompression of the code of a title (\<open>lzss_decompress\<close> of \<open>loader/source/loader.c\<close>). It works in
  place and from the end of the code down to its start. The second part describes compressed
  code by groups of tokens and what they stand for, without reference to memory; the last part
  proves that the decompression yields that.
\<close>

section \<open>The decompression\<close>

text \<open>\<open>v3\<close>, \<open>v2\<close> and \<open>ret\<close> of the source, and the memory.\<close>

record lzss =
  lz_src :: int
  lz_dst :: int
  lz_ret :: u8
  lz_mem :: image

definition lzss_put :: "u8 \<Rightarrow> lzss \<Rightarrow> lzss" where
  "lzss_put b s = s\<lparr>lz_dst := lz_dst s - 1, lz_ret := b, lz_mem := (lz_mem s)(lz_dst s - 1 := b)\<rparr>"

function copy_back :: "int \<Rightarrow> int \<Rightarrow> lzss \<Rightarrow> lzss" where
  "copy_back v16 v15 s =
     (let s = lzss_put (lz_mem s (lz_dst s + v15)) s; v16 = v16 - 16 in
      if v16 < 0 then s else copy_back v16 v15 s)"
  by pat_completeness auto
termination by (relation "measure (\<lambda>(v16, v15, s). nat v16)") auto

declare copy_back.simps [simp del]

definition lzss_token :: "bool \<Rightarrow> lzss \<Rightarrow> lzss" where
  "lzss_token copy s =
     (if copy then
        let v12 = uint (lz_mem s (lz_src s - 1)); v14 = uint (lz_mem s (lz_src s - 2));
            v15 = ((v14 OR 256 * v12) AND 0xFFFF0FFF) + 2
        in copy_back (v12 + 32) v15 (s\<lparr>lz_src := lz_src s - 2\<rparr>)
      else lzss_put (lz_mem s (lz_src s - 1)) (s\<lparr>lz_src := lz_src s - 1\<rparr>))"

text \<open>The tokens of one byte of flags; the truth value says whether the end has been reached.\<close>

primrec lzss_bits :: "nat \<Rightarrow> u8 \<Rightarrow> int \<Rightarrow> lzss \<Rightarrow> bool \<times> lzss" where
  "lzss_bits 0 v5 v4 s = (False, s)"
| "lzss_bits (Suc v7) v5 v4 s =
     (let s = lzss_token (v5 AND 0x80 \<noteq> 0) s in
      if lz_src s \<le> v4 then (True, s) else lzss_bits v7 (v5 * 2) v4 s)"

lemma copy_back_src [simp]: "lz_src (copy_back v16 v15 s) = lz_src s"
  by (induction v16 v15 s rule: copy_back.induct) (subst copy_back.simps, simp add: Let_def lzss_put_def)

lemma lzss_bits_src: "lz_src (snd (lzss_bits v7 v5 v4 s)) \<le> lz_src s"
proof (induction v7 arbitrary: v5 s)
  case (Suc v7)
  have "lz_src (lzss_token c s) \<le> lz_src s" for c by (simp add: lzss_token_def lzss_put_def Let_def)
  then show ?case using Suc.IH [of "v5 * 2" "lzss_token (v5 AND 0x80 \<noteq> 0) s"] order_trans by (auto simp: Let_def)
qed simp

function lzss_loop :: "int \<Rightarrow> lzss \<Rightarrow> lzss" where
  "lzss_loop v4 s =
     (if lz_src s > v4 then
        let r = lzss_bits 8 (lz_mem s (lz_src s - 1)) v4 (s\<lparr>lz_src := lz_src s - 1\<rparr>) in
        if fst r then snd r else lzss_loop v4 (snd r)
      else s)"
  by pat_completeness auto
termination
proof (relation "measure (\<lambda>(v4, s). nat (lz_src s - v4))", goal_cases)
  case (2 v4 s r)
  then show ?case using lzss_bits_src [of 8 "lz_mem s (lz_src s - 1)" v4 "s\<lparr>lz_src := lz_src s - 1\<rparr>"] by simp
qed simp

declare lzss_loop.simps [simp del]

definition lzss_decompress :: "int \<Rightarrow> image \<Rightarrow> u8 \<times> image" where
  "lzss_decompress pos m =
     (if pos = 0 then (0, m)
      else
        let v1 = load32 m (pos - 8);
            s = lzss_loop (pos - uint (v1 AND 0xFFFFFF))
                  \<lparr>lz_src = pos - uint (drop_bit 24 v1), lz_dst = pos + uint (load32 m (pos - 4)), lz_ret = 0, lz_mem = m\<rparr>
        in (lz_ret s, lz_mem s))"

section \<open>Compressed code\<close>

text \<open>A byte, or a number of bytes that stand a distance above; the most recent byte comes first.\<close>

datatype token = Literal u8 | Copy nat nat

fun token_bytes :: "token \<Rightarrow> u8 list" where
  "token_bytes (Literal b) = [b]"
| "token_bytes (Copy d n) = [of_nat (16 * (n - 3) + d div 256), of_nat (d mod 256)]"

fun token_length :: "token \<Rightarrow> nat" where
  "token_length (Literal b) = 1"
| "token_length (Copy d n) = n"

fun is_copy :: "token \<Rightarrow> bool" where
  "is_copy (Literal b) = False"
| "is_copy (Copy d n) = True"

text \<open>A copy has 3 to 18 bytes from a distance of at least 3 that has been written.\<close>

fun token_ok :: "nat \<Rightarrow> token \<Rightarrow> bool" where
  "token_ok len (Literal b) = True"
| "token_ok len (Copy d n) = (d < 4096 \<and> 3 \<le> n \<and> n \<le> 18 \<and> d + 2 < len)"

fun expand_token :: "token \<Rightarrow> u8 list \<Rightarrow> u8 list" where
  "expand_token (Literal b) out = b # out"
| "expand_token (Copy d n) out = ((\<lambda>out. out ! (d + 2) # out) ^^ n) out"

fun expand :: "token list \<Rightarrow> u8 list \<Rightarrow> u8 list" where
  "expand [] out = out"
| "expand (t # ts) out = expand ts (expand_token t out)"

text \<open>A group is a byte of flags and up to eight tokens; all groups but the last one have eight.\<close>

type_synonym group = "u8 \<times> token list"

definition group_bytes :: "token list \<Rightarrow> u8 list" where
  "group_bytes ts = concat (map token_bytes ts)"

definition flags_for :: "u8 \<Rightarrow> token list \<Rightarrow> bool" where
  "flags_for f ts \<longleftrightarrow> (\<forall>i < length ts. bit f (7 - i) \<longleftrightarrow> is_copy (ts ! i))"

fun stream :: "group list \<Rightarrow> u8 list" where
  "stream [] = []"
| "stream ((f, ts) # gs) = f # group_bytes ts @ stream gs"

fun tokens_ok :: "nat \<Rightarrow> token list \<Rightarrow> bool" where
  "tokens_ok len [] = True"
| "tokens_ok len (t # ts) = (token_ok len t \<and> tokens_ok (len + token_length t) ts)"

fun groups_ok :: "nat \<Rightarrow> group list \<Rightarrow> bool" where
  "groups_ok len [] = True"
| "groups_ok len ((f, ts) # gs) =
     (ts \<noteq> [] \<and> length ts \<le> 8 \<and> (gs \<noteq> [] \<longrightarrow> length ts = 8) \<and> flags_for f ts \<and> tokens_ok len ts \<and>
      groups_ok (len + sum_list (map token_length ts)) gs)"

text \<open>No byte is written over one that has not been read.\<close>

fun fits :: "int \<Rightarrow> int \<Rightarrow> token list \<Rightarrow> bool" where
  "fits src dst [] = True"
| "fits src dst (t # ts) =
     (src - int (length (token_bytes t)) \<le> dst - int (token_length t) \<and>
      fits (src - int (length (token_bytes t))) (dst - int (token_length t)) ts)"

fun groups_fit :: "int \<Rightarrow> int \<Rightarrow> group list \<Rightarrow> bool" where
  "groups_fit src dst [] = True"
| "groups_fit src dst ((f, ts) # gs) =
     (fits (src - 1) dst ts \<and>
      groups_fit (src - 1 - int (length (group_bytes ts))) (dst - int (sum_list (map token_length ts))) gs)"

fun expand_groups :: "group list \<Rightarrow> u8 list \<Rightarrow> u8 list" where
  "expand_groups [] out = out"
| "expand_groups ((f, ts) # gs) out = expand_groups gs (expand ts out)"

section \<open>Correctness\<close>

definition bytes_at :: "image \<Rightarrow> int \<Rightarrow> u8 list \<Rightarrow> bool" where
  "bytes_at m src bs \<longleftrightarrow> (\<forall>i < length bs. m (src - 1 - int i) = bs ! i)"

text \<open>What has been written, with \<open>upper\<close> the end of the output.\<close>

definition written :: "int \<Rightarrow> u8 list \<Rightarrow> lzss \<Rightarrow> bool" where
  "written upper out s \<longleftrightarrow> lz_dst s = upper - int (length out) \<and> (\<forall>i < length out. lz_mem s (lz_dst s + int i) = out ! i)"

text \<open>Bytes outside the output are those of the memory \<open>m\<close>.\<close>

definition kept :: "int \<Rightarrow> image \<Rightarrow> lzss \<Rightarrow> bool" where
  "kept upper m s \<longleftrightarrow> (\<forall>x. x < lz_dst s \<or> upper \<le> x \<longrightarrow> lz_mem s x = m x)"

lemma put_written:
  assumes "written upper out s" and "kept upper m s" 
  shows "written upper (b # out) (lzss_put b s)" and "kept upper m (lzss_put b s)" and "lz_src (lzss_put b s) = lz_src s"
  using assms by (auto simp: written_def kept_def lzss_put_def nth_Cons algebra_simps split: nat.splits)

lemma copy_back_written:
  assumes "written upper out s" and "kept upper m s" and "d + 2 < length out" and "v16 = 16 * int n + k" and "0 \<le> k" and "k < 16"
  shows "written upper (((\<lambda>out. out ! (d + 2) # out) ^^ (Suc n)) out) (copy_back v16 (int d + 2) s) \<and>
    kept upper m (copy_back v16 (int d + 2) s)"
  using assms
proof (induction n arbitrary: out s v16)
  case 0
  have "lz_mem s (lz_dst s + (int d + 2)) = out ! (d + 2)"
    using 0(1,3) by (auto simp: written_def dest!: spec [of _ "d + 2"] simp: algebra_simps)
  then show ?case using put_written [OF 0(1,2)] 0 by (subst (1 2) copy_back.simps) simp
next
  case (Suc n)
  let ?b = "lz_mem s (lz_dst s + (int d + 2))" and ?g = "\<lambda>out. out ! (d + 2) # out"
  have b: "?b = out ! (d + 2)"
    using Suc.prems(1,3) by (auto simp: written_def dest!: spec [of _ "d + 2"] simp: algebra_simps)
  have c: "copy_back v16 (int d + 2) s = copy_back (v16 - 16) (int d + 2) (lzss_put ?b s)"
    using Suc.prems by (subst copy_back.simps) (simp add: Let_def)
  note p = put_written [OF Suc.prems(1,2), of ?b]
  have "written upper ((?g ^^ (Suc n)) (?b # out)) (copy_back (v16 - 16) (int d + 2) (lzss_put ?b s)) \<and>
      kept upper m (copy_back (v16 - 16) (int d + 2) (lzss_put ?b s))"
    using Suc.IH [OF p(1,2)] Suc.prems by simp
  moreover have "(?g ^^ (Suc (Suc n))) out = (?g ^^ (Suc n)) (?b # out)" by (simp only: funpow_Suc_right comp_apply b)
  ultimately show ?case using c by simp
qed

lemma or_shifted:
  fixes a b :: int
  assumes "0 \<le> a" and "a < 256"
  shows "a OR 256 * b = a + 256 * b"
proof -
  have "a = take_bit 8 a" using assms by (simp add: take_bit_eq_mod)
  then have "a AND push_bit 8 b = 0"
    by (metis (no_types, lifting) bit_eqI bit_and_iff bit_push_bit_iff bit_take_bit_iff bit_0_eq not_le bot_apply bot_bool_def)
  then show ?thesis using plus_and_or [of a "push_bit 8 b"] by (simp add: push_bit_eq_mult mult.commute)
qed

lemma and_low_digits:
  fixes x :: int
  assumes "0 \<le> x" and "x < 65536"
  shows "x AND 0xFFFF0FFF = x mod 4096"
proof (rule bit_eqI)
  fix n
  have "x = take_bit 16 x" using assms by (simp add: take_bit_eq_mod)
  then have hi: "bit x n \<Longrightarrow> n < 16" by (metis bit_take_bit_iff)
  have "x mod 4096 = take_bit 12 x" by (simp add: take_bit_eq_mod)
  moreover have "bit (0xFFFF0FFF :: int) n \<longleftrightarrow> n < 12" if "n < 16"
  proof -
    have "\<forall>n \<in> set [0..<16]. bit (0xFFFF0FFF :: int) n \<longleftrightarrow> n < 12" by code_simp
    then show ?thesis using that by simp
  qed
  ultimately show "bit (x AND 0xFFFF0FFF) n \<longleftrightarrow> bit (x mod 4096) n" using hi by (auto simp: bit_and_iff bit_take_bit_iff)
qed

lemma uint_small_byte: "k < 256 \<Longrightarrow> uint (of_nat k :: u8) = int k"
  by (simp add: unsigned_of_nat take_bit_eq_mod)

lemma copy_code:
  fixes d n :: nat
  assumes "d < 4096" and "3 \<le> n" and "n \<le> 18"
  shows "uint (of_nat (16 * (n - 3) + d div 256) :: u8) = 16 * (int n - 3) + int d div 256"
    and "((uint (of_nat (d mod 256) :: u8) OR 256 * (16 * (int n - 3) + int d div 256)) AND 0xFFFF0FFF) = int d"
proof -
  have q: "d div 256 < 16" using assms(1) by (simp add: less_mult_imp_div_less)
  have "16 * (n - 3) + d div 256 < 256" using assms q by simp
  then have "uint (of_nat (16 * (n - 3) + d div 256) :: u8) = int (16 * (n - 3) + d div 256)"
    by (rule uint_small_byte)
  then show "uint (of_nat (16 * (n - 3) + d div 256) :: u8) = 16 * (int n - 3) + int d div 256"
    using assms(2) by (simp add: zdiv_int)
  let ?x = "int d mod 256 + 256 * (16 * (int n - 3) + int d div 256)"
  have "uint (of_nat (d mod 256) :: u8) = int d mod 256" by (simp add: uint_small_byte zmod_int)
  moreover have "int d mod 256 OR 256 * (16 * (int n - 3) + int d div 256) = ?x" by (rule or_shifted) simp_all
  moreover have x: "?x = 4096 * (int n - 3) + int d" by (simp add: algebra_simps)
  moreover have "(4096 * (int n - 3) + int d) AND 0xFFFF0FFF = (4096 * (int n - 3) + int d) mod 4096"
    using assms by (intro and_low_digits) auto
  moreover have "(4096 * (int n - 3) + int d) mod 4096 = int d"
    by (simp only: mod_mult_self4) (use assms(1) in simp)
  ultimately show "((uint (of_nat (d mod 256) :: u8) OR 256 * (16 * (int n - 3) + int d div 256)) AND 0xFFFF0FFF) = int d"
    by (simp only: x)
qed

lemma token_decoded:
  assumes "written upper out s" and "kept upper m s" and "bytes_at m (lz_src s) (token_bytes t)"
    and "lz_src s \<le> lz_dst s" and "token_ok (length out) t" and "lz_dst s \<le> upper"
  shows "written upper (expand_token t out) (lzss_token (is_copy t) s) \<and> kept upper m (lzss_token (is_copy t) s) \<and>
    lz_src (lzss_token (is_copy t) s) = lz_src s - int (length (token_bytes t))"
proof (cases t)
  case (Literal b)
  have "lz_mem s (lz_src s - 1) = b" using assms(2,3,4) Literal by (simp add: kept_def bytes_at_def)
  moreover have "written upper out (s\<lparr>lz_src := lz_src s - 1\<rparr>)" "kept upper m (s\<lparr>lz_src := lz_src s - 1\<rparr>)"
    using assms(1,2) by (auto simp: written_def kept_def)
  ultimately show ?thesis using put_written Literal by (simp add: lzss_token_def)
next
  case (Copy d n)
  then have ok: "d < 4096" "3 \<le> n" "n \<le> 18" "d + 2 < length out" using assms(5) by auto
  have "m (lz_src s - 1) = of_nat (16 * (n - 3) + d div 256)" "m (lz_src s - 2) = of_nat (d mod 256)"
    using assms(3) Copy by (auto simp: bytes_at_def numeral_2_eq_2 dest: spec [of _ 0] spec [of _ 1])
  then have r: "lz_mem s (lz_src s - 1) = of_nat (16 * (n - 3) + d div 256)" "lz_mem s (lz_src s - 2) = of_nat (d mod 256)"
    using assms(2,4) by (simp_all add: kept_def)
  let ?v12 = "16 * (int n - 3) + int d div 256"
  have t: "lzss_token True s = copy_back (?v12 + 32) (int d + 2) (s\<lparr>lz_src := lz_src s - 2\<rparr>)"
    by (simp only: lzss_token_def r Let_def copy_code [OF ok(1-3)] if_True)
  have w: "written upper out (s\<lparr>lz_src := lz_src s - 2\<rparr>)" "kept upper m (s\<lparr>lz_src := lz_src s - 2\<rparr>)"
    using assms(1,2) by (auto simp: written_def kept_def)
  have c: "?v12 + 32 = 16 * int (n - 1) + int d div 256" "int d div 256 < 16" using ok by auto
  have "written upper (((\<lambda>out. out ! (d + 2) # out) ^^ Suc (n - 1)) out) (lzss_token True s) \<and> kept upper m (lzss_token True s)"
    unfolding t by (rule copy_back_written [OF w ok(4) c(1) _ c(2)]) simp
  moreover have "Suc (n - 1) = n" using ok(2) by simp
  ultimately show ?thesis using Copy t by simp
qed

lemma expand_token_length: "token_ok len t \<Longrightarrow> length (expand_token t out) = length out + token_length t"
proof (cases t)
  case (Copy d n)
  have "length (((\<lambda>out. out ! (d + 2) # out) ^^ n) out) = length out + n" by (induction n) simp_all
  then show ?thesis using Copy by simp
qed simp

lemma expand_length: "tokens_ok (length out) ts \<Longrightarrow> length (expand ts out) = length out + sum_list (map token_length ts)"
proof (induction ts arbitrary: out)
  case (Cons t ts)
  then show ?case using expand_token_length [of "length out" t out] by simp
qed simp

lemma bytes_at_append: "bytes_at m src (bs @ cs) \<longleftrightarrow> bytes_at m src bs \<and> bytes_at m (src - int (length bs)) cs"
proof -
  have all: "(\<forall>i < a + b. P i) \<longleftrightarrow> (\<forall>i < a. P i) \<and> (\<forall>j < b. P (a + j))" for a b :: nat and P
    by (metis add_diff_inverse_nat add_less_cancel_left trans_less_add1)
  have "(\<forall>i < length (bs @ cs). m (src - 1 - int i) = (bs @ cs) ! i) \<longleftrightarrow>
      (\<forall>i < length bs. m (src - 1 - int i) = bs ! i) \<and> (\<forall>j < length cs. m (src - 1 - int (length bs + j)) = cs ! j)"
    unfolding length_append all by (simp add: nth_append)
  then show ?thesis by (simp add: bytes_at_def algebra_simps)
qed

lemma flag_tested: "f AND 0x80 \<noteq> 0 \<longleftrightarrow> bit (f :: u8) 7"
  using bit_iff_and_push_bit_not_eq_0 [of f 7] by simp

lemma flags_for_Cons:
  assumes "flags_for f (t # ts)" and "length ts < 8"
  shows "f AND 0x80 \<noteq> 0 \<longleftrightarrow> is_copy t" and "flags_for (f * 2) ts"
proof -
  show "f AND 0x80 \<noteq> 0 \<longleftrightarrow> is_copy t" unfolding flag_tested using assms(1) by (auto simp: flags_for_def)
  have f2: "f * 2 = push_bit 1 f" by (simp add: push_bit_eq_mult)
  have "bit (f * 2) (7 - i) \<longleftrightarrow> is_copy (ts ! i)" if "i < length ts" for i
  proof -
    have "bit (f * 2) (7 - i) = bit f (7 - Suc i)" using that assms(2) by (simp only: f2 bit_push_bit_iff) (auto simp: Suc_diff_Suc)
    moreover have "Suc i < length (t # ts)" using that by simp
    then have "bit f (7 - Suc i) = is_copy ((t # ts) ! Suc i)" using assms(1) that unfolding flags_for_def by blast
    ultimately show ?thesis by simp
  qed
  then show "flags_for (f * 2) ts" by (simp add: flags_for_def)
qed

lemma token_bytes_nonempty: "0 < length (token_bytes t)"
  by (cases t) simp_all

text \<open>The tokens of a group: the loop ends when it has read the last one, or after eight.\<close>

lemma bits_decoded:
  assumes "written upper out s" and "kept upper m s" and "bytes_at m (lz_src s) (group_bytes ts)"
    and "lz_src s \<le> lz_dst s" and "tokens_ok (length out) ts" and "flags_for f ts"
    and "fits (lz_src s) (lz_dst s) ts" and "v4 \<le> lz_src s - int (length (group_bytes ts))" 
    and "ts \<noteq> []" and "length ts \<le> k" and "k \<le> 8" and "length ts = k \<or> v4 = lz_src s - int (length (group_bytes ts))"
  shows "\<exists>s'. lzss_bits k f v4 s = (lz_src s' \<le> v4, s') \<and> written upper (expand ts out) s' \<and> kept upper m s' \<and>
    lz_src s' = lz_src s - int (length (group_bytes ts)) \<and> lz_src s' \<le> lz_dst s'"
  using assms
proof (induction ts arbitrary: k f s out)
  case (Cons t ts)
  obtain k' where k: "k = Suc k'" using Cons.prems(10) by (cases k) simp_all
  note fl = flags_for_Cons [OF Cons.prems(6)]
  have gb: "group_bytes (t # ts) = token_bytes t @ group_bytes ts" by (simp add: group_bytes_def)
  have up: "lz_dst s \<le> upper" using Cons.prems(1) by (simp add: written_def)
  have b: "bytes_at m (lz_src s) (token_bytes t)" "bytes_at m (lz_src s - int (length (token_bytes t))) (group_bytes ts)"
    using Cons.prems(3) by (simp_all add: gb bytes_at_append)
  have ok: "token_ok (length out) t" using Cons.prems(5) by simp
  let ?s = "lzss_token (is_copy t) s"
  note d = token_decoded [OF Cons.prems(1,2) b(1) Cons.prems(4) ok up]
  have len: "length (expand_token t out) = length out + token_length t" by (rule expand_token_length [OF ok])
  have dst: "lz_dst ?s = lz_dst s - int (token_length t)" using d Cons.prems(1) len by (simp add: written_def)
  have step: "lzss_bits k f v4 s = (if lz_src ?s \<le> v4 then (True, ?s) else lzss_bits k' (f * 2) v4 ?s)"
    using fl(1) Cons.prems(10,11) by (simp add: k Let_def)
  show ?case
  proof (cases "ts = []")
    case True
    then have src: "lz_src ?s = lz_src s - int (length (group_bytes (t # ts)))" using d by (simp add: gb group_bytes_def)
    have "lzss_bits k f v4 s = (lz_src ?s \<le> v4, ?s)"
      using step True Cons.prems(12) k src by auto
    then show ?thesis using d src dst True Cons.prems(7) by auto
  next
    case False
    then have "0 < length (group_bytes ts)" using token_bytes_nonempty by (cases ts) (auto simp: group_bytes_def)
    then have "\<not> lz_src ?s \<le> v4" using d Cons.prems(8) gb by (simp del: length_greater_0_conv)
    then have "lzss_bits k f v4 s = lzss_bits k' (f * 2) v4 ?s" using step by simp
    moreover have "\<exists>s'. lzss_bits k' (f * 2) v4 ?s = (lz_src s' \<le> v4, s') \<and> written upper (expand ts (expand_token t out)) s' \<and>
        kept upper m s' \<and> lz_src s' = lz_src ?s - int (length (group_bytes ts)) \<and> lz_src s' \<le> lz_dst s'"
    proof (rule Cons.IH)
      show "bytes_at m (lz_src ?s) (group_bytes ts)" using b(2) d by simp
      show "tokens_ok (length (expand_token t out)) ts" using Cons.prems(5) len by simp
      show "fits (lz_src ?s) (lz_dst ?s) ts" "lz_src ?s \<le> lz_dst ?s" using Cons.prems(7) d dst by simp_all
      show "v4 \<le> lz_src ?s - int (length (group_bytes ts))" using Cons.prems(8) d gb by simp
      show "length ts = k' \<or> v4 = lz_src ?s - int (length (group_bytes ts))" using Cons.prems(12) d gb k by auto
      show "flags_for (f * 2) ts" using fl(2) Cons.prems(10,11) by simp
    qed (use d False Cons.prems(10,11) k in auto)
    ultimately show ?thesis using d gb by auto
  qed
qed simp

lemma loop_decoded:
  assumes "written upper out s" and "kept upper m s" and "bytes_at m (lz_src s) (stream gs)"
    and "lz_src s \<le> lz_dst s" and "groups_ok (length out) gs" and "groups_fit (lz_src s) (lz_dst s) gs"
    and "v4 = lz_src s - int (length (stream gs))"
  shows "written upper (expand_groups gs out) (lzss_loop v4 s) \<and> kept upper m (lzss_loop v4 s)"
  using assms
proof (induction gs arbitrary: s out)
  case Nil
  then show ?case by (subst (1 2) lzss_loop.simps) simp
next
  case (Cons g gs)
  obtain f ts where g: "g = (f, ts)" by fastforce
  let ?s = "s\<lparr>lz_src := lz_src s - 1\<rparr>"
  have up: "lz_dst s \<le> upper" using Cons.prems(1) by (simp add: written_def)
  have b: "m (lz_src s - 1) = f" "bytes_at m (lz_src s - 1) (group_bytes ts)"
      "bytes_at m (lz_src s - 1 - int (length (group_bytes ts))) (stream gs)"
    using Cons.prems(3) bytes_at_append [of m "lz_src s" "[f]" "group_bytes ts @ stream gs"]
    by (auto simp: g bytes_at_append bytes_at_def [of m _ "[f]"])
  have ok: "ts \<noteq> []" "length ts \<le> 8" "gs \<noteq> [] \<longrightarrow> length ts = 8" "flags_for f ts" "tokens_ok (length out) ts"
      "groups_ok (length out + sum_list (map token_length ts)) gs"
    using Cons.prems(5) by (simp_all add: g)
  have f: "lz_mem s (lz_src s - 1) = f" using b(1) Cons.prems(2,4) by (simp add: kept_def)
  have "length ts = 8 \<or> v4 = lz_src ?s - int (length (group_bytes ts))" using ok(3) Cons.prems(7) by (cases gs) (simp_all add: g)
  then obtain s' where s': "lzss_bits 8 f v4 ?s = (lz_src s' \<le> v4, s')" "written upper (expand ts out) s'" "kept upper m s'"
      "lz_src s' = lz_src ?s - int (length (group_bytes ts))" "lz_src s' \<le> lz_dst s'"
    using bits_decoded [of upper out ?s m ts f v4 8] Cons.prems b(2) ok
    by (auto simp: g written_def kept_def)
  have len: "length (expand ts out) = length out + sum_list (map token_length ts)" by (rule expand_length [OF ok(5)])
  have dst: "lz_dst s' = lz_dst s - int (sum_list (map token_length ts))"
    using s'(2) Cons.prems(1) len by (simp add: written_def)
  have v4: "v4 = lz_src s' - int (length (stream gs))" using Cons.prems(7) s'(4) by (simp add: g)
  have step: "lzss_loop v4 s = (if lz_src s' \<le> v4 then s' else lzss_loop v4 s')"
    using Cons.prems(7) f s'(1) by (subst lzss_loop.simps) (simp add: g)
  have IH: "written upper (expand_groups gs (expand ts out)) (lzss_loop v4 s') \<and> kept upper m (lzss_loop v4 s')"
  proof (rule Cons.IH [OF s'(2,3)])
    show "bytes_at m (lz_src s') (stream gs)" using b(3) s'(4) by simp
    show "groups_ok (length (expand ts out)) gs" using ok(6) len by simp
    show "groups_fit (lz_src s') (lz_dst s') gs" using Cons.prems(6) s'(4) dst by (simp add: g)
  qed (use s' v4 in auto)
  have "lzss_loop v4 s = lzss_loop v4 s'"
    using step by (simp add: lzss_loop.simps [of v4 s'])
  then show ?case using IH by (simp add: g)
qed

text \<open>C12. Compressed code whose groups fit above what has not been read yet is decompressed to the
  bytes its tokens stand for: they end where the header says, and no other byte of the memory
  is changed.\<close>

theorem lzss_expands:
  fixes m :: image and pos :: int and gs :: "group list"
  defines "start \<equiv> pos - uint (drop_bit 24 (load32 m (pos - 8)))" and "upper \<equiv> pos + uint (load32 m (pos - 4))"
  assumes "pos \<noteq> 0" and "groups_ok 0 gs" and "bytes_at m start (stream gs)" and "groups_fit start upper gs"
    and "pos - uint (load32 m (pos - 8) AND 0xFFFFFF) = start - int (length (stream gs))"
  shows "snd (lzss_decompress pos m) =
    (\<lambda>x. let out = expand_groups gs []; low = upper - int (length out) in
         if low \<le> x \<and> x < upper then out ! nat (x - low) else m x)"
proof -
  let ?s = "\<lparr>lz_src = start, lz_dst = upper, lz_ret = 0, lz_mem = m\<rparr>"
  let ?s' = "lzss_loop (start - int (length (stream gs))) ?s"
  have "start \<le> upper" by (simp add: start_def upper_def add_increasing2)
  then have l: "written upper (expand_groups gs []) ?s' \<and> kept upper m ?s'"
    using assms(4-6) by (intro loop_decoded) (simp_all add: written_def kept_def)
  have "snd (lzss_decompress pos m) = lz_mem (lzss_loop (pos - uint (load32 m (pos - 8) AND 0xFFFFFF)) ?s)"
    using assms(3) by (simp add: lzss_decompress_def Let_def start_def upper_def)
  then have e: "snd (lzss_decompress pos m) = lz_mem ?s'" by (simp only: assms(7))
  show ?thesis
  proof
    fix x
    let ?out = "expand_groups gs []"
    have "lz_mem ?s' x = ?out ! nat (x - (upper - int (length ?out)))" if "upper - int (length ?out) \<le> x" "x < upper"
    proof -
      have "nat (x - (upper - int (length ?out))) < length ?out" using that by simp
      then have "lz_mem ?s' (lz_dst ?s' + int (nat (x - (upper - int (length ?out))))) = ?out ! nat (x - (upper - int (length ?out)))"
        using l unfolding written_def by blast
      moreover have "lz_dst ?s' + int (nat (x - (upper - int (length ?out)))) = x"
        using l that unfolding written_def by simp
      ultimately show ?thesis by simp
    qed
    moreover have "lz_mem ?s' x = m x" if "\<not> (upper - int (length ?out) \<le> x \<and> x < upper)"
      using l that unfolding written_def kept_def by auto
    ultimately show "snd (lzss_decompress pos m) x = (let out = ?out; low = upper - int (length out) in
         if low \<le> x \<and> x < upper then out ! nat (x - low) else m x)"
      by (simp add: e Let_def)
  qed
qed

definition demo_compressed :: image where
  "demo_compressed x = (if 86 \<le> x \<and> x < 100 then [0, 0, 3, 2, 1, 0x10, 14, 0, 0, 8, 0, 0, 0, 0] ! nat (x - 86) else 0)"

lemma lzss_expands_witness:
  "map (snd (lzss_decompress 100 demo_compressed)) [93, 94, 95, 96, 97, 98, 99] = [0, 3, 2, 1, 3, 2, 1]"
proof -
  define gs where "gs = [(0x10 :: u8, [Literal 1, Literal 2, Literal 3, Copy 0 3])]"
  have l: "load32 demo_compressed 92 = 0x0800000E" "load32 demo_compressed 96 = 0" by code_simp+
  have ok: "groups_ok 0 gs" "groups_fit 92 100 gs" unfolding gs_def by code_simp+
  have st: "stream gs = [0x10, 1, 2, 3, 0, 0]" and ex: "expand_groups gs [] = [3, 2, 1, 3, 2, 1]"
    unfolding gs_def by code_simp+
  have "bytes_at demo_compressed 92 (stream gs)"
    by (simp add: st bytes_at_def All_less_Suc2 demo_compressed_def nat_diff_distrib)
  then show ?thesis
    using lzss_expands [of 100 gs demo_compressed] ok
    by (simp add: l st ex demo_compressed_def)
qed

end
