(* ===== verification/Svc_Manager.thy ===== *)
theory Svc_Manager
  imports Omiiba_Prelude
begin

text \<open>
  The service loop of the system modules (\<open>ServiceManager_Run\<close> of \<open>service_manager.c\<close>, which
  \<open>loader\<close>, \<open>pm\<close> and \<open>rosalina\<close> share): it waits on its notification semaphore, its ports and its
  sessions, and keeps the handler and the context of each session in arrays beside the one of
  handles. The answers of the kernel and of \<open>srv:\<close> in one round are an argument of the round; what
  the loop does to the outside is recorded. Contexts are options, with \<open>None\<close> for \<open>NULL\<close>.
\<close>

section \<open>Data\<close>

record ServiceManagerServiceEntry =
  sv_maxSessions :: nat
  sv_isGlobalPort :: bool

record ServiceManagerNotificationEntry =
  nt_id :: u32

datatype 'c action =
    ReplyTo Handle
  | NoReply
  | Accepted Handle nat "'c option"
  | Refused Handle
  | Called nat "'c option" Handle
  | Notified u32
  | Dropped Handle "'c option"
  | FreedContext "'c option"

record 'c manager =
  waitHandles :: "Handle list"
  handlerIds :: "nat list"
  ctxs :: "'c option list"
  numActiveSessions :: nat
  replyTarget :: Handle
  terminationRequested :: bool
  mg_trace :: "'c action list"

text \<open>The answers of one round: result and index of \<open>svcReplyAndReceive\<close>, and those of the calls
  that may follow it.\<close>

record 'c answers =
  an_res :: Result
  an_id :: int
  an_notification :: "Result \<times> u32"
  an_session :: "Result \<times> Handle"
  an_context :: "'c option"

datatype 'c outcome =
    Running "'c manager"
  | Returned Result "'c manager"
  | Cleanup Result "'c manager"

abbreviation session_closed :: Result where
  "session_closed \<equiv> 0xC920181A"

text \<open>The index of the first session in the array of handles.\<close>

definition sessions_base :: "ServiceManagerServiceEntry list \<Rightarrow> nat" where
  "sessions_base services = 1 + length services"

definition act :: "'c action \<Rightarrow> 'c manager \<Rightarrow> 'c manager" where
  "act a s = s\<lparr>mg_trace := mg_trace s @ [a]\<rparr>"

section \<open>A round\<close>

text \<open>\<open>base\<close> is the index of the first session. The last session takes the place of the closed one.\<close>

definition drop_session :: "bool \<Rightarrow> nat \<Rightarrow> nat \<Rightarrow> 'c manager \<Rightarrow> 'c manager" where
  "drop_session allocator base off s =
     (let h = waitHandles s ! (base + off); ctx = ctxs s ! off; n = numActiveSessions s - 1;
          s = s\<lparr>numActiveSessions := n,
                 waitHandles := (waitHandles s)[base + off := waitHandles s ! (base + n)],
                 handlerIds := (handlerIds s)[off := handlerIds s ! n],
                 ctxs := (ctxs s)[off := ctxs s ! n]\<rparr>;
          s = act (Dropped h ctx) s;
          s = (if allocator then act (FreedContext ctx) s else s)
      in s\<lparr>replyTarget := 0\<rparr>)"

fun find_session :: "Handle list \<Rightarrow> Handle \<Rightarrow> nat" where
  "find_session [] h = 0"
| "find_session (x # xs) h = (if x \<noteq> h then Suc (find_session xs h) else 0)"

definition active_handles :: "nat \<Rightarrow> 'c manager \<Rightarrow> Handle list" where
  "active_handles base s = take (numActiveSessions s) (drop base (waitHandles s))"

definition on_closed :: "bool \<Rightarrow> nat \<Rightarrow> 'c answers \<Rightarrow> 'c manager \<Rightarrow> 'c outcome" where
  "on_closed allocator base a s =
     (if an_id a = -1 then
        let off = find_session (active_handles base s) (replyTarget s) in
        if off \<ge> numActiveSessions s then Returned (an_res a) s
        else Running (drop_session allocator base off s)
      else if an_id a < int base then Returned (an_res a) s
      else Running (drop_session allocator base (nat (an_id a) - base) s))"

definition on_notification :: "(Result \<Rightarrow> bool) \<Rightarrow> ServiceManagerNotificationEntry list \<Rightarrow> 'c answers \<Rightarrow> 'c manager \<Rightarrow> 'c outcome" where
  "on_notification R_FAILED notifications a s =
     (case an_notification a of (res, nid) \<Rightarrow>
        if R_FAILED res then Cleanup res s
        else
          let s = s\<lparr>terminationRequested := (nid = 0x100)\<rparr> in
          Running (if nid \<in> set (map nt_id notifications) then act (Notified nid) s else s))"

definition on_new_session :: "(Result \<Rightarrow> bool) \<Rightarrow> bool \<Rightarrow> nat \<Rightarrow> 'c answers \<Rightarrow> 'c manager \<Rightarrow> 'c outcome" where
  "on_new_session R_FAILED allocator base a s =
     (case an_session a of (res, session) \<Rightarrow>
        if R_FAILED res then Cleanup res s
        else
          let ctx = (if allocator then an_context a else None) in
          if allocator \<and> ctx = None then Returned 0xDEAD0000 (act (Refused session) s)
          else
            let n = numActiveSessions s; sid = unat (of_int (an_id a - 1) :: u8) in
            Running (act (Accepted session sid ctx)
              (s\<lparr>waitHandles := (waitHandles s)[base + n := session], handlerIds := (handlerIds s)[n := sid],
                 ctxs := (ctxs s)[n := ctx], numActiveSessions := n + 1\<rparr>)))"

definition on_command :: "nat \<Rightarrow> 'c answers \<Rightarrow> 'c manager \<Rightarrow> 'c outcome" where
  "on_command base a s =
     (let off = nat (an_id a) - base; h = waitHandles s ! nat (an_id a) in
      Running ((act (Called (handlerIds s ! off) (ctxs s ! off) h) s)\<lparr>replyTarget := h\<rparr>))"

definition manager_round :: "(Result \<Rightarrow> bool) \<Rightarrow> ServiceManagerServiceEntry list \<Rightarrow> ServiceManagerNotificationEntry list \<Rightarrow> bool \<Rightarrow>
    'c answers \<Rightarrow> 'c manager \<Rightarrow> 'c outcome" where
  "manager_round R_FAILED services notifications allocator a s =
     (let base = sessions_base services;
          s = act (if replyTarget s = 0 then NoReply else ReplyTo (replyTarget s)) s in
      if an_res a = session_closed then on_closed allocator base a s
      else if R_FAILED (an_res a) then Returned (an_res a) s
      else
        let s = s\<lparr>replyTarget := 0\<rparr> in
        if an_id a = 0 then on_notification R_FAILED notifications a s
        else if an_id a < int base then on_new_session R_FAILED allocator base a s
        else on_command base a s)"

text \<open>Rounds until the loop is left; the list holds the answers there have been so far. The loop ends
  after a notification, whose result is the one the clean-up returns.\<close>

fun manager_loop :: "(Result \<Rightarrow> bool) \<Rightarrow> ServiceManagerServiceEntry list \<Rightarrow> ServiceManagerNotificationEntry list \<Rightarrow> bool \<Rightarrow>
    Result \<Rightarrow> 'c answers list \<Rightarrow> 'c manager \<Rightarrow> 'c outcome" where
  "manager_loop R_FAILED services notifications allocator res as s =
     (if terminationRequested s then Cleanup res s
      else case as of
        [] \<Rightarrow> Running s
      | a # as \<Rightarrow>
          (case manager_round R_FAILED services notifications allocator a s of
             Running s \<Rightarrow> manager_loop R_FAILED services notifications allocator (fst (an_notification a)) as s
           | r \<Rightarrow> r))"

declare manager_loop.simps [simp del]

section \<open>Start and clean-up\<close>

text \<open>Notifications that are subscribed to.\<close>

definition subscribed :: "ServiceManagerNotificationEntry list \<Rightarrow> u32 list" where
  "subscribed notifications = filter (\<lambda>n. n \<noteq> 0x100 \<and> n \<noteq> 0x179) (map nt_id notifications)"

record setup_env =
  srvEnableNotification :: "Result \<times> Handle"
  srvSubscribe :: "u32 \<Rightarrow> Result"
  srvRegisterService :: "nat \<Rightarrow> Result \<times> Handle"
  svcCreatePort :: "nat \<Rightarrow> Result \<times> Handle"

fun subscribe_all :: "(Result \<Rightarrow> bool) \<Rightarrow> (u32 \<Rightarrow> Result) \<Rightarrow> u32 list \<Rightarrow> Result option" where
  "subscribe_all R_FAILED subscribe [] = None"
| "subscribe_all R_FAILED subscribe (n # ns) =
     (if R_FAILED (subscribe n) then Some (subscribe n) else subscribe_all R_FAILED subscribe ns)"

fun open_ports :: "(Result \<Rightarrow> bool) \<Rightarrow> setup_env \<Rightarrow> nat \<Rightarrow> ServiceManagerServiceEntry list \<Rightarrow> Handle list \<Rightarrow> Result option \<times> Handle list" where
  "open_ports R_FAILED E i [] hs = (None, hs)"
| "open_ports R_FAILED E i (sv # svs) hs =
     (case (if sv_isGlobalPort sv then svcCreatePort E i else srvRegisterService E i) of (res, h) \<Rightarrow>
        if R_FAILED res then (Some res, hs[1 + i := h])
        else open_ports R_FAILED E (i + 1) svs (hs[1 + i := h]))"

text \<open>The arrays hold arbitrary values at first.\<close>

definition maxSessionsTotal :: "ServiceManagerServiceEntry list \<Rightarrow> nat" where
  "maxSessionsTotal services = sum_list (map sv_maxSessions services)"

definition start_manager :: "(Result \<Rightarrow> bool) \<Rightarrow> setup_env \<Rightarrow> ServiceManagerServiceEntry list \<Rightarrow> ServiceManagerNotificationEntry list \<Rightarrow>
    Handle list \<Rightarrow> nat list \<Rightarrow> 'c option list \<Rightarrow> 'c outcome" where
  "start_manager R_FAILED E services notifications hs ids cs =
     (let s = (\<lambda>hs. \<lparr>waitHandles = hs, handlerIds = ids, ctxs = cs, numActiveSessions = 0, replyTarget = 0,
                      terminationRequested = False, mg_trace = []\<rparr>) in
      case srvEnableNotification E of (res, h) \<Rightarrow>
        let hs = hs[0 := h] in
        if R_FAILED res then Cleanup res (s hs)
        else
          (case subscribe_all R_FAILED (srvSubscribe E) (subscribed notifications) of
             Some res \<Rightarrow> Cleanup res (s hs)
           | None \<Rightarrow>
               (case open_ports R_FAILED E 0 services hs of
                  (Some res, hs) \<Rightarrow> Cleanup res (s hs)
                | (None, hs) \<Rightarrow> Running (s hs))))"

text \<open>The clean-up: the handles are closed and the notifications unsubscribed; the answers to
  \<open>srvUnsubscribe\<close> are those of the first call, the second and so on. A failure leads back to the
  label \<open>cleanup\<close>. The result is the handles closed, one list for each time, and the services that
  are unregistered.\<close>

fun unsubscribe_all :: "(Result \<Rightarrow> bool) \<Rightarrow> (nat \<Rightarrow> Result) \<Rightarrow> nat \<Rightarrow> u32 list \<Rightarrow> bool \<times> nat" where
  "unsubscribe_all R_FAILED answer k [] = (True, k)"
| "unsubscribe_all R_FAILED answer k (n # ns) =
     (if R_FAILED (answer k) then (False, k + 1) else unsubscribe_all R_FAILED answer (k + 1) ns)"

fun cleanup_loop :: "nat \<Rightarrow> (Result \<Rightarrow> bool) \<Rightarrow> (nat \<Rightarrow> Result) \<Rightarrow> nat \<Rightarrow> u32 list \<Rightarrow> Handle list \<Rightarrow> Handle list list option" where
  "cleanup_loop 0 R_FAILED answer k ns hs = None"
| "cleanup_loop (Suc fuel) R_FAILED answer k ns hs =
     (case unsubscribe_all R_FAILED answer k ns of
        (True, k) \<Rightarrow> Some [hs]
      | (False, k) \<Rightarrow> map_option (\<lambda>l. hs # l) (cleanup_loop fuel R_FAILED answer k ns hs))"

definition manager_cleanup :: "nat \<Rightarrow> (Result \<Rightarrow> bool) \<Rightarrow> (nat \<Rightarrow> Result) \<Rightarrow> ServiceManagerServiceEntry list \<Rightarrow>
    ServiceManagerNotificationEntry list \<Rightarrow> bool \<Rightarrow> 'c manager \<Rightarrow> (Handle list list \<times> nat list \<times> 'c option list) option" where
  "manager_cleanup fuel R_FAILED answer services notifications allocator s =
     map_option (\<lambda>closed. (closed, filter (\<lambda>i. \<not> sv_isGlobalPort (services ! i)) [0..<length services],
                            if allocator then take (numActiveSessions s) (ctxs s) else []))
       (cleanup_loop fuel R_FAILED answer 0 (subscribed notifications)
          (take (1 + length services + numActiveSessions s) (waitHandles s)))"

section \<open>The sessions\<close>

text \<open>The table of sessions the arrays stand for, and the one the recorded actions give.\<close>

definition session_table :: "nat \<Rightarrow> 'c manager \<Rightarrow> (Handle \<times> nat \<times> 'c option) list" where
  "session_table base s =
     zip (active_handles base s) (zip (take (numActiveSessions s) (handlerIds s)) (take (numActiveSessions s) (ctxs s)))"

fun record_action :: "'c action \<Rightarrow> (Handle \<rightharpoonup> nat \<times> 'c option) \<Rightarrow> (Handle \<rightharpoonup> nat \<times> 'c option)" where
  "record_action (Accepted h i c) m = m(h \<mapsto> (i, c))"
| "record_action (Dropped h c) m = m(h := None)"
| "record_action a m = m"

definition opened :: "'c action list \<Rightarrow> (Handle \<rightharpoonup> nat \<times> 'c option)" where
  "opened tr = fold record_action tr Map.empty"

lemma opened_append [simp]: "opened (tr @ as) = fold record_action as (opened tr)"
  by (simp add: opened_def)

definition sessions_of :: "'c manager \<Rightarrow> nat \<Rightarrow> nat" where
  "sessions_of s i = count (mset (take (numActiveSessions s) (handlerIds s))) i"

definition manager_inv :: "ServiceManagerServiceEntry list \<Rightarrow> 'c manager \<Rightarrow> bool" where
  "manager_inv services s \<longleftrightarrow>
     length (waitHandles s) = sessions_base services + maxSessionsTotal services \<and>
     length (handlerIds s) = maxSessionsTotal services \<and> length (ctxs s) = maxSessionsTotal services \<and>
     numActiveSessions s \<le> maxSessionsTotal services \<and>
     distinct (active_handles (sessions_base services) s) \<and>
     map_of (session_table (sessions_base services) s) = opened (mg_trace s) \<and>
     (\<forall>i \<in> set (take (numActiveSessions s) (handlerIds s)). i < length services) \<and>
     (\<forall>i < length services. sessions_of s i \<le> sv_maxSessions (services ! i))"

text \<open>What the kernel answers: an index of the list it was given, a new session on a port only while
  the port has room for it, and a handle for it that is not in use.\<close>

definition answers_ok :: "(Result \<Rightarrow> bool) \<Rightarrow> ServiceManagerServiceEntry list \<Rightarrow> 'c manager \<Rightarrow> 'c answers \<Rightarrow> bool" where
  "answers_ok R_FAILED services s a \<longleftrightarrow>
     (an_id a = -1 \<and> an_res a = session_closed \<or> 0 \<le> an_id a) \<and>
     an_id a < int (sessions_base services + numActiveSessions s) \<and>
     (an_res a \<noteq> session_closed \<and> 1 \<le> an_id a \<and> an_id a \<le> int (length services) \<and> \<not> R_FAILED (fst (an_session a)) \<longrightarrow>
        sessions_of s (nat (an_id a) - 1) < sv_maxSessions (services ! (nat (an_id a) - 1)) \<and>
        snd (an_session a) \<notin> set (active_handles (sessions_base services) s))"

section \<open>The invariant\<close>

lemma find_session_less: "find_session hs h < length hs \<Longrightarrow> hs ! find_session hs h = h"
  by (induction hs) (auto split: if_splits)

lemma zip_update_last:
  assumes "length xs = length ys"
  shows "zip (xs[i := x]) (ys[i := y]) = (zip xs ys)[i := (x, y)]"
  using assms by (simp add: update_zip)

text \<open>Removing an element by putting the last one in its place.\<close>

definition swap_remove :: "nat \<Rightarrow> 'a list \<Rightarrow> 'a list" where
  "swap_remove i xs = butlast (xs[i := last xs])"

lemma mset_swap_remove:
  assumes "i < length xs"
  shows "mset (swap_remove i xs) = mset xs - {#xs ! i#}"
proof -
  have "xs \<noteq> []" using assms by auto
  then have "swap_remove i xs = take (length xs - 1) (xs[i := xs ! (length xs - 1)])"
    by (simp add: swap_remove_def butlast_conv_take last_conv_nth)
  then show ?thesis using take_update_swap_last [OF assms order.refl] by simp
qed

lemma take_swap_remove:
  assumes "i < n" and "n \<le> length xs"
  shows "take (n - 1) (xs[i := xs ! (n - 1)]) = swap_remove i (take n xs)"
proof -
  have "take n xs \<noteq> []" using assms by auto
  then have "last (take n xs) = xs ! (n - 1)" using assms by (simp add: last_conv_nth min_def)
  then show ?thesis using assms by (simp add: swap_remove_def butlast_conv_take take_list_update min_def)
qed

lemma swap_remove_zip:
  assumes "length xs = length ys" and "i < length xs"
  shows "zip (swap_remove i xs) (swap_remove i ys) = swap_remove i (zip xs ys)"
proof -
  have "xs \<noteq> []" "ys \<noteq> []" "zip xs ys \<noteq> []" using assms by auto
  moreover from this have "last (zip xs ys) = (last xs, last ys)" using assms(1) by (intro last_zip)
  ultimately show ?thesis using assms(1)
    by (simp add: swap_remove_def butlast_conv_take update_zip flip: take_zip)
qed

lemma map_of_without_head:
  assumes "distinct (map fst (x # xs))"
  shows "map_of xs = (map_of (x # xs))(fst x := None)"
proof -
  have "map_of xs (fst x) = None" using assms by (simp add: map_of_eq_None_iff)
  then show ?thesis by (cases x) (simp add: fun_upd_idem)
qed

lemma map_of_swap_remove:
  assumes "distinct (map fst t)" and "i < length t"
  shows "distinct (map fst (swap_remove i t))" and "map_of (swap_remove i t) = (map_of t)(fst (t ! i) := None)"
proof -
  let ?r = "swap_remove i t"
  have m: "mset (t ! i # ?r) = mset t" using assms(2) by (simp add: mset_swap_remove)
  then have "mset (map fst (t ! i # ?r)) = mset (map fst t)" by (metis mset_map)
  then have d: "distinct (map fst (t ! i # ?r))" using assms(1) by (metis mset_eq_imp_distinct_iff)
  then show "distinct (map fst ?r)" by simp
  have "map_of (t ! i # ?r) = map_of t"
    by (rule iffD2 [OF map_of_inject_set [OF d assms(1)]]) (rule mset_eq_setD [OF m])
  then show "map_of ?r = (map_of t)(fst (t ! i) := None)"
    by (rule subst [where P = "\<lambda>m. map_of ?r = m(fst (t ! i) := None)"]) (rule map_of_without_head [OF d])
qed

lemma active_handles_length: "manager_inv services s \<Longrightarrow> length (active_handles (sessions_base services) s) = numActiveSessions s"
  by (simp add: manager_inv_def active_handles_def)

lemma active_nth:
  "manager_inv services s \<Longrightarrow> i < numActiveSessions s \<Longrightarrow>
     active_handles (sessions_base services) s ! i = waitHandles s ! (sessions_base services + i)"
  by (simp add: manager_inv_def active_handles_def)

lemma session_table_keys: "manager_inv services s \<Longrightarrow> map fst (session_table (sessions_base services) s) = active_handles (sessions_base services) s"
  by (simp add: session_table_def manager_inv_def active_handles_def)

lemma session_table_nth:
  assumes "manager_inv services s" and "i < numActiveSessions s"
  shows "session_table (sessions_base services) s ! i = (waitHandles s ! (sessions_base services + i), handlerIds s ! i, ctxs s ! i)"
  using assms by (simp add: session_table_def manager_inv_def active_handles_def)

text \<open>The entry of a session is the one recorded when it was accepted.\<close>

lemma recorded_entry:
  assumes "manager_inv services s" and "i < numActiveSessions s"
  shows "opened (mg_trace s) (waitHandles s ! (sessions_base services + i)) = Some (handlerIds s ! i, ctxs s ! i)"
    and "handlerIds s ! i < length services"
proof -
  let ?t = "session_table (sessions_base services) s"
  have "i < length ?t" using assms by (simp add: session_table_def manager_inv_def active_handles_def)
  then have "?t ! i \<in> set ?t" by simp
  moreover have "distinct (map fst ?t)" using assms(1) by (simp only: session_table_keys) (simp add: manager_inv_def)
  ultimately have "map_of ?t (fst (?t ! i)) = Some (snd (?t ! i))" by (simp add: map_of_eq_Some_iff)
  then show "opened (mg_trace s) (waitHandles s ! (sessions_base services + i)) = Some (handlerIds s ! i, ctxs s ! i)"
    using assms by (simp only: session_table_nth) (simp add: manager_inv_def)
  have "take (numActiveSessions s) (handlerIds s) ! i \<in> set (take (numActiveSessions s) (handlerIds s))"
    using assms by (intro nth_mem) (simp add: manager_inv_def)
  then show "handlerIds s ! i < length services" using assms by (simp add: manager_inv_def)
qed

lemma drop_session_fields:
  "numActiveSessions (drop_session al base off s) = numActiveSessions s - 1"
  "waitHandles (drop_session al base off s) = (waitHandles s)[base + off := waitHandles s ! (base + (numActiveSessions s - 1))]"
  "handlerIds (drop_session al base off s) = (handlerIds s)[off := handlerIds s ! (numActiveSessions s - 1)]"
  "ctxs (drop_session al base off s) = (ctxs s)[off := ctxs s ! (numActiveSessions s - 1)]"
  "opened (mg_trace (drop_session al base off s)) = (opened (mg_trace s))(waitHandles s ! (base + off) := None)"
  by (simp_all add: drop_session_def Let_def act_def)

lemma take_update_beyond: "n \<le> i \<Longrightarrow> take n (xs[i := x]) = take n xs"
  by simp

lemma drop_session_inv:
  assumes "manager_inv services s" and "off < numActiveSessions s"
  shows "manager_inv services (drop_session allocator (sessions_base services) off s)"
proof -
  let ?b = "sessions_base services" and ?n = "numActiveSessions s"
  let ?s = "drop_session allocator ?b off s"
  note i = assms(1) [unfolded manager_inv_def]
  have len: "?n \<le> length (drop ?b (waitHandles s))" "?n \<le> length (handlerIds s)" "?n \<le> length (ctxs s)" using i by simp_all
  have h: "active_handles ?b ?s = swap_remove off (active_handles ?b s)"
  proof -
    have "drop ?b (waitHandles ?s) = (drop ?b (waitHandles s))[off := drop ?b (waitHandles s) ! (?n - 1)]"
      using i by (simp add: drop_session_fields drop_update_swap)
    then show ?thesis using take_swap_remove [OF assms(2) len(1)] by (simp add: active_handles_def drop_session_fields)
  qed
  have hi: "take (?n - 1) (handlerIds ?s) = swap_remove off (take ?n (handlerIds s))"
    using take_swap_remove [OF assms(2) len(2)] by (simp add: drop_session_fields)
  have ci: "take (?n - 1) (ctxs ?s) = swap_remove off (take ?n (ctxs s))"
    using take_swap_remove [OF assms(2) len(3)] by (simp add: drop_session_fields)
  have lens: "length (active_handles ?b s) = ?n" "length (take ?n (handlerIds s)) = ?n" "length (take ?n (ctxs s)) = ?n"
    using active_handles_length [OF assms(1)] len by simp_all
  have t: "session_table ?b ?s = swap_remove off (session_table ?b s)"
    unfolding session_table_def drop_session_fields(1) h hi ci using lens assms(2) by (simp add: swap_remove_zip)
  have keys: "map fst (session_table ?b s) = active_handles ?b s" by (rule session_table_keys [OF assms(1)])
  then have d: "distinct (map fst (session_table ?b s))" using i by simp
  have l: "off < length (session_table ?b s)" using lens assms(2) by (simp add: session_table_def)
  note r = map_of_swap_remove [OF d l]
  have "map fst (session_table ?b ?s) = active_handles ?b ?s"
    unfolding session_table_def drop_session_fields(1) h hi ci using lens by (simp add: swap_remove_def)
  then have dis: "distinct (active_handles ?b ?s)" using r(1) t by simp
  have m: "map_of (session_table ?b ?s) = opened (mg_trace ?s)"
    using r(2) i session_table_nth [OF assms] by (simp add: t drop_session_fields)
  have ms: "mset (swap_remove off (take ?n (handlerIds s))) = mset (take ?n (handlerIds s)) - {#take ?n (handlerIds s) ! off#}"
    using lens assms(2) by (intro mset_swap_remove) simp
  then have "set (swap_remove off (take ?n (handlerIds s))) \<subseteq> set (take ?n (handlerIds s))"
    by (metis diff_subset_eq_self set_mset_mono set_mset_mset)
  then have sid: "\<forall>k \<in> set (take (numActiveSessions ?s) (handlerIds ?s)). k < length services"
    using i hi by (auto simp: drop_session_fields(1))
  have "sessions_of ?s k \<le> sessions_of s k" for k
    unfolding sessions_of_def drop_session_fields(1) hi ms by simp
  then have cnt: "\<forall>k < length services. sessions_of ?s k \<le> sv_maxSessions (services ! k)"
    using i order_trans by blast
  have "numActiveSessions ?s \<le> maxSessionsTotal services" using i unfolding drop_session_fields(1) by linarith
  then show ?thesis using i dis m sid cnt unfolding manager_inv_def by (simp add: drop_session_fields(1-4))
qed

lemma sessions_total:
  assumes "manager_inv services s"
  shows "numActiveSessions s = (\<Sum>i < length services. sessions_of s i)"
proof -
  let ?xs = "take (numActiveSessions s) (handlerIds s)"
  have "numActiveSessions s = size (mset ?xs)" using assms by (simp add: manager_inv_def)
  also have "\<dots> = (\<Sum>i \<in> set ?xs. count (mset ?xs) i)" by (simp add: size_multiset_overloaded_eq)
  also have "\<dots> = (\<Sum>i < length services. count (mset ?xs) i)"
  proof (rule sum.mono_neutral_left)
    show "set ?xs \<subseteq> {..<length services}" using assms by (auto simp: manager_inv_def)
    show "\<forall>i \<in> {..<length services} - set ?xs. count (mset ?xs) i = 0" by (simp add: count_eq_zero_iff)
  qed simp
  finally show ?thesis by (simp add: sessions_of_def)
qed

text \<open>As long as the kernel keeps the limits of the ports, there is room in the arrays.\<close>

lemma room_for_session:
  assumes "manager_inv services s" and "i < length services" and "sessions_of s i < sv_maxSessions (services ! i)"
  shows "numActiveSessions s < maxSessionsTotal services"
proof -
  have "(\<Sum>j < length services. sessions_of s j) < (\<Sum>j < length services. sv_maxSessions (services ! j))"
    using assms by (intro sum_strict_mono_ex1) (auto simp: manager_inv_def)
  then show ?thesis
    by (simp add: sessions_total [OF assms(1)] maxSessionsTotal_def sum_list_sum_nth atLeast0LessThan)
qed

lemma accept_inv:
  assumes "manager_inv services s" and "i < length services" and "sessions_of s i < sv_maxSessions (services ! i)"
    and "h \<notin> set (active_handles (sessions_base services) s)"
  shows "manager_inv services (act (Accepted h i ctx)
    (s\<lparr>waitHandles := (waitHandles s)[sessions_base services + numActiveSessions s := h],
       handlerIds := (handlerIds s)[numActiveSessions s := i],
       ctxs := (ctxs s)[numActiveSessions s := ctx], numActiveSessions := numActiveSessions s + 1\<rparr>))"
    (is "manager_inv services ?s")
proof -
  let ?b = "sessions_base services" and ?n = "numActiveSessions s"
  note inv = assms(1) [unfolded manager_inv_def]
  have room: "?n < maxSessionsTotal services" by (rule room_for_session [OF assms(1-3)])
  have h: "active_handles ?b ?s = active_handles ?b s @ [h]"
    using inv room by (simp add: active_handles_def act_def drop_update_swap take_Suc_conv_app_nth)
  have hi: "take (Suc ?n) (handlerIds ?s) = take ?n (handlerIds s) @ [i]"
    using inv room by (simp add: act_def take_Suc_conv_app_nth)
  have ci: "take (Suc ?n) (ctxs ?s) = take ?n (ctxs s) @ [ctx]"
    using inv room by (simp add: act_def take_Suc_conv_app_nth)
  have n: "numActiveSessions ?s = Suc ?n" by (simp add: act_def)
  have lens: "length (active_handles ?b s) = ?n" "length (take ?n (handlerIds s)) = ?n" "length (take ?n (ctxs s)) = ?n"
    using active_handles_length [OF assms(1)] inv by simp_all
  have t: "session_table ?b ?s = session_table ?b s @ [(h, i, ctx)]"
    unfolding session_table_def n h hi ci using lens by simp
  have "map_of (session_table ?b s) h = None"
    using assms(4) session_table_keys [OF assms(1)] by (metis map_of_eq_None_iff set_map)
  then have "map_of (session_table ?b ?s) = (map_of (session_table ?b s))(h \<mapsto> (i, ctx))"
    unfolding t map_of_append by (auto simp: map_add_def fun_eq_iff split: option.splits)
  then have m: "map_of (session_table ?b ?s) = opened (mg_trace ?s)" using inv by (simp add: act_def)
  have dis: "distinct (active_handles ?b ?s)" unfolding h using inv assms(4) by simp
  have "set (take (numActiveSessions ?s) (handlerIds ?s)) = insert i (set (take ?n (handlerIds s)))"
    by (simp only: n hi) simp
  then have sid: "\<forall>k \<in> set (take (numActiveSessions ?s) (handlerIds ?s)). k < length services" using inv assms(2) by auto
  have "sessions_of ?s k = sessions_of s k + (if k = i then 1 else 0)" for k
    unfolding sessions_of_def n hi by simp
  then have cnt: "\<forall>k < length services. sessions_of ?s k \<le> sv_maxSessions (services ! k)"
    using inv assms(3) by simp
  have "numActiveSessions ?s \<le> maxSessionsTotal services" using room n by simp
  moreover have "length (waitHandles ?s) = length (waitHandles s)" "length (handlerIds ?s) = length (handlerIds s)"
    "length (ctxs ?s) = length (ctxs s)" by (simp_all add: act_def)
  ultimately show ?thesis using inv dis m sid cnt unfolding manager_inv_def by simp
qed

lemma inv_frame:
  assumes "manager_inv services s" and "waitHandles s' = waitHandles s" and "handlerIds s' = handlerIds s" and "ctxs s' = ctxs s"
    and "numActiveSessions s' = numActiveSessions s" and "opened (mg_trace s') = opened (mg_trace s)"
  shows "manager_inv services s'"
  using assms by (simp add: manager_inv_def active_handles_def session_table_def sessions_of_def)

lemma service_index:
  assumes "1 \<le> n" and "n \<le> int k" and "k \<le> 256"
  shows "unat (of_int (n - 1) :: u8) = nat n - 1"
proof -
  have "0 \<le> n - 1" "n - 1 < 256" using assms by simp_all
  then have "uint (of_int (n - 1) :: u8) = n - 1" by (simp add: uint_word_of_int take_bit_eq_mod unsigned_of_int del: of_int_diff)
  then show ?thesis using assms by (simp add: unat_eq_nat_uint)
qed

lemma round_inv:
  assumes "manager_inv services s" and "answers_ok R_FAILED services s a" and "length services \<le> 256"
    and "manager_round R_FAILED services notifications allocator a s = Running s'"
  shows "manager_inv services s'"
proof -
  let ?b = "sessions_base services"
  let ?s = "act (if replyTarget s = 0 then NoReply else ReplyTo (replyTarget s)) s"
  let ?r = "?s\<lparr>replyTarget := 0\<rparr>"
  have i: "manager_inv services ?s" "manager_inv services ?r" by (rule inv_frame [OF assms(1)]; simp add: act_def)+
  note a = assms(2) [unfolded answers_ok_def]
  consider (closed) "an_res a = session_closed" "on_closed allocator ?b a ?s = Running s'"
    | (notified) "on_notification R_FAILED notifications a ?r = Running s'"
    | (new) "an_res a \<noteq> session_closed" "an_id a \<noteq> 0" "an_id a < int ?b" "on_new_session R_FAILED allocator ?b a ?r = Running s'"
    | (command) "on_command ?b a ?r = Running s'"
    using assms(4) by (auto simp: manager_round_def Let_def split: if_splits)
  then show ?thesis
  proof cases
    case closed
    then obtain off where o: "s' = drop_session allocator ?b off ?s" and
      c: "off = find_session (active_handles ?b ?s) (replyTarget ?s) \<and> off < numActiveSessions ?s \<or>
       off = nat (an_id a) - ?b \<and> an_id a \<ge> int ?b"
      by (auto simp: on_closed_def Let_def split: if_splits)
    have "off < numActiveSessions ?s"
      using c a by (auto simp: act_def)
    then show ?thesis using drop_session_inv [OF i(1)] o by simp
  next
    case notified
    then show ?thesis
      by (intro inv_frame [OF i(2)]) (auto simp: on_notification_def act_def Let_def split: prod.splits if_splits)
  next
    case new
    obtain res h where h: "an_session a = (res, h)" by fastforce
    let ?i = "nat (an_id a) - 1" and ?ctx = "if allocator then an_context a else None"
    have id: "1 \<le> an_id a" "an_id a \<le> int (length services)"
      using a new by (auto simp: sessions_base_def)
    have ok: "\<not> R_FAILED res" using new(4) h by (auto simp: on_new_session_def split: if_splits)
    have idx: "unat (of_int (an_id a - 1) :: u8) = ?i" by (rule service_index [OF id assms(3)])
    have "s' = act (Accepted h ?i ?ctx)
      (?r\<lparr>waitHandles := (waitHandles ?r)[?b + numActiveSessions ?r := h], handlerIds := (handlerIds ?r)[numActiveSessions ?r := ?i],
          ctxs := (ctxs ?r)[numActiveSessions ?r := ?ctx], numActiveSessions := numActiveSessions ?r + 1\<rparr>)"
      using new(4) h ok idx by (auto simp: on_new_session_def Let_def split: if_splits)
    moreover have "sessions_of ?r ?i < sv_maxSessions (services ! ?i)" "h \<notin> set (active_handles ?b ?r)"
      using a new(1) id ok h by (auto simp: sessions_of_def active_handles_def act_def)
    ultimately show ?thesis using accept_inv [OF i(2), of ?i h ?ctx] id by simp
  next
    case command
    then show ?thesis by (intro inv_frame [OF i(2)]) (auto simp: on_command_def act_def Let_def)
  qed
qed

section \<open>Runs\<close>

inductive manager_reach :: "(Result \<Rightarrow> bool) \<Rightarrow> ServiceManagerServiceEntry list \<Rightarrow> ServiceManagerNotificationEntry list \<Rightarrow> bool \<Rightarrow>
    'c manager \<Rightarrow> bool" for R_FAILED services notifications allocator where
  reach_start: "start_manager R_FAILED E services notifications hs ids cs = Running s \<Longrightarrow>
     length hs = sessions_base services + maxSessionsTotal services \<Longrightarrow> length ids = maxSessionsTotal services \<Longrightarrow>
     length cs = maxSessionsTotal services \<Longrightarrow> manager_reach R_FAILED services notifications allocator s"
| reach_round: "manager_reach R_FAILED services notifications allocator s \<Longrightarrow> \<not> terminationRequested s \<Longrightarrow>
     answers_ok R_FAILED services s a \<Longrightarrow> manager_round R_FAILED services notifications allocator a s = Running s' \<Longrightarrow>
     manager_reach R_FAILED services notifications allocator s'"

lemma open_ports_length: "length (snd (open_ports R_FAILED E i svs hs)) = length hs"
  by (induction R_FAILED E i svs hs rule: open_ports.induct) (auto split: prod.splits)

lemma start_inv:
  assumes "start_manager R_FAILED E services notifications hs ids cs = Running s"
    and "length hs = sessions_base services + maxSessionsTotal services" and "length ids = maxSessionsTotal services"
    and "length cs = maxSessionsTotal services"
  shows "manager_inv services s"
proof -
  obtain hs' k where "open_ports R_FAILED E 0 services (hs[0 := k]) = (None, hs')" and
    s: "s = \<lparr>waitHandles = hs', handlerIds = ids, ctxs = cs, numActiveSessions = 0, replyTarget = 0,
             terminationRequested = False, mg_trace = []\<rparr>"
    using assms(1) by (auto simp: start_manager_def Let_def split: prod.splits if_splits option.splits)
  then have "length hs' = length hs" using open_ports_length [of R_FAILED E 0 services "hs[0 := k]"] by simp
  note this s
  then show ?thesis using assms(2-4)
    by (simp add: manager_inv_def active_handles_def session_table_def opened_def sessions_of_def)
qed

lemma reach_inv:
  assumes "manager_reach R_FAILED services notifications allocator s" and "length services \<le> 256"
  shows "manager_inv services s"
  using assms
proof (induction rule: manager_reach.induct)
  case (reach_start E hs ids cs s)
  then show ?case by (intro start_inv)
next
  case (reach_round s a s')
  then show ?case using round_inv [of services s R_FAILED a notifications allocator s'] by simp
qed

text \<open>C33. In every run, as long as the kernel keeps the limits of the ports, a command is given to the
  handler of the service whose port accepted its session, with the context made for that session,
  and the next wait replies to that session; there is always a place left in the arrays for the
  sessions the ports may still accept.\<close>

theorem command_dispatched:
  assumes "manager_reach R_FAILED services notifications allocator s" and "length services \<le> 256"
    and "answers_ok R_FAILED services s a" and "an_res a \<noteq> session_closed" and "\<not> R_FAILED (an_res a)"
    and "int (sessions_base services) \<le> an_id a"
  shows "\<exists>h i ctx first. opened (mg_trace s) h = Some (i, ctx) \<and> i < length services \<and>
     manager_round R_FAILED services notifications allocator a s =
       Running (s\<lparr>mg_trace := mg_trace s @ [first, Called i ctx h], replyTarget := h\<rparr>) \<and>
     first = (if replyTarget s = 0 then NoReply else ReplyTo (replyTarget s)) \<and>
     (\<forall>j < length services. sessions_of s j < sv_maxSessions (services ! j) \<longrightarrow>
        sessions_base services + numActiveSessions s < length (waitHandles s))"
proof -
  have inv: "manager_inv services s" by (rule reach_inv [OF assms(1,2)])
  let ?b = "sessions_base services" and ?off = "nat (an_id a) - sessions_base services"
  have off: "?off < numActiveSessions s" "?b + ?off = nat (an_id a)" using assms(3,6) by (auto simp: answers_ok_def)
  note e = recorded_entry [OF inv off(1)]
  let ?first = "if replyTarget s = 0 then NoReply else ReplyTo (replyTarget s)"
  have id: "an_id a \<noteq> 0" "\<not> an_id a < int ?b" using assms(6) by (auto simp: sessions_base_def)
  have opened: "opened (mg_trace s) (waitHandles s ! nat (an_id a)) = Some (handlerIds s ! ?off, ctxs s ! ?off)"
    using e(1) unfolding off(2) .
  have run: "manager_round R_FAILED services notifications allocator a s =
      Running (s\<lparr>mg_trace := mg_trace s @ [?first, Called (handlerIds s ! ?off) (ctxs s ! ?off) (waitHandles s ! nat (an_id a))],
                 replyTarget := waitHandles s ! nat (an_id a)\<rparr>)"
    using assms(4,5) id by (simp add: manager_round_def on_command_def act_def Let_def)
  have room: "\<forall>j < length services. sessions_of s j < sv_maxSessions (services ! j) \<longrightarrow>
      sessions_base services + numActiveSessions s < length (waitHandles s)"
    using room_for_session [OF inv] inv by (auto simp: manager_inv_def)
  show ?thesis by (intro exI conjI) (rule opened, rule e(2), rule run, rule refl, rule room)
qed

definition demo_services :: "ServiceManagerServiceEntry list" where
  "demo_services = [\<lparr>sv_maxSessions = 2, sv_isGlobalPort = False\<rparr>, \<lparr>sv_maxSessions = 2, sv_isGlobalPort = True\<rparr>]"

definition demo_failed :: "Result \<Rightarrow> bool" where
  "demo_failed res \<longleftrightarrow> sint res < 0"

definition demo_started :: "nat manager" where
  "demo_started = \<lparr>waitHandles = [10, 11, 12, 0, 0, 0, 0], handlerIds = [0, 0, 0, 0], ctxs = [None, None, None, None],
     numActiveSessions = 0, replyTarget = 0, terminationRequested = False, mg_trace = []\<rparr>"

definition demo_answers :: "int \<Rightarrow> Handle \<Rightarrow> nat answers" where
  "demo_answers n h = \<lparr>an_res = 0, an_id = n, an_notification = (0, 0), an_session = (0, h), an_context = None\<rparr>"

definition demo_accepted :: "nat manager" where
  "demo_accepted = demo_started\<lparr>waitHandles := [10, 11, 12, 50, 0, 0, 0], handlerIds := [1, 0, 0, 0],
     numActiveSessions := 1, mg_trace := [NoReply, Accepted 50 1 None]\<rparr>"

lemma demo_reach: "manager_reach demo_failed demo_services [] False demo_accepted"
proof -
  let ?E = "\<lparr>srvEnableNotification = (0, 10), srvSubscribe = (\<lambda>_. 0), srvRegisterService = (\<lambda>i. (0, 11)), svcCreatePort = (\<lambda>i. (0, 12))\<rparr>"
  have "start_manager demo_failed ?E demo_services [] [0, 0, 0, 0, 0, 0, 0] [0, 0, 0, 0] [None, None, None, None] = Running demo_started"
    by (simp add: start_manager_def demo_failed_def demo_services_def demo_started_def subscribed_def)
  then have r: "manager_reach demo_failed demo_services [] False demo_started"
    by (rule reach_start) (simp_all add: demo_services_def maxSessionsTotal_def sessions_base_def)
  show ?thesis
  proof (rule reach_round [OF r, of "demo_answers 2 50"])
    show "answers_ok demo_failed demo_services demo_started (demo_answers 2 50)"
      by (simp add: answers_ok_def demo_answers_def demo_services_def demo_started_def sessions_of_def active_handles_def
          sessions_base_def)
    show "manager_round demo_failed demo_services [] False (demo_answers 2 50) demo_started = Running demo_accepted"
      by (simp add: manager_round_def on_new_session_def demo_answers_def demo_services_def sessions_base_def demo_started_def
          demo_accepted_def demo_failed_def act_def)
  qed (simp add: demo_started_def)
qed

lemma command_dispatched_witness:
  "\<exists>h i ctx. opened (mg_trace demo_accepted) h = Some (i, ctx) \<and>
     manager_round demo_failed demo_services [] False (demo_answers 3 0) demo_accepted =
       Running (demo_accepted\<lparr>mg_trace := mg_trace demo_accepted @ [NoReply, Called i ctx h], replyTarget := h\<rparr>)"
  using command_dispatched [OF demo_reach, of "demo_answers 3 0"]
  by (auto simp: answers_ok_def demo_answers_def demo_services_def demo_accepted_def demo_started_def demo_failed_def
      sessions_base_def)

text \<open>The clean-up does not end while the notifications cannot be unsubscribed: a failure leads back to
  its start, where the handles that have been closed are closed again.\<close>

lemma cleanup_never_ends:
  assumes "subscribed notifications \<noteq> []" and "\<And>k. R_FAILED (answer k)"
  shows "manager_cleanup fuel R_FAILED answer services notifications allocator s = None"
proof -
  obtain n ns where "subscribed notifications = n # ns" using assms(1) by (cases "subscribed notifications") auto
  moreover have "cleanup_loop fuel R_FAILED answer k (n # ns) hs = None" for k hs
    by (induction fuel arbitrary: k) (simp_all add: assms(2))
  ultimately show ?thesis by (simp add: manager_cleanup_def)
qed

end
