(* ===== verification/Pm_List.thy ===== *)
theory Pm_List
  imports Omiiba_Prelude
begin

text \<open>
  The circular intrusive lists of \<open>pm\<close> (\<open>intrusive_list.h\<close>): the head of a list is a node as the
  elements are. The operations are translated pointer by pointer; a list of the heap is related
  to the list of its elements, and the operations to those on lists. The allocation of process
  entries (\<open>ProcessList_New\<close>, \<open>ProcessList_Delete\<close> of \<open>process_data.c\<close>) moves an element between
  two such lists; the other theories use its effect on the lists of elements.
\<close>

section \<open>Pointers\<close>

datatype list_head = Used | Free

datatype node_ptr = Head list_head | Elem nat

record node_links =
  nd_prev :: "node_ptr \<Rightarrow> node_ptr"
  nd_next :: "node_ptr \<Rightarrow> node_ptr"

definition IntrusiveList_Init :: "list_head \<Rightarrow> node_links \<Rightarrow> node_links" where
  "IntrusiveList_Init l h = h\<lparr>nd_prev := (nd_prev h)(Head l := Head l), nd_next := (nd_next h)(Head l := Head l)\<rparr>"

definition IntrusiveList_TestEnd :: "list_head \<Rightarrow> node_ptr \<Rightarrow> bool" where
  "IntrusiveList_TestEnd l nd \<longleftrightarrow> nd = Head l"

definition IntrusiveList_InsertAfter :: "node_ptr \<Rightarrow> node_ptr \<Rightarrow> node_links \<Rightarrow> node_links" where
  "IntrusiveList_InsertAfter pos nd h =
     (let h = h\<lparr>nd_prev := (nd_prev h)(nd_next h pos := nd)\<rparr>;
          h = h\<lparr>nd_prev := (nd_prev h)(nd := pos)\<rparr>;
          h = h\<lparr>nd_next := (nd_next h)(nd := nd_next h pos)\<rparr>
      in h\<lparr>nd_next := (nd_next h)(pos := nd)\<rparr>)"

definition IntrusiveList_Erase :: "node_ptr \<Rightarrow> node_links \<Rightarrow> node_links" where
  "IntrusiveList_Erase nd h =
     (let h = h\<lparr>nd_next := (nd_next h)(nd_prev h nd := nd_next h nd)\<rparr>
      in h\<lparr>nd_prev := (nd_prev h)(nd_next h nd := nd_prev h nd)\<rparr>)"

definition IntrusiveList_CreateFromBuffer :: "list_head \<Rightarrow> nat \<Rightarrow> node_links \<Rightarrow> node_links" where
  "IntrusiveList_CreateFromBuffer l num h =
     fold (\<lambda>i h. IntrusiveList_InsertAfter (nd_prev h (Head l)) (Elem i) h) [0..<num] (IntrusiveList_Init l h)"

text \<open>The link part of \<open>ProcessList_Init\<close>, \<open>ProcessList_New\<close> and \<open>ProcessList_Delete\<close>. The last one
  inserts behind the first free element, not before it.\<close>

definition links_init :: "nat \<Rightarrow> node_links \<Rightarrow> node_links" where
  "links_init num h = IntrusiveList_CreateFromBuffer Free num (IntrusiveList_Init Used h)"

definition links_new :: "node_links \<Rightarrow> (node_ptr \<times> node_links) option" where
  "links_new h =
     (if IntrusiveList_TestEnd Free (nd_next h (Head Free)) then None
      else
        let nd = nd_next h (Head Free); h = IntrusiveList_Erase nd h
        in Some (nd, IntrusiveList_InsertAfter (nd_prev h (Head Used)) nd h))"

definition links_delete :: "node_ptr \<Rightarrow> node_links \<Rightarrow> node_links" where
  "links_delete nd h = (let h = IntrusiveList_Erase nd h in IntrusiveList_InsertAfter (nd_next h (Head Free)) nd h)"

section \<open>Lists of elements\<close>

fun chain :: "node_links \<Rightarrow> node_ptr list \<Rightarrow> bool" where
  "chain h (a # b # zs) \<longleftrightarrow> nd_next h a = b \<and> nd_prev h b = a \<and> chain h (b # zs)"
| "chain h zs \<longleftrightarrow> True"

definition ring :: "node_links \<Rightarrow> list_head \<Rightarrow> node_ptr list \<Rightarrow> bool" where
  "ring h l xs \<longleftrightarrow> chain h (Head l # xs @ [Head l]) \<and> distinct xs \<and> (\<forall>x \<in> set xs. \<exists>i. x = Elem i)"

lemma chain_append: "chain h (xs @ a # ys) \<longleftrightarrow> chain h (xs @ [a]) \<and> chain h (a # ys)"
  by (induction h "xs @ [a]" arbitrary: xs rule: chain.induct) (case_tac xs; case_tac "tl xs"; simp)+

text \<open>A chain depends on the next pointers of all nodes but the last and on the previous pointers of
  all but the first.\<close>

lemma chain_cong:
  assumes "\<forall>a \<in> set (butlast zs). nd_next h' a = nd_next h a" and "\<forall>a \<in> set (tl zs). nd_prev h' a = nd_prev h a"
  shows "chain h' zs = chain h zs"
  using assms
proof (induction h zs rule: chain.induct)
  case (1 h a b zs)
  then show ?case by (cases zs) auto
qed simp_all

lemma chain_split: "chain h (us @ a # b # vs) \<longleftrightarrow> chain h (us @ [a]) \<and> nd_next h a = b \<and> nd_prev h b = a \<and> chain h (b # vs)"
  by (subst chain_append) simp

lemma erase_links:
  assumes "nd_prev h n \<noteq> n"
  shows "nd_next (IntrusiveList_Erase n h) = (nd_next h)(nd_prev h n := nd_next h n)"
    and "nd_prev (IntrusiveList_Erase n h) = (nd_prev h)(nd_next h n := nd_prev h n)"
  using assms by (simp_all add: IntrusiveList_Erase_def Let_def)

lemma insert_links:
  assumes "n \<noteq> p"
  shows "nd_next (IntrusiveList_InsertAfter p n h) = (nd_next h)(n := nd_next h p, p := n)"
    and "nd_prev (IntrusiveList_InsertAfter p n h) = (nd_prev h)(nd_next h p := n, n := p)"
  using assms by (simp_all add: IntrusiveList_InsertAfter_def Let_def)

text \<open>Erasing a node and inserting one, on a chain whose nodes differ but for its two ends.\<close>

definition ends_ok :: "node_ptr list \<Rightarrow> node_ptr \<Rightarrow> node_ptr \<Rightarrow> node_ptr list \<Rightarrow> bool" where
  "ends_ok us p q vs \<longleftrightarrow> p \<notin> set us \<and> q \<notin> set vs \<and> q \<notin> set (tl (us @ [p])) \<and> p \<notin> set (butlast (q # vs))"

lemma erase_chain:
  assumes "chain h (us @ p # n # q # vs)" and "ends_ok us p q vs" and "n \<noteq> p"
  shows "chain (IntrusiveList_Erase n h) (us @ p # q # vs)"
proof -
  have c: "chain h (us @ [p])" "nd_prev h n = p" "nd_next h n = q" "chain h (q # vs)"
    using assms(1) by (simp_all add: chain_split)
  note l = erase_links [of h n, unfolded c(2,3), OF assms(3) [symmetric]]
  have "chain (IntrusiveList_Erase n h) (us @ [p])" "chain (IntrusiveList_Erase n h) (q # vs)"
    using c(1,4) assms(2) by (subst chain_cong [where h = h]; auto simp: l ends_ok_def)+
  then show ?thesis using l unfolding chain_split by simp
qed

lemma insert_chain:
  assumes "chain h (us @ p # q # vs)" and "ends_ok us p q vs" and "n \<notin> set (us @ p # q # vs)"
  shows "chain (IntrusiveList_InsertAfter p n h) (us @ p # n # q # vs)"
proof -
  have c: "chain h (us @ [p])" "nd_next h p = q" "chain h (q # vs)" and np: "n \<noteq> p"
    using assms(1,3) by (simp_all add: chain_split)
  note l = insert_links [OF np, of h, unfolded c(2)]
  have "n \<notin> set (tl (us @ [p]))" "n \<notin> set (butlast (q # vs))"
    using assms(3) by (auto dest: in_set_butlastD list.set_sel(2) [rotated])
  then have "chain (IntrusiveList_InsertAfter p n h) (us @ [p])" "chain (IntrusiveList_InsertAfter p n h) (q # vs)"
    using c(1,3) assms(2,3) by (subst chain_cong [where h = h]; auto simp: l ends_ok_def)+
  then show ?thesis using l assms(3) unfolding chain_split by auto
qed

text \<open>The two nodes beside a position of a ring.\<close>

lemma ring_ends:
  assumes "distinct (xs @ ys)" and "Head l \<notin> set (xs @ ys)"
  obtains us p q vs where "Head l # xs = us @ [p]" and "ys @ [Head l] = q # vs" and "ends_ok us p q vs"
    and "p = last (Head l # xs)" and "q = hd (ys @ [Head l])"
proof -
  let ?us = "butlast (Head l # xs)" and ?vs = "tl (ys @ [Head l])" and ?p = "last (Head l # xs)" and ?q = "hd (ys @ [Head l])"
  have u: "Head l # xs = ?us @ [?p]" by (simp only: append_butlast_last_id [OF list.distinct(2)])
  have v: "ys @ [Head l] = ?q # ?vs" by (cases ys) simp_all
  have "distinct (?us @ [?p])" "distinct (?q # ?vs)" unfolding u [symmetric] v [symmetric] using assms by auto
  then have "?p \<notin> set ?us" "?q \<notin> set ?vs" by (simp_all only: distinct_append distinct.simps) auto
  moreover have "?q \<notin> set (tl (?us @ [?p]))" unfolding u [symmetric] using assms by (cases ys) auto
  moreover have "?p \<notin> set (butlast (?q # ?vs))" unfolding v [symmetric] using assms by (cases xs rule: rev_cases) auto
  ultimately show thesis using that [OF u v] by (auto simp: ends_ok_def)
qed

lemma ring_chain:
  assumes "Head l # xs = us @ [p]" and "ys @ [Head l] = q # vs"
  shows "Head l # (xs @ ys) @ [Head l] = us @ p # q # vs" and "Head l # (xs @ n # ys) @ [Head l] = us @ p # n # q # vs"
  using assms by (metis append_Cons append_assoc append_Nil)+

lemma ring_heads: "ring h l xs \<Longrightarrow> Head k \<notin> set xs"
  by (auto simp: ring_def)

lemma ring_erase:
  assumes "ring h l (xs @ n # ys)"
  shows "ring (IntrusiveList_Erase n h) l (xs @ ys)" and "nd_prev h n = last (Head l # xs)" and "nd_next h n = hd (ys @ [Head l])"
proof -
  have r: "distinct (xs @ n # ys)" "chain h (Head l # (xs @ n # ys) @ [Head l])" "Head l \<notin> set (xs @ n # ys)"
    using assms [unfolded ring_def] ring_heads [OF assms] by blast+
  have d: "distinct (xs @ ys)" "Head l \<notin> set (xs @ ys)" using r(1,3) by simp_all
  obtain us p q vs where e: "Head l # xs = us @ [p]" "ys @ [Head l] = q # vs" "ends_ok us p q vs"
      "p = last (Head l # xs)" "q = hd (ys @ [Head l])"
    by (rule ring_ends [OF d])
  have c: "chain h (us @ p # n # q # vs)" using r(2) ring_chain(2) [OF e(1,2), of n] by simp
  have "n \<noteq> p" using r(1,3) e(4) by (cases xs rule: rev_cases) auto
  with c have "chain (IntrusiveList_Erase n h) (us @ p # q # vs)" by (rule erase_chain [OF _ e(3)])
  then show "ring (IntrusiveList_Erase n h) l (xs @ ys)"
    using assms ring_chain(1) [OF e(1,2)] by (auto simp: ring_def)
  show "nd_prev h n = last (Head l # xs)" "nd_next h n = hd (ys @ [Head l])"
    using c e(4,5) by (simp_all add: chain_split)
qed

lemma ring_insert:
  assumes "ring h l (xs @ ys)" and "Elem i \<notin> set (xs @ ys)" 
  shows "ring (IntrusiveList_InsertAfter (last (Head l # xs)) (Elem i) h) l (xs @ Elem i # ys)"
    and "nd_next h (last (Head l # xs)) = hd (ys @ [Head l])"
proof -
  have r: "distinct (xs @ ys)" "chain h (Head l # (xs @ ys) @ [Head l])" "Head l \<notin> set (xs @ ys)"
    using assms(1) [unfolded ring_def] ring_heads [OF assms(1)] by blast+
  have d: "distinct (xs @ ys)" "Head l \<notin> set (xs @ ys)" using r(1,3) by simp_all
  obtain us p q vs where e: "Head l # xs = us @ [p]" "ys @ [Head l] = q # vs" "ends_ok us p q vs"
      "p = last (Head l # xs)" "q = hd (ys @ [Head l])"
    by (rule ring_ends [OF d])
  have c: "chain h (us @ p # q # vs)" using r(2) ring_chain(1) [OF e(1,2)] by simp
  have "set (us @ p # q # vs) = set (Head l # (xs @ ys) @ [Head l])" using ring_chain(1) [OF e(1,2)] by simp
  then have "Elem i \<notin> set (us @ p # q # vs)" using assms(2) by auto
  with c have "chain (IntrusiveList_InsertAfter p (Elem i) h) (us @ p # Elem i # q # vs)" by (rule insert_chain [OF _ e(3)])
  then show "ring (IntrusiveList_InsertAfter (last (Head l # xs)) (Elem i) h) l (xs @ Elem i # ys)"
    using assms ring_chain(2) [OF e(1,2), of "Elem i"] by (auto simp: ring_def e(4))
  show "nd_next h (last (Head l # xs)) = hd (ys @ [Head l])" using c e(4,5) by (simp add: chain_split)
qed

text \<open>Rings that share no node do not disturb each other.\<close>

lemma ring_frame:
  assumes "ring h l xs" and "\<forall>a \<in> set xs \<union> {Head l}. nd_next h' a = nd_next h a \<and> nd_prev h' a = nd_prev h a"
  shows "ring h' l xs"
proof -
  have "chain h' (Head l # xs @ [Head l]) = chain h (Head l # xs @ [Head l])"
    using assms(2) by (intro chain_cong) (auto dest: in_set_butlastD)
  then show ?thesis using assms(1) by (simp add: ring_def)
qed

lemma neighbours:
  "last (Head l # xs) \<in> set xs \<union> {Head l}" "hd (ys @ [Head l]) \<in> set ys \<union> {Head l}"
  by (auto, cases ys) auto

lemma erase_other_ring:
  assumes "ring h l (xs @ n # ys)" and "ring h k zs" and "k \<noteq> l" and "set zs \<inter> set (xs @ n # ys) = {}"
  shows "ring (IntrusiveList_Erase n h) k zs"
proof (rule ring_frame [OF assms(2)])
  have n: "nd_prev h n = last (Head l # xs)" "nd_next h n = hd (ys @ [Head l])" by (rule ring_erase [OF assms(1)])+
  have hd: "Head k \<notin> set (xs @ n # ys)" "Head l \<notin> set zs" using ring_heads [OF assms(1)] ring_heads [OF assms(2)] by auto
  have d: "last (Head l # xs) \<notin> set zs \<union> {Head k}" "hd (ys @ [Head l]) \<notin> set zs \<union> {Head k}"
    using neighbours(1) [of l xs] neighbours(2) [of ys l] hd assms(3,4) by auto
  have "n \<notin> set xs \<union> {Head l}" using assms(1) ring_heads [OF assms(1), of l] by (auto simp: ring_def)
  then have "last (Head l # xs) \<noteq> n" using neighbours(1) [of l xs] by metis
  then show "\<forall>a \<in> set zs \<union> {Head k}. nd_next (IntrusiveList_Erase n h) a = nd_next h a \<and> nd_prev (IntrusiveList_Erase n h) a = nd_prev h a"
    using d erase_links [of h n] n by (metis fun_upd_other)
qed

lemma insert_other_ring:
  assumes "ring h l (xs @ ys)" and "ring h k zs" and "k \<noteq> l" and "set zs \<inter> set (xs @ ys) = {}"
    and "Elem i \<notin> set (xs @ ys)" and "Elem i \<notin> set zs"
  shows "ring (IntrusiveList_InsertAfter (last (Head l # xs)) (Elem i) h) k zs"
proof (rule ring_frame [OF assms(2)])
  let ?p = "last (Head l # xs)"
  have hd: "Head k \<notin> set (xs @ ys)" "Head l \<notin> set zs" using ring_heads [OF assms(1)] ring_heads [OF assms(2)] by auto
  have d: "?p \<notin> set zs \<union> {Head k}" "hd (ys @ [Head l]) \<notin> set zs \<union> {Head k}"
    using neighbours(1) [of l xs] neighbours(2) [of ys l] hd assms(3,4) by auto
  have "Elem i \<noteq> ?p" using neighbours(1) [of l xs] assms(5) by auto
  then show "\<forall>a \<in> set zs \<union> {Head k}. nd_next (IntrusiveList_InsertAfter ?p (Elem i) h) a = nd_next h a \<and>
      nd_prev (IntrusiveList_InsertAfter ?p (Elem i) h) a = nd_prev h a"
    using d assms(6) insert_links [of "Elem i" ?p h] ring_insert(2) [OF assms(1,5)] by auto
qed

section \<open>The pool of process entries\<close>

definition pool_rings :: "node_links \<Rightarrow> nat list \<Rightarrow> nat list \<Rightarrow> bool" where
  "pool_rings h used free \<longleftrightarrow> ring h Used (map Elem used) \<and> ring h Free (map Elem free) \<and> set used \<inter> set free = {}"

text \<open>A free element goes behind the first one of the free list.\<close>

definition after_first :: "'a \<Rightarrow> 'a list \<Rightarrow> 'a list" where
  "after_first n xs = take 1 xs @ n # drop 1 xs"

lemma ring_last:
  assumes "ring h l xs"
  shows "nd_prev h (Head l) = last (Head l # xs)"
proof -
  have "Head l # xs @ [Head l] = butlast (Head l # xs) @ last (Head l # xs) # [Head l]"
    by (metis append_Cons append_assoc append_Nil append_butlast_last_id list.distinct(2))
  then show ?thesis using assms by (metis chain_split ring_def)
qed

lemma ring_first: "ring h l xs \<Longrightarrow> nd_next h (Head l) = hd (xs @ [Head l])"
  by (cases xs) (simp_all add: ring_def)

lemma pool_new:
  assumes "pool_rings h used (n # free)"
  shows "\<exists>h'. links_new h = Some (Elem n, h') \<and> pool_rings h' (used @ [n]) free"
proof -
  let ?h = "IntrusiveList_Erase (Elem n) h"
  have r: "ring h Used (map Elem used)" "ring h Free ([] @ Elem n # map Elem free)" "set used \<inter> set (n # free) = {}"
    using assms by (simp_all add: pool_rings_def)
  have f: "nd_next h (Head Free) = Elem n" using ring_first [OF r(2)] by simp
  have dj: "set (map Elem used) \<inter> set ([] @ Elem n # map Elem free) = {}" using r(3) by auto
  have e: "ring ?h Free ([] @ map Elem free)" by (rule ring_erase(1) [OF r(2)])
  have u: "ring ?h Used (map Elem used @ [])" using erase_other_ring [OF r(2,1) _ dj] by simp
  have nu: "Elem n \<notin> set (map Elem used @ [])" "Elem n \<notin> set (map Elem free)" using r(2,3) by (auto simp: ring_def)
  have dj1: "set (map Elem free) \<inter> set (map Elem used @ []) = {}" using dj by auto
  have l: "nd_prev ?h (Head Used) = last (Head Used # map Elem used)" using ring_last [OF u] by simp
  let ?h' = "IntrusiveList_InsertAfter (last (Head Used # map Elem used)) (Elem n) ?h"
  have "links_new h = Some (Elem n, ?h')" by (simp add: links_new_def f IntrusiveList_TestEnd_def l Let_def)
  moreover have "ring ?h' Used (map Elem (used @ [n]))" using ring_insert(1) [OF u nu(1)] by simp
  moreover have "ring ?h' Free (map Elem free)"
    by (rule insert_other_ring [OF u e [simplified] _ dj1 nu]) simp
  ultimately show ?thesis using r(2,3) by (auto simp: pool_rings_def ring_def)
qed

lemma pool_delete:
  assumes "pool_rings h (xs @ n # ys) free"
  shows "pool_rings (links_delete (Elem n) h) (xs @ ys) (after_first n free)"
proof -
  let ?h = "IntrusiveList_Erase (Elem n) h" and ?f1 = "map Elem (take 1 free)" and ?f2 = "map Elem (drop 1 free)"
  have r: "ring h Used (map Elem xs @ Elem n # map Elem ys)" "ring h Free (map Elem free)" "set (xs @ n # ys) \<inter> set free = {}"
    using assms by (simp_all add: pool_rings_def)
  have f: "?f1 @ ?f2 = map Elem free" by (simp only: map_append [symmetric] append_take_drop_id)
  have dj: "set (map Elem free) \<inter> set (map Elem xs @ Elem n # map Elem ys) = {}" using r(3) by auto
  have e: "ring ?h Used (map Elem xs @ map Elem ys)" by (rule ring_erase(1) [OF r(1)])
  have u: "ring ?h Free (?f1 @ ?f2)" unfolding f using erase_other_ring [OF r(1,2) _ dj] by simp
  have nf: "Elem n \<notin> set (?f1 @ ?f2)" "Elem n \<notin> set (map Elem xs @ map Elem ys)"
    unfolding f using r(1) dj by (auto simp: ring_def)
  have dj2: "set (map Elem xs @ map Elem ys) \<inter> set (?f1 @ ?f2) = {}" unfolding f using dj by auto
  have l: "nd_next ?h (Head Free) = last (Head Free # ?f1)" using ring_first [OF u] by (cases free) simp_all
  let ?h' = "IntrusiveList_InsertAfter (last (Head Free # ?f1)) (Elem n) ?h"
  have "links_delete (Elem n) h = ?h'" by (simp only: links_delete_def l Let_def)
  moreover have "ring ?h' Free (map Elem (after_first n free))"
    using ring_insert(1) [OF u nf(1)] by (simp add: after_first_def)
  moreover have "ring ?h' Used (map Elem (xs @ ys))"
    using insert_other_ring [OF u e _ dj2 nf] by simp
  moreover have "set (after_first n free) = insert n (set free)"
    by (metis after_first_def append_take_drop_id set_append list.simps(15) Un_insert_right)
  ultimately show ?thesis using r(1,3) by (auto simp: pool_rings_def ring_def)
qed

text \<open>The start: all entries are free, in the order of the buffer.\<close>

lemma create_rings:
  assumes "ring h Used []"
  shows "ring (IntrusiveList_CreateFromBuffer Free num h) Free (map Elem [0..<num]) \<and>
    ring (IntrusiveList_CreateFromBuffer Free num h) Used []"
proof (induction num)
  case 0
  then show ?case using assms by (simp add: IntrusiveList_CreateFromBuffer_def IntrusiveList_Init_def ring_def)
next
  case (Suc num)
  let ?h = "IntrusiveList_CreateFromBuffer Free num h" and ?xs = "map Elem [0..<num]"
  have r: "ring ?h Free (?xs @ [])" "ring ?h Used []" using Suc.IH by simp_all
  have n: "Elem num \<notin> set (?xs @ [])" by auto
  have "IntrusiveList_CreateFromBuffer Free (Suc num) h = IntrusiveList_InsertAfter (nd_prev ?h (Head Free)) (Elem num) ?h"
    by (simp add: IntrusiveList_CreateFromBuffer_def)
  also have "nd_prev ?h (Head Free) = last (Head Free # ?xs)" using ring_last [OF r(1)] by simp
  finally show ?case using ring_insert(1) [OF r(1) n] insert_other_ring [OF r _ _ n] by simp
qed

lemma pool_init: "pool_rings (links_init num h) [] [0..<num]"
proof -
  have "ring (IntrusiveList_Init Used h) Used []" by (simp add: ring_def IntrusiveList_Init_def)
  from create_rings [OF this, of num] show ?thesis by (simp add: pool_rings_def links_init_def)
qed

end
