(* ===== verification/Pm_State.thy ===== *)
theory Pm_State
  imports Pm_List
begin

text \<open>
  State of the process manager \<open>pm\<close>, and the operations on process entries (\<open>process_data.c\<close>) and on
  the pool of extended headers (\<open>exheader_info_heap.c\<close>). Entries are numbered by their place in the
  buffer, the two lists of entries are lists of these numbers (see \<open>Pm_List\<close>). The calls of other
  modules and of the kernel are recorded, and their results may depend on the earlier ones; the
  threads of \<open>pm\<close> run one after the other, and \<open>pv_others\<close> is what the other threads do while one
  sleeps or waits. A panic, a failed assertion or the use of a null pointer ends \<open>pm\<close>, and
  with it the system: \<open>None\<close>.
\<close>

section \<open>Data\<close>

datatype TerminationStatus = TERMSTATUS_RUNNING | TERMSTATUS_NOTIFICATION_SENT | TERMSTATUS_NOTIFICATION_FAILED | TERMSTATUS_TERMINATED

record process_data =
  pr_handle :: Handle
  pr_pid :: u32
  pr_titleId :: u64
  pr_programHandle :: u64
  pr_launchFlags :: u32
  pr_flags :: u8
  pr_variation :: u8
  pr_terminationStatus :: TerminationStatus
  pr_refcount :: u8
  pr_mediaType :: u32

abbreviation PROCESSFLAG_NOTIFY_TERMINATION :: u8 where "PROCESSFLAG_NOTIFY_TERMINATION \<equiv> 1"
abbreviation PROCESSFLAG_KIP :: u8 where "PROCESSFLAG_KIP \<equiv> 2"
abbreviation PROCESSFLAG_DEPENDENCIES_LOADED :: u8 where "PROCESSFLAG_DEPENDENCIES_LOADED \<equiv> 4"
abbreviation PROCESSFLAG_AUTOLOADED :: u8 where "PROCESSFLAG_AUTOLOADED \<equiv> 8"
abbreviation PROCESSFLAG_NOTIFY_TERMINATION_TERMINATED :: u8 where "PROCESSFLAG_NOTIFY_TERMINATION_TERMINATED \<equiv> 16"
abbreviation PROCESSFLAG_NORMAL_APPLICATION :: u8 where "PROCESSFLAG_NORMAL_APPLICATION \<equiv> 32"

definition has_flag :: "u8 \<Rightarrow> process_data \<Rightarrow> bool" where
  "has_flag f p \<longleftrightarrow> pr_flags p AND f \<noteq> 0"

definition set_flag :: "u8 \<Rightarrow> process_data \<Rightarrow> process_data" where
  "set_flag f p = p\<lparr>pr_flags := pr_flags p OR f\<rparr>"

definition clear_flag :: "u8 \<Rightarrow> process_data \<Rightarrow> process_data" where
  "clear_flag f p = p\<lparr>pr_flags := pr_flags p AND NOT f\<rparr>"

definition zero_entry :: process_data where
  "zero_entry = \<lparr>pr_handle = 0, pr_pid = 0, pr_titleId = 0, pr_programHandle = 0, pr_launchFlags = 0, pr_flags = 0,
     pr_variation = 0, pr_terminationStatus = TERMSTATUS_RUNNING, pr_refcount = 0, pr_mediaType = 0\<rparr>"

record FS_ProgramInfo =
  pi_programId :: u64
  pi_mediaType :: u32

text \<open>The fields of an extended header that \<open>pm\<close> uses.\<close>

record storage_info =
  st_fs_access_info :: u64
  st_others :: "nat \<Rightarrow> u32"

record core_info =
  ci_core_version :: u32
  ci_affinity_mask :: u8
  ci_ideal_processor :: u8
  ci_priority :: u32
  ci_o3ds_system_mode :: u32
  ci_n3ds_system_mode :: u32

record exheader =
  xe_title_id :: u64
  xe_core_info :: core_info
  xe_storage_info :: storage_info
  xe_service_access :: "u64 list"
  xe_reslimit_category :: nat
  xe_reslimit0 :: u16
  xe_dependencies :: "u64 list"
  xe_stack_size :: u32
  xe_codeset_flags :: u64

datatype ResourceLimitType =
    RESLIMIT_PRIORITY | RESLIMIT_COMMIT | RESLIMIT_THREAD | RESLIMIT_EVENT | RESLIMIT_MUTEX | RESLIMIT_SEMAPHORE
  | RESLIMIT_TIMER | RESLIMIT_SHAREDMEMORY | RESLIMIT_ADDRESSARBITER | RESLIMIT_CPUTIME

datatype pm_call =
    PublishToProcess u32 Handle
  | PublishToSubscriber u32
  | SvcTerminateProcess Handle
  | SvcCloseHandle Handle
  | SvcOpenProcess u32
  | SvcGetProcessId Handle
  | SvcRun Handle u32 u32
  | SvcDebugActiveProcess u32
  | SvcSetProcessResourceLimits Handle Handle
  | SvcSetProcessAffinityMask Handle u8
  | SvcSetProcessIdealProcessor Handle u8
  | SvcSignalEvent Handle
  | SvcClearEvent Handle
  | SvcCreateEvent
  | SvcWaitSynchronization Handle u64
  | SvcWaitSynchronizationN "Handle list"
  | SvcSleepThread u64
  | SvcKernelSetState u32 "u64 list"
  | SvcCreateResourceLimit
  | SvcSetResourceLimitValues Handle "(ResourceLimitType \<times> u64) list"
  | SvcGetResourceLimitLimitValues Handle ResourceLimitType
  | SvcGetSystemTick
  | LoaderLoadProcess u64
  | LoaderRegisterProgram u64 u32 u64 u32
  | LoaderUnregisterProgram u64
  | LoaderGetProgramInfo u64
  | FsregRegister u32 u64 FS_ProgramInfo storage_info
  | FsregUnregister u32
  | SrvpmRegisterProcess u32 nat "u64 list"
  | SrvpmUnregisterProcess u32
  | FsInit
  | FsOpenSdmc

datatype pm_task =
    LaunchTitleAsync FS_ProgramInfo FS_ProgramInfo u32
  | TerminateProcessOrTitleAsync u64 u64 bool
  | PrepareForRebootAsync u32 u64
  | ChainloadHomebrewDirtyAsync
  | LaunchFirmAsync u32

text \<open>The pool of extended headers: the addresses are numbers of headers from the start of the
  buffer, and the first word of a free header is a pointer.\<close>

record header_heap =
  g_headNode :: "nat option"
  hh_next :: "nat \<Rightarrow> nat option"

record pm_state =
  pm_procs :: "nat \<Rightarrow> process_data"
  pm_used :: "nat list"
  pm_unused :: "nat list"
  pm_lock :: int
  runningApplicationData :: "nat option"
  debugData :: "nat option"
  pm_reslimits :: "Handle list"
  newProcessEvent :: Handle
  allNotifiedTerminationEvent :: Handle
  waitingForTermination :: bool
  preparingForReboot :: bool
  maxAppCpuTime :: u8
  cpuTimeBase :: "8 word"
  g_debugNextApplication :: bool
  g_currentAppMemLimit :: u32
  g_defaultAppMemLimit :: u32
  pm_hbldr_3dsx_tid :: u64
  pm_selected_hbldr_3dsx_tid :: u64
  firmlaunchParameters :: "u8 list"
  pm_memory :: "u32 \<Rightarrow> u8"
  pm_headers :: header_heap
  pm_tasks :: "pm_task list"
  pm_calls :: "pm_call list"

datatype launch_flag =
    PMLAUNCHFLAG_NORMAL_APPLICATION | PMLAUNCHFLAG_LOAD_DEPENDENCIES | PMLAUNCHFLAG_NOTIFY_TERMINATION
  | PMLAUNCHFLAG_QUEUE_DEBUG_APPLICATION | PMLAUNCHFLAG_FORCE_USE_O3DS_APP_MEM
  | PMLAUNCHFLAG_FORCE_USE_O3DS_MAX_APP_MEM | PMLAUNCHFLAG_USE_UPDATE_TITLE

text \<open>The answers of the other modules and of the kernel, and the constants of libctru.\<close>

record pm_env =
  pv_result :: "pm_call list \<Rightarrow> pm_call \<Rightarrow> Result"
  pv_value :: "pm_call list \<Rightarrow> pm_call \<Rightarrow> u64"
  pv_exheader :: "pm_call list \<Rightarrow> u64 \<Rightarrow> exheader"
  pv_others :: "pm_state \<Rightarrow> pm_state"
  pv_R_FAILED :: "Result \<Rightarrow> bool"
  pv_not_found :: "Result \<Rightarrow> bool"
  pv_timeout :: "Result \<Rightarrow> bool"
  pv_no_app :: Result
  pv_flag :: "launch_flag \<Rightarrow> u32"
  pv_system_info :: "nat \<Rightarrow> nat \<Rightarrow> Result \<times> u64"
  kernel_syscore_ver :: u32
  app_memtype :: u32
  memregion_sz :: "nat \<Rightarrow> u32"
  ns_tid :: u64
  SYSMODE_O3DS_PROD :: u32
  SYSMODE_DEV1 :: u32
  SYSMODE_DEV2 :: u32
  RESLIMIT_CATEGORY_OTHER :: nat
  MEDIATYPE_NAND :: u32
  SYSCLOCK_ARM11 :: u64
  IPC_MakeHeader_pm :: "u32 \<Rightarrow> u32 \<Rightarrow> u32 \<Rightarrow> u32"
  IPC_Desc_Buffer_R :: "u32 \<Rightarrow> u32"
  IPC_Desc_Buffer_W :: "u32 \<Rightarrow> u32"
  IPC_Desc_MoveHandles_pm :: "u32 \<Rightarrow> u32"
  pv_core_words :: "core_info option \<Rightarrow> u32 \<times> u32"
  pv_uninitialised :: u32
  pv_limit_type :: "ResourceLimitType \<Rightarrow> u32"

definition IS_N3DS :: "pm_env \<Rightarrow> bool" where
  "IS_N3DS E \<longleftrightarrow> app_memtype E \<ge> 6"

abbreviation N3DS_TID_MASK :: u64 where "N3DS_TID_MASK \<equiv> 0xF0000000"
abbreviation N3DS_TID_BIT :: u64 where "N3DS_TID_BIT \<equiv> 0x20000000"

definition numKips :: "pm_env \<Rightarrow> int" where
  "numKips E = sint (snd (pv_system_info E 26 0))"

definition hasKExt :: "pm_env \<Rightarrow> bool" where
  "hasKExt E \<longleftrightarrow> fst (pv_system_info E 0x20000 0) = 1"

text \<open>\<open>config\<close> is zero unless \<open>readOmiibaConfig\<close> has found the kernel extension.\<close>

definition pm_CONFIG :: "nat \<Rightarrow> pm_env \<Rightarrow> bool" where
  "pm_CONFIG a E \<longleftrightarrow> hasKExt E \<and> bit (snd (pv_system_info E 0x10000 3)) a \<and> a < 32"

definition getStolenSystemMemRegionSize :: "pm_env \<Rightarrow> u32" where
  "getStolenSystemMemRegionSize E = ucast (snd (pv_system_info E 0x10000 0x301))"

definition isTitleLaunchPrevented :: "pm_env \<Rightarrow> u64 \<Rightarrow> bool" where
  "isTitleLaunchPrevented E titleId \<longleftrightarrow>
     numKips E \<ge> 6 \<and> titleId AND NOT (N3DS_TID_MASK OR 1) = 0x0004003000008A02"

section \<open>Calls\<close>

definition svc :: "pm_env \<Rightarrow> pm_call \<Rightarrow> pm_state \<Rightarrow> Result \<times> pm_state" where
  "svc E c s = (pv_result E (pm_calls s) c, s\<lparr>pm_calls := pm_calls s @ [c]\<rparr>)"

definition svc_out :: "pm_env \<Rightarrow> pm_call \<Rightarrow> pm_state \<Rightarrow> Result \<times> u64 \<times> pm_state" where
  "svc_out E c s = (pv_result E (pm_calls s) c, pv_value E (pm_calls s) c, s\<lparr>pm_calls := pm_calls s @ [c]\<rparr>)"

definition pm_assertSuccess :: "pm_env \<Rightarrow> Result \<times> 'a \<Rightarrow> (Result \<times> 'a) option" where
  "pm_assertSuccess E r = (if pv_R_FAILED E (fst r) then None else Some r)"

definition notifySubscribers :: "pm_env \<Rightarrow> u32 \<Rightarrow> pm_state \<Rightarrow> (Result \<times> pm_state) option" where
  "notifySubscribers E n s =
     (let r = svc E (PublishToSubscriber n) s in if fst r = 0xD8606408 then None else Some r)"

definition ProcessList_Lock :: "pm_state \<Rightarrow> pm_state" where
  "ProcessList_Lock s = s\<lparr>pm_lock := pm_lock s + 1\<rparr>"

definition ProcessList_Unlock :: "pm_state \<Rightarrow> pm_state" where
  "ProcessList_Unlock s = s\<lparr>pm_lock := pm_lock s - 1\<rparr>"

text \<open>\<open>TaskRunner_RunTask\<close> waits until the runner is ready, so the tasks run in their order.\<close>

definition TaskRunner_RunTask :: "pm_task \<Rightarrow> pm_state \<Rightarrow> pm_state" where
  "TaskRunner_RunTask t s = s\<lparr>pm_tasks := pm_tasks s @ [t]\<rparr>"

section \<open>Extended headers\<close>

definition ExHeaderInfoHeap_Init :: "nat \<Rightarrow> header_heap \<Rightarrow> header_heap" where
  "ExHeaderInfoHeap_Init num h =
     h\<lparr>g_headNode := Some 0, hh_next := (\<lambda>i. if i < num then Some (i + 1) else hh_next h i)\<rparr>"

text \<open>The header is cleared, and with it the pointer in its first word.\<close>

definition ExHeaderInfoHeap_New :: "header_heap \<Rightarrow> nat option \<times> header_heap" where
  "ExHeaderInfoHeap_New h =
     (case g_headNode h of
        None \<Rightarrow> (None, h)
      | Some n \<Rightarrow> (Some n, h\<lparr>g_headNode := hh_next h n, hh_next := (hh_next h)(n := None)\<rparr>))"

definition ExHeaderInfoHeap_Delete :: "nat \<Rightarrow> header_heap \<Rightarrow> header_heap" where
  "ExHeaderInfoHeap_Delete n h = h\<lparr>hh_next := (hh_next h)(n := g_headNode h), g_headNode := Some n\<rparr>"

definition new_header :: "pm_state \<Rightarrow> (nat \<times> pm_state) option" where
  "new_header s =
     (case ExHeaderInfoHeap_New (pm_headers s) of
        (None, h) \<Rightarrow> None
      | (Some n, h) \<Rightarrow> Some (n, s\<lparr>pm_headers := h\<rparr>))"

definition delete_header :: "nat \<Rightarrow> pm_state \<Rightarrow> pm_state" where
  "delete_header n s = s\<lparr>pm_headers := ExHeaderInfoHeap_Delete n (pm_headers s)\<rparr>"

section \<open>Process entries\<close>

definition upd_proc :: "nat \<Rightarrow> (process_data \<Rightarrow> process_data) \<Rightarrow> pm_state \<Rightarrow> pm_state" where
  "upd_proc n f s = s\<lparr>pm_procs := (pm_procs s)(n := f (pm_procs s n))\<rparr>"

definition ProcessList_New :: "pm_state \<Rightarrow> (nat \<times> pm_state) option" where
  "ProcessList_New s =
     (case pm_unused s of
        [] \<Rightarrow> None
      | n # ns \<Rightarrow> Some (n, s\<lparr>pm_unused := ns, pm_used := pm_used s @ [n], pm_procs := (pm_procs s)(n := zero_entry)\<rparr>))"

definition ProcessList_Delete :: "nat \<Rightarrow> pm_state \<Rightarrow> pm_state" where
  "ProcessList_Delete n s = s\<lparr>pm_used := remove1 n (pm_used s), pm_unused := after_first n (pm_unused s)\<rparr>"

definition ProcessList_FindProcessById :: "u32 \<Rightarrow> pm_state \<Rightarrow> nat option" where
  "ProcessList_FindProcessById pid s = find (\<lambda>n. pr_pid (pm_procs s n) = pid) (pm_used s)"

definition ProcessList_FindProcessByHandle :: "Handle \<Rightarrow> pm_state \<Rightarrow> nat option" where
  "ProcessList_FindProcessByHandle h s = find (\<lambda>n. pr_handle (pm_procs s n) = h) (pm_used s)"

definition same_title :: "u64 \<Rightarrow> u64 \<Rightarrow> bool" where
  "same_title a b \<longleftrightarrow> a AND NOT 0xFF = b AND NOT 0xFF"

definition ProcessList_FindProcessByTitleId :: "u64 \<Rightarrow> pm_state \<Rightarrow> nat option" where
  "ProcessList_FindProcessByTitleId tid s = find (\<lambda>n. same_title (pr_titleId (pm_procs s n)) tid) (pm_used s)"

definition ProcessData_Notify :: "pm_env \<Rightarrow> nat \<Rightarrow> u32 \<Rightarrow> pm_state \<Rightarrow> (Result \<times> pm_state) option" where
  "ProcessData_Notify E n notificationId s =
     (let r = svc E (PublishToProcess notificationId (pr_handle (pm_procs s n))) s in
      if fst r = 0xD8606408 then None else Some r)"

definition ProcessData_SendTerminationNotification :: "pm_env \<Rightarrow> nat \<Rightarrow> pm_state \<Rightarrow> (Result \<times> pm_state) option" where
  "ProcessData_SendTerminationNotification E n s = do {
     (res, s) \<leftarrow> ProcessData_Notify E n 0x100 s;
     let st = (if pv_R_FAILED E res then TERMSTATUS_NOTIFICATION_FAILED else TERMSTATUS_NOTIFICATION_SENT);
     Some (res, upd_proc n (\<lambda>p. p\<lparr>pr_terminationStatus := st\<rparr>) s)
   }"

text \<open>The sum of the 8-bit count and the amount is one of 32 bits, and wraps around.\<close>

definition ProcessData_Incref :: "nat \<Rightarrow> u32 \<Rightarrow> pm_state \<Rightarrow> pm_state option" where
  "ProcessData_Incref n amount s =
     (let p = pm_procs s n in
      if has_flag PROCESSFLAG_AUTOLOADED p then
        if ucast (pr_refcount p) + amount > 0xFF then None
        else Some (upd_proc n (\<lambda>p. p\<lparr>pr_refcount := pr_refcount p + ucast amount\<rparr>) s)
      else Some s)"

text \<open>A loop over the entries in use; its body does not change the list.\<close>

fun each :: "('b \<Rightarrow> 'a \<Rightarrow> 'a option) \<Rightarrow> 'b list \<Rightarrow> 'a \<Rightarrow> 'a option" where
  "each f [] x = Some x"
| "each f (n # ns) x = (case f n x of None \<Rightarrow> None | Some x \<Rightarrow> each f ns x)"

end
