(* ===== verification/Pm_Info.thy ===== *)
theory Pm_Info
  imports Pm_State
begin

text \<open>
  Titles, their dependencies and the counts of their users (\<open>info.c\<close>). A list of dependencies
  has for every title the process that runs it, and the number of users still to be counted
  when there is none yet; the three arrays of 48 entries of the code are one list here.
\<close>

section \<open>Registration\<close>

definition registerProgram :: "pm_env \<Rightarrow> FS_ProgramInfo \<Rightarrow> FS_ProgramInfo \<Rightarrow> pm_state \<Rightarrow> Result \<times> u64 \<times> pm_state" where
  "registerProgram E programInfo programInfoUpdate s =
     (let reg = (\<lambda>t tu. svc_out E (LoaderRegisterProgram t (pi_mediaType programInfo) tu (pi_mediaType programInfoUpdate)));
          t = pi_programId programInfo; tu = pi_programId programInfoUpdate in
      if IS_N3DS E then
        if drop_bit 48 t = 0xFFFF then reg t tu s
        else
          let t = (t AND NOT N3DS_TID_MASK) OR N3DS_TID_BIT; tu = (tu AND NOT N3DS_TID_MASK) OR N3DS_TID_BIT in
          case reg t tu s of
            (res, h, s) \<Rightarrow>
              if pv_R_FAILED E res then reg (t AND NOT N3DS_TID_MASK) (tu AND NOT N3DS_TID_MASK) s else (res, h, s)
      else reg t tu s)"

text \<open>\<open>LOADER_GetProgramInfo\<close> fills the header if it succeeds.\<close>

definition getProgramInfo :: "pm_env \<Rightarrow> u64 \<Rightarrow> pm_state \<Rightarrow> Result \<times> exheader \<times> pm_state" where
  "getProgramInfo E programHandle s =
     (case svc E (LoaderGetProgramInfo programHandle) s of (res, s') \<Rightarrow> (res, pv_exheader E (pm_calls s) programHandle, s'))"

section \<open>Dependencies\<close>

definition listDependencies :: "pm_env \<Rightarrow> exheader \<Rightarrow> u64 list" where
  "listDependencies E xh =
     map (\<lambda>t. t AND NOT N3DS_TID_MASK)
       (filter (\<lambda>t. IS_N3DS E \<or> t AND N3DS_TID_MASK = 0) (takeWhile (\<lambda>t. t \<noteq> 0) (take 48 (xe_dependencies xh))))"

text \<open>The number of dependencies is left at zero when the header cannot be read.\<close>

definition getAndListDependencies :: "pm_env \<Rightarrow> u64 \<Rightarrow> pm_state \<Rightarrow> Result \<times> u64 list \<times> pm_state" where
  "getAndListDependencies E programHandle s =
     (case getProgramInfo E programHandle s of
        (res, xh, s) \<Rightarrow> if pv_R_FAILED E res then (res, [], s) else (0, listDependencies E xh, s))"

record dependency =
  dp_id :: u64
  dp_proc :: "nat option"
  dp_rem :: u32

definition dep_index :: "u64 \<Rightarrow> dependency list \<Rightarrow> nat" where
  "dep_index t ds = length (takeWhile (\<lambda>d. t \<noteq> dp_id d) ds)"

definition merge_dep :: "pm_state \<Rightarrow> u64 \<Rightarrow> dependency list \<times> u32 list \<Rightarrow> (dependency list \<times> u32 list) option" where
  "merge_dep s t x =
     (case x of (ds, newrefcounts) \<Rightarrow>
        let j = dep_index t ds in
        if j \<ge> length ds then
          if length ds \<ge> 48 then None
          else Some (ds @ [\<lparr>dp_id = t, dp_proc = ProcessList_FindProcessByTitleId t s, dp_rem = 0\<rparr>], newrefcounts @ [1])
        else Some (ds, newrefcounts[j := newrefcounts ! j + 1]))"

definition apply_refcount :: "u32 list \<Rightarrow> nat \<Rightarrow> dependency list \<times> pm_state \<Rightarrow> (dependency list \<times> pm_state) option" where
  "apply_refcount newrefcounts i x =
     (case x of (ds, s) \<Rightarrow>
        case dp_proc (ds ! i) of
          Some n \<Rightarrow> (case ProcessData_Incref n (newrefcounts ! i) s of None \<Rightarrow> None | Some s \<Rightarrow> Some (ds, s))
        | None \<Rightarrow> Some (ds[i := (ds ! i)\<lparr>dp_rem := dp_rem (ds ! i) + newrefcounts ! i\<rparr>], s))"

definition listMergeUniqueDependencies :: "pm_env \<Rightarrow> dependency list \<Rightarrow> exheader \<Rightarrow> pm_state \<Rightarrow> (dependency list \<times> pm_state) option" where
  "listMergeUniqueDependencies E ds xh s = do {
     let deps = listDependencies E xh;
     let s = ProcessList_Lock s;
     (ds, newrefcounts) \<leftarrow> each (merge_dep s) deps (ds, replicate (length ds) 0);
     (ds, s) \<leftarrow> each (apply_refcount newrefcounts) [0..<length ds] (ds, s);
     Some (ds, ProcessList_Unlock s)
   }"

section \<open>Queries\<close>

definition GetTitleExHeaderFlags :: "pm_env \<Rightarrow> FS_ProgramInfo \<Rightarrow> pm_state \<Rightarrow> (Result \<times> (core_info \<times> u64) option \<times> pm_state) option" where
  "GetTitleExHeaderFlags E programInfo s =
     (if preparingForReboot s then Some (0xC8A05801, None, s)
      else do {
        (x, s) \<leftarrow> new_header s;
        let (res, programHandle, s) = registerProgram E programInfo programInfo s;
        if pv_R_FAILED E res then Some (res, None, delete_header x s)
        else
          let (res, xh, s) = getProgramInfo E programHandle s;
              out = (if pv_R_FAILED E res then None else Some (xe_core_info xh, xe_codeset_flags xh));
              s = snd (svc E (LoaderUnregisterProgram programHandle) s)
          in Some (res, out, delete_header x s)
      })"

definition GetCurrentAppInfo :: "pm_env \<Rightarrow> pm_state \<Rightarrow> Result \<times> FS_ProgramInfo \<times> u32 \<times> u32 option \<times> pm_state" where
  "GetCurrentAppInfo E s =
     (let s = ProcessList_Lock s in
      case runningApplicationData s of
        Some n \<Rightarrow>
          let app = pm_procs s n in
          (0, \<lparr>pi_programId = pr_titleId app, pi_mediaType = pr_mediaType app\<rparr>, pr_pid app, Some (pr_launchFlags app), ProcessList_Unlock s)
      | None \<Rightarrow> (pv_no_app E, \<lparr>pi_programId = 0, pi_mediaType = 0\<rparr>, 0, None, ProcessList_Unlock s))"

end
