(* ===== verification/Pm_Reslimit.thy ===== *)
theory Pm_Reslimit
  imports Pm_State
begin

text \<open>
  The resource limits of \<open>pm\<close> (\<open>reslimit.c\<close>): their values, which depend on the sizes of the memory
  regions, the limit of the memory of the application, and the processor time the
  application gets on the second core.
\<close>

section \<open>Values\<close>

definition g_reslimitInitOrder :: "ResourceLimitType list" where
  "g_reslimitInitOrder =
     [RESLIMIT_COMMIT, RESLIMIT_PRIORITY, RESLIMIT_THREAD, RESLIMIT_EVENT, RESLIMIT_MUTEX, RESLIMIT_SEMAPHORE,
      RESLIMIT_TIMER, RESLIMIT_SHAREDMEMORY, RESLIMIT_ADDRESSARBITER, RESLIMIT_CPUTIME]"

text \<open>In order: application, system applet, library applet, other.\<close>

definition g_o3dsReslimitValues :: "u64 list list" where
  "g_o3dsReslimitValues =
    [[0x4000000, 0x18, 32, 32, 32, 8, 8, 16, 2, 0],
     [0x2606000, 4, 14, 8, 8, 4, 4, 8, 3, 10000],
     [0x0602000, 4, 14, 8, 8, 4, 4, 8, 1, 10000],
     [0x1682000, 4, 202, 248, 35, 64, 43, 30, 43, 1000]]"

definition g_n3dsReslimitValues :: "u64 list list" where
  "g_n3dsReslimitValues =
    [[0x7C00000, 0x18, 32, 32, 32, 8, 8, 16, 2, 0],
     [0x5E06000, 4, 29, 11, 8, 4, 4, 8, 3, 10000],
     [0x0602000, 4, 14, 8, 8, 4, 4, 8, 1, 10000],
     [0x2182000, 4, 225, 264, 37, 67, 44, 31, 45, 1000]]"

definition g_startCpuTimeOverrides :: "(u32 \<times> u32) list" where
  "g_startCpuTimeOverrides =
    [(0x205, 10000), (0x215, 10000), (0x225, 10000), (0x304, 10000), (0x32E, 10000), (0x334, 30), (0x335, 30), (0x336, 30),
     (0x348, 10000), (0x349, 10000), (0x368, 10000), (0x370, 10000), (0x389, 10000), (0x490, 10000), (0x491, 10000), (0x562, 10000)]"

text \<open>The first of the values of a category, the memory it may commit.\<close>

definition set_commit :: "nat \<Rightarrow> u32 \<Rightarrow> u64 list list \<Rightarrow> u64 list list" where
  "set_commit i v values = values[i := (values ! i)[0 := ucast v]]"

definition fixupReslimitValues :: "pm_env \<Rightarrow> pm_state \<Rightarrow> u64 list list \<times> pm_state" where
  "fixupReslimitValues E s =
     (let appmemalloc = memregion_sz E 0;
          sysmemalloc = memregion_sz E 1 + (if hasKExt E then getStolenSystemMemRegionSize E else 0);
          values = (if \<not> IS_N3DS E then g_o3dsReslimitValues else g_n3dsReslimitValues);
          minAppletMemAmount = 0x1200000;
          defaultMemAmount = (if \<not> IS_N3DS E then 0x2C00000 else 0x6400000);
          otherMinOvercommitAmount = (if \<not> IS_N3DS E then 0x280000 else 0x180000);
          baseRegionSize = (if \<not> IS_N3DS E then 0x1400000 else 0x2000000);
          values =
            (if sysmemalloc < minAppletMemAmount then
               set_commit 3 (baseRegionSize + otherMinOvercommitAmount) (set_commit 2 0
                 (set_commit 1 (sysmemalloc - minAppletMemAmount div 3) values))
             else
               let excess = (if sysmemalloc < defaultMemAmount then 0 else sysmemalloc - defaultMemAmount)
               in set_commit 3 (baseRegionSize + (otherMinOvercommitAmount + excess div 4))
                    (set_commit 2 (1 * excess div 4 + minAppletMemAmount div 3)
                      (set_commit 1 (3 * excess div 4 + sysmemalloc - minAppletMemAmount div 3) values)))
      in (set_commit 0 appmemalloc values, s\<lparr>g_defaultAppMemLimit := appmemalloc\<rparr>))"

fun create_reslimits :: "pm_env \<Rightarrow> u64 list list \<Rightarrow> nat list \<Rightarrow> pm_state \<Rightarrow> Result \<times> pm_state" where
  "create_reslimits E values [] s = (0, s)"
| "create_reslimits E values (i # is) s =
     (case svc_out E SvcCreateResourceLimit s of
        (res, h, s) \<Rightarrow>
          if pv_R_FAILED E res then (res, s)
          else
            let s = s\<lparr>pm_reslimits := (pm_reslimits s)[i := ucast h]\<rparr>
            in case svc E (SvcSetResourceLimitValues (pm_reslimits s ! i) (zip g_reslimitInitOrder (values ! i))) s of
                 (res, s) \<Rightarrow> if pv_R_FAILED E res then (res, s) else create_reslimits E values is s)"

definition initializeReslimits :: "pm_env \<Rightarrow> pm_state \<Rightarrow> Result \<times> pm_state" where
  "initializeReslimits E s =
     (case fixupReslimitValues E s of (values, s) \<Rightarrow> create_reslimits E values [0..<4] s)"

section \<open>The application\<close>

definition setAppMemLimit :: "pm_env \<Rightarrow> u32 \<Rightarrow> pm_state \<Rightarrow> Result \<times> pm_state" where
  "setAppMemLimit E limit s =
     (if g_currentAppMemLimit s = g_defaultAppMemLimit s then (0, s)
      else svc E (SvcSetResourceLimitValues (pm_reslimits s ! 0)
             [(RESLIMIT_COMMIT, ucast limit OR push_bit 32 (ucast limit))]) s)"

definition resetAppMemLimit :: "pm_env \<Rightarrow> pm_state \<Rightarrow> Result \<times> pm_state" where
  "resetAppMemLimit E s = setAppMemLimit E (g_defaultAppMemLimit s) s"

abbreviation REDIRECTAPPTHREADS :: nat where "REDIRECTAPPTHREADS \<equiv> 3"

definition setAppCpuTimeLimit :: "pm_env \<Rightarrow> u64 \<Rightarrow> pm_state \<Rightarrow> Result \<times> pm_state" where
  "setAppCpuTimeLimit E limit s =
     (if IS_N3DS E \<and> pm_CONFIG REDIRECTAPPTHREADS E \<and>
         \<not> pv_R_FAILED E (fst (pv_system_info E 0x10000 0x181)) \<and> snd (pv_system_info E 0x10000 0x181) = 0
      then (0, s)
      else svc E (SvcSetResourceLimitValues (pm_reslimits s ! 0) [(RESLIMIT_CPUTIME, limit)]) s)"

definition getAppCpuTimeLimit :: "pm_env \<Rightarrow> pm_state \<Rightarrow> Result \<times> u64 \<times> pm_state" where
  "getAppCpuTimeLimit E s = svc_out E (SvcGetResourceLimitLimitValues (pm_reslimits s ! 0) RESLIMIT_CPUTIME) s"

abbreviation CPUTIME_MULTI_MASK :: u8 where "CPUTIME_MULTI_MASK \<equiv> 0x80"
abbreviation CPUTIME_SINGLE_MASK :: u8 where "CPUTIME_SINGLE_MASK \<equiv> 0"

text \<open>The start values for titles without a descriptor: new \<open>cpuTime\<close> and current value. The loop
  that is to find the entry of the title counts in a variable of its own, and \<open>i\<close> keeps its value.\<close>

definition cputime_override :: "u32 \<Rightarrow> u8 \<times> u32" where
  "cputime_override titleUid =
     (let numOverrides = length g_startCpuTimeOverrides; cpuTime = CPUTIME_SINGLE_MASK OR 80 in
      if titleUid \<ge> fst (g_startCpuTimeOverrides ! 0) \<and> titleUid \<le> fst (g_startCpuTimeOverrides ! (numOverrides - 1)) then
        let i = 0; v = snd (g_startCpuTimeOverrides ! i) in
        if i < numOverrides then
          if v > 100 \<and> v < 200 then (CPUTIME_MULTI_MASK OR 80, v - 100)
          else (CPUTIME_SINGLE_MASK OR 80, v)
        else (cpuTime, 0)
      else (cpuTime, 0))"

definition setAppCpuTimeLimitAndSchedModeFromDescriptor :: "pm_env \<Rightarrow> u64 \<Rightarrow> u16 \<Rightarrow> pm_state \<Rightarrow> pm_state option" where
  "setAppCpuTimeLimitAndSchedModeFromDescriptor E titleId descriptor s = do {
     let cpuTime = (ucast descriptor :: u8);
     (res, s) \<leftarrow> pm_assertSuccess E (setAppCpuTimeLimit E 0 s);
     let s = s\<lparr>cpuTimeBase := 0\<rparr>;
     let (cpuTime, currentValueToSet) =
       (if cpuTime = 0 then cputime_override (drop_bit 8 (ucast titleId) AND 0xFFFFF) else (cpuTime, scast (cpuTimeBase s)));
     (res, s) \<leftarrow> pm_assertSuccess E (svc E (SvcKernelSetState 6 [3, if cpuTime AND CPUTIME_MULTI_MASK \<noteq> 0 then 0 else 1]) s);
     let s = s\<lparr>maxAppCpuTime := cpuTime AND 0x7F\<rparr>;
     if currentValueToSet \<noteq> 0 then do {
       (res, s) \<leftarrow> pm_assertSuccess E (setAppCpuTimeLimit E (ucast currentValueToSet) s);
       Some s
     }
     else Some s
   }"

definition SetAppResourceLimit :: "pm_env \<Rightarrow> u32 \<Rightarrow> u32 \<Rightarrow> u32 \<Rightarrow> u64 \<Rightarrow> pm_state \<Rightarrow> Result \<times> pm_state" where
  "SetAppResourceLimit E mbz category value mbz2 s =
     (if mbz \<noteq> 0 \<or> mbz2 \<noteq> 0 \<or> category \<noteq> pv_limit_type E RESLIMIT_CPUTIME \<or> value > ucast (maxAppCpuTime s)
      then (0xD8E05BF4, s)
      else setAppCpuTimeLimit E (ucast (value + (if value < 5 then 0 else scast (cpuTimeBase s)))) s)"

definition GetAppResourceLimit :: "pm_env \<Rightarrow> u32 \<Rightarrow> u32 \<Rightarrow> u32 \<Rightarrow> u64 \<Rightarrow> pm_state \<Rightarrow> Result \<times> u64 option \<times> pm_state" where
  "GetAppResourceLimit E mbz category mbz2 mbz3 s =
     (if mbz \<noteq> 0 \<or> mbz2 \<noteq> 0 \<or> mbz3 \<noteq> 0 \<or> category \<noteq> pv_limit_type E RESLIMIT_CPUTIME then (0xD8E05BF4, None, s)
      else
        case getAppCpuTimeLimit E s of
          (res, v, s) \<Rightarrow>
            if \<not> pv_R_FAILED E res \<and> sint v \<ge> 5 then
              (res, Some (if sint v \<ge> sint (cpuTimeBase s) then v - scast (cpuTimeBase s) else 0), s)
            else (res, Some v, s))"

end
