(* ===== verification/Pm_Terminate.thy ===== *)
theory Pm_Terminate
  imports Pm_Info Pm_Reslimit "HOL-Library.Signed_Division"
begin

text \<open>
  The end of processes: the requests to end one, a title, the application or all processes
  (\<open>termination.c\<close>), the monitor that removes the entry of a process that has ended
  (\<open>process_monitor.c\<close>), and the removal and registration of entries in \<open>manager.c\<close>.
\<close>

section \<open>Dependencies\<close>

definition release_dependency :: "pm_env \<Rightarrow> u64 list \<Rightarrow> nat \<Rightarrow> Result \<times> pm_state \<Rightarrow> (Result \<times> pm_state) option" where
  "release_dependency E dependencies n x =
     (case x of (res, s) \<Rightarrow>
        let p = pm_procs s n in
        if pr_terminationStatus p \<noteq> TERMSTATUS_RUNNING \<or> \<not> has_flag PROCESSFLAG_AUTOLOADED p then Some (res, s)
        else if pr_titleId p \<notin> set dependencies then Some (res, s)
        else
          let s = upd_proc n (\<lambda>p. p\<lparr>pr_refcount := pr_refcount p - 1\<rparr>) s in
          if pr_refcount (pm_procs s n) > 0 then Some (res, s)
          else do {
            (res, s) \<leftarrow> ProcessData_SendTerminationNotification E n s;
            let res = (if pv_not_found E res then 0 else res);
            if pv_R_FAILED E res then do {
              (r, s) \<leftarrow> pm_assertSuccess E (svc E (SvcTerminateProcess (pr_handle (pm_procs s n))) s);
              Some (res, s)
            }
            else Some (res, s)
          })"

definition terminateUnusedDependencies :: "pm_env \<Rightarrow> u64 list \<Rightarrow> pm_state \<Rightarrow> (Result \<times> pm_state) option" where
  "terminateUnusedDependencies E dependencies s = do {
     let s = ProcessList_Lock s;
     (res, s) \<leftarrow> each (release_dependency E dependencies) (pm_used s) (0, s);
     Some (res, ProcessList_Unlock s)
   }"

definition listAndTerminateDependencies :: "pm_env \<Rightarrow> u64 \<Rightarrow> pm_state \<Rightarrow> (Result \<times> pm_state) option" where
  "listAndTerminateDependencies E programHandle s =
     (case getAndListDependencies E programHandle s of
        (res, deps, s) \<Rightarrow> if pv_R_FAILED E res then Some (res, s) else terminateUnusedDependencies E deps s)"

section \<open>One process\<close>

definition terminateProcessImpl :: "pm_env \<Rightarrow> nat \<Rightarrow> pm_state \<Rightarrow> (Result \<times> pm_state) option" where
  "terminateProcessImpl E n s =
     (if has_flag PROCESSFLAG_DEPENDENCIES_LOADED (pm_procs s n) then
        case getAndListDependencies E (pr_programHandle (pm_procs s n)) s of
          (res, deps, s) \<Rightarrow>
            if pv_R_FAILED E res then Some (res, s)
            else do {
              let s = upd_proc n (clear_flag PROCESSFLAG_DEPENDENCIES_LOADED) s;
              (r, s) \<leftarrow> ProcessData_SendTerminationNotification E n s;
              terminateUnusedDependencies E deps s
            }
      else do {
        (r, s) \<leftarrow> ProcessData_SendTerminationNotification E n s;
        Some (0, s)
      })"

definition terminateProcessByIdChecked :: "pm_env \<Rightarrow> u32 \<Rightarrow> pm_state \<Rightarrow> pm_state option" where
  "terminateProcessByIdChecked E pid s =
     (case ProcessList_FindProcessById pid s of
        Some n \<Rightarrow> do { (r, s) \<leftarrow> ProcessData_SendTerminationNotification E n s; Some s }
      | None \<Rightarrow> None)"

section \<open>Waiting\<close>

definition wait_all_notified :: "pm_env \<Rightarrow> u64 \<Rightarrow> pm_state \<Rightarrow> (Result \<times> pm_state) option" where
  "wait_all_notified E timeout s = do {
     (res, s) \<leftarrow> pm_assertSuccess E (svc E (SvcWaitSynchronization (allNotifiedTerminationEvent s) timeout) s);
     Some (res, pv_others E s)
   }"

definition terminate_marked :: "pm_env \<Rightarrow> TerminationStatus \<Rightarrow> nat \<Rightarrow> Result \<times> pm_state \<Rightarrow> Result \<times> pm_state" where
  "terminate_marked E st n x =
     (case x of (res, s) \<Rightarrow>
        if pr_terminationStatus (pm_procs s n) = st then svc E (SvcTerminateProcess (pr_handle (pm_procs s n))) s else (res, s))"

text \<open>The result of the wait is kept in a variable of the inner block; the caller gets that of the
  last process terminated before the wait, or success if there was nothing to wait for.\<close>

definition commitPendingTerminations :: "pm_env \<Rightarrow> u64 \<Rightarrow> pm_state \<Rightarrow> (Result \<times> pm_state) option" where
  "commitPendingTerminations E timeout s = do {
     let s = ProcessList_Lock s;
     let atLeastOneListener = (\<exists>n \<in> set (pm_used s). pr_terminationStatus (pm_procs s n) = TERMSTATUS_NOTIFICATION_SENT);
     let (res, s) = fold (terminate_marked E TERMSTATUS_NOTIFICATION_FAILED) (pm_used s) (0, s);
     let s = ProcessList_Unlock s;
     if atLeastOneListener then do {
       (r, s) \<leftarrow> wait_all_notified E timeout s;
       s \<leftarrow> (if pv_timeout E r then do {
               let s = ProcessList_Lock s;
               let s = snd (fold (terminate_marked E TERMSTATUS_NOTIFICATION_SENT) (pm_used s) (r, s));
               let s = ProcessList_Unlock s;
               (r, s) \<leftarrow> wait_all_notified E (- 1) s;
               Some s
             }
             else Some s);
       Some (res, s)
     }
     else Some (0, s)
   }"

definition begin_waiting :: "pm_env \<Rightarrow> pm_state \<Rightarrow> pm_state option" where
  "begin_waiting E s = do {
     (r, s) \<leftarrow> pm_assertSuccess E (svc E (SvcClearEvent (allNotifiedTerminationEvent s)) s);
     Some (s\<lparr>waitingForTermination := True\<rparr>)
   }"

section \<open>Requests\<close>

definition termination_target :: "u64 \<Rightarrow> bool \<Rightarrow> process_data \<Rightarrow> bool" where
  "termination_target ident useTitleId p \<longleftrightarrow> useTitleId \<and> pr_titleId p = ident \<or> ucast (pr_pid p) = ident"

text \<open>All targets in the order of the list; a process id stops at the first one.\<close>

definition termination_targets :: "u64 \<Rightarrow> bool \<Rightarrow> pm_state \<Rightarrow> nat list" where
  "termination_targets ident useTitleId s =
     (let ns = filter (\<lambda>n. termination_target ident useTitleId (pm_procs s n)) (pm_used s)
      in if useTitleId then ns else take 1 ns)"

definition terminate_target :: "pm_env \<Rightarrow> nat \<Rightarrow> u8 option \<times> pm_state \<Rightarrow> (u8 option \<times> pm_state) option" where
  "terminate_target E n x = (case x of (notify, s) \<Rightarrow> do {
     let p = pm_procs s n;
     let (notify, s) =
       (if has_flag PROCESSFLAG_NOTIFY_TERMINATION p then
          (Some (pr_variation p),
           upd_proc n (set_flag PROCESSFLAG_NOTIFY_TERMINATION_TERMINATED \<circ> clear_flag PROCESSFLAG_NOTIFY_TERMINATION) s)
        else (notify, s));
     (r, s) \<leftarrow> terminateProcessImpl E n s;
     Some (notify, s)
   })"

definition terminateProcessOrTitleAsync :: "pm_env \<Rightarrow> u64 \<Rightarrow> u64 \<Rightarrow> bool \<Rightarrow> pm_state \<Rightarrow> pm_state option" where
  "terminateProcessOrTitleAsync E ident timeout useTitleId s = do {
     s \<leftarrow> (if sint timeout \<ge> 0 then begin_waiting E s else Some s);
     (x, s) \<leftarrow> new_header s;
     let s = ProcessList_Lock s;
     (notify, s) \<leftarrow> each (terminate_target E) (termination_targets ident useTitleId s) (None, s);
     let s = delete_header x (ProcessList_Unlock s);
     if sint timeout \<ge> 0 then do {
       (r, s) \<leftarrow> commitPendingTerminations E timeout s;
       let s = s\<lparr>waitingForTermination := False\<rparr>;
       case notify of
         None \<Rightarrow> Some s
       | Some variation \<Rightarrow> do { (r, s) \<leftarrow> notifySubscribers E (0x110 + ucast variation) s; Some s }
     }
     else Some s
   }"

definition TerminateProcessOrTitle :: "pm_env \<Rightarrow> u64 \<Rightarrow> u64 \<Rightarrow> bool \<Rightarrow> pm_state \<Rightarrow> (Result \<times> pm_state) option" where
  "TerminateProcessOrTitle E ident timeout useTitleId s =
     (if preparingForReboot s then
        if timeout \<noteq> 0 then Some (0xC8A05801, s)
        else do {
          let s = ProcessList_Lock s;
          s \<leftarrow> each (\<lambda>n s. do { (r, s) \<leftarrow> pm_assertSuccess E (svc E (SvcTerminateProcess (pr_handle (pm_procs s n))) s); Some s })
                 (termination_targets ident useTitleId s) s;
          Some (0, ProcessList_Unlock s)
        }
      else Some (0, TaskRunner_RunTask (TerminateProcessOrTitleAsync ident timeout useTitleId) s))"

definition TerminateApplication :: "pm_env \<Rightarrow> u64 \<Rightarrow> pm_state \<Rightarrow> (Result \<times> pm_state) option" where
  "TerminateApplication E timeout s =
     (if preparingForReboot s then Some (0xC8A05801, s)
      else do {
        (x, s) \<leftarrow> new_header s;
        s \<leftarrow> begin_waiting E s;
        let s = ProcessList_Lock s;
        s \<leftarrow> (case runningApplicationData s of
                Some n \<Rightarrow> do { (r, s) \<leftarrow> terminateProcessImpl E n s; Some s }
              | None \<Rightarrow> Some s);
        let s = ProcessList_Unlock s;
        (res, s) \<leftarrow> commitPendingTerminations E timeout s;
        Some (res, (delete_header x s)\<lparr>waitingForTermination := False\<rparr>)
      })"

definition TerminateTitle :: "pm_env \<Rightarrow> u64 \<Rightarrow> u64 \<Rightarrow> pm_state \<Rightarrow> (Result \<times> pm_state) option" where
  "TerminateTitle E titleId timeout = TerminateProcessOrTitle E titleId timeout True"

definition TerminateProcess :: "pm_env \<Rightarrow> u32 \<Rightarrow> u64 \<Rightarrow> pm_state \<Rightarrow> (Result \<times> pm_state) option" where
  "TerminateProcess E pid timeout = TerminateProcessOrTitle E (ucast pid) timeout False"

section \<open>All processes\<close>

definition nsToTicks :: "pm_env \<Rightarrow> u64 \<Rightarrow> u64" where
  "nsToTicks E ns = word_of_int (sint (ns * SYSCLOCK_ARM11 E) sdiv 1000000000)"

definition ticksToNs :: "pm_env \<Rightarrow> u64 \<Rightarrow> u64" where
  "ticksToNs E ticks = word_of_int (sint (1000000000 * ticks) sdiv sint (SYSCLOCK_ARM11 E))"

definition remaining_time :: "pm_env \<Rightarrow> u64 \<Rightarrow> pm_state \<Rightarrow> u64 \<times> pm_state" where
  "remaining_time E dstTimePoint s =
     (case svc_out E SvcGetSystemTick s of
        (r, now, s) \<Rightarrow>
          let timeoutTicks = dstTimePoint - now
          in (if sint timeoutTicks \<ge> 0 then ticksToNs E timeoutTicks else 0, s))"

definition forceMountSdCard :: "pm_env \<Rightarrow> pm_state \<Rightarrow> pm_state option" where
  "forceMountSdCard E s = do {
     (r, s) \<leftarrow> pm_assertSuccess E (svc E FsInit s);
     (r, s) \<leftarrow> pm_assertSuccess E (svc E FsOpenSdmc s);
     Some s
   }"

text \<open>What the loop over all processes does with one of them.\<close>

definition announce_end :: "pm_env \<Rightarrow> u64 list \<Rightarrow> nat option \<Rightarrow> nat \<Rightarrow> pm_state \<Rightarrow> pm_state option" where
  "announce_end E dependencies callerProcess n s =
     (let p = pm_procs s n in
      if has_flag PROCESSFLAG_KIP p then Some s
      else if callerProcess = Some n \<and> has_flag PROCESSFLAG_AUTOLOADED p then ProcessData_Incref n 1 s
      else if pr_titleId p \<notin> set dependencies then do {
        (r, s) \<leftarrow> ProcessData_SendTerminationNotification E n s;
        Some s
      }
      else if has_flag PROCESSFLAG_AUTOLOADED p then ProcessData_Incref n 1 s
      else Some s)"

definition list_caller_dependencies :: "pm_env \<Rightarrow> u32 \<Rightarrow> pm_state \<Rightarrow> nat option \<times> u64 list \<times> pm_state" where
  "list_caller_dependencies E callerPid s =
     (if callerPid \<noteq> - 1 then
        let s = ProcessList_Lock s in
        case ProcessList_FindProcessById callerPid s of
          Some n \<Rightarrow> (case getAndListDependencies E (pr_programHandle (pm_procs s n)) s of
                       (r, deps, s) \<Rightarrow> (Some n, deps, ProcessList_Unlock s))
        | None \<Rightarrow> (None, [], ProcessList_Unlock s)
      else (None, [], s))"

definition announce_all :: "pm_env \<Rightarrow> u64 list \<Rightarrow> nat option \<Rightarrow> pm_state \<Rightarrow> pm_state option" where
  "announce_all E dependencies callerProcess s = do {
     let s = ProcessList_Lock s;
     s \<leftarrow> (if numKips E \<ge> 6 then do { (r, s) \<leftarrow> notifySubscribers E 0x2000 s; Some s } else Some s);
     s \<leftarrow> (case runningApplicationData s of
             Some n \<Rightarrow> do {
               (r, s) \<leftarrow> ProcessData_SendTerminationNotification E n (upd_proc n (clear_flag PROCESSFLAG_DEPENDENCIES_LOADED) s);
               Some s
             }
           | None \<Rightarrow> Some s);
     s \<leftarrow> each (announce_end E dependencies callerProcess) (pm_used s) s;
     Some (ProcessList_Unlock s)
   }"

definition terminateAllProcesses :: "pm_env \<Rightarrow> u32 \<Rightarrow> u64 \<Rightarrow> pm_state \<Rightarrow> (nat option \<times> pm_state) option" where
  "terminateAllProcesses E callerPid timeout s = do {
     let (r, now, s) = svc_out E SvcGetSystemTick s;
     let dstTimePoint = now + nsToTicks E timeout;
     (x, s) \<leftarrow> new_header s;
     s \<leftarrow> begin_waiting E s;
     let (callerProcess, dependencies, s) = list_caller_dependencies E callerPid s;
     s \<leftarrow> announce_all E dependencies callerProcess s;
     let s = delete_header x s;
     let (left, s) = remaining_time E dstTimePoint s;
     (r, s) \<leftarrow> commitPendingTerminations E left s;
     let s = s\<lparr>waitingForTermination := False\<rparr>;
     s \<leftarrow> (if callerPid = - 1 \<and> \<not> pv_R_FAILED E (fst (pv_system_info E 0x10000 0x203)) \<and>
               snd (pv_system_info E 0x10000 0x203) \<noteq> 0
            then forceMountSdCard E s else Some s);
     s \<leftarrow> begin_waiting E s;
     let s = ProcessList_Lock s;
     s \<leftarrow> (if numKips E \<ge> 6 then terminateProcessByIdChecked E 5 s else Some s);
     s \<leftarrow> terminateProcessByIdChecked E 4 s;
     let s = ProcessList_Unlock s;
     let (left, s) = remaining_time E dstTimePoint s;
     (r, s) \<leftarrow> commitPendingTerminations E (1500000000 + left) s;
     Some (callerProcess, s\<lparr>waitingForTermination := False\<rparr>)
   }"

definition prepareForRebootAsync :: "pm_env \<Rightarrow> u32 \<Rightarrow> u64 \<Rightarrow> pm_state \<Rightarrow> pm_state option" where
  "prepareForRebootAsync E pid timeout s = do {
     (caller, s) \<leftarrow> terminateAllProcesses E pid timeout s;
     case caller of
       Some n \<Rightarrow> do { (r, s) \<leftarrow> ProcessData_Notify E n 0x179 s; Some s }
     | None \<Rightarrow> Some s
   }"

definition PrepareForReboot :: "u32 \<Rightarrow> u64 \<Rightarrow> pm_state \<Rightarrow> Result \<times> pm_state" where
  "PrepareForReboot pid timeout s =
     (if preparingForReboot s then (0xC8A05801, s)
      else (0, TaskRunner_RunTask (PrepareForRebootAsync pid timeout) (s\<lparr>preparingForReboot := True\<rparr>)))"

definition ChainloadHomebrewDirty :: "pm_env \<Rightarrow> pm_state \<Rightarrow> Result \<times> pm_state" where
  "ChainloadHomebrewDirty E s =
     (if preparingForReboot s then (0xC8A05801, s)
      else
        let s = ProcessList_Lock s; app = runningApplicationData s; s = ProcessList_Unlock s in
        if app = None then (pv_no_app E, s) else (0, TaskRunner_RunTask ChainloadHomebrewDirtyAsync s))"

section \<open>The process monitor\<close>

text \<open>The entry may be in the list of free ones by now: the monitor works on a copy.\<close>

definition release_all :: "pm_env \<Rightarrow> process_data \<Rightarrow> pm_state \<Rightarrow> pm_state option" where
  "release_all E p s =
     (if has_flag PROCESSFLAG_DEPENDENCIES_LOADED p then do {
        (x, s) \<leftarrow> new_header s;
        (r, s) \<leftarrow> listAndTerminateDependencies E (pr_programHandle p) s;
        Some (delete_header x s)
      }
      else Some s)"

definition unregister_all :: "pm_env \<Rightarrow> process_data \<Rightarrow> pm_state \<Rightarrow> pm_state" where
  "unregister_all E p s =
     (if has_flag PROCESSFLAG_KIP p then s
      else
        let s = snd (svc E (SrvpmUnregisterProcess (pr_pid p)) s);
            s = snd (svc E (FsregUnregister (pr_pid p)) s)
        in snd (svc E (LoaderUnregisterProgram (pr_programHandle p)) s))"

definition forget_application :: "pm_env \<Rightarrow> Handle \<Rightarrow> pm_state \<Rightarrow> pm_state option" where
  "forget_application E h s =
     (case runningApplicationData s of
        Some n \<Rightarrow>
          if h = pr_handle (pm_procs s n) then do {
            s \<leftarrow> (if IS_N3DS E \<and> app_memtype E = 6 then do {
                    (r, s) \<leftarrow> pm_assertSuccess E (resetAppMemLimit E s);
                    Some s
                  }
                  else Some s);
            Some (s\<lparr>runningApplicationData := None, pm_hbldr_3dsx_tid := pm_selected_hbldr_3dsx_tid s\<rparr>)
          }
          else Some s
      | None \<Rightarrow> Some s)"

definition forget_debugged :: "Handle \<Rightarrow> pm_state \<Rightarrow> pm_state" where
  "forget_debugged h s =
     (case debugData s of
        Some n \<Rightarrow> if h = pr_handle (pm_procs s n) then s\<lparr>debugData := None\<rparr> else s
      | None \<Rightarrow> s)"

definition cleanupProcess :: "pm_env \<Rightarrow> process_data \<Rightarrow> pm_state \<Rightarrow> pm_state option" where
  "cleanupProcess E p s = do {
     s \<leftarrow> release_all E p s;
     let s = unregister_all E p s;
     let s = ProcessList_Lock s;
     s \<leftarrow> forget_application E (pr_handle p) s;
     let s = forget_debugged (pr_handle p) s;
     let s = ProcessList_Unlock s;
     if has_flag PROCESSFLAG_NOTIFY_TERMINATION p then do {
       (r, s) \<leftarrow> notifySubscribers E (0x110 + ucast (pr_variation p)) s;
       Some s
     }
     else Some s
   }"

definition mark_ended :: "nat \<Rightarrow> pm_state \<Rightarrow> pm_state" where
  "mark_ended n s =
     (let s = upd_proc n (\<lambda>p. p\<lparr>pr_terminationStatus := TERMSTATUS_TERMINATED\<rparr>) s
      in if has_flag PROCESSFLAG_NOTIFY_TERMINATION (pm_procs s n)
         then upd_proc n (set_flag PROCESSFLAG_NOTIFY_TERMINATION_TERMINATED) s else s)"

definition process_ended :: "pm_env \<Rightarrow> Handle \<Rightarrow> pm_state \<Rightarrow> pm_state option" where
  "process_ended E h s =
     (let s = ProcessList_Lock s in
      case ProcessList_FindProcessByHandle h s of
        None \<Rightarrow> Some (ProcessList_Unlock s)
      | Some n \<Rightarrow>
          let s = mark_ended n s;
              processBackup = pm_procs s n;
              s = (if has_flag PROCESSFLAG_NOTIFY_TERMINATION_TERMINATED (pm_procs s n) then s else ProcessList_Delete n s)
          in do {
            s \<leftarrow> cleanupProcess E processBackup (ProcessList_Unlock s);
            Some (if has_flag PROCESSFLAG_NOTIFY_TERMINATION_TERMINATED processBackup then s
                  else snd (svc E (SvcCloseHandle (pr_handle processBackup)) s))
          })"

text \<open>A round of the loop of \<open>processMonitor\<close>; the kernel reports the index of one of the handles, if any.\<close>

definition monitor_handles :: "pm_state \<Rightarrow> Handle list" where
  "monitor_handles s =
     newProcessEvent s # map (\<lambda>n. pr_handle (pm_procs s n))
       (filter (\<lambda>n. pr_terminationStatus (pm_procs s n) \<noteq> TERMSTATUS_TERMINATED) (pm_used s))"

definition processMonitor :: "pm_env \<Rightarrow> pm_state \<Rightarrow> pm_state option" where
  "processMonitor E s = do {
     let handles = monitor_handles s;
     let atLeastOneTerminating =
       (\<exists>n \<in> set (pm_used s). pr_terminationStatus (pm_procs s n) = TERMSTATUS_NOTIFICATION_SENT);
     s \<leftarrow> (if waitingForTermination s \<and> \<not> atLeastOneTerminating then do {
              (r, s) \<leftarrow> pm_assertSuccess E (svc E (SvcSignalEvent (allNotifiedTerminationEvent s)) s);
              Some s
            }
            else Some s);
     let (r, i, s) = svc_out E (SvcWaitSynchronizationN handles) s;
     let s = pv_others E s;
     if 0 < sint i \<and> sint i < int (length handles) then process_ended E (handles ! unat i) s else Some s
   }"

section \<open>The manager\<close>

definition UnregisterProcess_pm :: "pm_env \<Rightarrow> u64 \<Rightarrow> pm_state \<Rightarrow> Result \<times> pm_state" where
  "UnregisterProcess_pm E titleId s =
     (let s = ProcessList_Lock s in
      case ProcessList_FindProcessByTitleId (titleId AND NOT N3DS_TID_MASK) s of
        None \<Rightarrow> (0, ProcessList_Unlock s)
      | Some n \<Rightarrow>
          let s = (if runningApplicationData s = Some n then s\<lparr>runningApplicationData := None\<rparr> else s);
              s = (if debugData s = Some n then s\<lparr>debugData := None\<rparr> else s);
              s = snd (svc E (SvcCloseHandle (pr_handle (pm_procs s n))) s)
          in (0, ProcessList_Unlock (ProcessList_Delete n s)))"

definition register_kip :: "pm_env \<Rightarrow> nat \<Rightarrow> pm_state \<Rightarrow> pm_state option" where
  "register_kip E i s = do {
     (n, s) \<leftarrow> ProcessList_New s;
     let (res, h, s) = svc_out E (SvcOpenProcess (of_nat i)) s;
     if pv_R_FAILED E res then None
     else do {
       let s = upd_proc n (\<lambda>p. p\<lparr>pr_handle := ucast h, pr_pid := of_nat i, pr_refcount := 1,
                 pr_titleId := 0x0004000100001000, pr_flags := PROCESSFLAG_KIP,
                 pr_terminationStatus := TERMSTATUS_RUNNING\<rparr>) s;
       if i < 5 then do {
         (r, s) \<leftarrow> pm_assertSuccess E (svc E (SvcSetProcessResourceLimits (ucast h) (pm_reslimits s ! RESLIMIT_CATEGORY_OTHER E)) s);
         Some s
       }
       else Some s
     }
   }"

definition giveAllFsArchiveAccessToKip :: "pm_env \<Rightarrow> u32 \<Rightarrow> u64 \<Rightarrow> pm_state \<Rightarrow> pm_state option" where
  "giveAllFsArchiveAccessToKip E pid tid s = do {
     (r, s) \<leftarrow> pm_assertSuccess E
       (svc E (FsregRegister pid 0xFFFF000000000000 \<lparr>pi_programId = tid, pi_mediaType = MEDIATYPE_NAND E\<rparr>
         \<lparr>st_fs_access_info = 0xFFFFFFFF, st_others = (\<lambda>i. 0)\<rparr>) s);
     Some s
   }"

definition Manager_RegisterKips :: "pm_env \<Rightarrow> pm_state \<Rightarrow> pm_state option" where
  "Manager_RegisterKips E s = do {
     let s = ProcessList_Lock s;
     s \<leftarrow> each (register_kip E) [0..<nat (numKips E mod 2 ^ 32)] s;
     let s = ProcessList_Unlock s;
     s \<leftarrow> giveAllFsArchiveAccessToKip E 2 0x0004013000001202 s;
     if numKips E > 5 then giveAllFsArchiveAccessToKip E 5 0x0004013000006902 s else Some s
   }"

end
