(* ===== verification/Pm_Launch.thy ===== *)
theory Pm_Launch
  imports Pm_Terminate
begin

text \<open>
  The launch of titles (\<open>launch.c\<close>). A title with dependencies launches those that do not run yet,
  with no flags: such a launch loads no dependencies itself, so the recursion of
  \<open>launchTitleImpl\<close> and \<open>loadWithDependencies\<close> is one level deep. \<open>launch_title_with\<close> takes the loading of
  a title with dependencies as an argument.
\<close>

section \<open>Loading a process\<close>

definition launch_flag_set :: "pm_env \<Rightarrow> launch_flag \<Rightarrow> u32 \<Rightarrow> bool" where
  "launch_flag_set E f launchFlags \<longleftrightarrow> launchFlags AND pv_flag E f \<noteq> 0"

definition PMLAUNCHFLAGEXT_FAKE_DEPENDENCY_LOADING :: u32 where
  "PMLAUNCHFLAGEXT_FAKE_DEPENDENCY_LOADING = 0x1000000"

fun try_calls :: "pm_env \<Rightarrow> Result \<Rightarrow> pm_call list \<Rightarrow> pm_state \<Rightarrow> Result \<times> pm_state" where
  "try_calls E res [] s = (res, s)"
| "try_calls E res (c # cs) s =
     (case svc E c s of (res, s) \<Rightarrow> if pv_R_FAILED E res then (res, s) else try_calls E res cs s)"

definition new_process :: "Handle \<Rightarrow> u32 \<Rightarrow> u64 \<Rightarrow> FS_ProgramInfo \<Rightarrow> u32 \<Rightarrow> exheader \<Rightarrow> process_data" where
  "new_process processHandle pid programHandle programInfo launchFlags xh =
     \<lparr>pr_handle = processHandle, pr_pid = pid, pr_titleId = xe_title_id xh, pr_programHandle = programHandle,
      pr_launchFlags = launchFlags, pr_flags = 0, pr_variation = ucast (drop_bit 4 (launchFlags AND 0xF0)),
      pr_terminationStatus = TERMSTATUS_RUNNING, pr_refcount = 1, pr_mediaType = pi_mediaType programInfo\<rparr>"

text \<open>The calls that register a new process and set it up; each of them is tried.\<close>

definition setup_calls :: "pm_env \<Rightarrow> Handle \<Rightarrow> u32 \<Rightarrow> u64 \<Rightarrow> FS_ProgramInfo \<Rightarrow> exheader \<Rightarrow> pm_state \<Rightarrow> pm_call list" where
  "setup_calls E processHandle pid programHandle programInfo xh s =
     (let serviceCount = length (takeWhile (\<lambda>n. n \<noteq> 0) (take 34 (xe_service_access xh)));
          storageInfo = (xe_storage_info xh)\<lparr>st_fs_access_info := 0xFFFFFFFF\<rparr> in
      [FsregRegister pid programHandle programInfo storageInfo,
       SrvpmRegisterProcess pid serviceCount (xe_service_access xh)] @
      (if xe_reslimit_category xh \<le> RESLIMIT_CATEGORY_OTHER E
       then [SvcSetProcessResourceLimits processHandle (pm_reslimits s ! xe_reslimit_category xh)] else []) @
      [SvcSetProcessAffinityMask processHandle (ci_affinity_mask (xe_core_info xh)),
       SvcSetProcessIdealProcessor processHandle (ci_ideal_processor (xe_core_info xh))])"

type_synonym loaded_process = "Result \<times> Handle \<times> nat option \<times> pm_state"

definition insert_process ::
    "pm_env \<Rightarrow> Handle \<Rightarrow> u32 \<Rightarrow> u64 \<Rightarrow> FS_ProgramInfo \<Rightarrow> u32 \<Rightarrow> exheader \<Rightarrow> pm_state \<Rightarrow> (nat \<times> pm_state) option" where
  "insert_process E processHandle pid programHandle programInfo launchFlags xh s = do {
     (n, s) \<leftarrow> ProcessList_New (ProcessList_Lock s);
     let s = upd_proc n (\<lambda>p. new_process processHandle pid programHandle programInfo launchFlags xh) s;
     let s = ProcessList_Unlock s;
     Some (n, snd (svc E (SvcSignalEvent (newProcessEvent s)) s))
   }"

definition setup_process ::
    "pm_env \<Rightarrow> bool \<Rightarrow> nat \<Rightarrow> pm_call list \<Rightarrow> u32 \<Rightarrow> u32 \<Rightarrow> exheader \<Rightarrow> pm_state \<Rightarrow> (Result \<times> Handle \<times> pm_state) option" where
  "setup_process E wantDebug n calls pid launchFlags xh s =
     (case try_calls E 0 calls s of (res, s) \<Rightarrow>
        if pv_R_FAILED E res then Some (res, 0, s)
        else do {
          s \<leftarrow> (if launch_flag_set E PMLAUNCHFLAG_NORMAL_APPLICATION launchFlags then do {
                  s \<leftarrow> setAppCpuTimeLimitAndSchedModeFromDescriptor E (xe_title_id xh) (xe_reslimit0 xh) s;
                  Some (upd_proc n (set_flag PROCESSFLAG_NORMAL_APPLICATION) s)
                }
                else Some s);
          if wantDebug then
            case svc_out E (SvcDebugActiveProcess pid) s of
              (res, h, s) \<Rightarrow> Some (res, if pv_R_FAILED E res then 0 else ucast h, s)
          else Some (res, 0, s)
        })"

definition loadWithoutDependencies ::
    "pm_env \<Rightarrow> bool \<Rightarrow> u64 \<Rightarrow> FS_ProgramInfo \<Rightarrow> u32 \<Rightarrow> exheader \<Rightarrow> pm_state \<Rightarrow> loaded_process option" where
  "loadWithoutDependencies E wantDebug programHandle programInfo launchFlags xh s =
     (if bit (pi_programId programInfo) 35 then Some (0xD8E05803, 0, None, s)
      else
        case svc_out E (LoaderLoadProcess programHandle) s of
          (res, processHandle, s) \<Rightarrow>
        if pv_R_FAILED E res then Some (res, 0, None, s)
        else
          case svc_out E (SvcGetProcessId (ucast processHandle)) s of
            (res, pid, s) \<Rightarrow>
          if pv_R_FAILED E res then Some (res, 0, None, s)
          else do {
            (n, s) \<leftarrow> insert_process E (ucast processHandle) (ucast pid) programHandle programInfo launchFlags xh s;
            let calls = setup_calls E (ucast processHandle) (ucast pid) programHandle programInfo xh s;
            (res, debug, s) \<leftarrow> setup_process E wantDebug n calls (ucast pid) launchFlags xh s;
            Some (res, debug, Some n, s)
          })"

definition terminate_entry :: "pm_env \<Rightarrow> nat \<Rightarrow> pm_state \<Rightarrow> pm_state" where
  "terminate_entry E n s = snd (svc E (SvcTerminateProcess (pr_handle (pm_procs s n))) s)"

section \<open>Launching a title\<close>

definition set_app_memory :: "pm_env \<Rightarrow> u32 \<Rightarrow> exheader \<Rightarrow> pm_state \<Rightarrow> pm_state" where
  "set_app_memory E launchFlags xh s =
     (if IS_N3DS E \<and> app_memtype E = 6 \<and> launch_flag_set E PMLAUNCHFLAG_NORMAL_APPLICATION launchFlags then
        let forceO3dsAppMem = launch_flag_set E PMLAUNCHFLAG_FORCE_USE_O3DS_APP_MEM launchFlags;
            m = ci_o3ds_system_mode (xe_core_info xh) in
        if forceO3dsAppMem \<and> launch_flag_set E PMLAUNCHFLAG_FORCE_USE_O3DS_MAX_APP_MEM launchFlags
        then snd (setAppMemLimit E (push_bit 20 96) s)
        else if forceO3dsAppMem \<or> ci_n3ds_system_mode (xe_core_info xh) = SYSMODE_O3DS_PROD E then
          let limitMb = (if m = SYSMODE_O3DS_PROD E then 64 else if m = SYSMODE_DEV1 E then 96
                         else if m = SYSMODE_DEV2 E then 80 else 0)
          in snd (setAppMemLimit E (push_bit 20 limitMb) s)
        else s
      else s)"

definition adjust_launch_flags :: "pm_env \<Rightarrow> u32 \<Rightarrow> u32" where
  "adjust_launch_flags E launchFlags =
     (if launch_flag_set E PMLAUNCHFLAG_NORMAL_APPLICATION launchFlags
      then launchFlags OR pv_flag E PMLAUNCHFLAG_LOAD_DEPENDENCIES
      else (launchFlags AND NOT (pv_flag E PMLAUNCHFLAG_USE_UPDATE_TITLE)) AND
        NOT (pv_flag E PMLAUNCHFLAG_FORCE_USE_O3DS_APP_MEM OR pv_flag E PMLAUNCHFLAG_FORCE_USE_O3DS_MAX_APP_MEM))"

text \<open>From the label \<open>cleanup\<close> on. The lock is released also when the list has not been locked.\<close>

definition launch_cleanup :: "pm_env \<Rightarrow> u32 \<Rightarrow> Result \<Rightarrow> nat option \<Rightarrow> pm_state \<Rightarrow> pm_state" where
  "launch_cleanup E launchFlags res process s =
     ProcessList_Unlock
       (case process of
          None \<Rightarrow> s
        | Some n \<Rightarrow>
            if pv_R_FAILED E res then terminate_entry E n s
            else if launch_flag_set E PMLAUNCHFLAG_NOTIFY_TERMINATION launchFlags
            then upd_proc n (set_flag PROCESSFLAG_NOTIFY_TERMINATION) s else s)"

definition start_process :: "pm_env \<Rightarrow> u32 \<Rightarrow> Result \<Rightarrow> nat \<Rightarrow> exheader \<Rightarrow> pm_state \<Rightarrow> (Result \<times> pm_state) option" where
  "start_process E launchFlags res n xh s =
     (if launch_flag_set E PMLAUNCHFLAG_QUEUE_DEBUG_APPLICATION launchFlags then
        if debugData s = None then Some (res, s\<lparr>debugData := Some n\<rparr>) else Some (0xD8A05805, s)
      else
        case svc E (SvcRun (pr_handle (pm_procs s n)) (ci_priority (xe_core_info xh)) (xe_stack_size xh)) s of
          (res, s) \<Rightarrow>
            if \<not> pv_R_FAILED E res \<and> launch_flag_set E PMLAUNCHFLAG_NORMAL_APPLICATION launchFlags then do {
              (r, s) \<leftarrow> notifySubscribers E 0x10C (s\<lparr>runningApplicationData := Some n\<rparr>);
              Some (res, s)
            }
            else Some (res, s))"

type_synonym loader_fun = "bool \<Rightarrow> u64 \<Rightarrow> FS_ProgramInfo \<Rightarrow> u32 \<Rightarrow> exheader \<Rightarrow> pm_state \<Rightarrow> loaded_process option"

type_synonym launch_result = "Result \<times> Handle \<times> nat option \<times> exheader option \<times> pm_state"

text \<open>The registration of the title and its header, if it can be launched.\<close>

definition open_title :: "pm_env \<Rightarrow> FS_ProgramInfo \<Rightarrow> FS_ProgramInfo \<Rightarrow> pm_state \<Rightarrow> Result \<times> u64 \<times> exheader option \<times> pm_state" where
  "open_title E programInfo programInfoUpdate s =
     (case registerProgram E programInfo programInfoUpdate s of (res, programHandle, s) \<Rightarrow>
        if pv_R_FAILED E res then (res, programHandle, None, s)
        else
          case getProgramInfo E programHandle s of (res, xh, s) \<Rightarrow>
            let coreVer = kernel_syscore_ver E;
                res = (if \<not> pv_R_FAILED E res \<and> coreVer = 2 \<and> ci_core_version (xe_core_info xh) \<noteq> coreVer
                       then 0xC8A05800 else res) in
            if pv_R_FAILED E res then (res, programHandle, None, snd (svc E (LoaderUnregisterProgram programHandle) s))
            else (res, programHandle, Some xh, s))"

definition run_title :: "pm_env \<Rightarrow> loader_fun \<Rightarrow> loader_fun" where
  "run_title E loadWithDependencies wantDebug programHandle programInfo launchFlags xh s = do {
     let s = set_app_memory E launchFlags xh s;
     (res, debug, process, s) \<leftarrow>
       (if launch_flag_set E PMLAUNCHFLAG_LOAD_DEPENDENCIES launchFlags
        then loadWithDependencies wantDebug programHandle programInfo launchFlags xh s
        else loadWithoutDependencies E wantDebug programHandle programInfo launchFlags xh s);
     if pv_R_FAILED E res then Some (res, debug, process, launch_cleanup E launchFlags res process s)
     else do {
       n \<leftarrow> process;
       (res, s) \<leftarrow> start_process E launchFlags res n xh (ProcessList_Lock s);
       Some (res, debug, process, launch_cleanup E launchFlags res process s)
     }
   }"

definition launch_title_with ::
    "pm_env \<Rightarrow> loader_fun \<Rightarrow> bool \<Rightarrow> FS_ProgramInfo \<Rightarrow> FS_ProgramInfo option \<Rightarrow> u32 \<Rightarrow> pm_state \<Rightarrow> launch_result option" where
  "launch_title_with E loadWithDependencies wantDebug programInfo programInfoUpdate launchFlags s =
     (if isTitleLaunchPrevented E (pi_programId programInfo) then Some (0, 0, None, None, s)
      else do {
        let launchFlags = adjust_launch_flags E launchFlags;
        programInfoUpdate \<leftarrow>
          (if launch_flag_set E PMLAUNCHFLAG_USE_UPDATE_TITLE launchFlags then programInfoUpdate else Some programInfo);
        case open_title E programInfo programInfoUpdate s of
          (res, programHandle, None, s) \<Rightarrow> Some (res, 0, None, None, s)
        | (res, programHandle, Some xh, s) \<Rightarrow> do {
            (res, debug, process, s) \<leftarrow> run_title E loadWithDependencies wantDebug programHandle programInfo launchFlags xh s;
            Some (res, debug, process, Some xh, s)
          }
      })"

section \<open>Dependencies\<close>

text \<open>The launch of a dependency: its flags are zero, so that no dependencies are loaded.\<close>

definition launch_dependency :: "pm_env \<Rightarrow> u64 \<Rightarrow> pm_state \<Rightarrow> launch_result option" where
  "launch_dependency E titleId s =
     launch_title_with E (\<lambda>d h pi f xh s. None) False \<lparr>pi_programId = titleId, pi_mediaType = MEDIATYPE_NAND E\<rparr> None 0 s"

definition close_debug :: "pm_env \<Rightarrow> bool \<Rightarrow> Handle \<Rightarrow> pm_state \<Rightarrow> pm_state" where
  "close_debug E wantDebug debug s = (if wantDebug then snd (svc E (SvcCloseHandle debug) s) else s)"

text \<open>The loop over the dependencies, whose number changes within the loop and stays at most 48: the
  indices are those below 48. The value has the last result and the process whose launch has failed
  and ended the loop, if any.\<close>

fun dependency_loop :: "pm_env \<Rightarrow> nat list \<Rightarrow> Result \<times> dependency list \<times> pm_state \<Rightarrow> (Result \<times> nat option \<times> pm_state) option" where
  "dependency_loop E [] (res, ds, s) = Some (res, None, s)"
| "dependency_loop E (i # is) (res, ds, s) =
     (if i \<ge> length ds then Some (res, None, s)
      else if dp_proc (ds ! i) \<noteq> None then dependency_loop E is (res, ds, s)
      else do {
        (res, debug, process, xh, s) \<leftarrow> launch_dependency E (dp_id (ds ! i)) s;
        let ds = ds[i := (ds ! i)\<lparr>dp_proc := process\<rparr>];
        if \<not> pv_R_FAILED E res then do {
          n \<leftarrow> process;
          let s = upd_proc n (set_flag (PROCESSFLAG_AUTOLOADED OR PROCESSFLAG_DEPENDENCIES_LOADED)) s;
          s \<leftarrow> ProcessData_Incref n (dp_rem (ds ! i) - 1) s;
          let ds = ds[i := (ds ! i)\<lparr>dp_rem := 0\<rparr>];
          xh \<leftarrow> xh;
          (ds, s) \<leftarrow> listMergeUniqueDependencies E ds xh s;
          dependency_loop E is (res, ds, s)
        }
        else case process of
          None \<Rightarrow> dependency_loop E is (res, ds, s)
        | Some n \<Rightarrow> Some (res, Some n, s)
      })"

definition load_dependencies :: "pm_env \<Rightarrow> Result \<Rightarrow> nat \<Rightarrow> u32 \<Rightarrow> exheader \<Rightarrow> pm_state \<Rightarrow> (Result \<times> nat option \<times> pm_state) option" where
  "load_dependencies E res n launchFlags xh s = do {
     (ds, s) \<leftarrow> listMergeUniqueDependencies E [] xh s;
     let s = (if length ds > 0 then upd_proc n (set_flag PROCESSFLAG_DEPENDENCIES_LOADED) s else s);
     let ds = (if launchFlags AND PMLAUNCHFLAGEXT_FAKE_DEPENDENCY_LOADING \<noteq> 0 then [] else ds);
     dependency_loop E [0..<48] (res, ds, s)
   }"

definition loadWithDependencies :: "pm_env \<Rightarrow> loader_fun" where
  "loadWithDependencies E wantDebug programHandle programInfo launchFlags xh s = do {
     (res, debug, process, s) \<leftarrow> loadWithoutDependencies E wantDebug programHandle programInfo launchFlags xh s;
     if pv_R_FAILED E res then
       let s = close_debug E wantDebug debug s;
           s = (case process of Some n \<Rightarrow> terminate_entry E n s | None \<Rightarrow> s)
       in Some (res, 0, process, s)
     else do {
       (x, s) \<leftarrow> new_header s;
       n \<leftarrow> process;
       (res, failed, s) \<leftarrow> load_dependencies E res n launchFlags xh s;
       case failed of
         Some d \<Rightarrow> Some (res, 0, process, delete_header x (terminate_entry E d (close_debug E wantDebug debug s)))
       | None \<Rightarrow> Some (res, debug, process, delete_header x s)
     }
   }"

definition launchTitleImpl ::
    "pm_env \<Rightarrow> bool \<Rightarrow> FS_ProgramInfo \<Rightarrow> FS_ProgramInfo option \<Rightarrow> u32 \<Rightarrow> pm_state \<Rightarrow> launch_result option" where
  "launchTitleImpl E = launch_title_with E (loadWithDependencies E)"

section \<open>Requests\<close>

text \<open>The answers have the handle for the debugger and the process id, if it has been set.\<close>

definition launchTitleImplWrapper ::
    "pm_env \<Rightarrow> bool \<Rightarrow> FS_ProgramInfo \<Rightarrow> FS_ProgramInfo \<Rightarrow> u32 \<Rightarrow> pm_state \<Rightarrow> (Result \<times> Handle \<times> u32 option \<times> pm_state) option" where
  "launchTitleImplWrapper E wantDebug programInfo programInfoUpdate launchFlags s =
     (let s = ProcessList_Lock s in
      if runningApplicationData s \<noteq> None \<and> launch_flag_set E PMLAUNCHFLAG_NORMAL_APPLICATION launchFlags
      then Some (0xC8A05BF0, 0, None, ProcessList_Unlock s)
      else do {
        (x, s) \<leftarrow> new_header (ProcessList_Unlock s);
        (res, debug, process, xh, s) \<leftarrow> launchTitleImpl E wantDebug programInfo (Some programInfoUpdate) launchFlags s;
        Some (res, debug, map_option (\<lambda>n. pr_pid (pm_procs s n)) process, delete_header x s)
      })"

definition launchTitleAsync :: "pm_env \<Rightarrow> FS_ProgramInfo \<Rightarrow> FS_ProgramInfo \<Rightarrow> u32 \<Rightarrow> pm_state \<Rightarrow> pm_state option" where
  "launchTitleAsync E programInfo programInfoUpdate launchFlags s = do {
     (res, debug, pid, s) \<leftarrow> launchTitleImplWrapper E False programInfo programInfoUpdate launchFlags s;
     Some s
   }"

text \<open>After a launch of an application that is to be debugged next.\<close>

definition application_queued :: "pm_env \<Rightarrow> bool \<Rightarrow> pm_state \<Rightarrow> pm_state option" where
  "application_queued E originallyDebugged s =
     (let s = s\<lparr>g_debugNextApplication := False\<rparr> in
      if originallyDebugged then Some s
      else do { (r, s) \<leftarrow> notifySubscribers E 0x1000 s; Some s })"

definition wrong_core_version :: "pm_env \<Rightarrow> u64 \<Rightarrow> bool" where
  "wrong_core_version E titleId \<longleftrightarrow>
     (let tidh = (ucast (drop_bit 32 titleId) :: u32); tidl = (ucast titleId :: u32); coreVer = kernel_syscore_ver E in
      coreVer = 2 \<and> (tidh = 0x00040030 \<or> tidh = 0x00040130) \<and> tidl AND 0xFF \<noteq> coreVer)"

definition LaunchTitle :: "pm_env \<Rightarrow> FS_ProgramInfo \<Rightarrow> u32 \<Rightarrow> bool \<Rightarrow> pm_state \<Rightarrow> (Result \<times> u32 option \<times> pm_state) option" where
  "LaunchTitle E programInfo launchFlags allowAsync s =
     (let originallyDebugged = launch_flag_set E PMLAUNCHFLAG_QUEUE_DEBUG_APPLICATION launchFlags;
          launchFlags = launchFlags AND NOT (pv_flag E PMLAUNCHFLAG_USE_UPDATE_TITLE);
          launchFlags = launchFlags OR
            (if g_debugNextApplication s \<and> launch_flag_set E PMLAUNCHFLAG_NORMAL_APPLICATION launchFlags
             then pv_flag E PMLAUNCHFLAG_QUEUE_DEBUG_APPLICATION else 0);
          normal = launch_flag_set E PMLAUNCHFLAG_NORMAL_APPLICATION launchFlags in
      if preparingForReboot s then Some (0xC8A05801, None, s)
      else if wrong_core_version E (pi_programId programInfo) then None
      else
        let s = ProcessList_Lock s in
        if runningApplicationData s \<noteq> None \<and> normal then Some (0xC8A05BF0, None, ProcessList_Unlock s)
        else
          let foundProcess = ProcessList_FindProcessByTitleId (pi_programId programInfo) s; s = ProcessList_Unlock s in
          case foundProcess of
            Some n \<Rightarrow> Some (0, Some (pr_pid (pm_procs s n)), upd_proc n (clear_flag PROCESSFLAG_AUTOLOADED) s)
          | None \<Rightarrow>
              if \<not> allowAsync \<or> launch_flag_set E PMLAUNCHFLAG_QUEUE_DEBUG_APPLICATION launchFlags \<or> \<not> normal then do {
                (res, debug, pid, s) \<leftarrow> launchTitleImplWrapper E False programInfo programInfo launchFlags s;
                s \<leftarrow> (if \<not> pv_R_FAILED E res \<and> normal then application_queued E originallyDebugged s else Some s);
                Some (res, pid, s)
              }
              else Some (0, Some (- 1), TaskRunner_RunTask (LaunchTitleAsync programInfo programInfo launchFlags) s))"

definition LaunchTitleUpdate :: "pm_env \<Rightarrow> FS_ProgramInfo \<Rightarrow> FS_ProgramInfo \<Rightarrow> u32 \<Rightarrow> pm_state \<Rightarrow> (Result \<times> pm_state) option" where
  "LaunchTitleUpdate E programInfo programInfoUpdate launchFlags s =
     (let s = ProcessList_Lock s in
      if preparingForReboot s then Some (0xC8A05801, ProcessList_Unlock s)
      else if runningApplicationData s \<noteq> None then Some (0xC8A05BF0, ProcessList_Unlock s)
      else if launchFlags AND NOT (pv_flag E PMLAUNCHFLAG_NORMAL_APPLICATION) = 0 then Some (0xD8E05802, ProcessList_Unlock s)
      else
        let s = ProcessList_Unlock s;
            originallyDebugged = launch_flag_set E PMLAUNCHFLAG_QUEUE_DEBUG_APPLICATION launchFlags;
            launchFlags = launchFlags OR pv_flag E PMLAUNCHFLAG_USE_UPDATE_TITLE;
            launchFlags = launchFlags OR (if g_debugNextApplication s then pv_flag E PMLAUNCHFLAG_QUEUE_DEBUG_APPLICATION else 0) in
        if launch_flag_set E PMLAUNCHFLAG_QUEUE_DEBUG_APPLICATION launchFlags then do {
          (res, debug, pid, s) \<leftarrow> launchTitleImplWrapper E False programInfo programInfoUpdate launchFlags s;
          s \<leftarrow> (if \<not> pv_R_FAILED E res then application_queued E originallyDebugged s else Some s);
          Some (res, s)
        }
        else Some (0, TaskRunner_RunTask (LaunchTitleAsync programInfo programInfoUpdate launchFlags) s))"

definition LaunchApp :: "pm_env \<Rightarrow> FS_ProgramInfo \<Rightarrow> u32 \<Rightarrow> pm_state \<Rightarrow> (Result \<times> pm_state) option" where
  "LaunchApp E programInfo launchFlags s =
     (let s = ProcessList_Lock s in
      if runningApplicationData s \<noteq> None then Some (0xC8A05BF0, ProcessList_Unlock s)
      else do {
        (r, s) \<leftarrow> pm_assertSuccess E (setAppCpuTimeLimit E 0 s);
        (res, pid, s) \<leftarrow> LaunchTitle E programInfo
          (launchFlags OR pv_flag E PMLAUNCHFLAG_LOAD_DEPENDENCIES OR pv_flag E PMLAUNCHFLAG_NORMAL_APPLICATION) True
          (ProcessList_Unlock s);
        Some (res, s)
      })"

definition run_queued :: "pm_env \<Rightarrow> nat \<Rightarrow> pm_state \<Rightarrow> (Result \<times> Handle \<times> pm_state) option" where
  "run_queued E n s =
     (case getProgramInfo E (pr_programHandle (pm_procs s n)) s of
        (res, xh, s) \<Rightarrow>
      if pv_R_FAILED E res then Some (res, 0, s)
      else case svc_out E (SvcDebugActiveProcess (pr_pid (pm_procs s n))) s of
        (res, h, s) \<Rightarrow>
      if pv_R_FAILED E res then Some (res, 0, s)
      else case svc E (SvcRun (pr_handle (pm_procs s n)) (ci_priority (xe_core_info xh)) (xe_stack_size xh)) s of
        (res, s) \<Rightarrow>
      if \<not> pv_R_FAILED E res \<and> has_flag PROCESSFLAG_NORMAL_APPLICATION (pm_procs s n) then do {
        (r, s) \<leftarrow> notifySubscribers E 0x10C (s\<lparr>runningApplicationData := Some n\<rparr>);
        Some (res, ucast h, s)
      }
      else Some (res, ucast h, s))"

definition RunQueuedProcess :: "pm_env \<Rightarrow> pm_state \<Rightarrow> (Result \<times> Handle \<times> pm_state) option" where
  "RunQueuedProcess E s =
     (let s = ProcessList_Lock s in
      case debugData s of
        None \<Rightarrow> Some (0xD8A05804, 0, ProcessList_Unlock s)
      | Some n \<Rightarrow>
          if has_flag PROCESSFLAG_NORMAL_APPLICATION (pm_procs s n) \<and> runningApplicationData s \<noteq> None
          then Some (0xC8A05BF0, 0, ProcessList_Unlock s)
          else do {
            (x, s) \<leftarrow> new_header (s\<lparr>debugData := None\<rparr>);
            (res, debug, s) \<leftarrow> run_queued E n s;
            let s = (if pv_R_FAILED E res
                     then terminate_entry E n (upd_proc n (clear_flag PROCESSFLAG_NOTIFY_TERMINATION) s) else s);
            Some (res, debug, ProcessList_Unlock (delete_header x s))
          })"

definition LaunchAppDebug :: "pm_env \<Rightarrow> FS_ProgramInfo \<Rightarrow> u32 \<Rightarrow> pm_state \<Rightarrow> (Result \<times> Handle \<times> pm_state) option" where
  "LaunchAppDebug E programInfo launchFlags s =
     (let s = ProcessList_Lock s in
      if debugData s \<noteq> None then RunQueuedProcess E (ProcessList_Unlock s)
      else if runningApplicationData s \<noteq> None then Some (0xC8A05BF0, 0, ProcessList_Unlock s)
      else do {
        let prevdbg = g_debugNextApplication s;
        (r, s) \<leftarrow> pm_assertSuccess E (setAppCpuTimeLimit E 0 (s\<lparr>g_debugNextApplication := False\<rparr>));
        (res, debug, pid, s) \<leftarrow> launchTitleImplWrapper E True programInfo programInfo
          ((launchFlags AND NOT (pv_flag E PMLAUNCHFLAG_USE_UPDATE_TITLE)) OR pv_flag E PMLAUNCHFLAG_NORMAL_APPLICATION)
          (ProcessList_Unlock s);
        Some (res, debug, if pv_R_FAILED E res then s\<lparr>g_debugNextApplication := prevdbg\<rparr> else s)
      })"

definition autolaunchSysmodules :: "pm_env \<Rightarrow> pm_state \<Rightarrow> (Result \<times> pm_state) option" where
  "autolaunchSysmodules E s =
     (if ns_tid E \<noteq> 0 then do {
        let programInfo = \<lparr>pi_programId = ns_tid E, pi_mediaType = MEDIATYPE_NAND E\<rparr>;
        (res, debug, pid, s) \<leftarrow> launchTitleImplWrapper E False programInfo programInfo (pv_flag E PMLAUNCHFLAG_LOAD_DEPENDENCIES) s;
        Some (res, s)
      }
      else Some (0, s))"

definition DebugNextApplicationByForce :: "bool \<Rightarrow> pm_state \<Rightarrow> Result \<times> pm_state" where
  "DebugNextApplicationByForce debug s = (0, s\<lparr>g_debugNextApplication := debug\<rparr>)"

definition LaunchTitleDebug :: "pm_env \<Rightarrow> FS_ProgramInfo \<Rightarrow> u32 \<Rightarrow> pm_state \<Rightarrow> (Result \<times> Handle \<times> pm_state) option" where
  "LaunchTitleDebug E programInfo launchFlags s =
     (if launch_flag_set E PMLAUNCHFLAG_NORMAL_APPLICATION launchFlags then LaunchAppDebug E programInfo launchFlags s
      else
        let s = ProcessList_Lock s in
        if debugData s \<noteq> None then RunQueuedProcess E (ProcessList_Unlock s)
        else do {
          (res, debug, pid, s) \<leftarrow> launchTitleImplWrapper E True programInfo programInfo
            (launchFlags AND NOT (pv_flag E PMLAUNCHFLAG_USE_UPDATE_TITLE)) (ProcessList_Unlock s);
          Some (res, debug, s)
        })"

end
