(* ===== verification/Pm_Main.thy ===== *)
theory Pm_Main
  imports Pm_Launch
begin

text \<open>
  The rest of \<open>pm\<close>: the parameters of a firmware launch (\<open>firmlaunch.c\<close>), the tasks and the thread
  that runs them (\<open>task_runner.c\<close>), the commands of the two services (\<open>pmapp.c\<close>, \<open>pmdbg.c\<close>) and the
  start (\<open>main.c\<close>, \<open>manager.c\<close>). A command buffer is a function from word numbers; the buffers of
  the clients are in the memory of the state.
\<close>

section \<open>Firmware launch\<close>

definition read_client :: "pm_state \<Rightarrow> u32 \<Rightarrow> nat \<Rightarrow> u8 list" where
  "read_client s p n = map (\<lambda>i. pm_memory s (p + of_nat i)) [0..<n]"

definition write_client :: "u32 \<Rightarrow> u8 list \<Rightarrow> pm_state \<Rightarrow> pm_state" where
  "write_client p bs s =
     s\<lparr>pm_memory := fold (\<lambda>i m. m(p + of_nat i := bs ! i)) [0..<length bs] (pm_memory s)\<rparr>"

definition mapFirmlaunchParameters :: "pm_env \<Rightarrow> pm_state \<Rightarrow> pm_state option" where
  "mapFirmlaunchParameters E s = do {
     (r, s) \<leftarrow> pm_assertSuccess E (svc E (SvcKernelSetState 3 [0, 0x12000000]) s);
     Some s
   }"

definition GetFirmlaunchParams :: "u32 \<Rightarrow> u32 \<Rightarrow> pm_state \<Rightarrow> Result \<times> pm_state" where
  "GetFirmlaunchParams outParams sz s =
     (let n = (if sz \<ge> 0x1000 then 0x1000 else sz)
      in (0, write_client outParams (take (unat n) (firmlaunchParameters s)) s))"

definition SetFirmlaunchParams :: "u32 \<Rightarrow> u32 \<Rightarrow> pm_state \<Rightarrow> Result \<times> pm_state" where
  "SetFirmlaunchParams params sz s =
     (let n = (if sz \<ge> 0x1000 then 0x1000 else sz);
          s = s\<lparr>firmlaunchParameters := read_client s params (unat n) @ drop (unat n) (firmlaunchParameters s)\<rparr>
      in (0, if n < 0x1000
             then s\<lparr>firmlaunchParameters := take (unat n) (firmlaunchParameters s) @ replicate (0x1000 - unat n) 0\<rparr>
             else s))"

definition launchFirmAsync :: "pm_env \<Rightarrow> u32 \<Rightarrow> pm_state \<Rightarrow> pm_state option" where
  "launchFirmAsync E firmTidLow s = do {
     (c, s) \<leftarrow> terminateAllProcesses E (- 1) 4000000000 s;
     let firmTid = (ucast firmTidLow :: u64);
     let firmTid = (if IS_N3DS E then (firmTid AND NOT N3DS_TID_MASK) OR N3DS_TID_BIT else firmTid);
     (r, s) \<leftarrow> pm_assertSuccess E (svc E (SvcKernelSetState 0 [firmTid]) s);
     Some s
   }"

definition LaunchFirm :: "u32 \<Rightarrow> u32 \<Rightarrow> u32 \<Rightarrow> pm_state \<Rightarrow> Result \<times> pm_state" where
  "LaunchFirm firmTidLow params sz s =
     (0, TaskRunner_RunTask (LaunchFirmAsync firmTidLow) (snd (SetFirmlaunchParams params sz s)))"

section \<open>Tasks\<close>

definition sleep :: "pm_env \<Rightarrow> u64 \<Rightarrow> pm_state \<Rightarrow> pm_state" where
  "sleep E ns s = pv_others E (snd (svc E (SvcSleepThread ns) s))"

text \<open>The wait for the monitor to remove the application; it may never end.\<close>

partial_function (option) await_app_end :: "pm_env \<Rightarrow> pm_state \<Rightarrow> pm_state option" where
  "await_app_end E s =
     (let s = ProcessList_Lock (sleep E 100000000 s); app = runningApplicationData s; s = ProcessList_Unlock s
      in if app \<noteq> None then await_app_end E s else Some s)"

definition chainloadHomebrewDirtyAsync :: "pm_env \<Rightarrow> pm_state \<Rightarrow> pm_state option" where
  "chainloadHomebrewDirtyAsync E s = do {
     (x, s) \<leftarrow> new_header s;
     s \<leftarrow> begin_waiting E s;
     let s = ProcessList_Lock s;
     let app = runningApplicationData s;
     (p, s) \<leftarrow> (case app of
       Some n \<Rightarrow> do {
         let p = pm_procs s n;
         let s = upd_proc n (clear_flag (PROCESSFLAG_DEPENDENCIES_LOADED OR PROCESSFLAG_NOTIFY_TERMINATION)) s;
         (r, s) \<leftarrow> terminateProcessImpl E n s;
         Some (p, s)
       }
     | None \<Rightarrow> Some (zero_entry, s));
     let s = sleep E 50000000 (ProcessList_Unlock s);
     (res, s) \<leftarrow> commitPendingTerminations E 3000000000 s;
     let s = (delete_header x s)\<lparr>waitingForTermination := False\<rparr>;
     if app = None then Some s
     else if pv_R_FAILED E res then Some s
     else do {
       s \<leftarrow> await_app_end E s;
       let launchFlags = pr_launchFlags p AND
         NOT (pv_flag E PMLAUNCHFLAG_USE_UPDATE_TITLE OR pv_flag E PMLAUNCHFLAG_QUEUE_DEBUG_APPLICATION);
       let launchFlags = launchFlags OR PMLAUNCHFLAGEXT_FAKE_DEPENDENCY_LOADING;
       (r, s) \<leftarrow> pm_assertSuccess E (setAppCpuTimeLimit E 0 s);
       (r, pid, s) \<leftarrow> LaunchTitle E \<lparr>pi_programId = pr_titleId p, pi_mediaType = pr_mediaType p\<rparr> launchFlags False s;
       Some s
     }
   }"

fun run_task :: "pm_env \<Rightarrow> pm_task \<Rightarrow> pm_state \<Rightarrow> pm_state option" where
  "run_task E (LaunchTitleAsync pi piu launchFlags) s = launchTitleAsync E pi piu launchFlags s"
| "run_task E (TerminateProcessOrTitleAsync ident timeout useTitleId) s = terminateProcessOrTitleAsync E ident timeout useTitleId s"
| "run_task E (PrepareForRebootAsync pid timeout) s = prepareForRebootAsync E pid timeout s"
| "run_task E ChainloadHomebrewDirtyAsync s = chainloadHomebrewDirtyAsync E s"
| "run_task E (LaunchFirmAsync firmTidLow) s = launchFirmAsync E firmTidLow s"

text \<open>A round of the loop of \<open>TaskRunner_HandleTasks\<close>.\<close>

definition TaskRunner_HandleTasks :: "pm_env \<Rightarrow> pm_state \<Rightarrow> pm_state option" where
  "TaskRunner_HandleTasks E s =
     (case pm_tasks s of
        [] \<Rightarrow> Some s
      | t # ts \<Rightarrow> run_task E t (s\<lparr>pm_tasks := ts\<rparr>))"

section \<open>Commands\<close>

type_synonym pm_cmdbuf = "nat \<Rightarrow> u32"

definition cmd_u64 :: "pm_cmdbuf \<Rightarrow> nat \<Rightarrow> u64" where
  "cmd_u64 cmdbuf i = ucast (cmdbuf i) OR push_bit 32 (ucast (cmdbuf (i + 1)))"

definition cmd_program_info :: "pm_cmdbuf \<Rightarrow> nat \<Rightarrow> FS_ProgramInfo" where
  "cmd_program_info cmdbuf i = \<lparr>pi_programId = cmd_u64 cmdbuf i, pi_mediaType = cmdbuf (i + 2) AND 0xFF\<rparr>"

definition low_word :: "u64 \<Rightarrow> u32" where
  "low_word v = ucast v"

definition high_word :: "u64 \<Rightarrow> u32" where
  "high_word v = ucast (drop_bit 32 v)"

definition pm_invalid_command :: "pm_env \<Rightarrow> pm_cmdbuf \<Rightarrow> pm_state \<Rightarrow> (pm_cmdbuf \<times> pm_state) option" where
  "pm_invalid_command E cmdbuf s = Some (cmdbuf(0 := IPC_MakeHeader_pm E 0 1 0, 1 := 0xD9001830), s)"

definition pm_unknown_command :: "pm_env \<Rightarrow> pm_cmdbuf \<Rightarrow> pm_state \<Rightarrow> (pm_cmdbuf \<times> pm_state) option" where
  "pm_unknown_command E cmdbuf s = Some (cmdbuf(0 := IPC_MakeHeader_pm E 0 1 0, 1 := 0xD900182F), s)"

definition pm_reply :: "pm_env \<Rightarrow> u32 \<Rightarrow> pm_cmdbuf \<Rightarrow> (Result \<times> pm_state) option \<Rightarrow> (pm_cmdbuf \<times> pm_state) option" where
  "pm_reply E c cmdbuf r = (case r of None \<Rightarrow> None | Some (res, s) \<Rightarrow> Some (cmdbuf(0 := IPC_MakeHeader_pm E c 1 0, 1 := res), s))"

definition pmAppHandleCommands :: "pm_env \<Rightarrow> pm_cmdbuf \<Rightarrow> pm_state \<Rightarrow> (pm_cmdbuf \<times> pm_state) option" where
  "pmAppHandleCommands E cmdbuf s =
     (let cmdhdr = cmdbuf 0; c = drop_bit 16 cmdhdr; hdr = IPC_MakeHeader_pm E in
      if c = 1 then do {
        (res, pid, s) \<leftarrow> LaunchTitle E (cmd_program_info cmdbuf 1) (cmdbuf 5) True s;
        Some (cmdbuf(0 := hdr 1 2 0, 1 := res, 2 := (case pid of Some p \<Rightarrow> p | None \<Rightarrow> pv_uninitialised E)), s)
      }
      else if c = 2 then
        if cmdhdr \<noteq> hdr 2 2 2 \<or> cmdbuf 3 AND 0xF \<noteq> 0xA then pm_invalid_command E cmdbuf s
        else
          let sz = drop_bit 4 (cmdbuf 3); buf = cmdbuf 4 in
          case LaunchFirm (cmdbuf 1) buf sz s of
            (res, s) \<Rightarrow> Some (cmdbuf(0 := hdr 2 1 2, 1 := res, 2 := IPC_Desc_Buffer_R E sz, 3 := buf), s)
      else if c = 3 then pm_reply E 3 cmdbuf (TerminateApplication E (cmd_u64 cmdbuf 1) s)
      else if c = 4 then pm_reply E 4 cmdbuf (TerminateTitle E (cmd_u64 cmdbuf 1) (cmd_u64 cmdbuf 3) s)
      else if c = 5 then pm_reply E 5 cmdbuf (TerminateProcess E (cmdbuf 1) (cmd_u64 cmdbuf 2) s)
      else if c = 6 then
        if cmdhdr \<noteq> hdr 6 2 2 \<or> cmdbuf 3 \<noteq> 0x20 then pm_invalid_command E cmdbuf s
        else pm_reply E 6 cmdbuf (Some (PrepareForReboot (cmdbuf 4) (cmd_u64 cmdbuf 1) s))
      else if c = 7 then
        if cmdhdr \<noteq> hdr 7 1 2 \<or> cmdbuf 2 AND 0xF \<noteq> 0xC then pm_invalid_command E cmdbuf s
        else
          let sz = drop_bit 4 (cmdbuf 2); buf = cmdbuf 3 in
          case GetFirmlaunchParams buf sz s of
            (res, s) \<Rightarrow> Some (cmdbuf(0 := hdr 7 1 2, 1 := res, 2 := IPC_Desc_Buffer_W E sz, 3 := buf), s)
      else if c = 8 then do {
        (res, out, s) \<leftarrow> GetTitleExHeaderFlags E (cmd_program_info cmdbuf 1) s;
        let (w0, w1) = pv_core_words E (map_option fst out);
        let flags = (case out of Some (ci, flags) \<Rightarrow> flags | None \<Rightarrow> ucast (pv_uninitialised E));
        Some (cmdbuf(0 := hdr 8 5 0, 1 := res, 2 := w0, 3 := w1,
                4 := low_word (flags), 5 := high_word (flags)), s)
      }
      else if c = 9 then
        if cmdhdr \<noteq> hdr 9 1 2 \<or> cmdbuf 2 AND 0xF \<noteq> 0xA then pm_invalid_command E cmdbuf s
        else
          let sz = drop_bit 4 (cmdbuf 2); buf = cmdbuf 3 in
          case SetFirmlaunchParams buf sz s of
            (res, s) \<Rightarrow> Some (cmdbuf(0 := hdr 9 1 2, 1 := res, 2 := IPC_Desc_Buffer_R E sz, 3 := buf), s)
      else if c = 10 then
        pm_reply E 10 cmdbuf (Some (SetAppResourceLimit E (cmdbuf 1) (cmdbuf 2) (cmdbuf 3) (cmd_u64 cmdbuf 4) s))
      else if c = 11 then
        (case GetAppResourceLimit E (cmdbuf 1) (cmdbuf 2) (cmdbuf 3) (cmd_u64 cmdbuf 4) s of
           (res, v, s) \<Rightarrow>
             let v = (case v of Some v \<Rightarrow> v | None \<Rightarrow> ucast (pv_uninitialised E))
             in Some (cmdbuf(0 := hdr 11 3 0, 1 := res, 2 := low_word v, 3 := high_word v), s))
      else if c = 12 then pm_reply E 12 cmdbuf (Some (UnregisterProcess_pm E (cmd_u64 cmdbuf 1) s))
      else if c = 13 then do {
        (res, s) \<leftarrow> LaunchTitleUpdate E (cmd_program_info cmdbuf 1) (cmd_program_info cmdbuf 5) (cmdbuf 9) s;
        Some (cmdbuf(1 := res), s)
      }
      else pm_unknown_command E cmdbuf s)"

definition reply_debug :: "pm_env \<Rightarrow> u32 \<Rightarrow> pm_cmdbuf \<Rightarrow> (Result \<times> Handle \<times> pm_state) option \<Rightarrow> (pm_cmdbuf \<times> pm_state) option" where
  "reply_debug E c cmdbuf r =
     (case r of
        None \<Rightarrow> None
      | Some (res, debug, s) \<Rightarrow>
          Some (cmdbuf(0 := IPC_MakeHeader_pm E c 1 2, 1 := res, 2 := IPC_Desc_MoveHandles_pm E 1, 3 := debug), s))"

definition pmDbgHandleCommands :: "pm_env \<Rightarrow> pm_cmdbuf \<Rightarrow> pm_state \<Rightarrow> (pm_cmdbuf \<times> pm_state) option" where
  "pmDbgHandleCommands E cmdbuf s =
     (let c = drop_bit 16 (cmdbuf 0) in
      if c = 1 then reply_debug E 1 cmdbuf (LaunchAppDebug E (cmd_program_info cmdbuf 1) (cmdbuf 5) s)
      else if c = 2 then pm_reply E 2 cmdbuf (LaunchApp E (cmd_program_info cmdbuf 1) (cmdbuf 5) s)
      else if c = 3 then reply_debug E 3 cmdbuf (RunQueuedProcess E s)
      else if c = 0x100 then
        (case GetCurrentAppInfo E s of
           (res, pi, pid, launchFlags, s) \<Rightarrow>
             Some (cmdbuf(0 := IPC_MakeHeader_pm E 0x100 7 0, 1 := res,
               2 := low_word (pi_programId pi), 3 := high_word (pi_programId pi), 4 := pi_mediaType pi, 5 := 0, 6 := pid,
               7 := (case launchFlags of Some f \<Rightarrow> f | None \<Rightarrow> pv_uninitialised E)), s))
      else if c = 0x101 then pm_reply E 0x101 cmdbuf (Some (DebugNextApplicationByForce (cmdbuf 1 \<noteq> 0) s))
      else if c = 0x102 then reply_debug E 0x102 cmdbuf (LaunchTitleDebug E (cmd_program_info cmdbuf 1) (cmdbuf 5) s)
      else pm_unknown_command E cmdbuf s)"

section \<open>Start\<close>

definition Manager_Init :: "pm_env \<Rightarrow> nat \<Rightarrow> pm_state \<Rightarrow> pm_state option" where
  "Manager_Init E numProc s = do {
     let s = s\<lparr>pm_used := [], pm_unused := [0..<numProc], pm_lock := 0, runningApplicationData := None, debugData := None,
       pm_reslimits := replicate 4 0, waitingForTermination := False, preparingForReboot := False,
       maxAppCpuTime := 0, cpuTimeBase := 0\<rparr>;
     let (res, h, s) = svc_out E SvcCreateEvent s;
     if pv_R_FAILED E res then None
     else
       let s = s\<lparr>newProcessEvent := ucast h\<rparr>; (res, h, s) = svc_out E SvcCreateEvent s in
       if pv_R_FAILED E res then None else Some (s\<lparr>allNotifiedTerminationEvent := ucast h\<rparr>)
   }"

text \<open>\<open>initSystem\<close> after the services are connected, with the sizes of the two buffers, and \<open>main\<close> up to
  the service loop.\<close>

definition pm_init :: "pm_env \<Rightarrow> pm_state \<Rightarrow> pm_state option" where
  "pm_init E s = do {
     s \<leftarrow> Manager_Init E 0x40 s;
     Some (s\<lparr>pm_headers := ExHeaderInfoHeap_Init 6 (pm_headers s), pm_tasks := []\<rparr>)
   }"

definition pm_start :: "pm_env \<Rightarrow> pm_state \<Rightarrow> pm_state option" where
  "pm_start E s = do {
     let (r, s) = initializeReslimits E s;
     s \<leftarrow> Manager_RegisterKips E s;
     s \<leftarrow> mapFirmlaunchParameters E s;
     (r, s) \<leftarrow> autolaunchSysmodules E s;
     Some s
   }"

end
