(* ===== verification/Pm_Invariant.thy ===== *)
theory Pm_Invariant
  imports Pm_Main
begin

text \<open>
  The entries of processes in every state of \<open>pm\<close>: each entry of the buffer is in exactly one of the
  two lists, and the application and the process to debug are in use. Most operations leave
  the lists and the two references alone; the others are shown to keep the invariant.
\<close>

section \<open>What an operation leaves alone\<close>

definition pm_view :: "pm_state \<Rightarrow> nat list \<times> nat list \<times> nat option \<times> nat option" where
  "pm_view s = (pm_used s, pm_unused s, runningApplicationData s, debugData s)"

fun view_inv :: "nat list \<times> nat list \<times> nat option \<times> nat option \<Rightarrow> bool" where
  "view_inv (used, unused, application, debugged) \<longleftrightarrow>
     distinct (used @ unused) \<and> set (used @ unused) = {..<0x40} \<and>
     set_option application \<subseteq> set used \<and> set_option debugged \<subseteq> set used"

abbreviation pm_inv :: "pm_state \<Rightarrow> bool" where
  "pm_inv s \<equiv> view_inv (pm_view s)"

named_theorems pm_same \<open>operations that leave the lists and references alone\<close>

lemma view_updates [simp]:
  "pm_view (s\<lparr>pm_procs := x1\<rparr>) = pm_view s"
  "pm_view (s\<lparr>pm_lock := x2\<rparr>) = pm_view s"
  "pm_view (s\<lparr>pm_reslimits := x3\<rparr>) = pm_view s"
  "pm_view (s\<lparr>waitingForTermination := x4\<rparr>) = pm_view s"
  "pm_view (s\<lparr>preparingForReboot := x4\<rparr>) = pm_view s"
  "pm_view (s\<lparr>maxAppCpuTime := x5\<rparr>) = pm_view s"
  "pm_view (s\<lparr>cpuTimeBase := x5\<rparr>) = pm_view s"
  "pm_view (s\<lparr>g_debugNextApplication := x4\<rparr>) = pm_view s"
  "pm_view (s\<lparr>g_defaultAppMemLimit := x6\<rparr>) = pm_view s"
  "pm_view (s\<lparr>pm_hbldr_3dsx_tid := x7\<rparr>) = pm_view s"
  "pm_view (s\<lparr>firmlaunchParameters := x8\<rparr>) = pm_view s"
  "pm_view (s\<lparr>pm_memory := x9\<rparr>) = pm_view s"
  "pm_view (s\<lparr>pm_headers := x10\<rparr>) = pm_view s"
  "pm_view (s\<lparr>pm_tasks := x11\<rparr>) = pm_view s"
  "pm_view (s\<lparr>pm_calls := x12\<rparr>) = pm_view s"
  by (simp_all add: pm_view_def)

lemma view_used: "pm_view s' = pm_view s \<Longrightarrow> pm_used s' = pm_used s"
  by (simp add: pm_view_def)

lemma view_basic [simp]:
  "pm_view (snd (svc E c s)) = pm_view s"
  "pm_view (snd (snd (svc_out E c s))) = pm_view s"
  "pm_view (ProcessList_Lock s) = pm_view s"
  "pm_view (ProcessList_Unlock s) = pm_view s"
  "pm_view (TaskRunner_RunTask t s) = pm_view s"
  "pm_view (upd_proc n f s) = pm_view s"
  "pm_view (delete_header x s) = pm_view s"
  "pm_view (terminate_entry E n s) = pm_view s"
  "pm_view (close_debug E d h s) = pm_view s"
  "pm_view (snd (setAppMemLimit E l s)) = pm_view s"
  "pm_view (snd (setAppCpuTimeLimit E v s)) = pm_view s"
  "pm_view (set_app_memory E fl xh s) = pm_view s"
  "pm_view (snd (snd (registerProgram E pi piu s))) = pm_view s"
  "pm_view (launch_cleanup E fl res p s) = pm_view s"
  by (simp_all add: svc_def svc_out_def ProcessList_Lock_def ProcessList_Unlock_def TaskRunner_RunTask_def
      upd_proc_def delete_header_def terminate_entry_def close_debug_def setAppMemLimit_def setAppCpuTimeLimit_def
      set_app_memory_def registerProgram_def launch_cleanup_def Let_def split: option.splits)

lemma view_calls [pm_same]:
  "svc E c s = (r, s') \<Longrightarrow> pm_view s' = pm_view s"
  "svc_out E c s = (r, v, s') \<Longrightarrow> pm_view s' = pm_view s"
  "registerProgram E pi piu s = (r, v, s') \<Longrightarrow> pm_view s' = pm_view s"
  "setAppCpuTimeLimit E l s = (r, s') \<Longrightarrow> pm_view s' = pm_view s"
  "setAppMemLimit E m s = (r, s') \<Longrightarrow> pm_view s' = pm_view s"
  using view_basic(1) [of E c s] view_basic(2) [of E c s] view_basic(13) [of E pi piu s]
    view_basic(11) [of E l s] view_basic(10) [of E m s] by simp_all

lemma view_try_calls [pm_same]: "try_calls E res cs s = (res', s') \<Longrightarrow> pm_view s' = pm_view s"
  by (induction E res cs s rule: try_calls.induct) (auto split: prod.splits if_splits dest: view_calls)

lemma view_program_info [pm_same]: "getProgramInfo E h s = (r, xh, s') \<Longrightarrow> pm_view s' = pm_view s"
  by (auto simp: getProgramInfo_def split: prod.splits dest: view_calls)

lemma view_list_dependencies [pm_same]: "getAndListDependencies E h s = (r, ds, s') \<Longrightarrow> pm_view s' = pm_view s"
  by (auto simp: getAndListDependencies_def split: prod.splits if_splits dest: view_program_info)

lemma view_assert [pm_same]: "pm_assertSuccess E x = Some (r, s') \<Longrightarrow> x = (r, s')"
  by (auto simp: pm_assertSuccess_def split: if_splits)

lemma view_new_header [pm_same]: "new_header s = Some (n, s') \<Longrightarrow> pm_view s' = pm_view s"
  by (auto simp: new_header_def split: prod.splits option.splits)

lemma view_notify [pm_same]:
  "notifySubscribers E i s = Some (r, s') \<Longrightarrow> pm_view s' = pm_view s"
  "ProcessData_Notify E n i s = Some (r, s') \<Longrightarrow> pm_view s' = pm_view s"
  "ProcessData_SendTerminationNotification E n s = Some (r, s') \<Longrightarrow> pm_view s' = pm_view s"
proof -
  show "notifySubscribers E i s = Some (r, s') \<Longrightarrow> pm_view s' = pm_view s"
    by (auto simp: notifySubscribers_def Let_def split: if_splits dest: view_calls)
  show a: "ProcessData_Notify E n i s = Some (r, s') \<Longrightarrow> pm_view s' = pm_view s" for n i s r s'
    by (auto simp: ProcessData_Notify_def Let_def split: if_splits dest: view_calls)
  show "ProcessData_SendTerminationNotification E n s = Some (r, s') \<Longrightarrow> pm_view s' = pm_view s"
    by (auto simp: ProcessData_SendTerminationNotification_def bind_eq_Some_conv dest: a)
qed

lemma view_incref [pm_same]: "ProcessData_Incref n a s = Some s' \<Longrightarrow> pm_view s' = pm_view s"
  by (auto simp: ProcessData_Incref_def Let_def split: if_splits)

text \<open>A loop keeps what its body keeps.\<close>

lemma each_keeps:
  assumes "each f ns x = Some y" and "\<And>n x y. f n x = Some y \<Longrightarrow> g y = g x"
  shows "g y = g x"
  using assms(1) by (induction ns arbitrary: x) (auto split: option.splits dest: assms(2))

lemma each_invariant:
  assumes "each f ns x = Some y" and "P x" and "\<And>n x y. \<lbrakk>f n x = Some y; P x\<rbrakk> \<Longrightarrow> P y"
  shows "P y"
  using assms(1,2) by (induction ns arbitrary: x) (auto split: option.splits intro: assms(3))

lemma view_release [pm_same]:
  "release_dependency E deps n (res, s) = Some (res', s') \<Longrightarrow> pm_view s' = pm_view s"
  by (auto simp: release_dependency_def Let_def bind_eq_Some_conv split: if_splits dest!: pm_same)

lemma view_terminate_unused [pm_same]:
  assumes "terminateUnusedDependencies E deps s = Some (r, s')"
  shows "pm_view s' = pm_view s"
proof -
  obtain t where t: "each (release_dependency E deps) (pm_used (ProcessList_Lock s)) (0, ProcessList_Lock s) = Some (r, t)"
      "s' = ProcessList_Unlock t"
    using assms by (auto simp: terminateUnusedDependencies_def Let_def bind_eq_Some_conv)
  have "pm_view (snd (r, t)) = pm_view (snd (0 :: Result, ProcessList_Lock s))"
    by (rule each_keeps [OF t(1)]) (auto dest: view_release)
  then show ?thesis using t(2) by simp
qed

lemma view_list_and_terminate [pm_same]:
  "listAndTerminateDependencies E h s = Some (r, s') \<Longrightarrow> pm_view s' = pm_view s"
  by (auto simp: listAndTerminateDependencies_def split: prod.splits if_splits dest!: pm_same)

lemma view_terminate [pm_same]:
  "terminateProcessImpl E n s = Some (r, s') \<Longrightarrow> pm_view s' = pm_view s"
  "terminateProcessByIdChecked E pid s = Some s' \<Longrightarrow> pm_view s' = pm_view s"
  by (auto simp: terminateProcessImpl_def terminateProcessByIdChecked_def bind_eq_Some_conv
      split: prod.splits if_splits option.splits dest!: pm_same)

lemma view_begin_waiting [pm_same]: "begin_waiting E s = Some s' \<Longrightarrow> pm_view s' = pm_view s"
  by (auto simp: begin_waiting_def bind_eq_Some_conv dest!: pm_same)

lemma view_merge_refcounts [pm_same]:
  assumes "listMergeUniqueDependencies E ds xh s = Some (ds', s')"
  shows "pm_view s' = pm_view s"
proof -
  obtain cs es t where t: "each (apply_refcount cs) [0..<length es] (es, ProcessList_Lock s) = Some (ds', t)"
      "s' = ProcessList_Unlock t"
    using assms by (auto simp: listMergeUniqueDependencies_def Let_def bind_eq_Some_conv)
  have "pm_view (snd (ds', t)) = pm_view (snd (es, ProcessList_Lock s))"
    by (rule each_keeps [OF t(1)]) (auto simp: apply_refcount_def split: option.splits dest!: pm_same)
  then show ?thesis using t(2) by simp
qed

lemma view_sched_mode [pm_same]:
  "setAppCpuTimeLimitAndSchedModeFromDescriptor E t d s = Some s' \<Longrightarrow> pm_view s' = pm_view s"
  by (auto simp: setAppCpuTimeLimitAndSchedModeFromDescriptor_def Let_def bind_eq_Some_conv
      split: if_splits prod.splits dest!: pm_same)

lemma view_announce_end [pm_same]: "announce_end E deps c n s = Some s' \<Longrightarrow> pm_view s' = pm_view s"
  by (auto simp: announce_end_def Let_def bind_eq_Some_conv split: if_splits dest!: pm_same)

lemma view_announce_each [pm_same]: "each (announce_end E deps c) ns s = Some s' \<Longrightarrow> pm_view s' = pm_view s"
  by (erule each_keeps) (rule view_announce_end)

lemma view_announce_all [pm_same]: "announce_all E deps c s = Some s' \<Longrightarrow> pm_view s' = pm_view s"
  by (auto simp: announce_all_def Let_def bind_eq_Some_conv split: if_splits option.splits dest!: pm_same)

lemma view_mount [pm_same]: "forceMountSdCard E s = Some s' \<Longrightarrow> pm_view s' = pm_view s"
  by (auto simp: forceMountSdCard_def bind_eq_Some_conv dest!: pm_same)

lemma view_remaining [pm_same]: "remaining_time E d s = (v, s') \<Longrightarrow> pm_view s' = pm_view s"
  by (auto simp: remaining_time_def Let_def split: prod.splits dest!: pm_same)

lemma view_caller_dependencies [pm_same]: "list_caller_dependencies E pid s = (c, ds, s') \<Longrightarrow> pm_view s' = pm_view s"
  by (auto simp: list_caller_dependencies_def Let_def split: prod.splits if_splits option.splits dest!: pm_same)

section \<open>Operations that keep the invariant\<close>

text \<open>While a thread waits, the others may run; what they do is to keep the invariant as well.\<close>

definition pm_rely :: "pm_env \<Rightarrow> bool" where
  "pm_rely E \<longleftrightarrow> (\<forall>s. pm_inv s \<longrightarrow> pm_inv (pv_others E s))"

named_theorems pm_keeps \<open>operations that keep the invariant\<close>

lemma inv_wait [pm_keeps]: "\<lbrakk>wait_all_notified E t s = Some (r, s'); pm_rely E\<rbrakk> \<Longrightarrow> pm_inv s \<longrightarrow> pm_inv s'"
  by (auto simp: wait_all_notified_def bind_eq_Some_conv pm_rely_def dest!: pm_same)

lemma view_marked: "pm_view (snd (fold (terminate_marked E st) ns x)) = pm_view (snd x)"
proof (induction ns arbitrary: x)
  case (Cons n ns)
  have "pm_view (snd (terminate_marked E st n x)) = pm_view (snd x)" by (cases x) (simp add: terminate_marked_def)
  then show ?case by (simp add: Cons.IH)
qed simp

lemma view_marked_pair [pm_same]: "fold (terminate_marked E st) ns (r, s) = (r', s') \<Longrightarrow> pm_view s' = pm_view s"
  using view_marked [of E st ns "(r, s)"] by simp

lemma inv_commit [pm_keeps]:
  assumes "commitPendingTerminations E t s = Some (r, s')" and "pm_rely E"
  shows "pm_inv s \<longrightarrow> pm_inv s'"
  using assms by (auto simp: commitPendingTerminations_def Let_def bind_eq_Some_conv view_marked
      split: prod.splits if_splits dest!: view_marked_pair inv_wait)

lemma inv_terminate_target [pm_same]:
  "terminate_target E n (x, s) = Some (y, s') \<Longrightarrow> pm_view s' = pm_view s"
  by (auto simp: terminate_target_def Let_def bind_eq_Some_conv split: if_splits dest!: pm_same)

lemma view_each_target [pm_same]:
  assumes "each (terminate_target E) ns (x, s) = Some (y, s')"
  shows "pm_view s' = pm_view s"
proof -
  have "pm_view (snd (y, s')) = pm_view (snd (x, s))" by (rule each_keeps [OF assms]) (auto dest: pm_same)
  then show ?thesis by simp
qed

lemma inv_terminate_async [pm_keeps]:
  assumes "terminateProcessOrTitleAsync E i t u s = Some s'" and "pm_rely E"
  shows "pm_inv s \<longrightarrow> pm_inv s'"
  using assms by (auto simp: terminateProcessOrTitleAsync_def Let_def bind_eq_Some_conv
      split: if_splits option.splits dest!: pm_same inv_commit)

lemma view_terminate_request [pm_same]:
  assumes "TerminateProcessOrTitle E i t u s = Some (r, s')"
  shows "pm_view s' = pm_view s"
proof -
  have e: "each (\<lambda>n s. do { (r, s) \<leftarrow> pm_assertSuccess E (svc E (SvcTerminateProcess (pr_handle (pm_procs s n))) s); Some s }) ns a = Some b
      \<Longrightarrow> pm_view b = pm_view a" for ns a b
    by (erule each_keeps) (auto simp: bind_eq_Some_conv dest!: pm_same)
  show ?thesis using assms
    by (auto simp: TerminateProcessOrTitle_def Let_def bind_eq_Some_conv split: if_splits dest!: e)
qed

lemma inv_terminate_application [pm_keeps]:
  assumes "TerminateApplication E t s = Some (r, s')" and "pm_rely E"
  shows "pm_inv s \<longrightarrow> pm_inv s'"
  using assms by (auto simp: TerminateApplication_def Let_def bind_eq_Some_conv
      split: if_splits option.splits dest!: pm_same inv_commit)

lemma view_remaining_snd [simp]: "pm_view (snd (remaining_time E d s)) = pm_view s"
  by (metis prod.collapse view_remaining)

lemma view_caller_dependencies_snd [simp]: "pm_view (snd (snd (list_caller_dependencies E pid s))) = pm_view s"
  by (metis prod.collapse view_caller_dependencies)

lemma inv_terminate_all [pm_keeps]:
  assumes "terminateAllProcesses E pid t s = Some (c, s')" and "pm_rely E"
  shows "pm_inv s \<longrightarrow> pm_inv s'"
  using assms by (auto simp: terminateAllProcesses_def Let_def bind_eq_Some_conv case_prod_beta
      split: if_splits option.splits dest!: pm_same inv_commit)

section \<open>Launches\<close>

abbreviation in_use :: "pm_state \<Rightarrow> nat set" where
  "in_use s \<equiv> set (fst (pm_view s))"

text \<open>A launch adds entries and takes none away.\<close>

definition pm_grows :: "pm_state \<Rightarrow> pm_state \<Rightarrow> bool" where
  "pm_grows s s' \<longleftrightarrow> (pm_inv s \<longrightarrow> pm_inv s') \<and> in_use s \<subseteq> in_use s'"

lemma grows_trans [trans]: "\<lbrakk>pm_grows s t; pm_grows t u\<rbrakk> \<Longrightarrow> pm_grows s u"
  by (auto simp: pm_grows_def)

lemma grows_view: "pm_view s' = pm_view s \<Longrightarrow> pm_grows s s'"
  by (simp add: pm_grows_def)

lemma grows_cong: "\<lbrakk>pm_view s' = pm_view s; pm_view t' = pm_view t\<rbrakk> \<Longrightarrow> pm_grows s' t' = pm_grows s t"
  by (simp add: pm_grows_def)

lemma grows_new:
  assumes "ProcessList_New s = Some (n, s')"
  shows "pm_grows s s' \<and> n \<in> in_use s'"
  using assms by (auto simp: ProcessList_New_def pm_grows_def pm_view_def split: list.splits)

lemma view_try_calls_snd [simp]: "pm_view (snd (try_calls E res cs s)) = pm_view s"
  by (metis prod.collapse view_try_calls)

lemma grows_insert:
  assumes "insert_process E h pid ph pi fl xh s = Some (n, s')"
  shows "pm_grows s s' \<and> n \<in> in_use s'"
  using assms by (auto simp: insert_process_def Let_def bind_eq_Some_conv pm_grows_def dest!: grows_new)

lemma view_setup_process:
  "setup_process E d n cs pid fl xh s = Some (res, h, s') \<Longrightarrow> pm_view s' = pm_view s"
  by (auto simp: setup_process_def bind_eq_Some_conv case_prod_beta split: if_splits dest!: view_sched_mode)

lemma grows_load:
  assumes "loadWithoutDependencies E d h pi fl xh s = Some (res, debug, p, s')"
  shows "pm_grows s s' \<and> set_option p \<subseteq> in_use s'"
  using assms by (auto simp: loadWithoutDependencies_def Let_def bind_eq_Some_conv pm_grows_def
      split: if_splits prod.splits dest!: grows_insert pm_same view_setup_process)

lemma grows_refs:
  assumes "set_option x \<subseteq> in_use s"
  shows "pm_grows s (s\<lparr>runningApplicationData := x\<rparr>)" and "pm_grows s (s\<lparr>debugData := x\<rparr>)"
  using assms by (auto simp: pm_grows_def pm_view_def)

lemma grows_start:
  assumes "start_process E fl res n xh s = Some (res', s')" and "n \<in> in_use s"
  shows "pm_grows s s'"
proof -
  have r: "pm_grows s v" if "pm_view t = pm_view s" "pm_view v = pm_view (t\<lparr>runningApplicationData := Some n\<rparr>)" for t v
    using grows_refs(1) [of "Some n" t] assms(2) that by (simp add: pm_grows_def)
  show ?thesis using assms grows_refs(2) [of "Some n" s]
    by (auto simp: start_process_def bind_eq_Some_conv split: if_splits prod.splits dest!: pm_same intro: grows_view r)
qed

lemma view_open_title: "open_title E pi piu s = (res, h, xh, s') \<Longrightarrow> pm_view s' = pm_view s"
  by (auto simp: open_title_def Let_def split: prod.splits if_splits dest!: pm_same)

definition ok_loader :: "loader_fun \<Rightarrow> bool" where
  "ok_loader ld \<longleftrightarrow> (\<forall>d h pi fl xh s res debug p s'. ld d h pi fl xh s = Some (res, debug, p, s') \<longrightarrow>
      pm_grows s s' \<and> set_option p \<subseteq> in_use s')"

lemma ok_loaderD:
  "\<lbrakk>ld d h pi fl xh s = Some (res, debug, p, s'); ok_loader ld\<rbrakk> \<Longrightarrow> pm_grows s s' \<and> set_option p \<subseteq> in_use s'"
  by (auto simp: ok_loader_def)

lemma ok_load: "ok_loader (loadWithoutDependencies E)"
  using grows_load by (auto simp: ok_loader_def)

lemma ok_run_title:
  assumes "ok_loader ld"
  shows "ok_loader (run_title E ld)"
proof (unfold ok_loader_def, intro allI impI)
  fix d h pi fl xh s res debug p s'
  assume r: "run_title E ld d h pi fl xh s = Some (res, debug, p, s')"
  obtain res1 t where t: "pm_grows s t" "set_option p \<subseteq> in_use t"
      "(\<exists>n u. p = Some n \<and> start_process E fl res1 n xh (ProcessList_Lock t) = Some (res, u) \<and> s' = launch_cleanup E fl res p u)
       \<or> s' = launch_cleanup E fl res p t"
  proof -
    obtain res1 t where l: "(if launch_flag_set E PMLAUNCHFLAG_LOAD_DEPENDENCIES fl then ld d h pi fl xh (set_app_memory E fl xh s)
          else loadWithoutDependencies E d h pi fl xh (set_app_memory E fl xh s)) = Some (res1, debug, p, t)"
        "(\<exists>n u. p = Some n \<and> start_process E fl res1 n xh (ProcessList_Lock t) = Some (res, u) \<and> s' = launch_cleanup E fl res p u)
         \<or> s' = launch_cleanup E fl res p t"
      using r by (auto simp: run_title_def bind_eq_Some_conv Let_def split: if_splits)
    have "pm_grows (set_app_memory E fl xh s) t \<and> set_option p \<subseteq> in_use t"
      using l(1) ok_loaderD [OF _ assms] ok_loaderD [OF _ ok_load] by (auto split: if_splits)
    with l(2) show thesis by (intro that) (auto simp: pm_grows_def)
  qed
  from t(3) show "pm_grows s s' \<and> set_option p \<subseteq> in_use s'"
  proof
    assume "\<exists>n u. p = Some n \<and> start_process E fl res1 n xh (ProcessList_Lock t) = Some (res, u) \<and> s' = launch_cleanup E fl res p u"
    then obtain n u where u: "p = Some n" "start_process E fl res1 n xh (ProcessList_Lock t) = Some (res, u)"
        "s' = launch_cleanup E fl res p u" by auto
    have "pm_grows (ProcessList_Lock t) u" using grows_start [OF u(2)] u(1) t(2) by simp
    then show ?thesis using t(1,2) u(3) by (auto simp: pm_grows_def)
  next
    assume "s' = launch_cleanup E fl res p t"
    then show ?thesis using t(1,2) by (simp add: pm_grows_def)
  qed
qed

lemma launch_cases:
  assumes "launch_title_with E ld d pi piu fl s = Some (res, debug, p, xh, s')"
  obtains (none) "p = None" "xh = None" "pm_view s' = pm_view s"
    | (run) h x t where "xh = Some x" "pm_view t = pm_view s" "run_title E ld d h pi (adjust_launch_flags E fl) x t = Some (res, debug, p, s')"
proof (cases "isTitleLaunchPrevented E (pi_programId pi)")
  case True
  then show thesis using assms by (intro none) (simp_all add: launch_title_with_def)
next
  case False
  obtain u where u: "(case open_title E pi u s of
          (res, h, None, s) \<Rightarrow> Some (res, 0, None, None, s)
        | (res, h, Some xh, s) \<Rightarrow> do {
            (res, debug, process, s) \<leftarrow> run_title E ld d h pi (adjust_launch_flags E fl) xh s;
            Some (res, debug, process, Some xh, s)
          }) = Some (res, debug, p, xh, s')"
    using assms False by (auto simp: launch_title_with_def Let_def bind_eq_Some_conv simp del: split_paired_Ex)
  obtain r h y t where o: "open_title E pi u s = (r, h, y, t)" by (metis prod.exhaust)
  show thesis
  proof (cases y)
    case None
    then show thesis using u o view_open_title [OF o] by (intro none) auto
  next
    case (Some x)
    then show thesis using u o view_open_title [OF o] by (intro run [of x t h]) (auto simp: bind_eq_Some_conv)
  qed
qed

lemma grows_launch:
  assumes "launch_title_with E ld d pi piu fl s = Some (res, debug, p, xh, s')" and "ok_loader ld"
  shows "pm_grows s s' \<and> set_option p \<subseteq> in_use s'"
  using assms(1)
proof (cases rule: launch_cases)
  case none
  then show ?thesis by (simp add: pm_grows_def)
next
  case (run h x t)
  then show ?thesis using ok_loaderD [OF run(3) ok_run_title [OF assms(2)]] by (simp add: pm_grows_def)
qed

lemma grows_dependency:
  assumes "launch_dependency E t s = Some (res, debug, p, xh, s')"
  shows "pm_grows s s'"
  using grows_launch [OF assms [unfolded launch_dependency_def]] by (simp add: ok_loader_def)

lemma grows_loop:
  assumes "dependency_loop E is (res, ds, s) = Some (res', f, s')"
  shows "pm_grows s s'"
  using assms
proof (induction "is" arbitrary: res ds s)
  case Nil
  then show ?case by (simp add: grows_view)
next
  case (Cons i "is")
  show ?case
  proof (cases "i \<ge> length ds \<or> dp_proc (ds ! i) \<noteq> None")
    case True
    then show ?thesis using Cons by (auto simp: grows_view split: if_splits)
  next
    case False
    then obtain r d p xh t where t: "launch_dependency E (dp_id (ds ! i)) s = Some (r, d, p, xh, t)"
      using Cons.prems by (auto simp: bind_eq_Some_conv)
    have g: "pm_grows s t" by (rule grows_dependency [OF t])
    have "pm_grows t s'"
    proof (cases "pv_R_FAILED E r")
      case True
      then show ?thesis using Cons.prems False t by (auto simp: grows_view split: option.splits dest: Cons.IH)
    next
      case no: False
      show ?thesis using Cons.prems False t no
        by (auto simp: Let_def bind_eq_Some_conv pm_grows_def dest!: Cons.IH pm_same)
    qed
    with g show ?thesis by (rule grows_trans)
  qed
qed

lemma grows_load_dependencies:
  assumes "load_dependencies E res n fl xh s = Some (r, f, s')"
  shows "pm_grows s s'"
proof -
  obtain ds t where t: "listMergeUniqueDependencies E [] xh s = Some (ds, t)"
    using assms by (auto simp: load_dependencies_def bind_eq_Some_conv)
  let ?u = "if length ds > 0 then upd_proc n (set_flag PROCESSFLAG_DEPENDENCIES_LOADED) t else t"
  let ?ds = "if fl AND PMLAUNCHFLAGEXT_FAKE_DEPENDENCY_LOADING \<noteq> 0 then [] else ds"
  have "dependency_loop E [0..<48] (res, ?ds, ?u) = Some (r, f, s')"
    using assms t by (simp only: load_dependencies_def Let_def option.simps bind.bind_lunit prod.case)
  then have "pm_grows ?u s'" by (rule grows_loop)
  moreover have "pm_view ?u = pm_view s" using view_merge_refcounts [OF t] by simp
  ultimately show ?thesis by (simp add: pm_grows_def)
qed

lemma ok_with_dependencies: "ok_loader (loadWithDependencies E)"
proof (unfold ok_loader_def, intro allI impI)
  fix d h pi fl xh s res debug p s'
  assume r: "loadWithDependencies E d h pi fl xh s = Some (res, debug, p, s')"
  obtain r1 d1 t where t: "loadWithoutDependencies E d h pi fl xh s = Some (r1, d1, p, t)"
    using r by (auto simp: loadWithDependencies_def bind_eq_Some_conv Let_def split: if_splits option.splits)
  note g = grows_load [OF t]
  have "pm_grows t s'"
  proof (cases "pv_R_FAILED E r1")
    case True
    then show ?thesis using r t
      by (auto simp: loadWithDependencies_def Let_def split: option.splits intro: grows_view)
  next
    case False
    then obtain x u n r2 f v where u: "new_header t = Some (x, u)" "load_dependencies E r1 n fl xh u = Some (r2, f, v)"
        "pm_view s' = pm_view v"
      using r t by (auto simp: loadWithDependencies_def bind_eq_Some_conv Let_def split: option.splits)
    then show ?thesis using grows_load_dependencies [OF u(2)] view_new_header [OF u(1)] by (simp add: pm_grows_def)
  qed
  then show "pm_grows s s' \<and> set_option p \<subseteq> in_use s'" using g by (auto simp: pm_grows_def)
qed

lemma grows_launchTitleImpl:
  "launchTitleImpl E d pi piu fl s = Some (res, debug, p, xh, s') \<Longrightarrow> pm_grows s s'"
  using grows_launch [OF _ ok_with_dependencies] by (auto simp: launchTitleImpl_def)

lemma inv_wrapper [pm_keeps]:
  "launchTitleImplWrapper E d pi piu fl s = Some (res, debug, p, s') \<Longrightarrow> pm_inv s \<longrightarrow> pm_inv s'"
  by (auto simp: launchTitleImplWrapper_def Let_def bind_eq_Some_conv pm_grows_def
      split: if_splits dest!: grows_launchTitleImpl pm_same)

lemma inv_queued [pm_keeps]: "application_queued E b s = Some s' \<Longrightarrow> pm_inv s \<longrightarrow> pm_inv s'"
  by (auto simp: application_queued_def Let_def bind_eq_Some_conv split: if_splits dest!: pm_same)

lemma inv_LaunchTitle [pm_keeps]: "LaunchTitle E pi fl b s = Some (res, p, s') \<Longrightarrow> pm_inv s \<longrightarrow> pm_inv s'"
  by (auto simp: LaunchTitle_def Let_def bind_eq_Some_conv split: if_splits option.splits dest!: inv_wrapper inv_queued)

lemma inv_LaunchTitleUpdate [pm_keeps]: "LaunchTitleUpdate E pi piu fl s = Some (res, s') \<Longrightarrow> pm_inv s \<longrightarrow> pm_inv s'"
  by (auto simp: LaunchTitleUpdate_def Let_def bind_eq_Some_conv split: if_splits dest!: inv_wrapper inv_queued)

lemma inv_LaunchApp [pm_keeps]: "LaunchApp E pi fl s = Some (res, s') \<Longrightarrow> pm_inv s \<longrightarrow> pm_inv s'"
  by (auto simp: LaunchApp_def Let_def bind_eq_Some_conv split: if_splits dest!: inv_LaunchTitle pm_same)

lemma inv_run_queued:
  assumes "run_queued E n s = Some (res, h, s')" and "n \<in> in_use s"
  shows "pm_grows s s'"
proof -
  have r: "pm_grows s v" if "pm_view t = pm_view s" "pm_view v = pm_view (t\<lparr>runningApplicationData := Some n\<rparr>)" for t v
    using grows_refs(1) [of "Some n" t] assms(2) that by (simp add: pm_grows_def)
  show ?thesis using assms
    by (auto simp: run_queued_def bind_eq_Some_conv split: if_splits prod.splits dest!: pm_same intro: grows_view r)
qed

lemma inv_RunQueuedProcess [pm_keeps]:
  assumes "RunQueuedProcess E s = Some (res, h, s')"
  shows "pm_inv s \<longrightarrow> pm_inv s'"
proof
  assume i: "pm_inv s"
  show "pm_inv s'"
  proof (cases "debugData (ProcessList_Lock s)")
    case None
    then show ?thesis using assms i by (auto simp: RunQueuedProcess_def Let_def)
  next
    case (Some n)
    have n: "n \<in> in_use s" using Some i by (auto simp: pm_view_def ProcessList_Lock_def)
    have i0: "pm_inv (ProcessList_Lock s\<lparr>debugData := None\<rparr>)" using i by (simp add: pm_view_def ProcessList_Lock_def)
    have u: "in_use (ProcessList_Lock s\<lparr>debugData := None\<rparr>) = in_use s" by (simp add: pm_view_def ProcessList_Lock_def)
    show ?thesis
    proof (cases "has_flag PROCESSFLAG_NORMAL_APPLICATION (pm_procs (ProcessList_Lock s) n) \<and> runningApplicationData (ProcessList_Lock s) \<noteq> None")
      case True
      then show ?thesis using assms i Some by (auto simp: RunQueuedProcess_def Let_def)
    next
      case False
      then obtain x t r u where t: "new_header (ProcessList_Lock s\<lparr>debugData := None\<rparr>) = Some (x, t)"
          "run_queued E n t = Some (r, h, u)" "pm_view s' = pm_view u"
        using assms Some by (auto simp: RunQueuedProcess_def Let_def bind_eq_Some_conv split: if_splits)
      have v: "pm_view t = pm_view (ProcessList_Lock s\<lparr>debugData := None\<rparr>)" by (rule view_new_header [OF t(1)])
      have "pm_grows t u" by (rule inv_run_queued [OF t(2)]) (use n u v in simp)
      then show ?thesis using i0 v t(3) by (simp add: pm_grows_def)
    qed
  qed
qed

lemma inv_LaunchAppDebug [pm_keeps]: "LaunchAppDebug E pi fl s = Some (res, h, s') \<Longrightarrow> pm_inv s \<longrightarrow> pm_inv s'"
  by (auto simp: LaunchAppDebug_def Let_def bind_eq_Some_conv split: if_splits dest!: inv_wrapper inv_RunQueuedProcess pm_same)

lemma inv_LaunchTitleDebug [pm_keeps]: "LaunchTitleDebug E pi fl s = Some (res, h, s') \<Longrightarrow> pm_inv s \<longrightarrow> pm_inv s'"
  by (auto simp: LaunchTitleDebug_def Let_def bind_eq_Some_conv split: if_splits
      dest!: inv_wrapper inv_RunQueuedProcess inv_LaunchAppDebug)

lemma inv_autolaunch [pm_keeps]: "autolaunchSysmodules E s = Some (res, s') \<Longrightarrow> pm_inv s \<longrightarrow> pm_inv s'"
  by (auto simp: autolaunchSysmodules_def Let_def bind_eq_Some_conv split: if_splits dest!: inv_wrapper)

end
