(* ===== verification/Pm_Steps.thy ===== *)
theory Pm_Steps
  imports Pm_Invariant
begin

text \<open>
  The steps of \<open>pm\<close>: a command of one of its services, the notification that restarts a homebrew
  application, a task of the task runner and a round of the process monitor; and the states
  reached from the start by these steps.
\<close>

section \<open>The end of a process\<close>

text \<open>The dependencies of a process are released without a change of a handle.\<close>

definition pm_handles :: "pm_state \<Rightarrow> nat \<Rightarrow> Handle" where
  "pm_handles s n = pr_handle (pm_procs s n)"

lemma handles_basic [simp]:
  "pm_handles (snd (svc E c s)) = pm_handles s"
  "pm_handles (ProcessList_Lock s) = pm_handles s"
  "pm_handles (ProcessList_Unlock s) = pm_handles s"
  "pm_handles (delete_header x s) = pm_handles s"
  "pm_handles (ProcessList_Delete n s) = pm_handles s"
  "pm_handles (s\<lparr>runningApplicationData := r\<rparr>) = pm_handles s"
  by (simp_all add: svc_def ProcessList_Lock_def ProcessList_Unlock_def delete_header_def ProcessList_Delete_def pm_handles_def fun_eq_iff)

lemma handles_upd [simp]: "(\<And>p. pr_handle (f p) = pr_handle p) \<Longrightarrow> pm_handles (upd_proc n f s) = pm_handles s"
  by (auto simp: upd_proc_def pm_handles_def fun_eq_iff)

lemma handles_calls: "svc E c s = (r, s') \<Longrightarrow> pm_handles s' = pm_handles s"
  using handles_basic(1) [of E c s] by simp

lemma handles_program_info: "getAndListDependencies E h s = (r, ds, s') \<Longrightarrow> pm_handles s' = pm_handles s"
  by (auto simp: getAndListDependencies_def getProgramInfo_def split: prod.splits if_splits dest!: handles_calls)

lemma handles_release: "release_dependency E deps n (res, s) = Some (res', s') \<Longrightarrow> pm_handles s' = pm_handles s"
  by (auto simp: release_dependency_def ProcessData_SendTerminationNotification_def ProcessData_Notify_def Let_def
      bind_eq_Some_conv split: if_splits dest!: handles_calls view_assert)

lemma handles_terminate_unused:
  assumes "terminateUnusedDependencies E deps s = Some (r, s')"
  shows "pm_handles s' = pm_handles s"
proof -
  obtain t where t: "each (release_dependency E deps) (pm_used (ProcessList_Lock s)) (0, ProcessList_Lock s) = Some (r, t)"
      "s' = ProcessList_Unlock t"
    using assms by (auto simp: terminateUnusedDependencies_def Let_def bind_eq_Some_conv)
  have "pm_handles (snd (r, t)) = pm_handles (snd (0 :: Result, ProcessList_Lock s))"
    by (rule each_keeps [OF t(1)]) (auto dest: handles_release)
  then show ?thesis using t(2) by simp
qed

lemma handles_list_and_terminate:
  "listAndTerminateDependencies E h s = Some (r, s') \<Longrightarrow> pm_handles s' = pm_handles s"
  by (auto simp: listAndTerminateDependencies_def split: prod.splits if_splits
      dest!: handles_terminate_unused handles_program_info)

lemma handles_new_header: "new_header s = Some (x, s') \<Longrightarrow> pm_handles s' = pm_handles s"
  by (auto simp: new_header_def pm_handles_def fun_eq_iff split: prod.splits option.splits)

definition without_handle :: "Handle \<Rightarrow> pm_state \<Rightarrow> nat option \<Rightarrow> nat option" where
  "without_handle h s r = (case r of Some n \<Rightarrow> if pm_handles s n = h then None else Some n | None \<Rightarrow> None)"

lemma without_handle_cong: "pm_handles t = pm_handles s \<Longrightarrow> without_handle h t r = without_handle h s r"
  by (simp add: without_handle_def split: option.splits)

lemma release_all_same:
  assumes "release_all E p s = Some s'"
  shows "pm_view s' = pm_view s" and "pm_handles s' = pm_handles s"
proof -
  show "pm_view s' = pm_view s" using assms
    by (auto simp: release_all_def bind_eq_Some_conv split: if_splits dest!: view_new_header view_list_and_terminate)
  show "pm_handles s' = pm_handles s" using assms
    by (auto simp: release_all_def bind_eq_Some_conv split: if_splits dest!: handles_new_header handles_list_and_terminate)
qed

lemma unregister_all_same [simp]: "pm_view (unregister_all E p s) = pm_view s" "pm_handles (unregister_all E p s) = pm_handles s"
  by (simp_all add: unregister_all_def Let_def)

lemma memory_reset_same:
  assumes "pm_assertSuccess E (resetAppMemLimit E s) = Some (r, s')"
  shows "pm_view s' = pm_view s" and "pm_handles s' = pm_handles s"
proof -
  show "pm_view s' = pm_view s" using assms
    by (auto simp: pm_assertSuccess_def resetAppMemLimit_def setAppMemLimit_def split: if_splits dest!: view_calls(1))
  show "pm_handles s' = pm_handles s" using assms
    by (auto simp: pm_assertSuccess_def resetAppMemLimit_def setAppMemLimit_def split: if_splits dest!: handles_calls)
qed

lemma forget_application_effect:
  assumes "forget_application E h s = Some s'"
  shows "pm_handles s' = pm_handles s" and "pm_used s' = pm_used s" and "pm_unused s' = pm_unused s" and "debugData s' = debugData s"
    and "runningApplicationData s' = without_handle h s (runningApplicationData s)"
proof -
  have tid: "pm_handles (t\<lparr>pm_hbldr_3dsx_tid := v\<rparr>) = pm_handles t" for t v by (simp add: pm_handles_def fun_eq_iff)
  have r: "pm_handles t = pm_handles s \<and> pm_used t = pm_used s \<and> pm_unused t = pm_unused s \<and> debugData t = debugData s"
    if "pm_assertSuccess E (resetAppMemLimit E s) = Some (x, t)" for x t
    using memory_reset_same [OF that] by (simp add: pm_view_def)
  have "pm_handles s' = pm_handles s \<and> pm_used s' = pm_used s \<and> pm_unused s' = pm_unused s \<and> debugData s' = debugData s \<and>
      runningApplicationData s' = without_handle h s (runningApplicationData s)"
    using assms by (auto simp: forget_application_def bind_eq_Some_conv tid without_handle_def pm_handles_def
        split: option.splits if_splits dest!: r)
  then show "pm_handles s' = pm_handles s" "pm_used s' = pm_used s" "pm_unused s' = pm_unused s" "debugData s' = debugData s"
      "runningApplicationData s' = without_handle h s (runningApplicationData s)" by simp_all
qed

lemma forget_debugged_effect [simp]:
  "pm_used (forget_debugged h s) = pm_used s" "pm_unused (forget_debugged h s) = pm_unused s"
  "runningApplicationData (forget_debugged h s) = runningApplicationData s"
  "debugData (forget_debugged h s) = without_handle h s (debugData s)"
  by (auto simp: forget_debugged_def without_handle_def pm_handles_def split: option.splits)

lemma cleanup_effect:
  assumes "cleanupProcess E p s = Some s'"
  shows "pm_view s' = (pm_used s, pm_unused s, without_handle (pr_handle p) s (runningApplicationData s),
    without_handle (pr_handle p) s (debugData s))"
proof -
  obtain a c where a: "release_all E p s = Some a"
    and c: "forget_application E (pr_handle p) (ProcessList_Lock (unregister_all E p a)) = Some c"
    and s': "pm_view s' = pm_view (forget_debugged (pr_handle p) c)"
    using assms by (auto simp: cleanupProcess_def Let_def bind_eq_Some_conv split: if_splits dest!: view_notify(1))
  let ?b = "ProcessList_Lock (unregister_all E p a)"
  have b: "pm_view ?b = pm_view s" "pm_handles ?b = pm_handles s" using release_all_same [OF a] by simp_all
  have w: "without_handle h ?b r = without_handle h s r" "without_handle h c r = without_handle h s r" for h r
    using b(2) forget_application_effect(1) [OF c] by (simp_all add: without_handle_def split: option.splits)
  show ?thesis using s' b(1) forget_application_effect [OF c] by (simp add: pm_view_def w)
qed

text \<open>A process that has ended is not the application afterwards, nor the one to debug.\<close>

lemma inv_process_ended [pm_keeps]:
  assumes "process_ended E h s = Some s'"
  shows "pm_inv s \<longrightarrow> pm_inv s'"
proof
  assume i: "pm_inv s"
  show "pm_inv s'"
  proof (cases "ProcessList_FindProcessByHandle h (ProcessList_Lock s)")
    case None
    then show ?thesis using assms i by (auto simp: process_ended_def Let_def)
  next
    case (Some n)
    then have n: "n \<in> set (pm_used s)" by (auto simp: ProcessList_FindProcessByHandle_def ProcessList_Lock_def find_Some_iff)
    let ?s2 = "mark_ended n (ProcessList_Lock s)"
    let ?p = "pm_procs ?s2 n"
    let ?s3 = "if has_flag PROCESSFLAG_NOTIFY_TERMINATION_TERMINATED ?p then ?s2 else ProcessList_Delete n ?s2"
    have v2: "pm_view ?s2 = pm_view s" "pm_handles ?s2 = pm_handles s" by (simp_all add: mark_ended_def Let_def set_flag_def)
    then have h3: "pm_handles ?s3 = pm_handles s" by simp
    have p: "pr_handle ?p = pm_handles s n" using v2(2) by (simp add: pm_handles_def fun_eq_iff)
    obtain t where t: "cleanupProcess E ?p (ProcessList_Unlock ?s3) = Some t" "pm_view s' = pm_view t"
      using assms Some by (auto simp: process_ended_def Let_def bind_eq_Some_conv if_distrib [where f = pm_view] split del: if_split cong: if_cong)
    have t': "pm_view s' = (pm_used ?s3, pm_unused ?s3, without_handle (pm_handles s n) s (runningApplicationData s),
        without_handle (pm_handles s n) s (debugData s))"
    proof -
      have "without_handle h (ProcessList_Unlock ?s3) r = without_handle h s r" for h r
        by (rule without_handle_cong) (simp only: handles_basic h3)
      moreover have "runningApplicationData (ProcessList_Unlock ?s3) = runningApplicationData s"
          "debugData (ProcessList_Unlock ?s3) = debugData s" "pm_used (ProcessList_Unlock ?s3) = pm_used ?s3"
          "pm_unused (ProcessList_Unlock ?s3) = pm_unused ?s3"
        using v2(1) by (simp_all add: pm_view_def ProcessList_Unlock_def ProcessList_Delete_def)
      ultimately show ?thesis using cleanup_effect [OF t(1)] p t(2) by simp
    qed
    have w: "set_option (without_handle (pm_handles s n) s r) \<subseteq> set_option r - {n}" for r
      by (auto simp: without_handle_def split: option.splits if_splits)
    have u: "pm_used ?s2 = pm_used s" "pm_unused ?s2 = pm_unused s" using v2(1) by (simp_all add: pm_view_def)
    show ?thesis
    proof (cases "has_flag PROCESSFLAG_NOTIFY_TERMINATION_TERMINATED ?p")
      case True
      then show ?thesis using t' i u w [of "runningApplicationData s"] w [of "debugData s"] by (auto simp: pm_view_def)
    next
      case False
      have m: "set (after_first n xs) = insert n (set xs)" for xs
        by (metis after_first_def append_take_drop_id set_append list.simps(15) Un_insert_right)
      have d: "distinct (after_first n xs) \<longleftrightarrow> distinct (n # xs)" for xs
        by (cases xs) (auto simp: after_first_def)
      have "pm_used ?s3 = remove1 n (pm_used s)" "pm_unused ?s3 = after_first n (pm_unused s)"
        using False u by (simp_all add: ProcessList_Delete_def)
      moreover have "distinct (pm_used s)" using i by (simp add: pm_view_def)
      ultimately show ?thesis using t' i n w [of "runningApplicationData s"] w [of "debugData s"]
        by (auto simp: pm_view_def m d set_remove1_eq)
    qed
  qed
qed

lemma inv_monitor [pm_keeps]:
  "\<lbrakk>processMonitor E s = Some s'; pm_rely E\<rbrakk> \<Longrightarrow> pm_inv s \<longrightarrow> pm_inv s'"
  by (auto simp: processMonitor_def Let_def bind_eq_Some_conv pm_rely_def case_prod_beta
      split: if_splits dest!: inv_process_ended view_assert view_calls(1))

lemma inv_unregister [pm_keeps]: "pm_inv s \<Longrightarrow> pm_inv (snd (UnregisterProcess_pm E t s))"
proof (cases "ProcessList_FindProcessByTitleId (t AND NOT N3DS_TID_MASK) (ProcessList_Lock s)")
  case None
  assume "pm_inv s"
  with None show ?thesis by (simp add: UnregisterProcess_pm_def Let_def)
next
  case (Some n)
  assume i: "pm_inv s"
  have n: "n \<in> set (pm_used s)"
    using Some by (auto simp: ProcessList_FindProcessByTitleId_def ProcessList_Lock_def find_Some_iff)
  have m: "set (after_first n xs) = insert n (set xs)" for xs
    by (metis after_first_def append_take_drop_id set_append list.simps(15) Un_insert_right)
  have d: "distinct (after_first n xs) \<longleftrightarrow> distinct (n # xs)" for xs
    by (cases xs) (auto simp: after_first_def)
  have i': "distinct (pm_used s)" "distinct (pm_unused s)" "set (pm_used s) \<inter> set (pm_unused s) = {}"
      "set (pm_used s) \<union> set (pm_unused s) = {..<64}" "set_option (runningApplicationData s) \<subseteq> set (pm_used s)"
      "set_option (debugData s) \<subseteq> set (pm_used s)"
    using i by (auto simp: pm_view_def)
  let ?r = "\<lambda>r. if r = Some n then None else r"
  have v: "pm_view (snd (UnregisterProcess_pm E t s)) =
      (remove1 n (pm_used s), after_first n (pm_unused s), ?r (runningApplicationData s), ?r (debugData s))"
    using Some by (simp add: UnregisterProcess_pm_def Let_def pm_view_def ProcessList_Lock_def ProcessList_Unlock_def ProcessList_Delete_def svc_def)
  show ?thesis unfolding v using i' n by (auto simp: m d set_remove1_eq)
qed

section \<open>Tasks and commands\<close>

lemma inv_await [pm_keeps]:
  assumes "await_app_end E s = Some s'" and "pm_rely E"
  shows "pm_inv s \<longrightarrow> pm_inv s'"
proof (rule await_app_end.raw_induct [OF _ assms(1), where P = "\<lambda>E s s'. pm_rely E \<longrightarrow> pm_inv s \<longrightarrow> pm_inv s'", THEN mp, OF _ assms(2)])
  fix rec :: "pm_env \<Rightarrow> pm_state \<Rightarrow> pm_state option" and E s s'
  assume IH: "\<And>E s s'. rec E s = Some s' \<Longrightarrow> pm_rely E \<longrightarrow> pm_inv s \<longrightarrow> pm_inv s'"
    and r: "(let s = ProcessList_Lock (sleep E 100000000 s); app = runningApplicationData s; s = ProcessList_Unlock s
      in if app \<noteq> None then rec E s else Some s) = Some s'"
  have "pm_rely E \<Longrightarrow> pm_inv s \<Longrightarrow> pm_inv (sleep E 100000000 s)" by (simp add: sleep_def pm_rely_def)
  then show "pm_rely E \<longrightarrow> pm_inv s \<longrightarrow> pm_inv s'" using r by (auto simp: Let_def split: if_splits dest!: IH)
qed

lemma inv_chainload [pm_keeps]:
  assumes "chainloadHomebrewDirtyAsync E s = Some s'" and "pm_rely E"
  shows "pm_inv s \<longrightarrow> pm_inv s'"
proof -
  have sl: "pm_inv (sleep E v t)" if "pm_inv t" for v t using that assms(2) by (simp add: sleep_def pm_rely_def)
  obtain a b c where a: "new_header s = Some (a, b)" "begin_waiting E b = Some c"
    using assms(1) by (auto simp: chainloadHomebrewDirtyAsync_def bind_eq_Some_conv)
  have "pm_view c = pm_view s" using view_begin_waiting [OF a(2)] view_new_header [OF a(1)] by simp
  then show ?thesis using assms a
    by (auto simp: chainloadHomebrewDirtyAsync_def bind_eq_Some_conv Let_def sl
        split: option.splits if_splits dest!: inv_commit [OF _ assms(2)] inv_await [OF _ assms(2)] inv_LaunchTitle view_terminate(1) view_assert view_calls(4))
qed

lemma inv_run_task [pm_keeps]:
  assumes "run_task E t s = Some s'" and "pm_rely E"
  shows "pm_inv s \<longrightarrow> pm_inv s'"
proof (cases t)
  case (LaunchTitleAsync pi piu fl)
  then show ?thesis using assms by (auto simp: launchTitleAsync_def bind_eq_Some_conv dest!: inv_wrapper)
next
  case (TerminateProcessOrTitleAsync i tm u)
  then show ?thesis using assms inv_terminate_async by auto
next
  case (PrepareForRebootAsync pid tm)
  then show ?thesis using assms
    by (auto simp: prepareForRebootAsync_def bind_eq_Some_conv split: option.splits dest!: inv_terminate_all view_notify(2))
next
  case ChainloadHomebrewDirtyAsync
  then show ?thesis using assms inv_chainload by auto
next
  case (LaunchFirmAsync tid)
  then show ?thesis using assms
    by (auto simp: launchFirmAsync_def bind_eq_Some_conv Let_def dest!: inv_terminate_all view_assert view_calls(1))
qed

lemma inv_handle_tasks [pm_keeps]:
  "\<lbrakk>TaskRunner_HandleTasks E s = Some s'; pm_rely E\<rbrakk> \<Longrightarrow> pm_inv s \<longrightarrow> pm_inv s'"
  by (auto simp: TaskRunner_HandleTasks_def split: list.splits dest!: inv_run_task)

lemma view_write [simp]: "pm_view (write_client p bs s) = pm_view s"
  by (simp add: write_client_def)

lemma view_small [simp]:
  "pm_view (snd (SetFirmlaunchParams p n s)) = pm_view s"
  "pm_view (snd (GetFirmlaunchParams p n s)) = pm_view s"
  "pm_view (snd (LaunchFirm t p n s)) = pm_view s"
  "pm_view (snd (PrepareForReboot pid tm s)) = pm_view s"
  "pm_view (snd (ChainloadHomebrewDirty E s)) = pm_view s"
  "pm_view (snd (DebugNextApplicationByForce b s)) = pm_view s"
  "pm_view (snd (SetAppResourceLimit E m c v m2 s)) = pm_view s"
  by (simp_all add: SetFirmlaunchParams_def GetFirmlaunchParams_def LaunchFirm_def PrepareForReboot_def
      ChainloadHomebrewDirty_def DebugNextApplicationByForce_def SetAppResourceLimit_def Let_def)

lemma view_program_info_snd [simp]: "pm_view (snd (snd (getProgramInfo E h s))) = pm_view s"
  by (metis prod.collapse view_program_info)

lemma view_queries [pm_same]:
  "GetTitleExHeaderFlags E pi s = Some (r, out, s') \<Longrightarrow> pm_view s' = pm_view s"
  "GetCurrentAppInfo E s = (r, i, p, f, s') \<Longrightarrow> pm_view s' = pm_view s"
  "GetAppResourceLimit E m c m2 m3 s = (r, v, s') \<Longrightarrow> pm_view s' = pm_view s"
proof -
  show "GetTitleExHeaderFlags E pi s = Some (r, out, s') \<Longrightarrow> pm_view s' = pm_view s"
    by (auto simp: GetTitleExHeaderFlags_def Let_def bind_eq_Some_conv case_prod_beta split: if_splits dest!: view_new_header)
  show "GetCurrentAppInfo E s = (r, i, p, f, s') \<Longrightarrow> pm_view s' = pm_view s"
    by (auto simp: GetCurrentAppInfo_def Let_def split: option.splits)
  show "GetAppResourceLimit E m c m2 m3 s = (r, v, s') \<Longrightarrow> pm_view s' = pm_view s"
    by (auto simp: GetAppResourceLimit_def getAppCpuTimeLimit_def Let_def split: if_splits prod.splits dest!: view_calls(2))
qed

lemma inv_pm_reply:
  assumes "pm_reply E c b r = Some (b', s')" and "\<And>res t. r = Some (res, t) \<Longrightarrow> pm_inv t"
  shows "pm_inv s'"
  using assms by (auto simp: pm_reply_def split: option.splits)

lemma inv_reply_debug:
  assumes "reply_debug E c b r = Some (b', s')" and "\<And>res h t. r = Some (res, h, t) \<Longrightarrow> pm_inv t"
  shows "pm_inv s'"
  using assms by (auto simp: reply_debug_def split: option.splits)

lemma inv_app_commands [pm_keeps]:
  assumes "pmAppHandleCommands E b s = Some (b', s')" and "pm_rely E" and i: "pm_inv s"
  shows "pm_inv s'"
proof -
  have t: "pm_inv t" if "TerminateTitle E a tm s = Some (r, t) \<or> TerminateProcess E p tm s = Some (r, t)" for a p tm r t
    using that i by (auto simp: TerminateTitle_def TerminateProcess_def dest!: view_terminate_request)
  have u: "pm_inv t" if "UnregisterProcess_pm E a s = (r, t)" for a r t
    using inv_unregister [OF i, of E a] that by simp
  note cs = assms(1) [unfolded pmAppHandleCommands_def Let_def pm_invalid_command_def pm_unknown_command_def]
  from cs i show ?thesis
    apply (simp only: split: if_split_asm)
    apply (auto simp: bind_eq_Some_conv case_prod_beta dest!: inv_LaunchTitle)[1]
    apply (auto simp: case_prod_beta)[2]
    apply (erule inv_pm_reply, use inv_terminate_application assms(2) in blast)
    apply (erule inv_pm_reply, use t in blast)
    apply (erule inv_pm_reply, use t in blast)
    apply (auto)[1]
    apply (erule inv_pm_reply, metis option.inject snd_conv view_small(4))
    apply (auto simp: case_prod_beta)[2]
    apply (auto simp: bind_eq_Some_conv case_prod_beta dest!: view_queries(1))[1]
    apply (auto simp: case_prod_beta)[2]
    apply (erule inv_pm_reply, metis option.inject snd_conv view_small(7))
    apply (auto split: prod.splits dest!: view_queries(3))[1]
    apply (erule inv_pm_reply, use u in blast)
    apply (auto simp: bind_eq_Some_conv dest!: inv_LaunchTitleUpdate)[1]
    apply simp
    done
qed

lemma inv_dbg_commands [pm_keeps]:
  assumes "pmDbgHandleCommands E b s = Some (b', s')" and i: "pm_inv s"
  shows "pm_inv s'"
proof -
  note cs = assms(1) [unfolded pmDbgHandleCommands_def Let_def pm_unknown_command_def]
  from cs i show ?thesis
    apply (simp only: split: if_split_asm)
    apply (erule inv_reply_debug, use inv_LaunchAppDebug in blast)
    apply (erule inv_pm_reply, use inv_LaunchApp in blast)
    apply (erule inv_reply_debug, use inv_RunQueuedProcess in blast)
    apply (auto split: prod.splits dest!: view_queries(2))[1]
    apply (erule inv_pm_reply, simp add: DebugNextApplicationByForce_def)
    apply (erule inv_reply_debug, use inv_LaunchTitleDebug in blast)
    apply simp
    done
qed

section \<open>Reached states\<close>

lemma view_create: "create_reslimits E vs ks s = (r, s') \<Longrightarrow> pm_view s' = pm_view s"
  by (induction E vs ks s rule: create_reslimits.induct) (auto simp: Let_def split: prod.splits if_splits dest!: view_calls)

lemma view_reslimits: "pm_view (snd (initializeReslimits E s)) = pm_view s"
proof -
  obtain vs t where f: "fixupReslimitValues E s = (vs, t)" by (cases "fixupReslimitValues E s")
  then have "t = s\<lparr>g_defaultAppMemLimit := memregion_sz E 0\<rparr>"
    unfolding fixupReslimitValues_def Let_def by (simp only: prod.inject)
  moreover obtain r u where c: "create_reslimits E vs [0..<4] t = (r, u)" by (cases "create_reslimits E vs [0..<4] t")
  moreover have "pm_view u = pm_view t" using c by (rule view_create)
  ultimately show ?thesis by (simp add: initializeReslimits_def f del: create_reslimits.simps)
qed

lemma inv_register_kip: "register_kip E i s = Some s' \<Longrightarrow> pm_inv s \<longrightarrow> pm_inv s'"
  by (auto simp: register_kip_def Let_def bind_eq_Some_conv pm_grows_def case_prod_beta
      split: if_splits dest!: grows_new view_assert view_calls(1))

lemma view_archive_access: "giveAllFsArchiveAccessToKip E pid tid s = Some s' \<Longrightarrow> pm_view s' = pm_view s"
  by (auto simp: giveAllFsArchiveAccessToKip_def bind_eq_Some_conv dest!: view_assert view_calls(1))

lemma inv_register_kips:
  assumes "Manager_RegisterKips E s = Some s'" and "pm_inv s"
  shows "pm_inv s'"
proof -
  obtain t where t: "each (register_kip E) [0..<nat (numKips E mod 2 ^ 32)] (ProcessList_Lock s) = Some t" "pm_view s' = pm_view t"
    using assms(1) by (auto simp: Manager_RegisterKips_def Let_def bind_eq_Some_conv split: if_splits dest!: view_archive_access)
  have "pm_inv t" by (rule each_invariant [OF t(1)]) (use assms(2) inv_register_kip in auto)
  then show ?thesis using t(2) by simp
qed

lemma inv_start:
  assumes "pm_init E s = Some s1" and "pm_start E s1 = Some s2"
  shows "pm_inv s2"
proof -
  have "pm_view s1 = ([], [0..<0x40], None, None)"
    using assms(1) by (auto simp: pm_init_def Manager_Init_def bind_eq_Some_conv Let_def svc_out_def pm_view_def split: if_splits)
  then have i: "pm_inv s1" by auto
  obtain t u v where t: "Manager_RegisterKips E (snd (initializeReslimits E s1)) = Some t"
      "mapFirmlaunchParameters E t = Some u" "autolaunchSysmodules E u = Some (v, s2)"
    using assms(2) by (auto simp: pm_start_def Let_def case_prod_beta bind_eq_Some_conv)
  have "pm_inv t" by (rule inv_register_kips [OF t(1)]) (simp only: view_reslimits i)
  moreover have "pm_view u = pm_view t"
    using t(2) by (auto simp: mapFirmlaunchParameters_def bind_eq_Some_conv dest!: view_assert view_calls(1))
  ultimately show ?thesis using inv_autolaunch [OF t(3)] by simp
qed

text \<open>The steps of the three threads; the commands of both services are answered by one thread.\<close>

inductive pm_step :: "pm_env \<Rightarrow> pm_state \<Rightarrow> pm_state \<Rightarrow> bool" for E where
  app_command: "pmAppHandleCommands E cmdbuf s = Some (cmdbuf', s') \<Longrightarrow> pm_step E s s'"
| dbg_command: "pmDbgHandleCommands E cmdbuf s = Some (cmdbuf', s') \<Longrightarrow> pm_step E s s'"
| restart_notification: "ChainloadHomebrewDirty E s = (res, s') \<Longrightarrow> pm_step E s s'"
| task: "TaskRunner_HandleTasks E s = Some s' \<Longrightarrow> pm_step E s s'"
| monitor: "processMonitor E s = Some s' \<Longrightarrow> pm_step E s s'"

inductive pm_reachable :: "pm_env \<Rightarrow> pm_state \<Rightarrow> bool" for E where
  start: "\<lbrakk>pm_init E s = Some s1; pm_start E s1 = Some s2\<rbrakk> \<Longrightarrow> pm_reachable E s2"
| step: "\<lbrakk>pm_reachable E s; pm_step E s s'\<rbrakk> \<Longrightarrow> pm_reachable E s'"

lemma inv_step: "\<lbrakk>pm_step E s s'; pm_rely E; pm_inv s\<rbrakk> \<Longrightarrow> pm_inv s'"
proof (induction rule: pm_step.induct)
  case (restart_notification s res s')
  then show ?case using view_small(5) [of E s] by simp
qed (use inv_app_commands inv_dbg_commands inv_handle_tasks inv_monitor in blast)+

lemma inv_reachable:
  assumes "pm_reachable E s" and "pm_rely E"
  shows "pm_inv s"
  using assms by (induction rule: pm_reachable.induct) (blast intro: inv_start inv_step)+

end
