(* ===== verification/Pm_Counts.thy ===== *)
theory Pm_Counts
  imports Pm_Steps
begin

text \<open>
  The counts of the users of dependencies: what \<open>listMergeUniqueDependencies\<close> adds when a title is
  launched whose dependencies run already, \<open>terminateUnusedDependencies\<close> takes away when it ends.
\<close>

section \<open>Loops over lists\<close>

lemma each_append: "each f (xs @ ys) x = (case each f xs x of None \<Rightarrow> None | Some x \<Rightarrow> each f ys x)"
  by (induction xs arbitrary: x) (auto split: option.splits)

lemma each_identity: "(\<And>n. n \<in> set ns \<Longrightarrow> f n x = Some x) \<Longrightarrow> each f ns x = Some x"
  by (induction ns) auto

section \<open>Titles\<close>

text \<open>A list of dependencies whose titles run: there is one process for each of them, and it has been
  loaded as a dependency.\<close>

definition runs_dependency :: "pm_state \<Rightarrow> u64 \<Rightarrow> nat \<Rightarrow> bool" where
  "runs_dependency s t n \<longleftrightarrow>
     n \<in> set (pm_used s) \<and> pr_titleId (pm_procs s n) = t \<and> has_flag PROCESSFLAG_AUTOLOADED (pm_procs s n) \<and>
     pr_terminationStatus (pm_procs s n) = TERMSTATUS_RUNNING \<and> 0 < pr_refcount (pm_procs s n) \<and> pr_refcount (pm_procs s n) < 255"

text \<open>It is the only process of that title: no other one has the same id but for the version and the console.\<close>

definition only_of_title :: "pm_state \<Rightarrow> u64 \<Rightarrow> nat \<Rightarrow> bool" where
  "only_of_title s t n \<longleftrightarrow> (\<forall>m \<in> set (pm_used s). same_title (pr_titleId (pm_procs s m)) t \<longrightarrow> m = n)"

lemma find_dependency:
  assumes "runs_dependency s t n" and "only_of_title s t n"
  shows "ProcessList_FindProcessByTitleId t s = Some n"
proof -
  have n: "n \<in> set (pm_used s)" "pr_titleId (pm_procs s n) = t" using assms(1) by (simp_all add: runs_dependency_def)
  then obtain m where m: "find (\<lambda>n. same_title (pr_titleId (pm_procs s n)) t) (pm_used s) = Some m"
    by (cases "find (\<lambda>n. same_title (pr_titleId (pm_procs s n)) t) (pm_used s)") (auto simp: find_None_iff same_title_def)
  then have "m \<in> set (pm_used s)" "same_title (pr_titleId (pm_procs s m)) t" by (auto simp: find_Some_iff)
  then have "m = n" using assms(2) by (simp add: only_of_title_def)
  then show ?thesis using m by (simp add: ProcessList_FindProcessByTitleId_def)
qed

section \<open>Merging\<close>

definition dependency_of :: "pm_state \<Rightarrow> u64 \<Rightarrow> dependency" where
  "dependency_of s t = \<lparr>dp_id = t, dp_proc = ProcessList_FindProcessByTitleId t s, dp_rem = 0\<rparr>"

lemma dep_index_new: "t \<notin> set us \<Longrightarrow> dep_index t (map (dependency_of s) us) = length us"
  by (induction us) (auto simp: dep_index_def dependency_of_def)

lemma merge_distinct:
  assumes "distinct (us @ ts)" and "length (us @ ts) \<le> 48"
  shows "each (merge_dep s) ts (map (dependency_of s) us, replicate (length us) 1) =
    Some (map (dependency_of s) (us @ ts), replicate (length (us @ ts)) 1)"
  using assms
proof (induction ts arbitrary: us)
  case (Cons t ts)
  have "merge_dep s t (map (dependency_of s) us, replicate (length us) 1) =
      Some (map (dependency_of s) (us @ [t]), replicate (length (us @ [t])) 1)"
    using Cons.prems by (simp add: merge_dep_def dep_index_new dependency_of_def replicate_append_same)
  then show ?case using Cons.IH [of "us @ [t]"] Cons.prems by simp
qed simp

text \<open>One more user for each process of a set, and one less.\<close>

definition more_users :: "nat set \<Rightarrow> pm_state \<Rightarrow> pm_state" where
  "more_users A s = s\<lparr>pm_procs := (\<lambda>n. if n \<in> A then (pm_procs s n)\<lparr>pr_refcount := pr_refcount (pm_procs s n) + 1\<rparr> else pm_procs s n)\<rparr>"

lemma more_users_empty [simp]: "more_users {} s = s"
  by (simp add: more_users_def)

lemma incref_more:
  assumes "n \<notin> A" and "has_flag PROCESSFLAG_AUTOLOADED (pm_procs s n)" and "pr_refcount (pm_procs s n) < 255"
  shows "ProcessData_Incref n 1 (more_users A s) = Some (more_users (insert n A) s)"
proof -
  have "\<not> (ucast (pr_refcount (pm_procs s n)) + 1 :: u32) > 255"
  proof -
    have "unat (pr_refcount (pm_procs s n)) < 255" using assms(3) by (simp add: word_less_nat_alt)
    then have "unat (ucast (pr_refcount (pm_procs s n)) + 1 :: u32) \<le> 255"
      by (simp add: unat_word_ariths unsigned_ucast_eq take_bit_nat_eq_self)
    then show ?thesis by (simp add: word_less_nat_alt)
  qed
  moreover have "upd_proc n (\<lambda>p. p\<lparr>pr_refcount := pr_refcount p + ucast (1 :: u32)\<rparr>) (more_users A s) = more_users (insert n A) s"
    by (rule pm_state.equality) (use assms(1) in \<open>auto simp: upd_proc_def more_users_def fun_eq_iff\<close>)
  ultimately show ?thesis using assms by (simp add: ProcessData_Incref_def more_users_def Let_def)
qed

lemma apply_distinct:
  assumes "\<And>t. t \<in> set ts \<Longrightarrow> runs_dependency s t (N t)" and "distinct ts"
    and "ds = map (dependency_of s) ts" and "k \<le> length ts" and "\<And>t. t \<in> set ts \<Longrightarrow> only_of_title s t (N t)"
  shows "each (apply_refcount (replicate (length ts) 1)) [0..<k] (ds, s) = Some (ds, more_users (N ` set (take k ts)) s)"
  using assms(4)
proof (induction k)
  case (Suc k)
  let ?t = "ts ! k" and ?A = "N ` set (take k ts)"
  have k: "k < length ts" using Suc.prems by simp
  then have "distinct (take k ts @ ?t # drop (Suc k) ts)" using assms(2) by (metis id_take_nth_drop)
  then have t: "?t \<in> set ts" "?t \<notin> set (take k ts)" using nth_mem [OF k] by simp_all
  note r = assms(1) [OF t(1)]
  have inj: "N u \<noteq> N ?t" if "u \<in> set (take k ts)" for u
  proof
    assume e: "N u = N ?t"
    have "pr_titleId (pm_procs s (N u)) = u" "pr_titleId (pm_procs s (N ?t)) = ?t"
      using assms(1) [OF in_set_takeD [OF that]] r by (simp_all only: runs_dependency_def)
    then show False using e t(2) that by metis
  qed
  have "ProcessData_Incref (N ?t) 1 (more_users ?A s) = Some (more_users (insert (N ?t) ?A) s)"
  proof (rule incref_more)
    show "N ?t \<notin> ?A" using inj by fastforce
    show "has_flag PROCESSFLAG_AUTOLOADED (pm_procs s (N ?t))" "pr_refcount (pm_procs s (N ?t)) < 255"
      using r by (simp_all only: runs_dependency_def)
  qed
  moreover have "dp_proc (ds ! k) = Some (N ?t)"
    using Suc.prems find_dependency [OF r assms(5) [OF t(1)]] by (simp add: assms(3) dependency_of_def)
  moreover have "N ` set (take (Suc k) ts) = insert (N ?t) ?A" using Suc.prems by (simp add: take_Suc_conv_app_nth)
  ultimately show ?case using Suc by (simp add: each_append apply_refcount_def)
qed simp

lemma merge_adds_users:
  assumes "\<And>t. t \<in> set (listDependencies E xh) \<Longrightarrow> runs_dependency s t (N t)"
    and "distinct (listDependencies E xh)"
    and "\<And>t. t \<in> set (listDependencies E xh) \<Longrightarrow> only_of_title s t (N t)"
  shows "\<exists>ds. listMergeUniqueDependencies E [] xh s = Some (ds, more_users (N ` set (listDependencies E xh)) s)"
proof -
  let ?ts = "listDependencies E xh" and ?s = "ProcessList_Lock s"
  have len: "length ?ts \<le> 48"
    unfolding listDependencies_def length_map
    by (rule order_trans [OF length_filter_le], rule order_trans [OF length_takeWhile_le]) simp
  have m: "each (merge_dep ?s) ?ts ([], []) = Some (map (dependency_of ?s) ?ts, replicate (length ?ts) 1)"
    using merge_distinct [of "[]" ?ts ?s] assms(2) len by simp
  have r: "runs_dependency ?s t (N t)" if "t \<in> set ?ts" for t
    using assms(1) [OF that] by (simp add: runs_dependency_def ProcessList_Lock_def)
  have v: "only_of_title ?s t (N t)" if "t \<in> set ?ts" for t
    using assms(3) [OF that] by (simp add: only_of_title_def ProcessList_Lock_def)
  have a: "each (apply_refcount (replicate (length ?ts) 1)) [0..<length ?ts] (map (dependency_of ?s) ?ts, ?s) =
      Some (map (dependency_of ?s) ?ts, more_users (N ` set ?ts) ?s)"
    using apply_distinct [OF r assms(2) refl order_refl v] by simp
  have "ProcessList_Unlock (more_users A ?s) = more_users A s" for A
    by (rule pm_state.equality) (simp_all add: more_users_def ProcessList_Lock_def ProcessList_Unlock_def fun_eq_iff)
  then show ?thesis using m a by (simp add: listMergeUniqueDependencies_def Let_def)
qed

section \<open>Releasing\<close>

lemma upd_more_users:
  assumes "n \<in> A"
  shows "upd_proc n (\<lambda>p. p\<lparr>pr_refcount := pr_refcount p - 1\<rparr>) (more_users A s) = more_users (A - {n}) s"
  by (rule pm_state.equality) (use assms in \<open>auto simp: upd_proc_def more_users_def fun_eq_iff\<close>)

lemma release_one:
  assumes "runs_dependency s t n" and "n \<in> A" and "t \<in> set ts"
  shows "release_dependency E ts n (res, more_users A s) = Some (res, more_users (A - {n}) s)"
proof -
  have p: "pr_terminationStatus (pm_procs (more_users A s) n) = TERMSTATUS_RUNNING"
      "has_flag PROCESSFLAG_AUTOLOADED (pm_procs (more_users A s) n)" "pr_titleId (pm_procs (more_users A s) n) = t"
      "pr_refcount (pm_procs (more_users (A - {n}) s) n) > 0"
    using assms(1) by (simp_all add: runs_dependency_def more_users_def has_flag_def)
  show ?thesis using p assms(3) by (simp add: release_dependency_def Let_def upd_more_users [OF assms(2)])
qed

lemma release_others:
  assumes "pr_titleId (pm_procs s n) \<notin> set ts"
  shows "release_dependency E ts n (res, more_users A s) = Some (res, more_users A s)"
  using assms by (simp add: release_dependency_def Let_def more_users_def)

lemma release_users:
  assumes "\<And>t. t \<in> set ts \<Longrightarrow> runs_dependency s t (N t)"
    and "\<And>t. t \<in> set ts \<Longrightarrow> only_of_title s t (N t)"
    and "set ns \<subseteq> set (pm_used s)" and "distinct ns" and "N ` set ts \<inter> set ns \<subseteq> A"
  shows "each (release_dependency E ts) ns (res, more_users A s) = Some (res, more_users (A - (set ns \<inter> N ` set ts)) s)"
  using assms(3-5)
proof (induction ns arbitrary: A)
  case (Cons n ns)
  show ?case
  proof (cases "pr_titleId (pm_procs s n) \<in> set ts")
    case True
    let ?t = "pr_titleId (pm_procs s n)"
    have r: "runs_dependency s ?t (N ?t)" by (rule assms(1) [OF True])
    have "n \<in> set (pm_used s)" using Cons.prems(1) by simp
    then have "N ?t = n" using assms(2) [OF True] by (auto simp: only_of_title_def same_title_def)
    then have "runs_dependency s ?t n" "n \<in> N ` set ts" using r True by (auto intro: rev_image_eqI)
    moreover have "A - {n} - (set ns \<inter> N ` set ts) = A - (set (n # ns) \<inter> N ` set ts)" using calculation(2) by auto
    moreover have "n \<in> A" using calculation(2) Cons.prems(3) by auto
    moreover have "N ` set ts \<inter> set ns \<subseteq> A - {n}" using Cons.prems(2,3) by auto
    ultimately show ?thesis using Cons.IH [of "A - {n}"] Cons.prems(1,2) release_one [OF _ _ True, where s = s] by simp
  next
    case False
    have "n \<notin> N ` set ts"
    proof
      assume "n \<in> N ` set ts"
      then obtain t where t: "t \<in> set ts" "n = N t" by auto
      then show False using assms(1) [OF t(1)] False by (simp add: runs_dependency_def)
    qed
    then have "A - (set ns \<inter> N ` set ts) = A - (set (n # ns) \<inter> N ` set ts)" by auto
    then show ?thesis using Cons.IH [of A] Cons.prems release_others [OF False] by auto
  qed
qed simp

lemma release_all_users:
  assumes "\<And>t. t \<in> set ts \<Longrightarrow> runs_dependency s t (N t)"
    and "\<And>t. t \<in> set ts \<Longrightarrow> only_of_title s t (N t)" and "distinct (pm_used s)"
  shows "terminateUnusedDependencies E ts (more_users (N ` set ts) s) = Some (0, s)"
proof -
  let ?s = "ProcessList_Lock s"
  have r: "runs_dependency ?s t (N t)" if "t \<in> set ts" for t
    using assms(1) [OF that] by (simp add: runs_dependency_def ProcessList_Lock_def)
  have v: "only_of_title ?s t (N t)" if "t \<in> set ts" for t
    using assms(2) [OF that] by (simp add: only_of_title_def ProcessList_Lock_def)
  have d: "distinct (pm_used ?s)" using assms(3) by (simp add: ProcessList_Lock_def)
  have sub: "N ` set ts \<subseteq> set (pm_used ?s)" using r by (auto simp: runs_dependency_def)
  have u: "ProcessList_Unlock ?s = s" "pm_used (more_users A x) = pm_used x" for A x
    by (simp_all add: ProcessList_Lock_def ProcessList_Unlock_def more_users_def)
  have l: "ProcessList_Lock (more_users A s) = more_users A ?s" for A
    by (rule pm_state.equality) (simp_all add: more_users_def ProcessList_Lock_def fun_eq_iff)
  have "each (release_dependency E ts) (pm_used ?s) (0, more_users (N ` set ts) ?s) =
      Some (0, more_users (N ` set ts - (set (pm_used ?s) \<inter> N ` set ts)) ?s)"
    by (rule release_users [OF r v subset_refl d]) simp_all
  also have "N ` set ts - (set (pm_used ?s) \<inter> N ` set ts) = {}" using sub by blast
  finally show ?thesis
    by (simp add: terminateUnusedDependencies_def Let_def l u)
qed

end
