(* ===== verification/Pm_Theorems.thy ===== *)
theory Pm_Theorems
  imports Pm_Counts
begin

text \<open>
  Properties of the process manager: the entries of processes, the pool of extended headers, the
  counts of the users of dependencies, the lock of the list after a failed launch, and who is
  told to end before a reboot.
\<close>

section \<open>An environment\<close>

text \<open>All calls succeed, and a handle has the number of the call that made it.\<close>

definition demo_core :: core_info where
  "demo_core = \<lparr>ci_core_version = 2, ci_affinity_mask = 1, ci_ideal_processor = 0, ci_priority = 0x30,
     ci_o3ds_system_mode = 0, ci_n3ds_system_mode = 0\<rparr>"

definition demo_exheader :: "u64 \<Rightarrow> u64 list \<Rightarrow> exheader" where
  "demo_exheader tid deps =
     \<lparr>xe_title_id = tid, xe_core_info = demo_core, xe_storage_info = \<lparr>st_fs_access_info = 0, st_others = (\<lambda>i. 0)\<rparr>,
      xe_service_access = [], xe_reslimit_category = 0, xe_reslimit0 = 0, xe_dependencies = deps,
      xe_stack_size = 0x1000, xe_codeset_flags = 0\<rparr>"

definition demo_pm_env :: pm_env where
  "demo_pm_env =
     \<lparr>pv_result = (\<lambda>cs c. 0), pv_value = (\<lambda>cs c. of_nat (length cs)), pv_exheader = (\<lambda>cs h. demo_exheader h []),
      pv_others = (\<lambda>s. s), pv_R_FAILED = (\<lambda>res. sint res < 0), pv_not_found = (\<lambda>res. False), pv_timeout = (\<lambda>res. False),
      pv_no_app = 0xC8A05900,
      pv_flag = (\<lambda>f. case f of PMLAUNCHFLAG_NORMAL_APPLICATION \<Rightarrow> 1 | PMLAUNCHFLAG_LOAD_DEPENDENCIES \<Rightarrow> 2
        | PMLAUNCHFLAG_NOTIFY_TERMINATION \<Rightarrow> 4 | PMLAUNCHFLAG_QUEUE_DEBUG_APPLICATION \<Rightarrow> 8
        | PMLAUNCHFLAG_FORCE_USE_O3DS_APP_MEM \<Rightarrow> 0x100 | PMLAUNCHFLAG_FORCE_USE_O3DS_MAX_APP_MEM \<Rightarrow> 0x200
        | PMLAUNCHFLAG_USE_UPDATE_TITLE \<Rightarrow> 0x10000),
      pv_system_info = (\<lambda>t p. (0, if t = 26 then 5 else 0)), kernel_syscore_ver = 2, app_memtype = 0,
      memregion_sz = (\<lambda>i. 0x4000000), ns_tid = 0, SYSMODE_O3DS_PROD = 0, SYSMODE_DEV1 = 2, SYSMODE_DEV2 = 3,
      RESLIMIT_CATEGORY_OTHER = 3, MEDIATYPE_NAND = 0, SYSCLOCK_ARM11 = 268111856,
      IPC_MakeHeader_pm = (\<lambda>c n t. push_bit 16 c OR push_bit 6 n OR t),
      IPC_Desc_Buffer_R = (\<lambda>n. push_bit 4 n OR 0xA), IPC_Desc_Buffer_W = (\<lambda>n. push_bit 4 n OR 0xC),
      IPC_Desc_MoveHandles_pm = (\<lambda>n. push_bit 26 (n - 1) OR 0x10), pv_core_words = (\<lambda>c. (0, 0)), pv_uninitialised = 0,
      pv_limit_type = (\<lambda>t. case t of RESLIMIT_CPUTIME \<Rightarrow> 9 | _ \<Rightarrow> 0)\<rparr>"

definition empty_pm :: pm_state where
  "empty_pm =
     \<lparr>pm_procs = (\<lambda>n. zero_entry), pm_used = [], pm_unused = [], pm_lock = 0, runningApplicationData = None, debugData = None,
      pm_reslimits = [0, 0, 0, 0], newProcessEvent = 0, allNotifiedTerminationEvent = 0, waitingForTermination = False,
      preparingForReboot = False, maxAppCpuTime = 0, cpuTimeBase = 0, g_debugNextApplication = False,
      g_currentAppMemLimit = 0, g_defaultAppMemLimit = 0, pm_hbldr_3dsx_tid = 0, pm_selected_hbldr_3dsx_tid = 0,
      firmlaunchParameters = [], pm_memory = (\<lambda>a. 0), pm_headers = ExHeaderInfoHeap_Init 6 \<lparr>g_headNode = None, hh_next = (\<lambda>i. None)\<rparr>,
      pm_tasks = [], pm_calls = []\<rparr>"

section \<open>Entries\<close>

text \<open>While one thread waits, the others make steps of their own.\<close>

definition others_make_steps :: "pm_env \<Rightarrow> bool" where
  "others_make_steps E \<longleftrightarrow> (\<forall>s. (pm_step (E\<lparr>pv_others := (\<lambda>s. s)\<rparr>))\<^sup>*\<^sup>* s (pv_others E s))"

lemma steps_rely:
  assumes "others_make_steps E"
  shows "pm_rely E"
  unfolding pm_rely_def
proof (intro allI impI)
  fix s assume "pm_inv s"
  have "pm_rely (E\<lparr>pv_others := (\<lambda>s. s)\<rparr>)" by (simp add: pm_rely_def)
  from assms have "(pm_step (E\<lparr>pv_others := (\<lambda>s. s)\<rparr>))\<^sup>*\<^sup>* s (pv_others E s)" by (simp add: others_make_steps_def)
  then show "pm_inv (pv_others E s)"
    by (induction rule: rtranclp_induct) (use \<open>pm_inv s\<close> inv_step \<open>pm_rely (E\<lparr>pv_others := (\<lambda>s. s)\<rparr>)\<close> in blast)+
qed

text \<open>C8. In every state that \<open>pm\<close> reaches, each of the 64 entries for processes is in exactly one of the
  list of processes and the list of free entries, once, and the running application and the
  process to debug, if any, are in the list of processes: the entry of a process that ends is
  never referred to afterwards.\<close>

theorem pm_entries:
  assumes "pm_reachable E s" and "others_make_steps E"
  shows "distinct (pm_used s @ pm_unused s) \<and> set (pm_used s @ pm_unused s) = {..<0x40} \<and>
    set_option (runningApplicationData s) \<subseteq> set (pm_used s) \<and> set_option (debugData s) \<subseteq> set (pm_used s)"
  using inv_reachable [OF assms(1) steps_rely [OF assms(2)]] by (simp add: pm_view_def)

text \<open>The start, if no call fails and there is nothing to launch: the modules of the kernel are entered.\<close>

lemma register_kip_succeeds:
  assumes "\<And>r. \<not> pv_R_FAILED E r" and "pm_unused s = n # ns"
  shows "\<exists>s'. register_kip E i s = Some s' \<and> pm_view s' = (pm_used s @ [n], ns, runningApplicationData s, debugData s)"
proof -
  let ?t = "s\<lparr>pm_unused := ns, pm_used := pm_used s @ [n], pm_procs := (pm_procs s)(n := zero_entry)\<rparr>"
  have n: "ProcessList_New s = Some (n, ?t)" using assms(2) by (simp add: ProcessList_New_def)
  show ?thesis
    by (simp add: register_kip_def n assms(1) pm_assertSuccess_def Let_def case_prod_beta pm_view_def svc_def svc_out_def upd_proc_def)
qed

lemma register_kips_succeed:
  assumes "\<And>r. \<not> pv_R_FAILED E r" and "pm_unused s = ns @ ms" and "length ks = length ns"
  shows "\<exists>s'. each (register_kip E) ks s = Some s' \<and> pm_view s' = (pm_used s @ ns, ms, runningApplicationData s, debugData s)"
  using assms(2,3)
proof (induction ns arbitrary: s ks)
  case Nil
  then show ?case by (simp add: pm_view_def)
next
  case (Cons n ns)
  then obtain k ks' where ks: "ks = k # ks'" by (cases ks) auto
  obtain t where t: "register_kip E k s = Some t" "pm_view t = (pm_used s @ [n], ns @ ms, runningApplicationData s, debugData s)"
    using register_kip_succeeds [where E = E and s = s and n = n and ns = "ns @ ms" and i = k] Cons.prems(1) assms(1) by auto
  then show ?case using Cons.IH [of t ks'] Cons.prems(2) ks by (simp add: pm_view_def)
qed

lemma start_succeeds:
  assumes "\<And>r. \<not> pv_R_FAILED E r" and "numKips E = 5" and "ns_tid E = 0"
  shows "\<exists>s. pm_reachable E s \<and> pm_used s = [0, 1, 2, 3, 4]"
proof -
  obtain s1 where s1: "pm_init E empty_pm = Some s1"
    by (simp add: pm_init_def Manager_Init_def case_prod_beta Let_def assms(1))
  then have v1: "pm_view s1 = ([], [0..<0x40], None, None)"
    by (auto simp: pm_init_def Manager_Init_def bind_eq_Some_conv Let_def svc_out_def pm_view_def split: if_splits)
  let ?s2 = "ProcessList_Lock (snd (initializeReslimits E s1))"
  have v2: "pm_view ?s2 = ([], [0..<0x40], None, None)" using v1 view_reslimits by simp
  have "pm_unused ?s2 = [0, 1, 2, 3, 4] @ [5..<0x40]" using v2 by (simp add: pm_view_def upt_rec)
  then obtain s3 where s3: "each (register_kip E) [0..<5] ?s2 = Some s3" "pm_view s3 = ([0, 1, 2, 3, 4], [5..<0x40], None, None)"
    using register_kips_succeed [where E = E and s = ?s2 and ns = "[0, 1, 2, 3, 4]" and ms = "[5..<0x40]" and ks = "[0..<5]"] v2 assms(1)
    by (auto simp: pm_view_def)
  have "\<exists>s4. pm_start E s1 = Some s4 \<and> pm_view s4 = pm_view s3"
    using s3(1) by (simp add: pm_start_def case_prod_beta Manager_RegisterKips_def Let_def assms giveAllFsArchiveAccessToKip_def
        pm_assertSuccess_def mapFirmlaunchParameters_def autolaunchSysmodules_def)
  then show ?thesis using s1 s3(2) pm_reachable.start [of E empty_pm] by (auto simp: pm_view_def)
qed

lemma pm_entries_witness:
  "\<exists>E s. pm_reachable E s \<and> pm_used s = [0, 1, 2, 3, 4] \<and> distinct (pm_used s @ pm_unused s)"
proof -
  let ?E = "demo_pm_env\<lparr>pv_R_FAILED := (\<lambda>res. False)\<rparr>"
  have "numKips ?E = 5" by (simp add: numKips_def demo_pm_env_def)
  then obtain s where s: "pm_reachable ?E s" "pm_used s = [0, 1, 2, 3, 4]"
    using start_succeeds [of ?E] by (auto simp: demo_pm_env_def)
  have "others_make_steps ?E" by (simp add: others_make_steps_def demo_pm_env_def)
  from pm_entries [OF s(1) this] s show ?thesis by blast
qed

text \<open>C21. The entries of processes are taken from and given back to the two intrusive lists: a new entry is
  the first free one and becomes the last in use, and there is none exactly if no entry is free;
  an entry that is deleted leaves the list of processes and goes behind the first free entry,
  and every other link stays consistent.\<close>

theorem process_pool:
  assumes "pool_rings h (pm_used s) (pm_unused s)"
  shows "(case ProcessList_New s of
      None \<Rightarrow> links_new h = None
    | Some (n, t) \<Rightarrow> (case links_new h of
          None \<Rightarrow> False
        | Some (nd, h') \<Rightarrow> nd = Elem n \<and> pool_rings h' (pm_used t) (pm_unused t))) \<and>
    (\<forall>n \<in> set (pm_used s).
      pool_rings (links_delete (Elem n) h) (pm_used (ProcessList_Delete n s)) (pm_unused (ProcessList_Delete n s)))"
proof (intro conjI ballI)
  show "(case ProcessList_New s of
      None \<Rightarrow> links_new h = None
    | Some (n, t) \<Rightarrow> (case links_new h of
          None \<Rightarrow> False
        | Some (nd, h') \<Rightarrow> nd = Elem n \<and> pool_rings h' (pm_used t) (pm_unused t)))"
  proof (cases "pm_unused s")
    case Nil
    then have "nd_next h (Head Free) = Head Free" using assms by (simp add: pool_rings_def ring_def)
    then show ?thesis using Nil by (simp add: ProcessList_New_def links_new_def IntrusiveList_TestEnd_def)
  next
    case (Cons n ns)
    then show ?thesis using pool_new [of h "pm_used s" n ns] assms by (auto simp: ProcessList_New_def)
  qed
next
  fix n assume "n \<in> set (pm_used s)"
  then obtain xs ys where u: "pm_used s = xs @ n # ys" "n \<notin> set xs" by (meson split_list_first)
  then have "pm_used (ProcessList_Delete n s) = xs @ ys" by (simp add: ProcessList_Delete_def remove1_append)
  then show "pool_rings (links_delete (Elem n) h) (pm_used (ProcessList_Delete n s)) (pm_unused (ProcessList_Delete n s))"
    using pool_delete [of h xs n ys "pm_unused s"] assms u(1) by (simp add: ProcessList_Delete_def)
qed

definition no_links :: node_links where
  "no_links = \<lparr>nd_prev = (\<lambda>x. x), nd_next = (\<lambda>x. x)\<rparr>"

lemma process_pool_witness:
  "(case links_new (links_init 2 no_links) of
      None \<Rightarrow> False
    | Some (nd, h') \<Rightarrow> nd = Elem 0 \<and> pool_rings h' [0] [1] \<and> pool_rings (links_delete (Elem 0) h') [] [1, 0])"
proof -
  let ?s = "empty_pm\<lparr>pm_unused := [0, 1]\<rparr>" and ?t = "empty_pm\<lparr>pm_used := [0], pm_unused := [1]\<rparr>"
  have i: "pool_rings (links_init 2 no_links) [] [0, 1]" using pool_init [of 2 no_links] by (simp add: upt_rec)
  obtain h' where h: "links_new (links_init 2 no_links) = Some (Elem 0, h')" "pool_rings h' [0] [1]"
    using process_pool [of "links_init 2 no_links" ?s] i
    by (auto simp: ProcessList_New_def empty_pm_def split: option.splits)
  have "pool_rings (links_delete (Elem 0) h') [] [1, 0]"
    using process_pool [of h' ?t] h(2) by (simp add: ProcessList_Delete_def empty_pm_def after_first_def)
  with h show ?thesis by simp
qed

section \<open>Extended headers\<close>

text \<open>The free headers as they are linked from the head; the last link leads to the header \<open>num\<close>,
  which lies behind the buffer.\<close>

fun header_path :: "header_heap \<Rightarrow> nat option \<Rightarrow> nat list \<Rightarrow> nat \<Rightarrow> bool" where
  "header_path h a [] e \<longleftrightarrow> a = Some e"
| "header_path h a (x # xs) e \<longleftrightarrow> a = Some x \<and> header_path h (hh_next h x) xs e"

definition free_headers :: "nat \<Rightarrow> header_heap \<Rightarrow> nat list \<Rightarrow> bool" where
  "free_headers num h fs \<longleftrightarrow> header_path h (g_headNode h) fs num \<and> distinct fs \<and> set fs \<subseteq> {..<num}"

fun allocate_headers :: "nat \<Rightarrow> header_heap \<Rightarrow> nat option list \<times> header_heap" where
  "allocate_headers 0 h = ([], h)"
| "allocate_headers (Suc k) h =
     (case ExHeaderInfoHeap_New h of (x, h) \<Rightarrow> case allocate_headers k h of (xs, h) \<Rightarrow> (x # xs, h))"

lemma header_path_cong:
  assumes "\<And>x. x \<in> set xs \<Longrightarrow> hh_next h' x = hh_next h x"
  shows "header_path h' a xs e = header_path h a xs e"
  using assms by (induction xs arbitrary: a) auto

lemma init_path:
  assumes "k \<le> num"
  shows "header_path (ExHeaderInfoHeap_Init num h) (Some k) [k..<num] num"
  using assms by (induction rule: inc_induct) (auto simp: upt_conv_Cons ExHeaderInfoHeap_Init_def)

lemma headers_init: "free_headers num (ExHeaderInfoHeap_Init num h) [0..<num]"
  using init_path [of 0 num h] by (auto simp: free_headers_def ExHeaderInfoHeap_Init_def)

lemma headers_new:
  assumes "free_headers num h (n # fs)"
  shows "\<exists>h'. ExHeaderInfoHeap_New h = (Some n, h') \<and> free_headers num h' fs"
proof -
  let ?h = "h\<lparr>g_headNode := hh_next h n, hh_next := (hh_next h)(n := None)\<rparr>"
  have p: "g_headNode h = Some n" "header_path h (hh_next h n) fs num" "n \<notin> set fs" "distinct fs" "set fs \<subseteq> {..<num}"
    using assms by (auto simp: free_headers_def)
  have "header_path ?h (hh_next h n) fs num = header_path h (hh_next h n) fs num"
    by (rule header_path_cong) (use p(3) in auto)
  then show ?thesis using p by (simp add: ExHeaderInfoHeap_New_def free_headers_def)
qed

lemma headers_delete:
  assumes "free_headers num h fs" and "n < num" and "n \<notin> set fs"
  shows "free_headers num (ExHeaderInfoHeap_Delete n h) (n # fs)"
proof -
  have "header_path (ExHeaderInfoHeap_Delete n h) (g_headNode h) fs num = header_path h (g_headNode h) fs num"
    by (rule header_path_cong) (use assms(3) in \<open>auto simp: ExHeaderInfoHeap_Delete_def\<close>)
  then show ?thesis using assms by (simp add: free_headers_def ExHeaderInfoHeap_Delete_def)
qed

lemma headers_exhausted:
  assumes "free_headers num h fs"
  shows "fst (allocate_headers (Suc (length fs)) h) = map Some (fs @ [num])"
  using assms
proof (induction fs arbitrary: h)
  case Nil
  then show ?case by (simp add: free_headers_def ExHeaderInfoHeap_New_def)
next
  case (Cons n fs)
  from headers_new [OF Cons.prems] Cons.IH show ?case by (auto simp: case_prod_beta simp del: allocate_headers.simps(2) simp: allocate_headers.simps(2) [of "Suc (length fs)"])
qed

text \<open>C22. The pool of extended headers is a stack. \<open>pm\<close> starts with all headers of the buffer free, a
  header that is given back is the next one to be used, and as long as a header is free the
  one that is used lies in the buffer. When none is left, the next one that is handed out lies
  behind the end of the buffer: the pool is never reported to be empty.\<close>

theorem header_pool:
  assumes "free_headers num h fs"
  shows "free_headers num (ExHeaderInfoHeap_Init num h0) [0..<num] \<and>
    (\<forall>n. n < num \<and> n \<notin> set fs \<longrightarrow>
       free_headers num (ExHeaderInfoHeap_Delete n h) (n # fs) \<and> fst (ExHeaderInfoHeap_New (ExHeaderInfoHeap_Delete n h)) = Some n) \<and>
    fst (allocate_headers (Suc (length fs)) h) = map Some (fs @ [num])"
  using headers_init headers_delete [OF assms] headers_exhausted [OF assms]
  by (simp add: ExHeaderInfoHeap_New_def ExHeaderInfoHeap_Delete_def)

definition no_headers :: header_heap where
  "no_headers = \<lparr>g_headNode = None, hh_next = (\<lambda>i. None)\<rparr>"

lemma header_pool_witness:
  "fst (allocate_headers 7 (ExHeaderInfoHeap_Init 6 no_headers)) = map Some [0, 1, 2, 3, 4, 5, 6] \<and>
   fst (ExHeaderInfoHeap_New (ExHeaderInfoHeap_Delete 2 (snd (allocate_headers 6 (ExHeaderInfoHeap_Init 6 no_headers))))) = Some 2"
proof -
  have e: "[0..<6] = [0, 1, 2, 3, 4, 5 :: nat]" by (simp add: upt_rec)
  have "free_headers 6 (snd (allocate_headers 6 (ExHeaderInfoHeap_Init 6 no_headers))) []"
    by code_simp
  from header_pool [OF this]
  have "fst (ExHeaderInfoHeap_New (ExHeaderInfoHeap_Delete 2 (snd (allocate_headers 6 (ExHeaderInfoHeap_Init 6 no_headers))))) = Some 2"
    by simp
  then show ?thesis using header_pool [OF headers_init [of 6 no_headers]] by (simp add: e eval_nat_numeral)
qed

section \<open>Users of dependencies\<close>

text \<open>C17. When a title is launched whose dependencies run, each of them, and no other process, gets one
  user more; when the title ends, each loses one again, no process is told to end and the state
  is the one before the launch. This holds if the list of dependencies has no duplicates and for each title in it
  there is one process that has been loaded as a dependency, runs, has a count of users from 1 to 254, and is the only
  process of that title (other processes, such as the modules of the kernel, may share a title id).\<close>

theorem dependency_users:
  assumes "\<And>t. t \<in> set (listDependencies E xh) \<Longrightarrow> runs_dependency s t (N t)"
    and "\<And>t. t \<in> set (listDependencies E xh) \<Longrightarrow> only_of_title s t (N t)"
    and "distinct (listDependencies E xh)" and "distinct (pm_used s)"
  shows "\<exists>ds s1. listMergeUniqueDependencies E [] xh s = Some (ds, s1) \<and>
    (\<forall>n. pm_procs s1 n = (if n \<in> N ` set (listDependencies E xh)
       then (pm_procs s n)\<lparr>pr_refcount := pr_refcount (pm_procs s n) + 1\<rparr> else pm_procs s n)) \<and>
    terminateUnusedDependencies E (listDependencies E xh) s1 = Some (0, s)"
proof -
  obtain ds where d: "listMergeUniqueDependencies E [] xh s = Some (ds, more_users (N ` set (listDependencies E xh)) s)"
    using merge_adds_users [OF assms(1,3,2)] by blast
  show ?thesis using d release_all_users [OF assms(1,2,4)] by (auto simp: more_users_def)
qed

text \<open>Two modules of the kernel, which have the same title id, and two modules that run as dependencies.\<close>

definition demo_dependencies :: pm_state where
  "demo_dependencies = empty_pm\<lparr>pm_used := [0, 1, 2, 3], pm_unused := [],
     pm_procs := (\<lambda>n. if n < 2 then zero_entry\<lparr>pr_titleId := 0x0004000100001000, pr_flags := PROCESSFLAG_KIP, pr_refcount := 1\<rparr>
       else zero_entry\<lparr>pr_titleId := (if n = 2 then 0x0004013000001502 else 0x0004013000001602),
       pr_flags := PROCESSFLAG_AUTOLOADED, pr_refcount := 1\<rparr>)\<rparr>"

lemma dependency_users_witness:
  "\<exists>ds s1. listMergeUniqueDependencies demo_pm_env [] (demo_exheader 1 [0x0004013000001602]) demo_dependencies = Some (ds, s1) \<and>
     pr_refcount (pm_procs s1 3) = 2 \<and> pr_refcount (pm_procs s1 2) = 1 \<and> pr_refcount (pm_procs s1 0) = 1 \<and>
     terminateUnusedDependencies demo_pm_env [0x0004013000001602] s1 = Some (0, demo_dependencies)"
proof -
  let ?xh = "demo_exheader 1 [0x0004013000001602]"
  have l: "listDependencies demo_pm_env ?xh = [0x0004013000001602]"
    by (simp add: listDependencies_def demo_exheader_def IS_N3DS_def demo_pm_env_def)
  have d: "t \<in> set (listDependencies demo_pm_env ?xh) \<Longrightarrow> runs_dependency demo_dependencies t 3" for t
    by (simp add: l runs_dependency_def demo_dependencies_def has_flag_def zero_entry_def)
  have o: "t \<in> set (listDependencies demo_pm_env ?xh) \<Longrightarrow> only_of_title demo_dependencies t 3" for t
    by (simp add: l only_of_title_def demo_dependencies_def same_title_def)
  have "distinct (pm_used demo_dependencies)" by (simp add: demo_dependencies_def)
  then obtain ds s1 where r: "listMergeUniqueDependencies demo_pm_env [] ?xh demo_dependencies = Some (ds, s1)"
      "\<forall>n. pm_procs s1 n = (if n \<in> (\<lambda>t. 3) ` set (listDependencies demo_pm_env ?xh)
         then (pm_procs demo_dependencies n)\<lparr>pr_refcount := pr_refcount (pm_procs demo_dependencies n) + 1\<rparr>
         else pm_procs demo_dependencies n)"
      "terminateUnusedDependencies demo_pm_env (listDependencies demo_pm_env ?xh) s1 = Some (0, demo_dependencies)"
    using dependency_users [where E = demo_pm_env and xh = ?xh and s = demo_dependencies and N = "\<lambda>t. 3"] d o l by auto
  have "pr_refcount (pm_procs s1 3) = 2" "pr_refcount (pm_procs s1 2) = 1" "pr_refcount (pm_procs s1 0) = 1"
    using r(2) by (simp_all add: l demo_dependencies_def zero_entry_def)
  then show ?thesis using r(1,3) by (simp only: l) blast
qed

section \<open>A reboot\<close>

definition told_to_end :: "u64 list \<Rightarrow> nat option \<Rightarrow> pm_state \<Rightarrow> nat \<Rightarrow> bool" where
  "told_to_end deps caller s n \<longleftrightarrow>
     (let p = pm_procs s n in
      \<not> has_flag PROCESSFLAG_KIP p \<and> \<not> (caller = Some n \<and> has_flag PROCESSFLAG_AUTOLOADED p) \<and> pr_titleId p \<notin> set deps)"

definition end_notification :: "pm_state \<Rightarrow> nat \<Rightarrow> pm_call" where
  "end_notification s n = PublishToProcess 0x100 (pr_handle (pm_procs s n))"

text \<open>What does not change while processes are told to end: whom they are, and whether they count.\<close>

definition same_processes :: "pm_state \<Rightarrow> pm_state \<Rightarrow> bool" where
  "same_processes s t \<longleftrightarrow> pm_used t = pm_used s \<and> (\<forall>n. pr_handle (pm_procs t n) = pr_handle (pm_procs s n) \<and>
     pr_titleId (pm_procs t n) = pr_titleId (pm_procs s n) \<and>
     has_flag PROCESSFLAG_KIP (pm_procs t n) = has_flag PROCESSFLAG_KIP (pm_procs s n) \<and>
     has_flag PROCESSFLAG_AUTOLOADED (pm_procs t n) = has_flag PROCESSFLAG_AUTOLOADED (pm_procs s n))"

lemma same_told:
  assumes "same_processes s t"
  shows "told_to_end deps c t = told_to_end deps c s" and "end_notification t = end_notification s"
  using assms by (auto simp: same_processes_def told_to_end_def end_notification_def Let_def fun_eq_iff)

lemma same_trans: "\<lbrakk>same_processes s t; same_processes t u\<rbrakk> \<Longrightarrow> same_processes s u"
  by (simp add: same_processes_def)

lemma send_notification:
  assumes "ProcessData_SendTerminationNotification E n s = Some (r, s')"
  shows "same_processes s s'" and "pm_calls s' = pm_calls s @ [end_notification s n]"
    and "runningApplicationData s' = runningApplicationData s"
  using assms by (auto simp: ProcessData_SendTerminationNotification_def ProcessData_Notify_def svc_def bind_eq_Some_conv Let_def
      upd_proc_def same_processes_def has_flag_def end_notification_def split: if_splits)

lemma incref_same:
  assumes "ProcessData_Incref n a s = Some s'"
  shows "same_processes s s'" and "pm_calls s' = pm_calls s"
  using assms by (auto simp: ProcessData_Incref_def Let_def upd_proc_def same_processes_def has_flag_def split: if_splits)

lemma announce_one:
  assumes "announce_end E deps c n s = Some s'"
  shows "same_processes s s'" and "pm_calls s' = pm_calls s @ (if told_to_end deps c s n then [end_notification s n] else [])"
proof -
  have "same_processes s s" by (simp add: same_processes_def)
  then show "same_processes s s'" "pm_calls s' = pm_calls s @ (if told_to_end deps c s n then [end_notification s n] else [])"
    using assms by (auto simp: announce_end_def Let_def bind_eq_Some_conv told_to_end_def incref_same send_notification split: if_splits)
qed

lemma announce_list:
  assumes "each (announce_end E deps c) ns s = Some s'"
  shows "same_processes s s' \<and> pm_calls s' = pm_calls s @ map (end_notification s) (filter (told_to_end deps c s) ns)"
  using assms
proof (induction ns arbitrary: s)
  case Nil
  then show ?case by (simp add: same_processes_def)
next
  case (Cons n ns)
  then obtain t where t: "announce_end E deps c n s = Some t" "each (announce_end E deps c) ns t = Some s'"
    by (auto split: option.splits)
  show ?case using Cons.IH [OF t(2)] announce_one [OF t(1)] same_told(1) [OF announce_one(1) [OF t(1)], of deps c]
      same_told(2) [OF announce_one(1) [OF t(1)]]
    by (auto intro: same_trans)
qed

text \<open>C26. Before a reboot, the application is told to end first; then each process in the order of the list is told
  to end except the modules of the kernel, the titles the caller depends on, and the caller
  itself if it has been loaded as a dependency. A caller that is no dependency is told to end
  as the others are, against the comment in the code.\<close>

theorem reboot_announcement:
  assumes "announce_all E deps caller s = Some s'"
  shows "pm_calls s' = pm_calls s @ (if numKips E \<ge> 6 then [PublishToSubscriber 0x2000] else []) @
    (case runningApplicationData s of Some n \<Rightarrow> [end_notification s n] | None \<Rightarrow> []) @
    map (end_notification s) (filter (told_to_end deps caller s) (pm_used s))"
proof -
  obtain a where a: "(if numKips E \<ge> 6 then do { (r, s) \<leftarrow> notifySubscribers E 0x2000 (ProcessList_Lock s); Some s }
      else Some (ProcessList_Lock s)) = Some a"
    and r: "(do {
      s \<leftarrow> (case runningApplicationData a of
             Some n \<Rightarrow> do {
               (r, s) \<leftarrow> ProcessData_SendTerminationNotification E n (upd_proc n (clear_flag PROCESSFLAG_DEPENDENCIES_LOADED) a);
               Some s
             }
           | None \<Rightarrow> Some a);
      s \<leftarrow> each (announce_end E deps caller) (pm_used s) s;
      Some (ProcessList_Unlock s) }) = Some s'"
    using assms by (auto simp: announce_all_def Let_def bind_eq_Some_conv)
  have a': "same_processes s a" "runningApplicationData a = runningApplicationData s"
      "pm_calls a = pm_calls s @ (if numKips E \<ge> 6 then [PublishToSubscriber 0x2000] else [])"
    using a by (auto simp: same_processes_def notifySubscribers_def ProcessList_Lock_def svc_def bind_eq_Some_conv Let_def split: if_splits)
  obtain b where b: "same_processes a b"
      "pm_calls b = pm_calls a @ (case runningApplicationData a of Some n \<Rightarrow> [end_notification a n] | None \<Rightarrow> [])"
      "each (announce_end E deps caller) (pm_used b) b = Some (ProcessList_Lock s')"
  proof (cases "runningApplicationData a")
    case None
    then show thesis using r by (intro that [of a]) (auto simp: same_processes_def bind_eq_Some_conv ProcessList_Lock_def ProcessList_Unlock_def)
  next
    case (Some n)
    let ?a = "upd_proc n (clear_flag PROCESSFLAG_DEPENDENCIES_LOADED) a"
    obtain x b where b: "ProcessData_SendTerminationNotification E n ?a = Some (x, b)"
        "each (announce_end E deps caller) (pm_used b) b = Some (ProcessList_Lock s')"
      using r Some by (auto simp: bind_eq_Some_conv ProcessList_Lock_def ProcessList_Unlock_def)
    have c: "(w AND - 5) AND 2 = w AND 2" "(w AND - 5) AND 8 = w AND 8" for w :: u8
      by (simp_all add: and.assoc)
    have s: "same_processes a ?a" by (simp add: same_processes_def upd_proc_def clear_flag_def has_flag_def c)
    show thesis using b(2) same_trans [OF s send_notification(1) [OF b(1)]] send_notification(2) [OF b(1)] same_told(2) [OF s] Some
      by (intro that [of b]) (simp_all add: upd_proc_def)
  qed
  have l: "pm_calls (ProcessList_Lock s') = pm_calls s'" by (simp add: ProcessList_Lock_def)
  show ?thesis
    using announce_list [OF b(3)] b(1,2) a' same_told(1) [OF same_trans [OF a'(1) b(1)], of deps caller]
      same_told(2) [OF same_trans [OF a'(1) b(1)]] same_told(2) [OF a'(1)]
    by (simp add: l same_processes_def split: option.splits)
qed

definition demo_reboot :: pm_state where
  "demo_reboot = empty_pm\<lparr>pm_used := [0, 1, 2],
     pm_procs := (\<lambda>n. if n = 0 then zero_entry\<lparr>pr_handle := 10, pr_flags := PROCESSFLAG_KIP\<rparr>
       else if n = 1 then zero_entry\<lparr>pr_handle := 11, pr_titleId := 0x0004003000008002\<rparr>
       else zero_entry\<lparr>pr_handle := 12, pr_titleId := 0x0004013000001502, pr_flags := PROCESSFLAG_AUTOLOADED, pr_refcount := 1\<rparr>)\<rparr>"

text \<open>The caller has entry 1 and depends on the title of entry 2.\<close>

lemma reboot_announcement_witness:
  "\<exists>s'. announce_all demo_pm_env [0x0004013000001502] (Some 1) demo_reboot = Some s' \<and> pm_calls s' = [PublishToProcess 0x100 11]"
proof -
  have "announce_all demo_pm_env [0x0004013000001502] (Some 1) demo_reboot \<noteq> None"
    by code_simp
  then obtain s' where s: "announce_all demo_pm_env [0x0004013000001502] (Some 1) demo_reboot = Some s'" by auto
  have "pm_calls s' = [PublishToProcess 0x100 11]"
    by (subst reboot_announcement [OF s])
      (simp add: demo_reboot_def empty_pm_def demo_pm_env_def numKips_def told_to_end_def end_notification_def has_flag_def zero_entry_def)
  with s show ?thesis by blast
qed

section \<open>A launch that fails\<close>

text \<open>Entries and lock, of a state.\<close>

definition entries_lock :: "pm_state \<Rightarrow> nat list \<times> int" where
  "entries_lock s = (pm_used s, pm_lock s)"

lemma entries_lock_calls [simp]:
  "entries_lock (snd (svc E c s)) = entries_lock s"
  "entries_lock (snd (snd (svc_out E c s))) = entries_lock s"
  "entries_lock (delete_header x s) = entries_lock s"
  "entries_lock (snd (setAppMemLimit E l s)) = entries_lock s"
  "entries_lock (set_app_memory E fl xh s) = entries_lock s"
  "entries_lock (close_debug E d h s) = entries_lock s"
  "entries_lock (snd (snd (registerProgram E pi piu s))) = entries_lock s"
  "entries_lock (snd (snd (getProgramInfo E ph s))) = entries_lock s"
  by (simp_all add: entries_lock_def svc_def svc_out_def delete_header_def setAppMemLimit_def set_app_memory_def Let_def
      close_debug_def registerProgram_def getProgramInfo_def)

lemma open_lock:
  assumes "open_title E pi piu s = (res, h, xh, t)"
  shows "entries_lock t = entries_lock s"
proof -
  obtain r g u where u: "registerProgram E pi piu s = (r, g, u)" by (metis prod.exhaust)
  obtain q y v where v: "getProgramInfo E g u = (q, y, v)" by (metis prod.exhaust)
  have "entries_lock u = entries_lock s" "entries_lock v = entries_lock u"
    using entries_lock_calls(7) [of E pi piu s] entries_lock_calls(8) [of E g u] u v by simp_all
  then show ?thesis using assms by (auto simp: open_title_def u v Let_def split: if_splits)
qed

lemma loading_fails:
  assumes "pv_R_FAILED E (pv_result E (pm_calls s) (LoaderLoadProcess h))" and "\<not> bit (pi_programId pi) 35"
  obtains t where "loadWithoutDependencies E d h pi fl xh s = Some (pv_result E (pm_calls s) (LoaderLoadProcess h), 0, None, t)"
    and "entries_lock t = entries_lock s"
  by (rule that [of "snd (snd (svc_out E (LoaderLoadProcess h) s))"])
    (simp_all only: entries_lock_calls, simp add: loadWithoutDependencies_def assms svc_out_def)

lemma running_fails:
  assumes "pv_R_FAILED E (pv_result E (pm_calls (set_app_memory E fl xh s)) (LoaderLoadProcess h))" and "\<not> bit (pi_programId pi) 35"
  obtains t where "run_title E (loadWithDependencies E) d h pi fl xh s =
      Some (pv_result E (pm_calls (set_app_memory E fl xh s)) (LoaderLoadProcess h), 0, None, ProcessList_Unlock t)"
    and "entries_lock t = entries_lock s"
proof -
  let ?r = "pv_result E (pm_calls (set_app_memory E fl xh s)) (LoaderLoadProcess h)"
  obtain t where t: "loadWithoutDependencies E d h pi fl xh (set_app_memory E fl xh s) = Some (?r, 0, None, t)"
      "entries_lock t = entries_lock (set_app_memory E fl xh s)"
    by (rule loading_fails [OF assms])
  have "loadWithDependencies E d h pi fl xh (set_app_memory E fl xh s) = Some (?r, 0, None, close_debug E d 0 t)"
    using t(1) assms(1) by (simp add: loadWithDependencies_def Let_def)
  then have "run_title E (loadWithDependencies E) d h pi fl xh s = Some (?r, 0, None, ProcessList_Unlock
      (if launch_flag_set E PMLAUNCHFLAG_LOAD_DEPENDENCIES fl then close_debug E d 0 t else t))"
    using t(1) assms(1) by (simp add: run_title_def Let_def launch_cleanup_def)
  then show thesis by (rule that) (use t(2) in simp_all)
qed

text \<open>C25. If the loader cannot load the process of a title, the launch of the title has the failure of the
  load as its result and makes no entry, but the lock of the list of processes is released once more than it
  has been taken: the code jumps to the cleanup past the place where it takes the lock. This holds on every
  kernel, with or without a running application, for a launch that gets as far as the load: the title
  is not prevented from being launched, no application is launched beside a running one, a header is free, the
  title is registered and its header is read with an accepted core version, and the title is no DSi title.\<close>

theorem failed_load_unlocks:
  fixes E pi piu fl s x t u h r xh
  defines "fl' \<equiv> adjust_launch_flags E fl"
  defines "failure \<equiv> pv_result E (pm_calls (set_app_memory E fl' xh u)) (LoaderLoadProcess h)"
  assumes "\<not> isTitleLaunchPrevented E (pi_programId pi)"
    and "\<not> (runningApplicationData s \<noteq> None \<and> launch_flag_set E PMLAUNCHFLAG_NORMAL_APPLICATION fl)"
    and "new_header s = Some (x, t)"
    and "open_title E pi (if launch_flag_set E PMLAUNCHFLAG_USE_UPDATE_TITLE fl' then piu else pi) t = (r, h, Some xh, u)"
    and "\<not> bit (pi_programId pi) 35"
    and "pv_R_FAILED E failure"
  shows "\<exists>s'. launchTitleImplWrapper E d pi piu fl s = Some (failure, 0, None, s') \<and>
    pm_used s' = pm_used s \<and> pm_lock s' = pm_lock s - 1"
proof -
  have lu: "ProcessList_Unlock (ProcessList_Lock s) = s" by (simp add: ProcessList_Lock_def ProcessList_Unlock_def)
  have t: "entries_lock t = entries_lock s"
    using assms(5) by (auto simp: new_header_def entries_lock_def split: prod.splits option.splits)
  obtain v where v: "run_title E (loadWithDependencies E) d h pi fl' xh u = Some (failure, 0, None, ProcessList_Unlock v)"
      "entries_lock v = entries_lock u"
    unfolding failure_def by (rule running_fails [OF assms(8) [unfolded failure_def] assms(7)])
  have "launchTitleImpl E d pi (Some piu) fl t = Some (failure, 0, None, Some xh, ProcessList_Unlock v)"
    using assms(3,6) v(1) by (auto simp: launchTitleImpl_def launch_title_with_def Let_def fl'_def split: if_splits)
  moreover have "runningApplicationData (ProcessList_Lock s) = runningApplicationData s" by (simp add: ProcessList_Lock_def)
  ultimately have "launchTitleImplWrapper E d pi piu fl s = Some (failure, 0, None, delete_header x (ProcessList_Unlock v))"
    using assms(4,5) by (auto simp: launchTitleImplWrapper_def Let_def lu)
  moreover have "pm_used (delete_header x (ProcessList_Unlock v)) = pm_used s \<and> pm_lock (delete_header x (ProcessList_Unlock v)) = pm_lock s - 1"
    using t open_lock [OF assms(6)] v(2) by (simp add: entries_lock_def delete_header_def ProcessList_Unlock_def)
  ultimately show ?thesis by blast
qed

text \<open>The normal kernel, version 2, with an application running: a module of that version that cannot be loaded.\<close>

definition failing_env :: pm_env where
  "failing_env = demo_pm_env\<lparr>pv_result := (\<lambda>cs c. case c of LoaderLoadProcess h \<Rightarrow> 0xC8804478 | _ \<Rightarrow> 0)\<rparr>"

definition running_pm :: pm_state where
  "running_pm = empty_pm\<lparr>pm_used := [0], runningApplicationData := Some 0\<rparr>"

lemma failed_load_unlocks_witness:
  "kernel_syscore_ver failing_env = 2 \<and>
   (\<exists>s'. launchTitleImplWrapper failing_env False \<lparr>pi_programId = 0x0004013000001602, pi_mediaType = 0\<rparr>
      \<lparr>pi_programId = 0x0004013000001602, pi_mediaType = 0\<rparr> 2 running_pm = Some (0xC8804478, 0, None, s') \<and> pm_lock s' = -1)"
proof -
  let ?pi = "\<lparr>pi_programId = 0x0004013000001602, pi_mediaType = 0\<rparr> :: FS_ProgramInfo"
  obtain x t where t: "new_header running_pm = Some (x, t)"
    by (simp add: new_header_def ExHeaderInfoHeap_New_def running_pm_def empty_pm_def ExHeaderInfoHeap_Init_def)
  have f: "pv_result failing_env cs (LoaderLoadProcess g) = 0xC8804478" "pv_R_FAILED failing_env 0xC8804478"
      "kernel_syscore_ver failing_env = 2" "\<not> pv_R_FAILED failing_env 0" for cs g
    by (simp_all add: failing_env_def demo_pm_env_def)
  have k: "pv_result failing_env cs (LoaderRegisterProgram a1 a2 a3 a4) = 0" "pv_result failing_env cs (LoaderGetProgramInfo g) = 0"
      "ci_core_version (xe_core_info (pv_exheader failing_env cs g)) = 2" for cs a1 a2 a3 a4 g
    by (simp_all add: failing_env_def demo_pm_env_def demo_exheader_def demo_core_def)
  have n3: "\<not> IS_N3DS failing_env" by (simp add: IS_N3DS_def failing_env_def demo_pm_env_def)
  obtain r h xh u where o: "open_title failing_env ?pi ?pi t = (r, h, Some xh, u)"
    by (simp add: n3 open_title_def registerProgram_def getProgramInfo_def svc_def svc_out_def f k Let_def)
  have p: "\<not> isTitleLaunchPrevented failing_env (pi_programId ?pi)"
    by (simp add: isTitleLaunchPrevented_def numKips_def failing_env_def demo_pm_env_def)
  have n: "\<not> (runningApplicationData running_pm \<noteq> None \<and> launch_flag_set failing_env PMLAUNCHFLAG_NORMAL_APPLICATION 2)"
    by (simp add: launch_flag_set_def failing_env_def demo_pm_env_def)
  have b: "\<not> bit (pi_programId ?pi) 35" by code_simp
  have o': "open_title failing_env ?pi (if c then ?pi else ?pi) t = (r, h, Some xh, u)" for c by (simp add: o)
  obtain s' where "launchTitleImplWrapper failing_env False ?pi ?pi 2 running_pm = Some (0xC8804478, 0, None, s')"
      "pm_lock s' = pm_lock running_pm - 1"
    using failed_load_unlocks [OF p n t o' b, of False] by (auto simp: f)
  then show ?thesis by (simp add: f running_pm_def empty_pm_def)
qed

end
