(* ===== verification/Spec2Isabelle.thy ===== *)
theory Spec2Isabelle
  imports Gdb_Theorems Sm_Theorems Cheat_Apply Util_Memory Ldr_Theorems Ldr_Titles Ldr_Paslr Ldr_Lzss Svc_Manager
    Pm_Theorems
begin

text \<open>
  Omiiba3DS, a custom firmware of the Nintendo 3DS: the system modules that replace the original
  ones (sm, pm, loader, rosalina), the extension of the kernel, and the boot code of the arm9. This
  is a verification of the parts that carry the logic of the program; each theory below translates
  the functions of the files it names, in the order they have there and under their names.

  \<^bold>\<open>How the parts interact.\<close> Every system module is a loop that waits for its event and session
  handles and dispatches commands (\<open>Svc_Manager\<close>; sm has a loop of its own, \<open>Sm_Main\<close>). sm gives
  processes sessions of services by name; pm starts, watches and ends processes, registers their
  services in sm, takes their extended headers from loader and sets their resource limits; loader
  places a title in memory, replaces and patches its code, and tells the kernel extension which
  region a title is to see; the kernel extension keeps a table of the sessions of services, which
  its hooks on requests consult; rosalina runs the cheats of the running title on its memory and
  serves the debugger.

  \<^bold>\<open>Shared.\<close>
  \<^item> \<open>Omiiba_Prelude\<close>: C integer types as words, the bytes of a word, fact collections, generic
    lemmas on lists and maps.
  \<^item> \<open>Util_Memory\<close> (\<open>arm9/source/memory.c\<close>): \<open>memsearch\<close>, equivalent to the naive search.
    \<open>Util_File\<close> (\<open>ifile.c\<close>): the file wrapper. \<open>Util_Strings\<close> (\<open>strings.c\<close>, \<open>util.h\<close>, parts of
    \<open>patcher.c\<close>): numbers, digits, and the names of files.
  \<^item> \<open>Svc_Manager\<close> (\<open>service_manager.c\<close> of loader, pm and rosalina): the loop of a system module, with
    the arrays of its handles; its property is a refinement to a map from sessions to handlers.

  \<^bold>\<open>sm\<close> (\<open>sysmodules/sm/source\<close>).
  \<^item> \<open>Sm_List\<close> (\<open>list.c\<close>): the doubly linked lists on a store of pointers, and their refinement to
    lists of node numbers, which the other theories use.
  \<^item> \<open>Sm_State\<close> (\<open>common.h\<close>, \<open>processes.h\<close>, \<open>services.h\<close>), \<open>Sm_Services\<close>, \<open>Sm_Processes\<close>,
    \<open>Sm_Notifications\<close>, \<open>Sm_Srv\<close> (\<open>srv.c\<close>, \<open>srv_pm.c\<close>), \<open>Sm_Main\<close> (\<open>main.c\<close>): every function; the
    state is the record \<open>sm_state\<close>, whose fields are the globals, the pools and the kernel objects.
  \<^item> \<open>Sm_Invariant\<close>: the invariant of the loop, operation by operation. \<open>Sm_Theorems\<close>: the registry,
    waiting sessions, notifications. \<open>Sm_Example\<close>: a kernel the hypotheses hold for.

  \<^bold>\<open>pm\<close> (\<open>sysmodules/pm/source\<close>).
  \<^item> \<open>Pm_List\<close> (\<open>intrusive_list.h\<close>): the circular lists on a store of pointers, and the relation of a
    store and a list of node numbers. \<open>Pm_State\<close> (\<open>process_data\<close>, \<open>exheader_info_heap\<close>, \<open>manager.h\<close>):
    the record \<open>pm_state\<close> and the pools. \<open>Pm_Info\<close> (\<open>info.c\<close>), \<open>Pm_Reslimit\<close> (\<open>reslimit.c\<close>),
    \<open>Pm_Terminate\<close> (\<open>termination.c\<close>, \<open>process_monitor.c\<close>, \<open>manager.c\<close>), \<open>Pm_Launch\<close> (\<open>launch.c\<close>),
    \<open>Pm_Main\<close> (\<open>pmapp.c\<close>, \<open>pmdbg.c\<close>, \<open>firmlaunch.c\<close>, \<open>task_runner.c\<close>, \<open>main.c\<close>).
  \<^item> \<open>Pm_Steps\<close>: the step relation \<open>pm_step\<close> of the module, whose threads interleave by commands,
    tasks and rounds of the monitor. What the other threads do while one waits is a parameter that
    is only assumed to preserve the assertion (it is stable under them).
  \<^item> \<open>Pm_Invariant\<close>, \<open>Pm_Counts\<close>, \<open>Pm_Theorems\<close>: the partition of the entries, the counts of the
    users of dependencies, the pools, failed launches, the announcement of a reboot.

  \<^bold>\<open>loader\<close> (\<open>sysmodules/loader/source\<close>).
  \<^item> \<open>Ldr_Patcher\<close>, \<open>Ldr_LayeredFs\<close>, \<open>Ldr_PatchCode\<close>, \<open>Ldr_Titles\<close> (\<open>patcher.c\<close>), \<open>Ldr_Paslr\<close>
    (\<open>paslr.c\<close>), \<open>Ldr_Lzss\<close> (\<open>loader.c\<close>, the decompression), \<open>Ldr_Theorems\<close>.

  \<^bold>\<open>Kernel extension\<close> (\<open>k11_extension/source\<close>).
  \<^item> \<open>K11_Ipc\<close> and \<open>K11_Table\<close> (\<open>ipc.c\<close>: the session table, as a locale of a finite map that the sorted
    array interprets), \<open>K11_Hooks\<close> and \<open>K11_Requests\<close> (\<open>svc/SendSyncRequest.c\<close>, \<open>ConnectToPort.c\<close>,
    \<open>ControlService.c\<close>, \<open>KernelSetState.c\<close>, part of \<open>globals.c\<close>).

  \<^bold>\<open>rosalina\<close> (\<open>sysmodules/rosalina/source\<close>).
  \<^item> \<open>Cheat_State\<close>, \<open>Cheat_Ops\<close>, \<open>Cheat_Exec\<close> (\<open>menus/cheats.c\<close>: the interpreter, one definition per case
    of its switch), \<open>Cheat_Flow\<close> (termination), \<open>Cheat_Safety\<close> (what a run may change),
    \<open>Cheat_Theorems\<close>, \<open>Cheat_File\<close> and \<open>Cheat_File_Theorems\<close> (loading), \<open>Cheat_Apply\<close> (running).
    What a run may change is stated for every line it visits (\<open>run_visits\<close>), so it covers runs that never end.
  \<^item> The server of the debugger (\<open>gdb.c\<close>, \<open>gdb/\<close>): \<open>Gdb_Text\<close> and \<open>Gdb_State\<close> (\<open>gdb/net.c\<close>, \<open>gdb.h\<close>: numbers, escapes,
    packets, and the record \<open>gdb_st\<close> of a connection with the world behind it), \<open>Gdb_Points\<close> (\<open>breakpoints.c\<close>,
    \<open>watchpoints.c\<close>, \<open>stop_point.c\<close>) on \<open>Util_Sorted\<close>, \<open>Gdb_Mem\<close> (\<open>mem.c\<close>), \<open>Gdb_Threads\<close> (\<open>thread.c\<close>, \<open>regs.c\<close>),
    \<open>Gdb_Process\<close> (\<open>gdb.c\<close>, \<open>hio.c\<close>, events), \<open>Gdb_Debug\<close> (\<open>debug.c\<close>), \<open>Gdb_Query\<close> (\<open>query.c\<close>, \<open>xfer.c\<close>, \<open>remote_command.c\<close>),
    \<open>Gdb_Tio\<close> (\<open>tio.c\<close>), \<open>Gdb_Server\<close> (\<open>server.c\<close>, \<open>verbose.c\<close>, \<open>monitor.c\<close>, two menus).
  \<^item> \<open>Gdb_Packets\<close>, \<open>Gdb_Breaks\<close>, \<open>Gdb_Tables\<close>, \<open>Gdb_Theorems\<close>: packets and escaped data arrive as sent, documents are
    delivered whole, the array of breakpoints stays in order and a breakpoint leaves no trace, the table of
    threads is the list the events describe, and no two allocated contexts have one port.

  \<^bold>\<open>Conventions.\<close> A C integer is a word of its width, so that arithmetic wraps as in the code; where a
  value cannot reach the width (an index of an array the code bounds) it is a natural number. Errors
  are the result words of the code. A pointer into a pool is the number of its node, NULL is \<open>None\<close>.
  The kernel, the other modules, the tick counter and the SD card are parameters: records of
  functions, about which a property states what it assumes as a hypothesis, with a witness that
  evaluates it for concrete ones. A read of an uninitialised variable is a parameter as well.

  \<^bold>\<open>Loops and fuel.\<close> Loops over arrays are recursions with a measure. The event loops, the wait for the
  end of an application and the loops of the debugger that may run for ever are
  \<open>partial_function (option)\<close> or step relations. The cheat interpreter and the loader of cheats have fuel, one unit
  for a line: \<open>Cheat_Flow\<close> proves that some fuel is enough for every cheat of at most 127 lines, \<open>Cheat_Theorems\<close> gives
  one for which none is, and for the loader as many units as the file has bytes, and one, are enough. The copies of \<open>lzss\<close> and
  the searches go down on the remaining length, so no fuel is needed there.

  \<^bold>\<open>Concurrency.\<close> Operations under a lock are single steps; the lock of the process list is a counter
  in the state, so that unlocking too often is visible. The locks of the session table are left out.
  Requests of one connection of the debugger run one after the other; the threads beside them are a parameter.

  \<^bold>\<open>Not modelled.\<close>
  \<^item> Hardware and assembly: registers of the display, the interrupt controller, the cryptographic
    engine, the I2C bus, the exception handlers, start-up code, the payloads the patches insert.
  \<^item> Third-party code that is vendored: the FAT file system, the ini parser, the number formatting.
  \<^item> The boot decisions and firmware patches of the arm9, the memory management of the kernel extension and its other
    system calls, pxi, the 3dsx loader, the plugin loader, the updater tool: thin layers over hardware or the closed
    kernel, or later work.
  \<^item> Drawing and key handling of the menus and of the configuration screens.
  \<^item> The sockets (\<open>minisoc.c\<close>, \<open>sock_util.c\<close>) and what only forwards bytes between them and files.
\<close>

end
